(* ===== verification/Prelude.thy ===== *)
theory Prelude
  imports Main "HOL-Library.Word"
begin

text \<open>
  Shared vocabulary of the development: the machine integer types of the C++ code, the
  little-endian byte image of a word (the code reinterprets buffers on a little-endian
  target), block-wise processing of a buffer, and the generic list and map lemmas the
  component theories use.
\<close>

unbundle bit_operations_syntax

section \<open>Machine integers\<close>

type_synonym u8 = "8 word"
type_synonym u16 = "16 word"
type_synonym u32 = "32 word"
type_synonym u64 = "64 word"
type_synonym bytes = "u8 list"

named_theorems word_defs \<open>definitions of bit-twiddling helpers\<close>
named_theorems len_simps \<open>lengths of buffers and tables\<close>
named_theorems inv_intros \<open>preservation of component invariants\<close>

text \<open>
  \<open>std::rotl\<close> and \<open>std::rotr\<close> take the value and a signed count, reduce the count modulo
  the width and rotate the other way for a negative count. The library's \<open>word_roti\<close>
  rotates right by an integer count in the same sense.
\<close>

definition std_rotr :: "'a::len word \<Rightarrow> int \<Rightarrow> 'a word" where
  "std_rotr x s = word_roti s x"

definition std_rotl :: "'a::len word \<Rightarrow> int \<Rightarrow> 'a word" where
  "std_rotl x s = word_roti (- s) x"

lemma std_rotr_rotl [simp]: "std_rotr (std_rotl x s) s = x"
  by (simp add: std_rotr_def std_rotl_def word_roti_add [symmetric] del: word_roti_eq_word_rotr_word_rotl)

lemma std_rotl_rotr [simp]: "std_rotl (std_rotr x s) s = x"
  by (simp add: std_rotr_def std_rotl_def word_roti_add [symmetric] del: word_roti_eq_word_rotr_word_rotl)

lemma bit_times_two:
  fixes x :: "'a::len word"
  shows "bit (x * 2) n \<longleftrightarrow> n < LENGTH('a) \<and> n \<noteq> 0 \<and> bit x (n - 1)"
proof -
  have "x * 2 = push_bit 1 x" by simp
  then show ?thesis by (simp only: bit_simps) (auto simp: bit_simps)
qed

section \<open>Little-endian byte images\<close>

primrec le_word :: "bytes \<Rightarrow> 'a::len word" where
  "le_word [] = 0"
| "le_word (b # bs) = ucast b OR push_bit 8 (le_word bs)"

primrec le_bytes :: "nat \<Rightarrow> 'a::len word \<Rightarrow> bytes" where
  "le_bytes 0 w = []"
| "le_bytes (Suc n) w = ucast w # le_bytes n (drop_bit 8 w)"

lemma length_le_bytes [simp]: "length (le_bytes n w) = n"
  by (induction n arbitrary: w) auto

lemma bit_le_word:
  "bit (le_word bs :: 'a::len word) i \<longleftrightarrow>
     i < LENGTH('a) \<and> i < 8 * length bs \<and> bit (bs ! (i div 8)) (i mod 8)"
proof (induction bs arbitrary: i)
  case Nil
  then show ?case by simp
next
  case (Cons b bs)
  show ?case
  proof (cases "i < 8")
    case True
    then show ?thesis by (auto simp: bit_simps)
  next
    case False
    then obtain j where "i = 8 + j" by (metis add.commute le_Suc_ex not_less)
    moreover have "\<not> bit b (8 + j)" by (simp add: bit_word.rep_eq)
    ultimately show ?thesis using Cons.IH [of j]
      by (auto simp: bit_simps div_add_self1)
  qed
qed

lemma nth_le_bytes: "i < n \<Longrightarrow> le_bytes n w ! i = ucast (drop_bit (8 * i) w)"
proof (induction n arbitrary: w i)
  case 0
  then show ?case by simp
next
  case (Suc n)
  then show ?case by (cases i) (auto simp: ac_simps)
qed

lemma le_word_le_bytes:
  fixes w :: "'a::len word"
  assumes "LENGTH('a) \<le> 8 * n"
  shows "le_word (le_bytes n w) = w"
proof (rule bit_word_eqI)
  fix i assume i: "i < LENGTH('a)"
  with assms have "i div 8 < n" by linarith
  with i assms show "bit (le_word (le_bytes n w) :: 'a word) i = bit w i"
    by (simp add: bit_le_word nth_le_bytes bit_simps)
qed

lemma le_bytes_le_word:
  assumes "8 * length bs \<le> LENGTH('a)"
  shows "le_bytes (length bs) (le_word bs :: 'a::len word) = bs"
proof (rule nth_equalityI)
  show "length (le_bytes (length bs) (le_word bs :: 'a word)) = length bs" by simp
  fix i assume "i < length (le_bytes (length bs) (le_word bs :: 'a word))"
  then have i: "i < length bs" by simp
  show "le_bytes (length bs) (le_word bs :: 'a word) ! i = bs ! i"
  proof (rule bit_word_eqI)
    fix j assume "j < LENGTH(8)"
    then have j: "j < 8" by simp
    have "(8 * i + j) div 8 = i" "(8 * i + j) mod 8 = j" using j by auto
    with i j assms show "bit (le_bytes (length bs) (le_word bs :: 'a word) ! i) j = bit (bs ! i) j"
      by (auto simp: nth_le_bytes bit_simps bit_le_word)
  qed
qed

section \<open>Loops run forward and undone backward\<close>

lemma fold_inverse:
  assumes "\<And>x s. g x (f x s) = s"
  shows "fold g (rev xs) (fold f xs s) = s"
  using assms by (induction xs arbitrary: s) auto

lemma fold_commute_map:
  assumes "\<And>x s. h (f x s) = g x (h s)"
  shows "h (fold f xs s) = fold g xs (h s)"
  using assms by (induction xs arbitrary: s) auto

lemma fold_invariant_list:
  assumes "P s" and "\<And>x s. x \<in> set xs \<Longrightarrow> P s \<Longrightarrow> P (f x s)"
  shows "P (fold f xs s)"
  using assms by (induction xs arbitrary: s) auto

section \<open>Block-wise processing of a buffer\<close>

text \<open>
  The ciphers walk a buffer in blocks of \<open>n\<close> bytes while at least \<open>n\<close> bytes are left and
  hand the remainder to another routine.
\<close>

function map_blocks :: "nat \<Rightarrow> ('b list \<Rightarrow> 'b list) \<Rightarrow> 'b list \<Rightarrow> 'b list \<times> 'b list" where
  "map_blocks n f xs =
     (if 0 < n \<and> n \<le> length xs
      then (case map_blocks n f (drop n xs) of (ys, rest) \<Rightarrow> (f (take n xs) @ ys, rest))
      else ([], xs))"
  by pat_completeness auto
termination by (relation "measure (\<lambda>(n, f, xs). length xs)") auto

declare map_blocks.simps [simp del]

lemma map_blocks_length:
  assumes "\<And>x. length x = n \<Longrightarrow> length (f x) = n"
    and "map_blocks n f xs = (ys, rest)"
  shows "length ys + length rest = length xs \<and> n dvd length ys \<and> (0 < n \<longrightarrow> length rest < n)"
  using assms
proof (induction n f xs arbitrary: ys rule: map_blocks.induct)
  case (1 n f xs)
  show ?case
  proof (cases "0 < n \<and> n \<le> length xs")
    case True
    then obtain zs where zs: "map_blocks n f (drop n xs) = (zs, rest)"
        "ys = f (take n xs) @ zs"
      using "1.prems"(2) by (auto simp: map_blocks.simps [of n f xs] split: prod.splits)
    have "length zs + length rest = length (drop n xs) \<and> n dvd length zs \<and> (0 < n \<longrightarrow> length rest < n)"
      using "1.IH" True "1.prems"(1) zs(1) by blast
    with True zs(2) "1.prems"(1) [of "take n xs"] show ?thesis by auto
  next
    case False
    with "1.prems"(2) show ?thesis by (auto simp: map_blocks.simps [of n f xs])
  qed
qed

lemma map_blocks_rest:
  assumes "\<And>x. length x = n \<Longrightarrow> length (f x) = n"
    and "map_blocks n f xs = (ys, rest)"
  shows "take (length ys) xs @ rest = xs"
  using assms
proof (induction n f xs arbitrary: ys rule: map_blocks.induct)
  case (1 n f xs)
  show ?case
  proof (cases "0 < n \<and> n \<le> length xs")
    case True
    then obtain zs where zs: "map_blocks n f (drop n xs) = (zs, rest)"
        "ys = f (take n xs) @ zs"
      using "1.prems"(2) by (auto simp: map_blocks.simps [of n f xs] split: prod.splits)
    have "take (length zs) (drop n xs) @ rest = drop n xs"
      using "1.IH" True "1.prems"(1) zs(1) by blast
    with True zs(2) "1.prems"(1) [of "take n xs"] show ?thesis
      by (simp add: take_add)
  next
    case False
    with "1.prems"(2) show ?thesis by (auto simp: map_blocks.simps [of n f xs])
  qed
qed

lemma map_blocks_short: "length xs < n \<Longrightarrow> map_blocks n f xs = ([], xs)"
  by (simp add: map_blocks.simps)

lemma map_blocks_inverse:
  assumes len: "\<And>x. length x = n \<Longrightarrow> length (f x) = n"
    and inv: "\<And>x. length x = n \<Longrightarrow> g (f x) = x"
    and n: "0 < n" and short: "length tl' < n"
    and eq: "map_blocks n f xs = (ys, rest)"
  shows "map_blocks n g (ys @ tl') = (take (length ys) xs, tl')"
  using len inv n short eq
proof (induction n f xs arbitrary: ys rule: map_blocks.induct)
  case (1 n f xs)
  show ?case
  proof (cases "0 < n \<and> n \<le> length xs")
    case True
    then obtain zs where zs: "map_blocks n f (drop n xs) = (zs, rest)"
        "ys = f (take n xs) @ zs"
      using "1.prems"(5) by (auto simp: map_blocks.simps [of n f xs] split: prod.splits)
    have IH: "map_blocks n g (zs @ tl') = (take (length zs) (drop n xs), tl')"
      using "1.IH" True "1.prems"(1-4) zs(1) by blast
    have l: "length (f (take n xs)) = n" using True "1.prems"(1) by simp
    have "g (f (take n xs)) = take n xs" using True "1.prems"(2) by simp
    then show ?thesis using True zs(2) IH l
      by (simp add: map_blocks.simps [of n g] take_add)
  next
    case False
    with "1.prems" have "ys = []" by (simp add: map_blocks.simps [of n f xs])
    then show ?thesis using "1.prems"(4) by (simp add: map_blocks_short)
  qed
qed

end
