(* ===== verification/Crypt.thy ===== *)
theory Crypt
  imports Prelude
begin

text \<open>
  The cipher layer, \<open>common/NetEngine/CCrypt.h\<close>: the TCP header obfuscation, the RC5 and
  RC6 key schedules salted with the session's serial key, the block ciphers over 4, 8 and
  16 byte blocks with their fall-back chain RC6, RC5-64, RC5-32, tail copy, and the dispatch
  table indexed by the packet's cipher id.
  The schedules and the serial key are static members shared by all instances, so they form
  a state record of their own that the constructor and the ciphers thread through.
  Reads past a static array are undefined behaviour in the code and \<open>None\<close> here.
\<close>

section \<open>TCP header obfuscation\<close>

definition XOR_CONST :: u32 where "XOR_CONST = 0xA5A5A5A5"
definition ADD_CONST :: u32 where "ADD_CONST = 0xCAFEBABE"
definition NIBBLE_MASK_HI :: u32 where "NIBBLE_MASK_HI = 0xF0F0F0F0"
definition NIBBLE_MASK_LO :: u32 where "NIBBLE_MASK_LO = 0x0F0F0F0F"
definition ALT_MASK_EVEN :: u32 where "ALT_MASK_EVEN = 0xAAAAAAAA"
definition ALT_MASK_ODD :: u32 where "ALT_MASK_ODD = 0x55555555"
definition using_new_encryption :: bool where "using_new_encryption = True"

lemmas crypt_consts = XOR_CONST_def ADD_CONST_def NIBBLE_MASK_HI_def NIBBLE_MASK_LO_def
  ALT_MASK_EVEN_def ALT_MASK_ODD_def using_new_encryption_def

definition swap_nibbles :: "u32 \<Rightarrow> u32" where
  "swap_nibbles x = drop_bit 4 (x AND NIBBLE_MASK_HI) OR push_bit 4 (x AND NIBBLE_MASK_LO)"

definition swap_alt_bits :: "u32 \<Rightarrow> u32" where
  "swap_alt_bits x = drop_bit 1 (x AND ALT_MASK_EVEN) OR push_bit 1 (x AND ALT_MASK_ODD)"

definition mix_rshift16 :: "u32 \<Rightarrow> u32" where
  "mix_rshift16 x = x XOR drop_bit 16 x"

definition encrypt_tcp_header :: "u32 \<Rightarrow> u32" where
  "encrypt_tcp_header h =
    (if \<not> using_new_encryption then h
     else let h = NOT h;
              h = std_rotl h 13;
              h = h XOR XOR_CONST;
              h = swap_nibbles h;
              h = h + ADD_CONST;
              h = std_rotl h 7;
              h = mix_rshift16 h;
              h = swap_alt_bits h
          in h)"

definition decrypt_tcp_header :: "u32 \<Rightarrow> u32" where
  "decrypt_tcp_header e =
    (if \<not> using_new_encryption then e
     else let e = swap_alt_bits e;
              e = mix_rshift16 e;
              e = std_rotr e 7;
              e = e - ADD_CONST;
              e = swap_nibbles e;
              e = e XOR XOR_CONST;
              e = std_rotr e 13;
              e = NOT e
          in e)"

lemma u32_cases:
  assumes "(n::nat) < 32"
  shows "n \<in> set [0,1,2,3,4,5,6,7,8,9,10,11,12,13,14,15,16,17,18,19,20,21,22,23,24,25,26,27,28,29,30,31]"
  using assms by (simp only: list.set insert_iff empty_iff) arith

lemma swap_nibbles_invol [simp]: "swap_nibbles (swap_nibbles x) = x"
proof (rule bit_word_eqI)
  fix n assume "n < LENGTH(32)"
  then have "n \<in> set [0,1,2,3,4,5,6,7,8,9,10,11,12,13,14,15,16,17,18,19,20,21,22,23,24,25,26,27,28,29,30,31]"
    by (intro u32_cases) simp
  then show "bit (swap_nibbles (swap_nibbles x)) n = bit x n"
    by (simp only: list.set insert_iff empty_iff)
       (elim disjE FalseE; simp add: swap_nibbles_def crypt_consts bit_simps)
qed

lemma swap_alt_bits_invol [simp]: "swap_alt_bits (swap_alt_bits x) = x"
proof (rule bit_word_eqI)
  fix n assume "n < LENGTH(32)"
  then have "n \<in> set [0,1,2,3,4,5,6,7,8,9,10,11,12,13,14,15,16,17,18,19,20,21,22,23,24,25,26,27,28,29,30,31]"
    by (intro u32_cases) simp
  then show "bit (swap_alt_bits (swap_alt_bits x)) n = bit x n"
    by (simp only: list.set insert_iff empty_iff)
       (elim disjE FalseE; simp add: swap_alt_bits_def crypt_consts bit_simps bit_times_two numeral_2_eq_2 numeral_3_eq_3)
qed

lemma mix_rshift16_invol [simp]: "mix_rshift16 (mix_rshift16 x) = x"
  by (rule bit_word_eqI) (auto simp: mix_rshift16_def bit_simps)

lemma decrypt_encrypt_tcp_header: "decrypt_tcp_header (encrypt_tcp_header h) = h"
  by (simp add: encrypt_tcp_header_def decrypt_tcp_header_def Let_def xor.assoc)

lemma encrypt_decrypt_tcp_header: "encrypt_tcp_header (decrypt_tcp_header e) = e"
  by (simp add: encrypt_tcp_header_def decrypt_tcp_header_def Let_def xor.assoc)

section \<open>Shared cipher state and key expansion\<close>

record cc_static =
  m_usKey_RC5 :: "u16 list"
  m_uiKey_RC5 :: "u32 list"
  m_uiKey_RC6 :: "u32 list"
  m_iSerialKey :: u32

definition RC5_KEYTABLES :: nat where "RC5_KEYTABLES = 26"
definition RC5_ROUND :: nat where "RC5_ROUND = 12"
definition RC6_KEYTABLES :: nat where "RC6_KEYTABLES = 84"
definition RC6_LGW :: int where "RC6_LGW = 5"
definition RC6_R22 :: nat where "RC6_R22 = 82"
definition RC6_R23 :: nat where "RC6_R23 = 83"
definition RC6_ROUND :: nat where "RC6_ROUND = 40"
definition RSA_P16 :: u32 where "RSA_P16 = 20835"
definition RSA_Q16 :: u32 where "RSA_Q16 = 31161"
definition RSA_P32 :: u32 where "RSA_P32 = 3084996963"
definition RSA_Q32 :: u32 where "RSA_Q32 = 2654435769"

lemmas cipher_params = RC5_KEYTABLES_def RC5_ROUND_def RC6_KEYTABLES_def RC6_LGW_def
  RC6_R22_def RC6_R23_def RC6_ROUND_def

definition rc5_key :: bytes where
  "rc5_key = (if using_new_encryption
     then [0xc0, 0x58, 0x1e, 0x07, 0xd9, 0x39, 0x43, 0x12, 0x31, 0xd0, 0xce, 0x21, 0xdd, 0xaf, 0x90, 0xad]
     else [0x3d, 0x63, 0xc5, 0xa3, 0x6d, 0x9a, 0xdb, 0xa5, 0xd1, 0xb2, 0x7a, 0x17, 0xb6, 0x56, 0x2c, 0xba])"

definition rc6_key :: bytes where
  "rc6_key = (if using_new_encryption
     then [0x55, 0x35, 0x34, 0xb1, 0x9f, 0x85, 0x46, 0x23, 0x46, 0x08, 0xb4, 0x75, 0xc3, 0xd4, 0x9e, 0x9c,
           0x66, 0x0d, 0xab, 0x76, 0x74, 0xe7, 0x74, 0xf1, 0x35, 0x4b, 0x53, 0xc7, 0x4d, 0xe6, 0x69, 0xfe]
     else [0x76, 0xb7, 0x4b, 0x98, 0x4c, 0x5b, 0xd5, 0xe3, 0xc1, 0x92, 0x33, 0x6a, 0x7b, 0xe6, 0xcc, 0xeb,
           0x17, 0x9a, 0x77, 0xbc, 0x31, 0x5d, 0xe7, 0x39, 0xa9, 0x32, 0x54, 0x88, 0x66, 0xd3, 0xce, 0x43])"

text \<open>
  Packing of the base key into 32-bit words, from its last byte down, each byte salted with
  one byte of the serial key taken as a signed value.
\<close>

definition pack_salted_key :: "nat \<Rightarrow> bytes \<Rightarrow> u32 \<Rightarrow> u32 list" where
  "pack_salted_key words K serial =
    fold (\<lambda>m L. let j = length K - 1 - m; i = m mod 4
                 in L[j div 4 := push_bit 8 (L ! (j div 4))
                        + (ucast (K ! j) + scast (le_bytes 4 serial ! i))])
      [0..<length K] (replicate words 0)"

text \<open>The arithmetic progression that fills a table before mixing.\<close>

definition init_table :: "u32 \<Rightarrow> u32 \<Rightarrow> u32 list \<Rightarrow> u32 list" where
  "init_table p q S = fold (\<lambda>j S. S[j := S ! (j - 1) + q]) [1..<length S] (S[0 := p])"

type_synonym mix_state = "u32 list \<times> u32 list \<times> u32 \<times> u32 \<times> nat \<times> nat"

definition mix_step :: "(nat \<Rightarrow> nat) \<Rightarrow> nat \<Rightarrow> mix_state \<Rightarrow> mix_state" where
  "mix_step next_j c st =
    (case st of (S, L, A, B, j, k) \<Rightarrow>
      let A' = std_rotl (S ! j + A + B) 3;
          B' = std_rotl (L ! k + A' + B) (sint (A' + B))
      in (S[j := A'], L[k := B'], A', B', next_j j, (k + 1) mod c))"

definition RC5_mix :: "u16 list \<times> mix_state \<Rightarrow> u16 list \<times> mix_state" where
  "RC5_mix st =
    (case st of (us, S, L, A, B, j, k) \<Rightarrow>
      (case mix_step (\<lambda>j. (j + 1) mod 2 * 13) 4 (S, L, A, B, j, k) of
        (S', L', A', B', j', k') \<Rightarrow> (us[j := ucast A'], S', L', A', B', j', k')))"

definition RC5_KeySetup :: "bytes \<Rightarrow> cc_static \<Rightarrow> cc_static" where
  "RC5_KeySetup K s =
    (let L = pack_salted_key 4 K (m_iSerialKey s);
         S = init_table RSA_P16 RSA_Q16 (m_uiKey_RC5 s);
         us = map ucast S
     in case (RC5_mix ^^ (3 * RC5_KEYTABLES)) (us, S, L, 0, 0, 0, 0) of
          (us', S', _) \<Rightarrow> s\<lparr>m_usKey_RC5 := us', m_uiKey_RC5 := S'\<rparr>)"

definition RC5_Setup :: "cc_static \<Rightarrow> cc_static" where
  "RC5_Setup s = RC5_KeySetup rc5_key s"

definition RC6_KeySetup :: "bytes \<Rightarrow> nat \<Rightarrow> cc_static \<Rightarrow> cc_static" where
  "RC6_KeySetup K keyLen s =
    (let c = (keyLen + 4 - 1) div 4;
         L = pack_salted_key 8 (take keyLen K) (m_iSerialKey s);
         S = init_table RSA_P32 RSA_Q32 (m_uiKey_RC6 s)
     in case (mix_step (\<lambda>j. (j + 1) mod RC6_KEYTABLES) c ^^ (3 * max c RC6_KEYTABLES))
               (S, L, 0, 0, 0, 0) of
          (S', _) \<Rightarrow> s\<lparr>m_uiKey_RC6 := S'\<rparr>)"

definition RC6_Setup :: "cc_static \<Rightarrow> cc_static" where
  "RC6_Setup s = RC6_KeySetup rc6_key 32 s"

section \<open>RC5 over 32-bit words\<close>

definition rc5_enc64_round :: "u32 list \<Rightarrow> nat \<Rightarrow> u32 \<times> u32 \<Rightarrow> u32 \<times> u32" where
  "rc5_enc64_round S j = (\<lambda>(A, B).
     let A' = std_rotl (A XOR B) (sint B) + S ! (2 * j);
         B' = std_rotl (B XOR A') (sint A') + S ! (2 * j + 1)
     in (A', B'))"

definition rc5_dec64_round :: "u32 list \<Rightarrow> nat \<Rightarrow> u32 \<times> u32 \<Rightarrow> u32 \<times> u32" where
  "rc5_dec64_round S j = (\<lambda>(A, B).
     let B' = std_rotr (B - S ! (2 * j + 1)) (sint A) XOR A;
         A' = std_rotr (A - S ! (2 * j)) (sint B') XOR B'
     in (A', B'))"

definition rc5_enc64_block :: "cc_static \<Rightarrow> bytes \<Rightarrow> bytes" where
  "rc5_enc64_block s x =
    (case fold (rc5_enc64_round (m_uiKey_RC5 s)) [1..<RC5_ROUND + 1]
            (le_word (take 4 x) + m_uiKey_RC5 s ! 0, le_word (drop 4 x) + m_uiKey_RC5 s ! 1) of
       (A, B) \<Rightarrow> le_bytes 4 (A XOR m_iSerialKey s) @ le_bytes 4 (B XOR m_iSerialKey s))"

definition rc5_dec64_block :: "cc_static \<Rightarrow> bytes \<Rightarrow> bytes" where
  "rc5_dec64_block s x =
    (case fold (rc5_dec64_round (m_uiKey_RC5 s)) (rev [1..<RC5_ROUND + 1])
            (le_word (take 4 x) XOR m_iSerialKey s, le_word (drop 4 x) XOR m_iSerialKey s) of
       (A, B) \<Rightarrow> le_bytes 4 (A - m_uiKey_RC5 s ! 0) @ le_bytes 4 (B - m_uiKey_RC5 s ! 1))"

section \<open>RC5 over 16-bit words\<close>

text \<open>
  The encryption holds both halves in \<open>int\<close> (the 16-bit operands are promoted) and narrows
  at each rotation and at the final store; the decryption holds them in \<open>uint16_t\<close>. The
  running schedule index is not reset between blocks, so a second block would read past the
  26 entries: the routines return \<open>None\<close> there. The round keys at index \<open>key\<close> are read with
  a post-increment in the encryption and a pre-decrement in the decryption.
\<close>

definition rc5_enc32_round :: "u16 list \<Rightarrow> nat \<Rightarrow> nat \<Rightarrow> u32 \<times> u32 \<Rightarrow> u32 \<times> u32" where
  "rc5_enc32_round us key r = (\<lambda>(A, B).
     let A' = ucast (std_rotl (ucast (A XOR B) :: u16) (uint (B AND 0x0F))) + ucast (us ! (key + 2 + 2 * r));
         B' = ucast (std_rotl (ucast (B XOR A') :: u16) (uint (A' AND 0x0F))) + ucast (us ! (key + 3 + 2 * r))
     in (A', B'))"

definition rc5_enc32_block :: "cc_static \<Rightarrow> nat \<Rightarrow> bytes \<Rightarrow> bytes" where
  "rc5_enc32_block s key x =
    (case fold (rc5_enc32_round (m_usKey_RC5 s) key) [0..<RC5_ROUND]
            (ucast (le_word (take 2 x) :: u16) + ucast (m_usKey_RC5 s ! key) :: u32,
             ucast (le_word (drop 2 x) :: u16) + ucast (m_usKey_RC5 s ! (key + 1)) :: u32) of
       (A, B) \<Rightarrow> le_bytes 2 (ucast (A XOR ucast (ucast (m_iSerialKey s) :: u16)) :: u16)
                 @ le_bytes 2 (ucast (B XOR ucast (ucast (m_iSerialKey s) :: u16)) :: u16))"

definition rc5_dec32_round :: "u16 list \<Rightarrow> nat \<Rightarrow> nat \<Rightarrow> u16 \<times> u16 \<Rightarrow> u16 \<times> u16" where
  "rc5_dec32_round us key r = (\<lambda>(A, B).
     let B' = std_rotr (B - us ! (key - 1 - 2 * r)) (uint (A AND 0xF)) XOR A;
         A' = std_rotr (A - us ! (key - 2 - 2 * r)) (uint (B' AND 0xF)) XOR B'
     in (A', B'))"

definition rc5_dec32_block :: "cc_static \<Rightarrow> nat \<Rightarrow> bytes \<Rightarrow> bytes" where
  "rc5_dec32_block s key x =
    (case fold (rc5_dec32_round (m_usKey_RC5 s) key) [0..<RC5_ROUND]
            (ucast (ucast (le_word (take 2 x) :: u16) XOR m_iSerialKey s) :: u16,
             ucast (ucast (le_word (drop 2 x) :: u16) XOR m_iSerialKey s) :: u16) of
       (A, B) \<Rightarrow> le_bytes 2 (A - m_usKey_RC5 s ! (key - 26)) @ le_bytes 2 (B - m_usKey_RC5 s ! (key - 25)))"

function rc5_enc32_loop :: "cc_static \<Rightarrow> nat \<Rightarrow> bytes \<Rightarrow> bytes option" where
  "rc5_enc32_loop s key xs =
    (if length xs < 4 then Some xs
     else if length (m_usKey_RC5 s) < key + 26 then None
     else map_option ((@) (rc5_enc32_block s key (take 4 xs))) (rc5_enc32_loop s (key + 26) (drop 4 xs)))"
  by pat_completeness auto
termination by (relation "measure (\<lambda>(s, key, xs). length xs)") auto

function rc5_dec32_loop :: "cc_static \<Rightarrow> nat \<Rightarrow> bytes \<Rightarrow> bytes option" where
  "rc5_dec32_loop s key xs =
    (if length xs < 4 then Some xs
     else if key < 26 \<or> length (m_usKey_RC5 s) < key then None
     else map_option ((@) (rc5_dec32_block s key (take 4 xs))) (rc5_dec32_loop s (key - 26) (drop 4 xs)))"
  by pat_completeness auto
termination by (relation "measure (\<lambda>(s, key, xs). length xs)") auto

declare rc5_enc32_loop.simps [simp del] rc5_dec32_loop.simps [simp del]

definition RC5_Encrypt32 :: "cc_static \<Rightarrow> bytes \<Rightarrow> bytes option" where
  "RC5_Encrypt32 s xs = rc5_enc32_loop s 0 xs"

definition RC5_Decrypt32 :: "cc_static \<Rightarrow> bytes \<Rightarrow> bytes option" where
  "RC5_Decrypt32 s xs = rc5_dec32_loop s RC5_KEYTABLES xs"

section \<open>RC5 over whole buffers\<close>

definition RC5_Encrypt64 :: "cc_static \<Rightarrow> bytes \<Rightarrow> bytes option" where
  "RC5_Encrypt64 s xs =
    (case map_blocks 8 (rc5_enc64_block s) xs of
       (ys, rest) \<Rightarrow> if rest = [] then Some ys else map_option ((@) ys) (RC5_Encrypt32 s rest))"

definition RC5_Decrypt64 :: "cc_static \<Rightarrow> bytes \<Rightarrow> bytes option" where
  "RC5_Decrypt64 s xs =
    (case map_blocks 8 (rc5_dec64_block s) xs of
       (ys, rest) \<Rightarrow> if rest = [] then Some ys else map_option ((@) ys) (RC5_Decrypt32 s rest))"

definition RC5_Encrypt :: "cc_static \<Rightarrow> bytes \<Rightarrow> bytes option" where
  "RC5_Encrypt s xs = (if length xs < 8 then RC5_Encrypt32 s xs else RC5_Encrypt64 s xs)"

definition RC5_Decrypt :: "cc_static \<Rightarrow> bytes \<Rightarrow> bytes option" where
  "RC5_Decrypt s xs = (if length xs < 8 then RC5_Decrypt32 s xs else RC5_Decrypt64 s xs)"

section \<open>RC6\<close>

definition rc6_enc_round :: "u32 list \<Rightarrow> nat \<Rightarrow> u32 \<times> u32 \<times> u32 \<times> u32 \<Rightarrow> u32 \<times> u32 \<times> u32 \<times> u32" where
  "rc6_enc_round S k = (\<lambda>(A, B, C, D).
     let t = std_rotl (B * (2 * B + 1)) RC6_LGW;
         u = std_rotl (D * (2 * D + 1)) RC6_LGW;
         A' = std_rotl (A XOR t) (sint u) + S ! (2 * k);
         C' = std_rotl (C XOR u) (sint t) + S ! (2 * k + 1)
     in (B, C', D, A'))"

definition rc6_dec_round :: "u32 list \<Rightarrow> nat \<Rightarrow> u32 \<times> u32 \<times> u32 \<times> u32 \<Rightarrow> u32 \<times> u32 \<times> u32 \<times> u32" where
  "rc6_dec_round S k = (\<lambda>(A0, B0, C0, D0).
     let D = C0; C = B0; B = A0; A = D0;
         u = std_rotl (D * (2 * D + 1)) RC6_LGW;
         t = std_rotl (B * (2 * B + 1)) RC6_LGW;
         C' = std_rotr (C - S ! (2 * k + 1)) (sint t) XOR u;
         A' = std_rotr (A - S ! (2 * k)) (sint u) XOR t
     in (A', B, C', D))"

definition quad :: "bytes \<Rightarrow> u32 \<times> u32 \<times> u32 \<times> u32" where
  "quad x = (le_word (take 4 x), le_word (take 4 (drop 4 x)),
             le_word (take 4 (drop 8 x)), le_word (drop 12 x))"

definition unquad :: "u32 \<times> u32 \<times> u32 \<times> u32 \<Rightarrow> bytes" where
  "unquad = (\<lambda>(A, B, C, D). le_bytes 4 A @ le_bytes 4 B @ le_bytes 4 C @ le_bytes 4 D)"

definition rc6_enc_block :: "cc_static \<Rightarrow> bytes \<Rightarrow> bytes" where
  "rc6_enc_block s x =
    (let S = m_uiKey_RC6 s; ser = m_iSerialKey s in
     case quad x of (w0, w1, w2, w3) \<Rightarrow>
     case fold (rc6_enc_round S) [1..<RC6_ROUND + 1] (w0, w1 + S ! 0, w2, w3 + S ! 1) of
       (A, B, C, D) \<Rightarrow>
         unquad ((A + S ! RC6_R22) XOR ser, B XOR ser, (C + S ! RC6_R23) XOR ser, D XOR ser))"

definition rc6_dec_block :: "cc_static \<Rightarrow> bytes \<Rightarrow> bytes" where
  "rc6_dec_block s x =
    (let S = m_uiKey_RC6 s; ser = m_iSerialKey s in
     case quad x of (w0, w1, w2, w3) \<Rightarrow>
     case fold (rc6_dec_round S) (rev [1..<RC6_ROUND + 1])
            ((w0 XOR ser) - S ! RC6_R22, w1 XOR ser, (w2 XOR ser) - S ! RC6_R23, w3 XOR ser) of
       (A, B, C, D) \<Rightarrow> unquad (A, B - S ! 0, C, D - S ! 1))"

definition RC6_Encrypt :: "cc_static \<Rightarrow> bytes \<Rightarrow> (bytes \<times> cc_static) option" where
  "RC6_Encrypt s xs =
    (case map_blocks 16 (rc6_enc_block s) xs of
       (ys, rest) \<Rightarrow>
         if rest = [] then Some (ys, s)
         else (let s' = RC5_Setup s in map_option (\<lambda>zs. (ys @ zs, s')) (RC5_Encrypt s' rest)))"

definition RC6_Decrypt :: "cc_static \<Rightarrow> bytes \<Rightarrow> (bytes \<times> cc_static) option" where
  "RC6_Decrypt s xs =
    (case map_blocks 16 (rc6_dec_block s) xs of
       (ys, rest) \<Rightarrow>
         if rest = [] then Some (ys, s)
         else (let s' = RC5_Setup s in map_option (\<lambda>zs. (ys @ zs, s')) (RC5_Decrypt s' rest)))"

section \<open>Dispatch\<close>

datatype cipher = Cipher_RC5 | Cipher_RC6

datatype crypt_error = UNK_CHANGE_TYPE | INVALID_FUNCTIONS

text \<open>Rows of the table are the setup, encrypt and decrypt pointers of one cipher.\<close>

definition m_kVtabs :: "cipher option list" where
  "m_kVtabs = [Some Cipher_RC5, Some Cipher_RC5, Some Cipher_RC5, Some Cipher_RC6, Some Cipher_RC6]"

definition CRYPT_NONE :: u32 where "CRYPT_NONE = 0"
definition CRYPT_RC5 :: u32 where "CRYPT_RC5 = 1"
definition CRYPT_RC5_SERIAL :: u32 where "CRYPT_RC5_SERIAL = 2"
definition CRYPT_RC6 :: u32 where "CRYPT_RC6 = 3"
definition CRYPT_RC6_SERIAL :: u32 where "CRYPT_RC6_SERIAL = 4"

lemmas crypt_types = CRYPT_NONE_def CRYPT_RC5_def CRYPT_RC5_SERIAL_def CRYPT_RC6_def
  CRYPT_RC6_SERIAL_def

definition Setup :: "cipher \<Rightarrow> u32 \<Rightarrow> cc_static \<Rightarrow> cc_static" where
  "Setup c key s =
    (let s = s\<lparr>m_iSerialKey := key\<rparr>
     in case c of Cipher_RC5 \<Rightarrow> RC5_Setup s | Cipher_RC6 \<Rightarrow> RC6_Setup s)"

definition ChangeType :: "u32 \<Rightarrow> u32 \<Rightarrow> cc_static \<Rightarrow> crypt_error + cipher \<times> cc_static" where
  "ChangeType eType key s =
    (let idx = unat eType in
     if length m_kVtabs \<le> idx then Inl UNK_CHANGE_TYPE
     else case m_kVtabs ! idx of
            None \<Rightarrow> Inl INVALID_FUNCTIONS
          | Some c \<Rightarrow> Inr (c, Setup c key s))"

definition make_CCrypt :: "u32 \<Rightarrow> u32 \<Rightarrow> cc_static \<Rightarrow> cipher \<times> cc_static" where
  "make_CCrypt eType key s =
    (case ChangeType eType key s of
       Inr r \<Rightarrow> r
     | Inl _ \<Rightarrow> (case ChangeType CRYPT_RC5 key s of Inr r \<Rightarrow> r | Inl _ \<Rightarrow> (Cipher_RC5, s)))"

definition Encrypt :: "cipher \<Rightarrow> cc_static \<Rightarrow> bytes \<Rightarrow> (bytes \<times> cc_static) option" where
  "Encrypt c s xs =
    (case c of Cipher_RC5 \<Rightarrow> map_option (\<lambda>ys. (ys, s)) (RC5_Encrypt s xs) | Cipher_RC6 \<Rightarrow> RC6_Encrypt s xs)"

definition Decrypt :: "cipher \<Rightarrow> cc_static \<Rightarrow> bytes \<Rightarrow> (bytes \<times> cc_static) option" where
  "Decrypt c s xs =
    (case c of Cipher_RC5 \<Rightarrow> map_option (\<lambda>ys. (ys, s)) (RC5_Decrypt s xs) | Cipher_RC6 \<Rightarrow> RC6_Decrypt s xs)"

section \<open>Each round and each block is invertible\<close>

lemma rc5_64_round_inverse: "rc5_dec64_round S j (rc5_enc64_round S j st) = st"
  by (cases st) (simp add: rc5_enc64_round_def rc5_dec64_round_def Let_def xor.assoc)

lemma rc6_round_inverse: "rc6_dec_round S k (rc6_enc_round S k st) = st"
  by (cases st) (simp add: rc6_enc_round_def rc6_dec_round_def Let_def xor.assoc)

lemma length_rc5_enc64_block [len_simps]: "length (rc5_enc64_block s x) = 8"
  by (simp add: rc5_enc64_block_def split: prod.splits)

lemma length_rc5_dec64_block [len_simps]: "length (rc5_dec64_block s x) = 8"
  by (simp add: rc5_dec64_block_def split: prod.splits)

lemma length_rc5_enc32_block [len_simps]: "length (rc5_enc32_block s k x) = 4"
  by (simp add: rc5_enc32_block_def split: prod.splits)

lemma length_rc5_dec32_block [len_simps]: "length (rc5_dec32_block s k x) = 4"
  by (simp add: rc5_dec32_block_def split: prod.splits)

lemma length_rc6_enc_block [len_simps]: "length (rc6_enc_block s x) = 16"
  by (simp add: rc6_enc_block_def unquad_def Let_def split: prod.splits)

lemma length_rc6_dec_block [len_simps]: "length (rc6_dec_block s x) = 16"
  by (simp add: rc6_dec_block_def unquad_def Let_def split: prod.splits)

lemma u32_image [simp]: "le_word (le_bytes 4 w) = (w :: u32)"
  by (rule le_word_le_bytes) simp

lemma u16_image [simp]: "le_word (le_bytes 2 w) = (w :: u16)"
  by (rule le_word_le_bytes) simp

lemma image_u32: "length bs = 4 \<Longrightarrow> le_bytes 4 (le_word bs :: u32) = bs"
  using le_bytes_le_word [of bs, where 'a = 32] by simp

lemma image_u16: "length bs = 2 \<Longrightarrow> le_bytes 2 (le_word bs :: u16) = bs"
  using le_bytes_le_word [of bs, where 'a = 16] by simp

lemma xor_cancel [simp]: "(a XOR b) XOR b = (a :: 'a::len word)"
  by (simp add: xor.assoc)

lemma rc5_block64_inverse:
  assumes "length x = 8"
  shows "rc5_dec64_block s (rc5_enc64_block s x) = x"
proof -
  let ?S = "m_uiKey_RC5 s"
  let ?i = "(le_word (take 4 x) + ?S ! 0, le_word (drop 4 x) + ?S ! 1)"
  obtain A B where e: "fold (rc5_enc64_round ?S) [1..<RC5_ROUND + 1] ?i = (A, B)"
    by fastforce
  have "fold (rc5_dec64_round ?S) (rev [1..<RC5_ROUND + 1])
          (fold (rc5_enc64_round ?S) [1..<RC5_ROUND + 1] ?i) = ?i"
    by (rule fold_inverse) (rule rc5_64_round_inverse)
  then have d: "fold (rc5_dec64_round ?S) (rev [1..<RC5_ROUND + 1]) (A, B) = ?i"
    unfolding e .
  show ?thesis
    using assms d unfolding rc5_enc64_block_def e prod.case rc5_dec64_block_def
    by (simp add: image_u32 del: upt_Suc)
qed

lemma quad_unquad [simp]: "quad (unquad w) = w"
  by (cases w) (simp add: quad_def unquad_def)

lemma unquad_quad: "length x = 16 \<Longrightarrow> unquad (quad x) = x"
proof -
  assume l: "length x = 16"
  have "x = take 4 x @ take 4 (drop 4 x) @ take 4 (drop 8 x) @ drop 12 x"
    using append_take_drop_id [of 4 x] append_take_drop_id [of 4 "drop 4 x"]
      append_take_drop_id [of 4 "drop 8 x"] by simp
  with l show ?thesis by (simp add: quad_def unquad_def image_u32)
qed

lemma rc6_block_inverse:
  assumes "length x = 16"
  shows "rc6_dec_block s (rc6_enc_block s x) = x"
proof -
  let ?S = "m_uiKey_RC6 s"
  obtain w0 w1 w2 w3 where q: "quad x = (w0, w1, w2, w3)" by (cases "quad x") auto
  let ?i = "(w0, w1 + ?S ! 0, w2, w3 + ?S ! 1)"
  obtain A B C D where e: "fold (rc6_enc_round ?S) [1..<RC6_ROUND + 1] ?i = (A, B, C, D)"
    by (cases "fold (rc6_enc_round ?S) [1..<RC6_ROUND + 1] ?i") auto
  have "fold (rc6_dec_round ?S) (rev [1..<RC6_ROUND + 1])
          (fold (rc6_enc_round ?S) [1..<RC6_ROUND + 1] ?i) = ?i"
    by (rule fold_inverse) (rule rc6_round_inverse)
  then have d: "fold (rc6_dec_round ?S) (rev [1..<RC6_ROUND + 1]) (A, B, C, D) = ?i"
    unfolding e .
  have "unquad (w0, w1, w2, w3) = x" using unquad_quad [OF assms] q by simp
  then show ?thesis using d
    unfolding rc6_enc_block_def Let_def q prod.case e rc6_dec_block_def quad_unquad
    by (simp del: upt_Suc)
qed

section \<open>The promoted 16-bit encryption is 16-bit arithmetic\<close>

definition rc5_enc16_round :: "u16 list \<Rightarrow> nat \<Rightarrow> nat \<Rightarrow> u16 \<times> u16 \<Rightarrow> u16 \<times> u16" where
  "rc5_enc16_round us key r = (\<lambda>(A, B).
     let A' = std_rotl (A XOR B) (uint (B AND 0x0F)) + us ! (key + 2 + 2 * r);
         B' = std_rotl (B XOR A') (uint (A' AND 0x0F)) + us ! (key + 3 + 2 * r)
     in (A', B'))"

lemma ucast16_add: "ucast (a + b :: u32) = (ucast a + ucast b :: u16)"
  by (rule word_unat_eq_iff [THEN iffD2])
     (simp add: unat_word_ariths unsigned_ucast_eq take_bit_eq_mod mod_mod_cancel mod_simps)

lemma ucast16_xor: "ucast (a XOR b :: u32) = (ucast a XOR ucast b :: u16)"
  by (rule bit_word_eqI) (simp add: bit_simps)

lemma ucast16_ucast [simp]: "ucast (ucast (a :: u16) :: u32) = a"
  by (rule bit_word_eqI) (simp add: bit_simps)

lemma count_low_nibble: "uint ((a :: u32) AND 15) = uint ((ucast a :: u16) AND 15)"
proof -
  have m: "(15 :: u32) = mask 4" "(15 :: u16) = mask 4"
    by (simp_all add: mask_eq_exp_minus_1)
  have "(ucast a :: u16) AND mask 4 = ucast (a AND mask 4)"
    by (rule bit_word_eqI) (auto simp: bit_simps)
  moreover have "uint (ucast (a AND mask 4) :: u16) = uint (a AND mask 4)"
    by (simp add: take_bit_eq_mask [symmetric] unsigned_ucast_eq unsigned_take_bit_eq min_def)
  ultimately show ?thesis by (simp add: m)
qed

definition lo16 :: "u32 \<times> u32 \<Rightarrow> u16 \<times> u16" where
  "lo16 = (\<lambda>(A, B). (ucast A, ucast B))"

lemma rc5_enc32_round_lo16:
  "lo16 (rc5_enc32_round us key r st) = rc5_enc16_round us key r (lo16 st)"
  by (cases st)
     (simp add: lo16_def rc5_enc32_round_def rc5_enc16_round_def Let_def ucast16_add ucast16_xor
        count_low_nibble)

lemma rc5_16_rounds_inverse:
  assumes "key + 26 \<le> length us"
  shows "fold (rc5_dec32_round us (key + 26)) [0..<12]
           (fold (rc5_enc16_round us key) [0..<12] st) = st"
proof -
  have step: "rc5_dec32_round us (key + 26) (11 - r) (rc5_enc16_round us key r st') = st'"
    if "r < 12" for r st'
  proof -
    have "key + 26 - 1 - 2 * (11 - r) = key + 3 + 2 * r"
         "key + 26 - 2 - 2 * (11 - r) = key + 2 + 2 * r"
      using that by auto
    then show ?thesis
      by (cases st') (simp add: rc5_dec32_round_def rc5_enc16_round_def Let_def xor.assoc)
  qed
  have "fold (\<lambda>r. rc5_dec32_round us (key + 26) (11 - r)) (rev xs)
          (fold (rc5_enc16_round us key) xs st') = st'" if "\<forall>r \<in> set xs. r < 12" for xs st'
    using that by (induction xs arbitrary: st') (auto simp: step)
  then have "fold (\<lambda>r. rc5_dec32_round us (key + 26) (11 - r)) (rev [0..<12])
          (fold (rc5_enc16_round us key) [0..<12] st) = st" by auto
  moreover have "fold (\<lambda>r. rc5_dec32_round us (key + 26) (11 - r)) (rev [0..<12]) =
     fold (rc5_dec32_round us (key + 26)) (map (\<lambda>r. 11 - r) (rev [0..<12]))"
    by (simp add: fold_map comp_def del: upt_Suc)
  moreover have "map (\<lambda>r. 11 - r) (rev [0..<12]) = [0..<(12::nat)]"
    by (simp add: upt_conv_Cons)
  ultimately show ?thesis by simp
qed

lemma rc5_block32_inverse:
  assumes "length x = 4" and us: "key + 26 \<le> length (m_usKey_RC5 s)"
  shows "rc5_dec32_block s (key + 26) (rc5_enc32_block s key x) = x"
proof -
  let ?us = "m_usKey_RC5 s" and ?ser = "ucast (m_iSerialKey s) :: u16"
  let ?a = "le_word (take 2 x) :: u16" and ?b = "le_word (drop 2 x) :: u16"
  let ?i = "(ucast ?a + ucast (?us ! key), ucast ?b + ucast (?us ! (key + 1))) :: u32 \<times> u32"
  obtain A B where e: "fold (rc5_enc32_round ?us key) [0..<RC5_ROUND] ?i = (A, B)" by fastforce
  have "lo16 (A, B) = fold (rc5_enc16_round ?us key) [0..<RC5_ROUND] (lo16 ?i)"
    unfolding e [symmetric] by (rule fold_commute_map) (rule rc5_enc32_round_lo16)
  then have d: "fold (rc5_dec32_round ?us (key + 26)) [0..<RC5_ROUND] (ucast A, ucast B)
      = (?a + ?us ! key, ?b + ?us ! (key + 1))"
    using rc5_16_rounds_inverse [OF us, of "lo16 ?i"]
    by (simp add: lo16_def RC5_ROUND_def ucast16_add)
  have split: "rc5_enc32_block s key x = le_bytes 2 (ucast A XOR ?ser) @ le_bytes 2 (ucast B XOR ?ser)"
    unfolding rc5_enc32_block_def e by (simp add: ucast16_xor)
  show ?thesis
    using assms d unfolding rc5_dec32_block_def split
    by (simp add: ucast16_xor image_u16 del: upt_Suc)
qed

section \<open>Shape and determinacy of the key schedules\<close>

definition wf_static :: "cc_static \<Rightarrow> bool" where
  "wf_static s \<longleftrightarrow> length (m_usKey_RC5 s) = RC5_KEYTABLES \<and> length (m_uiKey_RC5 s) = RC5_KEYTABLES
     \<and> length (m_uiKey_RC6 s) = RC6_KEYTABLES"

lemma init_table_prefix:
  assumes "n \<le> length S" and "0 < n"
  shows "fold (\<lambda>j S. S[j := S ! (j - 1) + q]) [1..<n] (S[0 := p])
    = map (\<lambda>j. p + of_nat j * q) [0..<n] @ drop n (S :: u32 list)"
  using assms
proof (induction n)
  case 0
  then show ?case by simp
next
  case (Suc n)
  show ?case
  proof (cases "n = 0")
    case True
    with Suc.prems show ?thesis by (cases S) auto
  next
    case False
    then obtain m where m: "n = Suc m" by (cases n) auto
    have IH: "fold (\<lambda>j S. S[j := S ! (j - 1) + q]) [1..<n] (S[0 := p])
        = map (\<lambda>j. p + of_nat j * q) [0..<n] @ drop n S"
      using Suc False by simp
    have "drop n S = S ! n # drop (Suc n) S"
      using Suc.prems by (simp add: Cons_nth_drop_Suc)
    then show ?thesis using False IH m
      by (simp add: nth_append list_update_append algebra_simps)
  qed
qed

lemma init_table_eq:
  "S \<noteq> [] \<Longrightarrow> init_table p q S = map (\<lambda>j. p + of_nat j * q) [0..<length S]"
  unfolding init_table_def by (subst init_table_prefix) auto

lemma mix_step_length:
  "mix_step f c (S, L, A, B, j, k) = (S', L', A', B', j', k') \<Longrightarrow> length S' = length S"
  by (auto simp: mix_step_def Let_def)

lemma mix_iter_length:
  "(mix_step f c ^^ n) (S, r) = (S', r') \<Longrightarrow> length S' = length S"
proof (induction n arbitrary: S' r')
  case 0
  then show ?case by simp
next
  case (Suc n)
  obtain S1 r1 where "(mix_step f c ^^ n) (S, r) = (S1, r1)"
    by (cases "(mix_step f c ^^ n) (S, r)") auto
  with Suc show ?case
    by (cases r1; cases r') (auto dest: mix_step_length)
qed

lemma RC5_mix_truncates:
  assumes "us = map ucast S" and "RC5_mix (us, S, r) = (us', S', r')"
  shows "us' = map ucast S' \<and> length S' = length S"
  using assms by (cases r) (auto simp: RC5_mix_def mix_step_def Let_def map_update)

lemma RC5_mix_iter:
  "(RC5_mix ^^ n) (map ucast S, S, r) = (us', S', r') \<Longrightarrow> us' = map ucast S' \<and> length S' = length S"
proof (induction n arbitrary: us' S' r')
  case 0
  then show ?case by auto
next
  case (Suc n)
  obtain us1 S1 r1 where s1: "(RC5_mix ^^ n) (map ucast S, S, r) = (us1, S1, r1)"
    by (cases "(RC5_mix ^^ n) (map ucast S, S, r)") auto
  with Suc have "us1 = map ucast S1 \<and> length S1 = length S" by blast
  moreover have "RC5_mix (us1, S1, r1) = (us', S', r')" using Suc.prems s1 by simp
  ultimately show ?case using RC5_mix_truncates by metis
qed

lemma RC5_Setup_tables:
  assumes "length (m_uiKey_RC5 s) = RC5_KEYTABLES"
  shows "length (m_uiKey_RC5 (RC5_Setup s)) = RC5_KEYTABLES
     \<and> m_usKey_RC5 (RC5_Setup s) = map ucast (m_uiKey_RC5 (RC5_Setup s))"
proof -
  have "length (init_table RSA_P16 RSA_Q16 (m_uiKey_RC5 s)) = RC5_KEYTABLES"
    using assms by (subst init_table_eq) (auto simp: RC5_KEYTABLES_def)
  then show ?thesis
    by (auto simp: RC5_Setup_def RC5_KeySetup_def Let_def split: prod.splits dest!: RC5_mix_iter)
qed

lemma RC5_Setup_frame [simp]:
  "m_uiKey_RC6 (RC5_Setup s) = m_uiKey_RC6 s" "m_iSerialKey (RC5_Setup s) = m_iSerialKey s"
  by (simp_all add: RC5_Setup_def RC5_KeySetup_def Let_def split: prod.splits)

lemma RC6_Setup_frame [simp]:
  "m_uiKey_RC5 (RC6_Setup s) = m_uiKey_RC5 s" "m_usKey_RC5 (RC6_Setup s) = m_usKey_RC5 s"
  "m_iSerialKey (RC6_Setup s) = m_iSerialKey s"
  by (simp_all add: RC6_Setup_def RC6_KeySetup_def Let_def split: prod.splits)

lemma RC6_Setup_length:
  assumes "length (m_uiKey_RC6 s) = RC6_KEYTABLES"
  shows "length (m_uiKey_RC6 (RC6_Setup s)) = RC6_KEYTABLES"
proof -
  have "length (init_table RSA_P32 RSA_Q32 (m_uiKey_RC6 s)) = RC6_KEYTABLES"
    using assms by (subst init_table_eq) (auto simp: RC6_KEYTABLES_def)
  then show ?thesis
    by (auto simp: RC6_Setup_def RC6_KeySetup_def Let_def split: prod.splits dest!: mix_iter_length)
qed

lemma wf_RC5_Setup [inv_intros]: "wf_static s \<Longrightarrow> wf_static (RC5_Setup s)"
  using RC5_Setup_tables [of s] by (simp add: wf_static_def)

lemma wf_RC6_Setup [inv_intros]: "wf_static s \<Longrightarrow> wf_static (RC6_Setup s)"
  using RC6_Setup_length [of s] by (simp add: wf_static_def)

lemma wf_Setup [inv_intros]: "wf_static s \<Longrightarrow> wf_static (Setup c key s)"
  using wf_RC5_Setup [of "s\<lparr>m_iSerialKey := key\<rparr>"] wf_RC6_Setup [of "s\<lparr>m_iSerialKey := key\<rparr>"]
  by (cases c) (simp_all add: Setup_def wf_static_def)

text \<open>A schedule depends on the serial key only, not on what the tables held before.\<close>

lemma RC5_Setup_cong:
  assumes "wf_static s" "wf_static s'" "m_iSerialKey s = m_iSerialKey s'"
  shows "m_uiKey_RC5 (RC5_Setup s) = m_uiKey_RC5 (RC5_Setup s')
       \<and> m_usKey_RC5 (RC5_Setup s) = m_usKey_RC5 (RC5_Setup s')"
proof -
  have "init_table RSA_P16 RSA_Q16 (m_uiKey_RC5 s) = init_table RSA_P16 RSA_Q16 (m_uiKey_RC5 s')"
    using assms by (subst (1 2) init_table_eq) (auto simp: wf_static_def RC5_KEYTABLES_def)
  with assms show ?thesis
    by (simp add: RC5_Setup_def RC5_KeySetup_def Let_def split: prod.splits)
qed

lemma RC6_Setup_cong:
  assumes "wf_static s" "wf_static s'" "m_iSerialKey s = m_iSerialKey s'"
  shows "m_uiKey_RC6 (RC6_Setup s) = m_uiKey_RC6 (RC6_Setup s')"
proof -
  have "init_table RSA_P32 RSA_Q32 (m_uiKey_RC6 s) = init_table RSA_P32 RSA_Q32 (m_uiKey_RC6 s')"
    using assms by (subst (1 2) init_table_eq) (auto simp: wf_static_def RC6_KEYTABLES_def)
  with assms show ?thesis
    by (simp add: RC6_Setup_def RC6_KeySetup_def Let_def split: prod.splits)
qed

section \<open>Whole buffers\<close>

lemma enc32_short_roundtrip:
  assumes "length xs < 8" "length (m_usKey_RC5 s) = RC5_KEYTABLES"
  shows "\<exists>ys. RC5_Encrypt32 s xs = Some ys \<and> length ys = length xs \<and> RC5_Decrypt32 s ys = Some xs"
proof (cases "length xs < 4")
  case True
  then show ?thesis
    by (simp add: RC5_Encrypt32_def RC5_Decrypt32_def rc5_enc32_loop.simps rc5_dec32_loop.simps)
next
  case False
  let ?b = "rc5_enc32_block s 0 (take 4 xs)"
  have us: "length (m_usKey_RC5 s) = 26" using assms(2) by (simp add: RC5_KEYTABLES_def)
  have r: "length (drop 4 xs) < 4" using assms(1) by simp
  have e: "RC5_Encrypt32 s xs = Some (?b @ drop 4 xs)"
    using False r us by (simp add: RC5_Encrypt32_def rc5_enc32_loop.simps)
  have "rc5_dec32_block s 26 ?b = take 4 xs"
    using rc5_block32_inverse [of "take 4 xs" 0 s] False us by simp
  then have "RC5_Decrypt32 s (?b @ drop 4 xs) = Some xs"
    using False r us
    by (simp add: RC5_Decrypt32_def RC5_KEYTABLES_def rc5_dec32_loop.simps [of s 26]
          rc5_dec32_loop.simps [of s 0] len_simps)
  with e False show ?thesis by (simp add: len_simps)
qed

lemma RC5_buffer_roundtrip:
  assumes "length (m_usKey_RC5 s) = RC5_KEYTABLES"
  shows "\<exists>ys. RC5_Encrypt s xs = Some ys \<and> length ys = length xs \<and> RC5_Decrypt s ys = Some xs"
proof (cases "length xs < 8")
  case True
  with enc32_short_roundtrip [OF True assms] show ?thesis
    by (auto simp: RC5_Encrypt_def RC5_Decrypt_def)
next
  case False
  obtain ys rest where m: "map_blocks 8 (rc5_enc64_block s) xs = (ys, rest)" by fastforce
  have l: "length ys + length rest = length xs \<and> length rest < 8"
    using map_blocks_length [OF _ m] by (simp add: len_simps)
  have xs: "xs = take (length ys) xs @ rest"
    using map_blocks_rest [OF _ m] by (simp add: len_simps)
  obtain zs where z: "RC5_Encrypt32 s rest = Some zs" "length zs = length rest"
      "RC5_Decrypt32 s zs = Some rest"
    using enc32_short_roundtrip [OF _ assms] l by blast
  have inv: "map_blocks 8 (rc5_dec64_block s) (ys @ tl') = (take (length ys) xs, tl')"
    if "length tl' < 8" for tl'
    using that m by (intro map_blocks_inverse [where f = "rc5_enc64_block s" and rest = rest])
      (auto simp: len_simps rc5_block64_inverse)
  show ?thesis
  proof (cases "rest = []")
    case True
    with False m l inv [of "[]"] xs show ?thesis
      by (auto simp: RC5_Encrypt_def RC5_Decrypt_def RC5_Encrypt64_def RC5_Decrypt64_def)
  next
    case nonempty: False
    with False m l inv [of zs] z xs show ?thesis
      by (auto simp: RC5_Encrypt_def RC5_Decrypt_def RC5_Encrypt64_def RC5_Decrypt64_def)
  qed
qed

text \<open>
  Decryption depends on the schedules and on the serial key only through the fields the two
  ends share.
\<close>

lemma RC5_Decrypt_cong:
  assumes "m_uiKey_RC5 s = m_uiKey_RC5 s'" "m_usKey_RC5 s = m_usKey_RC5 s'"
    "m_iSerialKey s = m_iSerialKey s'"
  shows "RC5_Decrypt s xs = RC5_Decrypt s' xs"
proof -
  have b: "rc5_dec64_block s = rc5_dec64_block s'" "rc5_dec32_block s = rc5_dec32_block s'"
    using assms by (auto simp: rc5_dec64_block_def rc5_dec32_block_def fun_eq_iff)
  have "rc5_dec32_loop s k xs = rc5_dec32_loop s' k xs" for k xs
    using assms b
    by (induction s k xs rule: rc5_dec32_loop.induct) (subst (1 2) rc5_dec32_loop.simps, auto)
  then have "RC5_Decrypt32 s = RC5_Decrypt32 s'" by (simp add: RC5_Decrypt32_def fun_eq_iff)
  with b show ?thesis by (simp add: RC5_Decrypt_def RC5_Decrypt64_def cong: if_cong)
qed

lemma RC6_buffer_roundtrip:
  assumes wf: "wf_static s" "wf_static s'"
    and same: "m_uiKey_RC6 s = m_uiKey_RC6 s'" "m_iSerialKey s = m_iSerialKey s'"
  shows "\<exists>ys s1 s2. RC6_Encrypt s xs = Some (ys, s1) \<and> length ys = length xs
           \<and> RC6_Decrypt s' ys = Some (xs, s2)"
proof -
  obtain ys rest where m: "map_blocks 16 (rc6_enc_block s) xs = (ys, rest)" by fastforce
  have l: "length ys + length rest = length xs \<and> length rest < 16"
    using map_blocks_length [OF _ m] by (simp add: len_simps)
  have xs: "xs = take (length ys) xs @ rest"
    using map_blocks_rest [OF _ m] by (simp add: len_simps)
  have blk: "rc6_dec_block s = rc6_dec_block s'"
    using same by (simp add: rc6_dec_block_def fun_eq_iff)
  have inv: "map_blocks 16 (rc6_dec_block s') (ys @ tl') = (take (length ys) xs, tl')"
    if "length tl' < 16" for tl'
    using that m unfolding blk [symmetric]
    by (intro map_blocks_inverse [where f = "rc6_enc_block s" and rest = rest])
      (auto simp: len_simps rc6_block_inverse)
  show ?thesis
  proof (cases "rest = []")
    case True
    with m l inv [of "[]"] xs show ?thesis by (auto simp: RC6_Encrypt_def RC6_Decrypt_def)
  next
    case False
    have "length (m_usKey_RC5 (RC5_Setup s)) = RC5_KEYTABLES"
      using wf_RC5_Setup [OF wf(1)] by (simp add: wf_static_def)
    from RC5_buffer_roundtrip [OF this, of rest] obtain zs
      where z: "RC5_Encrypt (RC5_Setup s) rest = Some zs" "length zs = length rest"
        "RC5_Decrypt (RC5_Setup s) zs = Some rest" by blast
    have "RC5_Decrypt (RC5_Setup s) zs = RC5_Decrypt (RC5_Setup s') zs"
      using RC5_Setup_cong [OF wf same(2)] same(2) by (intro RC5_Decrypt_cong) auto
    with z(3) have "RC5_Decrypt (RC5_Setup s') zs = Some rest" by simp
    with False m l inv [of zs] z(1,2) xs show ?thesis
      by (auto simp: RC6_Encrypt_def RC6_Decrypt_def Let_def)
  qed
qed

lemma make_CCrypt_cases:
  "make_CCrypt t key s =
    (let c = (if t = CRYPT_RC6 \<or> t = CRYPT_RC6_SERIAL then Cipher_RC6 else Cipher_RC5)
     in (c, Setup c key s))"
proof -
  have "unat t = 0 \<or> unat t = 1 \<or> unat t = 2 \<or> unat t = 3 \<or> unat t = 4 \<or> 5 \<le> unat t" by arith
  then show ?thesis
    by (elim disjE) (auto simp: make_CCrypt_def ChangeType_def m_kVtabs_def crypt_types Let_def
       word_unat_eq_iff)
qed

lemma Setup_serial [simp]: "m_iSerialKey (Setup c key s) = key"
  by (cases c) (simp_all add: Setup_def)

lemma Setup_RC6_cong:
  assumes "wf_static s" "wf_static s'"
  shows "m_uiKey_RC6 (Setup Cipher_RC6 key s) = m_uiKey_RC6 (Setup Cipher_RC6 key s')"
  unfolding Setup_def using assms by (simp add: RC6_Setup_cong wf_static_def)

lemma Setup_RC5_cong:
  assumes "wf_static s" "wf_static s'"
  shows "m_uiKey_RC5 (Setup Cipher_RC5 key s) = m_uiKey_RC5 (Setup Cipher_RC5 key s')
      \<and> m_usKey_RC5 (Setup Cipher_RC5 key s) = m_usKey_RC5 (Setup Cipher_RC5 key s')"
  unfolding Setup_def Let_def cipher.case by (rule RC5_Setup_cong) (use assms in \<open>auto simp: wf_static_def\<close>)

lemma cipher_roundtrip_lemma:
  assumes "wf_static s0" and "wf_static s1"
    and "make_CCrypt t key s0 = (c, s)" and "make_CCrypt t key s1 = (c', s')"
  shows "\<exists>ys sa sb. Encrypt c s xs = Some (ys, sa) \<and> length ys = length xs
           \<and> Decrypt c' s' ys = Some (xs, sb)"
proof -
  have c: "c' = c" and s: "s = Setup c key s0" "s' = Setup c key s1"
    using assms(3,4) by (auto simp: make_CCrypt_cases Let_def)
  have wf: "wf_static s" "wf_static s'" unfolding s using assms(1,2) by (auto intro: wf_Setup)
  have ser: "m_iSerialKey s = m_iSerialKey s'" by (simp add: s)
  show ?thesis
  proof (cases c)
    case Cipher_RC5
    have "length (m_usKey_RC5 s) = RC5_KEYTABLES" using wf(1) by (simp add: wf_static_def)
    from RC5_buffer_roundtrip [OF this, of xs] obtain ys
      where "RC5_Encrypt s xs = Some ys" "length ys = length xs" "RC5_Decrypt s ys = Some xs" by blast
    moreover have "RC5_Decrypt s ys = RC5_Decrypt s' ys"
      using Setup_RC5_cong [OF assms(1,2), of key] ser Cipher_RC5
      by (intro RC5_Decrypt_cong) (auto simp: s)
    ultimately show ?thesis using Cipher_RC5 c by (simp add: Encrypt_def Decrypt_def)
  next
    case Cipher_RC6
    have "m_uiKey_RC6 s = m_uiKey_RC6 s'"
      using Setup_RC6_cong [OF assms(1,2), of key] Cipher_RC6 by (simp add: s)
    from RC6_buffer_roundtrip [OF wf this ser, of xs] show ?thesis
      using Cipher_RC6 c by (simp add: Encrypt_def Decrypt_def)
  qed
qed

section \<open>Properties\<close>

text \<open>
  The TCP header obfuscation is a bijection on 32-bit headers and
  \<open>decrypt_tcp_header\<close> is its two-sided inverse.
\<close>

theorem tcp_header_bijective:
  "decrypt_tcp_header (encrypt_tcp_header h) = h \<and> encrypt_tcp_header (decrypt_tcp_header h) = h"
  by (simp add: decrypt_encrypt_tcp_header encrypt_decrypt_tcp_header)

text \<open>
  C10: For every cipher id (an id past the table falls back to RC5), every serial key and
  every buffer, of any length including tails that no block covers, encryption by a freshly
  set up cipher never reads out of range, keeps the length, and is undone by decryption with
  a cipher set up for the same id and key, whatever the shared schedules held before.
\<close>

theorem cipher_roundtrip:
  assumes "wf_static s0" and "wf_static s1"
    and "make_CCrypt t key s0 = (c, s)" and "make_CCrypt t key s1 = (c', s')"
  shows "\<exists>ys sa sb. Encrypt c s xs = Some (ys, sa) \<and> length ys = length xs
           \<and> Decrypt c' s' ys = Some (xs, sb)"
  using assms by (rule cipher_roundtrip_lemma)

definition zero_static :: cc_static where
  "zero_static = \<lparr>m_usKey_RC5 = replicate 26 0, m_uiKey_RC5 = replicate 26 0,
                   m_uiKey_RC6 = replicate 84 0, m_iSerialKey = 0\<rparr>"

lemma wf_zero_static [simp]: "wf_static zero_static"
  by (simp add: wf_static_def zero_static_def cipher_params)

theorem cipher_roundtrip_witness:
  "\<exists>ys sa sb. Encrypt Cipher_RC6 (Setup Cipher_RC6 77 zero_static) (replicate 21 9) = Some (ys, sa)
     \<and> length ys = length (replicate 21 (9 :: u8))
     \<and> Decrypt Cipher_RC6 (Setup Cipher_RC6 77 zero_static) ys = Some (replicate 21 9, sb)"
  by (rule cipher_roundtrip [where t = CRYPT_RC6_SERIAL and key = 77, OF wf_zero_static wf_zero_static])
     (simp_all add: make_CCrypt_cases)

text \<open>
  As the comment in \<open>RC5_Encrypt32\<close> claims, the 16-bit schedule is the truncation of the
  32-bit schedule after every setup.
\<close>

theorem rc5_schedules_agree:
  assumes "wf_static s"
  shows "m_usKey_RC5 (RC5_Setup s) = map ucast (m_uiKey_RC5 (RC5_Setup s)) \<and> wf_static (RC5_Setup s)"
  using assms RC5_Setup_tables [of s] wf_RC5_Setup [of s] by (simp add: wf_static_def)

theorem rc5_schedules_agree_witness:
  "m_usKey_RC5 (RC5_Setup zero_static) = map ucast (m_uiKey_RC5 (RC5_Setup zero_static))
     \<and> wf_static (RC5_Setup zero_static)"
  by (rule rc5_schedules_agree) simp

end
