(* ===== verification/Message.thy ===== *)
theory Message
  imports Crypt
begin

text \<open>
  The packet layer: the bit fields of the two headers (\<open>BaseProtocol.h\<close>) and the message
  object (\<open>CMessage.h\<close>, \<open>CMessage.cpp\<close>), whose buffer holds the TCP header in bytes 0 to 3,
  the command header in bytes 4 to 7 and the payload behind them; the header pointers of the
  code always point at offsets 0 and 4 of that buffer. Random header padding is an argument.
  A read past the end of the received bytes is \<open>None\<close>.
\<close>

section \<open>Bit fields\<close>

definition get_bits :: "nat \<Rightarrow> nat \<Rightarrow> u32 \<Rightarrow> u32" where
  "get_bits lo n w = take_bit n (drop_bit lo w)"

definition set_bits :: "nat \<Rightarrow> nat \<Rightarrow> u32 \<Rightarrow> u32 \<Rightarrow> u32" where
  "set_bits lo n v w = (w AND NOT (push_bit lo (mask n))) OR push_bit lo (take_bit n v)"

lemma get_set_same: "lo + n \<le> 32 \<Longrightarrow> get_bits lo n (set_bits lo n v w) = take_bit n v"
  by (rule bit_word_eqI) (auto simp: get_bits_def set_bits_def bit_simps)

lemma get_set_other:
  assumes "lo + n \<le> lo' \<or> lo' + n' \<le> lo"
  shows "get_bits lo n (set_bits lo' n' v w) = get_bits lo n w"
proof (rule bit_word_eqI)
  fix i
  have "bit w (lo + i) \<Longrightarrow> lo + i < 32" using bit_imp_le_length [of w "lo + i"] by simp
  with assms show "bit (get_bits lo n (set_bits lo' n' v w)) i = bit (get_bits lo n w) i"
    by (auto simp: get_bits_def set_bits_def bit_simps)
qed

lemma get_bits_bound: "n < 32 \<Longrightarrow> unat (get_bits lo n w) < 2 ^ n"
  unfolding get_bits_def by (simp add: unsigned_take_bit_eq take_bit_nat_less_exp)

text \<open>\<open>STcpPacketHeader\<close>: bogus 4, sessionId 14, size 11, crypt 3 bits, from the low end.\<close>

definition hdr_bogus :: "u32 \<Rightarrow> u32" where "hdr_bogus = get_bits 0 4"
definition hdr_sessionId :: "u32 \<Rightarrow> u32" where "hdr_sessionId = get_bits 4 14"
definition hdr_size :: "u32 \<Rightarrow> u32" where "hdr_size = get_bits 18 11"
definition hdr_crypt :: "u32 \<Rightarrow> u32" where "hdr_crypt = get_bits 29 3"
definition set_hdr_bogus :: "u32 \<Rightarrow> u32 \<Rightarrow> u32" where "set_hdr_bogus = set_bits 0 4"
definition set_hdr_sessionId :: "u32 \<Rightarrow> u32 \<Rightarrow> u32" where "set_hdr_sessionId = set_bits 4 14"
definition set_hdr_size :: "u32 \<Rightarrow> u32 \<Rightarrow> u32" where "set_hdr_size = set_bits 18 11"
definition set_hdr_crypt :: "u32 \<Rightarrow> u32 \<Rightarrow> u32" where "set_hdr_crypt = set_bits 29 3"

text \<open>\<open>SCommandHeader\<close>: bogus 4, mission 2, order 10, extra 8, option 8 bits.\<close>

definition cmd_bogus :: "u32 \<Rightarrow> u32" where "cmd_bogus = get_bits 0 4"
definition cmd_mission :: "u32 \<Rightarrow> u32" where "cmd_mission = get_bits 4 2"
definition cmd_order :: "u32 \<Rightarrow> u32" where "cmd_order = get_bits 6 10"
definition cmd_extra :: "u32 \<Rightarrow> u32" where "cmd_extra = get_bits 16 8"
definition cmd_option :: "u32 \<Rightarrow> u32" where "cmd_option = get_bits 24 8"
definition set_cmd_bogus :: "u32 \<Rightarrow> u32 \<Rightarrow> u32" where "set_cmd_bogus = set_bits 0 4"
definition set_cmd_mission :: "u32 \<Rightarrow> u32 \<Rightarrow> u32" where "set_cmd_mission = set_bits 4 2"
definition set_cmd_order :: "u32 \<Rightarrow> u32 \<Rightarrow> u32" where "set_cmd_order = set_bits 6 10"
definition set_cmd_extra :: "u32 \<Rightarrow> u32 \<Rightarrow> u32" where "set_cmd_extra = set_bits 16 8"
definition set_cmd_option :: "u32 \<Rightarrow> u32 \<Rightarrow> u32" where "set_cmd_option = set_bits 24 8"

lemmas hdr_fields = hdr_bogus_def hdr_sessionId_def hdr_size_def hdr_crypt_def
  set_hdr_bogus_def set_hdr_sessionId_def set_hdr_size_def set_hdr_crypt_def
lemmas cmd_fields = cmd_bogus_def cmd_mission_def cmd_order_def cmd_extra_def cmd_option_def
  set_cmd_bogus_def set_cmd_mission_def set_cmd_order_def set_cmd_extra_def set_cmd_option_def

section \<open>The message object\<close>

datatype enc_method = EncDefault | EncUser | EncNone

record cmessage =
  m_buffer :: bytes
  m_crypt :: int
  m_encrypt_method :: enc_method

definition tcp_header_size :: nat where "tcp_header_size = 4"
definition command_header_size :: nat where "command_header_size = 4"
definition minSize :: nat where "minSize = tcp_header_size + command_header_size"

lemmas msg_sizes = tcp_header_size_def command_header_size_def minSize_def

definition m_header :: "cmessage \<Rightarrow> u32" where "m_header m = le_word (take 4 (m_buffer m))"
definition m_command :: "cmessage \<Rightarrow> u32" where "m_command m = le_word (take 4 (drop 4 (m_buffer m)))"

definition put_header :: "u32 \<Rightarrow> cmessage \<Rightarrow> cmessage" where
  "put_header h m = m\<lparr>m_buffer := le_bytes 4 h @ drop 4 (m_buffer m)\<rparr>"

definition put_command :: "u32 \<Rightarrow> cmessage \<Rightarrow> cmessage" where
  "put_command c m = m\<lparr>m_buffer := take 4 (m_buffer m) @ le_bytes 4 c @ drop 8 (m_buffer m)\<rparr>"

definition resize :: "nat \<Rightarrow> bytes \<Rightarrow> bytes" where
  "resize n b = take n b @ replicate (n - length b) 0"

definition dataSize :: "cmessage \<Rightarrow> nat" where "dataSize m = length (m_buffer m) - minSize"
definition GetData :: "cmessage \<Rightarrow> bytes" where "GetData m = drop minSize (m_buffer m)"

definition generateBogus :: "u32 \<Rightarrow> u32 \<Rightarrow> cmessage \<Rightarrow> cmessage" where
  "generateBogus r1 r2 m =
    (let m = put_header (set_hdr_bogus (r1 AND 0xF) (m_header m)) m
     in put_command (set_cmd_bogus (r2 AND 0xF) (m_command m)) m)"

definition new_CMessage :: "u32 \<Rightarrow> u32 \<Rightarrow> int \<Rightarrow> cmessage" where
  "new_CMessage r1 r2 crypt_key =
    generateBogus r1 r2 \<lparr>m_buffer = resize minSize [], m_crypt = crypt_key, m_encrypt_method = EncUser\<rparr>"

definition SetEncryptMethod :: "enc_method \<Rightarrow> cmessage \<Rightarrow> cmessage" where
  "SetEncryptMethod e m = m\<lparr>m_encrypt_method := e\<rparr>"

definition SetSession :: "u16 \<Rightarrow> cmessage \<Rightarrow> cmessage" where
  "SetSession sid m = put_header (set_hdr_sessionId (ucast sid) (m_header m)) m"

definition SetOrder :: "u32 \<Rightarrow> cmessage \<Rightarrow> cmessage" where
  "SetOrder v m = put_command (set_cmd_order v (m_command m)) m"
definition SetMission :: "u32 \<Rightarrow> cmessage \<Rightarrow> cmessage" where
  "SetMission v m = put_command (set_cmd_mission v (m_command m)) m"
definition SetExtra :: "u32 \<Rightarrow> cmessage \<Rightarrow> cmessage" where
  "SetExtra v m = put_command (set_cmd_extra v (m_command m)) m"
definition SetOption :: "u32 \<Rightarrow> cmessage \<Rightarrow> cmessage" where
  "SetOption v m = put_command (set_cmd_option v (m_command m)) m"

definition SetCommand :: "u32 \<Rightarrow> u32 \<Rightarrow> u32 \<Rightarrow> u32 \<Rightarrow> cmessage \<Rightarrow> cmessage" where
  "SetCommand order mission extra option m =
    SetOption option (SetExtra extra (SetMission mission (SetOrder order m)))"

definition GetSession :: "cmessage \<Rightarrow> u32" where "GetSession m = hdr_sessionId (m_header m)"
definition GetMission :: "cmessage \<Rightarrow> u32" where "GetMission m = cmd_mission (m_command m)"
definition GetOrder :: "cmessage \<Rightarrow> u32" where "GetOrder m = cmd_order (m_command m)"
definition GetExtra :: "cmessage \<Rightarrow> u32" where "GetExtra m = cmd_extra (m_command m)"
definition GetOption :: "cmessage \<Rightarrow> u32" where "GetOption m = cmd_option (m_command m)"

definition SetData :: "bytes \<Rightarrow> cmessage \<Rightarrow> cmessage" where
  "SetData d m = m\<lparr>m_buffer := take minSize (resize (minSize + length d) (m_buffer m)) @ d\<rparr>"

text \<open>A temporary cipher object, set up and used once; the shared schedules are threaded.\<close>

definition crypt_encrypt :: "u32 \<Rightarrow> u32 \<Rightarrow> cc_static \<Rightarrow> bytes \<Rightarrow> (bytes \<times> cc_static) option" where
  "crypt_encrypt t key s xs = (case make_CCrypt t key s of (c, s') \<Rightarrow> Encrypt c s' xs)"

definition crypt_decrypt :: "u32 \<Rightarrow> u32 \<Rightarrow> cc_static \<Rightarrow> bytes \<Rightarrow> (bytes \<times> cc_static) option" where
  "crypt_decrypt t key s xs = (case make_CCrypt t key s of (c, s') \<Rightarrow> Decrypt c s' xs)"

definition cipher_key :: "u32 \<Rightarrow> int \<Rightarrow> u32" where
  "cipher_key t k = (if t = CRYPT_RC5_SERIAL \<or> t = CRYPT_RC6_SERIAL then word_of_int k else 0)"

definition choose_crypt :: "int \<Rightarrow> enc_method \<Rightarrow> nat \<Rightarrow> u32 \<Rightarrow> u32" where
  "choose_crypt k method partial_size current =
    (if k < 0 then CRYPT_NONE
     else if partial_size < 16 \<and> method = EncDefault then CRYPT_RC5
     else if partial_size < 16 \<and> method = EncUser then CRYPT_RC5_SERIAL
     else if partial_size \<ge> 16 \<and> method = EncDefault then CRYPT_RC6
     else if partial_size \<ge> 16 \<and> method = EncUser then CRYPT_RC6_SERIAL
     else current)"

definition GenerateMessage :: "cmessage \<Rightarrow> cc_static \<Rightarrow> (bytes \<times> cmessage \<times> cc_static) option" where
  "GenerateMessage m s =
    (let data_size = dataSize m;
         partial_size = data_size + command_header_size;
         h = set_hdr_crypt (choose_crypt (m_crypt m) (m_encrypt_method m) partial_size
               (hdr_crypt (m_header m))) (m_header m);
         h = set_hdr_size (of_nat (partial_size + tcp_header_size)) h;
         t = hdr_crypt h;
         body = drop tcp_header_size (m_buffer m)
     in case (if t \<noteq> CRYPT_NONE then crypt_encrypt t (cipher_key t (m_crypt m)) s body
              else Some (body, s)) of
          None \<Rightarrow> None
        | Some (body', s') \<Rightarrow>
            (case (if m_crypt m \<ge> 0 then crypt_encrypt CRYPT_RC5 0 s' (le_bytes 4 (encrypt_tcp_header h))
                   else Some (le_bytes 4 h, s')) of
               None \<Rightarrow> None
             | Some (hb, s'') \<Rightarrow> Some (hb @ body', m\<lparr>m_buffer := hb @ body'\<rparr>, s'')))"

definition ProcessMessage :: "bytes \<Rightarrow> cmessage \<Rightarrow> cc_static \<Rightarrow> (cmessage \<times> cc_static) option" where
  "ProcessMessage data m s =
    (if length data < tcp_header_size then Some (m, s)
     else let m = m\<lparr>m_buffer := resize (minSize + length data) (m_buffer m)\<rparr> in
     case (if m_crypt m < 0 then Some (take 4 data, s)
           else crypt_decrypt CRYPT_RC5 0 s (take 4 data)) of
       None \<Rightarrow> None
     | Some (hb, s) \<Rightarrow>
        let m = put_header (le_word hb) m;
            messageSize = unat (ucast (hdr_size (m_header m) - of_nat tcp_header_size) :: u16);
            t = hdr_crypt (m_header m)
        in if messageSize = 0 then Some (m, s)
           else if unat CRYPT_RC6_SERIAL < unat t then Some (m, s)
           else if length data < tcp_header_size + messageSize then None
           else let body = take messageSize (drop tcp_header_size data) in
             case (if t \<noteq> CRYPT_NONE then crypt_decrypt t (cipher_key t (m_crypt m)) s body
                   else Some (body, s)) of
               None \<Rightarrow> None
             | Some (plain, s) \<Rightarrow>
                 if length plain < 4 then None
                 else let m = put_command (le_word (take 4 plain)) m in
                   if command_header_size < messageSize
                   then Some (SetData (drop command_header_size plain) m, s)
                   else Some (SetData [] m, s))"

definition recv_CMessage :: "bytes \<Rightarrow> int \<Rightarrow> cc_static \<Rightarrow> (cmessage \<times> cc_static) option" where
  "recv_CMessage data crypt_key s =
    ProcessMessage data
      \<lparr>m_buffer = resize (minSize + length data) [], m_crypt = crypt_key, m_encrypt_method = EncUser\<rparr> s"

section \<open>Ciphers used once\<close>

lemma wf_make_CCrypt: "wf_static s \<Longrightarrow> make_CCrypt t key s = (c, s') \<Longrightarrow> wf_static s'"
  by (auto simp: make_CCrypt_cases Let_def intro: wf_Setup)

lemma wf_Encrypt: "wf_static s \<Longrightarrow> Encrypt c s xs = Some (ys, s') \<Longrightarrow> wf_static s'"
  by (cases c) (auto simp: Encrypt_def RC6_Encrypt_def Let_def intro: wf_RC5_Setup split: prod.splits if_splits)

lemma wf_Decrypt: "wf_static s \<Longrightarrow> Decrypt c s xs = Some (ys, s') \<Longrightarrow> wf_static s'"
  by (cases c) (auto simp: Decrypt_def RC6_Decrypt_def Let_def intro: wf_RC5_Setup split: prod.splits if_splits)

text \<open>Sealed bytes that open to the given plain text under an id and key in any cipher state.\<close>

definition opens_to :: "u32 \<Rightarrow> u32 \<Rightarrow> bytes \<Rightarrow> bytes \<Rightarrow> bool" where
  "opens_to t key ys xs \<longleftrightarrow>
     (\<forall>s. wf_static s \<longrightarrow> (\<exists>s'. crypt_decrypt t key s ys = Some (xs, s') \<and> wf_static s'))"

lemma opens_toE:
  assumes "opens_to t key ys xs" "wf_static s"
  obtains s' where "crypt_decrypt t key s ys = Some (xs, s')" "wf_static s'"
  using assms unfolding opens_to_def by blast

lemma crypt_roundtrip:
  assumes "wf_static s"
  obtains ys s1 where "crypt_encrypt t key s xs = Some (ys, s1)" "length ys = length xs" "wf_static s1"
    "opens_to t key ys xs"
proof -
  obtain c s0 where mk: "make_CCrypt t key s = (c, s0)" by fastforce
  from cipher_roundtrip_lemma [OF assms assms mk mk, of xs] obtain ys s1
    where e: "Encrypt c s0 xs = Some (ys, s1)" "length ys = length xs" by blast
  have "\<exists>s3. crypt_decrypt t key s2 ys = Some (xs, s3) \<and> wf_static s3" if wf2: "wf_static s2" for s2
  proof -
    obtain c2 s02 where mk2: "make_CCrypt t key s2 = (c2, s02)" by fastforce
    from cipher_roundtrip_lemma [OF assms wf2 mk mk2, of xs] e obtain sb
      where d: "Decrypt c2 s02 ys = Some (xs, sb)" by auto
    moreover have "wf_static sb" using wf_Decrypt [OF wf_make_CCrypt [OF wf2 mk2] d] .
    ultimately show ?thesis by (simp add: crypt_decrypt_def mk2)
  qed
  moreover have "wf_static s1" using wf_Encrypt [OF wf_make_CCrypt [OF assms mk] e(1)] .
  ultimately show ?thesis using e by (intro that [of ys s1]) (auto simp: crypt_encrypt_def mk opens_to_def)
qed

text \<open>Decryption is total: it never reads out of range on any input.\<close>

lemma RC5_Decrypt_total:
  assumes "length (m_usKey_RC5 s) = RC5_KEYTABLES"
  shows "\<exists>ys. RC5_Decrypt s xs = Some ys \<and> length ys = length xs"
proof -
  have short: "\<exists>ys. RC5_Decrypt32 s zs = Some ys \<and> length ys = length zs" if "length zs < 8" for zs
    using that assms
    by (auto simp: RC5_Decrypt32_def rc5_dec32_loop.simps [of s 26] RC5_KEYTABLES_def
        rc5_dec32_loop.simps [of s 0] len_simps)
  obtain ys rest where m: "map_blocks 8 (rc5_dec64_block s) xs = (ys, rest)" by fastforce
  have l: "length ys + length rest = length xs \<and> length rest < 8"
    using map_blocks_length [OF _ m] by (simp add: len_simps)
  with m short [of rest] short [of xs] show ?thesis
    by (auto simp: RC5_Decrypt_def RC5_Decrypt64_def)
qed

lemma crypt_decrypt_total:
  assumes "wf_static s"
  shows "\<exists>ys s1. crypt_decrypt t key s xs = Some (ys, s1) \<and> length ys = length xs \<and> wf_static s1"
proof -
  obtain c s0 where mk: "make_CCrypt t key s = (c, s0)" by fastforce
  have wf: "wf_static s0" using wf_make_CCrypt [OF assms mk] .
  have "\<exists>ys s1. Decrypt c s0 xs = Some (ys, s1) \<and> length ys = length xs"
  proof (cases c)
    case Cipher_RC5
    with RC5_Decrypt_total [of s0 xs] wf show ?thesis by (auto simp: Decrypt_def wf_static_def)
  next
    case Cipher_RC6
    obtain ys rest where m: "map_blocks 16 (rc6_dec_block s0) xs = (ys, rest)" by fastforce
    have l: "length ys + length rest = length xs"
      using map_blocks_length [OF _ m] by (simp add: len_simps)
    have "length (m_usKey_RC5 (RC5_Setup s0)) = RC5_KEYTABLES"
      using wf_RC5_Setup [OF wf] by (simp add: wf_static_def)
    from RC5_Decrypt_total [OF this, of rest] m l Cipher_RC6 show ?thesis
      by (auto simp: Decrypt_def RC6_Decrypt_def Let_def)
  qed
  then show ?thesis using wf_Decrypt [OF wf] by (fastforce simp: crypt_decrypt_def mk)
qed

section \<open>Buffer images\<close>

definition wf_msg :: "cmessage \<Rightarrow> bool" where
  "wf_msg m \<longleftrightarrow> minSize \<le> length (m_buffer m)"

lemma m_header_put_header [simp]: "m_header (put_header h m) = h"
  by (simp add: m_header_def put_header_def)

lemma m_command_put_header [simp]: "wf_msg m \<Longrightarrow> m_command (put_header h m) = m_command m"
  by (simp add: m_command_def put_header_def wf_msg_def msg_sizes)

lemma m_header_put_command [simp]: "wf_msg m \<Longrightarrow> m_header (put_command c m) = m_header m"
  by (simp add: m_header_def put_command_def wf_msg_def msg_sizes)

lemma m_command_put_command [simp]: "wf_msg m \<Longrightarrow> m_command (put_command c m) = c"
  by (simp add: m_command_def put_command_def wf_msg_def msg_sizes)

lemma wf_put_header [simp]: "wf_msg m \<Longrightarrow> wf_msg (put_header h m)"
  by (simp add: put_header_def wf_msg_def msg_sizes)

lemma wf_put_command [simp]: "wf_msg m \<Longrightarrow> wf_msg (put_command c m)"
  by (simp add: put_command_def wf_msg_def msg_sizes)

lemma GetData_put [simp]:
  "wf_msg m \<Longrightarrow> GetData (put_header h m) = GetData m"
  "wf_msg m \<Longrightarrow> GetData (put_command c m) = GetData m"
  by (simp_all add: GetData_def put_header_def put_command_def wf_msg_def msg_sizes)

lemma SetData_image:
  assumes "wf_msg m"
  shows "GetData (SetData d m) = d" "m_header (SetData d m) = m_header m"
    "m_command (SetData d m) = m_command m" "wf_msg (SetData d m)" "m_crypt (SetData d m) = m_crypt m"
  using assms
  by (auto simp: SetData_def GetData_def m_header_def m_command_def resize_def wf_msg_def msg_sizes min_def drop_take)

lemma m_crypt_put [simp]: "m_crypt (put_header h m) = m_crypt m" "m_crypt (put_command h m) = m_crypt m"
  by (simp_all add: put_header_def put_command_def)

lemma buffer_parts:
  assumes "wf_msg m"
  shows "m_buffer m = le_bytes 4 (m_header m) @ le_bytes 4 (m_command m) @ GetData m"
proof -
  have "m_buffer m = take 4 (m_buffer m) @ take 4 (drop 4 (m_buffer m)) @ drop 8 (m_buffer m)"
    using append_take_drop_id [of 4 "m_buffer m"] append_take_drop_id [of 4 "drop 4 (m_buffer m)"] by simp
  with assms show ?thesis
    by (simp add: m_header_def m_command_def GetData_def wf_msg_def msg_sizes image_u32)
qed

section \<open>Sending and receiving\<close>

text \<open>The header a message is sent under.\<close>

definition sent_header :: "cmessage \<Rightarrow> u32" where
  "sent_header m =
    (let partial_size = dataSize m + command_header_size
     in set_hdr_size (of_nat (partial_size + tcp_header_size))
          (set_hdr_crypt (choose_crypt (m_crypt m) (m_encrypt_method m) partial_size
             (hdr_crypt (m_header m))) (m_header m)))"

lemma GenerateMessage_sent:
  "GenerateMessage m s =
    (let h = sent_header m; t = hdr_crypt h; body = drop tcp_header_size (m_buffer m)
     in case (if t \<noteq> CRYPT_NONE then crypt_encrypt t (cipher_key t (m_crypt m)) s body
              else Some (body, s)) of
          None \<Rightarrow> None
        | Some (body', s') \<Rightarrow>
            (case (if m_crypt m \<ge> 0 then crypt_encrypt CRYPT_RC5 0 s' (le_bytes 4 (encrypt_tcp_header h))
                   else Some (le_bytes 4 h, s')) of
               None \<Rightarrow> None
             | Some (hb, s'') \<Rightarrow> Some (hb @ body', m\<lparr>m_buffer := hb @ body'\<rparr>, s'')))"
  by (simp only: GenerateMessage_def sent_header_def Let_def)

lemma sent_header_size:
  assumes "wf_msg m" "length (m_buffer m) < 2048"
  shows "unat (hdr_size (sent_header m)) = length (m_buffer m)"
proof -
  have "dataSize m + command_header_size + tcp_header_size = length (m_buffer m)"
    using assms(1) by (simp add: dataSize_def wf_msg_def msg_sizes)
  then have "hdr_size (sent_header m) = take_bit 11 (of_nat (length (m_buffer m)))"
    by (simp add: sent_header_def hdr_fields get_set_same del: of_nat_add)
  with assms(2) show ?thesis
    by (simp add: unsigned_take_bit_eq unat_of_nat take_bit_nat_eq_self)
qed

lemma sent_header_session: "hdr_sessionId (sent_header m) = hdr_sessionId (m_header m)"
  by (simp add: sent_header_def hdr_fields get_set_other)

lemma take_bit_3_crypt: "take_bit 3 (choose_crypt k e n (hdr_crypt h)) = choose_crypt k e n (hdr_crypt h)"
  by (auto simp: choose_crypt_def crypt_types hdr_fields get_bits_def take_bit_eq_mask mask_eq_exp_minus_1)

lemma sent_header_crypt:
  "hdr_crypt (sent_header m) = choose_crypt (m_crypt m) (m_encrypt_method m)
      (dataSize m + command_header_size) (hdr_crypt (m_header m))"
proof -
  have "hdr_crypt (sent_header m) = take_bit 3 (choose_crypt (m_crypt m) (m_encrypt_method m)
      (dataSize m + command_header_size) (hdr_crypt (m_header m)))"
    by (simp add: sent_header_def hdr_fields get_set_same get_set_other)
  then show ?thesis by (simp only: take_bit_3_crypt)
qed

lemma send_plain:
  assumes "wf_msg m" "m_crypt m < 0"
  shows "GenerateMessage m s =
    (let raw = le_bytes 4 (sent_header m) @ le_bytes 4 (m_command m) @ GetData m
     in Some (raw, m\<lparr>m_buffer := raw\<rparr>, s))"
proof -
  have "hdr_crypt (sent_header m) = CRYPT_NONE"
    using assms(2) by (simp add: sent_header_crypt choose_crypt_def)
  moreover have "drop tcp_header_size (m_buffer m) = le_bytes 4 (m_command m) @ GetData m"
    by (subst buffer_parts [OF assms(1)]) (simp add: msg_sizes)
  ultimately show ?thesis
    using assms(2) by (simp add: GenerateMessage_sent Let_def)
qed

lemma send_encrypted:
  assumes "wf_msg m" "0 \<le> m_crypt m" "wf_static s"
  obtains hb body s1 s2 where
    "GenerateMessage m s = Some (hb @ body, m\<lparr>m_buffer := hb @ body\<rparr>, s2)" "wf_static s2"
    "length hb = 4" "length body = length (m_buffer m) - 4"
    "opens_to CRYPT_RC5 0 hb (le_bytes 4 (encrypt_tcp_header (sent_header m)))"
    "hdr_crypt (sent_header m) \<noteq> CRYPT_NONE \<Longrightarrow>
       opens_to (hdr_crypt (sent_header m)) (cipher_key (hdr_crypt (sent_header m)) (m_crypt m)) body
         (le_bytes 4 (m_command m) @ GetData m)"
    "hdr_crypt (sent_header m) = CRYPT_NONE \<Longrightarrow> body = le_bytes 4 (m_command m) @ GetData m"
proof -
  let ?t = "hdr_crypt (sent_header m)"
  let ?k = "cipher_key ?t (m_crypt m)"
  let ?plain = "le_bytes 4 (m_command m) @ GetData m"
  have plain: "drop tcp_header_size (m_buffer m) = ?plain"
    by (subst buffer_parts [OF assms(1)]) (simp add: msg_sizes)
  have lp: "length ?plain = length (m_buffer m) - 4"
    using plain by (metis length_drop tcp_header_size_def)
  obtain body s1 where b: "(if ?t \<noteq> CRYPT_NONE then crypt_encrypt ?t ?k s ?plain else Some (?plain, s)) = Some (body, s1)"
      "length body = length ?plain" "wf_static s1"
      "?t \<noteq> CRYPT_NONE \<Longrightarrow> opens_to ?t ?k body ?plain"
      "?t = CRYPT_NONE \<Longrightarrow> body = ?plain"
  proof (cases "?t = CRYPT_NONE")
    case True
    then show ?thesis using assms(3) by (intro that [of ?plain s]) auto
  next
    case False
    from crypt_roundtrip [OF assms(3), of ?t ?k ?plain] obtain ys s1 where
      "crypt_encrypt ?t ?k s ?plain = Some (ys, s1)" "length ys = length ?plain" "wf_static s1"
      "opens_to ?t ?k ys ?plain" by blast
    with False show ?thesis by (intro that [of ys s1]) auto
  qed
  from crypt_roundtrip [OF b(3), of CRYPT_RC5 0 "le_bytes 4 (encrypt_tcp_header (sent_header m))"]
  obtain hb s2 where h: "crypt_encrypt CRYPT_RC5 0 s1 (le_bytes 4 (encrypt_tcp_header (sent_header m))) = Some (hb, s2)"
      "length hb = length (le_bytes 4 (encrypt_tcp_header (sent_header m)))" "wf_static s2"
      "opens_to CRYPT_RC5 0 hb (le_bytes 4 (encrypt_tcp_header (sent_header m)))" by blast
  have "GenerateMessage m s = Some (hb @ body, m\<lparr>m_buffer := hb @ body\<rparr>, s2)"
    using assms(2) b(1) h(1) unfolding GenerateMessage_sent Let_def plain
    by simp
  then show ?thesis using b h lp by (intro that [of hb body s2]) auto
qed

lemma framed_message_size:
  assumes "unat (hdr_size h) = n" "8 \<le> n"
  shows "unat (ucast (hdr_size h - 4) :: u16) = n - 4"
proof -
  have "unat (hdr_size h) < 2 ^ 11" unfolding hdr_fields by (rule get_bits_bound) simp
  moreover have "unat (hdr_size h - 4) = unat (hdr_size h) - 4"
    using assms by (simp add: unat_sub_if' word_le_nat_alt)
  ultimately show ?thesis using assms
    by (simp add: unsigned_ucast_eq take_bit_nat_eq_self)
qed

text \<open>The first four bytes of a received packet as a session with key \<open>k\<close> reads them.\<close>

definition read_header :: "int \<Rightarrow> cc_static \<Rightarrow> bytes \<Rightarrow> (bytes \<times> cc_static) option" where
  "read_header k s data =
    (if k < 0 then Some (take 4 data, s) else crypt_decrypt CRYPT_RC5 0 s (take 4 data))"

lemma read_header_total:
  assumes "wf_static s" "4 \<le> length data"
  obtains h :: u32 and s1 where "read_header k s data = Some (le_bytes 4 h, s1)" "wf_static s1"
proof -
  obtain hb s1 where r: "read_header k s data = Some (hb, s1)" "length hb = 4" "wf_static s1"
    using crypt_decrypt_total [OF assms(1), of CRYPT_RC5 0 "take 4 data"] assms
    by (cases "k < 0") (auto simp: read_header_def)
  from r(2) have "le_bytes 4 (le_word hb :: u32) = hb" by (rule image_u32)
  with r show ?thesis by (intro that [of "le_word hb" s1]) auto
qed

lemma recv_framed:
  assumes h: "read_header k s data = Some (le_bytes 4 h, s1)"
    and sz: "unat (hdr_size h) = length data" "8 \<le> length data"
  defines "m0 \<equiv> put_header h \<lparr>m_buffer = replicate (8 + length data) 0, m_crypt = k, m_encrypt_method = EncUser\<rparr>"
  shows "recv_CMessage data k s =
    (if 4 < unat (hdr_crypt h) then Some (m0, s1)
     else case (if hdr_crypt h \<noteq> CRYPT_NONE
                then crypt_decrypt (hdr_crypt h) (cipher_key (hdr_crypt h) k) s1 (drop 4 data)
                else Some (drop 4 data, s1)) of
       None \<Rightarrow> None
     | Some (plain, s2) \<Rightarrow>
         if length plain < 4 then None
         else let m = put_command (le_word (take 4 plain)) m0
              in Some (SetData (if 4 < length data - 4 then drop 4 plain else []) m, s2))"
proof -
  have ms: "unat (ucast (hdr_size h - 4) :: u16) = length data - 4"
    using framed_message_size sz by blast
  show ?thesis
    using h sz(2) unfolding recv_CMessage_def ProcessMessage_def read_header_def
    by (simp add: Let_def resize_def m0_def ms minSize_def
        tcp_header_size_def command_header_size_def CRYPT_RC6_SERIAL_def cong: if_cong option.case_cong)
qed

section \<open>Properties\<close>

text \<open>
  The command fields are independent bit fields: after \<open>SetCommand\<close> every getter
  returns the value set, truncated to the width of its field, and session id and payload are
  untouched.
\<close>

theorem set_command_fields:
  assumes "wf_msg m"
  shows "GetOrder (SetCommand o' mi ex op m) = take_bit 10 o'
    \<and> GetMission (SetCommand o' mi ex op m) = take_bit 2 mi
    \<and> GetExtra (SetCommand o' mi ex op m) = take_bit 8 ex
    \<and> GetOption (SetCommand o' mi ex op m) = take_bit 8 op
    \<and> GetSession (SetCommand o' mi ex op m) = GetSession m
    \<and> GetData (SetCommand o' mi ex op m) = GetData m"
  using assms
  by (simp add: SetCommand_def SetOrder_def SetMission_def SetExtra_def SetOption_def GetOrder_def
      GetMission_def GetExtra_def GetOption_def GetSession_def cmd_fields get_set_same get_set_other)

lemma wf_new_CMessage [simp]: "wf_msg (new_CMessage r1 r2 k)"
  by (simp add: new_CMessage_def generateBogus_def Let_def wf_msg_def msg_sizes resize_def put_header_def
      put_command_def)

lemma m_crypt_new_CMessage [simp]: "m_crypt (new_CMessage r1 r2 k) = k"
  by (simp add: new_CMessage_def generateBogus_def Let_def)

theorem set_command_fields_witness:
  "GetOrder (SetCommand 281 0 1 7 (new_CMessage 3 4 5)) = 281
     \<and> GetMission (SetCommand 281 0 1 7 (new_CMessage 3 4 5)) = 0"
  using set_command_fields [OF wf_new_CMessage, of 281 0 1 7 3 4 5]
  by (simp add: take_bit_eq_mask mask_eq_exp_minus_1)

text \<open>
  Unencrypted round trip: what an unencrypted session sends, an unencrypted session
  receives: the packet carries its own length, and session id, command and payload arrive
  unchanged.
\<close>

theorem plain_roundtrip:
  assumes "wf_msg m" "m_crypt m < 0" "length (m_buffer m) < 2048"
  shows "\<exists>raw m1 m2. GenerateMessage m s = Some (raw, m1, s)
     \<and> unat (hdr_size (le_word (take 4 raw))) = length raw
     \<and> recv_CMessage raw (- 1) s' = Some (m2, s')
     \<and> GetSession m2 = GetSession m \<and> m_command m2 = m_command m \<and> GetData m2 = GetData m"
proof -
  let ?h = "sent_header m"
  let ?raw = "le_bytes 4 ?h @ le_bytes 4 (m_command m) @ GetData m"
  have len: "length ?raw = length (m_buffer m)"
    using arg_cong [OF buffer_parts [OF assms(1)], of length] by simp
  have sz: "unat (hdr_size ?h) = length ?raw" using sent_header_size [OF assms(1,3)] len by simp
  have nc: "hdr_crypt ?h = 0" using assms(2)
    by (simp add: sent_header_crypt choose_crypt_def CRYPT_NONE_def)
  have r: "read_header (- 1) s' ?raw = Some (le_bytes 4 ?h, s')" by (simp add: read_header_def)
  define m0 where "m0 = put_header ?h \<lparr>m_buffer = replicate (8 + length ?raw) 0, m_crypt = - 1,
    m_encrypt_method = EncUser\<rparr>"
  have wf0: "wf_msg m0" by (simp add: m0_def wf_msg_def msg_sizes put_header_def)
  have "recv_CMessage ?raw (- 1) s' = Some (SetData (GetData m) (put_command (m_command m) m0), s')"
    using recv_framed [OF r sz] nc by (simp add: m0_def CRYPT_NONE_def Let_def)
  moreover have "m_header (SetData (GetData m) (put_command (m_command m) m0)) = ?h"
    using wf0 by (simp add: SetData_image) (simp add: m0_def)
  ultimately show ?thesis
    using send_plain [OF assms(1,2), of s] sz wf0
    by (simp add: Let_def SetData_image GetSession_def sent_header_session)
qed

theorem plain_roundtrip_witness:
  "\<exists>raw m1 m2. GenerateMessage (SetData [1, 2, 3] (new_CMessage 1 1 (- 1))) zero_static = Some (raw, m1, zero_static)
     \<and> unat (hdr_size (le_word (take 4 raw))) = length raw
     \<and> recv_CMessage raw (- 1) zero_static = Some (m2, zero_static)
     \<and> GetSession m2 = GetSession (SetData [1, 2, 3] (new_CMessage 1 1 (- 1)))
     \<and> m_command m2 = m_command (SetData [1, 2, 3] (new_CMessage 1 1 (- 1)))
     \<and> GetData m2 = GetData (SetData [1, 2, 3] (new_CMessage 1 1 (- 1)))"
proof (rule plain_roundtrip)
  show "wf_msg (SetData [1, 2, 3] (new_CMessage 1 1 (- 1)))" by (simp add: SetData_image)
  show "m_crypt (SetData [1, 2, 3] (new_CMessage 1 1 (- 1))) < 0"
    by (simp add: SetData_image)
  show "length (m_buffer (SetData [1, 2, 3] (new_CMessage 1 1 (- 1)))) < 2048"
    by (simp add: SetData_def resize_def msg_sizes)
qed

text \<open>
  Outgoing encrypted messages: the packet has the message's length; its first four bytes
  decrypt, by RC5 under key 0 and the header deobfuscation, to a header that names this
  length, the message's session and the cipher chosen from the payload size; under that
  cipher and its key the rest decrypts to command and payload.
\<close>

theorem encrypted_send_recoverable:
  assumes "wf_msg m" "0 \<le> m_crypt m" "m_encrypt_method m \<noteq> EncNone" "length (m_buffer m) < 2048"
    and "wf_static s" "wf_static s'"
  shows "\<exists>raw m1 s1 hb sa sb. GenerateMessage m s = Some (raw, m1, s1) \<and> length raw = length (m_buffer m)
    \<and> crypt_decrypt CRYPT_RC5 0 s' (take 4 raw) = Some (hb, sa)
    \<and> (let h = decrypt_tcp_header (le_word hb) in
         unat (hdr_size h) = length raw \<and> hdr_sessionId h = GetSession m
       \<and> hdr_crypt h = choose_crypt (m_crypt m) (m_encrypt_method m) (dataSize m + 4) (hdr_crypt (m_header m))
       \<and> crypt_decrypt (hdr_crypt h) (cipher_key (hdr_crypt h) (m_crypt m)) sa (drop 4 raw)
           = Some (le_bytes 4 (m_command m) @ GetData m, sb))"
proof -
  from send_encrypted [OF assms(1,2,5)] obtain hb body s2 where
    g: "GenerateMessage m s = Some (hb @ body, m\<lparr>m_buffer := hb @ body\<rparr>, s2)"
       "length hb = 4" "length body = length (m_buffer m) - 4"
    and d1: "opens_to CRYPT_RC5 0 hb (le_bytes 4 (encrypt_tcp_header (sent_header m)))"
    and d2: "hdr_crypt (sent_header m) \<noteq> CRYPT_NONE \<Longrightarrow>
       opens_to (hdr_crypt (sent_header m)) (cipher_key (hdr_crypt (sent_header m)) (m_crypt m)) body
         (le_bytes 4 (m_command m) @ GetData m)"
    by blast
  from opens_toE [OF d1 assms(6)] obtain sa where
    sa: "crypt_decrypt CRYPT_RC5 0 s' hb = Some (le_bytes 4 (encrypt_tcp_header (sent_header m)), sa)"
        "wf_static sa" by blast
  have "hdr_crypt (sent_header m) \<noteq> CRYPT_NONE"
    using assms(2,3) by (cases "m_encrypt_method m") (auto simp: sent_header_crypt choose_crypt_def crypt_types)
  from opens_toE [OF d2 [OF this] sa(2)] obtain sb where
    "crypt_decrypt (hdr_crypt (sent_header m)) (cipher_key (hdr_crypt (sent_header m)) (m_crypt m)) sa body
       = Some (le_bytes 4 (m_command m) @ GetData m, sb)" by blast
  note body = this
  have h: "decrypt_tcp_header (le_word (le_bytes 4 (encrypt_tcp_header (sent_header m)))) = sent_header m"
    by (simp add: decrypt_encrypt_tcp_header)
  have len: "length (hb @ body) = length (m_buffer m)"
    using g(2,3) assms(1) by (simp add: wf_msg_def msg_sizes)
  have parts: "take 4 (hb @ body) = hb" "drop 4 (hb @ body) = body" using g(2) by simp_all
  have crypt: "hdr_crypt (sent_header m)
      = choose_crypt (m_crypt m) (m_encrypt_method m) (dataSize m + 4) (hdr_crypt (m_header m))"
    by (simp add: sent_header_crypt command_header_size_def)
  have sess: "hdr_sessionId (sent_header m) = GetSession m"
    by (simp add: sent_header_session GetSession_def)
  show ?thesis
  proof (intro exI conjI)
    show "GenerateMessage m s = Some (hb @ body, m\<lparr>m_buffer := hb @ body\<rparr>, s2)" by (rule g(1))
    show "length (hb @ body) = length (m_buffer m)" by (rule len)
    show "crypt_decrypt CRYPT_RC5 0 s' (take 4 (hb @ body))
        = Some (le_bytes 4 (encrypt_tcp_header (sent_header m)), sa)"
      unfolding parts by (rule sa(1))
    show "let h = decrypt_tcp_header (le_word (le_bytes 4 (encrypt_tcp_header (sent_header m)))) in
         unat (hdr_size h) = length (hb @ body) \<and> hdr_sessionId h = GetSession m
       \<and> hdr_crypt h = choose_crypt (m_crypt m) (m_encrypt_method m) (dataSize m + 4) (hdr_crypt (m_header m))
       \<and> crypt_decrypt (hdr_crypt h) (cipher_key (hdr_crypt h) (m_crypt m)) sa (drop 4 (hb @ body))
           = Some (le_bytes 4 (m_command m) @ GetData m, sb)"
      unfolding h Let_def parts len
      by (intro conjI sent_header_size [OF assms(1,4)] sess crypt body)
  qed
qed

definition sample_message :: cmessage where
  "sample_message = SetData [1, 2, 3] (SetCommand 77 0 0 0 (new_CMessage 1 1 12345))"

lemma sample_message_facts [simp]:
  "wf_msg sample_message" "m_crypt sample_message = 12345" "m_encrypt_method sample_message = EncUser"
  "length (m_buffer sample_message) = 11"
proof -
  have w: "wf_msg (SetCommand 77 0 0 0 (new_CMessage 1 1 12345))"
    by (simp add: SetCommand_def SetOrder_def SetMission_def SetExtra_def SetOption_def)
  then show "wf_msg sample_message" by (simp add: sample_message_def SetData_image)
  show "m_crypt sample_message = 12345"
    by (simp add: sample_message_def SetData_image w)
       (simp add: SetCommand_def SetOrder_def SetMission_def SetExtra_def SetOption_def)
  show "m_encrypt_method sample_message = EncUser"
    by (simp add: sample_message_def SetData_def SetCommand_def SetOrder_def SetMission_def SetExtra_def
        SetOption_def put_command_def put_header_def new_CMessage_def generateBogus_def Let_def)
  show "length (m_buffer sample_message) = 11"
    by (simp add: sample_message_def SetData_def resize_def msg_sizes)
qed

theorem encrypted_send_recoverable_witness:
  "\<exists>raw m1 s1 hb sa sb. GenerateMessage sample_message zero_static = Some (raw, m1, s1)
    \<and> length raw = length (m_buffer sample_message)
    \<and> crypt_decrypt CRYPT_RC5 0 zero_static (take 4 raw) = Some (hb, sa)
    \<and> (let h = decrypt_tcp_header (le_word hb) in
         unat (hdr_size h) = length raw \<and> hdr_sessionId h = GetSession sample_message
       \<and> hdr_crypt h = choose_crypt (m_crypt sample_message) (m_encrypt_method sample_message)
            (dataSize sample_message + 4) (hdr_crypt (m_header sample_message))
       \<and> crypt_decrypt (hdr_crypt h) (cipher_key (hdr_crypt h) (m_crypt sample_message)) sa (drop 4 raw)
           = Some (le_bytes 4 (m_command sample_message) @ GetData sample_message, sb))"
  by (rule encrypted_send_recoverable) simp_all

lemma receive_safe:
  assumes "wf_static s" "8 \<le> length data"
    and "read_header k s data = Some (le_bytes 4 h, s1)" "unat (hdr_size h) = length data"
  shows "\<exists>m s2. recv_CMessage data k s = Some (m, s2)
      \<and> (4 < unat (hdr_crypt h) \<longrightarrow> GetOrder m = 0 \<and> m_header m = h)"
proof -
  have wf1: "wf_static s1"
  proof (cases "k < 0")
    case True
    then show ?thesis using assms(1,3) by (simp add: read_header_def)
  next
    case False
    then show ?thesis using assms(3) crypt_decrypt_total [OF assms(1), of CRYPT_RC5 0 "take 4 data"]
      by (auto simp: read_header_def)
  qed
  let ?m0 = "put_header h \<lparr>m_buffer = replicate (8 + length data) 0, m_crypt = k, m_encrypt_method = EncUser\<rparr>"
  have cmd0: "m_command ?m0 = 0"
    by (simp add: m_command_def put_header_def) (simp add: numeral_eq_Suc)
  have recv: "recv_CMessage data k s = (if 4 < unat (hdr_crypt h) then Some (?m0, s1) else
      case (if hdr_crypt h \<noteq> CRYPT_NONE
                then crypt_decrypt (hdr_crypt h) (cipher_key (hdr_crypt h) k) s1 (drop 4 data)
                else Some (drop 4 data, s1)) of
       None \<Rightarrow> None
     | Some (plain, s2) \<Rightarrow>
         if length plain < 4 then None
         else let m = put_command (le_word (take 4 plain)) ?m0
              in Some (SetData (if 4 < length data - 4 then drop 4 plain else []) m, s2))"
    by (rule recv_framed [OF assms(3,4,2)])
  obtain plain s2 where p: "(if hdr_crypt h \<noteq> CRYPT_NONE
                then crypt_decrypt (hdr_crypt h) (cipher_key (hdr_crypt h) k) s1 (drop 4 data)
                else Some (drop 4 data, s1)) = Some (plain, s2)" "length plain = length data - 4"
    using crypt_decrypt_total [OF wf1, of "hdr_crypt h" "cipher_key (hdr_crypt h) k" "drop 4 data"]
    by (cases "hdr_crypt h = CRYPT_NONE") auto
  show ?thesis
  proof (cases "4 < unat (hdr_crypt h)")
    case True
    then show ?thesis using recv cmd0
      by (simp add: GetOrder_def cmd_fields get_bits_def)
  next
    case False
    then show ?thesis unfolding recv p(1) using p(2) assms(2) by (simp add: Let_def)
  qed
qed



end
