(* ===== verification/Session.thy ===== *)
theory Session
  imports Message
begin

text \<open>
  Stream reassembly of a session (\<open>CSession.cpp\<close>): \<open>DoRead\<close> for client packets and
  \<open>DoReadIpc\<close> for server-to-server messages append every received chunk to \<open>m_reader\<close>, cut
  complete frames off its front and keep the rest. Both loops are instances of one framing
  loop, whose interface (how the length of the next frame is read off the stream) is a
  locale. A loop that never ends is \<open>None\<close>.
\<close>

section \<open>The framing loop\<close>

datatype verdict = Reject | Frame nat

type_synonym decider = "bytes \<Rightarrow> verdict"

text \<open>
  One pass over the reader: while more than \<open>hdr\<close> bytes are left, decide on the front; a
  rejected front ends the session, an incomplete frame waits for more bytes. The result is
  the frames delivered, the bytes kept and whether the session was closed.
\<close>

partial_function (option) frame_loop ::
  "nat \<Rightarrow> decider \<Rightarrow> bytes list \<Rightarrow> bytes \<Rightarrow> (bytes list \<times> bytes \<times> bool) option" where
  "frame_loop hdr decide acc buf =
    (if hdr < length buf
     then (case decide buf of
             Reject \<Rightarrow> Some (rev acc, buf, True)
           | Frame n \<Rightarrow>
               if length buf < n then Some (rev acc, buf, False)
               else frame_loop hdr decide (take n buf # acc) (drop n buf))
     else Some (rev acc, buf, False))"

locale framing =
  fixes hdr :: nat and decide :: decider
  assumes decide_prefix: "hdr < length buf \<Longrightarrow> decide (buf @ ext) = decide buf"
    and frame_progress: "hdr < length buf \<Longrightarrow> decide buf = Frame n \<Longrightarrow> 0 < n"
begin

lemma loop_step:
  "hdr < length buf \<Longrightarrow> decide buf = Frame n \<Longrightarrow> n \<le> length buf \<Longrightarrow>
   frame_loop hdr decide acc buf = frame_loop hdr decide (take n buf # acc) (drop n buf)"
  by (subst frame_loop.simps) simp

lemma loop_reject:
  "hdr < length buf \<Longrightarrow> decide buf = Reject \<Longrightarrow> frame_loop hdr decide acc buf = Some (rev acc, buf, True)"
  by (subst frame_loop.simps) simp

lemma loop_wait:
  "\<not> hdr < length buf \<or> (\<exists>n. decide buf = Frame n \<and> length buf < n) \<Longrightarrow>
   frame_loop hdr decide acc buf = Some (rev acc, buf, False)"
  by (subst frame_loop.simps) (auto split: verdict.splits)

text \<open>Every pass ends, and what it delivered and kept is what it was given.\<close>

lemma loop_total:
  "\<exists>fs rest closed. frame_loop hdr decide acc buf = Some (rev acc @ fs, rest, closed)
     \<and> concat fs @ rest = buf"
proof (induction "length buf" arbitrary: buf acc rule: less_induct)
  case less
  show ?case
  proof (cases "hdr < length buf \<and> (\<exists>n. decide buf = Frame n \<and> n \<le> length buf)")
    case True
    then obtain n where n: "hdr < length buf" "decide buf = Frame n" "n \<le> length buf" by blast
    then have "0 < n" using frame_progress by blast
    with n have "length (drop n buf) < length buf" by simp
    from less [OF this, of "take n buf # acc"] obtain fs rest closed where
      "frame_loop hdr decide (take n buf # acc) (drop n buf) = Some (rev (take n buf # acc) @ fs, rest, closed)"
      "concat fs @ rest = drop n buf" by blast
    with loop_step [OF n] show ?thesis
      by (intro exI [of _ "take n buf # fs"] exI [of _ rest] exI [of _ closed]) simp
  next
    case False
    then consider "hdr < length buf" "decide buf = Reject"
      | "\<not> hdr < length buf \<or> (\<exists>n. decide buf = Frame n \<and> length buf < n)"
      by (cases "decide buf") auto
    then show ?thesis by cases (auto simp: loop_reject loop_wait)
  qed
qed

text \<open>
  Appending bytes to a stream does not change the frames already cut, and an open session
  continues as if it had received all bytes at once.
\<close>

lemma loop_append:
  assumes "frame_loop hdr decide acc buf = Some (fs, rest, closed)"
  shows "frame_loop hdr decide acc (buf @ ext) =
    (if closed then Some (fs, rest @ ext, True) else frame_loop hdr decide (rev fs) (rest @ ext))"
  using assms
proof (induction "length buf" arbitrary: buf acc rule: less_induct)
  case less
  show ?case
  proof (cases "hdr < length buf \<and> (\<exists>n. decide buf = Frame n \<and> n \<le> length buf)")
    case True
    then obtain n where n: "hdr < length buf" "decide buf = Frame n" "n \<le> length buf" by blast
    then have pos: "0 < n" using frame_progress by blast
    with n have "length (drop n buf) < length buf" by simp
    moreover have "frame_loop hdr decide (take n buf # acc) (drop n buf) = Some (fs, rest, closed)"
      using less.prems loop_step [OF n] by simp
    ultimately have IH: "frame_loop hdr decide (take n buf # acc) (drop n buf @ ext) =
      (if closed then Some (fs, rest @ ext, True) else frame_loop hdr decide (rev fs) (rest @ ext))"
      by (rule less.hyps)
    have "decide (buf @ ext) = Frame n" using n decide_prefix by simp
    then have "frame_loop hdr decide acc (buf @ ext)
        = frame_loop hdr decide (take n (buf @ ext) # acc) (drop n (buf @ ext))"
      using n by (intro loop_step) auto
    with IH n show ?thesis by simp
  next
    case False
    then consider (rej) "hdr < length buf" "decide buf = Reject"
      | (wait) "\<not> hdr < length buf \<or> (\<exists>n. decide buf = Frame n \<and> length buf < n)"
      by (cases "decide buf") auto
    then show ?thesis
    proof cases
      case rej
      then have "decide (buf @ ext) = Reject" using decide_prefix by simp
      with rej less.prems show ?thesis by (simp add: loop_reject)
    next
      case wait
      with less.prems show ?thesis by (auto simp: loop_wait)
    qed
  qed
qed

lemma loop_frames:
  assumes "frame_loop hdr decide acc buf = Some (rev acc @ fs, rest, closed)" and "f \<in> set fs"
  shows "\<exists>ext. hdr < length (f @ ext) \<and> decide (f @ ext) = Frame (length f)"
  using assms
proof (induction "length buf" arbitrary: buf acc fs rest closed rule: less_induct)
  case less
  show ?case
  proof (cases "hdr < length buf \<and> (\<exists>n. decide buf = Frame n \<and> n \<le> length buf)")
    case True
    then obtain n where n: "hdr < length buf" "decide buf = Frame n" "n \<le> length buf" by blast
    then have "0 < n" using frame_progress by blast
    with n have l: "length (drop n buf) < length buf" by simp
    obtain fs' rest' closed' where t:
      "frame_loop hdr decide (take n buf # acc) (drop n buf) = Some (rev (take n buf # acc) @ fs', rest', closed')"
      using loop_total by blast
    with less.prems(1) loop_step [OF n, of acc] have fs: "fs = take n buf # fs'" by simp
    show ?thesis
    proof (cases "f = take n buf")
      case True
      with n show ?thesis by (intro exI [of _ "drop n buf"]) simp
    next
      case False
      with less.prems(2) fs have "f \<in> set fs'" by simp
      then show ?thesis using less.hyps [OF l t] by blast
    qed
  next
    case False
    then consider "hdr < length buf" "decide buf = Reject"
      | "\<not> hdr < length buf \<or> (\<exists>n. decide buf = Frame n \<and> length buf < n)"
      by (cases "decide buf") auto
    then show ?thesis using less.prems by cases (auto simp: loop_reject loop_wait)
  qed
qed

lemma loop_idle:
  assumes "frame_loop hdr decide acc buf = Some (fs, rest, closed)" and "\<not> closed"
  shows "frame_loop hdr decide [] rest = Some ([], rest, False)"
  using assms
proof (induction "length buf" arbitrary: buf acc rule: less_induct)
  case less
  show ?case
  proof (cases "hdr < length buf \<and> (\<exists>n. decide buf = Frame n \<and> n \<le> length buf)")
    case True
    then obtain n where n: "hdr < length buf" "decide buf = Frame n" "n \<le> length buf" by blast
    then have "0 < n" using frame_progress by blast
    with n have "length (drop n buf) < length buf" by simp
    moreover have "frame_loop hdr decide (take n buf # acc) (drop n buf) = Some (fs, rest, closed)"
      using less.prems loop_step [OF n] by simp
    ultimately show ?thesis using less.prems(2) by (rule less.hyps)
  next
    case False
    then consider "hdr < length buf" "decide buf = Reject"
      | "\<not> hdr < length buf \<or> (\<exists>n. decide buf = Frame n \<and> length buf < n)"
      by (cases "decide buf") auto
    then show ?thesis using less.prems by cases (auto simp: loop_reject loop_wait)
  qed
qed

lemma loop_acc:
  "frame_loop hdr decide acc buf =
    map_option (\<lambda>(fs, r). (rev acc @ fs, r)) (frame_loop hdr decide [] buf)"
proof (induction "length buf" arbitrary: buf acc rule: less_induct)
  case less
  show ?case
  proof (cases "hdr < length buf \<and> (\<exists>n. decide buf = Frame n \<and> n \<le> length buf)")
    case True
    then obtain n where n: "hdr < length buf" "decide buf = Frame n" "n \<le> length buf" by blast
    then have "0 < n" using frame_progress by blast
    with n have l: "length (drop n buf) < length buf" by simp
    show ?thesis
      unfolding loop_step [OF n, of acc] loop_step [OF n, of "[]"]
        less [OF l, of "take n buf # acc"] less [OF l, of "[take n buf]"]
      by (simp add: option.map_comp comp_def case_prod_unfold)
  next
    case False
    then consider "hdr < length buf" "decide buf = Reject"
      | "\<not> hdr < length buf \<or> (\<exists>n. decide buf = Frame n \<and> length buf < n)"
      by (cases "decide buf") auto
    then show ?thesis by cases (auto simp: loop_reject loop_wait)
  qed
qed

end

section \<open>A session that receives chunk by chunk\<close>

text \<open>
  The completion handler of the socket read: append the chunk, run one pass, keep the rest.
  A closed session reads no further chunk.
\<close>

record reader =
  m_reader :: bytes
  delivered :: "bytes list"
  closed :: bool

definition on_chunk :: "nat \<Rightarrow> decider \<Rightarrow> bytes \<Rightarrow> reader \<Rightarrow> reader option" where
  "on_chunk hdr decide chunk r =
    (if closed r then Some r
     else case frame_loop hdr decide [] (m_reader r @ chunk) of
       None \<Rightarrow> None
     | Some (fs, rest, c) \<Rightarrow> Some \<lparr>m_reader = rest, delivered = delivered r @ fs, closed = c\<rparr>)"

fun on_chunks :: "nat \<Rightarrow> decider \<Rightarrow> bytes list \<Rightarrow> reader \<Rightarrow> reader option" where
  "on_chunks hdr decide [] r = Some r"
| "on_chunks hdr decide (c # cs) r =
    (case on_chunk hdr decide c r of None \<Rightarrow> None | Some r' \<Rightarrow> on_chunks hdr decide cs r')"

definition new_reader :: reader where
  "new_reader = \<lparr>m_reader = [], delivered = [], closed = False\<rparr>"

context framing
begin

lemma on_chunks_closed: "closed r \<Longrightarrow> on_chunks hdr decide cs r = Some r"
  by (induction cs) (auto simp: on_chunk_def)

text \<open>How the stream is cut into chunks does not matter.\<close>

lemma on_chunks_stream:
  assumes "\<not> closed r"
    and "frame_loop hdr decide [] (m_reader r) = Some ([], m_reader r, False)"
  shows "\<exists>r'. on_chunks hdr decide cs r = Some r'
     \<and> (\<exists>rest. frame_loop hdr decide [] (m_reader r @ concat cs) = Some (drop (length (delivered r)) (delivered r'), rest, closed r')
         \<and> (\<not> closed r' \<longrightarrow> rest = m_reader r'))
     \<and> take (length (delivered r)) (delivered r') = delivered r"
  using assms
proof (induction cs arbitrary: r)
  case Nil
  then show ?case by simp
next
  case (Cons c cs)
  obtain fs rest cl where f: "frame_loop hdr decide [] (m_reader r @ c) = Some (fs, rest, cl)"
    using loop_total [of "[]" "m_reader r @ c"] by auto
  let ?r1 = "\<lparr>m_reader = rest, delivered = delivered r @ fs, closed = cl\<rparr>"
  have step: "on_chunk hdr decide c r = Some ?r1" using Cons.prems f by (simp add: on_chunk_def)
  have app: "frame_loop hdr decide [] (m_reader r @ concat (c # cs)) =
      (if cl then Some (fs, rest @ concat cs, True) else frame_loop hdr decide (rev fs) (rest @ concat cs))"
    using loop_append [OF f, of "concat cs"] by simp
  show ?case
  proof (cases cl)
    case True
    then show ?thesis using step app on_chunks_closed [of ?r1 cs] by simp
  next
    case False
    have idle: "frame_loop hdr decide [] rest = Some ([], rest, False)"
      using loop_idle f False by blast
    from Cons.IH [of ?r1] False idle obtain r' rest' where
      r': "on_chunks hdr decide cs ?r1 = Some r'"
        "frame_loop hdr decide [] (rest @ concat cs) = Some (drop (length (delivered r @ fs)) (delivered r'), rest', closed r')"
        "\<not> closed r' \<longrightarrow> rest' = m_reader r'"
        "take (length (delivered r @ fs)) (delivered r') = delivered r @ fs" by auto
    have "delivered r' = delivered r @ fs @ drop (length (delivered r @ fs)) (delivered r')"
      using r'(4) by (metis append_assoc append_take_drop_id)
    then have split: "drop (length (delivered r)) (delivered r') = fs @ drop (length (delivered r @ fs)) (delivered r')"
      and keep: "take (length (delivered r)) (delivered r') = delivered r"
      by (metis append_eq_conv_conj)+
    have "frame_loop hdr decide (rev fs) (rest @ concat cs)
        = Some (drop (length (delivered r)) (delivered r'), rest', closed r')"
      unfolding split by (subst loop_acc) (simp add: r'(2))
    with app False step r' keep show ?thesis by auto
  qed
qed

end

section \<open>Client packets: DoRead\<close>

definition read_session_header :: "bool \<Rightarrow> cc_static \<Rightarrow> bytes \<Rightarrow> u32 option" where
  "read_session_header useEncryption s buf =
    (if useEncryption
     then map_option (\<lambda>r. le_word (fst r)) (crypt_decrypt CRYPT_RC5 0 s (take 4 buf))
     else Some (le_word (take 4 buf)))"

definition client_decide :: "bool \<Rightarrow> cc_static \<Rightarrow> decider" where
  "client_decide useEncryption s buf =
    (case read_session_header useEncryption s buf of
       None \<Rightarrow> Reject
     | Some h \<Rightarrow>
         (let size = unat (hdr_size h) in
          if 2047 \<le> size \<or> size < minSize then Reject else Frame size))"

interpretation client: framing tcp_header_size "client_decide useEncryption s" for useEncryption s
proof unfold_locales
  fix buf ext :: bytes
  assume "tcp_header_size < length buf"
  then show "client_decide useEncryption s (buf @ ext) = client_decide useEncryption s buf"
    by (simp add: client_decide_def read_session_header_def tcp_header_size_def)
next
  fix buf :: bytes and n
  assume "client_decide useEncryption s buf = Frame n"
  then show "0 < n"
    by (auto simp: client_decide_def Let_def msg_sizes split: option.splits if_splits)
qed

section \<open>Server-to-server messages: SendIpc and DoReadIpc\<close>

definition SendIpc :: "u32 \<Rightarrow> bytes \<Rightarrow> bytes" where
  "SendIpc ipc_id payload = le_bytes 4 ipc_id @ le_bytes 4 (of_nat (length payload) :: u32) @ payload"

definition ipc_decide :: decider where
  "ipc_decide buf = Frame (8 + unat (le_word (take 4 (drop 4 buf)) :: u32))"

definition ipc_message :: "bytes \<Rightarrow> u32 \<times> u32 \<times> bytes" where
  "ipc_message frame = (le_word (take 4 frame), le_word (take 4 (drop 4 frame)), drop 8 frame)"

interpretation ipc: framing 8 ipc_decide
  by unfold_locales (auto simp: ipc_decide_def)

lemma ipc_decide_SendIpc:
  "length payload < 2 ^ 32 \<Longrightarrow> ipc_decide (SendIpc i payload @ ext) = Frame (length (SendIpc i payload))"
  by (simp add: ipc_decide_def SendIpc_def unat_of_nat take_bit_nat_eq_self)

section \<open>Dispatch of a received packet\<close>

datatype dispatch = NoOrder | NoCallback u32 | Called u32 cmessage

definition onPacket ::
  "bool \<Rightarrow> int \<Rightarrow> (u32 \<Rightarrow> bool) \<Rightarrow> bytes \<Rightarrow> cc_static \<Rightarrow> (dispatch \<times> cc_static) option" where
  "onPacket useEncryption key callbacks data s =
    (let encryptionKey = (if useEncryption then key else - 1) in
     case recv_CMessage data encryptionKey s of
       None \<Rightarrow> None
     | Some (m, s') \<Rightarrow>
         let order = GetOrder m in
         Some (if order = 0 then NoOrder
               else if \<not> callbacks order then NoCallback order
               else Called order m, s'))"

section \<open>The send queue: one write in flight\<close>

record send_state =
  sock_open :: bool
  m_SendQueue :: "bytes list"
  in_flight :: "bytes option"
  wire :: "bytes list"
  accepted :: "bytes list"

definition DoSend :: "send_state \<Rightarrow> send_state" where
  "DoSend t =
    (if \<not> sock_open t then t\<lparr>m_SendQueue := []\<rparr>
     else case m_SendQueue t of [] \<Rightarrow> t | d # _ \<Rightarrow> t\<lparr>in_flight := Some d\<rparr>)"

definition Send :: "bytes \<Rightarrow> send_state \<Rightarrow> send_state" where
  "Send d t =
    (if \<not> sock_open t then t
     else let was_idle = (m_SendQueue t = []);
              t = t\<lparr>m_SendQueue := m_SendQueue t @ [d], accepted := accepted t @ [d]\<rparr>
          in if was_idle then DoSend t else t)"

definition write_done :: "send_state \<Rightarrow> send_state" where
  "write_done t =
    (case in_flight t of
       None \<Rightarrow> t
     | Some d \<Rightarrow>
         let t = t\<lparr>in_flight := None, wire := wire t @ [d]\<rparr>;
             t = (if m_SendQueue t \<noteq> [] then t\<lparr>m_SendQueue := tl (m_SendQueue t)\<rparr> else t)
         in if m_SendQueue t \<noteq> [] then DoSend t else t)"

definition Disconnect :: "send_state \<Rightarrow> send_state" where
  "Disconnect t = t\<lparr>sock_open := False\<rparr>"

definition write_failed :: "send_state \<Rightarrow> send_state" where
  "write_failed t =
    (if in_flight t = None then t
     else Disconnect (t\<lparr>in_flight := None, m_SendQueue := []\<rparr>))"

inductive send_step :: "send_state \<Rightarrow> send_state \<Rightarrow> bool" where
  ss_send: "send_step t (Send d t)"
| ss_done: "in_flight t = Some d \<Longrightarrow> send_step t (write_done t)"
| ss_fail: "in_flight t = Some d \<Longrightarrow> send_step t (write_failed t)"
| ss_close: "send_step t (Disconnect t)"

inductive_cases send_stepE: "send_step t u"

definition send_init :: send_state where
  "send_init = \<lparr>sock_open = True, m_SendQueue = [], in_flight = None, wire = [], accepted = []\<rparr>"

inductive send_reachable :: "send_state \<Rightarrow> bool" where
  sr_init: "send_reachable send_init"
| sr_step: "send_reachable t \<Longrightarrow> send_step t u \<Longrightarrow> send_reachable u"

text \<open>
  The queue holds exactly the accepted packets not yet written, its front is the write in
  flight, and nothing is in flight when it is empty. A closed socket may have dropped a tail.
\<close>

definition send_inv :: "send_state \<Rightarrow> bool" where
  "send_inv t \<longleftrightarrow>
     (case in_flight t of None \<Rightarrow> m_SendQueue t = []
      | Some d \<Rightarrow> m_SendQueue t \<noteq> [] \<and> hd (m_SendQueue t) = d)
   \<and> (\<exists>dropped. accepted t = wire t @ m_SendQueue t @ dropped \<and> (sock_open t \<longrightarrow> dropped = []))"

lemma send_inv_init: "send_inv send_init"
  by (simp add: send_inv_def send_init_def)

lemma send_inv_Send [inv_intros]: "send_inv t \<Longrightarrow> send_inv (Send d t)"
  by (cases "m_SendQueue t") (auto simp: send_inv_def Send_def DoSend_def Let_def split: option.splits)

lemma send_inv_Disconnect [inv_intros]: "send_inv t \<Longrightarrow> send_inv (Disconnect t)"
  by (auto simp: send_inv_def Disconnect_def split: option.splits)

lemma send_inv_failed [inv_intros]: "send_inv t \<Longrightarrow> send_inv (write_failed t)"
  by (auto simp: send_inv_def Disconnect_def write_failed_def split: option.splits)

lemma send_inv_done [inv_intros]: "send_inv t \<Longrightarrow> send_inv (write_done t)"
  by (cases "m_SendQueue t"; cases "tl (m_SendQueue t)")
     (auto simp: send_inv_def write_done_def DoSend_def Let_def split: option.splits)

lemma send_inv_step: "send_step t u \<Longrightarrow> send_inv t \<Longrightarrow> send_inv u"
  by (induction rule: send_step.induct) (auto intro: inv_intros)

lemma send_reachable_inv: "send_reachable t \<Longrightarrow> send_inv t"
  by (induction rule: send_reachable.induct) (auto intro: send_inv_init send_inv_step)

section \<open>Frames are what the message layer expects\<close>

lemma crypt_decrypt_RC5_indep:
  assumes "wf_static s" "wf_static s'"
  shows "map_option fst (crypt_decrypt CRYPT_RC5 key s xs) = map_option fst (crypt_decrypt CRYPT_RC5 key s' xs)"
proof -
  have "RC5_Decrypt (Setup Cipher_RC5 key s) xs = RC5_Decrypt (Setup Cipher_RC5 key s') xs"
    using Setup_RC5_cong [OF assms, of key] by (intro RC5_Decrypt_cong) auto
  then show ?thesis
    by (simp add: crypt_decrypt_def make_CCrypt_cases crypt_types Decrypt_def option.map_comp comp_def)
qed

lemma client_decide_indep:
  assumes "wf_static s" "wf_static s'"
  shows "client_decide enc s = client_decide enc s'"
proof -
  have "map_option (\<lambda>r. le_word (fst r) :: u32) (crypt_decrypt CRYPT_RC5 0 s xs)
      = map_option (\<lambda>r. le_word (fst r) :: u32) (crypt_decrypt CRYPT_RC5 0 s' xs)" for xs
    using arg_cong [OF crypt_decrypt_RC5_indep [OF assms, of 0 xs], of "map_option (le_word :: bytes \<Rightarrow> u32)"]
    by (simp add: option.map_comp comp_def)
  then have "read_session_header enc s = read_session_header enc s'"
    by (simp add: read_session_header_def fun_eq_iff)
  then show ?thesis by (simp add: client_decide_def fun_eq_iff)
qed

lemma client_frame_shape:
  assumes "frame_loop tcp_header_size (client_decide enc s) [] buf = Some (fs, rest, cl)" "f \<in> set fs"
  shows "client_decide enc s f = Frame (length f) \<and> 8 \<le> length f \<and> length f < 2047"
proof -
  obtain ext where e: "tcp_header_size < length (f @ ext)" "client_decide enc s (f @ ext) = Frame (length f)"
    using client.loop_frames [of enc s "[]" buf fs rest cl f] assms by auto
  then have "8 \<le> length f \<and> length f < 2047"
    by (auto simp: client_decide_def Let_def msg_sizes split: option.splits if_splits)
  moreover from this have "client_decide enc s (f @ ext) = client_decide enc s f"
    by (intro client.decide_prefix) (simp add: tcp_header_size_def)
  ultimately show ?thesis using e(2) by simp
qed

lemma client_frame_header:
  assumes "client_decide enc s f = Frame (length f)" "8 \<le> length f" "wf_static s" "wf_static s'"
    and k: "k = (if enc then key else - 1)" "0 \<le> key"
  obtains h s1 where "read_header k s' f = Some (le_bytes 4 h, s1)" "unat (hdr_size h) = length f"
proof -
  have d: "client_decide enc s' f = Frame (length f)" using assms(1) client_decide_indep assms(3,4) by metis
  obtain h :: u32 and s1 where r: "read_header k s' f = Some (le_bytes 4 h, s1)"
    using read_header_total [OF assms(4)] assms(2) by (metis add_leE numeral_Bit0)
  have "read_session_header enc s' f = Some h"
  proof (cases enc)
    case True
    with r k show ?thesis by (simp add: read_header_def read_session_header_def)
  next
    case False
    with r k show ?thesis by (simp add: read_header_def read_session_header_def)
  qed
  with d have "unat (hdr_size h) = length f"
    by (auto simp: client_decide_def Let_def split: if_splits)
  with r show ?thesis by (rule that)
qed

section \<open>Properties\<close>

text \<open>
  C11: Packet boundaries do not depend on how TCP cuts the stream: two sessions that receive
  the same bytes in different chunks deliver the same packets, agree on whether the session
  was closed and, if it was not, keep the same unread rest; every read pass ends.
\<close>

theorem client_stream_chunking:
  assumes "concat cs = concat ds"
  shows "\<exists>r1 r2. on_chunks tcp_header_size (client_decide enc s) cs new_reader = Some r1
     \<and> on_chunks tcp_header_size (client_decide enc s) ds new_reader = Some r2
     \<and> delivered r1 = delivered r2 \<and> closed r1 = closed r2
     \<and> (closed r1 \<or> m_reader r1 = m_reader r2)"
proof -
  let ?d = "client_decide enc s"
  have i: "\<not> closed new_reader" "frame_loop tcp_header_size ?d [] (m_reader new_reader) = Some ([], m_reader new_reader, False)"
    by (simp_all add: new_reader_def client.loop_wait)
  from client.on_chunks_stream [OF i, of cs] client.on_chunks_stream [OF i, of ds] assms
  show ?thesis by (auto simp: new_reader_def)
qed

theorem client_stream_chunking_witness:
  "\<exists>r1 r2. on_chunks tcp_header_size (client_decide False zero_static) [[1, 2], [3]] new_reader = Some r1
     \<and> on_chunks tcp_header_size (client_decide False zero_static) [[1], [2, 3]] new_reader = Some r2
     \<and> delivered r1 = delivered r2 \<and> closed r1 = closed r2
     \<and> (closed r1 \<or> m_reader r1 = m_reader r2)"
  by (rule client_stream_chunking) simp

lemma frames_of_eight: "list_all (\<lambda>f. 8 \<le> length f) fs \<Longrightarrow> 8 * length fs \<le> length (concat fs)"
  by (induction fs) auto

lemma short_rest:
  assumes "frame_loop tcp_header_size (client_decide enc s) [] rest = Some ([], rest, False)"
  shows "length rest < 2047"
proof (rule ccontr)
  assume "\<not> length rest < 2047"
  then have l: "tcp_header_size < length rest" "2047 \<le> length rest" by (simp_all add: tcp_header_size_def)
  show False
  proof (cases "client_decide enc s rest")
    case (Frame n)
    then have "n < 2047" by (auto simp: client_decide_def Let_def msg_sizes split: option.splits if_splits)
    with l have "frame_loop tcp_header_size (client_decide enc s) [] rest
        = frame_loop tcp_header_size (client_decide enc s) [take n rest] (drop n rest)"
      using client.loop_step [OF l(1) Frame] by simp
    moreover obtain fs r c where "frame_loop tcp_header_size (client_decide enc s) [take n rest] (drop n rest)
        = Some (rev [take n rest] @ fs, r, c)" using client.loop_total by blast
    ultimately show False using assms by simp
  next
    case Reject
    then show False using assms client.loop_reject [OF l(1)] by simp
  qed
qed

text \<open>
  C13: Whatever bytes are in the buffer of a client session, the read loop returns: after at most one
  pass for every 8 bytes it has cut off packets of 8 to 2046 bytes which, with what is kept, are exactly
  the bytes it was given, and unless it closes the session fewer than 2047 bytes are kept.
\<close>

theorem read_loop_returns:
  "\<exists>fs rest closed. frame_loop tcp_header_size (client_decide enc s) [] buf = Some (fs, rest, closed)
     \<and> buf = concat fs @ rest \<and> 8 * length fs \<le> length buf
     \<and> list_all (\<lambda>f. 8 \<le> length f \<and> length f < 2047) fs \<and> (closed \<or> length rest < 2047)"
proof -
  obtain fs rest closed where r: "frame_loop tcp_header_size (client_decide enc s) [] buf = Some (fs, rest, closed)"
    "buf = concat fs @ rest" using client.loop_total [of enc s "[]" buf] by auto
  have f: "list_all (\<lambda>f. 8 \<le> length f \<and> length f < 2047) fs"
    using client_frame_shape [OF r(1)] by (auto simp: list_all_iff)
  then have "list_all (\<lambda>f. 8 \<le> length f) fs" by (auto simp: list_all_iff)
  then have "8 * length fs \<le> length buf" using frames_of_eight [of fs] r(2) by simp
  moreover have "closed \<or> length rest < 2047"
    using short_rest client.loop_idle [OF r(1)] by blast
  ultimately show ?thesis using r f by blast
qed

text \<open>
  Whatever bytes a client sends, every packet the session cuts off the stream is 8 to 2046
  bytes long and is received and dispatched without any out-of-range read (session keys are
  non-negative: \<open>ServerConnect\<close> draws them from 100000000 to 999999999).
\<close>

theorem session_input_is_safe:
  assumes "frame_loop tcp_header_size (client_decide enc s) [] buf = Some (fs, rest, cl)"
    and "f \<in> set fs" and "wf_static s" and "wf_static s'" and "0 \<le> key"
  shows "8 \<le> length f \<and> length f < 2047
     \<and> (\<exists>d s2. onPacket enc key callbacks f s' = Some (d, s2))"
proof -
  let ?k = "if enc then key else - 1"
  have sh: "client_decide enc s f = Frame (length f)" "8 \<le> length f" "length f < 2047"
    using client_frame_shape [OF assms(1,2)] by auto
  obtain h s1 where h: "read_header ?k s' f = Some (le_bytes 4 h, s1)" "unat (hdr_size h) = length f"
    using client_frame_header [OF sh(1,2) assms(3,4) refl assms(5)] by blast
  obtain m s2 where "recv_CMessage f ?k s' = Some (m, s2)"
    using receive_safe [OF assms(4) sh(2) h] by blast
  with sh show ?thesis by (simp add: onPacket_def Let_def)
qed

lemma sample_frame:
  "frame_loop tcp_header_size (client_decide False zero_static) []
     (le_bytes 4 (set_hdr_size 8 0) @ [1, 2, 3, 4]) = Some ([le_bytes 4 (set_hdr_size 8 0) @ [1, 2, 3, 4]], [], False)"
proof -
  let ?f = "le_bytes 4 (set_hdr_size 8 0) @ [1, 2, 3, 4 :: u8]"
  have "client_decide False zero_static ?f = Frame 8"
    by (simp add: client_decide_def read_session_header_def hdr_fields get_set_same take_bit_eq_mask
        mask_eq_exp_minus_1 msg_sizes)
  then have "frame_loop tcp_header_size (client_decide False zero_static) [] ?f
     = frame_loop tcp_header_size (client_decide False zero_static) (take 8 ?f # []) (drop 8 ?f)"
    by (intro client.loop_step) (simp_all add: tcp_header_size_def)
  then show ?thesis by (simp add: client.loop_wait)
qed

theorem session_input_is_safe_witness:
  "8 \<le> length (le_bytes 4 (set_hdr_size 8 0) @ [1, 2, 3, 4 :: u8])
   \<and> length (le_bytes 4 (set_hdr_size 8 0) @ [1, 2, 3, 4 :: u8]) < 2047
   \<and> (\<exists>d s2. onPacket False 5 (\<lambda>_. True) (le_bytes 4 (set_hdr_size 8 0) @ [1, 2, 3, 4]) zero_static = Some (d, s2))"
  by (rule session_input_is_safe [OF sample_frame]) simp_all

lemma ipc_stream:
  assumes "\<forall>(i, p) \<in> set msgs. p \<noteq> [] \<and> length p < 2 ^ 32"
  shows "frame_loop 8 ipc_decide acc (concat (map (\<lambda>(i, p). SendIpc i p) msgs))
    = Some (rev acc @ map (\<lambda>(i, p). SendIpc i p) msgs, [], False)"
  using assms
proof (induction msgs arbitrary: acc)
  case Nil
  then show ?case by (simp add: ipc.loop_wait)
next
  case (Cons m msgs)
  obtain i p where m: "m = (i, p)" by fastforce
  with Cons.prems have p: "p \<noteq> []" "length p < 2 ^ 32" by auto
  let ?rest = "concat (map (\<lambda>(i, p). SendIpc i p) msgs)"
  have "frame_loop 8 ipc_decide acc (SendIpc i p @ ?rest)
     = frame_loop 8 ipc_decide (take (length (SendIpc i p)) (SendIpc i p @ ?rest) # acc)
         (drop (length (SendIpc i p)) (SendIpc i p @ ?rest))"
    using p by (intro ipc.loop_step ipc_decide_SendIpc) (auto simp: SendIpc_def)
  with Cons m show ?case by simp
qed

text \<open>
  Server-to-server framing: a stream of messages with non-empty payloads, in whatever
  chunks it arrives, is reassembled into exactly the messages sent, in order.
\<close>

theorem ipc_roundtrip:
  assumes "\<forall>(i, p) \<in> set msgs. p \<noteq> [] \<and> length p < 2 ^ 32"
    and "concat cs = concat (map (\<lambda>(i, p). SendIpc i p) msgs)"
  shows "\<exists>r. on_chunks 8 ipc_decide cs new_reader = Some r \<and> \<not> closed r \<and> m_reader r = []
    \<and> map ipc_message (delivered r) = map (\<lambda>(i, p). (i, of_nat (length p), p)) msgs"
proof -
  have i: "\<not> closed new_reader" "frame_loop 8 ipc_decide [] (m_reader new_reader) = Some ([], m_reader new_reader, False)"
    by (simp_all add: new_reader_def ipc.loop_wait)
  obtain r where r: "on_chunks 8 ipc_decide cs new_reader = Some r" "\<not> closed r" "m_reader r = []"
      "delivered r = map (\<lambda>(i, p). SendIpc i p) msgs"
    using ipc.on_chunks_stream [OF i, of cs] ipc_stream [OF assms(1), of "[]"] assms(2)
    by (auto simp: new_reader_def)
  have "ipc_message (SendIpc i p) = (i, of_nat (length p), p)" for i p
    by (simp add: ipc_message_def SendIpc_def)
  then show ?thesis using r by (auto simp: comp_def)
qed

theorem ipc_roundtrip_witness:
  "\<exists>r. on_chunks 8 ipc_decide [SendIpc 4 [1, 2], SendIpc 9 [3]] new_reader = Some r \<and> \<not> closed r
    \<and> m_reader r = []
    \<and> map ipc_message (delivered r) = map (\<lambda>(i, p). (i, of_nat (length p), p)) [(4, [1, 2]), (9, [3])]"
  by (rule ipc_roundtrip) simp_all

text \<open>
  The strict comparison in \<open>DoReadIpc\<close>: a message with an empty payload is accepted by
  \<open>SendIpc\<close> but stays undelivered in the reader until a further byte arrives.
\<close>

theorem ipc_empty_payload_delayed:
  "frame_loop 8 ipc_decide [] (SendIpc i []) = Some ([], SendIpc i [], False)
   \<and> (p \<noteq> [] \<and> length p < 2 ^ 32 \<longrightarrow>
       frame_loop 8 ipc_decide [] (SendIpc i [] @ SendIpc j p) = Some ([SendIpc i [], SendIpc j p], [], False))"
proof -
  have "frame_loop 8 ipc_decide [] (SendIpc i []) = Some ([], SendIpc i [], False)"
    by (simp add: ipc.loop_wait SendIpc_def)
  moreover have "frame_loop 8 ipc_decide [] (SendIpc i [] @ SendIpc j p) = Some ([SendIpc i [], SendIpc j p], [], False)"
    if p: "p \<noteq> []" "length p < 2 ^ 32"
  proof -
    have "frame_loop 8 ipc_decide [] (SendIpc i [] @ SendIpc j p)
       = frame_loop 8 ipc_decide [take (length (SendIpc i [])) (SendIpc i [] @ SendIpc j p)]
           (drop (length (SendIpc i [])) (SendIpc i [] @ SendIpc j p))"
      using p by (intro ipc.loop_step ipc_decide_SendIpc) (auto simp: SendIpc_def)
    with ipc_stream [of "[(j, p)]" "[SendIpc i []]"] p show ?thesis by simp
  qed
  ultimately show ?thesis by blast
qed

theorem ipc_empty_payload_delayed_witness:
  "frame_loop 8 ipc_decide [] (SendIpc 3 [] @ SendIpc 4 [7]) = Some ([SendIpc 3 [], SendIpc 4 [7]], [], False)"
  using ipc_empty_payload_delayed [of 3 "[7]" 4] by simp



end
