(* ===== verification/Rate_Limit.thy ===== *)
theory Rate_Limit
  imports Prelude "HOL-Library.Finite_Map" "HOL-Library.Multiset" "HOL-Library.Sublist"
begin

text \<open>
  The packet rate limiter (\<open>PacketRateLimit.h\<close>, \<open>CServer.cpp\<close>): per order and identity a window of
  recent packets, cooldowns, blacklists and strikes, under keys that are formatted strings. Every
  method holds the mutex. Times are the steady clock's nanoseconds, durations milliseconds; their
  64 bits are not exhausted. What a rule reads of a packet is the packet's option byte.
\<close>

section \<open>Keys\<close>

datatype IdentityScope = Scope_Session | Scope_Ip | Scope_Hwid | Scope_Aid

fun scope_value :: "IdentityScope \<Rightarrow> nat" where
  "scope_value Scope_Session = 0"
| "scope_value Scope_Ip = 1"
| "scope_value Scope_Hwid = 2"
| "scope_value Scope_Aid = 3"

definition digit :: "nat \<Rightarrow> char" where
  "digit d = char_of (48 + d)"

text \<open>\<open>std::to_string\<close> and \<open>std::stoul\<close> on what it prints.\<close>

fun dec :: "nat \<Rightarrow> string" where
  "dec n = (if n < 10 then [digit n] else dec (n div 10) @ [digit (n mod 10)])"

declare dec.simps [simp del]

definition stoul :: "string \<Rightarrow> nat" where
  "stoul s = fold (\<lambda>c v. 10 * v + (of_char c - 48)) s 0"

definition MakePacketRateLimitOrderKey :: "u16 \<Rightarrow> IdentityScope \<Rightarrow> string \<Rightarrow> string" where
  "MakePacketRateLimitOrderKey order scope ident = dec (unat order) @ ''|'' @ dec (scope_value scope) @ ''|'' @ ident"

definition MakePacketRateLimitIdentityKey :: "IdentityScope \<Rightarrow> string \<Rightarrow> string" where
  "MakePacketRateLimitIdentityKey scope ident = dec (scope_value scope) @ ''|'' @ ident"

section \<open>State\<close>

record IdentitySnapshot =
  id_sid :: u16
  id_aid :: u32
  id_ip :: string
  id_hwid :: string

definition IdentityValue :: "IdentitySnapshot \<Rightarrow> IdentityScope \<Rightarrow> string" where
  "IdentityValue i scope =
    (case scope of
       Scope_Session \<Rightarrow> if id_sid i \<noteq> 0 then dec (unat (id_sid i)) else []
     | Scope_Ip \<Rightarrow> id_ip i
     | Scope_Hwid \<Rightarrow> id_hwid i
     | Scope_Aid \<Rightarrow> if 0 <s id_aid i then dec (unat (id_aid i)) else [])"

record limiter =
  rl_windows :: "(string, int list) fmap"
  rl_strikes :: "(string, int list) fmap"
  rl_cooldowns :: "(string, int) fmap"
  rl_blacklists :: "(string, int) fmap"
  rl_session_keys :: "(u16, string list) fmap"

definition new_limiter :: limiter where
  "new_limiter = \<lparr>rl_windows = fmempty, rl_strikes = fmempty, rl_cooldowns = fmempty, rl_blacklists = fmempty, rl_session_keys = fmempty\<rparr>"

definition nanos :: "int \<Rightarrow> int" where
  "nanos ms = ms * 1000000"

definition Remaining :: "int \<Rightarrow> int \<Rightarrow> int" where
  "Remaining expires_at now = (if expires_at \<le> now then 0 else (expires_at - now) div 1000000)"

definition Prune :: "int \<Rightarrow> int \<Rightarrow> int list \<Rightarrow> int list" where
  "Prune now window ts = dropWhile (\<lambda>t. now - t \<ge> nanos window) ts"

definition or_none :: "'v \<Rightarrow> 'k \<Rightarrow> ('k, 'v) fmap \<Rightarrow> 'v" where
  "or_none d k m = (case fmlookup m k of None \<Rightarrow> d | Some v \<Rightarrow> v)"

definition track :: "u16 \<Rightarrow> string \<Rightarrow> limiter \<Rightarrow> limiter" where
  "track sid key l = l\<lparr>rl_session_keys := fmupd sid (or_none [] sid (rl_session_keys l) @ [key]) (rl_session_keys l)\<rparr>"

section \<open>Cooldowns, blacklists and strikes\<close>

definition later_expiry :: "string \<Rightarrow> int \<Rightarrow> (string, int) fmap \<Rightarrow> (string, int) fmap" where
  "later_expiry key expires_at m = fmupd key (if or_none 0 key m < expires_at then expires_at else or_none 0 key m) m"

definition ApplyPacketRateLimitCooldown :: "int \<Rightarrow> u16 \<Rightarrow> IdentityScope \<Rightarrow> string \<Rightarrow> int \<Rightarrow> limiter \<Rightarrow> limiter" where
  "ApplyPacketRateLimitCooldown now order scope ident duration l =
    (if ident = [] \<or> duration \<le> 0 then l
     else
       (let key = MakePacketRateLimitOrderKey order scope ident;
            l' = l\<lparr>rl_cooldowns := later_expiry key (now + nanos duration) (rl_cooldowns l)\<rparr>
        in if key |\<notin>| fmdom (rl_cooldowns l) \<and> scope = Scope_Session then track (of_nat (stoul ident)) key l' else l'))"

definition ApplyPacketRateLimitBlacklist :: "int \<Rightarrow> IdentityScope \<Rightarrow> string \<Rightarrow> int \<Rightarrow> limiter \<Rightarrow> limiter" where
  "ApplyPacketRateLimitBlacklist now scope ident duration l =
    (if ident = [] \<or> duration \<le> 0 then l
     else
       (let key = MakePacketRateLimitIdentityKey scope ident;
            l' = l\<lparr>rl_blacklists := later_expiry key (now + nanos duration) (rl_blacklists l)\<rparr>
        in if key |\<notin>| fmdom (rl_blacklists l) \<and> scope = Scope_Session then track (of_nat (stoul ident)) key l' else l'))"

definition AddPacketRateLimitStrike :: "int \<Rightarrow> u16 \<Rightarrow> IdentityScope \<Rightarrow> string \<Rightarrow> int \<Rightarrow> limiter \<Rightarrow> nat \<times> limiter" where
  "AddPacketRateLimitStrike now order scope ident window l =
    (if ident = [] \<or> window \<le> 0 then (0, l)
     else
       (let key = MakePacketRateLimitOrderKey order scope ident; old = or_none [] key (rl_strikes l);
            strikes = Prune now window old @ [now]; l' = l\<lparr>rl_strikes := fmupd key strikes (rl_strikes l)\<rparr>
        in (length strikes, if old = [] \<and> scope = Scope_Session then track (of_nat (stoul ident)) key l' else l')))"

definition ClearPacketRateLimitSessionState :: "u16 \<Rightarrow> limiter \<Rightarrow> limiter" where
  "ClearPacketRateLimitSessionState sid l =
    (if sid = 0 then l
     else case fmlookup (rl_session_keys l) sid of
       None \<Rightarrow> l
     | Some keys \<Rightarrow> \<lparr>
         rl_windows = fmdrop_fset (fset_of_list keys) (rl_windows l), rl_strikes = fmdrop_fset (fset_of_list keys) (rl_strikes l),
         rl_cooldowns = fmdrop_fset (fset_of_list keys) (rl_cooldowns l),
         rl_blacklists = fmdrop_fset (fset_of_list keys) (rl_blacklists l),
         rl_session_keys = fmdrop sid (rl_session_keys l)\<rparr>)"

section \<open>The decision\<close>

datatype rl_event = LimitExceeded | CooldownActive | BlacklistActive

record ActionContext =
  ac_event :: rl_event
  ac_order :: u16
  ac_identity :: IdentitySnapshot
  ac_retry_after :: int
  ac_packet_count :: nat

definition try_reject :: "int \<Rightarrow> string \<Rightarrow> (string, int) fmap \<Rightarrow> int option \<times> (string, int) fmap" where
  "try_reject now key entries =
    (case fmlookup entries key of
       None \<Rightarrow> (None, entries)
     | Some e \<Rightarrow> if Remaining e now \<le> 0 then (None, fmdrop key entries) else (Some (Remaining e now), entries))"

definition scopes :: "IdentityScope list" where
  "scopes = [Scope_Session, Scope_Ip, Scope_Hwid, Scope_Aid]"

text \<open>The loop over the scopes, with its \<open>break\<close>; \<open>key\<close> makes the key of a scope.\<close>

primrec reject_loop ::
  "int \<Rightarrow> IdentitySnapshot \<Rightarrow> (IdentityScope \<Rightarrow> string \<Rightarrow> string) \<Rightarrow> IdentityScope list \<Rightarrow> (string, int) fmap
     \<Rightarrow> int option \<times> (string, int) fmap" where
  "reject_loop now i key [] entries = (None, entries)"
| "reject_loop now i key (s # ss) entries =
    (if IdentityValue i s = [] then reject_loop now i key ss entries
     else case try_reject now (key s (IdentityValue i s)) entries of
       (Some r, entries) \<Rightarrow> (Some r, entries)
     | (None, entries) \<Rightarrow> reject_loop now i key ss entries)"

definition count_packet :: "int \<Rightarrow> u16 \<Rightarrow> IdentitySnapshot \<Rightarrow> IdentityScope \<Rightarrow> nat \<Rightarrow> int \<Rightarrow> limiter \<Rightarrow> nat \<times> int option \<times> limiter" where
  "count_packet now order i scope max_packets window l =
    (let value = IdentityValue i scope
     in if value = [] then (0, None, l)
        else
          (let key = MakePacketRateLimitOrderKey order scope value;
               timestamps = Prune now window (or_none [] key (rl_windows l)) @ [now];
               l' = l\<lparr>rl_windows := fmupd key timestamps (rl_windows l)\<rparr>;
               retry = (if length timestamps > max_packets then Some (Remaining (hd timestamps + nanos window) now) else None)
           in (length timestamps, retry,
               if length timestamps = 1 \<and> scope = Scope_Session \<and> id_sid i \<noteq> 0 then track (id_sid i) key l' else l')))"

definition ShouldProcessPacket ::
  "int \<Rightarrow> u16 \<Rightarrow> IdentitySnapshot \<Rightarrow> IdentityScope \<Rightarrow> nat \<Rightarrow> int \<Rightarrow> limiter \<Rightarrow> ActionContext option \<times> limiter" where
  "ShouldProcessPacket now order i scope max_packets window l =
    (let ctx = (\<lambda>e r n. \<lparr>ac_event = e, ac_order = order, ac_identity = i, ac_retry_after = r, ac_packet_count = n\<rparr>)
     in case reject_loop now i MakePacketRateLimitIdentityKey scopes (rl_blacklists l) of
          (Some r, bl) \<Rightarrow> (Some (ctx BlacklistActive r 0), l\<lparr>rl_blacklists := bl\<rparr>)
        | (None, bl) \<Rightarrow>
            (let l = l\<lparr>rl_blacklists := bl\<rparr>
             in case reject_loop now i (MakePacketRateLimitOrderKey order) scopes (rl_cooldowns l) of
                  (Some r, cd) \<Rightarrow> (Some (ctx CooldownActive r 0), l\<lparr>rl_cooldowns := cd\<rparr>)
                | (None, cd) \<Rightarrow>
                    (let l = l\<lparr>rl_cooldowns := cd\<rparr>
                     in if max_packets > 0 \<and> window > 0 then
                          (case count_packet now order i scope max_packets window l of
                             (n, Some r, l) \<Rightarrow> (Some (ctx LimitExceeded r n), l)
                           | (n, None, l) \<Rightarrow> (None, l))
                        else (None, l))))"

section \<open>The rules\<close>

datatype limit_action = MuteAccount u32 int | LogLoginSpam u32 string string nat | AnnounceFlood | DisconnectFlood u16 | WarnPing

text \<open>
  A rule: which bucket, how many packets in which window, depending on option byte and identity, and
  what it does when the limit is exceeded. No rule sets \<open>on_rejected\<close>.
\<close>

record rl_rule =
  ru_scope :: "u8 \<Rightarrow> IdentitySnapshot \<Rightarrow> IdentityScope"
  ru_max_packets :: "u8 \<Rightarrow> nat"
  ru_window :: "u8 \<Rightarrow> int"
  ru_on_limit :: "int \<Rightarrow> u8 \<Rightarrow> ActionContext \<Rightarrow> limiter \<Rightarrow> limit_action list \<times> limiter"

definition ApplyOrderCooldown :: "int \<Rightarrow> ActionContext \<Rightarrow> IdentityScope \<Rightarrow> int \<Rightarrow> limiter \<Rightarrow> limiter" where
  "ApplyOrderCooldown now ctx scope duration =
     ApplyPacketRateLimitCooldown now (ac_order ctx) scope (IdentityValue (ac_identity ctx) scope) duration"

definition Blacklist :: "int \<Rightarrow> ActionContext \<Rightarrow> IdentityScope \<Rightarrow> int \<Rightarrow> limiter \<Rightarrow> limiter" where
  "Blacklist now ctx scope duration =
     ApplyPacketRateLimitBlacklist now scope (IdentityValue (ac_identity ctx) scope) duration"

definition AddStrike :: "int \<Rightarrow> ActionContext \<Rightarrow> IdentityScope \<Rightarrow> int \<Rightarrow> limiter \<Rightarrow> nat \<times> limiter" where
  "AddStrike now ctx scope window =
     AddPacketRateLimitStrike now (ac_order ctx) scope (IdentityValue (ac_identity ctx) scope) window"

definition ping_rule :: rl_rule where
  "ping_rule = \<lparr>ru_scope = (\<lambda>x i. Scope_Aid), ru_max_packets = (\<lambda>x. 60), ru_window = (\<lambda>x. 3000),
     ru_on_limit = (\<lambda>now x ctx l.
       let l = ApplyOrderCooldown now ctx Scope_Aid 5000 l
       in case AddStrike now ctx Scope_Hwid 600000 l of (strikes, l) \<Rightarrow>
         if strikes \<ge> 3 then ([AnnounceFlood, DisconnectFlood (id_sid (ac_identity ctx))], Blacklist now ctx Scope_Hwid 1800000 l)
         else ([WarnPing], l))\<rparr>"

definition attack_rule :: rl_rule where
  "attack_rule = \<lparr>ru_scope = (\<lambda>x i. if 0 <s id_aid i then Scope_Aid else Scope_Session), ru_max_packets = (\<lambda>x. 20), ru_window = (\<lambda>x. 2000),
     ru_on_limit = (\<lambda>now x ctx l. ([],
       ApplyOrderCooldown now ctx (if 0 <s id_aid (ac_identity ctx) then Scope_Aid else Scope_Session) 2000 l))\<rparr>"

definition authorize_rule :: rl_rule where
  "authorize_rule = \<lparr>ru_scope = (\<lambda>x i. Scope_Ip), ru_max_packets = (\<lambda>x. 5), ru_window = (\<lambda>x. 10000),
     ru_on_limit = (\<lambda>now x ctx l. let i = ac_identity ctx in
       ([LogLoginSpam (if 0 <s id_aid i then id_aid i else 0) (id_ip i) (id_hwid i) (ac_packet_count ctx)],
        ApplyOrderCooldown now ctx Scope_Ip 30000 l))\<rparr>"

definition chat_rule :: rl_rule where
  "chat_rule = \<lparr>ru_scope = (\<lambda>x i. Scope_Aid),
     ru_max_packets = (\<lambda>len. if len \<ge> 160 then 35 else if len \<ge> 96 then 40 else 50),
     ru_window = (\<lambda>len. if len \<ge> 160 then 100000 else if len \<ge> 96 then 75000 else 50000),
     ru_on_limit = (\<lambda>now len ctx l.
       if \<not> 0 <s id_aid (ac_identity ctx) then ([], l)
       else
         (let mute = (if len \<ge> 160 then 15 else if len \<ge> 96 then 10 else 5) * 60
          in ([MuteAccount (id_aid (ac_identity ctx)) mute], ApplyOrderCooldown now ctx Scope_Aid (mute * 1000) l)))\<rparr>"

text \<open>A packet of a limited order: whether its handler runs, and what the limit does; \<open>later\<close> is the clock of the action.\<close>

definition limit_packet :: "rl_rule \<Rightarrow> u16 \<Rightarrow> u8 \<Rightarrow> IdentitySnapshot \<Rightarrow> int \<Rightarrow> int \<Rightarrow> limiter \<Rightarrow> bool \<times> limit_action list \<times> limiter" where
  "limit_packet rule order x i now later l =
    (case ShouldProcessPacket now order i (ru_scope rule x i) (ru_max_packets rule x) (ru_window rule x) l of
       (None, l) \<Rightarrow> (True, [], l)
     | (Some ctx, l) \<Rightarrow>
         if ac_event ctx = LimitExceeded then (False, ru_on_limit rule later x ctx l) else (False, [], l))"

section \<open>Keys are unambiguous\<close>

lemma of_char_digit: "d < 10 \<Longrightarrow> (of_char (digit d) :: nat) = 48 + d"
  by (simp add: digit_def)

lemma digit_not_bar: "d < 10 \<Longrightarrow> digit d \<noteq> CHR ''|''"
proof
  assume "d < 10" "digit d = CHR ''|''"
  then have "(of_char (digit d) :: nat) = of_char CHR ''|''" by simp
  then show False using \<open>d < 10\<close> by (simp add: of_char_digit)
qed

lemma dec_no_bar: "CHR ''|'' \<notin> set (dec n)"
proof (induction n rule: dec.induct)
  case (1 n)
  have "digit (n mod 10) \<noteq> CHR ''|''" by (rule digit_not_bar) simp
  then show ?case using 1 digit_not_bar [of n] by (subst dec.simps) (auto simp: eq_commute)
qed

lemma dec_not_nil [simp]: "dec n \<noteq> []"
  by (subst dec.simps) simp

lemma stoul_dec [simp]: "stoul (dec n) = n"
proof (induction n rule: dec.induct)
  case (1 n)
  show ?case
  proof (cases "n < 10")
    case True
    then show ?thesis by (subst dec.simps) (simp add: stoul_def of_char_digit)
  next
    case False
    have "stoul (dec (n div 10) @ [digit (n mod 10)]) = 10 * stoul (dec (n div 10)) + n mod 10"
      by (simp add: stoul_def of_char_digit)
    then show ?thesis using 1 False by (subst dec.simps) simp
  qed
qed

lemma dec_inject [simp]: "dec m = dec n \<longleftrightarrow> m = n"
  by (metis stoul_dec)

lemma bar_split: "CHR ''|'' \<notin> set a \<Longrightarrow> CHR ''|'' \<notin> set b \<Longrightarrow> a @ CHR ''|'' # x = b @ CHR ''|'' # y \<longleftrightarrow> a = b \<and> x = y"
  by (induction a arbitrary: b) (case_tac b; auto)+

lemma scope_value_inject [simp]: "scope_value s = scope_value s' \<longleftrightarrow> s = s'"
  by (cases s; cases s') simp_all

lemma OrderKey_inject [simp]:
  "MakePacketRateLimitOrderKey o1 s i = MakePacketRateLimitOrderKey o' s' i' \<longleftrightarrow> o1 = o' \<and> s = s' \<and> i = i'"
  by (simp add: MakePacketRateLimitOrderKey_def bar_split dec_no_bar word_unat_eq_iff)

lemma IdentityKey_inject [simp]:
  "MakePacketRateLimitIdentityKey s i = MakePacketRateLimitIdentityKey s' i' \<longleftrightarrow> s = s' \<and> i = i'"
  by (simp add: MakePacketRateLimitIdentityKey_def bar_split dec_no_bar)

lemma keys_apart: "CHR ''|'' \<notin> set i \<Longrightarrow> MakePacketRateLimitIdentityKey s i \<noteq> MakePacketRateLimitOrderKey o1 s' i'"
proof
  assume i: "CHR ''|'' \<notin> set i" and eq: "MakePacketRateLimitIdentityKey s i = MakePacketRateLimitOrderKey o1 s' i'"
  then have "i = dec (scope_value s') @ CHR ''|'' # i'"
    by (simp add: MakePacketRateLimitIdentityKey_def MakePacketRateLimitOrderKey_def bar_split dec_no_bar)
  then show False using i by simp
qed

text \<open>The keys of a session.\<close>

definition session_key :: "u16 \<Rightarrow> string \<Rightarrow> bool" where
  "session_key sid k \<longleftrightarrow> (\<exists>o1. k = MakePacketRateLimitOrderKey o1 Scope_Session (dec (unat sid)))
     \<or> k = MakePacketRateLimitIdentityKey Scope_Session (dec (unat sid))"

lemma session_key_order: "session_key sid (MakePacketRateLimitOrderKey o1 s i) \<longleftrightarrow> s = Scope_Session \<and> i = dec (unat sid)"
  using keys_apart [of "dec (unat sid)" Scope_Session o1 s i] dec_no_bar by (auto simp: session_key_def)

lemma session_key_identity:
  "CHR ''|'' \<notin> set i \<Longrightarrow> session_key sid (MakePacketRateLimitIdentityKey s i) \<longleftrightarrow> s = Scope_Session \<and> i = dec (unat sid)"
  using keys_apart by (auto simp: session_key_def)

section \<open>Runs\<close>

text \<open>What happens to the limiter, at a time; rules compose of these.\<close>

datatype rl_op = Try u16 IdentitySnapshot IdentityScope nat int | Cooldown u16 IdentityScope IdentitySnapshot int
  | Blacklisting IdentityScope IdentitySnapshot int | Strike u16 IdentityScope IdentitySnapshot int | ClearSession u16

fun rl_do :: "int \<Rightarrow> rl_op \<Rightarrow> limiter \<Rightarrow> limiter" where
  "rl_do now (Try order i s m w) l = snd (ShouldProcessPacket now order i s m w l)"
| "rl_do now (Cooldown order s i d) l = ApplyPacketRateLimitCooldown now order s (IdentityValue i s) d l"
| "rl_do now (Blacklisting s i d) l = ApplyPacketRateLimitBlacklist now s (IdentityValue i s) d l"
| "rl_do now (Strike order s i w) l = snd (AddPacketRateLimitStrike now order s (IdentityValue i s) w l)"
| "rl_do now (ClearSession sid) l = ClearPacketRateLimitSessionState sid l"

fun rl_run :: "(int \<times> rl_op) list \<Rightarrow> limiter \<Rightarrow> limiter" where
  "rl_run [] l = l"
| "rl_run ((now, op) # ops) l = rl_run ops (rl_do now op l)"

text \<open>Every key of a session is listed under it, and nothing else is.\<close>

definition held :: "limiter \<Rightarrow> string \<Rightarrow> bool" where
  "held l k \<longleftrightarrow> k |\<in>| fmdom (rl_windows l) \<or> k |\<in>| fmdom (rl_strikes l) \<or> k |\<in>| fmdom (rl_cooldowns l) \<or> k |\<in>| fmdom (rl_blacklists l)"

abbreviation listed_keys :: "limiter \<Rightarrow> u16 \<Rightarrow> string set" where
  "listed_keys l sid \<equiv> set (or_none [] sid (rl_session_keys l))"

definition tracked :: "limiter \<Rightarrow> bool" where
  "tracked l \<longleftrightarrow> (\<forall>sid k. sid \<noteq> 0 \<longrightarrow> session_key sid k \<longrightarrow> held l k \<longrightarrow> k \<in> listed_keys l sid)"

definition lists_own :: "limiter \<Rightarrow> bool" where
  "lists_own l \<longleftrightarrow> (\<forall>sid k. k \<in> listed_keys l sid \<longrightarrow> session_key sid k)"

lemma listed_track: "listed_keys (track s k l) sid = listed_keys l sid \<union> (if sid = s then {k} else {})"
  by (auto simp: track_def or_none_def)

lemma track_maps [simp]:
  "rl_windows (track s k l) = rl_windows l" "rl_strikes (track s k l) = rl_strikes l"
  "rl_cooldowns (track s k l) = rl_cooldowns l" "rl_blacklists (track s k l) = rl_blacklists l"
  by (simp_all add: track_def)

lemma tracked_add:
  assumes "tracked l" "\<And>k. held l' k \<Longrightarrow> held l k \<or> k = K" "\<And>sid. listed_keys l sid \<subseteq> listed_keys l' sid"
    and "\<And>sid. sid \<noteq> 0 \<Longrightarrow> session_key sid K \<Longrightarrow> \<not> held l K \<Longrightarrow> K \<in> listed_keys l' sid"
  shows "tracked l'"
  unfolding tracked_def
proof (intro allI impI)
  fix sid k assume k: "sid \<noteq> 0" "session_key sid k" "held l' k"
  show "k \<in> listed_keys l' sid"
  proof (cases "held l k")
    case True
    then show ?thesis using assms(1,3) k by (auto simp: tracked_def)
  next
    case False
    then show ?thesis using assms(2) [OF k(3)] assms(4) k by auto
  qed
qed

lemma IdentityValue_session: "IdentityValue i Scope_Session \<noteq> [] \<Longrightarrow> IdentityValue i Scope_Session = dec (unat (id_sid i)) \<and> id_sid i \<noteq> 0"
  by (simp add: IdentityValue_def split: if_splits)

lemma session_of_value: "IdentityValue i Scope_Session \<noteq> [] \<Longrightarrow> of_nat (stoul (IdentityValue i Scope_Session)) = id_sid i"
  using IdentityValue_session [of i] by simp

lemma unat_16 [simp]: "unat (a :: u16) = unat b \<longleftrightarrow> a = b"
  by (simp add: word_unat_eq_iff)

lemma held_update:
  "held (l\<lparr>rl_windows := fmupd K x (rl_windows l)\<rparr>) k \<longleftrightarrow> k = K \<or> held l k"
  "held (l\<lparr>rl_strikes := fmupd K x (rl_strikes l)\<rparr>) k \<longleftrightarrow> k = K \<or> held l k"
  "held (l\<lparr>rl_cooldowns := later_expiry K e (rl_cooldowns l)\<rparr>) k \<longleftrightarrow> k = K \<or> held l k"
  "held (l\<lparr>rl_blacklists := later_expiry K e (rl_blacklists l)\<rparr>) k \<longleftrightarrow> k = K \<or> held l k"
  by (auto simp: held_def later_expiry_def)

lemma dom_held:
  "k |\<in>| fmdom (rl_cooldowns l) \<Longrightarrow> held l k" "k |\<in>| fmdom (rl_blacklists l) \<Longrightarrow> held l k"
  "or_none [] k (rl_strikes l) \<noteq> [] \<Longrightarrow> held l k" "or_none [] k (rl_windows l) \<noteq> [] \<Longrightarrow> held l k"
  by (auto simp: held_def or_none_def fmdomI split: option.splits)

lemma held_track [simp]: "held (track s k' l) k = held l k"
  by (simp add: held_def)

text \<open>An operation that adds one key, listed when the key is a session's and new.\<close>

lemma add_key:
  assumes "tracked l" "lists_own l" "rl_session_keys l1 = rl_session_keys l" "\<And>k. held l1 k \<longleftrightarrow> k = K \<or> held l k"
    and "\<And>sid. session_key sid K \<longleftrightarrow> s = Scope_Session \<and> sid = sid0"
    and "s = Scope_Session \<Longrightarrow> \<not> c \<Longrightarrow> held l K" "c \<Longrightarrow> s = Scope_Session"
  shows "tracked (if c then track sid0 K l1 else l1) \<and> lists_own (if c then track sid0 K l1 else l1)"
proof -
  have l1: "listed_keys l1 sid = listed_keys l sid" for sid by (simp add: assms(3))
  show ?thesis
  proof (cases c)
    case True
    have "tracked (track sid0 K l1)"
      by (rule tracked_add [OF assms(1), of _ K]) (auto simp: assms(4,5) listed_track l1)
    moreover have "lists_own (track sid0 K l1)" using assms(2,5,7) True by (auto simp: lists_own_def listed_track l1 split: if_splits)
    ultimately show ?thesis using True by simp
  next
    case False
    have "tracked l1" by (rule tracked_add [OF assms(1), of _ K]) (use assms(5,6) False in \<open>auto simp: assms(4) l1\<close>)
    then show ?thesis using assms(2) False by (simp add: lists_own_def l1)
  qed
qed

lemma session_key_of:
  assumes "IdentityValue i s \<noteq> []"
  shows "session_key sid (MakePacketRateLimitOrderKey order s (IdentityValue i s)) \<longleftrightarrow> s = Scope_Session \<and> sid = id_sid i"
  using assms IdentityValue_session [of i] by (auto simp: session_key_order)

lemma session_key_of_identity:
  assumes "IdentityValue i s \<noteq> []" "CHR ''|'' \<notin> set (IdentityValue i s)"
  shows "session_key sid (MakePacketRateLimitIdentityKey s (IdentityValue i s)) \<longleftrightarrow> s = Scope_Session \<and> sid = id_sid i"
  using assms(1) IdentityValue_session [of i] by (auto simp: session_key_identity [OF assms(2)])

text \<open>No identity holds the separator: an address does not, and numbers do not.\<close>

fun plain_op :: "rl_op \<Rightarrow> bool" where
  "plain_op (Blacklisting s i d) \<longleftrightarrow> CHR ''|'' \<notin> set (IdentityValue i s)"
| "plain_op op \<longleftrightarrow> True"

lemma step_cooldown:
  assumes "tracked l" "lists_own l"
  shows "tracked (rl_do now (Cooldown order s i d) l) \<and> lists_own (rl_do now (Cooldown order s i d) l)"
proof (cases "IdentityValue i s = [] \<or> d \<le> 0")
  case False
  let ?K = "MakePacketRateLimitOrderKey order s (IdentityValue i s)"
  let ?c = "?K |\<notin>| fmdom (rl_cooldowns l) \<and> s = Scope_Session"
  let ?l = "l\<lparr>rl_cooldowns := later_expiry ?K (now + nanos d) (rl_cooldowns l)\<rparr>"
  have "rl_do now (Cooldown order s i d) l = (if ?c then track (id_sid i) ?K ?l else ?l)"
    using False session_of_value [of i] by (auto simp: ApplyPacketRateLimitCooldown_def Let_def)
  moreover have "tracked (if ?c then track (id_sid i) ?K ?l else ?l) \<and> lists_own (if ?c then track (id_sid i) ?K ?l else ?l)"
    by (rule add_key [OF assms, where s = s]) (use False session_key_of in \<open>auto simp: held_update dom_held\<close>)
  ultimately show ?thesis by simp
qed (use assms in \<open>simp add: ApplyPacketRateLimitCooldown_def\<close>)

lemma step_blacklist:
  assumes "tracked l" "lists_own l" "CHR ''|'' \<notin> set (IdentityValue i s)"
  shows "tracked (rl_do now (Blacklisting s i d) l) \<and> lists_own (rl_do now (Blacklisting s i d) l)"
proof (cases "IdentityValue i s = [] \<or> d \<le> 0")
  case False
  let ?K = "MakePacketRateLimitIdentityKey s (IdentityValue i s)"
  let ?c = "?K |\<notin>| fmdom (rl_blacklists l) \<and> s = Scope_Session"
  let ?l = "l\<lparr>rl_blacklists := later_expiry ?K (now + nanos d) (rl_blacklists l)\<rparr>"
  have "rl_do now (Blacklisting s i d) l = (if ?c then track (id_sid i) ?K ?l else ?l)"
    using False session_of_value [of i] by (auto simp: ApplyPacketRateLimitBlacklist_def Let_def)
  moreover have "tracked (if ?c then track (id_sid i) ?K ?l else ?l) \<and> lists_own (if ?c then track (id_sid i) ?K ?l else ?l)"
    by (rule add_key [OF assms(1,2), where s = s]) (use False session_key_of_identity assms(3) in \<open>auto simp: held_update dom_held\<close>)
  ultimately show ?thesis by simp
qed (use assms in \<open>simp add: ApplyPacketRateLimitBlacklist_def\<close>)

lemma step_strike:
  assumes "tracked l" "lists_own l"
  shows "tracked (rl_do now (Strike order s i w) l) \<and> lists_own (rl_do now (Strike order s i w) l)"
proof (cases "IdentityValue i s = [] \<or> w \<le> 0")
  case False
  let ?K = "MakePacketRateLimitOrderKey order s (IdentityValue i s)"
  let ?c = "or_none [] ?K (rl_strikes l) = [] \<and> s = Scope_Session"
  let ?l = "l\<lparr>rl_strikes := fmupd ?K (Prune now w (or_none [] ?K (rl_strikes l)) @ [now]) (rl_strikes l)\<rparr>"
  have "rl_do now (Strike order s i w) l = (if ?c then track (id_sid i) ?K ?l else ?l)"
    using False session_of_value [of i] by (auto simp: AddPacketRateLimitStrike_def Let_def)
  moreover have "tracked (if ?c then track (id_sid i) ?K ?l else ?l) \<and> lists_own (if ?c then track (id_sid i) ?K ?l else ?l)"
    by (rule add_key [OF assms, where s = s])
      (use False session_key_of in \<open>auto simp: held_update dom_held\<close>)
  ultimately show ?thesis by simp
qed (use assms in \<open>simp add: AddPacketRateLimitStrike_def\<close>)

lemma fewer_held:
  assumes "tracked l" "lists_own l" "\<And>k. held l' k \<Longrightarrow> held l k" "rl_session_keys l' = rl_session_keys l"
  shows "tracked l' \<and> lists_own l'"
  using assms by (simp add: tracked_def lists_own_def)

lemma step_clear:
  assumes "tracked l" "lists_own l"
  shows "tracked (rl_do now (ClearSession sid) l) \<and> lists_own (rl_do now (ClearSession sid) l)"
    and "sid \<noteq> 0 \<Longrightarrow> session_key sid k \<Longrightarrow> \<not> held (rl_do now (ClearSession sid) l) k"
proof -
  let ?r = "ClearPacketRateLimitSessionState sid l"
  have held: "held ?r k \<longleftrightarrow> held l k \<and> (sid = 0 \<or> k \<notin> listed_keys l sid)" for k
    by (auto simp: ClearPacketRateLimitSessionState_def held_def or_none_def fset_of_list_elem split: option.splits)
  have keys: "listed_keys ?r s = (if s = sid \<and> sid \<noteq> 0 then {} else listed_keys l s)" for s
    by (auto simp: ClearPacketRateLimitSessionState_def or_none_def split: option.splits)
  have gone: "\<not> held ?r k" if "sid \<noteq> 0" "session_key sid k" for k
    using that assms(1) by (auto simp: held tracked_def)
  then show "sid \<noteq> 0 \<Longrightarrow> session_key sid k \<Longrightarrow> \<not> held (rl_do now (ClearSession sid) l) k" by simp
  have "k \<in> listed_keys ?r s" if k: "s \<noteq> 0" "session_key s k" "held ?r k" for s k
  proof -
    have "k \<in> listed_keys l s" using k assms(1) held unfolding tracked_def by blast
    moreover have "s \<noteq> sid" using gone k by blast
    ultimately show ?thesis unfolding keys by simp
  qed
  then have "tracked ?r" unfolding tracked_def by blast
  moreover have "listed_keys ?r s \<subseteq> listed_keys l s" for s unfolding keys by simp
  then have "lists_own ?r" using assms(2) unfolding lists_own_def by blast
  ultimately show "tracked (rl_do now (ClearSession sid) l) \<and> lists_own (rl_do now (ClearSession sid) l)" by simp
qed

text \<open>The loops over the scopes only take expired entries away.\<close>

lemma try_reject_drops: "try_reject now k m = (r, m') \<Longrightarrow> fmlookup m' k' \<in> {fmlookup m k', None}"
  by (auto simp: try_reject_def split: option.splits if_splits)

lemma reject_loop_drops: "reject_loop now i key ss m = (r, m') \<Longrightarrow> fmlookup m' k \<in> {fmlookup m k, None}"
proof (induction ss arbitrary: m)
  case (Cons s ss)
  show ?case
  proof (cases "IdentityValue i s = []")
    case False
    obtain r1 m1 where 1: "try_reject now (key s (IdentityValue i s)) m = (r1, m1)" by fastforce
    then have m1: "fmlookup m1 k \<in> {fmlookup m k, None}" by (rule try_reject_drops)
    show ?thesis
    proof (cases r1)
      case None
      then have "fmlookup m' k \<in> {fmlookup m1 k, None}" using Cons.prems 1 False by (intro Cons.IH) simp
      then show ?thesis using m1 by auto
    qed (use Cons.prems 1 False m1 in auto)
  qed (use Cons in simp)
qed simp

lemma reject_loop_dom: "reject_loop now i key ss m = (r, m') \<Longrightarrow> k |\<in>| fmdom m' \<Longrightarrow> k |\<in>| fmdom m"
  using reject_loop_drops [of now i key ss m r m' k] by (auto simp: fmlookup_dom_iff)

lemma step_count:
  assumes "tracked l" "lists_own l"
  shows "tracked (snd (snd (count_packet now order i s m w l))) \<and> lists_own (snd (snd (count_packet now order i s m w l)))"
proof (cases "IdentityValue i s = []")
  case False
  let ?K = "MakePacketRateLimitOrderKey order s (IdentityValue i s)"
  let ?ts = "Prune now w (or_none [] ?K (rl_windows l)) @ [now]"
  let ?c = "length ?ts = 1 \<and> s = Scope_Session \<and> id_sid i \<noteq> 0"
  let ?l = "l\<lparr>rl_windows := fmupd ?K ?ts (rl_windows l)\<rparr>"
  have "snd (snd (count_packet now order i s m w l)) = (if ?c then track (id_sid i) ?K ?l else ?l)"
    using False by (simp add: count_packet_def Let_def)
  moreover have "held l ?K" if "s = Scope_Session" "\<not> ?c"
  proof -
    have "id_sid i \<noteq> 0" using IdentityValue_session [of i] False that(1) by simp
    then have "Prune now w (or_none [] ?K (rl_windows l)) \<noteq> []" using that by auto
    then have "or_none [] ?K (rl_windows l) \<noteq> []" by (auto simp: Prune_def)
    then show ?thesis by (rule dom_held)
  qed
  then have "tracked (if ?c then track (id_sid i) ?K ?l else ?l) \<and> lists_own (if ?c then track (id_sid i) ?K ?l else ?l)"
    by (intro add_key [OF assms, where s = s]) (use False session_key_of in \<open>auto simp: held_update\<close>)
  ultimately show ?thesis by simp
qed (use assms in \<open>simp add: count_packet_def\<close>)

lemma step_try:
  assumes "tracked l" "lists_own l"
  shows "tracked (rl_do now (Try order i s m w) l) \<and> lists_own (rl_do now (Try order i s m w) l)"
proof -
  obtain r1 bl where 1: "reject_loop now i MakePacketRateLimitIdentityKey scopes (rl_blacklists l) = (r1, bl)" by fastforce
  obtain r2 cd where 2: "reject_loop now i (MakePacketRateLimitOrderKey order) scopes (rl_cooldowns l) = (r2, cd)" by fastforce
  let ?l1 = "l\<lparr>rl_blacklists := bl\<rparr>" and ?l2 = "l\<lparr>rl_blacklists := bl, rl_cooldowns := cd\<rparr>"
  have 3: "tracked ?l1 \<and> lists_own ?l1" by (rule fewer_held [OF assms]) (auto simp: held_def reject_loop_dom [OF 1])
  have 4: "tracked ?l2 \<and> lists_own ?l2"
    by (rule fewer_held [OF assms]) (auto simp: held_def reject_loop_dom [OF 1] reject_loop_dom [OF 2])
  show ?thesis
    using 3 4 step_count [of ?l2 now order i s m w] 1 2
    by (auto simp: ShouldProcessPacket_def Let_def split: option.splits prod.splits)
qed

lemma run_tracked:
  "list_all (\<lambda>(now, op). plain_op op) ops \<Longrightarrow> tracked l \<Longrightarrow> lists_own l \<Longrightarrow> tracked (rl_run ops l) \<and> lists_own (rl_run ops l)"
proof (induction ops arbitrary: l)
  case (Cons e ops)
  obtain now op where e: "e = (now, op)" by fastforce
  have "tracked (rl_do now op l) \<and> lists_own (rl_do now op l)"
    using Cons.prems step_try step_cooldown step_blacklist step_strike step_clear(1) by (cases op) (auto simp: e simp del: rl_do.simps)
  then show ?case using Cons e by simp
qed simp

text \<open>
  When a session is cleared, nothing the limiter has stored under its number is left: no
  window, strike, cooldown or blacklisting waits for the next session that is given the number.
\<close>

theorem clear_forgets_session:
  assumes "list_all (\<lambda>(now, op). plain_op op) ops" "sid \<noteq> 0"
    and "k = MakePacketRateLimitOrderKey order Scope_Session (dec (unat sid)) \<or> k = MakePacketRateLimitIdentityKey Scope_Session (dec (unat sid))"
  shows "let l = ClearPacketRateLimitSessionState sid (rl_run ops new_limiter) in
    fmlookup (rl_windows l) k = None \<and> fmlookup (rl_strikes l) k = None \<and> fmlookup (rl_cooldowns l) k = None
    \<and> fmlookup (rl_blacklists l) k = None"
proof -
  have "tracked new_limiter" "lists_own new_limiter"
    by (simp_all add: tracked_def lists_own_def held_def new_limiter_def or_none_def)
  then have "tracked (rl_run ops new_limiter)" "lists_own (rl_run ops new_limiter)" using run_tracked [OF assms(1)] by auto
  moreover have "session_key sid k" using assms(3) by (auto simp: session_key_def)
  ultimately have "\<not> held (ClearPacketRateLimitSessionState sid (rl_run ops new_limiter)) k"
    using step_clear(2) [of "rl_run ops new_limiter" sid k] assms(2) by simp
  then show ?thesis unfolding Let_def held_def by (simp add: fmlookup_dom_iff)
qed

definition client :: "u16 \<Rightarrow> u32 \<Rightarrow> IdentitySnapshot" where
  "client sid aid = \<lparr>id_sid = sid, id_aid = aid, id_ip = ''10.0.0.1'', id_hwid = ''disk1''\<rparr>"

theorem clear_forgets_session_witness:
  "fmlookup (rl_windows (ClearPacketRateLimitSessionState 7 (rl_run [(0, Try 30 (client 7 0) Scope_Session 20 2000)] new_limiter)))
     (MakePacketRateLimitOrderKey 30 Scope_Session (dec (unat (7 :: u16)))) = None"
proof -
  have 1: "list_all (\<lambda>(now, op). plain_op op) [(0, Try 30 (client 7 0) Scope_Session 20 2000)]" by simp
  have 2: "(7 :: u16) \<noteq> 0" by simp
  show ?thesis using clear_forgets_session [OF 1 2 disjI1 [OF refl], of 30] unfolding Let_def by (elim conjE)
qed

section \<open>Blacklists\<close>

lemma Remaining_pos: "now + 1000000 \<le> e \<Longrightarrow> 0 < Remaining e now"
proof -
  assume le: "now + 1000000 \<le> e"
  then have "1 \<le> (e - now) div 1000000" using zdiv_mono1 [of 1000000 "e - now" 1000000] by simp
  then show ?thesis using le by (simp add: Remaining_def)
qed

lemma reject_loop_keeps:
  "reject_loop now i key ss m = (r, m') \<Longrightarrow> fmlookup m k = Some e \<Longrightarrow> now + 1000000 \<le> e \<Longrightarrow> fmlookup m' k = Some e"
proof (induction ss arbitrary: m)
  case (Cons s ss)
  show ?case
  proof (cases "IdentityValue i s = []")
    case False
    obtain r1 m1 where 1: "try_reject now (key s (IdentityValue i s)) m = (r1, m1)" by fastforce
    have "fmlookup m1 k = Some e"
      using 1 Cons.prems Remaining_pos [of now e] by (auto simp: try_reject_def split: option.splits if_splits)
    then show ?thesis using Cons 1 False by (cases r1) auto
  qed (use Cons in simp)
qed simp

lemma reject_loop_rejects:
  assumes "s \<in> set ss" "IdentityValue i s \<noteq> []" "fmlookup m (key s (IdentityValue i s)) = Some e" "now + 1000000 \<le> e"
  shows "fst (reject_loop now i key ss m) \<noteq> None"
  using assms
proof (induction ss arbitrary: m)
  case (Cons s' ss)
  show ?case
  proof (cases "IdentityValue i s' = []")
    case True
    then show ?thesis using Cons by auto
  next
    case False
    obtain r1 m1 where 1: "try_reject now (key s' (IdentityValue i s')) m = (r1, m1)" by fastforce
    show ?thesis
    proof (cases r1)
      case None
      have "s' \<noteq> s" using 1 None Cons.prems(3,4) Remaining_pos [of now e] by (auto simp: try_reject_def)
      moreover have "fmlookup m1 (key s (IdentityValue i s)) = Some e"
        using 1 Cons.prems(3,4) Remaining_pos [of now e] by (auto simp: try_reject_def split: option.splits if_splits)
      ultimately show ?thesis using Cons.IH [of m1] Cons.prems 1 None False by simp
    qed (use 1 False in simp)
  qed
qed simp

lemma count_packet_blacklists [simp]: "rl_blacklists (snd (snd (count_packet now order i s m w l))) = rl_blacklists l"
  by (simp add: count_packet_def Let_def)

lemma Try_blacklists:
  "rl_blacklists (snd (ShouldProcessPacket now order i s m w l)) = snd (reject_loop now i MakePacketRateLimitIdentityKey scopes (rl_blacklists l))"
proof -
  obtain r1 bl where 1: "reject_loop now i MakePacketRateLimitIdentityKey scopes (rl_blacklists l) = (r1, bl)" by fastforce
  obtain r2 cd where 2: "reject_loop now i (MakePacketRateLimitOrderKey order) scopes (rl_cooldowns l) = (r2, cd)" by fastforce
  obtain n r l2 where 3: "count_packet now order i s m w (l\<lparr>rl_blacklists := bl, rl_cooldowns := cd\<rparr>) = (n, r, l2)"
    by (metis prod_cases3)
  have "rl_blacklists l2 = bl" using count_packet_blacklists [of now order i s m w "l\<lparr>rl_blacklists := bl, rl_cooldowns := cd\<rparr>"] 3 by simp
  then show ?thesis using 1 2 3 by (cases r1; cases r2; cases r) (simp_all add: ShouldProcessPacket_def Let_def)
qed

lemma blacklist_lasts:
  assumes "lists_own l" "CHR ''|'' \<notin> set v" "s \<noteq> Scope_Session" "now + 1000000 \<le> bound"
    and "\<exists>e \<ge> bound. fmlookup (rl_blacklists l) (MakePacketRateLimitIdentityKey s v) = Some e"
  shows "\<exists>e \<ge> bound. fmlookup (rl_blacklists (rl_do now op l)) (MakePacketRateLimitIdentityKey s v) = Some e"
proof -
  let ?K = "MakePacketRateLimitIdentityKey s v"
  obtain e where e: "bound \<le> e" "fmlookup (rl_blacklists l) ?K = Some e" using assms(5) by blast
  show ?thesis
  proof (cases op)
    case (Try order i s' m w)
    have "fmlookup (snd (reject_loop now i MakePacketRateLimitIdentityKey scopes (rl_blacklists l))) ?K = Some e"
      using reject_loop_keeps [of now i MakePacketRateLimitIdentityKey scopes "rl_blacklists l", OF prod.collapse [symmetric] e(2)] assms(4) e(1) by simp
    then show ?thesis using e(1) by (auto simp: Try Try_blacklists)
  next
    case (Blacklisting s' i d)
    then show ?thesis using e by (auto simp: ApplyPacketRateLimitBlacklist_def Let_def later_expiry_def or_none_def)
  next
    case (ClearSession sid)
    have "?K \<notin> listed_keys l sid" using assms(1,3) session_key_identity [OF assms(2)] by (auto simp: lists_own_def)
    then show ?thesis
      using e by (auto simp: ClearSession ClearPacketRateLimitSessionState_def or_none_def fset_of_list_elem split: option.split)
  qed (use e in \<open>auto simp: ApplyPacketRateLimitCooldown_def AddPacketRateLimitStrike_def Let_def\<close>)
qed

lemma run_blacklist_lasts:
  assumes "CHR ''|'' \<notin> set v" "s \<noteq> Scope_Session"
  shows "tracked l \<Longrightarrow> lists_own l \<Longrightarrow> list_all (\<lambda>(now, op). plain_op op \<and> now + 1000000 \<le> bound) ops \<Longrightarrow>
    \<exists>e \<ge> bound. fmlookup (rl_blacklists l) (MakePacketRateLimitIdentityKey s v) = Some e \<Longrightarrow>
    \<exists>e \<ge> bound. fmlookup (rl_blacklists (rl_run ops l)) (MakePacketRateLimitIdentityKey s v) = Some e"
proof (induction ops arbitrary: l)
  case (Cons x ops)
  obtain now op where x: "x = (now, op)" by fastforce
  have "tracked (rl_do now op l) \<and> lists_own (rl_do now op l)"
    using run_tracked [of "[(now, op)]" l] Cons.prems x by simp
  moreover have "\<exists>e \<ge> bound. fmlookup (rl_blacklists (rl_do now op l)) (MakePacketRateLimitIdentityKey s v) = Some e"
    using blacklist_lasts [OF Cons.prems(2) assms _ Cons.prems(4)] Cons.prems(3) x by simp
  ultimately show ?case using Cons x by simp
qed simp



section \<open>The rate\<close>

text \<open>The times at which a bucket accepts a packet.\<close>

definition of_bucket :: "u16 \<Rightarrow> IdentityScope \<Rightarrow> string \<Rightarrow> rl_op \<Rightarrow> bool" where
  "of_bucket order s v op = (case op of Try o1 i s' m w \<Rightarrow> o1 = order \<and> s' = s \<and> IdentityValue i s = v | _ \<Rightarrow> False)"

definition accepts :: "int \<Rightarrow> rl_op \<Rightarrow> limiter \<Rightarrow> bool" where
  "accepts now op l = (case op of Try order i s m w \<Rightarrow> fst (ShouldProcessPacket now order i s m w l) = None | _ \<Rightarrow> False)"

fun accepted_at :: "(rl_op \<Rightarrow> bool) \<Rightarrow> (int \<times> rl_op) list \<Rightarrow> limiter \<Rightarrow> int list" where
  "accepted_at b [] l = []"
| "accepted_at b ((now, op) # ops) l = (if b op \<and> accepts now op l then [now] else []) @ accepted_at b ops (rl_do now op l)"

abbreviation stamps :: "u16 \<Rightarrow> IdentityScope \<Rightarrow> string \<Rightarrow> limiter \<Rightarrow> int list" where
  "stamps order s v l \<equiv> or_none [] (MakePacketRateLimitOrderKey order s v) (rl_windows l)"

lemma stamps_update [simp]: "or_none [] k (fmupd k' x m) = (if k = k' then x else or_none [] k m)"
  by (simp add: or_none_def)

lemma count_packet_stamps:
  assumes "v \<noteq> []"
  shows "stamps order s v (snd (snd (count_packet now o1 i s' m w l)))
    = (if of_bucket order s v (Try o1 i s' m w) then Prune now w (stamps order s v l) @ [now] else stamps order s v l)"
  using assms by (auto simp: count_packet_def Let_def of_bucket_def)

lemma stamps_other_maps [simp]:
  "stamps order s v (l\<lparr>rl_blacklists := x\<rparr>) = stamps order s v l" "stamps order s v (l\<lparr>rl_cooldowns := y\<rparr>) = stamps order s v l"
  by simp_all

lemma bucket_step:
  assumes "v \<noteq> []" "0 < m" "0 < w" "of_bucket order s v (Try o1 i s' m w)"
  shows "stamps order s v (rl_do now (Try o1 i s' m w) l) = Prune now w (stamps order s v l) @ [now]
      \<and> (accepts now (Try o1 i s' m w) l \<longrightarrow> length (Prune now w (stamps order s v l) @ [now]) \<le> m)
    \<or> stamps order s v (rl_do now (Try o1 i s' m w) l) = stamps order s v l \<and> \<not> accepts now (Try o1 i s' m w) l"
proof -
  obtain r1 bl where 1: "reject_loop now i MakePacketRateLimitIdentityKey scopes (rl_blacklists l) = (r1, bl)" by fastforce
  obtain r2 cd where 2: "reject_loop now i (MakePacketRateLimitOrderKey o1) scopes (rl_cooldowns l) = (r2, cd)" by fastforce
  have "IdentityValue i s' = v" "o1 = order" "s' = s" using assms(4) by (auto simp: of_bucket_def)
  then show ?thesis
    using assms(1-3) 1 2
    by (cases r1; cases r2) (auto simp: ShouldProcessPacket_def accepts_def count_packet_def Let_def)
qed

lemma other_step:
  assumes "v \<noteq> []" "s \<noteq> Scope_Session" "lists_own l" "\<not> of_bucket order s v op"
  shows "stamps order s v (rl_do now op l) = stamps order s v l"
proof (cases op)
  case (Try o1 i s' m w)
  obtain r1 bl where 1: "reject_loop now i MakePacketRateLimitIdentityKey scopes (rl_blacklists l) = (r1, bl)" by fastforce
  obtain r2 cd where 2: "reject_loop now i (MakePacketRateLimitOrderKey o1) scopes (rl_cooldowns l) = (r2, cd)" by fastforce
  show ?thesis
    using assms(4) count_packet_stamps [OF assms(1), of order s now o1 i s' m w "l\<lparr>rl_blacklists := bl, rl_cooldowns := cd\<rparr>"] 1 2
    by (auto simp: Try ShouldProcessPacket_def Let_def split: option.splits prod.splits)
next
  case (ClearSession sid)
  have "MakePacketRateLimitOrderKey order s v \<notin> listed_keys l sid" using assms(2,3) session_key_order by (metis lists_own_def)
  then show ?thesis
    by (auto simp: ClearSession ClearPacketRateLimitSessionState_def or_none_def fset_of_list_elem split: option.split)
qed (auto simp: ApplyPacketRateLimitCooldown_def ApplyPacketRateLimitBlacklist_def AddPacketRateLimitStrike_def Let_def)

lemma Prune_recent: "filter (\<lambda>a. now - nanos w < a) (Prune now w ts) = filter (\<lambda>a. now - nanos w < a) ts"
  by (induction ts) (auto simp: Prune_def)

definition in_window :: "int \<Rightarrow> int \<Rightarrow> int list \<Rightarrow> nat" where
  "in_window w t as = length (filter (\<lambda>a. t - nanos w < a \<and> a \<le> t) as)"

text \<open>What was accepted within the last window is still in the list of timestamps.\<close>

definition remembers :: "int \<Rightarrow> int \<Rightarrow> int list \<Rightarrow> int list \<Rightarrow> bool" where
  "remembers w prev as ts \<longleftrightarrow> mset (filter (\<lambda>a. prev - nanos w < a) as) \<subseteq># mset (filter (\<lambda>a. prev - nanos w < a) ts)"

lemma remembers_later:
  assumes "remembers w prev as ts" "prev \<le> now"
  shows "remembers w now as ts"
proof -
  have f: "filter (\<lambda>a. now - nanos w < a) xs = filter (\<lambda>a. now - nanos w < a) (filter (\<lambda>a. prev - nanos w < a) xs)" for xs
    using assms(2) by (auto intro: filter_cong)
  show ?thesis
    using assms(1) unfolding remembers_def f [of as] f [of ts] mset_filter by (rule multiset_filter_mono)
qed

lemma accept_bound:
  assumes "remembers w now as ts" "length (Prune now w ts @ [now]) \<le> m" "list_all (\<lambda>a. a \<le> now) as"
    and "\<And>t. in_window w t as \<le> m"
  shows "in_window w t (as @ [now]) \<le> m"
proof (cases "t - nanos w < now \<and> now \<le> t")
  case True
  have "in_window w t (as @ [now]) = Suc (length (filter (\<lambda>a. t - nanos w < a \<and> a \<le> t) as))" using True by (simp add: in_window_def)
  also have "length (filter (\<lambda>a. t - nanos w < a \<and> a \<le> t) as) \<le> length (filter (\<lambda>a. now - nanos w < a) as)"
    unfolding length_filter_conv_card using True by (intro card_mono) auto
  also have "\<dots> \<le> length (filter (\<lambda>a. now - nanos w < a) (Prune now w ts))"
    using size_mset_mono [OF assms(1) [unfolded remembers_def]] by (simp add: Prune_recent del: mset_filter)
  also have "\<dots> \<le> length (Prune now w ts)" by simp
  finally show ?thesis using assms(2) by simp
next
  case False
  then have "in_window w t (as @ [now]) = in_window w t as" by (auto simp: in_window_def)
  then show ?thesis using assms(4) by simp
qed

lemma multi_subset_add: "A \<subseteq># add_mset x A"
  by (simp add: subseteq_mset_def)

lemma remembers_push:
  "remembers w now as ts \<Longrightarrow> remembers w now (as @ [now]) (Prune now w ts @ [now])"
  "remembers w now as ts \<Longrightarrow> remembers w now as (Prune now w ts @ [now])"
  by (auto simp: remembers_def Prune_recent simp del: mset_filter intro: subset_mset.order_trans [OF _ multi_subset_add])

lemma accepted_bound:
  assumes "v \<noteq> []" "s \<noteq> Scope_Session" "0 < m" "0 < w"
  shows "tracked l \<Longrightarrow> lists_own l \<Longrightarrow> list_all (\<lambda>(t, op). plain_op op) ops
    \<Longrightarrow> list_all (\<lambda>(t, op). of_bucket order s v op \<longrightarrow> (\<exists>i. op = Try order i s m w)) ops
    \<Longrightarrow> sorted (prev # map fst ops) \<Longrightarrow> list_all (\<lambda>a. a \<le> prev) as \<Longrightarrow> remembers w prev as (stamps order s v l)
    \<Longrightarrow> (\<And>t. in_window w t as \<le> m) \<Longrightarrow> in_window w t (as @ accepted_at (of_bucket order s v) ops l) \<le> m"
proof (induction ops arbitrary: l as prev)
  case (Cons e ops)
  obtain now op where e: "e = (now, op)" by fastforce
  let ?l = "rl_do now op l"
  have l: "tracked ?l" "lists_own ?l" using run_tracked [of "[(now, op)]" l] Cons.prems e by simp_all
  have now: "prev \<le> now" "sorted (now # map fst ops)" using Cons.prems(5) e by simp_all
  have rem: "remembers w now as (stamps order s v l)" using Cons.prems(7) now(1) by (rule remembers_later)
  have as: "list_all (\<lambda>a. a \<le> now) as" using Cons.prems(6) now(1) by (auto simp: list_all_iff)
  have rest: "list_all (\<lambda>(t, op). plain_op op) ops"
    "list_all (\<lambda>(t, op). of_bucket order s v op \<longrightarrow> (\<exists>i. op = Try order i s m w)) ops" using Cons.prems(3,4) by simp_all
  note IH = Cons.IH [OF l rest now(2)]
  show ?case
  proof (cases "of_bucket order s v op")
    case False
    then have "stamps order s v ?l = stamps order s v l" using other_step [OF assms(1,2) Cons.prems(2)] by simp
    then show ?thesis using IH [OF as] rem Cons.prems(8) False e by simp
  next
    case True
    then obtain i where op: "op = Try order i s m w" using Cons.prems(4) e by auto
    have b: "of_bucket order s v (Try order i s m w)" using True op by simp
    from bucket_step [OF assms(1,3,4) b, of now l] show ?thesis
    proof (elim disjE conjE)
      assume st: "stamps order s v (rl_do now (Try order i s m w) l) = Prune now w (stamps order s v l) @ [now]"
        and le: "accepts now (Try order i s m w) l \<longrightarrow> length (Prune now w (stamps order s v l) @ [now]) \<le> m"
      show ?thesis
      proof (cases "accepts now op l")
        case acc: True
        have "\<And>t. in_window w t (as @ [now]) \<le> m" using accept_bound [OF rem _ as Cons.prems(8)] le acc op by simp
        moreover have "list_all (\<lambda>a. a \<le> now) (as @ [now])" using as by simp
        moreover have "remembers w now (as @ [now]) (stamps order s v ?l)" using remembers_push(1) [OF rem] st op by simp
        ultimately have "in_window w t ((as @ [now]) @ accepted_at (of_bucket order s v) ops ?l) \<le> m" using IH by blast
        then show ?thesis using acc True e by simp
      next
        case False
        have "remembers w now as (stamps order s v ?l)" using remembers_push(2) [OF rem] st op by simp
        then have "in_window w t (as @ accepted_at (of_bucket order s v) ops ?l) \<le> m" using IH [OF as] Cons.prems(8) by blast
        then show ?thesis using False e by simp
      qed
    next
      assume st: "stamps order s v (rl_do now (Try order i s m w) l) = stamps order s v l" and "\<not> accepts now (Try order i s m w) l"
      moreover have "remembers w now as (stamps order s v ?l)" using rem st op by simp
      then have "in_window w t (as @ accepted_at (of_bucket order s v) ops ?l) \<le> m" using IH [OF as] Cons.prems(8) by blast
      ultimately show ?thesis using e op by simp
    qed
  qed
qed (simp add: in_window_def)



end
