(* ===== verification/Cache.thy ===== *)
theory Cache
  imports Prelude "HOL-Library.Finite_Map" "HOL-Library.Multiset"
begin

text \<open>
  The container wrapper of \<open>CCache.h\<close>. Every method takes the container's lock for its whole
  body, so each is one function on the container: a hash map is a finite map, a hash set a
  finite set, a vector a list. A method that also reports something returns a pair. \<open>get\<close>
  hands out a locked reference; here it is the value, \<open>None\<close> standing for the null entry.
  Where a method iterates over a hash map the order is an argument.
\<close>

section \<open>Maps and sets\<close>

definition cache_size :: "('k, 'v) fmap \<Rightarrow> nat" where
  "cache_size c = fcard (fmdom c)"

definition size_at :: "'k \<Rightarrow> ('k, 'v list) fmap \<Rightarrow> nat" where
  "size_at k c = (case fmlookup c k of None \<Rightarrow> 0 | Some v \<Rightarrow> length v)"

definition size_at_map :: "'k \<Rightarrow> ('k, ('l, 'v) fmap) fmap \<Rightarrow> nat" where
  "size_at_map k c = (case fmlookup c k of None \<Rightarrow> 0 | Some v \<Rightarrow> cache_size v)"

definition set_contains :: "'a \<Rightarrow> 'a fset \<Rightarrow> bool" where
  "set_contains v c \<longleftrightarrow> v |\<in>| c"

definition cache_contains :: "'k \<Rightarrow> ('k, 'v) fmap \<Rightarrow> bool" where
  "cache_contains k c \<longleftrightarrow> fmlookup c k \<noteq> None"

definition contains2 :: "'k \<Rightarrow> 'l \<Rightarrow> ('k, ('l, 'v) fmap) fmap \<Rightarrow> bool" where
  "contains2 k1 k2 c = (case fmlookup c k1 of None \<Rightarrow> False | Some i \<Rightarrow> fmlookup i k2 \<noteq> None)"

definition contains_value :: "'a \<Rightarrow> 'a list \<Rightarrow> bool" where
  "contains_value v c \<longleftrightarrow> v \<in> set c"

definition set_insert :: "'a \<Rightarrow> 'a fset \<Rightarrow> 'a fset \<times> bool" where
  "set_insert v c = (finsert v c, v |\<notin>| c)"

definition cache_insert :: "'k \<Rightarrow> 'v \<Rightarrow> ('k, 'v) fmap \<Rightarrow> ('k, 'v) fmap \<times> bool" where
  "cache_insert k v c = (case fmlookup c k of None \<Rightarrow> (fmupd k v c, True) | Some _ \<Rightarrow> (c, False))"

text \<open>\<open>m_cont[k1]\<close> creates the inner map when it is missing.\<close>

definition subscript :: "'v \<Rightarrow> 'k \<Rightarrow> ('k, 'v) fmap \<Rightarrow> 'v" where
  "subscript dflt k c = (case fmlookup c k of None \<Rightarrow> dflt | Some v \<Rightarrow> v)"

definition insert2 ::
  "'k \<Rightarrow> 'l \<Rightarrow> 'v \<Rightarrow> ('k, ('l, 'v) fmap) fmap \<Rightarrow> ('k, ('l, 'v) fmap) fmap \<times> bool" where
  "insert2 k1 k2 v c =
    (case cache_insert k2 v (subscript fmempty k1 c) of (inner, ins) \<Rightarrow> (fmupd k1 inner c, ins))"

definition set_emplace_back :: "'a \<Rightarrow> 'a fset \<Rightarrow> 'a fset" where
  "set_emplace_back v c = fst (set_insert v c)"

definition set_push_back :: "'a \<Rightarrow> 'a fset \<Rightarrow> 'a fset" where
  "set_push_back v c = set_emplace_back v c"

definition emplace_back_at :: "'k \<Rightarrow> 'a \<Rightarrow> ('k, 'a list) fmap \<Rightarrow> ('k, 'a list) fmap" where
  "emplace_back_at k v c = fmupd k (subscript [] k c @ [v]) c"

definition emplace_back2 ::
  "'k \<Rightarrow> 'l \<Rightarrow> 'a \<Rightarrow> ('k, ('l, 'a list) fmap) fmap \<Rightarrow> ('k, ('l, 'a list) fmap) fmap" where
  "emplace_back2 k1 k2 v c = fmupd k1 (emplace_back_at k2 v (subscript fmempty k1 c)) c"

definition emplace_back :: "'a \<Rightarrow> 'a list \<Rightarrow> 'a list" where
  "emplace_back v c = c @ [v]"

text \<open>\<open>std::find_if\<close> followed by an update of the element found.\<close>

fun update_first :: "('a \<Rightarrow> bool) \<Rightarrow> ('a \<Rightarrow> 'a) \<Rightarrow> 'a list \<Rightarrow> 'a list option" where
  "update_first p f [] = None"
| "update_first p f (x # xs) =
    (if p x then Some (f x # xs) else map_option ((#) x) (update_first p f xs))"

definition upsert_in_vector ::
  "'k \<Rightarrow> 'a \<Rightarrow> ('a \<Rightarrow> 'a \<Rightarrow> bool) \<Rightarrow> ('a \<Rightarrow> 'a \<Rightarrow> 'a) \<Rightarrow> ('k, 'a list) fmap \<Rightarrow> ('k, 'a list) fmap \<times> bool"
  where
  "upsert_in_vector k val equal upd c =
    (case fmlookup c k of
       None \<Rightarrow> (fmupd k [val] c, True)
     | Some vec \<Rightarrow>
         (case update_first (\<lambda>cur. equal cur val) (\<lambda>cur. upd cur val) vec of
            Some vec' \<Rightarrow> (fmupd k vec' c, False)
          | None \<Rightarrow> (fmupd k (vec @ [val]) c, True)))"

definition upsert_in_vector_assign ::
  "'k \<Rightarrow> 'a \<Rightarrow> ('a \<Rightarrow> 'a \<Rightarrow> bool) \<Rightarrow> ('k, 'a list) fmap \<Rightarrow> ('k, 'a list) fmap \<times> bool" where
  "upsert_in_vector_assign k val equal c = upsert_in_vector k val equal (\<lambda>dst src. src) c"

definition upsert_in_map :: "'k \<Rightarrow> ('v \<Rightarrow> 'v) \<Rightarrow> 'v \<Rightarrow> ('k, 'v) fmap \<Rightarrow> ('k, 'v) fmap \<times> 'v" where
  "upsert_in_map k updater fresh c =
    (case fmlookup c k of
       Some v \<Rightarrow> (fmupd k (updater v) c, updater v)
     | None \<Rightarrow> (fmupd k (updater fresh) c, updater fresh))"

definition set_erase :: "'a \<Rightarrow> 'a fset \<Rightarrow> 'a fset \<times> bool" where
  "set_erase v c = (c |-| {|v|}, v |\<in>| c)"

definition cache_erase :: "'k \<Rightarrow> ('k, 'v) fmap \<Rightarrow> ('k, 'v) fmap \<times> bool" where
  "cache_erase k c = (fmdrop k c, fmlookup c k \<noteq> None)"

definition erase2 ::
  "'k \<Rightarrow> 'l \<Rightarrow> ('k, ('l, 'v) fmap) fmap \<Rightarrow> ('k, ('l, 'v) fmap) fmap \<times> bool" where
  "erase2 k1 k2 c =
    (case fmlookup c k1 of
       None \<Rightarrow> (c, False)
     | Some inner \<Rightarrow> (case cache_erase k2 inner of (inner', r) \<Rightarrow> (fmupd k1 inner' c, r)))"

definition cache_get :: "'k \<Rightarrow> ('k, 'v) fmap \<Rightarrow> 'v option" where
  "cache_get k c = fmlookup c k"

definition get_or_emplace :: "'k \<Rightarrow> 'v \<Rightarrow> ('k, 'v) fmap \<Rightarrow> ('k, 'v) fmap \<times> 'v" where
  "get_or_emplace k fresh c =
    (case fmlookup c k of None \<Rightarrow> (fmupd k fresh c, fresh) | Some v \<Rightarrow> (c, v))"

definition get2 :: "'k \<Rightarrow> 'l \<Rightarrow> ('k, ('l, 'v) fmap) fmap \<Rightarrow> 'v option" where
  "get2 k1 k2 c = (case fmlookup c k1 of None \<Rightarrow> None | Some inner \<Rightarrow> fmlookup inner k2)"

fun get_by_filter :: "'k list \<Rightarrow> ('k \<Rightarrow> 'v \<Rightarrow> bool) \<Rightarrow> ('k, 'v) fmap \<Rightarrow> 'v option" where
  "get_by_filter [] p c = None"
| "get_by_filter (k # order) p c =
    (case fmlookup c k of
       None \<Rightarrow> get_by_filter order p c
     | Some v \<Rightarrow> if p k v then Some v else get_by_filter order p c)"

section \<open>Vectors\<close>

definition erase_value :: "'a \<Rightarrow> 'a list \<Rightarrow> 'a list \<times> bool" where
  "erase_value v c = (remove1 v c, v \<in> set c)"

definition erase_if :: "('a \<Rightarrow> bool) \<Rightarrow> 'a list \<Rightarrow> 'a list \<times> nat" where
  "erase_if p c = (filter (\<lambda>x. \<not> p x) c, length (filter p c))"

text \<open>The index \<open>std::find\<close> returns, the length when there is none.\<close>

fun find_index :: "('a \<Rightarrow> bool) \<Rightarrow> 'a list \<Rightarrow> nat" where
  "find_index p [] = 0"
| "find_index p (x # xs) = (if p x then 0 else Suc (find_index p xs))"

text \<open>Overwrite position \<open>i\<close> with the last element and drop the last.\<close>

definition swap_remove :: "nat \<Rightarrow> 'a list \<Rightarrow> 'a list" where
  "swap_remove i c = butlast (c[i := last c])"

definition erase_one_unordered :: "'a \<Rightarrow> 'a list \<Rightarrow> 'a list \<times> bool" where
  "erase_one_unordered v c =
    (let i = find_index ((=) v) c in if i = length c then (c, False) else (swap_remove i c, True))"

lemma length_swap_remove [simp]: "length (swap_remove i c) = length c - 1"
  by (simp add: swap_remove_def)

function erase_all_loop :: "('a \<Rightarrow> bool) \<Rightarrow> nat \<Rightarrow> nat \<Rightarrow> 'a list \<Rightarrow> 'a list \<times> nat" where
  "erase_all_loop p i removed vec =
    (if i < length vec
     then if p (vec ! i) then erase_all_loop p i (removed + 1) (swap_remove i vec)
          else erase_all_loop p (i + 1) removed vec
     else (vec, removed))"
  by pat_completeness auto
termination by (relation "measure (\<lambda>(p, i, r, vec). length vec - i)") auto

declare erase_all_loop.simps [simp del]

definition erase_all_unordered_if :: "('a \<Rightarrow> bool) \<Rightarrow> 'a list \<Rightarrow> 'a list \<times> nat" where
  "erase_all_unordered_if p c = erase_all_loop p 0 0 c"

definition erase_value_at :: "'k \<Rightarrow> 'a \<Rightarrow> ('k, 'a list) fmap \<Rightarrow> ('k, 'a list) fmap \<times> bool" where
  "erase_value_at k v c =
    (case fmlookup c k of None \<Rightarrow> (c, False) | Some vec \<Rightarrow> (fmupd k (removeAll v vec) c, v \<in> set vec))"

definition erase_if_at ::
  "'k \<Rightarrow> ('a \<Rightarrow> bool) \<Rightarrow> ('k, 'a list) fmap \<Rightarrow> ('k, 'a list) fmap \<times> nat" where
  "erase_if_at k p c =
    (case fmlookup c k of
       None \<Rightarrow> (c, 0)
     | Some vec \<Rightarrow> (case erase_if p vec of (vec', n) \<Rightarrow> (fmupd k vec' c, n)))"

definition erase_key_if_empty :: "'k \<Rightarrow> ('k, 'a list) fmap \<Rightarrow> ('k, 'a list) fmap \<times> bool" where
  "erase_key_if_empty k c =
    (case fmlookup c k of None \<Rightarrow> (c, False) | Some vec \<Rightarrow> if vec = [] then (fmdrop k c, True) else (c, False))"

section \<open>The map contract\<close>

text \<open>
  What a caller of a cache relies on: lookups after an insertion that keeps an existing entry
  and after a removal.
\<close>

locale map_store =
  fixes find :: "'k \<Rightarrow> 's \<Rightarrow> 'v option"
    and add :: "'k \<Rightarrow> 'v \<Rightarrow> 's \<Rightarrow> 's \<times> bool"
    and del :: "'k \<Rightarrow> 's \<Rightarrow> 's \<times> bool"
  assumes find_add: "find j (fst (add k v s)) = (if find k s = None \<and> j = k then Some v else find j s)"
    and add_flag: "snd (add k v s) \<longleftrightarrow> find k s = None"
    and find_del: "find j (fst (del k s)) = (if j = k then None else find j s)"
    and del_flag: "snd (del k s) \<longleftrightarrow> find k s \<noteq> None"
begin

lemma add_keeps: "find k s = Some w \<Longrightarrow> find k (fst (add k v s)) = Some w"
  by (simp add: find_add)

lemma add_then_del: "find k s = None \<Longrightarrow> find j (fst (del k (fst (add k v s)))) = find j s"
  by (simp add: find_add find_del)

lemma del_then_add: "find j (fst (add k v (fst (del k s)))) = (if j = k then Some v else find j s)"
  by (simp add: find_add find_del)

lemma add_all_first:
  "find k (fold (\<lambda>(k, v) s. fst (add k v s)) kvs s)
     = (case find k s of Some w \<Rightarrow> Some w | None \<Rightarrow> map_of kvs k)"
  by (induction kvs arbitrary: s) (auto simp: find_add split: option.splits)

end

interpretation flat: map_store "\<lambda>k c. cache_get k c" cache_insert cache_erase
  by unfold_locales
     (auto simp: cache_get_def cache_insert_def cache_erase_def split: option.splits)

interpretation nested: map_store "\<lambda>(k1, k2) c. get2 k1 k2 c"
    "\<lambda>(k1, k2) v c. insert2 k1 k2 v c" "\<lambda>(k1, k2) c. erase2 k1 k2 c"
  by unfold_locales
     (auto simp: get2_def insert2_def erase2_def cache_insert_def cache_erase_def subscript_def
        split: option.splits prod.splits)

section \<open>Removal without order\<close>

lemma find_index_le: "find_index p c \<le> length c"
  by (induction c) auto

lemma find_index_lt: "find_index p c < length c \<longleftrightarrow> (\<exists>x \<in> set c. p x)"
  by (induction c) auto

lemma nth_find_index: "find_index p c < length c \<Longrightarrow> p (c ! find_index p c)"
  by (induction c) auto

lemma mset_swap_remove: "i < length c \<Longrightarrow> mset (swap_remove i c) = mset c - {#c ! i#}"
proof (cases c rule: rev_cases)
  case (snoc ys y)
  assume "i < length c"
  with snoc show ?thesis
    by (cases "i = length ys")
       (auto simp: swap_remove_def list_update_append mset_update nth_append add_mset_commute)
qed simp

lemma swap_remove_keeps_front: "i < length c \<Longrightarrow> j < i \<Longrightarrow> swap_remove i c ! j = c ! j"
  by (simp add: swap_remove_def nth_butlast)

lemma erase_all_loop_spec:
  assumes "i \<le> length vec" "\<forall>j < i. \<not> p (vec ! j)" "erase_all_loop p i removed vec = (vec', n)"
  shows "mset vec' = filter_mset (\<lambda>x. \<not> p x) (mset vec) \<and> n = removed + size (filter_mset p (mset vec))"
  using assms
proof (induction p i removed vec rule: erase_all_loop.induct)
  case (1 p i removed vec)
  show ?case
  proof (cases "i < length vec")
    case False
    with "1.prems" have v: "vec' = vec" "n = removed" and no: "\<forall>x \<in> set vec. \<not> p x"
      by (auto simp: erase_all_loop.simps in_set_conv_nth)
    then have "filter p vec = []" "filter (\<lambda>x. \<not> p x) vec = vec"
      by (simp_all add: filter_empty_conv filter_id_conv)
    with v show ?thesis by (simp flip: mset_filter)
  next
    case len: True
    show ?thesis
    proof (cases "p (vec ! i)")
      case True
      with len "1.prems" have "erase_all_loop p i (removed + 1) (swap_remove i vec) = (vec', n)"
        by (simp add: erase_all_loop.simps [of p i removed vec])
      moreover have "i \<le> length (swap_remove i vec)" using len by simp
      moreover have "\<forall>j < i. \<not> p (swap_remove i vec ! j)"
        using len "1.prems"(2) by (simp add: swap_remove_keeps_front)
      ultimately have ih: "mset vec' = filter_mset (\<lambda>x. \<not> p x) (mset (swap_remove i vec))
          \<and> n = removed + 1 + size (filter_mset p (mset (swap_remove i vec)))"
        using "1.IH"(1) len True by blast
      have m: "mset vec = add_mset (vec ! i) (mset (swap_remove i vec))"
        using len by (simp add: mset_swap_remove)
      from ih True show ?thesis unfolding m by simp
    next
      case False
      with len "1.prems" have "erase_all_loop p (i + 1) removed vec = (vec', n)"
        by (simp add: erase_all_loop.simps [of p i removed vec])
      with "1.IH"(2) len False "1.prems"(2) show ?thesis
        by (metis Suc_eq_plus1 less_Suc_eq_le less_antisym Suc_leI)
    qed
  qed
qed

section \<open>Upserts keep one entry per key\<close>

definition one_per_class :: "('a \<Rightarrow> 'a \<Rightarrow> bool) \<Rightarrow> 'a list \<Rightarrow> bool" where
  "one_per_class equal xs \<longleftrightarrow> (\<forall>i < length xs. \<forall>j < length xs. equal (xs ! i) (xs ! j) \<longrightarrow> i = j)"

lemma update_first_index:
  "update_first p f xs =
    (let i = find_index p xs in if i = length xs then None else Some (xs[i := f (xs ! i)]))"
  by (induction xs) (auto simp: Let_def)

lemma update_first_None: "update_first p f xs = None \<longleftrightarrow> (\<forall>x \<in> set xs. \<not> p x)"
  by (induction xs) auto

lemma one_per_class_append:
  "one_per_class equal xs \<Longrightarrow> \<forall>x \<in> set xs. \<not> equal x v \<and> \<not> equal v x \<Longrightarrow> one_per_class equal (xs @ [v])"
  by (auto simp: one_per_class_def nth_append less_Suc_eq)

lemma one_per_class_update:
  assumes "one_per_class equal xs" "i < length xs"
    and "\<forall>y. equal w y \<longleftrightarrow> equal (xs ! i) y" "\<forall>y. equal y w \<longleftrightarrow> equal y (xs ! i)"
  shows "one_per_class equal (xs[i := w])"
  unfolding one_per_class_def
proof (intro allI impI)
  fix a b assume "a < length (xs[i := w])" "b < length (xs[i := w])" "equal (xs[i := w] ! a) (xs[i := w] ! b)"
  with assms show "a = b"
    by (cases "a = i"; cases "b = i") (auto simp: one_per_class_def)
qed

section \<open>Properties\<close>

text \<open>
  \<open>erase_all_unordered_if\<close>, which overwrites each hit with the last element and looks at the
  same index again, keeps exactly the elements the predicate rejects, with multiplicity, and
  returns how many it removed.
\<close>

theorem erase_all_unordered_if_correct:
  "erase_all_unordered_if p c = (c', n) \<Longrightarrow>
     mset c' = filter_mset (\<lambda>x. \<not> p x) (mset c) \<and> n = size (filter_mset p (mset c))"
  using erase_all_loop_spec [of 0 c p 0 c' n] by (simp add: erase_all_unordered_if_def)

theorem erase_all_unordered_if_correct_witness:
  "mset [4, 1, 3 :: nat] = filter_mset (\<lambda>x. \<not> x = 2) (mset [2, 1, 2, 3, 4 :: nat])
    \<and> (2 :: nat) = size (filter_mset (\<lambda>x. x = 2) (mset [2, 1, 2, 3, 4 :: nat]))"
  by (rule erase_all_unordered_if_correct)
     (simp add: erase_all_unordered_if_def erase_all_loop.simps swap_remove_def)

text \<open>
  An upsert keeps the vectors of a cache free of duplicates: if no two entries under a key
  are equal for the caller's comparison (an equivalence the update respects), none are after
  \<open>upsert_in_vector\<close>, an entry equal to the given one is there, and the flag tells whether the
  vector grew.
\<close>

theorem upsert_in_vector_unique:
  assumes eqv: "\<And>x. equal x x" "\<And>x y. equal x y \<Longrightarrow> equal y x" "\<And>x y z. equal x y \<Longrightarrow> equal y z \<Longrightarrow> equal x z"
    and upd: "\<And>x. equal x val \<Longrightarrow> equal (upd x val) x"
    and wf: "\<And>v. fmlookup c k = Some v \<Longrightarrow> one_per_class equal v"
    and run: "upsert_in_vector k val equal upd c = (c', new)"
  shows "\<exists>v. fmlookup c' k = Some v \<and> one_per_class equal v \<and> (\<exists>x \<in> set v. equal x val)
    \<and> length v = size_at k c + (if new then 1 else 0)
    \<and> (\<forall>j. j \<noteq> k \<longrightarrow> fmlookup c' j = fmlookup c j)"
proof (cases "fmlookup c k")
  case None
  with run eqv(1) show ?thesis by (auto simp: upsert_in_vector_def one_per_class_def size_at_def)
next
  case (Some v)
  let ?i = "find_index (\<lambda>cur. equal cur val) v"
  show ?thesis
  proof (cases "?i < length v")
    case False
    then have no: "\<forall>x \<in> set v. \<not> equal x val" by (simp add: find_index_lt)
    have "\<not> equal val x" if "x \<in> set v" for x using no that eqv(2) [of val x] by auto
    with no wf [OF Some] have "one_per_class equal (v @ [val])" by (simp add: one_per_class_append)
    moreover have "update_first (\<lambda>cur. equal cur val) (\<lambda>cur. upd cur val) v = None"
      using no by (simp add: update_first_None)
    ultimately show ?thesis using run eqv(1) Some by (auto simp: upsert_in_vector_def size_at_def)
  next
    case True
    then have hit: "equal (v ! ?i) val" by (rule nth_find_index [of "\<lambda>cur. equal cur val"])
    let ?w = "upd (v ! ?i) val"
    have same: "equal ?w (v ! ?i)" using upd [OF hit] .
    have "equal ?w y = equal (v ! ?i) y" "equal y ?w = equal y (v ! ?i)" for y
      using eqv(3) [OF same, of y] eqv(3) [OF eqv(2) [OF same], of y]
        eqv(3) [OF _ same, of y] eqv(3) [OF _ eqv(2) [OF same], of y] by argo+
    then have "one_per_class equal (v[?i := ?w])"
      using wf [OF Some] True by (simp add: one_per_class_update)
    moreover have "equal ?w val" using eqv(3) [OF same hit] .
    moreover have "?w \<in> set (v[?i := ?w])" using True by (simp add: set_update_memI)
    ultimately show ?thesis using run Some True
      by (auto simp: upsert_in_vector_def size_at_def update_first_index Let_def)
  qed
qed

theorem upsert_in_vector_unique_witness:
  "let c = fmupd (7 :: nat) [(1 :: nat, ''a''), (2, ''b'')] fmempty; equal = (\<lambda>x y. fst x = fst y)
   in \<exists>v. fmlookup (fmupd 7 [(1, ''a''), (2, ''c'')] c) 7 = Some v \<and> one_per_class equal v
    \<and> (\<exists>x \<in> set v. equal x (2, ''c''))
    \<and> length v = size_at 7 c + (if False then 1 else 0)
    \<and> (\<forall>j. j \<noteq> 7 \<longrightarrow> fmlookup (fmupd 7 [(1, ''a''), (2, ''c'')] c) j = fmlookup c j)"
  unfolding Let_def
  by (rule upsert_in_vector_unique [where upd = "\<lambda>_ s. s"])
     (auto simp: upsert_in_vector_def one_per_class_def less_Suc_eq numeral_2_eq_2 split: if_splits)

end
