(* ===== verification/DB_Data.thy ===== *)
theory DB_Data
  imports Prelude "HOL-Library.Finite_Map"
begin

text \<open>
  The rows of the game's data files as \<open>CDBData.h\<close> declares them, one record per struct with
  its field names behind a prefix, and their default constructors. A \<open>uint32_t\<close> is a 32-bit
  word; the constructors' \<open>-1\<close> is its largest value.
\<close>

record ItemInfo =
  item_Id :: u32
  item_Name :: string
  item_IsNaomiUsable :: bool
  item_IsKaiUsable :: bool
  item_IsPandoraUsable :: bool
  item_IsChipUsable :: bool
  item_IsKnoxUsable :: bool
  item_IsSimonUsable :: bool
  item_Type :: u32
  item_IsUpgradable :: bool
  item_LimitedTime :: u32
  item_Durability :: u32
  item_DurabilityFactor :: u32
  item_CouponPrice :: u32
  item_CashPrice :: u32
  item_PointPrice :: u32
  item_SellPointPrice :: u32
  item_Stock :: u32
  item_BonusEffectId :: u32
  item_EffectId1 :: u32
  item_EffectTarget1 :: u32
  item_EffectId2 :: u32
  item_EffectTarget2 :: u32
  item_EffectId3 :: u32
  item_EffectTarget3 :: u32

definition new_ItemInfo :: ItemInfo where
  "new_ItemInfo = \<lparr>
     item_Id = 0, item_Name = '''', item_IsNaomiUsable = False, item_IsKaiUsable = False,
     item_IsPandoraUsable = False, item_IsChipUsable = False, item_IsKnoxUsable = False,
     item_IsSimonUsable = False, item_Type = - 1, item_IsUpgradable = False,
     item_LimitedTime = - 1, item_Durability = 0, item_DurabilityFactor = 0,
     item_CouponPrice = 0, item_CashPrice = 0, item_PointPrice = 0, item_SellPointPrice = 0,
     item_Stock = - 1, item_BonusEffectId = 0, item_EffectId1 = 0, item_EffectTarget1 = 0,
     item_EffectId2 = 0, item_EffectTarget2 = 0, item_EffectId3 = 0, item_EffectTarget3 = 0\<rparr>"

record EffectInfo =
  effect_id :: u32
  effect_key :: u32
  effect_valueA :: u32

definition new_EffectInfo :: EffectInfo where
  "new_EffectInfo = \<lparr>
     effect_id = 0, effect_key = 0, effect_valueA = 0\<rparr>"

record CollectionInfo =
  coll_id :: u32
  coll_setIndex :: u32
  coll_rewardPoint :: u32
  coll_rewardExp :: u32
  coll_rewardItem :: u32
  coll_missionType :: u32

definition new_CollectionInfo :: CollectionInfo where
  "new_CollectionInfo = \<lparr>
     coll_id = 0, coll_setIndex = 0, coll_rewardPoint = 0, coll_rewardExp = 0,
     coll_rewardItem = 0, coll_missionType = 0\<rparr>"

record DailyMissionInfo =
  daily_id :: u32
  daily_setIndex :: u32
  daily_rewardPoint :: u32
  daily_rewardExp :: u32
  daily_rewardItem :: u32
  daily_goal :: u32

definition new_DailyMissionInfo :: DailyMissionInfo where
  "new_DailyMissionInfo = \<lparr>
     daily_id = 0, daily_setIndex = 0, daily_rewardPoint = 0, daily_rewardExp = 0,
     daily_rewardItem = 0, daily_goal = 0\<rparr>"

record SetItemInfo =
  set_Id :: u32
  set_Hair :: u32
  set_Face :: u32
  set_Upper :: u32
  set_Under :: u32
  set_Arms :: u32
  set_Pants :: u32
  set_Boots :: u32
  set_AccessoryA :: u32
  set_AccessoryB :: u32
  set_AccessoryC :: u32

definition new_SetItemInfo :: SetItemInfo where
  "new_SetItemInfo = \<lparr>
     set_Id = 0, set_Hair = 0, set_Face = 0, set_Upper = 0, set_Under = 0, set_Arms = 0,
     set_Pants = 0, set_Boots = 0, set_AccessoryA = 0, set_AccessoryB = 0, set_AccessoryC =
     0\<rparr>"

record BaseUnitInfo =
  unit_Type :: u32
  unit_CashPrice :: u32
  unit_Price :: u32
  unit_Life :: u32
  unit_RunSpeed :: u32
  unit_WalkSpeed :: u32
  unit_SitWalkSpeed :: u32
  unit_BackSpeed :: u32

definition new_BaseUnitInfo :: BaseUnitInfo where
  "new_BaseUnitInfo = \<lparr>
     unit_Type = 0, unit_CashPrice = 0, unit_Price = 0, unit_Life = 1000, unit_RunSpeed = 0,
     unit_WalkSpeed = 0, unit_SitWalkSpeed = 0, unit_BackSpeed = 0\<rparr>"

record VendorInfo =
  vendor_Id :: u32
  vendor_Category :: u32
  vendor_Type :: u32
  vendor_None :: u32
  vendor_New :: u32
  vendor_Hit :: u32
  vendor_ListType :: u32
  vendor_List01 :: u32
  vendor_List01_a :: u32
  vendor_List01_b :: u32
  vendor_List01_c :: u32
  vendor_List01_d :: u32
  vendor_List02 :: u32
  vendor_List02_a :: u32
  vendor_List02_b :: u32
  vendor_List02_c :: u32
  vendor_List02_d :: u32
  vendor_List03 :: u32
  vendor_List03_a :: u32
  vendor_List03_b :: u32
  vendor_List03_c :: u32
  vendor_List03_d :: u32
  vendor_List04 :: u32
  vendor_List04_a :: u32
  vendor_List04_b :: u32
  vendor_List04_c :: u32
  vendor_List04_d :: u32
  vendor_IsGift :: bool

definition new_VendorInfo :: VendorInfo where
  "new_VendorInfo = \<lparr>
     vendor_Id = - 1, vendor_Category = - 1, vendor_Type = - 1, vendor_None = - 1,
     vendor_New = - 1, vendor_Hit = - 1, vendor_ListType = - 1, vendor_List01 = - 1,
     vendor_List01_a = - 1, vendor_List01_b = - 1, vendor_List01_c = - 1, vendor_List01_d =
     - 1, vendor_List02 = - 1, vendor_List02_a = - 1, vendor_List02_b = - 1, vendor_List02_c
     = - 1, vendor_List02_d = - 1, vendor_List03 = - 1, vendor_List03_a = - 1,
     vendor_List03_b = - 1, vendor_List03_c = - 1, vendor_List03_d = - 1, vendor_List04 = -
     1, vendor_List04_a = - 1, vendor_List04_b = - 1, vendor_List04_c = - 1, vendor_List04_d
     = - 1, vendor_IsGift = False\<rparr>"

record UpgradeInfo =
  upg_GroupId :: u32
  upg_UpgradeType :: u32
  upg_ItemId :: u32
  upg_ItemParentId :: u32
  upg_Probability :: u32
  upg_AddedProbability :: u32
  upg_HoldProbability :: u32
  upg_BuyCash :: u32
  upg_BuyPoint :: u32
  upg_UseExp :: u32
  upg_RestoreCash :: u32
  upg_RestorePoint :: u32

definition new_UpgradeInfo :: UpgradeInfo where
  "new_UpgradeInfo = \<lparr>
     upg_GroupId = - 1, upg_UpgradeType = - 1, upg_ItemId = - 1, upg_ItemParentId = - 1,
     upg_Probability = - 1, upg_AddedProbability = - 1, upg_HoldProbability = - 1,
     upg_BuyCash = - 1, upg_BuyPoint = - 1, upg_UseExp = - 1, upg_RestoreCash = - 1,
     upg_RestorePoint = - 1\<rparr>"

record GachaponPackageItem =
  gpi_Id :: u32
  gpi_Group :: u32
  gpi_InfoId :: u32
  gpi_ItemType :: u32
  gpi_LuckyType :: u32
  gpi_Probability :: u32
  gpi_ItemId :: u32

definition new_GachaponPackageItem :: GachaponPackageItem where
  "new_GachaponPackageItem = \<lparr>
     gpi_Id = - 1, gpi_Group = - 1, gpi_InfoId = - 1, gpi_ItemType = - 1, gpi_LuckyType = -
     1, gpi_Probability = - 1, gpi_ItemId = - 1\<rparr>"

record GachaponInfo =
  gach_Id :: u32
  gach_Type :: u32
  gach_InfoId :: u32
  gach_LimitedGrade :: u32
  gach_Price :: u32
  gach_LuckyPoint :: u32
  gach_Gachapons :: "(u32, GachaponPackageItem list) fmap"

definition new_GachaponInfo :: GachaponInfo where
  "new_GachaponInfo = \<lparr>
     gach_Id = - 1, gach_Type = - 1, gach_InfoId = - 1, gach_LimitedGrade = - 1, gach_Price
     = - 1, gach_LuckyPoint = - 1, gach_Gachapons = fmempty\<rparr>"

record PackageInfo =
  pkg_InfoId :: u32
  pkg_GroupId :: u32
  pkg_ItemId :: u32
  pkg_Type :: u32
  pkg_Probability :: u32

definition new_PackageInfo :: PackageInfo where
  "new_PackageInfo = \<lparr>
     pkg_InfoId = - 1, pkg_GroupId = - 1, pkg_ItemId = - 1, pkg_Type = - 1, pkg_Probability
     = - 1\<rparr>"

record RoomOptionInfo =
  ropt_Id :: u32
  ropt_Type :: u32
  ropt_Name :: string
  ropt_Data :: u32
  ropt_Mode :: u32
  ropt_CombatType :: u32

definition new_RoomOptionInfo :: RoomOptionInfo where
  "new_RoomOptionInfo = \<lparr>
     ropt_Id = - 1, ropt_Type = - 1, ropt_Name = '''', ropt_Data = - 1, ropt_Mode = - 1,
     ropt_CombatType = - 1\<rparr>"

record MapInfo =
  map_Id :: u32
  map_Name :: string
  map_MaxUsers :: u32
  map_DeathHeight :: u32
  map_tdm :: bool
  map_ffa :: bool
  map_itm :: bool
  map_ctf :: bool
  map_ctm :: bool
  map_sab :: bool
  map_cim :: bool
  map_zsm :: bool
  map_grm :: bool
  map_mock :: bool
  map_bmb :: bool
  map_sni :: bool
  map_nod :: bool
  map_pve :: bool
  map_bot :: bool
  map_tut :: bool
  map_clan_ctf :: bool
  map_clan_sab :: bool
  map_clan_tdm :: bool
  map_clan_bmb :: bool

definition new_MapInfo :: MapInfo where
  "new_MapInfo = \<lparr>
     map_Id = - 1, map_Name = '''', map_MaxUsers = - 1, map_DeathHeight = - 1, map_tdm =
     False, map_ffa = False, map_itm = False, map_ctf = False, map_ctm = False, map_sab =
     False, map_cim = False, map_zsm = False, map_grm = False, map_mock = False, map_bmb =
     False, map_sni = False, map_nod = False, map_pve = False, map_bot = False, map_tut =
     False, map_clan_ctf = False, map_clan_sab = False, map_clan_tdm = False, map_clan_bmb =
     False\<rparr>"

record GradeInfo =
  grade_Grade :: u32
  grade_Exp :: u32
  grade_RewardPoint :: u32
  grade_RewardItem :: u32

definition new_GradeInfo :: GradeInfo where
  "new_GradeInfo = \<lparr>
     grade_Grade = 0, grade_Exp = - 1, grade_RewardPoint = - 1, grade_RewardItem = - 1\<rparr>"

record RewardInfo =
  reward_GameMode :: u32
  reward_ExpBase :: u32
  reward_ExpMax :: u32
  reward_ExpKill :: u32
  reward_ExpModeKill :: u32
  reward_ExpDeath :: u32
  reward_ExpAssist :: u32
  reward_ExpMission :: u32
  reward_ExpMissionWin :: u32
  reward_PointBase :: u32
  reward_PointMax :: u32
  reward_PointKill :: u32
  reward_PointModeKill :: u32
  reward_PointDeath :: u32
  reward_PointAssist :: u32
  reward_PointMission :: u32
  reward_PointMissionWin :: u32
  reward_ModeLimitedTime :: u32
  reward_PlayerLimitedTime :: u32
  reward_PenaltyPoint :: u32
  reward_ExpEvent :: u32
  reward_PointEvent :: u32
  reward_ClanExpBase :: u32
  reward_ClanExpBnus :: u32

definition new_RewardInfo :: RewardInfo where
  "new_RewardInfo = \<lparr>
     reward_GameMode = - 1, reward_ExpBase = - 1, reward_ExpMax = - 1, reward_ExpKill = - 1,
     reward_ExpModeKill = - 1, reward_ExpDeath = - 1, reward_ExpAssist = - 1,
     reward_ExpMission = - 1, reward_ExpMissionWin = - 1, reward_PointBase = - 1,
     reward_PointMax = - 1, reward_PointKill = - 1, reward_PointModeKill = - 1,
     reward_PointDeath = - 1, reward_PointAssist = - 1, reward_PointMission = - 1,
     reward_PointMissionWin = - 1, reward_ModeLimitedTime = - 1, reward_PlayerLimitedTime =
     - 1, reward_PenaltyPoint = - 1, reward_ExpEvent = - 1, reward_PointEvent = - 1,
     reward_ClanExpBase = - 1, reward_ClanExpBnus = - 1\<rparr>"

end
