(* ===== verification/Main_Data.thy ===== *)
theory Main_Data
  imports DB_Data
begin

text \<open>
  The state the main server keeps: accounts (\<open>DbError.h\<close>), items (\<open>PacketData.h\<close>), players,
  rooms, plazas, clans, parties and mail (\<open>CMainServer.h\<close>), one record per struct with its
  field names behind a prefix, and the constructors, copy constructors and assignments as
  they are written, field by field. Mutexes are not data. Enumerations that clients can send
  are kept as the bytes they are. A member a constructor leaves uninitialised is taken from
  the argument \<open>junk\<close>.
\<close>

section \<open>Accounts\<close>

record FrontAccount =
  acc_Index :: u32
  acc_ServerId :: u32
  acc_Username :: string
  acc_Password :: string
  acc_Salt :: string
  acc_Grade :: u8
  acc_PCRoom :: u8
  acc_AuthKey :: u64
  acc_ClanId :: u32
  acc_ClanKills :: u32
  acc_ClanDeaths :: u32
  acc_ClanAssists :: u32
  acc_ClanContribution :: u32
  acc_ClanWins :: u32
  acc_ClanLoses :: u32
  acc_ClanDraws :: u32
  acc_Nickname :: string
  acc_Level :: u32
  acc_Experience :: u32
  acc_Tutorial :: bool
  acc_Story :: u32
  acc_GuideMission :: u8
  acc_Achievement :: u64
  acc_VoiceType :: u64
  acc_VIPExperience :: u32
  acc_MaximumItems :: u32
  acc_MaximumEnergy :: u32
  acc_SelectedCharacter :: u32
  acc_PlayTime :: u64
  acc_MutedUntil :: u64
  acc_Coins :: u32
  acc_Energy :: u32
  acc_LuckyPoints :: u32
  acc_MicroPoints :: u32
  acc_RockTokens :: u32
  acc_Coupons :: u32
  acc_Wins :: u32
  acc_Loses :: u32
  acc_Draws :: u32
  acc_Kills :: u32
  acc_Deaths :: u32
  acc_Assists :: u32
  acc_Headshots :: u32
  acc_HighestKillStreak :: u32
  acc_MeleeKills :: u32
  acc_RifleKills :: u32
  acc_ShotgunKills :: u32
  acc_SniperKills :: u32
  acc_GatlingKills :: u32
  acc_BazookaKills :: u32
  acc_GrenadeKills :: u32
  acc_ZombieKills :: u32
  acc_Infections :: u32
  acc_SingleWaveDailyAttempts :: u32
  acc_SingleWaveHighestWave :: u32
  acc_SingleWaveHighScore :: u32
  acc_SingleWaveLastUpdate :: u64

definition new_FrontAccount :: FrontAccount where
  "new_FrontAccount = \<lparr>
     acc_Index = - 1, acc_ServerId = 0, acc_Username = '''', acc_Password = '''', acc_Salt =
     '''', acc_Grade = - 1, acc_PCRoom = - 1, acc_AuthKey = - 1, acc_ClanId = - 1,
     acc_ClanKills = - 1, acc_ClanDeaths = - 1, acc_ClanAssists = - 1, acc_ClanContribution
     = - 1, acc_ClanWins = - 1, acc_ClanLoses = - 1, acc_ClanDraws = - 1, acc_Nickname =
     '''', acc_Level = - 1, acc_Experience = - 1, acc_Tutorial = False, acc_Story = - 1,
     acc_GuideMission = - 1, acc_Achievement = - 1, acc_VoiceType = - 1, acc_VIPExperience =
     - 1, acc_MaximumItems = - 1, acc_MaximumEnergy = - 1, acc_SelectedCharacter = - 1,
     acc_PlayTime = 0, acc_MutedUntil = 0, acc_Coins = - 1, acc_Energy = - 1,
     acc_LuckyPoints = - 1, acc_MicroPoints = - 1, acc_RockTokens = - 1, acc_Coupons = - 1,
     acc_Wins = - 1, acc_Loses = - 1, acc_Draws = - 1, acc_Kills = - 1, acc_Deaths = - 1,
     acc_Assists = - 1, acc_Headshots = - 1, acc_HighestKillStreak = - 1, acc_MeleeKills = -
     1, acc_RifleKills = - 1, acc_ShotgunKills = - 1, acc_SniperKills = - 1,
     acc_GatlingKills = - 1, acc_BazookaKills = - 1, acc_GrenadeKills = - 1, acc_ZombieKills
     = - 1, acc_Infections = - 1, acc_SingleWaveDailyAttempts = - 1,
     acc_SingleWaveHighestWave = - 1, acc_SingleWaveHighScore = - 1,
     acc_SingleWaveLastUpdate = - 1\<rparr>"

record PlayerDailyMission =
  pdm_player_account_id :: u32
  pdm_update_time :: u64
  pdm_mission1 :: u32
  pdm_mission2 :: u32
  pdm_mission3 :: u32
  pdm_goal_mission1 :: u32
  pdm_goal_mission2 :: u32
  pdm_goal_mission3 :: u32

record GachaPityEntry =
  gpe_gacha_type :: u32
  gpe_lucky_points :: u32

section \<open>Items\<close>

text \<open>The packed unions, field by field at its width: storing into a field truncates.\<close>

record ItemSerialInfo =
  ser_id :: "20 word"
  ser_sid :: "4 word"
  ser_unknown :: "4 word"
  ser_origin :: "4 word"
  ser_creation_date :: u32

definition new_ItemSerialInfo :: "u32 \<Rightarrow> u32 \<Rightarrow> u32 \<Rightarrow> u32 \<Rightarrow> u32 \<Rightarrow> ItemSerialInfo" where
  "new_ItemSerialInfo i sid unknown origin creation_date = \<lparr>
     ser_id = ucast i, ser_sid = ucast sid, ser_unknown = ucast unknown,
     ser_origin = ucast origin, ser_creation_date = creation_date\<rparr>"

definition serial_data :: "ItemSerialInfo \<Rightarrow> u64" where
  "serial_data s = ucast (ser_id s) OR push_bit 20 (ucast (ser_sid s))
     OR push_bit 24 (ucast (ser_unknown s)) OR push_bit 28 (ucast (ser_origin s))
     OR push_bit 32 (ucast (ser_creation_date s))"

definition serial_of_data :: "u64 \<Rightarrow> ItemSerialInfo" where
  "serial_of_data d = \<lparr>
     ser_id = ucast d, ser_sid = ucast (drop_bit 20 d), ser_unknown = ucast (drop_bit 24 d),
     ser_origin = ucast (drop_bit 28 d), ser_creation_date = ucast (drop_bit 32 d)\<rparr>"

record InventoryItemNumber =
  num_item_id :: "23 word"
  num_stock :: "9 word"

definition new_InventoryItemNumber :: "u32 \<Rightarrow> u32 \<Rightarrow> InventoryItemNumber" where
  "new_InventoryItemNumber new_item_id new_stock = \<lparr>
     num_item_id = ucast new_item_id, num_stock = ucast new_stock\<rparr>"

definition item_number_of_data :: "u32 \<Rightarrow> InventoryItemNumber" where
  "item_number_of_data d = \<lparr>num_item_id = ucast d, num_stock = ucast (drop_bit 23 d)\<rparr>"

record EquipItemNumber =
  eqn_item_type :: "9 word"
  eqn_item_id :: "23 word"

definition new_EquipItemNumber :: "u32 \<Rightarrow> u32 \<Rightarrow> EquipItemNumber" where
  "new_EquipItemNumber new_item_id new_type = \<lparr>
     eqn_item_type = ucast new_type, eqn_item_id = ucast new_item_id\<rparr>"

record InventoryItemInfo =
  inv_item_number :: InventoryItemNumber
  inv_expire_date :: u32
  inv_serial_info :: ItemSerialInfo
  inv_repair :: u16
  inv_energy :: u16

definition new_InventoryItemInfo ::
  "InventoryItemNumber \<Rightarrow> u32 \<Rightarrow> ItemSerialInfo \<Rightarrow> u32 \<Rightarrow> u32 \<Rightarrow> InventoryItemInfo" where
  "new_InventoryItemInfo itemNumber expireDate serialInfo repairVal energyVal = \<lparr>
     inv_item_number = itemNumber, inv_expire_date = expireDate, inv_serial_info = serialInfo,
     inv_repair = ucast repairVal, inv_energy = ucast energyVal\<rparr>"

record Item =
  it_item_info :: InventoryItemInfo
  it_stock :: u32
  it_is_equipped :: u8
  it_character_id :: u8
  it_in_database :: u8
  it_item_type :: u8

definition new_Item :: "InventoryItemInfo \<Rightarrow> u32 \<Rightarrow> u8 \<Rightarrow> u8 \<Rightarrow> u8 \<Rightarrow> Item" where
  "new_Item itemInfo stockVal equippedVal charIdVal inDb = \<lparr>
     it_item_info = itemInfo, it_stock = stockVal, it_is_equipped = equippedVal,
     it_character_id = charIdVal, it_in_database = inDb, it_item_type = 0\<rparr>"

section \<open>Players\<close>

record UniqueId =
  uid_session :: u16
  uid_server :: "15 word"
  uid_unknown :: "1 word"

definition new_UniqueId :: "u16 \<Rightarrow> u16 \<Rightarrow> UniqueId" where
  "new_UniqueId session server = \<lparr>
     uid_session = session, uid_server = ucast (server AND 0x7FFF), uid_unknown = 0\<rparr>"

definition uid_data :: "UniqueId \<Rightarrow> u32" where
  "uid_data u = ucast (uid_session u) OR push_bit 16 (ucast (uid_server u)) OR push_bit 31 (ucast (uid_unknown u))"

definition uid_of_data :: "u32 \<Rightarrow> UniqueId" where
  "uid_of_data d = \<lparr>uid_session = ucast d, uid_server = ucast (drop_bit 16 d), uid_unknown = ucast (drop_bit 31 d)\<rparr>"

record MatchCombatPlayerStats =
  mcs_damage_dealt_raw :: u64
  mcs_packet_kills :: u32
  mcs_highest_kill_streak :: u32

record Player =
  pl_session_id :: u16
  pl_server_id :: u16
  pl_uid :: UniqueId
  pl_ping :: u32
  pl_fps_limit :: u8
  pl_room_id :: u32
  pl_plaza_id :: u32
  pl_party_id :: u32
  pl_playing :: bool
  pl_slot_id :: u32
  pl_team_id :: u8
  pl_state :: u8
  pl_server_time :: u64
  pl_in_room :: bool
  pl_in_plaza :: bool
  pl_in_party :: bool
  pl_sent_ping_once :: bool
  pl_boss_respawn_remaining :: u32
  pl_voice_id :: u8
  pl_max_health :: u32
  pl_current_health :: u32
  pl_match_loaded_time :: u64
  pl_earnt_battery :: u32
  pl_zombie_team :: u32
  pl_daily_mission_info :: PlayerDailyMission
  pl_acc_info :: FrontAccount
  pl_inventory_items :: "Item list"
  pl_multiple_accs_logged_in :: bool
  pl_front_sid :: u32
  pl_gacha_pity :: "GachaPityEntry list"
  pl_hwid :: string
  pl_is_invisible :: bool

definition new_Player :: "Player \<Rightarrow> Player" where
  "new_Player junk = \<lparr>
     pl_session_id = 0, pl_server_id = pl_server_id junk, pl_uid = new_UniqueId 0 0, pl_ping
     = 0, pl_fps_limit = 0, pl_room_id = 0, pl_plaza_id = 0, pl_party_id = 0, pl_playing =
     False, pl_slot_id = 0, pl_team_id = 0, pl_state = 0, pl_server_time = 0, pl_in_room =
     False, pl_in_plaza = False, pl_in_party = False, pl_sent_ping_once = False,
     pl_boss_respawn_remaining = 3, pl_voice_id = 0, pl_max_health = 1000, pl_current_health
     = 1000, pl_match_loaded_time = 0, pl_earnt_battery = 0, pl_zombie_team = 0,
     pl_daily_mission_info = pl_daily_mission_info junk, pl_acc_info = new_FrontAccount,
     pl_inventory_items = [], pl_multiple_accs_logged_in = False, pl_front_sid = 0,
     pl_gacha_pity = [], pl_hwid = '''', pl_is_invisible = False\<rparr>"

definition login_Player ::
  "Player \<Rightarrow> u16 \<Rightarrow> u64 \<Rightarrow> FrontAccount \<Rightarrow> Item list \<Rightarrow> Player" where
  "login_Player junk sessionId serverTime accountInfo inventoryItems =
     (new_Player junk)\<lparr>
       pl_session_id := sessionId, pl_server_time := serverTime, pl_acc_info := accountInfo,
       pl_inventory_items := inventoryItems, pl_server_id := 0\<rparr>"

definition copy_Player :: "Player \<Rightarrow> Player" where
  "copy_Player other = \<lparr>
     pl_session_id = pl_session_id other, pl_server_id = pl_server_id other, pl_uid = pl_uid
     other, pl_ping = pl_ping other, pl_fps_limit = pl_fps_limit other, pl_room_id =
     pl_room_id other, pl_plaza_id = pl_plaza_id other, pl_party_id = pl_party_id other,
     pl_playing = pl_playing other, pl_slot_id = pl_slot_id other, pl_team_id = pl_team_id
     other, pl_state = pl_state other, pl_server_time = pl_server_time other, pl_in_room =
     pl_in_room other, pl_in_plaza = pl_in_plaza other, pl_in_party = pl_in_party other,
     pl_sent_ping_once = pl_sent_ping_once other, pl_boss_respawn_remaining =
     pl_boss_respawn_remaining other, pl_voice_id = pl_voice_id other, pl_max_health =
     pl_max_health other, pl_current_health = pl_current_health other, pl_match_loaded_time
     = pl_match_loaded_time other, pl_earnt_battery = pl_earnt_battery other, pl_zombie_team
     = pl_zombie_team other, pl_daily_mission_info = pl_daily_mission_info other,
     pl_acc_info = pl_acc_info other, pl_inventory_items = pl_inventory_items other,
     pl_multiple_accs_logged_in = pl_multiple_accs_logged_in other, pl_front_sid =
     pl_front_sid other, pl_gacha_pity = pl_gacha_pity other, pl_hwid = pl_hwid other,
     pl_is_invisible = False\<rparr>"

definition assign_Player :: "Player \<Rightarrow> Player \<Rightarrow> Player" where
  "assign_Player other self = self\<lparr>
     pl_session_id := pl_session_id other, pl_server_id := pl_server_id other, pl_uid :=
     pl_uid other, pl_ping := pl_ping other, pl_fps_limit := pl_fps_limit other, pl_room_id
     := pl_room_id other, pl_plaza_id := pl_plaza_id other, pl_party_id := pl_party_id
     other, pl_playing := pl_playing other, pl_slot_id := pl_slot_id other, pl_team_id :=
     pl_team_id other, pl_state := pl_state other, pl_server_time := pl_server_time other,
     pl_in_room := pl_in_room other, pl_in_plaza := pl_in_plaza other, pl_in_party :=
     pl_in_party other, pl_sent_ping_once := pl_sent_ping_once other,
     pl_boss_respawn_remaining := pl_boss_respawn_remaining other, pl_voice_id :=
     pl_voice_id other, pl_max_health := pl_max_health other, pl_current_health :=
     pl_current_health other, pl_match_loaded_time := pl_match_loaded_time other,
     pl_earnt_battery := pl_earnt_battery other, pl_zombie_team := pl_zombie_team other,
     pl_daily_mission_info := pl_daily_mission_info other, pl_acc_info := pl_acc_info other,
     pl_inventory_items := pl_inventory_items other, pl_multiple_accs_logged_in :=
     pl_multiple_accs_logged_in other, pl_front_sid := pl_front_sid other, pl_gacha_pity :=
     pl_gacha_pity other, pl_hwid := pl_hwid other\<rparr>"

section \<open>Rooms\<close>

record PendingLeftSession =
  pls_aid :: u32
  pls_team_id :: u8
  pls_joined_ms :: u64
  pls_left_ms :: u64
  pls_reason :: u8

record PendingCombatEvent =
  pce_attacker_aid :: u32
  pce_victim_aid :: u32
  pce_weapon :: u8
  pce_bodypart :: u8
  pce_hit_variant :: u8
  pce_damage :: u32
  pce_victim_hp_after :: u32
  pce_is_kill :: u8
  pce_event_ms :: u64

record PendingMatchEvent =
  pme_aid :: u32
  pme_event_type :: u8
  pme_sub_a :: u8
  pme_sub_b :: u8
  pme_value :: u32
  pme_event_ms :: u64

record Room =
  rm_room_id :: u16
  rm_channel_id :: u16
  rm_host_session_id :: u16
  rm_title :: string
  rm_password :: string
  rm_MapIndex :: u8
  rm_RandomMapIndex :: u8
  rm_ModeIndex :: u8
  rm_Restriction :: u8
  rm_TeamBalance :: u8
  rm_max_players :: u32
  rm_score_rule :: u32
  rm_time_rule :: u32
  rm_allow_intruders :: bool
  rm_allow_drops :: bool
  rm_allow_observers :: bool
  rm_is_playing :: bool
  rm_has_password :: bool
  rm_start_time :: u64
  rm_match_instance_id :: u64
  rm_neutralteam_session_ids :: "u16 list"
  rm_blueteam_session_ids :: "u16 list"
  rm_redteam_session_ids :: "u16 list"
  rm_observers_session_ids :: "u16 list"
  rm_kicked :: "u32 fset"
  rm_voters :: "u32 fset"
  rm_voteKickers :: "u32 fset"
  rm_vote_kick_target_session_id :: u16
  rm_is_kick_vote_running :: bool
  rm_is_clan_room :: bool
  rm_clan_id_1 :: u32
  rm_clan_id_2 :: u32
  rm_team_rounds_started :: u32
  rm_match_combat_stats :: "(u16, MatchCombatPlayerStats) fmap"
  rm_left_sessions :: "PendingLeftSession list"
  rm_combat_events :: "PendingCombatEvent list"
  rm_match_events :: "PendingMatchEvent list"
  rm_combat_open :: bool
  rm_combat_closed_at :: u64
  rm_round_seq :: u32

definition new_Room ::
  "Room \<Rightarrow> u16 \<Rightarrow> u16 \<Rightarrow> string \<Rightarrow> string \<Rightarrow> u8 \<Rightarrow> u8 \<Rightarrow> u8 \<Rightarrow> u8 \<Rightarrow> u32 \<Rightarrow> u32 \<Rightarrow> u32
     \<Rightarrow> bool \<Rightarrow> bool \<Rightarrow> bool \<Rightarrow> bool \<Rightarrow> bool \<Rightarrow> u16 \<Rightarrow> Room" where
  "new_Room junk roomId channelId title password mapIndex modeIndex restriction teamBalance maxPlayers
      scoreRule timeRule allowIntruders allowDrops allowObservers isPlaying hasPassword hostSessionId = \<lparr>
     rm_room_id = roomId, rm_channel_id = channelId, rm_host_session_id = hostSessionId,
     rm_title = title, rm_password = password, rm_MapIndex = mapIndex,
     rm_RandomMapIndex = rm_RandomMapIndex junk, rm_ModeIndex = modeIndex,
     rm_Restriction = restriction, rm_TeamBalance = teamBalance, rm_max_players = maxPlayers,
     rm_score_rule = scoreRule, rm_time_rule = timeRule, rm_allow_intruders = allowIntruders,
     rm_allow_drops = allowDrops, rm_allow_observers = allowObservers, rm_is_playing = isPlaying,
     rm_has_password = hasPassword, rm_start_time = 0, rm_match_instance_id = 0,
     rm_neutralteam_session_ids = [], rm_blueteam_session_ids = [], rm_redteam_session_ids = [],
     rm_observers_session_ids = [], rm_kicked = {||}, rm_voters = {||}, rm_voteKickers = {||},
     rm_vote_kick_target_session_id = 0, rm_is_kick_vote_running = False,
     rm_is_clan_room = rm_is_clan_room junk, rm_clan_id_1 = rm_clan_id_1 junk,
     rm_clan_id_2 = rm_clan_id_2 junk, rm_team_rounds_started = 0, rm_match_combat_stats = fmempty,
     rm_left_sessions = [], rm_combat_events = [], rm_match_events = [], rm_combat_open = True,
     rm_combat_closed_at = 0, rm_round_seq = 0\<rparr>"

definition copy_Room :: "Room \<Rightarrow> Room" where
  "copy_Room other = \<lparr>
     rm_room_id = rm_room_id other, rm_channel_id = rm_channel_id other, rm_host_session_id
     = rm_host_session_id other, rm_title = rm_title other, rm_password = rm_password other,
     rm_MapIndex = rm_MapIndex other, rm_RandomMapIndex = rm_RandomMapIndex other,
     rm_ModeIndex = rm_ModeIndex other, rm_Restriction = rm_Restriction other,
     rm_TeamBalance = rm_TeamBalance other, rm_max_players = rm_max_players other,
     rm_score_rule = rm_score_rule other, rm_time_rule = rm_time_rule other,
     rm_allow_intruders = rm_allow_intruders other, rm_allow_drops = rm_allow_drops other,
     rm_allow_observers = rm_allow_observers other, rm_is_playing = rm_is_playing other,
     rm_has_password = rm_has_password other, rm_start_time = rm_start_time other,
     rm_match_instance_id = rm_match_instance_id other, rm_neutralteam_session_ids =
     rm_neutralteam_session_ids other, rm_blueteam_session_ids = rm_blueteam_session_ids
     other, rm_redteam_session_ids = rm_redteam_session_ids other, rm_observers_session_ids
     = rm_observers_session_ids other, rm_kicked = rm_kicked other, rm_voters = rm_voters
     other, rm_voteKickers = rm_voteKickers other, rm_vote_kick_target_session_id =
     rm_vote_kick_target_session_id other, rm_is_kick_vote_running = rm_is_kick_vote_running
     other, rm_is_clan_room = rm_is_clan_room other, rm_clan_id_1 = rm_clan_id_1 other,
     rm_clan_id_2 = rm_clan_id_2 other, rm_team_rounds_started = rm_team_rounds_started
     other, rm_match_combat_stats = rm_match_combat_stats other, rm_left_sessions = [],
     rm_combat_events = [], rm_match_events = [], rm_combat_open = True, rm_combat_closed_at
     = 0, rm_round_seq = 0\<rparr>"

definition assign_Room :: "Room \<Rightarrow> Room \<Rightarrow> Room" where
  "assign_Room other self = self\<lparr>
     rm_room_id := rm_room_id other, rm_channel_id := rm_channel_id other,
     rm_host_session_id := rm_host_session_id other, rm_title := rm_title other, rm_password
     := rm_password other, rm_MapIndex := rm_MapIndex other, rm_RandomMapIndex :=
     rm_RandomMapIndex other, rm_ModeIndex := rm_ModeIndex other, rm_Restriction :=
     rm_Restriction other, rm_TeamBalance := rm_TeamBalance other, rm_max_players :=
     rm_max_players other, rm_score_rule := rm_score_rule other, rm_time_rule :=
     rm_time_rule other, rm_allow_intruders := rm_allow_intruders other, rm_allow_drops :=
     rm_allow_drops other, rm_allow_observers := rm_allow_observers other, rm_is_playing :=
     rm_is_playing other, rm_has_password := rm_has_password other, rm_start_time :=
     rm_start_time other, rm_match_instance_id := rm_match_instance_id other,
     rm_neutralteam_session_ids := rm_neutralteam_session_ids other, rm_blueteam_session_ids
     := rm_blueteam_session_ids other, rm_redteam_session_ids := rm_redteam_session_ids
     other, rm_observers_session_ids := rm_observers_session_ids other, rm_kicked :=
     rm_kicked other, rm_voters := rm_voters other, rm_voteKickers := rm_voteKickers other,
     rm_vote_kick_target_session_id := rm_vote_kick_target_session_id other,
     rm_is_kick_vote_running := rm_is_kick_vote_running other, rm_is_clan_room :=
     rm_is_clan_room other, rm_clan_id_1 := rm_clan_id_1 other, rm_clan_id_2 := rm_clan_id_2
     other, rm_team_rounds_started := rm_team_rounds_started other, rm_match_combat_stats :=
     rm_match_combat_stats other\<rparr>"

section \<open>Plazas, clans, parties and mail\<close>

record Plaza =
  pz_plaza_id :: u16
  pz_max_players :: u16
  pz_session_ids :: "u16 list"

definition copy_Plaza :: "Plaza \<Rightarrow> Plaza" where
  "copy_Plaza other = \<lparr>
     pz_plaza_id = pz_plaza_id other, pz_max_players = pz_max_players other, pz_session_ids
     = pz_session_ids other\<rparr>"

definition assign_Plaza :: "Plaza \<Rightarrow> Plaza \<Rightarrow> Plaza" where
  "assign_Plaza other self = self\<lparr>
     pz_plaza_id := pz_plaza_id other, pz_max_players := pz_max_players other,
     pz_session_ids := pz_session_ids other\<rparr>"

record ClanMatch =
  cm_is_playing :: bool
  cm_room_id :: u32
  cm_host_session_id :: u16
  cm_team_sessions :: "u16 list"

definition copy_ClanMatch :: "ClanMatch \<Rightarrow> ClanMatch" where
  "copy_ClanMatch other = \<lparr>
     cm_is_playing = cm_is_playing other, cm_room_id = cm_room_id other, cm_host_session_id
     = cm_host_session_id other, cm_team_sessions = cm_team_sessions other\<rparr>"

definition assign_ClanMatch :: "ClanMatch \<Rightarrow> ClanMatch \<Rightarrow> ClanMatch" where
  "assign_ClanMatch other self = self\<lparr>
     cm_is_playing := cm_is_playing other, cm_room_id := cm_room_id other,
     cm_host_session_id := cm_host_session_id other, cm_team_sessions := cm_team_sessions
     other\<rparr>"

record Clan =
  cl_clan_id :: u32
  cl_clan_name :: string
  cl_logo_front :: u32
  cl_logo_back :: u32
  cl_online_members :: "u16 list"
  cl_clan_matches :: "ClanMatch list"

definition copy_Clan :: "Clan \<Rightarrow> Clan" where
  "copy_Clan other = \<lparr>
     cl_clan_id = cl_clan_id other, cl_clan_name = cl_clan_name other, cl_logo_front =
     cl_logo_front other, cl_logo_back = cl_logo_back other, cl_online_members =
     cl_online_members other, cl_clan_matches = cl_clan_matches other\<rparr>"

definition assign_Clan :: "Clan \<Rightarrow> Clan \<Rightarrow> Clan" where
  "assign_Clan other self = self\<lparr>
     cl_clan_id := cl_clan_id other, cl_clan_name := cl_clan_name other, cl_logo_front :=
     cl_logo_front other, cl_logo_back := cl_logo_back other, cl_online_members :=
     cl_online_members other, cl_clan_matches := cl_clan_matches other\<rparr>"

record Party =
  pt_party_id :: u32
  pt_is_playing :: bool
  pt_is_queueing :: bool
  pt_is_registered :: bool
  pt_is_clan :: bool
  pt_has_password :: bool
  pt_password :: string
  pt_max_members :: u8
  pt_clan_id :: u16
  pt_party_host_session_id :: u16
  pt_members :: "u16 list"
  pt_kicked_members :: "u16 list"
  pt_mod_id :: u16
  pt_map_id :: u16

definition copy_Party :: "Party \<Rightarrow> Party \<Rightarrow> Party" where
  "copy_Party junk other = \<lparr>
     pt_party_id = pt_party_id junk, pt_is_playing = pt_is_playing other, pt_is_queueing =
     pt_is_queueing other, pt_is_registered = pt_is_registered other, pt_is_clan =
     pt_is_clan other, pt_has_password = pt_has_password junk, pt_password = '''',
     pt_max_members = pt_max_members other, pt_clan_id = pt_clan_id other,
     pt_party_host_session_id = pt_party_host_session_id other, pt_members = pt_members
     other, pt_kicked_members = pt_kicked_members other, pt_mod_id = pt_mod_id other,
     pt_map_id = pt_map_id other\<rparr>"

definition assign_Party :: "Party \<Rightarrow> Party \<Rightarrow> Party" where
  "assign_Party other self = self\<lparr>
     pt_is_playing := pt_is_playing other, pt_is_queueing := pt_is_queueing other,
     pt_is_registered := pt_is_registered other, pt_is_clan := pt_is_clan other,
     pt_party_host_session_id := pt_party_host_session_id other, pt_members := pt_members
     other, pt_kicked_members := pt_kicked_members other\<rparr>"

record MailboxData =
  mb_mail_id :: u32
  mb_sender_account_id :: u32
  mb_sender_nickname :: string
  mb_receiver_account_id :: u32
  mb_receiver_nickname :: string
  mb_time :: u32
  mb_gift_itemid :: u32
  mb_message :: string
  mb_is_new :: bool
  mb_deleted_from_sender :: bool
  mb_deleted_from_receiver :: bool

definition copy_MailboxData :: "MailboxData \<Rightarrow> MailboxData" where
  "copy_MailboxData other = \<lparr>
     mb_mail_id = mb_mail_id other, mb_sender_account_id = mb_sender_account_id other,
     mb_sender_nickname = mb_sender_nickname other, mb_receiver_account_id =
     mb_receiver_account_id other, mb_receiver_nickname = mb_receiver_nickname other,
     mb_time = mb_time other, mb_gift_itemid = mb_gift_itemid other, mb_message = mb_message
     other, mb_is_new = mb_is_new other, mb_deleted_from_sender = mb_deleted_from_sender
     other, mb_deleted_from_receiver = mb_deleted_from_receiver other\<rparr>"

definition assign_MailboxData :: "MailboxData \<Rightarrow> MailboxData \<Rightarrow> MailboxData" where
  "assign_MailboxData other self = self\<lparr>
     mb_mail_id := mb_mail_id other, mb_sender_account_id := mb_sender_account_id other,
     mb_sender_nickname := mb_sender_nickname other, mb_receiver_account_id :=
     mb_receiver_account_id other, mb_receiver_nickname := mb_receiver_nickname other,
     mb_time := mb_time other, mb_gift_itemid := mb_gift_itemid other, mb_message :=
     mb_message other, mb_is_new := mb_is_new other, mb_deleted_from_sender :=
     mb_deleted_from_sender other, mb_deleted_from_receiver := mb_deleted_from_receiver
     other\<rparr>"

section \<open>The packed words determine the fields\<close>

lemma serial_of_data_serial [simp]: "serial_of_data (serial_data s) = s"
  by (cases s; simp add: serial_of_data_def serial_data_def)
     (intro conjI; rule bit_word_eqI; auto simp: bit_simps dest: bit_imp_le_length)

lemma serial_data_of_data [simp]: "serial_data (serial_of_data d) = d"
proof (rule bit_word_eqI)
  fix n assume n: "n < LENGTH(64)"
  consider "n < 20" | "20 \<le> n \<and> n < 24" | "24 \<le> n \<and> n < 28" | "28 \<le> n \<and> n < 32" | "32 \<le> n"
    by linarith
  then show "bit (serial_data (serial_of_data d)) n = bit d n"
    using n by cases (simp_all add: serial_of_data_def serial_data_def bit_simps less_diff_conv2)
qed

lemma serial_data_inject [simp]: "serial_data s = serial_data t \<longleftrightarrow> s = t"
  by (metis serial_of_data_serial)

lemma uid_of_data_uid [simp]: "uid_of_data (uid_data u) = u"
  by (cases u; simp add: uid_of_data_def uid_data_def)
     (intro conjI; rule bit_word_eqI; auto simp: bit_simps dest: bit_imp_le_length)

end
