(* ===== verification/Ids.thy ===== *)
theory Ids
  imports Prelude "HOL-Library.FSet"
begin

text \<open>
  Ids of sessions, rooms, plazas and parties: \<open>IdGenerator\<close> of \<open>CServer.h\<close> and the session table
  of \<open>CServer.cpp\<close>. Which element \<open>m_freeList.begin()\<close> is depends on the hash set, so it is a
  parameter \<open>pick\<close> that returns some element of a non-empty set.
\<close>

section \<open>The generator\<close>

record IdGenerator =
  m_min :: u16
  m_max :: u16
  m_counter :: u16
  m_freeList :: "u16 fset"

definition new_IdGenerator :: "u16 \<Rightarrow> u16 \<Rightarrow> IdGenerator option" where
  "new_IdGenerator minId maxId =
    (if maxId < minId then None
     else Some \<lparr>m_min = minId, m_max = maxId, m_counter = minId, m_freeList = {||}\<rparr>)"

definition getNext :: "(u16 fset \<Rightarrow> u16) \<Rightarrow> IdGenerator \<Rightarrow> (u16 \<times> IdGenerator) option" where
  "getNext pick g =
    (if m_freeList g \<noteq> {||} then
       let i = pick (m_freeList g) in Some (i, g\<lparr>m_freeList := m_freeList g |-| {|i|}\<rparr>)
     else if m_counter g < m_max g then Some (m_counter g, g\<lparr>m_counter := m_counter g + 1\<rparr>)
     else None)"

definition free_id :: "u16 \<Rightarrow> IdGenerator \<Rightarrow> IdGenerator" where
  "free_id i g =
    (if m_min g \<le> i \<and> i \<le> m_max g \<and> i |\<notin>| m_freeList g
     then g\<lparr>m_freeList := finsert i (m_freeList g)\<rparr> else g)"

definition picks :: "(u16 fset \<Rightarrow> u16) \<Rightarrow> bool" where
  "picks pick \<longleftrightarrow> (\<forall>S. S \<noteq> {||} \<longrightarrow> pick S |\<in>| S)"

text \<open>A generator is consistent when nothing in the free list can still come from the counter.\<close>

definition ids_ok :: "IdGenerator \<Rightarrow> bool" where
  "ids_ok g \<longleftrightarrow> m_min g \<le> m_counter g \<and> m_counter g \<le> m_max g
     \<and> (\<forall>i. i |\<in>| m_freeList g \<longrightarrow> m_min g \<le> i \<and> i < m_counter g)"

definition available :: "IdGenerator \<Rightarrow> u16 set" where
  "available g = fset (m_freeList g) \<union> {i. m_counter g \<le> i \<and> i < m_max g}"

definition issued :: "IdGenerator \<Rightarrow> u16 set" where
  "issued g = {i. m_min g \<le> i \<and> i < m_counter g \<and> i |\<notin>| m_freeList g}"

section \<open>What the users of an id source rely on\<close>

locale id_source =
  fixes next_id :: "'g \<Rightarrow> ('i \<times> 'g) option"
    and release :: "'i \<Rightarrow> 'g \<Rightarrow> 'g"
    and inv :: "'g \<Rightarrow> bool"
    and out :: "'g \<Rightarrow> 'i set"
  assumes next_fresh: "inv g \<Longrightarrow> next_id g = Some (i, g') \<Longrightarrow> i \<notin> out g \<and> out g' = insert i (out g) \<and> inv g'"
    and release_back: "inv g \<Longrightarrow> i \<in> out g \<Longrightarrow> out (release i g) = out g - {i} \<and> inv (release i g)"
begin

text \<open>Issue ids until the source is empty or the count is reached.\<close>

primrec issue :: "nat \<Rightarrow> 'g \<Rightarrow> 'i list \<times> 'g" where
  "issue 0 g = ([], g)"
| "issue (Suc n) g =
    (case next_id g of None \<Rightarrow> ([], g) | Some (i, g') \<Rightarrow> (case issue n g' of (is, g'') \<Rightarrow> (i # is, g'')))"

lemma issue_distinct:
  "inv g \<Longrightarrow> issue n g = (is, g') \<Longrightarrow> distinct is \<and> set is \<inter> out g = {} \<and> out g' = out g \<union> set is \<and> inv g'"
proof (induction n arbitrary: g "is" g')
  case (Suc n)
  show ?case
  proof (cases "next_id g")
    case (Some r)
    obtain i h where r: "r = (i, h)" by fastforce
    obtain js k where k: "issue n h = (js, k)" by fastforce
    have f: "i \<notin> out g" "out h = insert i (out g)" "inv h"
      using next_fresh [OF Suc.prems(1)] Some r by auto
    from Suc.IH [OF f(3) k] Suc.prems(2) Some r k f show ?thesis by auto
  qed (use Suc.prems in auto)
qed simp

lemma table_step:
  assumes "inv g" "T \<subseteq> out g" "next_id g = Some (i, g')"
  shows "i \<notin> T \<and> insert i T \<subseteq> out g' \<and> inv g'"
  using next_fresh [OF assms(1,3)] assms(2) by auto

lemma table_release:
  assumes "inv g" "T \<subseteq> out g" "i \<in> T"
  shows "T - {i} \<subseteq> out (release i g) \<and> inv (release i g)"
  using release_back [OF assms(1)] assms by auto

end

lemma counter_step: "(a :: u16) < b \<Longrightarrow> x < a + 1 \<longleftrightarrow> x < a \<or> x = a"
proof -
  assume "a < b"
  then have "a \<noteq> - 1" using word_n1_ge [of b] by (metis leD)
  then have "1 + a \<noteq> 0" by (metis add.commute eq_neg_iff_add_eq_0)
  then have "unat (a + 1) = Suc (unat a)" using unatSuc [of a] by (simp add: add.commute)
  then show ?thesis by (auto simp: word_less_nat_alt less_Suc_eq word_unat_eq_iff)
qed

lemma getNext_fresh:
  assumes "picks pick" "ids_ok g" "getNext pick g = Some (i, g')"
  shows "i \<notin> issued g \<and> issued g' = insert i (issued g) \<and> ids_ok g'"
proof (cases "m_freeList g = {||}")
  case True
  with assms(3) have c: "m_counter g < m_max g" and i: "i = m_counter g" and g': "g' = g\<lparr>m_counter := m_counter g + 1\<rparr>"
    by (auto simp: getNext_def split: if_splits)
  have le: "m_counter g + 1 \<le> m_max g" using c by (rule inc_le)
  have lo: "m_min g \<le> m_counter g" "m_counter g < m_counter g + 1"
    using assms(2) counter_step [OF c, of "m_counter g"] by (simp_all add: ids_ok_def)
  have "issued g' = insert i (issued g)"
    using True lo(1) counter_step [OF c] by (auto simp: issued_def g' i)
  moreover have "ids_ok g'" using True lo le by (simp add: ids_ok_def g')
  moreover have "i \<notin> issued g" by (simp add: issued_def i)
  ultimately show ?thesis by blast
next
  case False
  with assms(3) have i: "i = pick (m_freeList g)" and g': "g' = g\<lparr>m_freeList := m_freeList g |-| {|i|}\<rparr>"
    by (auto simp: getNext_def Let_def)
  have "i |\<in>| m_freeList g" using assms(1) False by (simp add: picks_def i)
  then show ?thesis using assms(2) by (auto simp: issued_def ids_ok_def g')
qed

lemma free_id_back:
  assumes "ids_ok g" "i \<in> issued g"
  shows "issued (free_id i g) = issued g - {i} \<and> ids_ok (free_id i g)"
  using assms by (auto simp: free_id_def issued_def ids_ok_def)

interpretation ids: id_source "getNext pick" free_id "\<lambda>g. picks pick \<and> ids_ok g" issued for pick
  using getNext_fresh free_id_back by unfold_locales blast+

section \<open>The session table\<close>

text \<open>A live session is known by a token; the table maps ids to live sessions.\<close>

record session_table =
  st_sessions :: "u16 \<rightharpoonup> nat"
  st_gen :: IdGenerator

definition AddSession :: "u16 \<Rightarrow> nat \<Rightarrow> session_table \<Rightarrow> session_table \<times> bool" where
  "AddSession i tok s =
    (if i = 0 \<or> st_sessions s i \<noteq> None then (s, False)
     else (s\<lparr>st_sessions := (st_sessions s)(i \<mapsto> tok)\<rparr>, True))"

definition RemoveSession :: "u16 \<Rightarrow> session_table \<Rightarrow> session_table" where
  "RemoveSession i s =
    (if i = 0 \<or> st_sessions s i = None then s
     else s\<lparr>st_sessions := (st_sessions s)(i := None), st_gen := free_id i (st_gen s)\<rparr>)"

text \<open>The accept handler: take an id, create the session under it, add it (the flag is not looked at).\<close>

definition AcceptSession :: "(u16 fset \<Rightarrow> u16) \<Rightarrow> nat \<Rightarrow> session_table \<Rightarrow> session_table \<times> u16 option" where
  "AcceptSession pick tok s =
    (case getNext pick (st_gen s) of
       None \<Rightarrow> (s, None)
     | Some (i, g) \<Rightarrow> (fst (AddSession i tok (s\<lparr>st_gen := g\<rparr>)), Some i))"

text \<open>
  Rebinding a session to an id another server chose; the result is the table, whether it was
  rebound and the session that was disconnected for it.
\<close>

definition AdoptSid ::
  "u16 \<Rightarrow> u16 \<Rightarrow> bool \<Rightarrow> session_table \<Rightarrow> session_table \<times> bool \<times> nat option" where
  "AdoptSid old_sid new_sid evictExisting s =
    (if new_sid = 0 \<or> old_sid = 0 then (s, False, None)
     else if new_sid = old_sid then (s, True, None)
     else case st_sessions s old_sid of
       None \<Rightarrow> (s, False, None)
     | Some moving \<Rightarrow>
       (case st_sessions s new_sid of
          Some victim \<Rightarrow>
            if \<not> evictExisting then (s, False, None)
            else (s\<lparr>st_sessions := (st_sessions s)(new_sid := None, old_sid := None, new_sid \<mapsto> moving),
                    st_gen := free_id old_sid (st_gen s)\<rparr>, True, Some victim)
        | None \<Rightarrow>
            (s\<lparr>st_sessions := (st_sessions s)(old_sid := None, new_sid \<mapsto> moving),
               st_gen := free_id old_sid (st_gen s)\<rparr>, True, None)))"

definition table_init :: session_table where
  "table_init = \<lparr>st_sessions = Map.empty,
     st_gen = \<lparr>m_min = 1, m_max = 65535, m_counter = 1, m_freeList = {||}\<rparr>\<rparr>"

inductive table_run :: "(u16 fset \<Rightarrow> u16) \<Rightarrow> session_table \<Rightarrow> bool" for pick where
  run_init: "table_run pick table_init"
| run_accept: "table_run pick s \<Longrightarrow> table_run pick (fst (AcceptSession pick tok s))"
| run_remove: "table_run pick s \<Longrightarrow> table_run pick (RemoveSession i s)"

definition table_ok :: "session_table \<Rightarrow> bool" where
  "table_ok s \<longleftrightarrow> ids_ok (st_gen s) \<and> m_min (st_gen s) = 1 \<and> dom (st_sessions s) \<subseteq> issued (st_gen s)"

lemma getNext_min: "getNext pick g = Some (i, g') \<Longrightarrow> m_min g' = m_min g"
  by (auto simp: getNext_def Let_def split: if_splits)

lemma free_id_min [simp]: "m_min (free_id i g) = m_min g"
  by (simp add: free_id_def)

lemma accept_ok:
  assumes "picks pick" "table_ok s" "AcceptSession pick tok s = (s', r)"
  shows "table_ok s'" "r = Some i \<Longrightarrow> st_sessions s i = None \<and> st_sessions s' = (st_sessions s)(i \<mapsto> tok)"
proof -
  have ok: "picks pick \<and> ids_ok (st_gen s)" "dom (st_sessions s) \<subseteq> issued (st_gen s)" "m_min (st_gen s) = 1"
    using assms by (simp_all add: table_ok_def)
  have "table_ok s' \<and> (r = Some i \<longrightarrow> st_sessions s i = None \<and> st_sessions s' = (st_sessions s)(i \<mapsto> tok))"
  proof (cases "getNext pick (st_gen s)")
    case (Some p)
    obtain j g where p: "p = (j, g)" by fastforce
    have step: "j \<notin> dom (st_sessions s)" "insert j (dom (st_sessions s)) \<subseteq> issued g" "ids_ok g"
      using ids.table_step [OF ok(1,2), of j g] Some p by simp_all
    have m: "m_min g = 1" using getNext_min [of pick "st_gen s" j g] Some p ok(3) by simp
    have j0: "j \<noteq> 0" using step(2) m by (auto simp: issued_def)
    have n: "st_sessions s j = None" using step(1) by (simp add: domIff)
    have "AcceptSession pick tok s = (s\<lparr>st_gen := g, st_sessions := (st_sessions s)(j \<mapsto> tok)\<rparr>, Some j)"
      using Some p j0 n by (simp add: AcceptSession_def AddSession_def)
    with assms(3) have s': "s' = s\<lparr>st_gen := g, st_sessions := (st_sessions s)(j \<mapsto> tok)\<rparr>" "r = Some j" by auto
    show ?thesis using step m n by (auto simp: s' table_ok_def)
  qed (use assms in \<open>auto simp: AcceptSession_def\<close>)
  then show "table_ok s'" "r = Some i \<Longrightarrow> st_sessions s i = None \<and> st_sessions s' = (st_sessions s)(i \<mapsto> tok)"
    by auto
qed

lemma remove_ok:
  assumes "picks pick" "table_ok s"
  shows "table_ok (RemoveSession i s)"
proof (cases "i = 0 \<or> st_sessions s i = None")
  case False
  then have i: "i \<in> dom (st_sessions s)" by auto
  have "dom (st_sessions s) - {i} \<subseteq> issued (free_id i (st_gen s)) \<and> picks pick \<and> ids_ok (free_id i (st_gen s))"
    by (rule ids.table_release) (use assms i in \<open>simp_all add: table_ok_def\<close>)
  with assms(2) False show ?thesis by (simp add: table_ok_def RemoveSession_def)
qed (use assms in \<open>simp add: RemoveSession_def\<close>)

lemma table_run_ok: "table_run pick s \<Longrightarrow> picks pick \<Longrightarrow> table_ok s"
proof (induction rule: table_run.induct)
  case run_init
  then show ?case by (simp add: table_ok_def table_init_def ids_ok_def)
next
  case (run_accept s tok)
  obtain s' r where a: "AcceptSession pick tok s = (s', r)" by (cases "AcceptSession pick tok s")
  from accept_ok(1) [OF run_accept.prems run_accept.IH [OF run_accept.prems] a] show ?case by (simp add: a)
next
  case (run_remove s i)
  then show ?case by (simp add: remove_ok)
qed

section \<open>Concrete choices\<close>

definition pick_least :: "u16 fset \<Rightarrow> u16" where
  "pick_least S = hd (sorted_list_of_set (fset S))"

lemma picks_least: "picks pick_least"
proof -
  have "hd (sorted_list_of_set (fset S)) |\<in>| S" if "S \<noteq> {||}" for S :: "u16 fset"
  proof -
    have "sorted_list_of_set (fset S) \<noteq> []" using that by (auto simp: fset_eq_iff)
    then have "hd (sorted_list_of_set (fset S)) \<in> set (sorted_list_of_set (fset S))"
      by (rule list.set_sel(1))
    also have "set (sorted_list_of_set (fset S)) = fset S" by (rule set_sorted_list_of_set) simp
    finally show ?thesis .
  qed
  then show ?thesis by (simp add: picks_def pick_least_def)
qed

definition tbl :: "(u16 \<rightharpoonup> nat) \<Rightarrow> u16 \<Rightarrow> u16 fset \<Rightarrow> session_table" where
  "tbl m c F = \<lparr>st_sessions = m, st_gen = \<lparr>m_min = 1, m_max = 65535, m_counter = c, m_freeList = F\<rparr>\<rparr>"

lemma table_init_tbl: "table_init = tbl Map.empty 1 {||}"
  by (simp add: table_init_def tbl_def)

lemma accept_tbl_counter:
  "c < 65535 \<Longrightarrow> AcceptSession pick tok (tbl m c {||}) =
     (tbl (if c = 0 \<or> m c \<noteq> None then m else m(c \<mapsto> tok)) (c + 1) {||}, Some c)"
  by (simp add: AcceptSession_def getNext_def tbl_def AddSession_def)

lemma accept_tbl_free:
  "F \<noteq> {||} \<Longrightarrow> pick F = i \<Longrightarrow> AcceptSession pick tok (tbl m c F) =
     (tbl (if i = 0 \<or> m i \<noteq> None then m else m(i \<mapsto> tok)) c (F |-| {|i|}), Some i)"
  by (simp add: AcceptSession_def getNext_def tbl_def AddSession_def)

lemma free_id_tbl:
  "free_id i (st_gen (tbl m c F)) = (if 1 \<le> i \<and> i \<le> 65535 \<and> i |\<notin>| F then st_gen (tbl m c (finsert i F)) else st_gen (tbl m c F))"
  by (simp add: free_id_def tbl_def)

definition adopt_run :: session_table where
  "adopt_run =
    (let s = fst (AcceptSession pick_least 10 table_init);
         s = fst (AdoptSid 1 3 False s);
         s = RemoveSession 3 s;
         s = fst (AcceptSession pick_least 20 s);
         s = fst (AcceptSession pick_least 21 s)
     in fst (AcceptSession pick_least 22 s))"

lemma adopt_steps:
  "fst (AdoptSid 1 3 False (tbl [1 \<mapsto> 10] 2 {||})) = tbl [3 \<mapsto> 10] 2 {|1|}"
  "RemoveSession 3 (tbl [3 \<mapsto> 10] 2 {|1|}) = tbl Map.empty 2 {|1, 3|}"
  by (simp_all add: AdoptSid_def RemoveSession_def free_id_def tbl_def fun_eq_iff finsert_commute)

lemma pick_least_pair: "pick_least {|1, 3|} = 1" "pick_least {|3|} = 3"
  by (simp_all add: pick_least_def)

lemma adopt_run_value: "adopt_run = tbl [1 \<mapsto> 20, 3 \<mapsto> 21, 2 \<mapsto> 22] 3 {||}"
proof -
  have f: "({|1, 3|} :: u16 fset) |-| {|1|} = {|3|}" "({|3|} :: u16 fset) |-| {|3|} = {||}" by auto
  show ?thesis
    unfolding adopt_run_def Let_def table_init_tbl
    by (simp add: accept_tbl_counter adopt_steps accept_tbl_free pick_least_pair f)
qed

section \<open>Properties\<close>

text \<open>
  C34: As long as sessions only come and go, an accepted session gets an id that no live session
  has and is registered under it, whatever element of the free list is reused.
\<close>

theorem accepted_id_is_fresh:
  assumes "picks pick" "table_run pick s" "AcceptSession pick tok s = (s', Some i)"
  shows "st_sessions s i = None \<and> st_sessions s' = (st_sessions s)(i \<mapsto> tok)"
  using accept_ok(2) [OF assms(1) table_run_ok [OF assms(2,1)] assms(3)] by simp

theorem accepted_id_is_fresh_witness:
  "let s = fst (AcceptSession pick_least 10 table_init); s' = fst (AcceptSession pick_least 11 s)
   in st_sessions s 2 = None \<and> st_sessions s' = (st_sessions s)(2 \<mapsto> 11)"
proof -
  let ?s = "fst (AcceptSession pick_least 10 table_init)"
  have "AcceptSession pick_least 11 ?s = (fst (AcceptSession pick_least 11 ?s), Some 2)"
    by (simp add: table_init_tbl accept_tbl_counter)
  from accepted_id_is_fresh [OF picks_least run_accept [OF run_init] this] show ?thesis by (simp add: Let_def)
qed

text \<open>
  Adoption breaks this: after a session is rebound to an id the counter has not reached and
  removed again, the generator issues that id twice, and the second session is accepted under an
  id a live session holds.
\<close>

theorem adopted_id_issued_twice:
  "st_sessions adopt_run 3 = Some 21
   \<and> snd (AcceptSession pick_least 30 adopt_run) = Some 3
   \<and> st_sessions (fst (AcceptSession pick_least 30 adopt_run)) = st_sessions adopt_run"
  by (simp add: adopt_run_value accept_tbl_counter) (simp add: tbl_def)

end
