(* ===== verification/Rooms.thy ===== *)
theory Rooms
  imports Main_Data Ids
begin

text \<open>
  Rooms of the main server (\<open>CMainServer.h\<close> and the room handlers): who is in which team list,
  which slot each member has, who is host. The state is the accounts, the rooms and the ids in
  use; what the code sends is appended to an outbox. A handler holds the locks of the accounts
  and of the room it works on, so it is one function on this state.
\<close>

section \<open>Constants\<close>

definition Team_Neutral :: u8 where "Team_Neutral = 0"
definition Team_Red :: u8 where "Team_Red = 1"
definition Team_Blue :: u8 where "Team_Blue = 2"
definition Team_Observer :: u8 where "Team_Observer = 4"
definition Team_Zombie :: u8 where "Team_Zombie = 5"

lemmas team_ids = Team_Neutral_def Team_Red_def Team_Blue_def Team_Observer_def Team_Zombie_def

definition Mode_TeamDeathMatch :: u8 where "Mode_TeamDeathMatch = 0"
definition Mode_FreeForAll :: u8 where "Mode_FreeForAll = 1"
definition Mode_ItemMatch :: u8 where "Mode_ItemMatch = 2"
definition Mode_CaptureTheBattery :: u8 where "Mode_CaptureTheBattery = 3"
definition Mode_CloseCombat :: u8 where "Mode_CloseCombat = 4"
definition Mode_Elimination :: u8 where "Mode_Elimination = 5"
definition Mode_SuperItemMatch :: u8 where "Mode_SuperItemMatch = 6"
definition Mode_ZombieMode :: u8 where "Mode_ZombieMode = 7"
definition Mode_ArmsRace :: u8 where "Mode_ArmsRace = 8"
definition Mode_Scrimmage :: u8 where "Mode_Scrimmage = 9"
definition Mode_BombBattle :: u8 where "Mode_BombBattle = 10"
definition Mode_BossBattle :: u8 where "Mode_BossBattle = 11"
definition Mode_CLAN_CaptureTheBattery :: u8 where "Mode_CLAN_CaptureTheBattery = 13"
definition Mode_CLAN_Elimination :: u8 where "Mode_CLAN_Elimination = 14"
definition Mode_CLAN_TeamDeathMatch :: u8 where "Mode_CLAN_TeamDeathMatch = 15"
definition Mode_CLAN_BombBattle :: u8 where "Mode_CLAN_BombBattle = 16"
definition Mode_CLAN_Random :: u8 where "Mode_CLAN_Random = 17"

lemmas modes = Mode_TeamDeathMatch_def Mode_FreeForAll_def Mode_ItemMatch_def
  Mode_CaptureTheBattery_def Mode_CloseCombat_def Mode_Elimination_def Mode_SuperItemMatch_def
  Mode_ZombieMode_def Mode_ArmsRace_def Mode_Scrimmage_def Mode_BombBattle_def Mode_BossBattle_def
  Mode_CLAN_CaptureTheBattery_def Mode_CLAN_Elimination_def Mode_CLAN_TeamDeathMatch_def
  Mode_CLAN_BombBattle_def Mode_CLAN_Random_def

definition State_Waiting :: u8 where "State_Waiting = 7"
definition State_HostReady :: u8 where "State_HostReady = 8"

definition Leave_Leave :: u8 where "Leave_Leave = 1"
definition Leave_KickedByGm :: u8 where "Leave_KickedByGm = 35"
definition Leave_KickedByKickVote :: u8 where "Leave_KickedByKickVote = 39"
definition Leave_KickedByHost :: u8 where "Leave_KickedByHost = 42"

lemmas leave_results = Leave_Leave_def Leave_KickedByGm_def Leave_KickedByKickVote_def Leave_KickedByHost_def

definition IsModeTeamBased :: "u8 \<Rightarrow> bool" where
  "IsModeTeamBased mode \<longleftrightarrow>
     mode = Mode_TeamDeathMatch \<or> mode = Mode_ItemMatch \<or> mode = Mode_CaptureTheBattery
   \<or> mode = Mode_CloseCombat \<or> mode = Mode_Elimination \<or> mode = Mode_SuperItemMatch
   \<or> mode = Mode_Scrimmage \<or> mode = Mode_BombBattle \<or> mode = Mode_CLAN_CaptureTheBattery
   \<or> mode = Mode_CLAN_Elimination \<or> mode = Mode_CLAN_TeamDeathMatch \<or> mode = Mode_CLAN_BombBattle"

definition IsRoundBasedMode :: "u8 \<Rightarrow> bool" where
  "IsRoundBasedMode mode \<longleftrightarrow>
     mode = Mode_Elimination \<or> mode = Mode_ZombieMode \<or> mode = Mode_BombBattle
   \<or> mode = Mode_CLAN_Elimination \<or> mode = Mode_CLAN_BombBattle"

section \<open>The state\<close>

datatype lifecycle_action = LC_Create | LC_Join | LC_Leave | LC_Remove | LC_MatchState

datatype cast_ipc =
    HostChangeIpc u16 u64
  | RoomLifecycleIpc lifecycle_action u16 u16 u16 u8
  | PlayerHealthIpc u16 u32 u32

text \<open>One entry of the clan list packet: slot, clan name, logos and clan id.\<close>

record PlayerRoomClanListInfo =
  pcl_slotIndex :: u32
  pcl_clanName :: string
  pcl_logo_front :: u32
  pcl_logo_back :: u32
  pcl_clanId :: u32

datatype room_log_type =
    RL_RoomCreated | RL_RoomJoined | RL_RoomLeft | RL_RoomKicked
  | RL_TeamChanged | RL_VoteKickStarted | RL_VoteKickAgreed | RL_VoteKickSucceeded
  | RL_VoteKickFailed | RL_MatchStarted | RL_MatchEntered | RL_MatchLeft
  | RL_MapChanged | RL_ModeChanged | RL_ScoreRuleChanged | RL_TimeRuleChanged
  | RL_MaxPlayersChanged

primrec EventTypeToString :: "room_log_type \<Rightarrow> string" where
  "EventTypeToString RL_RoomCreated = ''RoomCreated''"
| "EventTypeToString RL_RoomJoined = ''RoomJoined''"
| "EventTypeToString RL_RoomLeft = ''RoomLeft''"
| "EventTypeToString RL_RoomKicked = ''RoomKicked''"
| "EventTypeToString RL_TeamChanged = ''TeamChanged''"
| "EventTypeToString RL_VoteKickStarted = ''VoteKickStarted''"
| "EventTypeToString RL_VoteKickAgreed = ''VoteKickAgreed''"
| "EventTypeToString RL_VoteKickSucceeded = ''VoteKickSucceeded''"
| "EventTypeToString RL_VoteKickFailed = ''VoteKickFailed''"
| "EventTypeToString RL_MatchStarted = ''MatchStarted''"
| "EventTypeToString RL_MatchEntered = ''MatchEntered''"
| "EventTypeToString RL_MatchLeft = ''MatchLeft''"
| "EventTypeToString RL_MapChanged = ''MapChanged''"
| "EventTypeToString RL_ModeChanged = ''ModeChanged''"
| "EventTypeToString RL_ScoreRuleChanged = ''ScoreRuleChanged''"
| "EventTypeToString RL_TimeRuleChanged = ''TimeRuleChanged''"
| "EventTypeToString RL_MaxPlayersChanged = ''MaxPlayersChanged''"

record RoomLogEntry =
  log_aid :: u32
  log_target_aid :: "u32 option"
  log_event_type :: room_log_type
  log_server_id :: u32
  log_room_id :: u32
  log_host_aid :: "u32 option"
  log_team_id :: "u8 option"
  log_new_team_id :: "u8 option"
  log_votekick_reason :: "u8 option"
  log_old_value :: "u32 option"
  log_new_value :: "u32 option"

definition new_RoomLogEntry :: RoomLogEntry where
  "new_RoomLogEntry = \<lparr>
     log_aid = 0, log_target_aid = None, log_event_type = RL_RoomJoined, log_server_id = 0,
     log_room_id = 0, log_host_aid = None, log_team_id = None, log_new_team_id = None,
     log_votekick_reason = None, log_old_value = None, log_new_value = None\<rparr>"

text \<open>
  What leaves the server: a packet to a session (order, mission, extra, option, payload), a clan
  list packet, a message to the cast server, a row for the room log.
\<close>

datatype event =
    Msg u16 u16 u8 u8 u8 bytes
  | ClanListMsg u16 "PlayerRoomClanListInfo list"
  | CastIpc cast_ipc
  | PersistRoomLog RoomLogEntry

record world =
  CAccount :: "u16 \<rightharpoonup> Player"
  CRoom :: "u32 \<rightharpoonup> Room"
  CRoomId :: "u32 list"
  CPlaza :: "u32 \<rightharpoonup> Plaza"
  CParty :: "u16 \<rightharpoonup> Party"
  CClan :: "u32 \<rightharpoonup> Clan"
  m_roomIdGenerator :: IdGenerator
  m_sessions :: "u16 fset"
  outbox :: "event list"

definition emit :: "event \<Rightarrow> world \<Rightarrow> world" where
  "emit e w = w\<lparr>outbox := outbox w @ [e]\<rparr>"

text \<open>\<open>GetSessionById\<close> followed by \<open>SendMsg\<close>: nothing is sent when there is no session.\<close>

definition SendMsg :: "u16 \<Rightarrow> u16 \<Rightarrow> u8 \<Rightarrow> u8 \<Rightarrow> u8 \<Rightarrow> bytes \<Rightarrow> world \<Rightarrow> world" where
  "SendMsg sid order mission extra option payload w =
    (if sid |\<in>| m_sessions w then emit (Msg sid order mission extra option payload) w else w)"

definition SendCastRoomLifecycleSync ::
  "lifecycle_action \<Rightarrow> u16 \<Rightarrow> u16 \<Rightarrow> u16 \<Rightarrow> bool \<Rightarrow> world \<Rightarrow> world" where
  "SendCastRoomLifecycleSync action room_id sid host is_playing =
     emit (CastIpc (RoomLifecycleIpc action room_id sid host (if is_playing then 1 else 0)))"

definition SendCastRoomCreateSync :: "u16 \<Rightarrow> u16 \<Rightarrow> world \<Rightarrow> world" where
  "SendCastRoomCreateSync room_id host = SendCastRoomLifecycleSync LC_Create room_id host host False"

definition SendCastRoomJoinSync :: "u16 \<Rightarrow> u16 \<Rightarrow> u16 \<Rightarrow> bool \<Rightarrow> world \<Rightarrow> world" where
  "SendCastRoomJoinSync room_id sid host is_playing = SendCastRoomLifecycleSync LC_Join room_id sid host is_playing"

definition SendCastRoomLeaveSync :: "u16 \<Rightarrow> u16 \<Rightarrow> u16 \<Rightarrow> bool \<Rightarrow> world \<Rightarrow> world" where
  "SendCastRoomLeaveSync room_id sid host is_playing = SendCastRoomLifecycleSync LC_Leave room_id sid host is_playing"

definition SendCastRoomRemoveSync :: "u16 \<Rightarrow> world \<Rightarrow> world" where
  "SendCastRoomRemoveSync room_id = SendCastRoomLifecycleSync LC_Remove room_id 0 0 False"

definition SendCastRoomMatchStateSync :: "u16 \<Rightarrow> u16 \<Rightarrow> bool \<Rightarrow> world \<Rightarrow> world" where
  "SendCastRoomMatchStateSync room_id host is_playing = SendCastRoomLifecycleSync LC_MatchState room_id 0 host is_playing"

text \<open>A write through a unique lock; there is nothing to write when the account is missing.\<close>

definition upd_acc :: "u16 \<Rightarrow> (Player \<Rightarrow> Player) \<Rightarrow> world \<Rightarrow> world" where
  "upd_acc sid f w = w\<lparr>CAccount := (CAccount w)(sid := map_option f (CAccount w sid))\<rparr>"

definition set_room :: "Room \<Rightarrow> world \<Rightarrow> world" where
  "set_room r w = w\<lparr>CRoom := (CRoom w)(ucast (rm_room_id r) \<mapsto> r)\<rparr>"

section \<open>Members in slot order\<close>

definition acc_Index_of :: "Player \<Rightarrow> u32" where
  "acc_Index_of p = acc_Index (pl_acc_info p)"

definition listed :: "world \<Rightarrow> Room \<Rightarrow> u16 \<Rightarrow> bool" where
  "listed w r sid = (case CAccount w sid of
     None \<Rightarrow> False
   | Some acc \<Rightarrow> acc_Index_of acc \<noteq> - 1 \<and> pl_in_room acc \<and> pl_room_id acc = ucast (rm_room_id r))"

definition slot_of :: "world \<Rightarrow> u16 \<Rightarrow> u32" where
  "slot_of w sid = (case CAccount w sid of None \<Rightarrow> 0 | Some acc \<Rightarrow> pl_slot_id acc)"

definition addSlots :: "world \<Rightarrow> Room \<Rightarrow> u16 list \<Rightarrow> (u16 \<times> u32) list" where
  "addSlots w r ids = map (\<lambda>id. (id, slot_of w id)) (filter (listed w r) ids)"

definition sorted_ids :: "(u16 \<times> u32) list \<Rightarrow> u16 list" where
  "sorted_ids slots = map fst (sort_key snd slots)"

definition team_slots :: "world \<Rightarrow> Room \<Rightarrow> (u16 \<times> u32) list" where
  "team_slots w r =
    (if IsModeTeamBased (rm_ModeIndex r)
     then addSlots w r (rm_blueteam_session_ids r) @ addSlots w r (rm_redteam_session_ids r)
     else addSlots w r (rm_neutralteam_session_ids r))"

definition GetRoomSortedPlayerSessionIds :: "world \<Rightarrow> Room \<Rightarrow> u16 list" where
  "GetRoomSortedPlayerSessionIds w r =
     sorted_ids (team_slots w r @ addSlots w r (rm_observers_session_ids r))"

definition GetRoomSortedObserversSessionIds :: "world \<Rightarrow> Room \<Rightarrow> u16 list" where
  "GetRoomSortedObserversSessionIds w r = sorted_ids (addSlots w r (rm_observers_session_ids r))"

definition GetRoomSortedPlayerWithoutObserverSessionIds :: "world \<Rightarrow> Room \<Rightarrow> u16 list" where
  "GetRoomSortedPlayerWithoutObserverSessionIds w r = sorted_ids (team_slots w r)"

definition GetRoomSortedPlayerPlayingAndObserverSessionIds :: "world \<Rightarrow> Room \<Rightarrow> u16 list" where
  "GetRoomSortedPlayerPlayingAndObserverSessionIds w r =
     sorted_ids (team_slots w r @ addSlots w r (rm_observers_session_ids r))"

definition GetRoomSortedPlayerPlayingWithoutObserverSessionIds :: "world \<Rightarrow> Room \<Rightarrow> u16 list" where
  "GetRoomSortedPlayerPlayingWithoutObserverSessionIds w r = sorted_ids (team_slots w r)"

section \<open>Team lists\<close>

definition GetTeamList :: "Room \<Rightarrow> u8 \<Rightarrow> u16 list" where
  "GetTeamList r team =
    (if team = Team_Neutral then rm_neutralteam_session_ids r
     else if team = Team_Red then rm_redteam_session_ids r
     else if team = Team_Blue then rm_blueteam_session_ids r
     else rm_observers_session_ids r)"

text \<open>The reference \<open>GetTeamList\<close> returns is written through.\<close>

definition upd_team_list :: "u8 \<Rightarrow> (u16 list \<Rightarrow> u16 list) \<Rightarrow> Room \<Rightarrow> Room" where
  "upd_team_list team f r =
    (if team = Team_Neutral then r\<lparr>rm_neutralteam_session_ids := f (rm_neutralteam_session_ids r)\<rparr>
     else if team = Team_Red then r\<lparr>rm_redteam_session_ids := f (rm_redteam_session_ids r)\<rparr>
     else if team = Team_Blue then r\<lparr>rm_blueteam_session_ids := f (rm_blueteam_session_ids r)\<rparr>
     else r\<lparr>rm_observers_session_ids := f (rm_observers_session_ids r)\<rparr>)"

definition GetTeamNameById :: "u8 \<Rightarrow> string" where
  "GetTeamNameById team =
    (if team = Team_Neutral then ''Neutral'' else if team = Team_Red then ''Red''
     else if team = Team_Blue then ''Blue'' else ''Observer'')"

text \<open>\<open>std::lower_bound\<close>: the halving search for the first position whose element is not less.\<close>

function lower_bound_loop :: "('a \<Rightarrow> bool) \<Rightarrow> 'a list \<Rightarrow> nat \<Rightarrow> nat \<Rightarrow> nat" where
  "lower_bound_loop lt xs first len =
    (if len = 0 then first
     else let half = len div 2; mid = first + half in
       if lt (xs ! mid) then lower_bound_loop lt xs (mid + 1) (len - half - 1)
       else lower_bound_loop lt xs first half)"
  by pat_completeness auto
termination by (relation "measure (\<lambda>(lt, xs, first, len). len)") auto

declare lower_bound_loop.simps [simp del]

definition lower_bound :: "('a \<Rightarrow> bool) \<Rightarrow> 'a list \<Rightarrow> nat" where
  "lower_bound lt xs = lower_bound_loop lt xs 0 (length xs)"

definition ReorderTeamList :: "world \<Rightarrow> u16 \<Rightarrow> u16 list \<Rightarrow> u16 list" where
  "ReorderTeamList w sid team_list =
    (let xs = remove1 sid team_list;
         i = lower_bound (\<lambda>a. slot_of w a < slot_of w sid) xs
     in take i xs @ sid # drop i xs)"

section \<open>Leaving a room\<close>

text \<open>One pass over the candidates: the lowest ping strictly below the best so far wins.\<close>

definition scan_host :: "world \<Rightarrow> Room \<Rightarrow> u16 \<Rightarrow> bool \<Rightarrow> u16 list \<Rightarrow> u16" where
  "scan_host w r leaving requirePlaying sids =
    fst (foldl (\<lambda>(best_sid, best_ping) sid.
        if sid = leaving then (best_sid, best_ping)
        else case CAccount w sid of
            None \<Rightarrow> (best_sid, best_ping)
          | Some acc \<Rightarrow>
              if acc_Index_of acc = 0 \<or> \<not> pl_in_room acc \<or> pl_room_id acc \<noteq> ucast (rm_room_id r)
                 \<or> pl_playing acc \<noteq> requirePlaying
              then (best_sid, best_ping)
              else if pl_ping acc < best_ping then (sid, pl_ping acc) else (best_sid, best_ping))
      (0, - 1) sids)"

definition PickAutoHost :: "world \<Rightarrow> Room \<Rightarrow> u16 \<Rightarrow> u16" where
  "PickAutoHost w r leaving =
    (let sids = GetRoomSortedPlayerWithoutObserverSessionIds w r;
         inMatchCandidate = scan_host w r leaving True sids
     in if inMatchCandidate \<noteq> 0 then inMatchCandidate else scan_host w r leaving False sids)"

definition TryRemoveObservers :: "Room \<Rightarrow> world \<Rightarrow> world" where
  "TryRemoveObservers r w =
    fold (\<lambda>id w.
      case CAccount w id of
        None \<Rightarrow> w
      | Some acc \<Rightarrow>
          if acc_Index_of acc = 0 \<or> \<not> pl_in_room acc \<or> pl_room_id acc \<noteq> ucast (rm_room_id r) then w
          else SendMsg id 141 0 Leave_Leave 0 []
                 (upd_acc id (\<lambda>p. p\<lparr>pl_in_room := False, pl_slot_id := 0, pl_playing := False,
                                     pl_state := State_Waiting\<rparr>) w))
      (rm_observers_session_ids r) w"

text \<open>
  The host branch: the new host takes slot 0, the leaving host the new host's old slot. The
  result is the new state and room, whether the host changed, the new host's old slot and the
  leaver's slot; \<open>Inl\<close> is the early return.
\<close>

definition migrate_host ::
  "u16 \<Rightarrow> u32 \<Rightarrow> world \<Rightarrow> Room \<Rightarrow> world \<times> Room + world \<times> Room \<times> bool \<times> u32 \<times> u32" where
  "migrate_host sid my_slot w r =
    (let nh = PickAutoHost w r sid in
     if nh = 0 then Inr (w, r, False, 0, my_slot)
     else
       let r = r\<lparr>rm_host_session_id := nh\<rparr> in
       case (CAccount w sid, CAccount w nh) of
         (Some _, Some new_host) \<Rightarrow>
           let previous = pl_slot_id new_host;
               w = emit (CastIpc (HostChangeIpc (rm_room_id r) (acc_AuthKey (pl_acc_info new_host)))) w;
               w = upd_acc nh (\<lambda>p. p\<lparr>pl_slot_id := 0\<rparr>) w;
               w = upd_acc sid (\<lambda>p. p\<lparr>pl_slot_id := previous\<rparr>) w;
               r = upd_team_list (pl_team_id new_host) (ReorderTeamList w nh) r
           in Inr (w, r, True, previous, previous)
       | _ \<Rightarrow> Inl (w, r))"

text \<open>The last member in slot order takes the leaver's slot, then the leaver is erased.\<close>

definition swap_with_last ::
  "u16 \<Rightarrow> u32 \<Rightarrow> bool \<Rightarrow> u8 \<Rightarrow> world \<Rightarrow> Room \<Rightarrow> world \<times> Room \<times> u32" where
  "swap_with_last sid my_slot is_observer removed_teamid w r =
    (let ids = (if is_observer then GetRoomSortedObserversSessionIds w r
                else GetRoomSortedPlayerWithoutObserverSessionIds w r)
     in if ids = [] then (w, r, my_slot)
     else
       let last_sid = last ids; last_slot = slot_of w last_sid;
           (w, r) =
             (if last_sid \<noteq> sid then
                (case CAccount w last_sid of
                   None \<Rightarrow> (w, r)
                 | Some last_acc \<Rightarrow>
                     let w = upd_acc last_sid (\<lambda>p. p\<lparr>pl_slot_id := my_slot\<rparr>) w;
                         w = upd_acc sid (\<lambda>p. p\<lparr>pl_slot_id := last_slot\<rparr>) w
                     in (w, upd_team_list (pl_team_id last_acc) (ReorderTeamList w last_sid) r))
              else (w, r))
       in (w, upd_team_list removed_teamid (removeAll sid) r, last_slot))"

definition notify_left ::
  "Room \<Rightarrow> u16 \<Rightarrow> bool \<Rightarrow> u32 \<Rightarrow> u32 \<Rightarrow> UniqueId \<Rightarrow> world \<Rightarrow> world" where
  "notify_left r sid host_changed previous slot_to_erase uid w =
    fold (\<lambda>id w.
      if id = sid then w
      else SendMsg id 422 0 0 (ucast slot_to_erase) (le_bytes 4 (uid_data uid))
             (if host_changed then SendMsg id 128 0 1 (ucast previous) [] w else w))
      (GetRoomSortedPlayerSessionIds w r) w"

definition reset_left :: "Player \<Rightarrow> Player" where
  "reset_left p = p\<lparr>pl_zombie_team := 0, pl_in_room := False, pl_slot_id := 0, pl_playing := False,
                    pl_room_id := 0, pl_state := State_Waiting\<rparr>"

text \<open>Delete a room without players, pushing its observers out.\<close>

definition drop_empty_room :: "Room \<Rightarrow> world \<Rightarrow> world" where
  "drop_empty_room r w =
    (let room_id = rm_room_id r; key = ucast room_id;
         w = (if rm_observers_session_ids r \<noteq> [] then TryRemoveObservers r w else w);
         w = (if CRoom w key \<noteq> None
              then (SendCastRoomRemoveSync room_id w)
                     \<lparr>CRoom := (CRoom w)(key := None), CRoomId := remove1 key (CRoomId w)\<rparr>
              else w)
     in w\<lparr>m_roomIdGenerator := free_id room_id (m_roomIdGenerator w)\<rparr>)"

text \<open>From the reset of the leaver's account to the end, on the room without the leaver.\<close>

definition finish_leave :: "u16 \<Rightarrow> u8 \<Rightarrow> bool \<Rightarrow> world \<Rightarrow> Room \<Rightarrow> world" where
  "finish_leave sid leave_type return_state w r =
    (case CAccount w sid of
       None \<Rightarrow> set_room r w
     | Some acc_final \<Rightarrow>
         let w = upd_acc sid reset_left w;
             w = SendCastRoomLeaveSync (rm_room_id r) sid (rm_host_session_id r) (rm_is_playing r) w;
             r = (if leave_type = Leave_KickedByKickVote \<or> leave_type = Leave_KickedByHost
                     \<or> leave_type = Leave_KickedByGm
                  then r\<lparr>rm_kicked := finsert (acc_Index_of acc_final) (rm_kicked r)\<rparr> else r);
             w = set_room r w;
             w = (if return_state then SendMsg sid 141 0 leave_type 0 [] w else w)
         in if rm_neutralteam_session_ids r \<noteq> [] \<or> rm_redteam_session_ids r \<noteq> []
               \<or> rm_blueteam_session_ids r \<noteq> [] then w
            else drop_empty_room r w)"

definition NewRemoveRoomPlayer :: "u32 \<Rightarrow> u16 \<Rightarrow> u8 \<Rightarrow> bool \<Rightarrow> world \<Rightarrow> world" where
  "NewRemoveRoomPlayer room_id sid leave_type return_state w =
    (case CRoom w room_id of
       None \<Rightarrow> w
     | Some r \<Rightarrow>
       (case CAccount w sid of
          None \<Rightarrow> w
        | Some acc \<Rightarrow>
          if acc_Index_of acc = 0 \<or> \<not> pl_in_room acc \<or> pl_room_id acc \<noteq> ucast (rm_room_id r) then w
          else
            let removed_teamid = pl_team_id acc; my_slot = pl_slot_id acc;
                is_observer = (removed_teamid = Team_Observer)
            in case (if \<not> is_observer \<and> rm_host_session_id r = sid then migrate_host sid my_slot w r
                     else Inr (w, r, False, 0, my_slot)) of
                 Inl (w, r) \<Rightarrow> set_room r w
               | Inr (w, r, host_changed, previous, my_slot) \<Rightarrow>
                   (case swap_with_last sid my_slot is_observer removed_teamid w r of
                      (w, r, slot_to_erase) \<Rightarrow>
                        finish_leave sid leave_type return_state
                          (notify_left r sid host_changed previous slot_to_erase (pl_uid acc) w) r)))"
end
