(* ===== verification/Rooms_Inv.thy ===== *)
theory Rooms_Inv
  imports Rooms "HOL-Library.Multiset"
begin

text \<open>
  What leaving keeps: in a well-formed room the players hold the slots \<open>0..n-1\<close>, the observers
  a run from 16, and the host slot 0. Slots are only permuted by the host change and by the swap
  with the last member, so the proofs work on bijections between members and slots.
\<close>

section \<open>Account updates\<close>

lemma CAccount_upd_acc: "CAccount (upd_acc sid f w) = (CAccount w)(sid := map_option f (CAccount w sid))"
  by (simp add: upd_acc_def)

lemma emit_simps [simp]:
  "CAccount (emit e w) = CAccount w" "CRoom (emit e w) = CRoom w" "CRoomId (emit e w) = CRoomId w"
  "m_sessions (emit e w) = m_sessions w" "m_roomIdGenerator (emit e w) = m_roomIdGenerator w" "CPlaza (emit e w) = CPlaza w"
  by (simp_all add: emit_def)

lemma SendMsg_simps [simp]:
  "CAccount (SendMsg s a b c d e w) = CAccount w" "CRoom (SendMsg s a b c d e w) = CRoom w"
  "CRoomId (SendMsg s a b c d e w) = CRoomId w" "m_sessions (SendMsg s a b c d e w) = m_sessions w"
  "m_roomIdGenerator (SendMsg s a b c d e w) = m_roomIdGenerator w" "CPlaza (SendMsg s a b c d e w) = CPlaza w"
  by (simp_all add: SendMsg_def)

lemma upd_acc_simps [simp]:
  "CRoom (upd_acc s f w) = CRoom w" "CRoomId (upd_acc s f w) = CRoomId w"
  "m_sessions (upd_acc s f w) = m_sessions w" "m_roomIdGenerator (upd_acc s f w) = m_roomIdGenerator w"
  by (simp_all add: upd_acc_def)

lemma sync_simps [simp]:
  "CAccount (SendCastRoomLifecycleSync a b c d e w) = CAccount w"
  "CRoom (SendCastRoomLifecycleSync a b c d e w) = CRoom w"
  "m_sessions (SendCastRoomLifecycleSync a b c d e w) = m_sessions w"
  "CRoomId (SendCastRoomLifecycleSync a b c d e w) = CRoomId w"
  by (simp_all add: SendCastRoomLifecycleSync_def)

lemmas sync_defs = SendCastRoomCreateSync_def SendCastRoomJoinSync_def SendCastRoomLeaveSync_def
  SendCastRoomRemoveSync_def SendCastRoomMatchStateSync_def

lemma slot_of_cong: "CAccount w = CAccount v \<Longrightarrow> slot_of w = slot_of v"
  by (simp add: slot_of_def fun_eq_iff)

lemma listed_cong: "CAccount w = CAccount v \<Longrightarrow> listed w r = listed v r"
  by (simp add: listed_def fun_eq_iff)

lemma slot_of_set_slot:
  "slot_of (upd_acc s (\<lambda>p. p\<lparr>pl_slot_id := v\<rparr>) w) t
     = (if t = s \<and> CAccount w s \<noteq> None then v else slot_of w t)"
  by (auto simp: slot_of_def upd_acc_def split: option.splits)

lemma listed_set_slot [simp]: "listed (upd_acc s (\<lambda>p. p\<lparr>pl_slot_id := v\<rparr>) w) r = listed w r"
  by (auto simp: listed_def upd_acc_def acc_Index_of_def fun_eq_iff split: option.splits)

lemma fold_SendMsg_CAccount [simp]:
  "CAccount (notify_left r sid hc pr sl uid w) = CAccount w"
  "CRoom (notify_left r sid hc pr sl uid w) = CRoom w"
proof -
  have "CAccount (fold (\<lambda>id w. if id = sid then w else SendMsg id a b c d e (if f then SendMsg id a' b' c' d' e' w else w)) ids v) = CAccount v
      \<and> CRoom (fold (\<lambda>id w. if id = sid then w else SendMsg id a b c d e (if f then SendMsg id a' b' c' d' e' w else w)) ids v) = CRoom v"
    for a b c d e f a' b' c' d' e' ids v
    by (induction ids arbitrary: v) auto
  then show "CAccount (notify_left r sid hc pr sl uid w) = CAccount w" "CRoom (notify_left r sid hc pr sl uid w) = CRoom w"
    by (simp_all add: notify_left_def)
qed

section \<open>Slots as a bijection\<close>

definition slots_ok :: "(u16 \<Rightarrow> u32) \<Rightarrow> nat \<Rightarrow> u16 list \<Rightarrow> bool" where
  "slots_ok f base xs \<longleftrightarrow>
     distinct xs \<and> bij_betw (\<lambda>x. unat (f x)) (set xs) {base..<base + length xs}"

lemma slots_ok_inj: "slots_ok f b xs \<Longrightarrow> x \<in> set xs \<Longrightarrow> y \<in> set xs \<Longrightarrow> f x = f y \<Longrightarrow> x = y"
  by (simp add: slots_ok_def bij_betw_def inj_on_def)

lemma slots_ok_cong: "(\<And>x. x \<in> set xs \<Longrightarrow> f x = g x) \<Longrightarrow> slots_ok f b xs = slots_ok g b xs"
  unfolding slots_ok_def by (metis (mono_tags, lifting) bij_betw_cong)

lemma slots_ok_set: "slots_ok f b xs \<Longrightarrow> set xs = set ys \<Longrightarrow> distinct ys \<Longrightarrow> slots_ok f b ys"
  by (metis slots_ok_def distinct_card)

lemma slots_ok_swap:
  assumes "slots_ok f b xs" "x \<in> set xs" "y \<in> set xs"
  shows "slots_ok (f(x := f y, y := f x)) b xs"
proof -
  let ?g = "\<lambda>z. unat (f z)" and ?t = "\<lambda>z. if z = x then y else if z = y then x else z"
  have "bij_betw ?t (set xs) (set xs)"
    using assms by (intro bij_betw_byWitness [where f' = ?t]) auto
  then have "bij_betw (?g \<circ> ?t) (set xs) {b..<b + length xs}"
    using assms(1) bij_betw_trans by (auto simp: slots_ok_def)
  moreover have "(?g \<circ> ?t) = (\<lambda>z. unat ((f(x := f y, y := f x)) z))"
    by (auto simp: fun_eq_iff)
  ultimately show ?thesis using assms by (simp add: slots_ok_def)
qed

lemma slots_ok_remove_last:
  assumes "slots_ok f b xs" "x \<in> set xs" "unat (f x) = b + length xs - 1"
  shows "slots_ok f b (removeAll x xs)"
proof -
  have d: "distinct xs" and bij: "bij_betw (\<lambda>x. unat (f x)) (set xs) {b..<b + length xs}"
    using assms by (auto simp: slots_ok_def)
  have len: "length (removeAll x xs) = length xs - 1"
    using d assms(2) by (simp add: distinct_remove1_removeAll [symmetric] length_remove1)
  have "bij_betw (\<lambda>x. unat (f x)) (set xs - {x}) ({b..<b + length xs} - {unat (f x)})"
    using bij assms(2) inj_on_image_set_diff [of "\<lambda>x. unat (f x)" "set xs" "set xs" "{x}"]
    by (intro bij_betw_subset [OF bij]) (auto simp: bij_betw_def)
  moreover have "{b..<b + length xs} - {unat (f x)} = {b..<b + (length xs - 1)}"
    using assms(2,3) by (cases xs) auto
  ultimately show ?thesis using d len by (simp add: slots_ok_def distinct_removeAll)
qed

section \<open>The member listed last has the highest slot\<close>

lemma last_sort_key:
  "xs \<noteq> [] \<Longrightarrow> last (sort_key k xs) \<in> set xs \<and> (\<forall>x \<in> set xs. k x \<le> k (last (sort_key k xs)))"
proof -
  assume "xs \<noteq> []"
  then have ne: "sort_key k xs \<noteq> []" by (metis length_0_conv length_sort)
  then obtain zs z where z: "sort_key k xs = zs @ [z]" by (metis rev_exhaust)
  have "sorted (map k (zs @ [z]))" using sorted_sort_key [of k xs] unfolding z .
  moreover have "set xs = set (zs @ [z])" unfolding z [symmetric] by simp
  ultimately show ?thesis unfolding z by (auto simp: sorted_append)
qed

lemma sorted_ids_nil [simp]: "sorted_ids s = [] \<longleftrightarrow> s = []"
  by (metis length_0_conv length_map length_sort sorted_ids_def)

lemma set_sorted_ids: "set (sorted_ids (map (\<lambda>i. (i, f i)) xs)) = set xs"
  by (force simp: sorted_ids_def)

lemma last_sorted_ids:
  assumes "xs \<noteq> []"
  shows "last (sorted_ids (map (\<lambda>i. (i, f i)) xs)) \<in> set xs
    \<and> (\<forall>x \<in> set xs. f x \<le> f (last (sorted_ids (map (\<lambda>i. (i, f i)) xs))))"
proof -
  let ?s = "map (\<lambda>i. (i, f i)) xs"
  have l: "last (sort_key snd ?s) \<in> set ?s" "\<forall>x \<in> set ?s. snd x \<le> snd (last (sort_key snd ?s))"
    using last_sort_key [of ?s snd] assms by auto
  have "sort_key snd ?s \<noteq> []" using assms by (metis length_0_conv length_map length_sort)
  then have "last (sorted_ids ?s) = fst (last (sort_key snd ?s))"
    by (simp add: sorted_ids_def last_map)
  then show ?thesis using l by auto
qed

lemma slots_ok_last:
  assumes "slots_ok f b xs" "xs \<noteq> []"
  shows "unat (f (last (sorted_ids (map (\<lambda>i. (i, f i)) xs)))) = b + length xs - 1"
proof -
  let ?l = "last (sorted_ids (map (\<lambda>i. (i, f i)) xs))"
  have l: "?l \<in> set xs" "\<forall>x \<in> set xs. f x \<le> f ?l" using last_sorted_ids [OF assms(2), of f] by auto
  have img: "(\<lambda>x. unat (f x)) ` set xs = {b..<b + length xs}"
    using assms(1) by (auto simp: slots_ok_def bij_betw_def)
  have "b + length xs - 1 \<in> (\<lambda>x. unat (f x)) ` set xs" unfolding img using assms(2) by (cases xs) auto
  then obtain x where "x \<in> set xs" "unat (f x) = b + length xs - 1" by auto
  then have "b + length xs - 1 \<le> unat (f ?l)" using l by (metis word_le_nat_alt)
  moreover have "unat (f ?l) \<in> {b..<b + length xs}" using l(1) unfolding img [symmetric] by simp
  ultimately show ?thesis by (simp only: atLeastLessThan_iff) arith
qed

section \<open>Well-formed rooms\<close>

definition players :: "Room \<Rightarrow> u16 list" where
  "players r = (if IsModeTeamBased (rm_ModeIndex r)
     then rm_blueteam_session_ids r @ rm_redteam_session_ids r else rm_neutralteam_session_ids r)"

abbreviation observers :: "Room \<Rightarrow> u16 list" where
  "observers r \<equiv> rm_observers_session_ids r"

definition member_ok :: "world \<Rightarrow> Room \<Rightarrow> u16 \<Rightarrow> bool" where
  "member_ok w r s \<longleftrightarrow> (case CAccount w s of
     None \<Rightarrow> False
   | Some p \<Rightarrow> acc_Index_of p \<noteq> - 1 \<and> acc_Index_of p \<noteq> 0 \<and> pl_in_room p \<and> pl_room_id p = ucast (rm_room_id r)
       \<and> pl_team_id p \<in> {Team_Neutral, Team_Red, Team_Blue, Team_Observer}
       \<and> s \<in> set (GetTeamList r (pl_team_id p)))"

definition room_core :: "world \<Rightarrow> Room \<Rightarrow> bool" where
  "room_core w r \<longleftrightarrow>
     (if IsModeTeamBased (rm_ModeIndex r) then rm_neutralteam_session_ids r = []
      else rm_blueteam_session_ids r = [] \<and> rm_redteam_session_ids r = [])
   \<and> distinct (players r @ observers r) \<and> 0 \<notin> set (players r)
   \<and> (\<forall>s \<in> set (players r @ observers r). member_ok w r s)
   \<and> slots_ok (slot_of w) 0 (players r) \<and> slots_ok (slot_of w) 16 (observers r)"

definition room_ok :: "world \<Rightarrow> Room \<Rightarrow> bool" where
  "room_ok w r \<longleftrightarrow> room_core w r \<and> rm_host_session_id r \<in> set (players r)
     \<and> slot_of w (rm_host_session_id r) = 0"

text \<open>Rooms that differ only in the order inside the team lists.\<close>

definition same_lists :: "Room \<Rightarrow> Room \<Rightarrow> bool" where
  "same_lists r r' \<longleftrightarrow> rm_room_id r' = rm_room_id r \<and> rm_ModeIndex r' = rm_ModeIndex r
    \<and> mset (rm_blueteam_session_ids r') = mset (rm_blueteam_session_ids r)
    \<and> mset (rm_redteam_session_ids r') = mset (rm_redteam_session_ids r)
    \<and> mset (rm_neutralteam_session_ids r') = mset (rm_neutralteam_session_ids r)
    \<and> mset (observers r') = mset (observers r)"

text \<open>States whose accounts differ only in slots.\<close>

definition same_accounts :: "world \<Rightarrow> world \<Rightarrow> bool" where
  "same_accounts w w' \<longleftrightarrow>
     (\<forall>s. map_option (\<lambda>p. p\<lparr>pl_slot_id := 0\<rparr>) (CAccount w' s) = map_option (\<lambda>p. p\<lparr>pl_slot_id := 0\<rparr>) (CAccount w s))"

lemma same_accounts_refl [simp]: "same_accounts w w"
  by (simp add: same_accounts_def)

lemma same_accounts_trans: "same_accounts u v \<Longrightarrow> same_accounts v w \<Longrightarrow> same_accounts u w"
  by (simp add: same_accounts_def)

lemma same_accounts_set_slot [simp]: "same_accounts w (upd_acc s (\<lambda>p. p\<lparr>pl_slot_id := v\<rparr>) w)"
  by (auto simp: same_accounts_def upd_acc_def option.map_comp comp_def)

lemma same_accounts_Some:
  assumes "same_accounts w w'" "CAccount w s = Some p"
  shows "\<exists>v. CAccount w' s = Some (p\<lparr>pl_slot_id := v\<rparr>)"
proof -
  from assms have "map_option (\<lambda>p. p\<lparr>pl_slot_id := 0\<rparr>) (CAccount w' s) = Some (p\<lparr>pl_slot_id := 0\<rparr>)"
    by (simp add: same_accounts_def)
  then obtain q where q: "CAccount w' s = Some q" "q\<lparr>pl_slot_id := 0\<rparr> = p\<lparr>pl_slot_id := 0\<rparr>" by auto
  have "q = (q\<lparr>pl_slot_id := 0\<rparr>)\<lparr>pl_slot_id := pl_slot_id q\<rparr>" by simp
  then have "q = p\<lparr>pl_slot_id := pl_slot_id q\<rparr>" unfolding q(2) by simp
  with q(1) show ?thesis by metis
qed

lemma same_lists_players: "same_lists r r' \<Longrightarrow> mset (players r') = mset (players r)"
  by (simp add: same_lists_def players_def)

lemma same_lists_team: "same_lists r r' \<Longrightarrow> set (GetTeamList r' t) = set (GetTeamList r t)"
  by (auto simp: same_lists_def GetTeamList_def dest: mset_eq_setD)

lemma member_ok_same:
  assumes "same_lists r r'" "same_accounts w w'" "member_ok w r s"
  shows "member_ok w' r' s"
proof -
  obtain p where p: "CAccount w s = Some p" using assms(3) by (auto simp: member_ok_def split: option.splits)
  obtain v where v: "CAccount w' s = Some (p\<lparr>pl_slot_id := v\<rparr>)" using same_accounts_Some [OF assms(2) p] by blast
  have "rm_room_id r' = rm_room_id r" using assms(1) by (simp add: same_lists_def)
  with assms(3) p v same_lists_team [OF assms(1)] show ?thesis
    by (simp add: member_ok_def acc_Index_of_def)
qed

lemma room_core_same:
  assumes "room_core w r" "same_lists r r'" "same_accounts w w'"
    and "slots_ok (slot_of w') 0 (players r)" "slots_ok (slot_of w') 16 (observers r)"
  shows "room_core w' r'"
proof -
  have p: "mset (players r') = mset (players r)" "mset (observers r') = mset (observers r)"
    using assms(2) same_lists_players [OF assms(2)] by (simp_all add: same_lists_def)
  have sets: "set (players r') = set (players r)" "set (observers r') = set (observers r)"
    using p by (auto dest: mset_eq_setD)
  have d: "distinct (players r') = distinct (players r)" "distinct (observers r') = distinct (observers r)"
    using p by (auto dest: mset_eq_imp_distinct_iff)
  have "distinct (players r')" "distinct (observers r')" using assms(4,5) d by (simp_all add: slots_ok_def)
  then have "slots_ok (slot_of w') 0 (players r')" "slots_ok (slot_of w') 16 (observers r')"
    using slots_ok_set [OF assms(4) sets(1) [symmetric]] slots_ok_set [OF assms(5) sets(2) [symmetric]] by blast+
  moreover have "\<forall>s \<in> set (players r' @ observers r'). member_ok w' r' s"
    using assms(1) sets member_ok_same [OF assms(2,3)] by (simp add: room_core_def)
  moreover have "if IsModeTeamBased (rm_ModeIndex r') then rm_neutralteam_session_ids r' = []
      else rm_blueteam_session_ids r' = [] \<and> rm_redteam_session_ids r' = []"
    using assms(1,2) by (auto simp: room_core_def same_lists_def split: if_splits)
  ultimately show ?thesis using assms(1) sets d by (simp add: room_core_def)
qed

lemma mset_ReorderTeamList: "s \<in> set xs \<Longrightarrow> mset (ReorderTeamList w s xs) = mset xs"
proof -
  assume "s \<in> set xs"
  moreover have "mset (take i ys @ s # drop i ys) = add_mset s (mset ys)" for i ys
    by (metis append_take_drop_id mset_append mset.simps(2) union_mset_add_mset_right)
  ultimately show ?thesis by (simp add: ReorderTeamList_def Let_def)
qed

lemma same_lists_reorder:
  "s \<in> set (GetTeamList r t) \<Longrightarrow> same_lists r (upd_team_list t (ReorderTeamList w s) r)"
  by (auto simp: same_lists_def upd_team_list_def GetTeamList_def mset_ReorderTeamList split: if_splits)

lemma same_lists_refl [simp]: "same_lists r r"
  by (simp add: same_lists_def)

lemma GetTeamList_host [simp]: "GetTeamList (r\<lparr>rm_host_session_id := h\<rparr>) t = GetTeamList r t"
  by (simp add: GetTeamList_def)

lemma same_lists_trans: "same_lists a b \<Longrightarrow> same_lists b c \<Longrightarrow> same_lists a c"
  by (simp add: same_lists_def)

lemma upd_team_list_simps [simp]:
  "rm_room_id (upd_team_list t f r) = rm_room_id r" "rm_ModeIndex (upd_team_list t f r) = rm_ModeIndex r"
  "rm_host_session_id (upd_team_list t f r) = rm_host_session_id r"
  "rm_is_playing (upd_team_list t f r) = rm_is_playing r"
  "rm_kicked (upd_team_list t f r) = rm_kicked r"
  by (simp_all add: upd_team_list_def)

section \<open>Picking the new host\<close>

definition candidate :: "world \<Rightarrow> Room \<Rightarrow> u16 \<Rightarrow> bool \<Rightarrow> u16 \<Rightarrow> bool" where
  "candidate w r leaving req s \<longleftrightarrow> s \<noteq> leaving \<and> (case CAccount w s of
     None \<Rightarrow> False
   | Some p \<Rightarrow> acc_Index_of p \<noteq> 0 \<and> pl_in_room p \<and> pl_room_id p = ucast (rm_room_id r) \<and> pl_playing p = req)"

definition ping_of :: "world \<Rightarrow> u16 \<Rightarrow> u32" where
  "ping_of w s = (case CAccount w s of None \<Rightarrow> 0 | Some p \<Rightarrow> pl_ping p)"

definition scan_step :: "world \<Rightarrow> Room \<Rightarrow> u16 \<Rightarrow> bool \<Rightarrow> u16 \<times> u32 \<Rightarrow> u16 \<Rightarrow> u16 \<times> u32" where
  "scan_step w r leaving req = (\<lambda>(b, p) s.
     if candidate w r leaving req s \<and> ping_of w s < p then (s, ping_of w s) else (b, p))"

lemma scan_host_fold: "scan_host w r leaving req sids = fst (foldl (scan_step w r leaving req) (0, - 1) sids)"
  unfolding scan_host_def scan_step_def
  by (rule arg_cong [where f = "\<lambda>g. fst (foldl g (0, - 1) sids)"])
     (auto simp: fun_eq_iff candidate_def ping_of_def split: option.splits)

lemma scan_fold_spec:
  assumes "foldl (scan_step w r leaving req) (b, p) sids = (b', p')"
  shows "p' \<le> p \<and> (b' = b \<and> p' = p \<or> b' \<in> set sids \<and> candidate w r leaving req b' \<and> p' = ping_of w b')
    \<and> (\<forall>s \<in> set sids. candidate w r leaving req s \<longrightarrow> p' \<le> ping_of w s)"
  using assms
proof (induction sids arbitrary: b p)
  case (Cons s sids)
  obtain b1 p1 where 1: "scan_step w r leaving req (b, p) s = (b1, p1)" by fastforce
  with Cons have ih: "p' \<le> p1 \<and> (b' = b1 \<and> p' = p1 \<or> b' \<in> set sids \<and> candidate w r leaving req b' \<and> p' = ping_of w b')
    \<and> (\<forall>s \<in> set sids. candidate w r leaving req s \<longrightarrow> p' \<le> ping_of w s)" by auto
  show ?case
  proof (cases "candidate w r leaving req s \<and> ping_of w s < p")
    case True
    with 1 have "b1 = s" "p1 = ping_of w s" "p1 < p" by (auto simp: scan_step_def)
    with ih True show ?thesis by auto
  next
    case False
    with 1 have e: "b1 = b" "p1 = p" by (simp_all add: scan_step_def)
    from False have "candidate w r leaving req s \<longrightarrow> p \<le> ping_of w s" by (simp add: not_less)
    with ih e show ?thesis by auto
  qed
qed simp

lemma scan_host_spec:
  assumes "0 \<notin> set sids" and "\<forall>s \<in> set sids. ping_of w s < - 1"
  shows "if \<exists>s \<in> set sids. candidate w r leaving req s
    then scan_host w r leaving req sids \<in> set sids \<and> candidate w r leaving req (scan_host w r leaving req sids)
      \<and> (\<forall>s \<in> set sids. candidate w r leaving req s \<longrightarrow> ping_of w (scan_host w r leaving req sids) \<le> ping_of w s)
    else scan_host w r leaving req sids = 0"
proof -
  obtain b p where f: "foldl (scan_step w r leaving req) (0, - 1) sids = (b, p)" by fastforce
  have b: "scan_host w r leaving req sids = b" by (simp add: scan_host_fold f)
  have spec: "b = 0 \<and> p = - 1 \<or> b \<in> set sids \<and> candidate w r leaving req b \<and> p = ping_of w b"
    "\<forall>s \<in> set sids. candidate w r leaving req s \<longrightarrow> p \<le> ping_of w s"
    using scan_fold_spec [OF f] by auto
  show ?thesis
  proof (cases "\<exists>s \<in> set sids. candidate w r leaving req s")
    case True
    then obtain s where s: "s \<in> set sids" "candidate w r leaving req s" by blast
    with spec(2) assms(2) have "p < - 1" by (meson order.strict_trans1)
    with spec s show ?thesis unfolding b by auto
  next
    case False
    with spec(1) assms(1) show ?thesis unfolding b by auto
  qed
qed

section \<open>Listings of a well-formed room\<close>

lemma core_listed: "room_core w r \<Longrightarrow> s \<in> set (players r @ observers r) \<Longrightarrow> listed w r s"
  by (auto simp: room_core_def member_ok_def listed_def split: option.splits)

lemma addSlots_all: "\<forall>s \<in> set xs. listed w r s \<Longrightarrow> addSlots w r xs = map (\<lambda>i. (i, slot_of w i)) xs"
  by (simp add: addSlots_def)

lemma core_team_slots: "room_core w r \<Longrightarrow> team_slots w r = map (\<lambda>i. (i, slot_of w i)) (players r)"
  using core_listed [of w r] by (simp add: team_slots_def players_def addSlots_all)

lemma core_observer_slots:
  "room_core w r \<Longrightarrow> addSlots w r (observers r) = map (\<lambda>i. (i, slot_of w i)) (observers r)"
  using core_listed [of w r] by (simp add: addSlots_all)

lemma core_member:
  assumes "room_core w r" "s \<in> set (players r @ observers r)"
  obtains p where "CAccount w s = Some p" "acc_Index_of p \<noteq> - 1" "acc_Index_of p \<noteq> 0" "pl_in_room p"
    "pl_room_id p = ucast (rm_room_id r)" "s \<in> set (GetTeamList r (pl_team_id p))"
    "pl_team_id p \<in> {Team_Neutral, Team_Red, Team_Blue, Team_Observer}"
proof -
  have "member_ok w r s" using assms unfolding room_core_def by blast
  with that show thesis by (cases "CAccount w s") (simp_all add: member_ok_def)
qed

lemma core_team_of:
  assumes "room_core w r" "s \<in> set (players r @ observers r)" "CAccount w s = Some p"
  shows "s \<in> set (GetTeamList r (pl_team_id p))" "pl_team_id p = Team_Observer \<longleftrightarrow> s \<in> set (observers r)"
    "acc_Index_of p \<noteq> 0" "pl_in_room p" "pl_room_id p = ucast (rm_room_id r)"
proof -
  obtain q where q: "CAccount w s = Some q" "acc_Index_of q \<noteq> 0" "pl_in_room q"
      "pl_room_id q = ucast (rm_room_id r)" "s \<in> set (GetTeamList r (pl_team_id q))"
      "pl_team_id q \<in> {Team_Neutral, Team_Red, Team_Blue, Team_Observer}"
    using core_member [OF assms(1,2)] by metis
  with assms(3) show "s \<in> set (GetTeamList r (pl_team_id p))" "acc_Index_of p \<noteq> 0" "pl_in_room p"
      "pl_room_id p = ucast (rm_room_id r)" by simp_all
  have "pl_team_id q = Team_Observer" if "s \<in> set (observers r)"
    using that q(5,6) assms(1) by (auto simp: room_core_def players_def GetTeamList_def team_ids split: if_splits)
  with q assms(3) show "pl_team_id p = Team_Observer \<longleftrightarrow> s \<in> set (observers r)"
    by (auto simp: GetTeamList_def team_ids)
qed

lemma PickAutoHost_core:
  assumes core: "room_core w r" and ping: "\<forall>s \<in> set (players r). ping_of w s < - 1"
  shows "if \<exists>s \<in> set (players r). s \<noteq> leaving
    then PickAutoHost w r leaving \<in> set (players r) \<and> PickAutoHost w r leaving \<noteq> leaving
    else PickAutoHost w r leaving = 0"
proof -
  let ?ids = "GetRoomSortedPlayerWithoutObserverSessionIds w r"
  have ids: "set ?ids = set (players r)"
    by (simp add: GetRoomSortedPlayerWithoutObserverSessionIds_def core_team_slots [OF core] set_sorted_ids)
  have 0: "0 \<notin> set ?ids" "\<forall>s \<in> set ?ids. ping_of w s < - 1"
    using core ping by (simp_all add: ids room_core_def)
  have cand: "candidate w r leaving True s \<or> candidate w r leaving False s" if "s \<in> set (players r)" "s \<noteq> leaving" for s
  proof -
    have m: "s \<in> set (players r @ observers r)" using that by simp
    obtain p where "CAccount w s = Some p" "acc_Index_of p \<noteq> 0" "pl_in_room p" "pl_room_id p = ucast (rm_room_id r)"
      using core_member [OF core m] by metis
    then show ?thesis using that by (auto simp: candidate_def)
  qed
  have ne: "candidate w r leaving req s \<Longrightarrow> s \<noteq> leaving" for req s by (simp add: candidate_def)
  have none: "\<not> candidate w r leaving req s" if "\<not> (\<exists>s \<in> set (players r). s \<noteq> leaving)" "s \<in> set (players r)" for req s
    using that ne by blast
  note T = scan_host_spec [OF 0, of r leaving True] and F = scan_host_spec [OF 0, of r leaving False]
  show ?thesis
  proof (cases "\<exists>s \<in> set (players r). s \<noteq> leaving")
    case True
    show ?thesis
    proof (cases "\<exists>s \<in> set ?ids. candidate w r leaving True s")
      case t: True
      with T have "scan_host w r leaving True ?ids \<in> set ?ids"
        "candidate w r leaving True (scan_host w r leaving True ?ids)" by simp_all
      moreover from this 0 have "scan_host w r leaving True ?ids \<noteq> 0" by metis
      ultimately show ?thesis using True ids ne by (auto simp: PickAutoHost_def Let_def)
    next
      case f: False
      with True cand ids have "\<exists>s \<in> set ?ids. candidate w r leaving False s" by metis
      with F have "scan_host w r leaving False ?ids \<in> set ?ids"
        "candidate w r leaving False (scan_host w r leaving False ?ids)" by simp_all
      moreover have "scan_host w r leaving True ?ids = 0" using T f by simp
      ultimately show ?thesis using True ids ne by (auto simp: PickAutoHost_def Let_def)
    qed
  next
    case False
    then have "\<not> (\<exists>s \<in> set ?ids. candidate w r leaving req s)" for req using none ids by blast
    with T F False show ?thesis by (simp add: PickAutoHost_def Let_def)
  qed
qed

section \<open>The host change\<close>

lemma slots_ok_move:
  assumes "slots_ok f b xs" "x \<in> set xs" "y \<in> set xs" "g = f(x := f y, y := f x)"
  shows "slots_ok g b xs"
  using slots_ok_swap [OF assms(1-3)] assms(4) by simp

lemma slots_ok_other:
  "slots_ok f b xs \<Longrightarrow> x \<notin> set xs \<Longrightarrow> y \<notin> set xs \<Longrightarrow> slots_ok (f(x := u, y := v)) b xs"
  by (erule rev_iffD1) (rule slots_ok_cong, auto)

text \<open>Two members of the same kind exchange their slots.\<close>

lemma room_core_swap:
  assumes core: "room_core w r" and same: "same_lists r r'" "same_accounts w w'"
    and xy: "x \<in> set xs" "y \<in> set xs" "xs = players r \<or> xs = observers r"
    and slots: "slot_of w' = (slot_of w)(x := slot_of w y, y := slot_of w x)"
  shows "room_core w' r'"
proof -
  have ok: "slots_ok (slot_of w) 0 (players r)" "slots_ok (slot_of w) 16 (observers r)"
    and disj: "set (players r) \<inter> set (observers r) = {}"
    using core by (auto simp: room_core_def)
  have "slots_ok (slot_of w') 0 (players r)"
  proof (cases "xs = players r")
    case True
    then show ?thesis using slots_ok_move [OF ok(1)] xy slots by blast
  next
    case False
    with xy disj have "x \<notin> set (players r)" "y \<notin> set (players r)" by auto
    then show ?thesis unfolding slots by (rule slots_ok_other [OF ok(1)])
  qed
  moreover have "slots_ok (slot_of w') 16 (observers r)"
  proof (cases "xs = observers r")
    case True
    then show ?thesis using slots_ok_move [OF ok(2)] xy slots by blast
  next
    case False
    with xy disj have "x \<notin> set (observers r)" "y \<notin> set (observers r)" by auto
    then show ?thesis unfolding slots by (rule slots_ok_other [OF ok(2)])
  qed
  ultimately show ?thesis by (rule room_core_same [OF core same])
qed

lemma same_lists_host [simp]: "same_lists r (r\<lparr>rm_host_session_id := h\<rparr>)"
  by (simp add: same_lists_def)

lemma slot_of_emit [simp]: "slot_of (emit e w) = slot_of w"
  by (rule slot_of_cong) simp

lemma same_accounts_emit [simp]: "same_accounts v (emit e w) = same_accounts v w"
  by (simp add: same_accounts_def)

lemma migrate_host_core:
  assumes ok: "room_ok w r" and host: "rm_host_session_id r = sid" and others: "\<exists>s \<in> set (players r). s \<noteq> sid"
    and ping: "\<forall>s \<in> set (players r). ping_of w s < - 1"
  obtains w' r' prev where "migrate_host sid (slot_of w sid) w r = Inr (w', r', True, prev, prev)"
    "room_ok w' r'" "rm_host_session_id r' \<noteq> sid" "same_lists r r'" "same_accounts w w'"
    "slot_of w' sid = prev" "rm_is_playing r' = rm_is_playing r" "rm_kicked r' = rm_kicked r" "CRoom w' = CRoom w"
proof -
  have core: "room_core w r" and h: "sid \<in> set (players r)" "slot_of w sid = 0"
    using ok host by (auto simp: room_ok_def)
  define nh where "nh = PickAutoHost w r sid"
  have nh: "nh \<in> set (players r)" "nh \<noteq> sid"
    using PickAutoHost_core [OF core ping, of sid] others by (auto simp: nh_def)
  have nz: "nh \<noteq> 0" using nh core by (auto simp: room_core_def)
  obtain p where p: "CAccount w sid = Some p" using core_member [OF core, of sid] h by auto
  obtain q where q: "CAccount w nh = Some q" using core_member [OF core, of nh] nh by auto
  define e where "e = CastIpc (HostChangeIpc (rm_room_id r) (acc_AuthKey (pl_acc_info q)))"
  define w' where "w' = upd_acc sid (\<lambda>p. p\<lparr>pl_slot_id := pl_slot_id q\<rparr>) (upd_acc nh (\<lambda>p. p\<lparr>pl_slot_id := 0\<rparr>) (emit e w))"
  define r' where "r' = upd_team_list (pl_team_id q) (ReorderTeamList w' nh) (r\<lparr>rm_host_session_id := nh\<rparr>)"
  have m: "migrate_host sid (slot_of w sid) w r = Inr (w', r', True, pl_slot_id q, pl_slot_id q)"
    using nz p q by (simp add: migrate_host_def Let_def nh_def [symmetric] w'_def r'_def e_def)
  have team: "nh \<in> set (GetTeamList r (pl_team_id q))" using core_team_of(1) [OF core _ q] nh(1) by simp
  have "nh \<in> set (GetTeamList (r\<lparr>rm_host_session_id := nh\<rparr>) (pl_team_id q))"
    using team by simp
  then have sl: "same_lists r r'" unfolding r'_def
    by (rule same_lists_trans [OF same_lists_host same_lists_reorder])
  have sa: "same_accounts w w'"
    unfolding w'_def by (rule same_accounts_trans [OF _ same_accounts_set_slot], rule same_accounts_trans [OF _ same_accounts_set_slot]) simp
  have slots: "slot_of w' = (slot_of w)(nh := slot_of w sid, sid := slot_of w nh)"
    using p q nh(2) h(2) by (auto simp: fun_eq_iff w'_def slot_of_set_slot CAccount_upd_acc) (simp add: slot_of_def)
  have core': "room_core w' r'"
    by (rule room_core_swap [OF core sl sa nh(1) h(1) _ slots]) simp
  have host': "rm_host_session_id r' = nh" by (simp add: r'_def)
  have "nh \<in> set (players r')" using same_lists_players [OF sl] nh(1) by (metis mset_eq_setD)
  moreover have "slot_of w' nh = 0" using slots nh(2) h(2) by simp
  ultimately have "room_ok w' r'" using core' host' by (simp add: room_ok_def)
  moreover have "slot_of w' sid = pl_slot_id q" using slots q by (simp add: slot_of_def)
  moreover have "rm_is_playing r' = rm_is_playing r" "rm_kicked r' = rm_kicked r" by (simp_all add: r'_def)
  moreover have "CRoom w' = CRoom w" by (simp add: w'_def)
  ultimately show thesis using that m sl sa host' nh(2) by blast
qed

section \<open>The swap with the last member\<close>

lemma core_disjoint:
  assumes "room_core w r"
  shows "x \<in> set (players r) \<Longrightarrow> x \<notin> set (observers r)" "x \<in> set (observers r) \<Longrightarrow> x \<notin> set (players r)"
    "x \<in> set (rm_blueteam_session_ids r) \<Longrightarrow> x \<notin> set (rm_redteam_session_ids r)"
    "x \<in> set (rm_redteam_session_ids r) \<Longrightarrow> x \<notin> set (rm_blueteam_session_ids r)"
  using assms by (auto simp: room_core_def players_def split: if_splits)

lemma removeAll_lists:
  assumes "room_core w r" "s \<in> set (GetTeamList r t)" "s \<in> set (players r @ observers r)"
    and "t \<in> {Team_Neutral, Team_Red, Team_Blue, Team_Observer}"
  shows "players (upd_team_list t (removeAll s) r) = removeAll s (players r)"
    "observers (upd_team_list t (removeAll s) r) = removeAll s (observers r)"
proof -
  note d = core_disjoint [OF assms(1), of s]
  have mode: "IsModeTeamBased (rm_ModeIndex r) \<Longrightarrow> rm_neutralteam_session_ids r = []"
    "\<not> IsModeTeamBased (rm_ModeIndex r) \<Longrightarrow> rm_blueteam_session_ids r = [] \<and> rm_redteam_session_ids r = []"
    using assms(1) by (auto simp: room_core_def split: if_splits)
  consider "t = Team_Neutral" "s \<in> set (rm_neutralteam_session_ids r)" | "t = Team_Red" "s \<in> set (rm_redteam_session_ids r)"
    | "t = Team_Blue" "s \<in> set (rm_blueteam_session_ids r)" | "t = Team_Observer" "s \<in> set (observers r)"
    using assms(2,4) by (auto simp: GetTeamList_def split: if_splits)
  then have "players (upd_team_list t (removeAll s) r) = removeAll s (players r)
      \<and> observers (upd_team_list t (removeAll s) r) = removeAll s (observers r)"
    by cases (use d mode in \<open>auto simp: players_def upd_team_list_def team_ids\<close>)
  then show "players (upd_team_list t (removeAll s) r) = removeAll s (players r)"
    "observers (upd_team_list t (removeAll s) r) = removeAll s (observers r)" by auto
qed

lemma removeAll_team:
  assumes "room_core w r" "s \<in> set (GetTeamList r t)" "s \<in> set (players r @ observers r)"
    and "t \<in> {Team_Neutral, Team_Red, Team_Blue, Team_Observer}" "x \<noteq> s" "x \<in> set (GetTeamList r t')"
  shows "x \<in> set (GetTeamList (upd_team_list t (removeAll s) r) t')"
  using assms by (auto simp: upd_team_list_def GetTeamList_def split: if_splits)

lemma core_remove:
  assumes core: "room_core w r" and s: "s \<in> set (GetTeamList r t)" "s \<in> set (players r @ observers r)"
    and t: "t \<in> {Team_Neutral, Team_Red, Team_Blue, Team_Observer}"
    and pl: "slots_ok (slot_of w) 0 (removeAll s (players r))"
    and ob: "slots_ok (slot_of w) 16 (removeAll s (observers r))"
  shows "room_core w (upd_team_list t (removeAll s) r)"
proof -
  let ?r = "upd_team_list t (removeAll s) r"
  note lists = removeAll_lists [OF core s t]
  have "member_ok w ?r x" if "x \<in> set (players ?r @ observers ?r)" for x
  proof -
    have x: "x \<noteq> s" "x \<in> set (players r @ observers r)" using that lists by auto
    obtain p where "CAccount w x = Some p" "acc_Index_of p \<noteq> - 1" "acc_Index_of p \<noteq> 0" "pl_in_room p"
      "pl_room_id p = ucast (rm_room_id r)" "x \<in> set (GetTeamList r (pl_team_id p))"
      "pl_team_id p \<in> {Team_Neutral, Team_Red, Team_Blue, Team_Observer}"
      using core_member [OF core x(2)] by metis
    then show ?thesis using removeAll_team [OF core s t x(1)] by (simp add: member_ok_def)
  qed
  moreover have "if IsModeTeamBased (rm_ModeIndex ?r) then rm_neutralteam_session_ids ?r = []
      else rm_blueteam_session_ids ?r = [] \<and> rm_redteam_session_ids ?r = []"
    using core by (auto simp: room_core_def upd_team_list_def split: if_splits)
  moreover have "distinct (players ?r @ observers ?r)" "0 \<notin> set (players ?r)"
    using core lists by (auto simp: room_core_def distinct_removeAll)
  ultimately show ?thesis using pl ob lists by (simp add: room_core_def)
qed

lemma swap_with_last_core:
  assumes core: "room_core w r" and acc: "CAccount w sid = Some p"
    and xs: "xs = (if pl_team_id p = Team_Observer then observers r else players r)" and sid: "sid \<in> set xs"
    and base: "b = (if pl_team_id p = Team_Observer then 16 else 0)"
  obtains w' r' e where
    "swap_with_last sid (slot_of w sid) (pl_team_id p = Team_Observer) (pl_team_id p) w r = (w', r', e)"
    "room_core w' r'" "same_accounts w w'" "CRoom w' = CRoom w"
    "set (players r') = set (players r) - {sid}" "set (observers r') = set (observers r) - {sid}"
    "rm_room_id r' = rm_room_id r" "rm_host_session_id r' = rm_host_session_id r"
    "rm_is_playing r' = rm_is_playing r" "rm_kicked r' = rm_kicked r"
    "unat e = b + length xs - 1" "m_sessions w' = m_sessions w"
    "\<forall>s. s \<noteq> sid \<and> (s \<in> set xs \<longrightarrow> unat (slot_of w s) = 0) \<longrightarrow> slot_of w' s = slot_of w s"
proof -
  let ?l = "last (sorted_ids (map (\<lambda>i. (i, slot_of w i)) xs))"
  have mem: "sid \<in> set (players r @ observers r)" using sid xs by (auto split: if_splits)
  note team = core_team_of [OF core mem acc]
  have teamid: "pl_team_id p \<in> {Team_Neutral, Team_Red, Team_Blue, Team_Observer}"
    using core_member [OF core mem] acc by (metis option.inject)
  have ids: "(if pl_team_id p = Team_Observer then GetRoomSortedObserversSessionIds w r
      else GetRoomSortedPlayerWithoutObserverSessionIds w r) = sorted_ids (map (\<lambda>i. (i, slot_of w i)) xs)"
    using core_team_slots [OF core] core_observer_slots [OF core]
    by (simp add: xs GetRoomSortedObserversSessionIds_def GetRoomSortedPlayerWithoutObserverSessionIds_def)
  have ne: "xs \<noteq> []" using sid by auto
  have ok: "slots_ok (slot_of w) b xs" using core xs base by (simp add: room_core_def)
  have l: "?l \<in> set xs" using last_sorted_ids [OF ne] by blast
  have lslot: "unat (slot_of w ?l) = b + length xs - 1" by (rule slots_ok_last [OF ok ne])
  have lmem: "?l \<in> set (players r @ observers r)" using l xs by (auto split: if_splits)
  obtain q where q: "CAccount w ?l = Some q" using core_member [OF core lmem] by metis
  define w' where "w' = (if ?l = sid then w else upd_acc sid (\<lambda>p. p\<lparr>pl_slot_id := slot_of w ?l\<rparr>)
      (upd_acc ?l (\<lambda>p. p\<lparr>pl_slot_id := slot_of w sid\<rparr>) w))"
  define r1 where "r1 = (if ?l = sid then r else upd_team_list (pl_team_id q) (ReorderTeamList w' ?l) r)"
  define r' where "r' = upd_team_list (pl_team_id p) (removeAll sid) r1"
  have run: "swap_with_last sid (slot_of w sid) (pl_team_id p = Team_Observer) (pl_team_id p) w r
      = (w', r', slot_of w ?l)"
    using ne q by (auto simp: swap_with_last_def ids Let_def w'_def r1_def r'_def)
  have sa: "same_accounts w w'" unfolding w'_def
    by (auto intro: same_accounts_trans [OF same_accounts_set_slot same_accounts_set_slot])
  have sl: "same_lists r r1" unfolding r1_def
    using same_lists_reorder [OF core_team_of(1) [OF core lmem q]] by simp
  have slots: "slot_of w' = (slot_of w)(?l := slot_of w sid, sid := slot_of w ?l)"
    using acc q by (auto simp: fun_eq_iff w'_def slot_of_set_slot CAccount_upd_acc)
  have core1: "room_core w' r1"
    by (rule room_core_swap [OF core sl sa l sid _ slots]) (simp add: xs)
  have ps: "set (players r1) = set (players r)" "set (observers r1) = set (observers r)"
    using same_lists_players [OF sl] sl by (auto simp: same_lists_def dest: mset_eq_setD)
  have t1: "sid \<in> set (GetTeamList r1 (pl_team_id p))" using same_lists_team [OF sl] team(1) by simp
  have m1: "sid \<in> set (players r1 @ observers r1)" using mem ps by simp
  note lists = removeAll_lists [OF core1 t1 m1 teamid]
  define ys where "ys = (if pl_team_id p = Team_Observer then observers r1 else players r1)"
  have len: "length ys = length xs"
    using same_lists_players [OF sl] sl unfolding ys_def xs
    by (auto simp: same_lists_def dest: mset_eq_length)
  have "slots_ok (slot_of w') b ys" using core1 base by (simp add: room_core_def ys_def)
  moreover have "sid \<in> set ys" using sid ps by (simp add: ys_def xs split: if_splits)
  moreover have "unat (slot_of w' sid) = b + length ys - 1" using slots lslot len by simp
  ultimately have rem: "slots_ok (slot_of w') b (removeAll sid ys)" by (rule slots_ok_remove_last)
  note away = core_disjoint(1,2) [OF core1, of sid]
  have disj: "slots_ok (slot_of w') 0 (players r1)"
    "slots_ok (slot_of w') 16 (observers r1)" using core1 by (auto simp: room_core_def)
  have "room_core w' r'" unfolding r'_def
  proof (rule core_remove [OF core1 t1 m1 teamid])
    show "slots_ok (slot_of w') 0 (removeAll sid (players r1))"
      using rem disj away \<open>sid \<in> set ys\<close> base unfolding ys_def by (cases "pl_team_id p = Team_Observer") auto
    show "slots_ok (slot_of w') 16 (removeAll sid (observers r1))"
      using rem disj away \<open>sid \<in> set ys\<close> base unfolding ys_def by (cases "pl_team_id p = Team_Observer") auto
  qed
  moreover have "set (players r') = set (players r) - {sid}" "set (observers r') = set (observers r) - {sid}"
    using lists ps by (simp_all add: r'_def)
  moreover have "rm_room_id r' = rm_room_id r" "rm_host_session_id r' = rm_host_session_id r"
    "rm_is_playing r' = rm_is_playing r" "rm_kicked r' = rm_kicked r" by (simp_all add: r'_def r1_def)
  moreover have "CRoom w' = CRoom w" "m_sessions w' = m_sessions w" by (simp_all add: w'_def)
  moreover have "slot_of w' s = slot_of w s" if s: "s \<noteq> sid" "s \<in> set xs \<longrightarrow> unat (slot_of w s) = 0" for s
  proof (cases "s = ?l")
    case True
    with s(2) l lslot have "b + length xs = 1" using ne by (cases xs) auto
    then have "length xs = 1" using ne by (cases xs) auto
    then have "xs = [s]" using l True by (cases xs) auto
    then show ?thesis using sid s by simp
  next
    case False
    with s slots show ?thesis by simp
  qed
  ultimately show thesis using that [OF run _ sa] lslot by blast
qed

section \<open>The end of a leave\<close>

lemma member_ok_cong: "CAccount w' s = CAccount w s \<Longrightarrow> member_ok w' r s = member_ok w r s"
  by (simp add: member_ok_def)

lemma room_core_cong:
  assumes "\<And>s. s \<in> set (players r @ observers r) \<Longrightarrow> CAccount w' s = CAccount w s"
  shows "room_core w' r = room_core w r"
proof -
  have s: "slot_of w' s = slot_of w s" if "s \<in> set (players r @ observers r)" for s
    using assms [OF that] by (simp add: slot_of_def)
  have "slots_ok (slot_of w') 0 (players r) = slots_ok (slot_of w) 0 (players r)"
    "slots_ok (slot_of w') 16 (observers r) = slots_ok (slot_of w) 16 (observers r)"
    using s by (auto intro!: slots_ok_cong)
  moreover have "(\<forall>s \<in> set (players r @ observers r). member_ok w' r s) = (\<forall>s \<in> set (players r @ observers r). member_ok w r s)"
    using assms member_ok_cong by blast
  ultimately show ?thesis unfolding room_core_def by argo
qed

definition kick_mark :: "u8 \<Rightarrow> u32 \<Rightarrow> Room \<Rightarrow> Room" where
  "kick_mark leave_type aid r = (if leave_type = Leave_KickedByKickVote \<or> leave_type = Leave_KickedByHost
     \<or> leave_type = Leave_KickedByGm then r\<lparr>rm_kicked := finsert aid (rm_kicked r)\<rparr> else r)"

lemma kick_mark_simps [simp]:
  "players (kick_mark t a r) = players r" "observers (kick_mark t a r) = observers r"
  "rm_host_session_id (kick_mark t a r) = rm_host_session_id r" "rm_room_id (kick_mark t a r) = rm_room_id r"
  "rm_ModeIndex (kick_mark t a r) = rm_ModeIndex r" "GetTeamList (kick_mark t a r) x = GetTeamList r x"
  "rm_neutralteam_session_ids (kick_mark t a r) = rm_neutralteam_session_ids r"
  "rm_blueteam_session_ids (kick_mark t a r) = rm_blueteam_session_ids r"
  "rm_redteam_session_ids (kick_mark t a r) = rm_redteam_session_ids r"
  by (simp_all add: kick_mark_def players_def GetTeamList_def)

lemma member_ok_kick [simp]: "member_ok w (kick_mark t a r) s = member_ok w r s"
  by (simp add: member_ok_def split: option.split)

lemma room_core_kick [simp]: "room_core w (kick_mark t a r) = room_core w r"
  by (simp add: room_core_def)

lemma set_room_simps [simp]:
  "CAccount (set_room r w) = CAccount w" "CRoom (set_room r w) = (CRoom w)(ucast (rm_room_id r) \<mapsto> r)"
  "m_sessions (set_room r w) = m_sessions w" "CRoomId (set_room r w) = CRoomId w"
  "m_roomIdGenerator (set_room r w) = m_roomIdGenerator w"
  by (simp_all add: set_room_def)

lemma finish_leave_stays:
  assumes "CAccount w sid = Some p" "players r \<noteq> []"
  shows "CRoom (finish_leave sid lt rs w r) (ucast (rm_room_id r)) = Some (kick_mark lt (acc_Index_of p) r)"
    "CAccount (finish_leave sid lt rs w r) = (CAccount w)(sid \<mapsto> reset_left p)"
proof -
  have ne: "rm_neutralteam_session_ids r \<noteq> [] \<or> rm_redteam_session_ids r \<noteq> [] \<or> rm_blueteam_session_ids r \<noteq> []"
    using assms(2) by (auto simp: players_def split: if_splits)
  then show "CRoom (finish_leave sid lt rs w r) (ucast (rm_room_id r)) = Some (kick_mark lt (acc_Index_of p) r)"
    "CAccount (finish_leave sid lt rs w r) = (CAccount w)(sid \<mapsto> reset_left p)"
    using assms(1) by (auto simp: finish_leave_def Let_def sync_defs kick_mark_def CAccount_upd_acc)
qed

section \<open>Leaving keeps the room well formed\<close>

lemma NewRemove_unfold:
  assumes "CRoom w rid = Some r" "CAccount w sid = Some p" "acc_Index_of p \<noteq> 0" "pl_in_room p"
    "pl_room_id p = ucast (rm_room_id r)"
    and m: "(if pl_team_id p \<noteq> Team_Observer \<and> rm_host_session_id r = sid then migrate_host sid (pl_slot_id p) w r
       else Inr (w, r, False, 0, pl_slot_id p)) = Inr (w1, r1, hc, prev, my_slot)"
    and s: "swap_with_last sid my_slot (pl_team_id p = Team_Observer) (pl_team_id p) w1 r1 = (w2, r2, e)"
  shows "NewRemoveRoomPlayer rid sid lt rs w
    = finish_leave sid lt rs (notify_left r2 sid hc prev e (pl_uid p) w2) r2"
  using assms(1-5) m s unfolding NewRemoveRoomPlayer_def by (simp add: Let_def)

lemma leave_slots_lemma:
  assumes room: "CRoom w rid = Some r" "rid = ucast (rm_room_id r)" and ok: "room_ok w r"
    and sid: "sid \<in> set (players r @ observers r)" and stays: "\<exists>s \<in> set (players r). s \<noteq> sid"
    and ping: "\<forall>s \<in> set (players r). ping_of w s < - 1"
  shows "\<exists>r'. CRoom (NewRemoveRoomPlayer rid sid lt rs w) rid = Some r'
    \<and> room_ok (NewRemoveRoomPlayer rid sid lt rs w) r'
    \<and> set (players r') = set (players r) - {sid} \<and> set (observers r') = set (observers r) - {sid}
    \<and> (rm_host_session_id r \<noteq> sid \<longrightarrow> rm_host_session_id r' = rm_host_session_id r)"
proof -
  have core: "room_core w r" using ok by (simp add: room_ok_def)
  obtain p where p: "CAccount w sid = Some p" "acc_Index_of p \<noteq> 0" "pl_in_room p" "pl_room_id p = ucast (rm_room_id r)"
    using core_member [OF core sid] by metis
  note obs = core_team_of(2) [OF core sid p(1)]
  have slot: "pl_slot_id p = slot_of w sid" using p(1) by (simp add: slot_of_def)
  obtain w1 r1 hc prev where
    m: "(if pl_team_id p \<noteq> Team_Observer \<and> rm_host_session_id r = sid then migrate_host sid (pl_slot_id p) w r
       else Inr (w, r, False, 0, pl_slot_id p)) = Inr (w1, r1, hc, prev, slot_of w1 sid)"
    and 1: "room_ok w1 r1" "rm_host_session_id r1 \<noteq> sid" "same_lists r r1" "same_accounts w w1"
      "rm_host_session_id r \<noteq> sid \<longrightarrow> rm_host_session_id r1 = rm_host_session_id r"
  proof (cases "pl_team_id p \<noteq> Team_Observer \<and> rm_host_session_id r = sid")
    case True
    obtain w1 r1 prev where h: "migrate_host sid (slot_of w sid) w r = Inr (w1, r1, True, prev, prev)"
      "room_ok w1 r1" "rm_host_session_id r1 \<noteq> sid" "same_lists r r1" "same_accounts w w1" "slot_of w1 sid = prev"
      using migrate_host_core [OF ok _ stays ping] True by metis
    with True slot show thesis by (intro that [of w1 r1 True prev]) simp_all
  next
    case False
    have "rm_host_session_id r \<in> set (players r)" using ok by (simp add: room_ok_def)
    then have "rm_host_session_id r \<noteq> sid" using False obs core_disjoint(1) [OF core] by auto
    with False ok slot show thesis by (intro that [of w r False 0]) auto
  qed
  have core1: "room_core w1 r1" using 1 by (simp add: room_ok_def)
  have sets1: "set (players r1) = set (players r)" "set (observers r1) = set (observers r)"
    using same_lists_players [OF 1(3)] 1(3) by (auto simp: same_lists_def dest: mset_eq_setD)
  obtain q where acc1: "CAccount w1 sid = Some q" "pl_team_id q = pl_team_id p" "acc_Index_of q = acc_Index_of p"
    using same_accounts_Some [OF 1(4) p(1)] by (auto simp: acc_Index_of_def)
  let ?xs = "if pl_team_id p = Team_Observer then observers r1 else players r1"
  have "sid \<in> set ?xs" using sid obs sets1 by auto
  then obtain w2 r2 e where
    s: "swap_with_last sid (slot_of w1 sid) (pl_team_id p = Team_Observer) (pl_team_id p) w1 r1 = (w2, r2, e)"
    and 2: "room_core w2 r2" "same_accounts w1 w2" "CRoom w2 = CRoom w1" "set (players r2) = set (players r1) - {sid}"
      "set (observers r2) = set (observers r1) - {sid}" "rm_room_id r2 = rm_room_id r1"
      "rm_host_session_id r2 = rm_host_session_id r1" "rm_is_playing r2 = rm_is_playing r1"
      "rm_kicked r2 = rm_kicked r1"
      "unat e = (if pl_team_id p = Team_Observer then 16 else 0) + length ?xs - 1" "m_sessions w2 = m_sessions w1"
    and keep: "\<forall>s. s \<noteq> sid \<and> (s \<in> set ?xs \<longrightarrow> unat (slot_of w1 s) = 0) \<longrightarrow> slot_of w2 s = slot_of w1 s"
    by (rule swap_with_last_core [OF core1 acc1(1) refl _ refl, unfolded acc1(2)]) (rule that; assumption)
  let ?w3 = "notify_left r2 sid hc prev e (pl_uid p) w2"
  let ?w4 = "NewRemoveRoomPlayer rid sid lt rs w"
  have fin: "?w4 = finish_leave sid lt rs ?w3 r2" by (rule NewRemove_unfold [OF room(1) p m s])
  obtain q' where acc2: "CAccount ?w3 sid = Some q'"
    using same_accounts_Some [OF 2(2) acc1(1)] by auto
  have ne: "players r2 \<noteq> []" using stays 2(4) sets1 by auto
  have rid2: "ucast (rm_room_id r2) = rid" using 2(6) 1(3) room(2) by (simp add: same_lists_def)
  let ?r4 = "kick_mark lt (acc_Index_of q') r2"
  have r4: "CRoom ?w4 rid = Some ?r4" using finish_leave_stays(1) [OF acc2 ne, of lt rs] rid2 fin by simp
  have acc4: "CAccount ?w4 s = CAccount w2 s" if "s \<noteq> sid" for s
    using finish_leave_stays(2) [OF acc2 ne, of lt rs] fin that by simp
  have gone: "sid \<notin> set (players r2 @ observers r2)" using 2(4,5) by simp
  have core4: "room_core ?w4 ?r4"
    using room_core_cong [of r2 ?w4 w2] acc4 gone 2(1) by (metis room_core_kick)
  have h: "rm_host_session_id r1 \<in> set (players r1)" "slot_of w1 (rm_host_session_id r1) = 0"
    using 1 by (auto simp: room_ok_def)
  then have "slot_of w2 (rm_host_session_id r1) = 0"
    using keep 1(2) by simp
  then have "slot_of ?w4 (rm_host_session_id ?r4) = 0"
    using acc4 [OF 1(2)] 2(7) by (simp add: slot_of_def)
  moreover have "rm_host_session_id ?r4 \<in> set (players ?r4)" using h 1(2) 2(4,7) by simp
  ultimately have "room_ok ?w4 ?r4" using core4 by (simp add: room_ok_def)
  moreover have "set (players ?r4) = set (players r) - {sid}" "set (observers ?r4) = set (observers r) - {sid}"
    using 2(4,5) sets1 by simp_all
  moreover have "rm_host_session_id r \<noteq> sid \<longrightarrow> rm_host_session_id ?r4 = rm_host_session_id r"
    using 1(5) 2(7) by simp
  ultimately show ?thesis using r4 by blast
qed

end
