(* ===== verification/Items.thy ===== *)
theory Items
  imports Main_Data Cache
begin

text \<open>
  Inventory, equipment and health helpers of \<open>CMainServer.h\<close>: looking up items, reserving serial
  ids, splitting an inventory into packets, what a character wears and how much health that
  gives, and the upgrade chains. The data files are a record of caches.
\<close>

section \<open>The data files\<close>

record game_data =
  CItemsInfo :: "(u32, ItemInfo) fmap"
  CSetItemsInfo :: "(u32, SetItemInfo) fmap"
  CEffectInfo :: "(u32, EffectInfo) fmap"
  CBaseUnitInfo :: "(u32, BaseUnitInfo) fmap"
  CUpgradesInfo :: "(u32, (u32, UpgradeInfo list) fmap) fmap"
  CMapsInfo :: "(u32, MapInfo) fmap"
  CRoomOptionsInfo :: "(u32, (u32, RoomOptionInfo list) fmap) fmap"
  CGradesInfo :: "(u32, GradeInfo) fmap"
  CRewardsInfo :: "(u32, RewardInfo) fmap"
  CDailyMissionInfo :: "(u32, DailyMissionInfo) fmap"
  CGachaponsInfo :: "(u32, GachaponInfo) fmap"
  CVendorItems :: "u32 fset"
  CPackagesInfo :: "(u32, (u32, PackageInfo list) fmap) fmap"
  CCollectionInfo :: "(u32, CollectionInfo) fmap"
  CDailyMissions :: "u32 list"

text \<open>A missing key gives the cache's null entry, a default object.\<close>

definition or_null :: "'v \<Rightarrow> 'k \<Rightarrow> ('k, 'v) fmap \<Rightarrow> 'v" where
  "or_null null k c = (case cache_get k c of None \<Rightarrow> null | Some v \<Rightarrow> v)"

lemma or_null_insert [simp]: "or_null n k (fmupd k v c) = v"
  by (simp add: or_null_def cache_get_def)

section \<open>Serial ids\<close>

text \<open>The field is 20 bits wide, so the test of the code for the range is always true.\<close>

definition used_serials :: "Item list \<Rightarrow> nat list" where
  "used_serials items =
     filter (\<lambda>i. i \<le> 0x100000) (map (\<lambda>item. unat (ser_id (inv_serial_info (it_item_info item)))) items)"

function lowest_from :: "nat list \<Rightarrow> nat \<Rightarrow> u32" where
  "lowest_from used i =
    (if i \<le> 0x100000 then (if i \<notin> set used then of_nat i else lowest_from used (i + 1)) else - 1)"
  by pat_completeness auto
termination by (relation "measure (\<lambda>(used, i). 0x100001 - i)") auto

definition FindLowestAvailableItemSerialInfoId :: "Item list \<Rightarrow> u32" where
  "FindLowestAvailableItemSerialInfoId inventory_items = lowest_from (used_serials inventory_items) 0"

function reserve_from :: "nat list \<Rightarrow> nat \<Rightarrow> nat \<Rightarrow> nat list \<Rightarrow> nat list" where
  "reserve_from used wanted i reserved =
    (if i \<le> 0x100000 \<and> length reserved < wanted then
       (if i \<notin> set used then reserve_from (i # used) wanted (i + 1) (reserved @ [i])
        else reserve_from used wanted (i + 1) reserved)
     else reserved)"
  by pat_completeness auto
termination by (relation "measure (\<lambda>(used, wanted, i, reserved). 0x100001 - i)") auto

declare lowest_from.simps [simp del] reserve_from.simps [simp del]

definition FindLowestAvailableSerialIds :: "Item list \<Rightarrow> nat \<Rightarrow> nat list" where
  "FindLowestAvailableSerialIds inventory_items wanted = reserve_from (used_serials inventory_items) wanted 0 []"

section \<open>Lookups in an inventory\<close>

definition item_id_of :: "Item \<Rightarrow> u32" where
  "item_id_of item = ucast (num_item_id (inv_item_number (it_item_info item)))"

definition GetPlayerItemInventory_serial :: "Item list \<Rightarrow> ItemSerialInfo \<Rightarrow> Item option" where
  "GetPlayerItemInventory_serial items serial_info =
     find (\<lambda>item. serial_data (inv_serial_info (it_item_info item)) = serial_data serial_info) items"

definition GetPlayerItemInventory_id :: "Item list \<Rightarrow> u32 \<Rightarrow> Item option" where
  "GetPlayerItemInventory_id items item_id =
     find (\<lambda>item. item_id_of item = item_id \<and> it_is_equipped item = 0) items"

definition type_of_item :: "game_data \<Rightarrow> u32 \<Rightarrow> u32" where
  "type_of_item g i = item_Type (or_null new_ItemInfo i (CItemsInfo g))"

definition GetPlayerItemInventory_type :: "game_data \<Rightarrow> Item list \<Rightarrow> u32 \<Rightarrow> u8 \<Rightarrow> Item option" where
  "GetPlayerItemInventory_type g items item_type char_id =
     find (\<lambda>item. if it_character_id item = char_id \<and> it_is_equipped item = 0
                  then type_of_item g (item_id_of item) = item_type else False) items"

definition GetPlayerEquippedItem :: "game_data \<Rightarrow> Item list \<Rightarrow> u32 \<Rightarrow> u8 \<Rightarrow> Item option" where
  "GetPlayerEquippedItem g items item_type char_id =
     find (\<lambda>item. if it_character_id item = char_id \<and> it_is_equipped item \<noteq> 0
                  then type_of_item g (item_id_of item) = item_type else False) items"

section \<open>Views of an inventory\<close>

definition stocked :: "Item \<Rightarrow> InventoryItemInfo" where
  "stocked item = (it_item_info item)
     \<lparr>inv_item_number := (inv_item_number (it_item_info item))\<lparr>num_stock := ucast (it_stock item)\<rparr>\<rparr>"

definition TransformEquippedItems ::
  "Item list \<Rightarrow> (u8, InventoryItemInfo list) fmap \<Rightarrow> (u8, InventoryItemInfo list) fmap" where
  "TransformEquippedItems items equipped_items =
     fold (\<lambda>item m. if it_is_equipped item = 1
        then fmupd (it_character_id item)
               ((case fmlookup m (it_character_id item) of None \<Rightarrow> [] | Some xs \<Rightarrow> xs) @ [stocked item]) m
        else m) items equipped_items"

definition ItemExpire_Unlimited :: u32 where "ItemExpire_Unlimited = 0"

definition TransformItems :: "u32 \<Rightarrow> Item list \<Rightarrow> Item list \<Rightarrow> Item list" where
  "TransformItems now items new_items =
     fold (\<lambda>item out. if it_is_equipped item = 0 then out @ [item]
        else if inv_expire_date (it_item_info item) \<noteq> ItemExpire_Unlimited
                \<and> inv_expire_date (it_item_info item) \<le> now
        then out @ [item\<lparr>it_is_equipped := 0\<rparr>] else out) items new_items"

definition GetTransformStockItems :: "Item list \<Rightarrow> u32 \<Rightarrow> u32 \<Rightarrow> InventoryItemInfo list" where
  "GetTransformStockItems items fragment_index fragment_max_size =
    (let start_index = fragment_index * fragment_max_size;
         end_index = min (start_index + fragment_max_size) (of_nat (length items))
     in map (\<lambda>i. stocked (items ! i)) [unat start_index..<unat end_index])"

record EquipItemInfo =
  eqi_item_number :: EquipItemNumber
  eqi_expire_date :: u32
  eqi_serial_info :: ItemSerialInfo
  eqi_repair :: u16
  eqi_energy :: u16

definition new_EquipItemInfo :: "InventoryItemInfo \<Rightarrow> EquipItemInfo" where
  "new_EquipItemInfo i = \<lparr>
     eqi_item_number = \<lparr>eqn_item_type = 0, eqn_item_id = num_item_id (inv_item_number i)\<rparr>,
     eqi_expire_date = inv_expire_date i, eqi_serial_info = serial_of_data (serial_data (inv_serial_info i)),
     eqi_repair = inv_repair i, eqi_energy = inv_energy i\<rparr>"

definition GetTransformEquippedItems :: "game_data \<Rightarrow> InventoryItemInfo list \<Rightarrow> EquipItemInfo list" where
  "GetTransformEquippedItems g items = map (\<lambda>i.
     let e = new_EquipItemInfo i
     in e\<lparr>eqi_item_number := (eqi_item_number e)
            \<lparr>eqn_item_type := ucast (type_of_item g (ucast (eqn_item_id (eqi_item_number e))))\<rparr>\<rparr>) items"

section \<open>What a character wears\<close>

definition null_Item :: Item where
  "null_Item = new_Item (new_InventoryItemInfo (item_number_of_data 0) 0 (new_ItemSerialInfo 0 0 0 0 0) 0 0) 0 0 0 0"

definition GetItemByType :: "game_data \<Rightarrow> Item list \<Rightarrow> u32 \<Rightarrow> Item" where
  "GetItemByType g equipped_items item_type =
    (case find (\<lambda>item. type_of_item g (item_id_of item) = item_type) equipped_items of
       Some item \<Rightarrow> item | None \<Rightarrow> null_Item)"

definition GetEquippedInventoryItems :: "Item list \<Rightarrow> u8 \<Rightarrow> Item list" where
  "GetEquippedInventoryItems inventory_items selected_character =
     filter (\<lambda>it. it_is_equipped it = 1 \<and> it_character_id it = selected_character) inventory_items"

definition GetCharacterBaseHealth :: "game_data \<Rightarrow> u8 \<Rightarrow> u32" where
  "GetCharacterBaseHealth g character_type =
    (let base_info = or_null new_BaseUnitInfo (ucast character_type) (CBaseUnitInfo g)
     in if unit_Type base_info = ucast character_type \<and> unit_Life base_info \<noteq> 0
        then unit_Life base_info else 1000)"

definition GetEffectHealthBonus :: "game_data \<Rightarrow> u32 \<Rightarrow> u32" where
  "GetEffectHealthBonus g eff =
    (if eff = 0 \<or> eff = - 1 then 0
     else let effect_info = or_null new_EffectInfo eff (CEffectInfo g)
       in if effect_id effect_info = 0 \<or> effect_key effect_info \<noteq> 3 then 0 else effect_valueA effect_info)"

definition GetItemHealthBonus :: "game_data \<Rightarrow> u32 \<Rightarrow> u32" where
  "GetItemHealthBonus g item_id =
    (if item_id = 0 then 0
     else let item_info = or_null new_ItemInfo item_id (CItemsInfo g)
       in if item_Id item_info = 0 then 0
          else GetEffectHealthBonus g (item_EffectId1 item_info) + GetEffectHealthBonus g (item_EffectId2 item_info)
             + GetEffectHealthBonus g (item_EffectId3 item_info))"

definition GetSetSlotEffectId :: "SetItemInfo \<Rightarrow> u8 \<Rightarrow> u32" where
  "GetSetSlotEffectId set_info item_type =
    (if item_type = 0 then set_Hair set_info else if item_type = 1 then set_Face set_info
     else if item_type = 2 then set_Upper set_info else if item_type = 3 then set_Under set_info
     else if item_type = 4 then set_Pants set_info else if item_type = 5 then set_Arms set_info
     else if item_type = 6 then set_Boots set_info else if item_type = 7 then set_AccessoryA set_info
     else if item_type = 8 then set_AccessoryB set_info else if item_type = 9 then set_AccessoryC set_info
     else 0)"

definition DoesSetOccupySlot :: "u32 \<Rightarrow> bool" where
  "DoesSetOccupySlot set_field_value \<longleftrightarrow> set_field_value \<noteq> - 1"

definition ResolveEquippedCostumeItemId :: "u32 \<Rightarrow> u32 \<Rightarrow> u32 \<Rightarrow> u32" where
  "ResolveEquippedCostumeItemId direct_item_id set_field_value set_item_id =
    (if direct_item_id \<noteq> 0 then direct_item_id
     else if set_item_id \<noteq> 0 \<and> DoesSetOccupySlot set_field_value then set_item_id else 0)"

definition GetEquippedHealthBonus :: "game_data \<Rightarrow> Item list \<Rightarrow> u8 \<Rightarrow> u32" where
  "GetEquippedHealthBonus g inventory_items selected_character =
    (let equipped = GetEquippedInventoryItems inventory_items selected_character;
         set_item_id = item_id_of (GetItemByType g equipped 25);
         set_info = or_null new_SetItemInfo set_item_id (CSetItemsInfo g)
     in fold (\<lambda>item_type bonus.
          let item_id = item_id_of (GetItemByType g equipped (ucast item_type))
          in if item_id \<noteq> 0 then bonus + GetItemHealthBonus g item_id
             else if set_Id set_info \<noteq> 0 \<and> DoesSetOccupySlot (GetSetSlotEffectId set_info item_type)
             then bonus + GetEffectHealthBonus g (GetSetSlotEffectId set_info item_type)
             else bonus) [0, 1, 2, 3, 4, 5, 6, 7, 8, 9 :: u8] 0)"

definition GetPlayerMaxHealth :: "game_data \<Rightarrow> Item list \<Rightarrow> u8 \<Rightarrow> u32" where
  "GetPlayerMaxHealth g inventory_items selected_character =
     max 1 (GetCharacterBaseHealth g selected_character + GetEquippedHealthBonus g inventory_items selected_character)"

definition RefreshPlayerHealthCache :: "game_data \<Rightarrow> bool \<Rightarrow> Player \<Rightarrow> Player" where
  "RefreshPlayerHealthCache g reset_current player =
    (let player = player\<lparr>pl_max_health := GetPlayerMaxHealth g (pl_inventory_items player)
                          (ucast (acc_SelectedCharacter (pl_acc_info player)))\<rparr>
     in if reset_current \<or> pl_current_health player = 0 \<or> pl_max_health player < pl_current_health player
        then player\<lparr>pl_current_health := pl_max_health player\<rparr> else player)"

definition GetEquippedItems :: "game_data \<Rightarrow> Player \<Rightarrow> EquipItemNumber list" where
  "GetEquippedItems g acc =
    (let sel_char = ucast (acc_SelectedCharacter (pl_acc_info acc));
         equipped = GetEquippedInventoryItems (pl_inventory_items acc) sel_char;
         worn = (\<lambda>type. item_id_of (GetItemByType g equipped type));
         setinfo = or_null new_SetItemInfo (worn 25) (CSetItemsInfo g);
         fallback = (\<lambda>direct field. ResolveEquippedCostumeItemId direct field (set_Id setinfo))
     in [new_EquipItemNumber (fallback (worn 0) (set_Hair setinfo)) 0,
         new_EquipItemNumber (fallback (worn 1) (set_Face setinfo)) 1,
         new_EquipItemNumber (fallback (worn 2) (set_Upper setinfo)) 2,
         new_EquipItemNumber (fallback (worn 3) (set_Under setinfo)) 3,
         new_EquipItemNumber (fallback (worn 4) (set_Pants setinfo)) 4,
         new_EquipItemNumber (fallback (worn 5) (set_Arms setinfo)) 5,
         new_EquipItemNumber (fallback (worn 6) (set_Boots setinfo)) 6,
         new_EquipItemNumber (fallback (worn 7) (set_AccessoryA setinfo)) 7,
         new_EquipItemNumber (fallback (worn 8) (set_AccessoryB setinfo)) 8,
         new_EquipItemNumber (fallback (worn 9) (set_AccessoryC setinfo)) 9,
         new_EquipItemNumber (worn 10) 10, new_EquipItemNumber (worn 11) 11,
         new_EquipItemNumber (worn 12) 12, new_EquipItemNumber (worn 13) 13,
         new_EquipItemNumber (worn 14) 14, new_EquipItemNumber (worn 15) 15,
         new_EquipItemNumber (worn 16) 16])"

section \<open>Upgrade chains\<close>

text \<open>The outer map is walked in the order of the hash table, the argument \<open>order\<close>.\<close>

definition GetUpgradeCollectionInfoCache ::
  "u32 list \<Rightarrow> game_data \<Rightarrow> u32 \<Rightarrow> u32 \<Rightarrow> UpgradeInfo list" where
  "GetUpgradeCollectionInfoCache order g upgrade_type item_id =
    (let found = (\<lambda>key. case get2 key upgrade_type (CUpgradesInfo g) of
            None \<Rightarrow> None
          | Some vec \<Rightarrow> if \<exists>ui \<in> set vec. upg_ItemId ui = item_id then Some vec else None)
     in case found item_id of
          Some vec \<Rightarrow> vec
        | None \<Rightarrow> (case List.map_filter found (filter (\<lambda>key. key \<noteq> item_id) order) of [] \<Rightarrow> [] | vec # _ \<Rightarrow> vec))"

primrec GetUpgradeLevel_from :: "u32 \<Rightarrow> u32 \<Rightarrow> UpgradeInfo list \<Rightarrow> u32" where
  "GetUpgradeLevel_from item_id i [] = 0"
| "GetUpgradeLevel_from item_id i (u # us) =
    (if upg_ItemId u = item_id then i else GetUpgradeLevel_from item_id (i + 1) us)"

definition GetUpgradeLevel :: "UpgradeInfo list \<Rightarrow> u32 \<Rightarrow> u32" where
  "GetUpgradeLevel upgrade_collection item_id = GetUpgradeLevel_from item_id 0 upgrade_collection"

fun GetUpgradeInfoNext :: "UpgradeInfo list \<Rightarrow> u32 \<Rightarrow> UpgradeInfo" where
  "GetUpgradeInfoNext (u # v # us) item_id =
    (if upg_ItemId u = item_id then v else GetUpgradeInfoNext (v # us) item_id)"
| "GetUpgradeInfoNext us item_id = new_UpgradeInfo"

fun GetUpgradeInfoPrev :: "UpgradeInfo list \<Rightarrow> u32 \<Rightarrow> UpgradeInfo" where
  "GetUpgradeInfoPrev (u # v # us) item_id =
    (if upg_ItemId v = item_id then u else GetUpgradeInfoPrev (v # us) item_id)"
| "GetUpgradeInfoPrev us item_id = new_UpgradeInfo"

section \<open>Reserving serial ids\<close>

lemma lowest_from_spec:
  assumes "j \<notin> set used" "i \<le> j" "j \<le> 0x100000"
  shows "\<exists>k. lowest_from used i = of_nat k \<and> i \<le> k \<and> k \<le> j \<and> k \<notin> set used \<and> (\<forall>m. i \<le> m \<and> m < k \<longrightarrow> m \<in> set used)"
  using assms
proof (induction used i rule: lowest_from.induct)
  case (1 used i)
  show ?case
  proof (cases "i \<in> set used")
    case False
    with 1 show ?thesis by (intro exI [of _ i]) (auto simp: lowest_from.simps [of used i])
  next
    case True
    then have "i + 1 \<le> j" using 1 by (metis Suc_eq_plus1 Suc_leI le_neq_implies_less)
    with 1 True obtain k where "lowest_from used (i + 1) = of_nat k" "i + 1 \<le> k" "k \<le> j" "k \<notin> set used"
      "\<forall>m. i + 1 \<le> m \<and> m < k \<longrightarrow> m \<in> set used" by auto
    with True 1 show ?thesis
      by (intro exI [of _ k]) (auto simp: lowest_from.simps [of used i] le_eq_less_or_eq [of i])
  qed
qed

lemma reserve_from_take:
  "reserve_from used n i res
     = res @ take (n - length res) (filter (\<lambda>k. k \<notin> set used) [i..<0x100001])"
proof (induction used n i res rule: reserve_from.induct)
  case (1 used n i res)
  show ?case
  proof (cases "i \<le> 0x100000 \<and> length res < n")
    case True
    then have up: "[i..<0x100001] = i # [i + 1..<0x100001]" by (simp add: upt_conv_Cons)
    have skip: "filter (\<lambda>k. k \<notin> set (i # used)) [i + 1..<0x100001] = filter (\<lambda>k. k \<notin> set used) [i + 1..<0x100001]"
      by (rule filter_cong) auto
    obtain m where m: "n - length res = Suc m" "n - Suc (length res) = m" using True by (metis Suc_diff_Suc)
    show ?thesis
    proof (cases "i \<in> set used")
      case False
      with True 1(1) m show ?thesis
        by (simp only: reserve_from.simps [of used n i res] up skip) simp
    next
      case u: True
      with True 1(2) show ?thesis
        by (simp only: reserve_from.simps [of used n i res] up) simp
    qed
  next
    case False
    then show ?thesis by (auto simp: reserve_from.simps [of used n i res] not_le)
  qed
qed

lemma used_serials_bound: "i \<in> set (used_serials items) \<Longrightarrow> i < 2 ^ 20"
proof -
  have "unat (x :: 20 word) < 2 ^ 20" for x using unsigned_less [of x] by simp
  then show "i \<in> set (used_serials items) \<Longrightarrow> i < 2 ^ 20" by (auto simp: used_serials_def)
qed

lemma set_used_serials: "set (used_serials items) = (\<lambda>item. unat (ser_id (inv_serial_info (it_item_info item)))) ` set items"
proof -
  have "unat (x :: 20 word) < 2 ^ 20" for x using unsigned_less [of x] by simp
  then have "unat (x :: 20 word) \<le> 0x100000" for x by (simp add: less_imp_le)
  then show ?thesis by (auto simp: used_serials_def)
qed

lemma free_serials:
  assumes "length items + n \<le> 2 ^ 20"
  shows "n \<le> length (filter (\<lambda>k. k \<notin> set (used_serials items)) [0..<2 ^ 20])"
proof -
  have "length (filter (\<lambda>k. k \<notin> set (used_serials items)) [0..<2 ^ 20]) = card ({0..<2 ^ 20} - set (used_serials items))"
    by (subst distinct_card [symmetric]) (auto intro!: arg_cong [where f = card])
  also have "\<dots> \<ge> 2 ^ 20 - card (set (used_serials items))"
    using diff_card_le_card_Diff [of "set (used_serials items)" "{0..<2 ^ 20}"] by simp
  also have "card (set (used_serials items)) \<le> length items"
    unfolding set_used_serials using card_image_le [of "set items"] card_length [of items] le_trans by blast
  ultimately show ?thesis using assms by linarith
qed

section \<open>Properties\<close>

text \<open>
  A reservation of serial ids takes the lowest unused ones in ascending order, whatever
  the inventory holds.
\<close>

theorem reserved_serials_are_lowest:
  "FindLowestAvailableSerialIds items n
     = take n (filter (\<lambda>i. i \<notin> (\<lambda>item. unat (ser_id (inv_serial_info (it_item_info item)))) ` set items) [0..<0x100001])"
  by (simp add: FindLowestAvailableSerialIds_def reserve_from_take set_used_serials)

text \<open>
  With fewer than \<open>2 ^ 20\<close> items, the new serial id fits its 20-bit field and no item of the
  inventory has it; with all \<open>2 ^ 20\<close> ids taken it truncates to an id that is in use.
\<close>

theorem new_serial_is_fresh:
  "(length items < 2 ^ 20 \<longrightarrow>
      FindLowestAvailableItemSerialInfoId items < 0x100000
    \<and> (\<forall>item \<in> set items. ser_id (inv_serial_info (it_item_info item))
         \<noteq> ucast (FindLowestAvailableItemSerialInfoId items)))
   \<and> (set (used_serials items) = {0..<2 ^ 20} \<longrightarrow>
      FindLowestAvailableItemSerialInfoId items = 0x100000
    \<and> (ucast (FindLowestAvailableItemSerialInfoId items) :: 20 word) = 0)"
proof (intro conjI impI)
  assume len: "length items < 2 ^ 20"
  let ?free = "filter (\<lambda>k. k \<notin> set (used_serials items)) [0..<2 ^ 20]"
  have "?free \<noteq> []" using free_serials [of items 1] len by auto
  then obtain j where "j \<in> set ?free" by (meson list.set_sel(1))
  then have j: "j < 2 ^ 20" "j \<notin> set (used_serials items)" by auto
  obtain k where k: "lowest_from (used_serials items) 0 = of_nat k" "k \<le> j" "k \<notin> set (used_serials items)"
    using lowest_from_spec [OF j(2), of 0] j(1) by auto
  have kb: "k < 2 ^ 20" using k(2) j(1) by simp
  then have u: "unat (of_nat k :: u32) = k" by (simp add: unsigned_of_nat take_bit_nat_eq_self)
  show "FindLowestAvailableItemSerialInfoId items < 0x100000"
    using kb u by (simp add: FindLowestAvailableItemSerialInfoId_def k(1) word_less_nat_alt)
  have "unat (ucast (of_nat k :: u32) :: 20 word) = k"
    using kb by (simp add: unsigned_ucast_eq u take_bit_nat_eq_self)
  then show "\<forall>item \<in> set items. ser_id (inv_serial_info (it_item_info item)) \<noteq> ucast (FindLowestAvailableItemSerialInfoId items)"
    using k(3) unfolding set_used_serials FindLowestAvailableItemSerialInfoId_def k(1) by (metis imageI)
next
  assume all: "set (used_serials items) = {0..<2 ^ 20}"
  then have "0x100000 \<notin> set (used_serials items)" by simp
  from lowest_from_spec [OF this, of 0] obtain k where k: "lowest_from (used_serials items) 0 = of_nat k"
    "k \<le> 0x100000" "k \<notin> set (used_serials items)" by auto
  with all have "k = 0x100000" by simp
  with k show "FindLowestAvailableItemSerialInfoId items = 0x100000"
    by (simp add: FindLowestAvailableItemSerialInfoId_def)
  then show "(ucast (FindLowestAvailableItemSerialInfoId items) :: 20 word) = 0" by simp
qed

theorem new_serial_is_fresh_witness:
  "ser_id (inv_serial_info (it_item_info null_Item)) \<noteq> ucast (FindLowestAvailableItemSerialInfoId [null_Item])"
  using new_serial_is_fresh [of "[null_Item]"] by simp

lemma fragment_lower:
  assumes "k * sz + sz < 2 ^ 32" "length items < 2 ^ 32"
  shows "GetTransformStockItems items (of_nat k) (of_nat sz)
     = map (\<lambda>i. stocked (items ! i)) [k * sz..<min (k * sz + sz) (length items)]"
proof -
  have "of_nat k * of_nat sz = (of_nat (k * sz) :: u32)" by simp
  moreover have small: "unat (of_nat a :: u32) = a" if "a < 2 ^ 32" for a
    using that by (simp add: unsigned_of_nat take_bit_nat_eq_self)
  have "unat (of_nat (k * sz) :: u32) = k * sz" "unat (of_nat (k * sz + sz) :: u32) = k * sz + sz"
    "unat (of_nat (length items) :: u32) = length items"
    by (rule small, use assms in simp)+
  moreover from this have "unat (min (of_nat (k * sz + sz)) (of_nat (length items) :: u32)) = min (k * sz + sz) (length items)"
    by (simp only: min_def word_le_nat_alt split: if_splits) simp
  ultimately show ?thesis by (simp add: GetTransformStockItems_def Let_def)
qed

lemma upt_fragment: "[m..<min a n] @ [a..<min b n] = [m..<min b n]" if "m \<le> a" "a \<le> b" for m a b n :: nat
proof (cases "a \<le> n")
  case True
  then have "a \<le> min b n" using that by simp
  then show ?thesis using that True upt_add_eq_append [of m a "min b n - a"] by (simp add: min_def)
qed (use that in \<open>simp add: min_def\<close>)

text \<open>
  Sent in fragments of a given size, the inventory arrives complete, in order and once:
  the fragments put together are the items with their stock filled in.
\<close>

theorem stock_fragments_partition:
  assumes "length items \<le> m * sz" "m * sz < 2 ^ 32"
  shows "concat (map (\<lambda>k. GetTransformStockItems items (of_nat k) (of_nat sz)) [0..<m]) = map stocked items"
proof -
  have len: "length items < 2 ^ 32" using assms by simp
  have "concat (map (\<lambda>k. GetTransformStockItems items (of_nat k) (of_nat sz)) [0..<j])
      = map (\<lambda>i. stocked (items ! i)) [0..<min (j * sz) (length items)]" if "j \<le> m" for j
    using that
  proof (induction j)
    case (Suc j)
    have "Suc j * sz \<le> m * sz" using Suc.prems by (rule mult_right_mono) simp
    then have "j * sz + sz < 2 ^ 32" using assms(2) by simp
    note f = fragment_lower [OF this len]
    have "[0..<min (j * sz) (length items)] @ [j * sz..<min (j * sz + sz) (length items)] = [0..<min (Suc j * sz) (length items)]"
      using upt_fragment [of 0 "j * sz" "j * sz + sz" "length items"] by (simp add: add.commute)
    with Suc f show ?case by (simp only: upt_Suc_append [OF le0] map_append concat_append list.map concat.simps append_Nil2
        map_append [symmetric])
  qed simp
  from this [of m] have "concat (map (\<lambda>k. GetTransformStockItems items (of_nat k) (of_nat sz)) [0..<m])
      = map (\<lambda>i. stocked (items ! i)) [0..<length items]" using assms(1) by (simp add: min_absorb2)
  also have "\<dots> = map stocked items" by (rule nth_equalityI) simp_all
  finally show ?thesis .
qed

theorem stock_fragments_partition_witness:
  "concat (map (\<lambda>k. GetTransformStockItems (replicate 3 null_Item) (of_nat k) (of_nat 2)) [0..<2])
     = map stocked (replicate 3 null_Item)"
  by (rule stock_fragments_partition) simp_all

text \<open>
  After a health refresh the maximum is what the base health and the worn items give, at
  least 1, the current health is between 1 and it, and full when a reset was asked for; a living
  player within the maximum keeps the health they have.
\<close>

theorem refresh_health_bounds:
  "let q = RefreshPlayerHealthCache g reset p
   in pl_max_health q = GetPlayerMaxHealth g (pl_inventory_items p) (ucast (acc_SelectedCharacter (pl_acc_info p)))
    \<and> 1 \<le> pl_current_health q \<and> pl_current_health q \<le> pl_max_health q
    \<and> pl_current_health q =
        (if reset \<or> pl_current_health p = 0 \<or> pl_max_health q < pl_current_health p then pl_max_health q
         else pl_current_health p)"
proof -
  have "1 \<le> GetPlayerMaxHealth g xs c" for xs c by (simp add: GetPlayerMaxHealth_def)
  moreover have "1 \<le> x" if "x \<noteq> 0" for x :: u32 using that by (simp add: word_le_nat_alt Suc_le_eq word_gt_0 unat_gt_0)
  ultimately show ?thesis by (auto simp: RefreshPlayerHealthCache_def Let_def not_less)
qed

end
