(* ===== verification/Selection.thy ===== *)
theory Selection
  imports Items Rooms
begin

text \<open>
  Random choices of the main server: the weighted draw \<open>ExtractIndex\<close> behind packages and
  gachapons, the draw of a boss reward and of a random map. \<open>CustomGen(min, max)\<close> is a standard
  library generator: an argument \<open>rng\<close> that returns a number and the next generator state, of
  which the properties assume only that the number lies between its bounds. Maps of the code are
  walked in the order of their hash table, so a walk is over a list.
\<close>

type_synonym 'g rng = "u32 \<Rightarrow> u32 \<Rightarrow> 'g \<Rightarrow> u32 \<times> 'g"

definition in_range :: "'g rng \<Rightarrow> bool" where
  "in_range rng \<longleftrightarrow> (\<forall>lo hi s. lo \<le> hi \<longrightarrow> lo \<le> fst (rng lo hi s) \<and> fst (rng lo hi s) \<le> hi)"

section \<open>The weighted draw\<close>

definition total_weight :: "u32 list \<Rightarrow> u32" where
  "total_weight ws = foldl (+) 0 ws"

primrec draw_index :: "u32 \<Rightarrow> u32 \<Rightarrow> nat \<Rightarrow> u32 list \<Rightarrow> nat option" where
  "draw_index r acc idx [] = None"
| "draw_index r acc idx (w # ws) =
    (let acc = acc + w in if r < acc then Some idx else draw_index r acc (idx + 1) ws)"

definition ExtractIndex :: "'g rng \<Rightarrow> u32 list \<Rightarrow> 'g \<Rightarrow> nat option \<times> 'g" where
  "ExtractIndex rng ws s =
    (if ws = [] then (None, s)
     else let total = total_weight ws in
       if total = 0 then (None, s)
       else case rng 0 (total - 1) s of (r, s') \<Rightarrow> (draw_index r 0 0 ws, s'))"

primrec extract_groups :: "'g rng \<Rightarrow> ('e \<Rightarrow> u32) \<Rightarrow> 'e list list \<Rightarrow> 'g \<Rightarrow> 'e list \<times> 'g" where
  "extract_groups rng weight [] s = ([], s)"
| "extract_groups rng weight (g # gs) s =
    (case ExtractIndex rng (map weight g) s of
       (idx, s) \<Rightarrow> (case extract_groups rng weight gs s of
         (out, s) \<Rightarrow> ((case idx of None \<Rightarrow> out | Some i \<Rightarrow> g ! i # out), s)))"

definition ExtractPackageItemsWon :: "'g rng \<Rightarrow> PackageInfo list list \<Rightarrow> 'g \<Rightarrow> PackageInfo list \<times> 'g" where
  "ExtractPackageItemsWon rng package_info s = extract_groups rng pkg_Probability package_info s"

definition ExtractGachaponItemsWon ::
  "'g rng \<Rightarrow> GachaponPackageItem list list \<Rightarrow> u32 \<Rightarrow> 'g \<Rightarrow> GachaponPackageItem list \<times> bool \<times> 'g" where
  "ExtractGachaponItemsWon rng gachapons coupon_chance s =
    (case extract_groups rng gpi_Probability gachapons s of
       (out, s) \<Rightarrow> (case rng 0 100 s of (r, s) \<Rightarrow> (out, r < coupon_chance, s)))"

definition Rarity_Rare :: u32 where "Rarity_Rare = 1"

definition ExtractGachaponRareItem ::
  "'g rng \<Rightarrow> GachaponPackageItem list list \<Rightarrow> 'g \<Rightarrow> GachaponPackageItem option \<times> 'g" where
  "ExtractGachaponRareItem rng gachapons s =
    (let rare_items = filter (\<lambda>item. gpi_ItemType item = Rarity_Rare) (concat gachapons)
     in if rare_items = [] then (None, s)
        else case ExtractIndex rng (map gpi_Probability rare_items) s of
          (Some idx, s) \<Rightarrow> (Some (rare_items ! idx), s)
        | (None, s) \<Rightarrow> (Some (rare_items ! 0), s))"

section \<open>The reward of a boss battle\<close>

definition boss_rewards :: "(u32 \<times> u32) list" where
  "boss_rewards = [(4801002, 50), (4801001, 35), (4801000, 10), (4801003, 5)]"

primrec boss_reward_loop :: "u32 \<Rightarrow> u32 \<Rightarrow> (u32 \<times> u32) list \<Rightarrow> u32 option" where
  "boss_reward_loop random_value cumulative [] = None"
| "boss_reward_loop random_value cumulative (rw # rws) =
    (let cumulative = cumulative + snd rw
     in if random_value \<le> cumulative then Some (fst rw) else boss_reward_loop random_value cumulative rws)"

definition get_random_boss_reward :: "'g rng \<Rightarrow> (u32 \<times> u32) list \<Rightarrow> 'g \<Rightarrow> u32 \<times> 'g" where
  "get_random_boss_reward rng order s =
    (case rng 1 (total_weight (map snd order)) s of
       (random_value, s) \<Rightarrow>
         (case boss_reward_loop random_value 0 order of Some i \<Rightarrow> i | None \<Rightarrow> fst (hd order), s))"

section \<open>A random map\<close>

definition Map_Random :: u32 where "Map_Random = 0"

definition IsMapAvailableForMode :: "MapInfo \<Rightarrow> u8 \<Rightarrow> bool" where
  "IsMapAvailableForMode m mode =
    (if mode = Mode_TeamDeathMatch then map_tdm m else if mode = Mode_FreeForAll then map_ffa m
     else if mode = Mode_ItemMatch then map_itm m else if mode = Mode_CaptureTheBattery then map_ctm m
     else if mode = Mode_CloseCombat then map_cim m else if mode = Mode_Elimination then map_sab m
     else if mode = Mode_SuperItemMatch then map_itm m \<or> map_mock m
     else if mode = Mode_ZombieMode then map_zsm m else if mode = Mode_ArmsRace then map_grm m
     else if mode = Mode_Scrimmage then map_mock m else if mode = Mode_BombBattle then map_bmb m
     else if mode = Mode_BossBattle then map_pve m
     else if mode = Mode_CLAN_CaptureTheBattery then map_clan_ctf m
     else if mode = Mode_CLAN_Elimination then map_clan_sab m
     else if mode = Mode_CLAN_TeamDeathMatch then map_clan_tdm m
     else if mode = Mode_CLAN_BombBattle then map_clan_bmb m
     else if mode = Mode_CLAN_Random then map_clan_ctf m \<or> map_clan_sab m \<or> map_clan_tdm m \<or> map_clan_bmb m
     else False)"

definition random_map_pool :: "(u32 \<times> MapInfo) list \<Rightarrow> u8 \<Rightarrow> u32 \<Rightarrow> u8 list" where
  "random_map_pool maps mode max_players =
     map (\<lambda>(map_id, _). ucast map_id)
       (filter (\<lambda>(map_id, m). map_id \<noteq> Map_Random \<and> IsMapAvailableForMode m mode
          \<and> \<not> (max_players \<noteq> 0 \<and> map_MaxUsers m \<noteq> 0 \<and> map_MaxUsers m < max_players)) maps)"

text \<open>\<open>dist(gen)\<close> over the indices of the pool is the argument \<open>dist\<close>.\<close>

definition GetRandomMapIndexForMode ::
  "(nat \<Rightarrow> 'g \<Rightarrow> nat \<times> 'g) \<Rightarrow> (u32 \<times> MapInfo) list \<Rightarrow> u8 \<Rightarrow> u32 \<Rightarrow> 'g \<Rightarrow> u8 option \<times> 'g" where
  "GetRandomMapIndexForMode dist maps mode max_players s =
    (let pool = random_map_pool maps mode max_players
     in if pool = [] then (None, s)
        else case dist (length pool - 1) s of (i, s) \<Rightarrow> (Some (pool ! i), s))"

definition GetRoomOptionInfoByTypeCache :: "(u32, RoomOptionInfo list) fmap \<Rightarrow> u32 \<Rightarrow> u32 \<Rightarrow> RoomOptionInfo" where
  "GetRoomOptionInfoByTypeCache infos type data =
    (case cache_get type infos of
       None \<Rightarrow> new_RoomOptionInfo
     | Some os \<Rightarrow> (case find (\<lambda>o'. ropt_Data o' = data) os of None \<Rightarrow> new_RoomOptionInfo | Some o' \<Rightarrow> o'))"

section \<open>Tickets\<close>

text \<open>The sums of the loop do not wrap while the total of the weights fits 32 bits.\<close>

lemma unat_foldl:
  "unat a + sum_list (map unat ws) < 2 ^ 32 \<Longrightarrow> unat (foldl (+) (a :: u32) ws) = unat a + sum_list (map unat ws)"
proof (induction ws arbitrary: a)
  case (Cons w ws)
  then have "unat (a + w) = unat a + unat w" by (subst unat_plus_if') simp
  with Cons show ?case by simp
qed simp

lemma draw_index_tickets:
  assumes "unat acc + sum_list (map unat ws) < 2 ^ 32"
  shows "draw_index r acc k ws = Some (k + i) \<and> i < length ws
    \<longleftrightarrow> i < length ws \<and> unat r < unat acc + sum_list (map unat (take (Suc i) ws))
       \<and> (0 < i \<longrightarrow> unat acc + sum_list (map unat (take i ws)) \<le> unat r)"
  using assms
proof (induction ws arbitrary: acc k i)
  case (Cons w ws)
  have a: "unat (acc + w) = unat acc + unat w" using Cons.prems by (subst unat_plus_if') simp
  have IH: "draw_index r (acc + w) (k + 1) ws = Some (k + 1 + j) \<and> j < length ws
    \<longleftrightarrow> j < length ws \<and> unat r < unat acc + unat w + sum_list (map unat (take (Suc j) ws))
       \<and> (0 < j \<longrightarrow> unat acc + unat w + sum_list (map unat (take j ws)) \<le> unat r)" for j
    using Cons.IH [of "acc + w" "k + 1" j] Cons.prems a by simp
  have ge: "draw_index r x m ys = Some n \<Longrightarrow> m \<le> n" for x m ys n
    by (induction ys arbitrary: x m) (auto simp: Let_def split: if_splits dest: Suc_leD)
  show ?case
  proof (cases i)
    case 0
    have "draw_index r (acc + w) (k + 1) ws \<noteq> Some k" using ge by fastforce
    with 0 show ?thesis by (simp add: Let_def word_less_nat_alt a)
  next
    case (Suc j)
    have mono: "unat acc + unat w \<le> unat acc + unat w + sum_list (map unat (take j ws))" by simp
    show ?thesis
    proof (cases "unat r < unat acc + unat w")
      case True
      then show ?thesis using Suc by (simp add: Let_def word_less_nat_alt a)
    next
      case False
      then show ?thesis using IH [of j] Suc by (auto simp: Let_def word_less_nat_alt a)
    qed
  qed
qed simp

lemma card_words_between:
  assumes "a + b \<le> 2 ^ 32"
  shows "card {r :: u32. a \<le> unat r \<and> unat r < a + b} = b"
proof -
  have "bij_betw unat {r :: u32. a \<le> unat r \<and> unat r < a + b} {a..<a + b}"
  proof (intro bij_betw_byWitness [where f' = of_nat])
    show "\<forall>n \<in> {a..<a + b}. unat (of_nat n :: u32) = n"
      using assms by (auto simp: unsigned_of_nat take_bit_nat_eq_self)
    then show "of_nat ` {a..<a + b} \<subseteq> {r :: u32. a \<le> unat r \<and> unat r < a + b}" by auto
  qed auto
  then show ?thesis by (simp add: bij_betw_same_card)
qed

lemma sum_take_le: "i < length ws \<Longrightarrow> sum_list (map unat (take i ws)) + unat (ws ! i) \<le> sum_list (map unat ws)"
  by (induction ws arbitrary: i) (auto simp: nth_Cons take_Cons split: nat.splits)

lemma weighted_draw:
  assumes sum: "sum_list (map unat ws) < 2 ^ 32" and i: "i < length ws"
  shows "unat (total_weight ws) = sum_list (map unat ws)
    \<and> card {r. r < total_weight ws \<and> draw_index r 0 0 ws = Some i} = unat (ws ! i)
    \<and> (\<forall>r. r < total_weight ws \<longrightarrow> (\<exists>j < length ws. draw_index r 0 0 ws = Some j \<and> ws ! j \<noteq> 0))"
proof -
  let ?S = "\<lambda>j. sum_list (map unat (take j ws))"
  have tot: "unat (total_weight ws) = sum_list (map unat ws)"
    using unat_foldl [of 0 ws] sum by (simp add: total_weight_def)
  have iff: "draw_index r 0 0 ws = Some j \<longleftrightarrow> ?S j \<le> unat r \<and> unat r < ?S (Suc j)" if "j < length ws" for r j
    using draw_index_tickets [of 0 ws r 0 j] sum that by (cases j) auto
  have step: "?S (Suc j) = ?S j + unat (ws ! j)" if "j < length ws" for j
    using that by (simp add: take_Suc_conv_app_nth)
  have le: "?S (Suc j) \<le> unat (total_weight ws)" if "j < length ws" for j
    using sum_take_le [OF that] step [OF that] tot by simp
  have "{r. r < total_weight ws \<and> draw_index r 0 0 ws = Some i} = {r. ?S i \<le> unat r \<and> unat r < ?S i + unat (ws ! i)}"
    using iff [OF i] step [OF i] le [OF i] by (auto simp: word_less_nat_alt)
  then have "card {r. r < total_weight ws \<and> draw_index r 0 0 ws = Some i} = unat (ws ! i)"
    using card_words_between [of "?S i" "unat (ws ! i)"] sum_take_le [OF i] sum by simp
  moreover have "\<exists>j < length ws. draw_index r 0 0 ws = Some j \<and> ws ! j \<noteq> 0" if r: "r < total_weight ws" for r
  proof -
    have "unat r < ?S (length ws)" using r tot by (simp add: word_less_nat_alt)
    then have ex: "\<exists>j. unat r < ?S j" by blast
    define k where "k = (LEAST j. unat r < ?S j)"
    have k: "unat r < ?S k" unfolding k_def by (rule LeastI_ex [OF ex])
    have min: "?S j \<le> unat r" if "j < k" for j
      using not_less_Least [OF that [unfolded k_def]] by (simp add: not_less)
    from k obtain j where j: "k = Suc j" by (cases k) auto
    have jl: "j < length ws"
    proof (rule ccontr)
      assume "\<not> j < length ws"
      then have "?S j = ?S k" unfolding j by simp
      with min [of j] k show False by (simp add: j)
    qed
    have lo: "?S j \<le> unat r" using min [of j] by (simp add: j)
    then have "draw_index r 0 0 ws = Some j" using iff [OF jl] k by (simp add: j)
    moreover have "ws ! j \<noteq> 0" using step [OF jl] lo k by (auto simp: j)
    ultimately show ?thesis using jl by blast
  qed
  ultimately show ?thesis using tot by blast
qed

lemma boss_loop_draw:
  assumes "1 \<le> r"
  shows "boss_reward_loop r c rws = map_option (\<lambda>i. fst (rws ! (i - k))) (draw_index (r - 1) c k (map snd rws))"
proof (induction rws arbitrary: c k)
  case (Cons rw rws)
  have "unat (r - 1) = unat r - 1" using assms by (simp add: unat_sub_if' word_le_nat_alt)
  then have le: "r \<le> x \<longleftrightarrow> r - 1 < x" for x :: u32
    using assms by (auto simp: word_le_nat_alt word_less_nat_alt)
  have ge: "draw_index x y m ys = Some n \<Longrightarrow> m \<le> n" for x y m n and ys :: "u32 list"
    by (induction ys arbitrary: y m) (auto simp: Let_def split: if_splits dest: Suc_leD)
  show ?case
  proof (cases "r \<le> c + snd rw")
    case True
    then show ?thesis using le by (simp add: Let_def)
  next
    case False
    have shift: "(rw # rws) ! (i - k) = rws ! (i - (k + 1))" if "draw_index (r - 1) (c + snd rw) (k + 1) (map snd rws) = Some i" for i
      using ge [OF that] by (simp add: nth_Cons')
    show ?thesis
      using False le Cons.IH [of "c + snd rw" "k + 1"] shift
      by (cases "draw_index (r - 1) (c + snd rw) (k + 1) (map snd rws)") (simp_all add: Let_def)
  qed
qed simp

lemma sum_boss_rewards: "mset order = mset boss_rewards \<Longrightarrow> sum_list (map (\<lambda>rw. unat (snd rw)) order) = 100"
proof -
  assume "mset order = mset boss_rewards"
  then have "mset (map (\<lambda>rw. unat (snd rw)) order) = mset (map (\<lambda>rw. unat (snd rw)) boss_rewards)" by (simp add: mset_map)
  then have "sum_list (map (\<lambda>rw. unat (snd rw)) order) = sum_list (map (\<lambda>rw. unat (snd rw)) boss_rewards)"
    by (metis sum_mset_sum_list)
  then show ?thesis by (simp add: boss_rewards_def)
qed

lemma boss_rewards_distinct: "distinct (map fst boss_rewards)"
  by (simp add: boss_rewards_def)

section \<open>Properties\<close>

text \<open>
  The weighted draw is fair: while the weights sum to less than \<open>2 ^ 32\<close>, exactly as many
  tickets of \<open>0 .. total - 1\<close> draw entry \<open>i\<close> as its weight says, and every ticket draws an entry.
\<close>

theorem weighted_draw_fair:
  assumes "sum_list (map unat ws) < 2 ^ 32" and "i < length ws"
  shows "unat (total_weight ws) = sum_list (map unat ws)
    \<and> card {r. r < total_weight ws \<and> draw_index r 0 0 ws = Some i} = unat (ws ! i)
    \<and> (\<forall>r. r < total_weight ws \<longrightarrow> (\<exists>j < length ws. draw_index r 0 0 ws = Some j \<and> ws ! j \<noteq> 0))"
  by (rule weighted_draw [OF assms])

theorem weighted_draw_fair_witness:
  "card {r. r < total_weight [2, 3] \<and> draw_index r 0 0 [2, 3] = Some 1} = 3"
  using weighted_draw_fair [of "[2, 3]" 1] by simp

text \<open>
  The draw is unfair when the 32-bit total wraps: here the entry with by far the largest
  weight is drawn by no ticket.
\<close>

theorem weighted_draw_wraps:
  "total_weight [1, 0xFFFFFFFF, 5] = 5
   \<and> {r. r < total_weight [1, 0xFFFFFFFF, 5] \<and> draw_index r 0 0 [1, 0xFFFFFFFF, 5] = Some 1} = {}"
proof -
  have w: "(4294967296 :: u32) = 0" "(4294967301 :: u32) = 5" by simp_all
  show ?thesis by (auto simp: total_weight_def Let_def w)
qed

text \<open>
  A boss battle's reward has the percentage its comment gives, in whatever order the table
  is walked: of the 100 values drawn, as many give a reward as its weight.
\<close>

theorem boss_reward_percentages:
  assumes "mset order = mset boss_rewards" and "(i, p) \<in> set boss_rewards"
  shows "total_weight (map snd order) = 100
    \<and> card {r. 1 \<le> r \<and> r \<le> 100 \<and> boss_reward_loop r 0 order = Some i} = unat p"
proof -
  let ?ws = "map snd order"
  have sum: "sum_list (map unat ?ws) = 100" using sum_boss_rewards [OF assms(1)] by (simp add: comp_def)
  have mem: "set order = set boss_rewards" using assms(1) by (rule mset_eq_setD)
  with assms(2) obtain k where k: "k < length order" "order ! k = (i, p)" by (metis in_set_conv_nth)
  have d: "distinct (map fst order)"
    using assms(1) by (metis boss_rewards_distinct mset_eq_imp_distinct_iff mset_map)
  have same: "fst (order ! j) = i \<longleftrightarrow> j = k" if "j < length order" for j
    using d k that by (metis fst_conv length_map nth_eq_iff_index_eq nth_map)
  have draw: "unat (total_weight ?ws) = 100"
    "card {r. r < total_weight ?ws \<and> draw_index r 0 0 ?ws = Some k} = unat p"
    "\<And>r. r < total_weight ?ws \<Longrightarrow> \<exists>j < length ?ws. draw_index r 0 0 ?ws = Some j"
    using weighted_draw [of ?ws k] sum k by auto
  have tot: "total_weight ?ws = 100" using draw(1) by (simp add: word_unat_eq_iff)
  have le: "1 \<le> r \<and> r \<le> 100 \<longleftrightarrow> r - 1 < 100" if "r \<noteq> 0" for r :: u32
    using that by (simp add: word_le_nat_alt word_less_nat_alt unat_sub_if' Suc_le_eq unat_gt_0) arith
  have eq: "{r. 1 \<le> r \<and> r \<le> 100 \<and> boss_reward_loop r 0 order = Some i}
      = (\<lambda>r. r + 1) ` {r. r < total_weight ?ws \<and> draw_index r 0 0 ?ws = Some k}" (is "?L = ?R")
  proof (intro set_eqI iffI)
    fix r assume r: "r \<in> ?L"
    then have nz: "r \<noteq> 0" by auto
    have lt: "r - 1 < total_weight ?ws" using r le [OF nz] by (simp add: tot)
    obtain j where j: "j < length ?ws" "draw_index (r - 1) 0 0 ?ws = Some j" using draw(3) [OF lt] by blast
    with r boss_loop_draw [of r 0 order 0] have "fst (order ! j) = i" by simp
    with same j have "j = k" by simp
    with j lt show "r \<in> ?R" by (intro image_eqI [of _ _ "r - 1"]) simp_all
  next
    fix r assume "r \<in> ?R"
    then obtain q where q: "r = q + 1" "q < 100" "draw_index q 0 0 ?ws = Some k" by (auto simp: tot)
    have "unat q < 100" using q(2) by (simp add: word_less_nat_alt)
    then have u: "unat r = unat q + 1" unfolding q(1) by (subst unat_plus_if') simp
    then have "1 \<le> r" "r \<le> 100" using \<open>unat q < 100\<close> by (simp_all add: word_le_nat_alt)
    then show "r \<in> ?L" using boss_loop_draw [of r 0 order 0] q k by simp
  qed
  have "inj_on (\<lambda>r :: u32. r + 1) A" for A by (rule inj_onI) simp
  then show ?thesis unfolding eq using draw(2) tot by (simp add: card_image)
qed

theorem boss_reward_percentages_witness:
  "card {r. 1 \<le> r \<and> r \<le> 100 \<and> boss_reward_loop r 0 (rev boss_rewards) = Some 4801003} = 5"
  using boss_reward_percentages [of "rev boss_rewards" 4801003 5] by (simp add: boss_rewards_def)

text \<open>
  A random map is one of the maps of the mode with room for the players, never the random
  placeholder, and none is found only when no map fits.
\<close>

theorem random_map_fits:
  assumes dist: "\<And>n s. fst (dist n s) \<le> n"
    and run: "GetRandomMapIndexForMode dist maps mode max_players s = (r, s')"
  shows "case r of
      None \<Rightarrow> random_map_pool maps mode max_players = []
    | Some i \<Rightarrow> (\<exists>map_id m. (map_id, m) \<in> set maps \<and> i = ucast map_id \<and> map_id \<noteq> Map_Random
        \<and> IsMapAvailableForMode m mode \<and> (max_players = 0 \<or> map_MaxUsers m = 0 \<or> max_players \<le> map_MaxUsers m))"
proof (cases "random_map_pool maps mode max_players = []")
  case True
  with run show ?thesis by (auto simp: GetRandomMapIndexForMode_def)
next
  case False
  let ?pool = "random_map_pool maps mode max_players"
  obtain k t where k: "dist (length ?pool - 1) s = (k, t)" by fastforce
  have "fst (dist (length ?pool - 1) s) \<le> length ?pool - 1" by (rule dist)
  then have "k \<le> length ?pool - 1" unfolding k by simp
  then have "k < length ?pool" using False by (simp add: Suc_le_lessD less_Suc_eq_le [symmetric])
  then have "?pool ! k \<in> set ?pool" by (rule nth_mem)
  moreover have "r = Some (?pool ! k)" using run False k by (simp add: GetRandomMapIndexForMode_def)
  ultimately show ?thesis by (auto simp: random_map_pool_def not_less)
qed

theorem random_map_fits_witness:
  "\<exists>i. fst (GetRandomMapIndexForMode (\<lambda>n s. (0, s)) [(0, new_MapInfo), (3, new_MapInfo\<lparr>map_tdm := True\<rparr>)]
     Mode_TeamDeathMatch 8 ()) = Some i \<and> i = 3"
proof -
  let ?maps = "[(0, new_MapInfo), (3, new_MapInfo\<lparr>map_tdm := True\<rparr>)]"
  have "GetRandomMapIndexForMode (\<lambda>n s. (0, s)) ?maps Mode_TeamDeathMatch 8 () = (Some 3, ())"
    by (simp add: GetRandomMapIndexForMode_def random_map_pool_def IsMapAvailableForMode_def Map_Random_def
        new_MapInfo_def modes)
  from random_map_fits [OF _ this] this show ?thesis by simp
qed

end
