(* ===== verification/Room_Handlers.thy ===== *)
theory Room_Handlers
  imports Selection
begin

text \<open>
  The packet handlers that change who is in a room: \<open>RoomLeave\<close>, \<open>HostChange\<close>, \<open>TeamChange\<close>,
  \<open>RoomCreate\<close> and the part of \<open>RoomJoin\<close> that decides whether, in which team and in which
  slot a player enters (the packets that only describe the room to the joiner are left out).
  A handler runs for the session \<open>sid\<close>; a packet to that session itself is always sent.
\<close>

section \<open>Leaving and kicking\<close>

definition RoomLeave :: "u16 \<Rightarrow> u8 \<Rightarrow> UniqueId \<Rightarrow> world \<Rightarrow> world" where
  "RoomLeave sid extra target_unique_id w =
    (case CAccount w sid of
       None \<Rightarrow> w
     | Some acc \<Rightarrow>
       if acc_Index_of acc = - 1 then w
       else if extra = 28 then
         (if \<not> pl_in_room acc then w
          else case CRoom w (pl_room_id acc) of
            None \<Rightarrow> w
          | Some room \<Rightarrow>
            if rm_host_session_id room \<noteq> sid then w
            else if uid_session target_unique_id = sid then w
            else (case CAccount w (uid_session target_unique_id) of
                None \<Rightarrow> w
              | Some target \<Rightarrow>
                if acc_Index_of target = - 1 then w
                else if \<not> pl_in_room target \<or> pl_room_id target \<noteq> ucast (rm_room_id room) then w
                else if acc_Index_of acc |\<in>| rm_kicked room then w
                else NewRemoveRoomPlayer (ucast (rm_room_id room)) (uid_session target_unique_id)
                       Leave_KickedByHost True w))
       else
         (if extra \<noteq> 0 \<or> \<not> pl_in_room acc then w
          else case CRoom w (pl_room_id acc) of
            None \<Rightarrow> w
          | Some room \<Rightarrow> NewRemoveRoomPlayer (ucast (rm_room_id room)) sid Leave_Leave True w))"

section \<open>Handing over the host\<close>

definition ChangeHost_Success :: u8 where "ChangeHost_Success = 1"
definition ChangeHost_Error :: u8 where "ChangeHost_Error = 2"
definition ChangeHost_NotInRoom :: u8 where "ChangeHost_NotInRoom = 0x0D"
definition ChangeHost_NotTheHost :: u8 where "ChangeHost_NotTheHost = 0x10"

text \<open>The reply to the session the handler runs for.\<close>

definition reply :: "u16 \<Rightarrow> u16 \<Rightarrow> u8 \<Rightarrow> u8 \<Rightarrow> u8 \<Rightarrow> world \<Rightarrow> world" where
  "reply sid order mission extra option = emit (Msg sid order mission extra option [])"

definition SwapAndReorderTeamLists :: "u16 \<Rightarrow> u16 \<Rightarrow> world \<Rightarrow> Room \<Rightarrow> world \<times> Room" where
  "SwapAndReorderTeamLists old_sid new_sid w room =
    (let old_slot = slot_of w old_sid; new_slot = slot_of w new_sid;
         team = (\<lambda>s. case CAccount w s of None \<Rightarrow> 0 | Some p \<Rightarrow> pl_team_id p);
         w' = upd_acc old_sid (\<lambda>p. p\<lparr>pl_slot_id := new_slot\<rparr>) w;
         w' = upd_acc new_sid (\<lambda>p. p\<lparr>pl_slot_id := old_slot\<rparr>) w';
         room = upd_team_list (team old_sid) (ReorderTeamList w' old_sid) room;
         room = upd_team_list (team new_sid) (ReorderTeamList w' new_sid) room
     in (w', room))"

definition try_sid :: "world \<Rightarrow> Room \<Rightarrow> u8 \<Rightarrow> u16 \<Rightarrow> bool" where
  "try_sid w room slot_id s = (case CAccount w s of
     None \<Rightarrow> False
   | Some pc \<Rightarrow> acc_Index_of pc \<noteq> - 1 \<and> pl_in_room pc \<and> pl_room_id pc = ucast (rm_room_id room)
        \<and> pl_slot_id pc = ucast slot_id)"

definition FindTargetSession :: "world \<Rightarrow> Room \<Rightarrow> u8 \<Rightarrow> u16 option" where
  "FindTargetSession w room slot_id =
    (if IsModeTeamBased (rm_ModeIndex room)
     then (case find (try_sid w room slot_id) (rm_blueteam_session_ids room) of
             Some s \<Rightarrow> Some s
           | None \<Rightarrow> find (try_sid w room slot_id) (rm_redteam_session_ids room))
     else find (try_sid w room slot_id) (rm_neutralteam_session_ids room))"

definition HostChange :: "u16 \<Rightarrow> u8 \<Rightarrow> world \<Rightarrow> world" where
  "HostChange sid target_slot_id w =
    (case CAccount w sid of
       None \<Rightarrow> w
     | Some acc \<Rightarrow>
       if acc_Index_of acc = - 1 then w
       else case CRoom w (pl_room_id acc) of
         None \<Rightarrow> reply sid 128 0 ChangeHost_Error 0 w
       | Some room \<Rightarrow>
         if \<not> pl_in_room acc \<or> rm_is_playing room then reply sid 128 0 ChangeHost_Error 0 w
         else case FindTargetSession w room target_slot_id of
           None \<Rightarrow> reply sid 128 0 ChangeHost_NotInRoom 0 w
         | Some target_session_id \<Rightarrow>
           if target_session_id = sid then reply sid 128 0 ChangeHost_NotInRoom 0 w
           else case CAccount w target_session_id of
             None \<Rightarrow> reply sid 128 0 ChangeHost_NotInRoom 0 w
           | Some target \<Rightarrow>
             if acc_Index_of target = - 1 \<or> \<not> pl_in_room target
                \<or> pl_room_id target \<noteq> ucast (rm_room_id room)
             then reply sid 128 0 ChangeHost_NotInRoom 0 w
             else if rm_host_session_id room \<noteq> sid then reply sid 128 0 ChangeHost_NotTheHost 0 w
             else
               let room = room\<lparr>rm_host_session_id := target_session_id\<rparr>;
                   w = upd_acc target_session_id (\<lambda>p. if pl_state p = State_Waiting
                         then p\<lparr>pl_state := State_HostReady\<rparr> else p) w;
                   w = upd_acc sid (\<lambda>p. if pl_state p = State_HostReady
                         then p\<lparr>pl_state := State_Waiting\<rparr> else p) w;
                   w = emit (CastIpc (HostChangeIpc (rm_room_id room) (acc_AuthKey (pl_acc_info target)))) w;
                   (w, room) = SwapAndReorderTeamLists sid target_session_id w room;
                   w = set_room room w
               in fold (\<lambda>id. SendMsg id 128 0 ChangeHost_Success target_slot_id [])
                    (GetRoomSortedPlayerSessionIds w room) w)"

section \<open>Changing team\<close>

definition TeamChange_Success :: u8 where "TeamChange_Success = 0x01"
definition TeamChange_TeamFull :: u8 where "TeamChange_TeamFull = 0x07"
definition TeamChange_MatchRunning :: u8 where "TeamChange_MatchRunning = 0x23"
definition TeamChange_NoBehavior :: u8 where "TeamChange_NoBehavior = 0x0F"
definition TeamChange_CantChange :: u8 where "TeamChange_CantChange = 0x0C"

text \<open>
  Which list a member moves to: a refusal with its result code, or the team it gets. The current
  team, the requested one and the room decide.
\<close>

definition team_change_decide :: "u16 \<Rightarrow> u8 \<Rightarrow> u8 \<Rightarrow> Room \<Rightarrow> u8 + u8" where
  "team_change_decide sid team_option my_team room =
    (let half = unat (rm_max_players room div 2); blue = length (rm_blueteam_session_ids room);
         red = length (rm_redteam_session_ids room)
     in if team_option = Team_Observer then
       (if \<not> rm_allow_observers room \<or> 10 \<le> length (rm_observers_session_ids room) then Inl TeamChange_TeamFull
        else if sid \<in> set (rm_observers_session_ids room) then Inl TeamChange_NoBehavior
        else Inr Team_Observer)
     else if \<not> IsModeTeamBased (rm_ModeIndex room) then
       (if unat (rm_max_players room) \<le> length (rm_neutralteam_session_ids room) then Inl TeamChange_TeamFull
        else if sid \<in> set (rm_neutralteam_session_ids room) then Inl TeamChange_NoBehavior
        else Inr Team_Neutral)
     else if my_team = Team_Blue then (if half \<le> red then Inl TeamChange_TeamFull else Inr Team_Red)
     else if my_team = Team_Red then (if half \<le> blue then Inl TeamChange_NoBehavior else Inr Team_Blue)
     else if my_team = Team_Observer then
       (if blue \<le> red then (if half \<le> blue then Inl TeamChange_TeamFull else Inr Team_Blue)
        else (if half \<le> red then Inl TeamChange_TeamFull else Inr Team_Red))
     else Inl 0)"

text \<open>Leave the list of the current team and join the back of the new one.\<close>

definition move_team :: "u16 \<Rightarrow> u8 \<Rightarrow> u8 \<Rightarrow> Room \<Rightarrow> Room" where
  "move_team sid old new room =
     upd_team_list new (\<lambda>xs. xs @ [sid])
       (if old \<in> {Team_Neutral, Team_Red, Team_Blue, Team_Observer} then upd_team_list old (removeAll sid) room
        else room)"

definition clan_list_entry :: "world \<Rightarrow> u32 \<Rightarrow> u16 \<Rightarrow> PlayerRoomClanListInfo list" where
  "clan_list_entry w my_clan i =
    (case CAccount w i of
       None \<Rightarrow> []
     | Some acc \<Rightarrow>
       if acc_ClanId (pl_acc_info acc) \<noteq> 0 then
         (case CClan w (acc_ClanId (pl_acc_info acc)) of
            None \<Rightarrow> []
          | Some c \<Rightarrow> [\<lparr>pcl_slotIndex = pl_slot_id acc, pcl_clanName = cl_clan_name c,
                        pcl_logo_front = cl_logo_front c, pcl_logo_back = cl_logo_back c,
                        pcl_clanId = my_clan\<rparr>])
       else [\<lparr>pcl_slotIndex = pl_slot_id acc, pcl_clanName = '''', pcl_logo_front = 0,
              pcl_logo_back = 0, pcl_clanId = 0\<rparr>])"

definition clan_list :: "world \<Rightarrow> u32 \<Rightarrow> u16 list \<Rightarrow> PlayerRoomClanListInfo list" where
  "clan_list w my_clan ids = concat (map (clan_list_entry w my_clan) ids)"

definition SendClanList :: "u16 \<Rightarrow> PlayerRoomClanListInfo list \<Rightarrow> world \<Rightarrow> world" where
  "SendClanList sid infos w = (if sid |\<in>| m_sessions w then emit (ClanListMsg sid infos) w else w)"

definition host_aid :: "world \<Rightarrow> Room \<Rightarrow> u32" where
  "host_aid w room = (case CAccount w (rm_host_session_id room) of None \<Rightarrow> - 1 | Some p \<Rightarrow> acc_Index_of p)"

definition team_change_broadcast ::
  "u16 \<Rightarrow> u8 \<Rightarrow> u8 \<Rightarrow> Player \<Rightarrow> Room \<Rightarrow> world \<Rightarrow> world" where
  "team_change_broadcast sid team_option old_team acc room w =
    (let ids = GetRoomSortedPlayerSessionIds w room;
         infos = clan_list w (acc_ClanId (pl_acc_info acc)) ids;
         my_unique_id = le_bytes 4 (uid_data (new_UniqueId sid 1));
         w = fold (\<lambda>id w. SendClanList id infos
                     (SendMsg id 313 0 TeamChange_Success team_option my_unique_id w)) ids w
     in if \<not> pl_playing acc
        then emit (PersistRoomLog (new_RoomLogEntry\<lparr>
               log_aid := acc_Index_of acc, log_event_type := RL_TeamChanged,
               log_server_id := ucast (pl_server_id acc), log_room_id := ucast (rm_room_id room),
               log_host_aid := Some (host_aid w room), log_team_id := Some old_team,
               log_new_team_id := Some (case CAccount w sid of None \<Rightarrow> old_team | Some p \<Rightarrow> pl_team_id p)\<rparr>)) w
        else w)"

definition TeamChange :: "u16 \<Rightarrow> u8 \<Rightarrow> world \<Rightarrow> world" where
  "TeamChange sid team_option w =
    (case CAccount w sid of
       None \<Rightarrow> w
     | Some acc \<Rightarrow>
       if acc_Index_of acc = - 1 \<or> \<not> pl_in_room acc then w
       else case CRoom w (pl_room_id acc) of
         None \<Rightarrow> w
       | Some room \<Rightarrow>
         let my_team = pl_team_id acc;
             is_zombie = (rm_ModeIndex room = Mode_ZombieMode);
             is_host = (pl_session_id acc = rm_host_session_id room)
         in if pl_playing acc \<and> \<not> is_zombie then reply sid 313 0 TeamChange_MatchRunning my_team w
         else if is_host \<and> team_option = Team_Observer then reply sid 313 0 TeamChange_CantChange my_team w
         else if \<not> is_host \<and> pl_state acc \<noteq> State_Waiting \<and> \<not> is_zombie
           then reply sid 313 0 TeamChange_NoBehavior my_team w
         else
           let w = upd_acc sid (\<lambda>p. p\<lparr>pl_zombie_team := 0\<rparr>) w in
           if is_zombie then
             team_change_broadcast sid team_option my_team acc room
               (upd_acc sid (\<lambda>p. p\<lparr>pl_zombie_team := ucast team_option\<rparr>) w)
           else case team_change_decide sid team_option my_team room of
             Inl code \<Rightarrow> if code = 0 then w else reply sid 313 0 code my_team w
           | Inr new_team \<Rightarrow>
               let room = move_team sid my_team new_team room;
                   w = upd_acc sid (\<lambda>p. p\<lparr>pl_team_id := new_team\<rparr>) (set_room room w);
                   w = reply sid 313 0 TeamChange_Success team_option w
               in team_change_broadcast sid team_option my_team acc room w)"
section \<open>Creating a room\<close>

datatype CreateRoomError = AlreadyInRoom | NoRoomIdAvailable | NoRoomOptions

text \<open>The bit fields of the settings word, from the lowest bit.\<close>

record RoomSettings =
  rs_time :: "5 word"
  rs_restriction :: "4 word"
  rs_allow_items :: "1 word"
  rs_mode_index :: "4 word"
  rs_unknown1 :: "1 word"
  rs_allow_intruders :: "1 word"
  rs_has_password :: "1 word"
  rs_unknown2 :: "1 word"
  rs_max_players :: "4 word"
  rs_map_index :: "7 word"
  rs_team_balance :: "2 word"
  rs_allow_observers :: "1 word"

definition RoomSettings_of :: "u32 \<Rightarrow> RoomSettings" where
  "RoomSettings_of d = \<lparr>
     rs_time = ucast d, rs_restriction = ucast (drop_bit 5 d), rs_allow_items = ucast (drop_bit 9 d),
     rs_mode_index = ucast (drop_bit 10 d), rs_unknown1 = ucast (drop_bit 14 d),
     rs_allow_intruders = ucast (drop_bit 15 d), rs_has_password = ucast (drop_bit 16 d),
     rs_unknown2 = ucast (drop_bit 17 d), rs_max_players = ucast (drop_bit 18 d),
     rs_map_index = ucast (drop_bit 22 d), rs_team_balance = ucast (drop_bit 29 d),
     rs_allow_observers = ucast (drop_bit 31 d)\<rparr>"

record RoomSettingsInfo =
  rsi_title :: string
  rsi_password :: string
  rsi_settings :: RoomSettings

definition new_RoomSettingsInfo :: "u32 \<Rightarrow> string \<Rightarrow> string \<Rightarrow> RoomSettingsInfo" where
  "new_RoomSettingsInfo settings_data roomtitle roompass =
     \<lparr>rsi_title = roomtitle, rsi_password = roompass, rsi_settings = RoomSettings_of settings_data\<rparr>"

definition Create_Failed :: u8 where "Create_Failed = 0"
definition Create_Success :: u8 where "Create_Success = 1"

definition TryLeavePlaza :: "u16 \<Rightarrow> world \<Rightarrow> world" where
  "TryLeavePlaza sid w =
    (case CAccount w sid of
       None \<Rightarrow> w
     | Some acc \<Rightarrow>
       if \<not> pl_in_plaza acc then w
       else case CPlaza w (pl_plaza_id acc) of
         None \<Rightarrow> w
       | Some plaza \<Rightarrow>
         if sid \<notin> set (pz_session_ids plaza) then w
         else
           let ids = removeAll sid (pz_session_ids plaza);
               w = w\<lparr>CPlaza := (CPlaza w)(pl_plaza_id acc \<mapsto> plaza\<lparr>pz_session_ids := ids\<rparr>)\<rparr>;
               w = upd_acc sid (\<lambda>p. p\<lparr>pl_plaza_id := 0, pl_in_plaza := False\<rparr>) w
           in fold (\<lambda>id w. if id = sid then w else SendMsg id 425 0 0 1 (le_bytes 4 (uid_data (pl_uid acc))) w) ids w)"

text \<open>
  The id is taken from the generator before the options of the mode are looked up. The members
  the constructor of \<open>Room\<close> leaves uninitialised come from \<open>junk\<close>.
\<close>

definition ValidateCreateRoom ::
  "(u16 fset \<Rightarrow> u16) \<Rightarrow> game_data \<Rightarrow> Room \<Rightarrow> u16 \<Rightarrow> RoomSettingsInfo \<Rightarrow> u8 \<Rightarrow> world
     \<Rightarrow> world \<times> (CreateRoomError + Room)" where
  "ValidateCreateRoom pick g junk sid info score_limit w =
    (case CAccount w sid of
       None \<Rightarrow> (w, Inl NoRoomOptions)
     | Some acc \<Rightarrow>
       if pl_in_room acc then (reply sid 138 0 Create_Failed 0 w, Inl AlreadyInRoom)
       else case getNext pick (m_roomIdGenerator w) of
         None \<Rightarrow> (reply sid 138 0 Create_Failed 0 w, Inl NoRoomIdAvailable)
       | Some (current_room_id, gen) \<Rightarrow>
         let w = w\<lparr>m_roomIdGenerator := gen\<rparr>; s = rsi_settings info
         in if or_null fmempty (ucast (rs_mode_index s)) (CRoomOptionsInfo g) = fmempty then (w, Inl NoRoomOptions)
            else (w, Inr ((new_Room junk current_room_id 1 (rsi_title info) (rsi_password info)
                   (ucast (rs_map_index s)) (ucast (rs_mode_index s)) (ucast (rs_restriction s)) 0
                   (ucast (rs_max_players s) * 2) (ucast score_limit) (ucast (rs_time s))
                   (rs_allow_intruders s \<noteq> 0) (rs_allow_items s \<noteq> 0) (rs_allow_observers s \<noteq> 0)
                   False False sid)
                 \<lparr>rm_is_clan_room := False, rm_clan_id_1 := 0, rm_clan_id_2 := 0,
                  rm_has_password := (rsi_password info \<noteq> [])\<rparr>)))"

text \<open>\<open>CRoom.insert\<close> keeps an entry that is there.\<close>

definition FinalizeCreateRoom :: "u16 \<Rightarrow> Room \<Rightarrow> world \<Rightarrow> world" where
  "FinalizeCreateRoom sid room w =
    (let is_team_mode = IsModeTeamBased (rm_ModeIndex room);
         team = (if is_team_mode then Team_Blue else Team_Neutral);
         room = (if is_team_mode
                 then room\<lparr>rm_blueteam_session_ids := rm_blueteam_session_ids room @ [sid]\<rparr>
                 else room\<lparr>rm_neutralteam_session_ids := rm_neutralteam_session_ids room @ [sid]\<rparr>);
         room_id = rm_room_id room;
         w = (if CRoom w (ucast room_id) = None then set_room (copy_Room room) w else w);
         w = w\<lparr>CRoomId := CRoomId w @ [ucast room_id]\<rparr>;
         w = upd_acc sid (\<lambda>p. p\<lparr>pl_team_id := team, pl_room_id := ucast room_id, pl_in_room := True,
               pl_playing := False, pl_state := State_HostReady, pl_slot_id := 0\<rparr>) w;
         w = TryLeavePlaza sid w;
         w = SendCastRoomCreateSync room_id sid w;
         w = emit (Msg sid 138 0 Create_Success 0 (le_bytes 2 room_id @ le_bytes 2 (1 :: u16))) w
     in case CAccount w sid of
          None \<Rightarrow> w
        | Some acc \<Rightarrow> emit (PersistRoomLog (new_RoomLogEntry\<lparr>
             log_aid := acc_Index_of acc, log_event_type := RL_RoomCreated,
             log_server_id := ucast (pl_server_id acc), log_room_id := ucast room_id,
             log_host_aid := Some (acc_Index_of acc), log_team_id := Some (pl_team_id acc)\<rparr>)) w)"

definition RoomCreate ::
  "(u16 fset \<Rightarrow> u16) \<Rightarrow> game_data \<Rightarrow> Room \<Rightarrow> u16 \<Rightarrow> u32 \<Rightarrow> string \<Rightarrow> string \<Rightarrow> u8 \<Rightarrow> world \<Rightarrow> world" where
  "RoomCreate pick g junk sid settings_data title password score_limit w =
    (case CAccount w sid of
       None \<Rightarrow> w
     | Some acc \<Rightarrow>
       if acc_Index_of acc = - 1 then w
       else case ValidateCreateRoom pick g junk sid (new_RoomSettingsInfo settings_data title password) score_limit w of
         (w, Inl _) \<Rightarrow> w
       | (w, Inr room) \<Rightarrow> FinalizeCreateRoom sid room w)"

section \<open>Joining a room\<close>

definition Join_JoinAsObserver :: u8 where "Join_JoinAsObserver = 0x00"
definition Join_JoinAsPlayer :: u8 where "Join_JoinAsPlayer = 0x01"
definition Join_RoomDeleted :: u8 where "Join_RoomDeleted = 0x06"
definition Join_LobbyFull :: u8 where "Join_LobbyFull = 0x07"
definition Join_PreviouslyKicked :: u8 where "Join_PreviouslyKicked = 0x2A"
definition Join_InvalidPassword :: u8 where "Join_InvalidPassword = 0x2C"
definition Join_GenericError :: u8 where "Join_GenericError = 0x0F"
definition JoinError_RoomFull :: u8 where "JoinError_RoomFull = 2"
definition JoinError_NoIntrusion :: u8 where "JoinError_NoIntrusion = 4"
definition JoinReq_Password :: u8 where "JoinReq_Password = 0x2C"
definition Grade_Tester :: u8 where "Grade_Tester = 4"

definition invis_staff :: "Player \<Rightarrow> bool" where
  "invis_staff acc \<longleftrightarrow> pl_is_invisible acc \<and> Grade_Tester \<le> acc_Grade (pl_acc_info acc)"

text \<open>The checks in order: the code of a refusal, or \<open>0\<close> when the player may enter.\<close>

definition join_capacity :: "u16 \<Rightarrow> u32 \<Rightarrow> Room \<Rightarrow> u8" where
  "join_capacity sid acc_index room =
    (let observers_max_count = (if rm_allow_observers room then 10 else 0);
         players_count = (if IsModeTeamBased (rm_ModeIndex room)
           then of_nat (length (rm_redteam_session_ids room) + length (rm_blueteam_session_ids room))
           else of_nat (length (rm_neutralteam_session_ids room)));
         players_count = (if rm_allow_observers room
           then players_count + of_nat (length (rm_observers_session_ids room)) else players_count :: u32)
     in if rm_max_players room + observers_max_count \<le> players_count then Join_LobbyFull
        else if sid \<in> set (rm_neutralteam_session_ids room) \<or> sid \<in> set (rm_redteam_session_ids room)
           \<or> sid \<in> set (rm_blueteam_session_ids room) \<or> sid \<in> set (rm_observers_session_ids room)
        then Join_GenericError
        else if acc_index |\<in>| rm_kicked room then Join_PreviouslyKicked else 0)"

text \<open>
  Which team a player enters: \<open>Inr\<close> the team; \<open>Inl\<close> the refusal sent for a full room, or \<open>0\<close> when
  nothing is sent, after both of which the handler still goes on.
\<close>

definition join_observe :: "Room \<Rightarrow> u8 + u8" where
  "join_observe room =
    (if rm_allow_observers room then
       (if length (rm_observers_session_ids room) < 10 then Inr Team_Observer else Inl JoinError_RoomFull)
     else Inl JoinError_NoIntrusion)"

datatype join_party = NoParty | MyParty | VsParty

definition join_team :: "join_party \<Rightarrow> Room \<Rightarrow> u8 + u8" where
  "join_team party room =
    (if \<not> IsModeTeamBased (rm_ModeIndex room) then
       (if length (rm_neutralteam_session_ids room) < unat (rm_max_players room) then Inr Team_Neutral
        else join_observe room)
     else case party of
       MyParty \<Rightarrow> Inr Team_Blue
     | VsParty \<Rightarrow> Inr Team_Red
     | NoParty \<Rightarrow>
       let blue = length (rm_blueteam_session_ids room); red = length (rm_redteam_session_ids room);
           half = unat (rm_max_players room div 2);
           blue_not_full = blue < half; red_not_full = red < half
       in if blue \<le> red \<and> blue_not_full then Inr Team_Blue
          else if (red < blue \<and> red_not_full) \<or> (red \<le> blue \<and> \<not> blue_not_full \<and> red_not_full) then Inr Team_Red
          else if \<not> blue_not_full \<and> \<not> red_not_full then join_observe room
          else Inl 0)"

text \<open>The party of the host decides on which side a party member plays; \<open>None\<close> ends the handler.\<close>

definition join_party_side :: "u16 \<Rightarrow> Player \<Rightarrow> Room \<Rightarrow> world \<Rightarrow> join_party option" where
  "join_party_side sid acc room w =
    (if \<not> pl_in_party acc then Some NoParty
     else if rm_host_session_id room = sid then None
     else case CAccount w (rm_host_session_id room) of
       None \<Rightarrow> None
     | Some host \<Rightarrow> if \<not> pl_in_party host then None
         else if pl_party_id acc = pl_party_id host then Some MyParty else Some VsParty)"

definition leave_plaza_on_join :: "u16 \<Rightarrow> bool \<Rightarrow> world \<Rightarrow> world" where
  "leave_plaza_on_join sid is_invis_staff w =
    (case CAccount w sid of
       None \<Rightarrow> w
     | Some acc \<Rightarrow>
       if \<not> pl_in_plaza acc then w
       else case CPlaza w (pl_plaza_id acc) of
         None \<Rightarrow> w
       | Some plaza \<Rightarrow>
         if sid \<notin> set (pz_session_ids plaza) then w
         else
           let w = (if is_invis_staff then w
                    else fold (\<lambda>id w. if id = sid then w
                           else SendMsg id 425 0 0 1 (le_bytes 4 (uid_data (new_UniqueId sid 1))) w)
                         (pz_session_ids plaza) w);
               w = w\<lparr>CPlaza := (CPlaza w)(pl_plaza_id acc \<mapsto>
                      plaza\<lparr>pz_session_ids := removeAll sid (pz_session_ids plaza)\<rparr>)\<rparr>
           in upd_acc sid (\<lambda>p. p\<lparr>pl_plaza_id := 0, pl_in_plaza := False\<rparr>) w)"

text \<open>
  The slot after the last one of the list in slot order. The list of the players is
  \<open>GetRoomSortedPlayerSessionIds\<close>, which has the observers in it.
\<close>

definition next_slot :: "world \<Rightarrow> u32 \<Rightarrow> u16 list \<Rightarrow> u32" where
  "next_slot w base ids =
    (let slots = sort_key snd (map (\<lambda>i. (i, slot_of w i)) ids)
     in if slots = [] then base else snd (last slots) + 1)"

definition join_slot :: "world \<Rightarrow> u16 list \<Rightarrow> u16 list \<Rightarrow> bool \<Rightarrow> u32" where
  "join_slot w players_ids observer_ids as_observer =
    (if as_observer then next_slot w 16 observer_ids else next_slot w 0 players_ids)"

text \<open>
  The notices after the entry, the state and health of the joiner and the room log. The packets
  that describe the room to the joiner and the joiner's equipment to the others are left out.
\<close>

definition join_announce ::
  "game_data \<Rightarrow> u16 \<Rightarrow> u16 \<Rightarrow> u32 \<Rightarrow> bool \<Rightarrow> join_party \<Rightarrow> u8 option \<Rightarrow> Player \<Rightarrow> u16 list \<Rightarrow> Room \<Rightarrow> world \<Rightarrow> world" where
  "join_announce g sid req_room_id hostAid is_invis_staff party team acc players_ids room w =
    (let uid = le_bytes 4 (uid_data (new_UniqueId sid 1));
         w = (if is_invis_staff then w
              else fold (\<lambda>id w. if id = sid then w
                     else SendMsg id 403 0 0 (acc_PCRoom (pl_acc_info acc)) uid
                            (SendMsg id 314 0 0 (pl_voice_id acc) uid w)) players_ids w);
         again = (\<not> is_invis_staff \<and> party = NoParty);
         players_ids = (if again then GetRoomSortedPlayerSessionIds w room else players_ids);
         w = (if again
              then fold (\<lambda>id. SendClanList id (clan_list w (acc_ClanId (pl_acc_info acc)) players_ids)) players_ids w
              else w);
         w = upd_acc sid (\<lambda>p. p\<lparr>pl_state := State_Waiting\<rparr>) w;
         w = SendCastRoomJoinSync (rm_room_id room) sid (rm_host_session_id room) (rm_is_playing room) w;
         spawn_dead = rm_is_playing room;
         w = upd_acc sid (RefreshPlayerHealthCache g (\<not> spawn_dead)) w;
         w = (if spawn_dead then upd_acc sid (\<lambda>p. p\<lparr>pl_current_health := 0\<rparr>) w else w);
         w = (case CAccount w sid of None \<Rightarrow> w
              | Some p \<Rightarrow> emit (CastIpc (PlayerHealthIpc (pl_session_id p) (pl_max_health p) (pl_current_health p))) w);
         w = (if is_invis_staff then w else fold (\<lambda>id. SendMsg id 312 0 0 7 uid) players_ids w)
     in emit (PersistRoomLog (new_RoomLogEntry\<lparr>
          log_aid := acc_Index_of acc, log_event_type := RL_RoomJoined,
          log_server_id := ucast (pl_server_id acc), log_room_id := ucast req_room_id,
          log_host_aid := Some hostAid,
          log_team_id := Some (case team of None \<Rightarrow> 255 | Some t \<Rightarrow> t)\<rparr>)) w)"

text \<open>What happens once the lists are settled; \<open>team\<close> is the team taken, if any.\<close>

definition join_enter ::
  "game_data \<Rightarrow> u16 \<Rightarrow> u16 \<Rightarrow> u32 \<Rightarrow> bool \<Rightarrow> join_party \<Rightarrow> u8 option \<Rightarrow> Room \<Rightarrow> world \<Rightarrow> world" where
  "join_enter g sid req_room_id hostAid is_invis_staff party team room w =
    (case CAccount w sid of
       None \<Rightarrow> w
     | Some acc \<Rightarrow>
       let w = set_room room w;
           players_ids = GetRoomSortedPlayerSessionIds w room;
           observer_ids = GetRoomSortedObserversSessionIds w room;
           w = upd_acc sid (\<lambda>p. p\<lparr>pl_in_room := True, pl_room_id := ucast (rm_room_id room), pl_playing := False\<rparr>) w;
           w = leave_plaza_on_join sid is_invis_staff w;
           as_observer = (team = Some Team_Observer);
           slot = join_slot w players_ids observer_ids as_observer;
           w = upd_acc sid (\<lambda>p. p\<lparr>pl_slot_id := slot\<rparr>) w;
           w = emit (Msg sid 140 0 (if as_observer then Join_JoinAsObserver else Join_JoinAsPlayer) 1 []) w
       in join_announce g sid req_room_id hostAid is_invis_staff party team acc players_ids room w)"

definition push_team :: "u16 \<Rightarrow> u8 \<Rightarrow> Room \<Rightarrow> Room" where
  "push_team sid team = upd_team_list team (\<lambda>xs. xs @ [sid])"

text \<open>From the reset of the zombie team to the entry.\<close>

definition join_place ::
  "game_data \<Rightarrow> u16 \<Rightarrow> u16 \<Rightarrow> Player \<Rightarrow> u32 \<Rightarrow> Room \<Rightarrow> world \<Rightarrow> world" where
  "join_place g sid req_room_id acc hostAid room w =
    (let w = upd_acc sid (\<lambda>p. p\<lparr>pl_zombie_team := 0\<rparr>) w in
     if invis_staff acc then
       join_enter g sid req_room_id hostAid True NoParty (Some Team_Observer) (push_team sid Team_Observer room)
         (upd_acc sid (\<lambda>p. p\<lparr>pl_team_id := Team_Observer\<rparr>) w)
     else case join_party_side sid acc room w of
       None \<Rightarrow> w
     | Some party \<Rightarrow>
       let refusal = join_capacity sid (acc_Index_of acc) room in
       if refusal \<noteq> 0 then reply sid 140 0 refusal 0 w
       else case join_team party room of
         Inr team \<Rightarrow> join_enter g sid req_room_id hostAid False party (Some team) (push_team sid team room)
                       (upd_acc sid (\<lambda>p. p\<lparr>pl_team_id := team\<rparr>) w)
       | Inl code \<Rightarrow> join_enter g sid req_room_id hostAid False party None room
                       (if code = 0 then w else reply sid 140 0 code 0 w))"

definition RoomJoin :: "game_data \<Rightarrow> u16 \<Rightarrow> u16 \<Rightarrow> string \<Rightarrow> u8 \<Rightarrow> world \<Rightarrow> world" where
  "RoomJoin g sid req_room_id req_password join_result w =
    (case CAccount w sid of
       None \<Rightarrow> w
     | Some acc \<Rightarrow>
       if acc_Index_of acc = - 1 then w
       else if pl_in_room acc \<and> ucast req_room_id = pl_room_id acc then reply sid 140 0 Join_GenericError 0 w
       else
         let w = (if pl_in_room acc then NewRemoveRoomPlayer (pl_room_id acc) sid Leave_Leave False w else w)
         in case CAccount w sid of
              None \<Rightarrow> w
            | Some acc \<Rightarrow>
              (case CRoom w (ucast req_room_id) of
                 None \<Rightarrow> reply sid 140 0 Join_RoomDeleted 0 w
               | Some room \<Rightarrow>
                 let hostAid = (if sid \<noteq> rm_host_session_id room then host_aid w room else acc_Index_of acc)
                 in if rm_title room = [] then reply sid 140 0 Join_RoomDeleted 0 w
                    else if \<not> invis_staff acc \<and> (rm_has_password room \<or> join_result = JoinReq_Password)
                       \<and> (req_password = [] \<or> req_password \<noteq> rm_password room)
                    then reply sid 140 0 Join_InvalidPassword 0 w
                    else join_place g sid req_room_id acc hostAid room w))"

section \<open>Starting a match\<close>

definition Match_SingleWave :: u8 where "Match_SingleWave = 0x06"
definition Match_Started :: u8 where "Match_Started = 0x26"
definition Match_Loaded :: u8 where "Match_Loaded = 0x29"
definition Map_HouseTop :: u8 where "Map_HouseTop = 14"
definition State_Normal :: u8 where "State_Normal = 11"

text \<open>
  The random parts are arguments: the map drawn for the mode, if any, and the new match id; so are
  the clocks in seconds and milliseconds.
\<close>

definition match_started ::
  "u16 \<Rightarrow> u8 option \<Rightarrow> u64 \<Rightarrow> u64 \<Rightarrow> Room \<Rightarrow> Room" where
  "match_started sid random_map match_id now_ms room =
    (let is_host = (sid = rm_host_session_id room);
         room = (if is_host \<and> ucast (rm_MapIndex room) = Map_Random
                 then room\<lparr>rm_RandomMapIndex := (case random_map of Some m \<Rightarrow> m | None \<Rightarrow> Map_HouseTop)\<rparr> else room);
         room = room\<lparr>rm_is_playing := True, rm_start_time := now_ms\<rparr>;
         room = (if is_host then room\<lparr>rm_match_instance_id := match_id\<rparr> else room)
     in room\<lparr>rm_team_rounds_started := 0, rm_match_combat_stats := fmempty, rm_left_sessions := [],
             rm_combat_events := [], rm_match_events := [], rm_combat_open := True, rm_round_seq := 0\<rparr>)"

definition match_loaded_one :: "game_data \<Rightarrow> bool \<Rightarrow> u64 \<Rightarrow> u64 \<Rightarrow> bytes \<Rightarrow> u16 \<Rightarrow> world \<Rightarrow> world" where
  "match_loaded_one g is_host now_s uptime uid i w =
    (if i |\<notin>| m_sessions w then w
     else case CAccount w i of
       None \<Rightarrow> w
     | Some p \<Rightarrow>
       if \<not> pl_playing p then w
       else
         let w = (if is_host then emit (Msg i 258 0 1 0 (le_bytes 8 uptime)) w else emit (Msg i 415 0 1 0 uid) w);
             w = upd_acc i (\<lambda>p. p\<lparr>pl_state := State_Normal, pl_playing := True, pl_match_loaded_time := now_s\<rparr>) w
         in if is_host then
              let w = upd_acc i (RefreshPlayerHealthCache g True) w
              in (case CAccount w i of None \<Rightarrow> w
                  | Some p \<Rightarrow> emit (CastIpc (PlayerHealthIpc (pl_session_id p) (pl_max_health p) (pl_current_health p))) w)
            else w)"

definition MatchStart ::
  "game_data \<Rightarrow> u16 \<Rightarrow> u16 \<Rightarrow> u8 \<Rightarrow> u8 option \<Rightarrow> u64 \<Rightarrow> u64 \<Rightarrow> u64 \<Rightarrow> u64 \<Rightarrow> world \<Rightarrow> world" where
  "MatchStart g sid order match_result random_map match_id now_s now_ms start_ms w =
    (case CAccount w sid of
       None \<Rightarrow> w
     | Some acc \<Rightarrow>
       if acc_Index_of acc = - 1 \<or> \<not> pl_in_room acc then w
       else case CRoom w (pl_room_id acc) of
         None \<Rightarrow> w
       | Some room \<Rightarrow>
         let uid = le_bytes 4 (uid_data (new_UniqueId sid 1));
             w = (if match_result = Match_Started then upd_acc sid (\<lambda>p. p\<lparr>pl_playing := True\<rparr>) w else w);
             players_ids = GetRoomSortedPlayerSessionIds w room;
             is_host = (sid = rm_host_session_id room);
             entry = new_RoomLogEntry\<lparr>log_aid := acc_Index_of acc, log_server_id := ucast (pl_server_id acc),
                       log_room_id := ucast (rm_room_id room)\<rparr>
         in if match_result = Match_SingleWave then upd_acc sid (\<lambda>p. p\<lparr>pl_match_loaded_time := now_s\<rparr>) w
            else if match_result = Match_Started then
              let room = match_started sid random_map match_id now_ms room;
                  w = SendCastRoomMatchStateSync (rm_room_id room) (rm_host_session_id room) True (set_room room w);
                  w = (if is_host then emit (PersistRoomLog (entry\<lparr>log_event_type := RL_MatchStarted,
                         log_host_aid := Some (acc_Index_of acc)\<rparr>)) w else w);
                  map_id = (if ucast (rm_MapIndex room) = Map_Random then rm_RandomMapIndex room else rm_MapIndex room)
              in fold (\<lambda>id. SendMsg id order 0 Match_Started map_id uid) players_ids w
            else if match_result = Match_Loaded then
              fold (match_loaded_one g is_host now_s (now_ms - start_ms) uid) players_ids
                (emit (PersistRoomLog (entry\<lparr>log_event_type := RL_MatchEntered,
                   log_team_id := Some (pl_team_id acc)\<rparr>)) w)
            else w)"

end
