(* ===== verification/Room_Props.thy ===== *)
theory Room_Props
  imports Rooms_Inv Room_Handlers
begin

text \<open>
  The properties of rooms: leaving, the choice of a new host, the order of the team lists, and
  what the handlers for the host, the teams, new rooms and joining do to a well-formed room.
\<close>

section \<open>Lists in slot order\<close>

lemma lower_bound_loop_spec:
  assumes "\<And>i j. i \<le> j \<Longrightarrow> j < length xs \<Longrightarrow> lt (xs ! j) \<Longrightarrow> lt (xs ! i)"
    and "first + len \<le> length xs" "\<And>i. i < first \<Longrightarrow> lt (xs ! i)"
    and "\<And>i. first + len \<le> i \<Longrightarrow> i < length xs \<Longrightarrow> \<not> lt (xs ! i)"
  shows "let k = lower_bound_loop lt xs first len
    in k \<le> length xs \<and> (\<forall>i < k. lt (xs ! i)) \<and> (\<forall>i. k \<le> i \<and> i < length xs \<longrightarrow> \<not> lt (xs ! i))"
  using assms
proof (induction lt xs first len rule: lower_bound_loop.induct)
  case (1 lt xs first len)
  show ?case
  proof (cases "len = 0")
    case True
    with 1 show ?thesis by (simp add: lower_bound_loop.simps [of lt xs first 0] Let_def)
  next
    case False
    let ?half = "len div 2"
    let ?mid = "first + ?half"
    have mid: "?mid < length xs" using False 1(4) by linarith
    show ?thesis
    proof (cases "lt (xs ! ?mid)")
      case True
      have "lt (xs ! i)" if "i < ?mid + 1" for i
        using 1(3) [of i ?mid] mid True that by simp
      moreover have "?mid + 1 + (len - ?half - 1) = first + len" using False by linarith
      ultimately show ?thesis
        using 1(1) [OF False refl refl True 1(3)] 1(4,6) False True
        by (simp add: lower_bound_loop.simps [of lt xs first len] Let_def)
    next
      case f: False
      have "\<not> lt (xs ! i)" if "?mid \<le> i" "i < length xs" for i
        using 1(3) [of ?mid i] f that by blast
      then show ?thesis
        using 1(2) [OF False refl refl f 1(3)] 1(5) mid False f
        by (simp add: lower_bound_loop.simps [of lt xs first len] Let_def)
    qed
  qed
qed

lemma lower_bound_sorted:
  assumes "sorted (map f xs)"
  shows "let k = lower_bound (\<lambda>a. f a < v) xs
    in k \<le> length xs \<and> (\<forall>i < k. f (xs ! i) < v) \<and> (\<forall>i. k \<le> i \<and> i < length xs \<longrightarrow> v \<le> f (xs ! i))"
proof -
  have "f (xs ! i) < v" if "i \<le> j" "j < length xs" "f (xs ! j) < v" for i j
    using sorted_nth_mono [OF assms, of i j] that by simp
  from lower_bound_loop_spec [of xs "\<lambda>a. f a < v" 0 "length xs", OF this] show ?thesis
    by (simp add: lower_bound_def Let_def not_less)
qed

lemma sorted_insert_at:
  assumes "sorted (map f xs)" "k \<le> length xs" "\<forall>i < k. f (xs ! i) < f x"
    and "\<forall>i. k \<le> i \<and> i < length xs \<longrightarrow> f x \<le> f (xs ! i)"
  shows "sorted (map f (take k xs @ x # drop k xs))"
proof -
  have split: "map f xs = map f (take k xs) @ map f (drop k xs)" by (metis append_take_drop_id map_append)
  have "sorted (map f (take k xs))" "sorted (map f (drop k xs))"
    "\<forall>a \<in> set (take k xs). \<forall>b \<in> set (drop k xs). f a \<le> f b"
    using assms(1) unfolding split sorted_append by auto
  moreover have "\<forall>a \<in> set (take k xs). f a \<le> f x"
    using assms(2,3) by (auto simp: in_set_conv_nth less_imp_le)
  moreover have "\<forall>b \<in> set (drop k xs). f x \<le> f b"
    using assms(4) by (auto simp: in_set_conv_nth)
  ultimately show ?thesis by (auto simp: sorted_append intro: order_trans)
qed

lemma slots_ok_eval:
  "slots_ok f b xs \<longleftrightarrow> distinct (map (\<lambda>x. unat (f x)) xs) \<and> set (map (\<lambda>x. unat (f x)) xs) = set [b..<b + length xs]"
  by (auto simp: slots_ok_def bij_betw_def distinct_map)

section \<open>A room with two players\<close>

definition ex_acc :: "u16 \<Rightarrow> u32 \<Rightarrow> u8 \<Rightarrow> Player" where
  "ex_acc sid slot team = (new_Player undefined)\<lparr>pl_session_id := sid, pl_acc_info := new_FrontAccount\<lparr>acc_Index := 7\<rparr>,
     pl_in_room := True, pl_room_id := 2048, pl_slot_id := slot, pl_team_id := team, pl_state := State_Waiting\<rparr>"

definition ex_room :: "u16 list \<Rightarrow> u16 list \<Rightarrow> Room" where
  "ex_room ps os = (new_Room undefined 2048 1 ''title'' [] 1 Mode_FreeForAll 0 0 8 0 0 False False True False False 1)
     \<lparr>rm_neutralteam_session_ids := ps, rm_observers_session_ids := os\<rparr>"

definition ex_world :: "(u16 \<rightharpoonup> Player) \<Rightarrow> Room \<Rightarrow> world" where
  "ex_world accs r = \<lparr>CAccount = accs, CRoom = [2048 \<mapsto> r], CRoomId = [2048], CPlaza = Map.empty,
     CParty = Map.empty, CClan = Map.empty,
     m_roomIdGenerator = \<lparr>m_min = 2048, m_max = 4096, m_counter = 2049, m_freeList = {||}\<rparr>,
     m_sessions = {||}, outbox = []\<rparr>"

lemmas ex_defs = ex_acc_def ex_room_def ex_world_def new_Player_def new_Room_def new_FrontAccount_def

definition duo :: world where
  "duo = ex_world [1 \<mapsto> ex_acc 1 0 Team_Neutral, 2 \<mapsto> ex_acc 2 1 Team_Neutral] (ex_room [1, 2] [])"

lemma duo_room: "CRoom duo 2048 = Some (ex_room [1, 2] [])" "ucast (rm_room_id (ex_room ps os)) = (2048 :: u32)"
  "players (ex_room ps os) = ps" "observers (ex_room ps os) = os" "rm_host_session_id (ex_room ps os) = 1"
  "rm_neutralteam_session_ids (ex_room ps os) = ps" "rm_room_id (ex_room ps os) = 2048"
  "rm_ModeIndex (ex_room ps os) = Mode_FreeForAll" "rm_is_playing (ex_room ps os) = False"
  "rm_blueteam_session_ids (ex_room ps os) = []" "rm_redteam_session_ids (ex_room ps os) = []"
  by (simp_all add: duo_def ex_defs players_def IsModeTeamBased_def modes)

lemma duo_ok: "room_ok duo (ex_room [1, 2] [])"
proof -
  have "member_ok duo (ex_room [1, 2] []) 1" "member_ok duo (ex_room [1, 2] []) 2"
    by (simp_all add: member_ok_def duo_def ex_defs acc_Index_of_def GetTeamList_def)
  moreover have "slot_of duo 1 = 0" "slot_of duo 2 = 1" by (simp_all add: slot_of_def duo_def ex_defs)
  ultimately show ?thesis
    by (simp add: room_ok_def room_core_def duo_room slots_ok_eval IsModeTeamBased_def modes)
qed

section \<open>Updates a room does not see\<close>

text \<open>What the well-formedness of a room depends on in an account.\<close>

definition view :: "Player \<Rightarrow> u32 \<times> bool \<times> u32 \<times> u8 \<times> u32" where
  "view p = (acc_Index_of p, pl_in_room p, pl_room_id p, pl_team_id p, pl_slot_id p)"

lemma room_core_view:
  assumes "\<And>s. s \<in> set (players r @ observers r) \<Longrightarrow> map_option view (CAccount w' s) = map_option view (CAccount w s)"
  shows "room_core w' r = room_core w r"
proof -
  have s: "slot_of w' s = slot_of w s" "member_ok w' r s = member_ok w r s" if "s \<in> set (players r @ observers r)" for s
    using assms [OF that]
    by (cases "CAccount w s"; cases "CAccount w' s"; simp add: slot_of_def member_ok_def view_def)+
  have "slots_ok (slot_of w') 0 (players r) = slots_ok (slot_of w) 0 (players r)"
    "slots_ok (slot_of w') 16 (observers r) = slots_ok (slot_of w) 16 (observers r)"
    using s by (auto intro!: slots_ok_cong)
  moreover have "(\<forall>s \<in> set (players r @ observers r). member_ok w' r s) = (\<forall>s \<in> set (players r @ observers r). member_ok w r s)"
    using s by blast
  ultimately show ?thesis unfolding room_core_def by argo
qed

lemma view_upd_acc:
  "(\<And>p. view (f p) = view p) \<Longrightarrow> map_option view (CAccount (upd_acc s f w) t) = map_option view (CAccount w t)"
  by (simp add: CAccount_upd_acc option.map_comp comp_def)

lemma view_slot_of: "map_option view (CAccount w' s) = map_option view (CAccount w s) \<Longrightarrow> slot_of w' s = slot_of w s"
  by (cases "CAccount w s"; cases "CAccount w' s"; simp add: slot_of_def view_def)

lemma fold_SendMsg [simp]:
  "CAccount (fold (\<lambda>id. SendMsg id a b c d e) ids w) = CAccount w"
  "CRoom (fold (\<lambda>id. SendMsg id a b c d e) ids w) = CRoom w"
  by (induction ids arbitrary: w) simp_all

lemma room_core_host [simp]: "room_core w (r\<lparr>rm_host_session_id := h\<rparr>) = room_core w r"
  by (simp add: room_core_def players_def member_ok_def split: option.split)

lemma players_host [simp]: "players (r\<lparr>rm_host_session_id := h\<rparr>) = players r"
  by (simp add: players_def)

lemma FindTarget_player: "FindTargetSession w r slot = Some t \<Longrightarrow> t \<in> set (players r) \<and> try_sid w r slot t"
  by (auto simp: FindTargetSession_def players_def find_Some_iff split: if_splits option.splits)

lemma swap_reorder_core:
  assumes core: "room_core w r" and xy: "x \<in> set (players r)" "y \<in> set (players r)" "x \<noteq> y"
    and run: "SwapAndReorderTeamLists x y w r = (w', r')"
  shows "room_core w' r' \<and> same_lists r r' \<and> slot_of w' = (slot_of w)(x := slot_of w y, y := slot_of w x)
    \<and> CRoom w' = CRoom w \<and> rm_host_session_id r' = rm_host_session_id r"
proof -
  obtain p where p: "CAccount w x = Some p" using core_member [OF core, of x] xy by auto
  obtain q where q: "CAccount w y = Some q" using core_member [OF core, of y] xy by auto
  let ?w = "upd_acc y (\<lambda>p. p\<lparr>pl_slot_id := slot_of w x\<rparr>) (upd_acc x (\<lambda>p. p\<lparr>pl_slot_id := slot_of w y\<rparr>) w)"
  let ?r = "upd_team_list (pl_team_id p) (ReorderTeamList ?w x) r"
  have w': "w' = ?w" and r': "r' = upd_team_list (pl_team_id q) (ReorderTeamList ?w y) ?r"
    using run p q by (auto simp: SwapAndReorderTeamLists_def Let_def)
  have t: "x \<in> set (GetTeamList r (pl_team_id p))" "y \<in> set (GetTeamList r (pl_team_id q))"
    using core_team_of(1) [OF core _ p] core_team_of(1) [OF core _ q] xy by auto
  have sl1: "same_lists r ?r" by (rule same_lists_reorder [OF t(1)])
  have "y \<in> set (GetTeamList ?r (pl_team_id q))" using same_lists_team [OF sl1] t(2) by simp
  then have sl: "same_lists r r'" unfolding r' by (rule same_lists_trans [OF sl1 same_lists_reorder])
  have sa: "same_accounts w w'"
    unfolding w' by (rule same_accounts_trans [OF same_accounts_set_slot same_accounts_set_slot])
  have slots: "slot_of w' = (slot_of w)(x := slot_of w y, y := slot_of w x)"
    using p q xy(3) by (auto simp: w' fun_eq_iff slot_of_set_slot CAccount_upd_acc)
  have "room_core w' r'" by (rule room_core_swap [OF core sl sa xy(1,2) _ slots]) simp
  then show ?thesis using sl slots by (simp add: w' r')
qed

lemma host_change_lemma:
  assumes room: "CRoom w rid = Some r" "rid = ucast (rm_room_id r)" "room_ok w r"
    and host: "rm_host_session_id r = sid" "\<not> rm_is_playing r"
    and target: "FindTargetSession w r slot = Some t" "t \<noteq> sid"
  shows "\<exists>r'. CRoom (HostChange sid slot w) rid = Some r' \<and> room_ok (HostChange sid slot w) r' \<and> same_lists r r'
    \<and> rm_host_session_id r' = t \<and> slot_of (HostChange sid slot w) sid = slot_of w t
    \<and> (\<forall>s. s \<noteq> sid \<and> s \<noteq> t \<longrightarrow> slot_of (HostChange sid slot w) s = slot_of w s)"
proof -
  have core: "room_core w r" and sid: "sid \<in> set (players r)" "slot_of w sid = 0"
    using room host by (auto simp: room_ok_def)
  have t: "t \<in> set (players r)" using FindTarget_player [OF target(1)] by simp
  obtain p where p: "CAccount w sid = Some p" "acc_Index_of p \<noteq> - 1" "pl_in_room p" "pl_room_id p = ucast (rm_room_id r)"
    using core_member [OF core, of sid] sid by (metis UnCI set_append)
  obtain q where q: "CAccount w t = Some q" "acc_Index_of q \<noteq> - 1" "pl_in_room q" "pl_room_id q = ucast (rm_room_id r)"
    using core_member [OF core, of t] t by (metis UnCI set_append)
  let ?f = "\<lambda>p. if pl_state p = State_Waiting then p\<lparr>pl_state := State_HostReady\<rparr> else p"
  let ?g = "\<lambda>p. if pl_state p = State_HostReady then p\<lparr>pl_state := State_Waiting\<rparr> else p"
  define w1 where "w1 = emit (CastIpc (HostChangeIpc (rm_room_id r) (acc_AuthKey (pl_acc_info q)))) (upd_acc sid ?g (upd_acc t ?f w))"
  define r1 where "r1 = r\<lparr>rm_host_session_id := t\<rparr>"
  obtain w2 r2 where s: "SwapAndReorderTeamLists sid t w1 r1 = (w2, r2)" by fastforce
  have v: "map_option view (CAccount w1 s) = map_option view (CAccount w s)" for s
    unfolding w1_def emit_simps
    by (subst view_upd_acc, simp add: view_def acc_Index_of_def, subst view_upd_acc)
       (simp_all add: view_def acc_Index_of_def)
  have so: "slot_of w1 s = slot_of w s" for s by (rule view_slot_of [OF v])
  have core1: "room_core w1 r1" using room_core_view [of r w1 w] v core by (simp add: r1_def)
  have 2: "room_core w2 r2" "same_lists r1 r2" "slot_of w2 = (slot_of w1)(sid := slot_of w1 t, t := slot_of w1 sid)"
      "rm_host_session_id r2 = t"
    using swap_reorder_core [OF core1 _ _ target(2) [symmetric] s] sid t by (auto simp: r1_def)
  have sl: "same_lists r r2" using same_lists_trans [OF same_lists_host 2(2) [unfolded r1_def]] .
  have run: "HostChange sid slot w = fold (\<lambda>id. SendMsg id 128 0 ChangeHost_Success slot [])
      (GetRoomSortedPlayerSessionIds (set_room r2 w2) r2) (set_room r2 w2)"
    using room host target p q s by (simp add: HostChange_def Let_def w1_def r1_def)
  have acc: "CAccount (HostChange sid slot w) = CAccount w2" by (simp add: run)
  have "room_core (HostChange sid slot w) r2" using room_core_cong [of r2 "HostChange sid slot w" w2] acc 2(1) by simp
  moreover have "t \<in> set (players r2)" using same_lists_players [OF sl] t by (metis mset_eq_setD)
  moreover have "slot_of (HostChange sid slot w) s = slot_of w2 s" for s using acc by (simp add: slot_of_def)
  moreover have "rm_room_id r2 = rm_room_id r" using sl by (simp add: same_lists_def)
  ultimately show ?thesis
    using 2 sl sid so target(2) room(2) by (intro exI [of _ r2]) (simp add: room_ok_def run)
qed

section \<open>Teams\<close>

definition everyone :: "Room \<Rightarrow> u16 list" where
  "everyone r = rm_neutralteam_session_ids r @ rm_redteam_session_ids r @ rm_blueteam_session_ids r @ observers r"

definition teams_ok :: "Room \<Rightarrow> bool" where
  "teams_ok r \<longleftrightarrow> distinct (everyone r) \<and> length (observers r) \<le> 10
     \<and> length (rm_neutralteam_session_ids r) \<le> unat (rm_max_players r)
     \<and> length (rm_redteam_session_ids r) \<le> unat (rm_max_players r div 2)
     \<and> length (rm_blueteam_session_ids r) \<le> unat (rm_max_players r div 2)"

lemma four_teams:
  assumes "t \<in> {Team_Neutral, Team_Red, Team_Blue, Team_Observer}"
  obtains "t = Team_Neutral" | "t = Team_Red" | "t = Team_Blue" | "t = Team_Observer"
  using assms by blast

lemma team_change_decide_room:
  assumes "team_change_decide sid opt my r = Inr new" "teams_ok r"
  shows "new \<in> {Team_Neutral, Team_Red, Team_Blue, Team_Observer}" "sid \<notin> set (GetTeamList r new) \<or> my = Team_Blue \<or> my = Team_Red \<or> my = Team_Observer"
    "new = Team_Observer \<Longrightarrow> length (observers r) < 10 \<and> sid \<notin> set (observers r)"
    "new = Team_Neutral \<Longrightarrow> length (rm_neutralteam_session_ids r) < unat (rm_max_players r) \<and> sid \<notin> set (rm_neutralteam_session_ids r)"
    "new = Team_Red \<Longrightarrow> length (rm_redteam_session_ids r) < unat (rm_max_players r div 2) \<and> my \<in> {Team_Blue, Team_Observer}"
    "new = Team_Blue \<Longrightarrow> length (rm_blueteam_session_ids r) < unat (rm_max_players r div 2) \<and> my \<in> {Team_Red, Team_Observer}"
  using assms(1)
  by (auto simp: team_change_decide_def Let_def team_ids not_le GetTeamList_def split: if_splits)

lemma length_removeAll_member: "distinct xs \<Longrightarrow> x \<in> set xs \<Longrightarrow> Suc (length (removeAll x xs)) = length xs"
  by (metis distinct_remove1_removeAll length_remove1 One_nat_def Suc_pred length_pos_if_in_set)

lemma length_removeAll_le: "length (removeAll x xs) \<le> length xs"
  by (simp add: removeAll_filter_not_eq)

text \<open>Moving a member to a team with a free place.\<close>

lemma move_team_ok:
  assumes ok: "teams_ok r" and old: "old \<in> {Team_Neutral, Team_Red, Team_Blue, Team_Observer}" "sid \<in> set (GetTeamList r old)"
    and new: "new \<in> {Team_Neutral, Team_Red, Team_Blue, Team_Observer}" "new \<noteq> old"
    and free: "length (GetTeamList r new) <
      (if new = Team_Observer then 10 else if new = Team_Neutral then unat (rm_max_players r) else unat (rm_max_players r div 2))"
  shows "teams_ok (move_team sid old new r)" "set (everyone (move_team sid old new r)) = set (everyone r)"
    "sid \<in> set (GetTeamList (move_team sid old new r) new)"
    "\<And>s t. s \<noteq> sid \<Longrightarrow> s \<in> set (GetTeamList (move_team sid old new r) t) \<longleftrightarrow> s \<in> set (GetTeamList r t)"
proof -
  have l: "length (removeAll sid xs) \<le> length xs" for xs by (rule length_removeAll_le)
  have "teams_ok (move_team sid old new r) \<and> set (everyone (move_team sid old new r)) = set (everyone r)
    \<and> sid \<in> set (GetTeamList (move_team sid old new r) new)"
    using old(1)
  proof (cases rule: four_teams)
    case 1
    show ?thesis using new(1) by (cases rule: four_teams)
      (use 1 ok old new free l in \<open>auto simp: teams_ok_def everyone_def move_team_def upd_team_list_def
         GetTeamList_def team_ids distinct_removeAll intro: order_trans [OF l]\<close>)
  next
    case 2
    show ?thesis using new(1) by (cases rule: four_teams)
      (use 2 ok old new free l in \<open>auto simp: teams_ok_def everyone_def move_team_def upd_team_list_def
         GetTeamList_def team_ids distinct_removeAll intro: order_trans [OF l]\<close>)
  next
    case 3
    show ?thesis using new(1) by (cases rule: four_teams)
      (use 3 ok old new free l in \<open>auto simp: teams_ok_def everyone_def move_team_def upd_team_list_def
         GetTeamList_def team_ids distinct_removeAll intro: order_trans [OF l]\<close>)
  next
    case 4
    show ?thesis using new(1) by (cases rule: four_teams)
      (use 4 ok old new free l in \<open>auto simp: teams_ok_def everyone_def move_team_def upd_team_list_def
         GetTeamList_def team_ids distinct_removeAll intro: order_trans [OF l]\<close>)
  qed
  then show "teams_ok (move_team sid old new r)" "set (everyone (move_team sid old new r)) = set (everyone r)"
    "sid \<in> set (GetTeamList (move_team sid old new r) new)" by auto
  show "s \<in> set (GetTeamList (move_team sid old new r) t) \<longleftrightarrow> s \<in> set (GetTeamList r t)" if "s \<noteq> sid" for s t
    using that by (auto simp: move_team_def upd_team_list_def GetTeamList_def)
qed

lemma SendClanList_simps [simp]:
  "CAccount (SendClanList s c w) = CAccount w" "CRoom (SendClanList s c w) = CRoom w"
  by (simp_all add: SendClanList_def)

lemma fold_keeps:
  "(\<And>i v. CAccount (f i v) = CAccount v \<and> CRoom (f i v) = CRoom v)
     \<Longrightarrow> CAccount (fold f is w) = CAccount w \<and> CRoom (fold f is w) = CRoom w"
  by (induction "is" arbitrary: w) auto

lemma team_change_broadcast_keeps [simp]:
  "CAccount (team_change_broadcast sid opt old acc r w) = CAccount w"
  "CRoom (team_change_broadcast sid opt old acc r w) = CRoom w"
  by (simp_all add: team_change_broadcast_def Let_def fold_keeps)

lemma reply_simps [simp]:
  "CAccount (reply s a b c d w) = CAccount w" "CRoom (reply s a b c d w) = CRoom w"
  "m_roomIdGenerator (reply s a b c d w) = m_roomIdGenerator w"
  by (simp_all add: reply_def)

text \<open>What \<open>TeamChange\<close> can do to the rooms and accounts: nothing but the zombie flag, or one move.\<close>

lemma TeamChange_cases:
  assumes acc: "CAccount w sid = Some p" and room: "CRoom w (pl_room_id p) = Some r" "pl_room_id p = ucast (rm_room_id r)"
  shows "CRoom (TeamChange sid opt w) = CRoom w \<and>
      (CAccount (TeamChange sid opt w) = CAccount w
       \<or> (\<exists>z. CAccount (TeamChange sid opt w) = (CAccount w)(sid \<mapsto> p\<lparr>pl_zombie_team := z\<rparr>)))
    \<or> (\<exists>new. team_change_decide sid opt (pl_team_id p) r = Inr new
        \<and> CRoom (TeamChange sid opt w) = (CRoom w)(pl_room_id p \<mapsto> move_team sid (pl_team_id p) new r)
        \<and> CAccount (TeamChange sid opt w) = (CAccount w)(sid \<mapsto> p\<lparr>pl_zombie_team := 0, pl_team_id := new\<rparr>))"
proof -
  have id: "rm_room_id (move_team sid a b r) = rm_room_id r" for a b by (simp add: move_team_def)
  show ?thesis
  proof (cases "team_change_decide sid opt (pl_team_id p) r")
    case (Inl code)
    then show ?thesis unfolding TeamChange_def using acc room by (auto simp: Let_def CAccount_upd_acc)
  next
    case (Inr new)
    then show ?thesis unfolding TeamChange_def using acc room id by (auto simp: Let_def CAccount_upd_acc)
  qed
qed

lemma team_change_lemma:
  assumes acc: "CAccount w sid = Some p" and room: "CRoom w (pl_room_id p) = Some r" "pl_room_id p = ucast (rm_room_id r)"
    and ok: "teams_ok r" and team: "sid \<in> set (GetTeamList r (pl_team_id p))"
      "pl_team_id p \<in> {Team_Neutral, Team_Red, Team_Blue, Team_Observer}"
  shows "\<exists>r' p'. CRoom (TeamChange sid opt w) (pl_room_id p) = Some r' \<and> CAccount (TeamChange sid opt w) sid = Some p'
    \<and> teams_ok r' \<and> set (everyone r') = set (everyone r) \<and> sid \<in> set (GetTeamList r' (pl_team_id p'))
    \<and> (\<forall>s t. s \<noteq> sid \<longrightarrow> s \<in> set (GetTeamList r' t) \<longleftrightarrow> s \<in> set (GetTeamList r t))
    \<and> pl_slot_id p' = pl_slot_id p"
  using TeamChange_cases [OF acc room, of opt]
proof (elim disjE conjE exE)
  fix new
  assume d: "team_change_decide sid opt (pl_team_id p) r = Inr new"
    and cr: "CRoom (TeamChange sid opt w) = (CRoom w)(pl_room_id p \<mapsto> move_team sid (pl_team_id p) new r)"
    and ca: "CAccount (TeamChange sid opt w) = (CAccount w)(sid \<mapsto> p\<lparr>pl_zombie_team := 0, pl_team_id := new\<rparr>)"
  note dec = team_change_decide_room [OF d ok]
  have ne: "new \<noteq> pl_team_id p"
    using dec(1) by (cases rule: four_teams) (use dec(3-6) team in \<open>auto simp: GetTeamList_def team_ids\<close>)
  have free: "length (GetTeamList r new) <
      (if new = Team_Observer then 10 else if new = Team_Neutral then unat (rm_max_players r) else unat (rm_max_players r div 2))"
    using dec(1) by (cases rule: four_teams) (use dec(3-6) in \<open>auto simp: GetTeamList_def team_ids\<close>)
  from move_team_ok [OF ok team(2,1) dec(1) ne free] show ?thesis by (simp add: cr ca)
qed (use assms in auto)

section \<open>Properties\<close>

text \<open>
  C8: When a member leaves and another player stays, the room stays well formed: the players
  hold the slots from 0 and the observers those from 16 without a gap, the host is a player with
  slot 0, exactly the leaver is gone and the host only changes when the host leaves. Pings are
  below the largest 32-bit number.
\<close>

theorem leave_keeps_slots:
  assumes "CRoom w rid = Some r" "rid = ucast (rm_room_id r)" "room_ok w r"
    and "sid \<in> set (players r @ observers r)" "\<exists>s \<in> set (players r). s \<noteq> sid"
    and "\<forall>s \<in> set (players r). ping_of w s < - 1"
  shows "\<exists>r'. CRoom (NewRemoveRoomPlayer rid sid lt rs w) rid = Some r'
    \<and> room_ok (NewRemoveRoomPlayer rid sid lt rs w) r'
    \<and> set (players r') = set (players r) - {sid} \<and> set (observers r') = set (observers r) - {sid}
    \<and> (rm_host_session_id r \<noteq> sid \<longrightarrow> rm_host_session_id r' = rm_host_session_id r)"
  by (rule leave_slots_lemma [OF assms])

theorem leave_keeps_slots_witness:
  "\<exists>r'. CRoom (NewRemoveRoomPlayer 2048 1 Leave_Leave True duo) 2048 = Some r' \<and> set (players r') = {2}"
proof -
  have "ping_of duo 1 < - 1" "ping_of duo 2 < - 1" by (simp_all add: ping_of_def duo_def ex_defs word_gt_0)
  from leave_keeps_slots [OF duo_room(1) duo_room(2) [symmetric] duo_ok, of 1 Leave_Leave True] this show ?thesis
    by (auto simp: duo_room)
qed

text \<open>
  The new host is a player other than the leaver; a player in the match is preferred, and no
  other player of that kind has a lower ping.
\<close>

theorem auto_host_has_lowest_ping:
  assumes "0 \<notin> set (GetRoomSortedPlayerWithoutObserverSessionIds w r)"
    and "\<forall>s \<in> set (GetRoomSortedPlayerWithoutObserverSessionIds w r). ping_of w s < - 1"
    and "nh = PickAutoHost w r leaving" "nh \<noteq> 0"
  shows "nh \<in> set (GetRoomSortedPlayerWithoutObserverSessionIds w r) \<and> nh \<noteq> leaving
    \<and> (\<exists>in_match. candidate w r leaving in_match nh
        \<and> (\<forall>s \<in> set (GetRoomSortedPlayerWithoutObserverSessionIds w r).
             candidate w r leaving in_match s \<longrightarrow> ping_of w nh \<le> ping_of w s)
        \<and> (\<not> in_match \<longrightarrow> (\<forall>s \<in> set (GetRoomSortedPlayerWithoutObserverSessionIds w r).
             \<not> candidate w r leaving True s)))"
proof -
  let ?ids = "GetRoomSortedPlayerWithoutObserverSessionIds w r"
  note spec = scan_host_spec [OF assms(1,2)]
  have ne: "candidate w r leaving req s \<Longrightarrow> s \<noteq> leaving" for req s by (simp add: candidate_def)
  show ?thesis
  proof (cases "\<exists>s \<in> set ?ids. candidate w r leaving True s")
    case True
    with spec [of r leaving True] have t: "scan_host w r leaving True ?ids \<in> set ?ids"
      "candidate w r leaving True (scan_host w r leaving True ?ids)"
      "\<forall>s \<in> set ?ids. candidate w r leaving True s \<longrightarrow> ping_of w (scan_host w r leaving True ?ids) \<le> ping_of w s"
      by simp_all
    then have "nh = scan_host w r leaving True ?ids"
      using assms(1,3) by (auto simp: PickAutoHost_def Let_def)
    then show ?thesis using t ne [OF t(2)] by (intro conjI exI [of _ True]) auto
  next
    case none: False
    then have "scan_host w r leaving True ?ids = 0" using spec [of r leaving True] by simp
    then have nh: "nh = scan_host w r leaving False ?ids" using assms(3) by (simp add: PickAutoHost_def Let_def)
    with assms(4) spec [of r leaving False] have "\<exists>s \<in> set ?ids. candidate w r leaving False s" by metis
    with spec [of r leaving False] nh none ne show ?thesis by (metis (full_types))
  qed
qed

text \<open>
  Reordering puts a member back at the place its slot asks for: a list in slot order stays
  one, and has the same members. The binary search of \<open>std::lower_bound\<close> ends at that place.
\<close>

theorem reorder_keeps_slot_order:
  assumes "sorted (map (slot_of w) (remove1 sid xs))" "sid \<in> set xs"
  shows "sorted (map (slot_of w) (ReorderTeamList w sid xs)) \<and> mset (ReorderTeamList w sid xs) = mset xs"
  using lower_bound_sorted [OF assms(1), of "slot_of w sid"] sorted_insert_at [OF assms(1), of _ sid]
    mset_ReorderTeamList [OF assms(2), of w]
  by (simp add: ReorderTeamList_def Let_def)

theorem reorder_keeps_slot_order_witness:
  "sorted (map (slot_of duo) (ReorderTeamList duo 1 [2, 1]))"
  using reorder_keeps_slot_order [of duo 1 "[2, 1]"] by simp

theorem auto_host_has_lowest_ping_witness:
  "\<exists>nh \<in> set (GetRoomSortedPlayerWithoutObserverSessionIds duo (ex_room [1, 2] [])). nh \<noteq> 1"
proof -
  have core: "room_core duo (ex_room [1, 2] [])" using duo_ok by (simp add: room_ok_def)
  have ids: "set (GetRoomSortedPlayerWithoutObserverSessionIds duo (ex_room [1, 2] [])) = {1, 2}"
    unfolding GetRoomSortedPlayerWithoutObserverSessionIds_def core_team_slots [OF core] set_sorted_ids duo_room
    by simp
  have ping: "ping_of duo 1 < - 1" "ping_of duo 2 < - 1" by (simp_all add: ping_of_def duo_def ex_defs word_gt_0)
  have "PickAutoHost duo (ex_room [1, 2] []) 1 \<noteq> 0"
    using PickAutoHost_core [OF core, of 1] ping by (auto simp: duo_room)
  from auto_host_has_lowest_ping [OF _ _ refl this] show ?thesis using ids ping by auto
qed

text \<open>
  C31: The host can hand the room over outside a match: the player found under the slot becomes
  the host with slot 0, the old host gets that player's slot, nobody else's slot changes, and the
  room stays well formed with the same members in the same teams.
\<close>

theorem host_change_swaps_slots:
  assumes "CRoom w rid = Some r" "rid = ucast (rm_room_id r)" "room_ok w r"
    and "rm_host_session_id r = sid" "\<not> rm_is_playing r"
    and "FindTargetSession w r slot = Some t" "t \<noteq> sid"
  shows "\<exists>r'. CRoom (HostChange sid slot w) rid = Some r' \<and> room_ok (HostChange sid slot w) r' \<and> same_lists r r'
    \<and> rm_host_session_id r' = t \<and> slot_of (HostChange sid slot w) sid = slot_of w t
    \<and> (\<forall>s. s \<noteq> sid \<and> s \<noteq> t \<longrightarrow> slot_of (HostChange sid slot w) s = slot_of w s)"
  by (rule host_change_lemma [OF assms])

theorem host_change_swaps_slots_witness:
  "\<exists>r'. CRoom (HostChange 1 1 duo) 2048 = Some r' \<and> rm_host_session_id r' = 2 \<and> slot_of (HostChange 1 1 duo) 1 = 1"
proof -
  have f: "FindTargetSession duo (ex_room [1, 2] []) 1 = Some 2"
    by (simp add: FindTargetSession_def duo_room IsModeTeamBased_def modes try_sid_def)
       (simp add: duo_def ex_defs acc_Index_of_def)
  have "slot_of duo 2 = 1" by (simp add: slot_of_def duo_def ex_defs)
  with host_change_swaps_slots [OF duo_room(1) duo_room(2) [symmetric] duo_ok duo_room(5) _ f] show ?thesis
    by (auto simp: duo_room)
qed

text \<open>
  C32: A team change keeps the teams of a room: everybody stays a member of exactly one list, no
  list exceeds its limit (half the players for red and blue, ten observers), only the player who
  asked moves, and the team of that player's account is the list the player is in.
\<close>

theorem team_change_keeps_teams:
  assumes "CAccount w sid = Some p" "CRoom w (pl_room_id p) = Some r" "pl_room_id p = ucast (rm_room_id r)"
    and "teams_ok r" "sid \<in> set (GetTeamList r (pl_team_id p))"
      "pl_team_id p \<in> {Team_Neutral, Team_Red, Team_Blue, Team_Observer}"
  shows "\<exists>r' p'. CRoom (TeamChange sid opt w) (pl_room_id p) = Some r' \<and> CAccount (TeamChange sid opt w) sid = Some p'
    \<and> teams_ok r' \<and> set (everyone r') = set (everyone r) \<and> sid \<in> set (GetTeamList r' (pl_team_id p'))
    \<and> (\<forall>s t. s \<noteq> sid \<longrightarrow> s \<in> set (GetTeamList r' t) \<longleftrightarrow> s \<in> set (GetTeamList r t))
    \<and> pl_slot_id p' = pl_slot_id p"
  by (rule team_change_lemma [OF assms])

lemma duo_acc: "CAccount duo 2 = Some (ex_acc 2 1 Team_Neutral)" "pl_room_id (ex_acc s k t) = 2048" "pl_team_id (ex_acc s k t) = t"
  "rm_max_players (ex_room ps os) = 8" "pl_slot_id (ex_acc s k t) = k" "rm_allow_observers (ex_room ps os) = True"
  by (simp_all add: duo_def ex_defs)

lemma duo_teams_ok: "teams_ok (ex_room [1, 2] [])"
  by (simp add: teams_ok_def everyone_def duo_room duo_acc)

theorem team_change_keeps_teams_witness:
  "\<exists>r'. CRoom (TeamChange 2 Team_Observer duo) 2048 = Some r' \<and> teams_ok r' \<and> set (everyone r') = {1, 2}"
  using team_change_keeps_teams [OF duo_acc(1), of "ex_room [1, 2] []" Team_Observer] duo_teams_ok
  by (auto simp: duo_room duo_acc GetTeamList_def everyone_def)

text \<open>
  A player who becomes an observer keeps the player slot, so the room is not well formed
  afterwards: that slot is missing among the players and is none of the observers' slots.
\<close>

theorem becoming_observer_breaks_slots:
  assumes acc: "CAccount w sid = Some p" and room: "CRoom w (pl_room_id p) = Some r" "pl_room_id p = ucast (rm_room_id r)"
    and ok: "room_ok w r" "teams_ok r" "sid \<in> set (players r)" "length (players r) \<le> 16"
    and moved: "CRoom (TeamChange sid opt w) (pl_room_id p) = Some r'" "sid \<in> set (observers r')"
  shows "\<not> room_core (TeamChange sid opt w) r'"
proof
  assume core': "room_core (TeamChange sid opt w) r'"
  have core: "room_core w r" using ok(1) by (simp add: room_ok_def)
  have mem: "sid \<in> set (players r @ observers r)" using ok(3) by simp
  have four: "pl_team_id p \<in> {Team_Neutral, Team_Red, Team_Blue, Team_Observer}"
    using core_member [OF core mem] acc by (metis option.inject)
  obtain p' where p': "CAccount (TeamChange sid opt w) sid = Some p'" "pl_slot_id p' = pl_slot_id p"
    using team_change_lemma [OF acc room ok(2) core_team_of(1) [OF core mem acc] four, of opt] by blast
  have "unat (slot_of w sid) \<in> (\<lambda>x. unat (slot_of w x)) ` set (players r)" using ok(3) by blast
  then have lt: "unat (slot_of w sid) < 16" using core ok(4) by (auto simp: room_core_def slots_ok_def bij_betw_def)
  have "unat (slot_of (TeamChange sid opt w) sid) \<in> (\<lambda>x. unat (slot_of (TeamChange sid opt w) x)) ` set (observers r')"
    using moved(2) by blast
  then have "16 \<le> unat (slot_of (TeamChange sid opt w) sid)" using core' by (auto simp: room_core_def slots_ok_def bij_betw_def)
  then show False using lt p' acc by (simp add: slot_of_def)
qed

theorem becoming_observer_breaks_slots_witness:
  "\<exists>r'. CRoom (TeamChange 2 Team_Observer duo) 2048 = Some r' \<and> \<not> room_core (TeamChange 2 Team_Observer duo) r'"
proof -
  have d: "team_change_decide 2 Team_Observer Team_Neutral (ex_room [1, 2] []) = Inr Team_Observer"
    by (simp add: team_change_decide_def Let_def duo_acc) (simp add: ex_defs)
  have "CRoom (TeamChange 2 Team_Observer duo) 2048 = Some (move_team 2 Team_Neutral Team_Observer (ex_room [1, 2] []))"
    unfolding TeamChange_def by (simp add: duo_acc duo_room d Let_def modes move_team_def) (simp add: ex_defs acc_Index_of_def)
  moreover have "2 \<in> set (observers (move_team 2 Team_Neutral Team_Observer (ex_room [1, 2] [])))"
    by (simp add: move_team_def upd_team_list_def team_ids)
  ultimately show ?thesis
    using becoming_observer_breaks_slots [OF duo_acc(1), of "ex_room [1, 2] []" Team_Observer] duo_ok duo_teams_ok
    by (auto simp: duo_acc duo_room)
qed

end
