(* ===== verification/Room_Join.thy ===== *)
theory Room_Join
  imports Room_Props
begin

text \<open>
  Entering rooms: what \<open>RoomJoin\<close> and \<open>RoomCreate\<close> do to the slots, the teams and the room ids.
\<close>

section \<open>The next slot\<close>

lemma sort_key_nil: "sort_key k xs = [] \<longleftrightarrow> xs = []"
  by (metis length_0_conv length_sort)

lemma next_slot_max:
  assumes "ids \<noteq> []"
  obtains m where "m \<in> set ids" "\<forall>x \<in> set ids. slot_of w x \<le> slot_of w m" "next_slot w base ids = slot_of w m + 1"
proof -
  let ?s = "map (\<lambda>i. (i, slot_of w i)) ids"
  have ne: "?s \<noteq> []" using assms by auto
  have l: "last (sort_key snd ?s) \<in> set ?s" "\<forall>x \<in> set ?s. snd x \<le> snd (last (sort_key snd ?s))"
    using last_sort_key [OF ne, of snd] by auto
  then obtain m where m: "m \<in> set ids" "snd (last (sort_key snd ?s)) = slot_of w m" by auto
  have "sort_key snd ?s \<noteq> []" using ne by (simp only: sort_key_nil not_False_eq_True)
  then have "next_slot w base ids = slot_of w m + 1" by (simp add: next_slot_def m(2))
  with m l show thesis by (intro that [of m]) auto
qed

lemma next_slot_ok:
  assumes ok: "slots_ok (slot_of w) b xs" and ids: "set ids = set xs" "xs \<noteq> []" and small: "b + length xs < 2 ^ 32"
  shows "unat (next_slot w base ids) = b + length xs"
proof -
  have "ids \<noteq> []" using ids by auto
  then obtain m where m: "m \<in> set xs" "next_slot w base ids = slot_of w m + 1"
    and max: "\<And>x. x \<in> set xs \<Longrightarrow> slot_of w x \<le> slot_of w m"
    using next_slot_max [of ids w base] ids(1) by metis
  have img: "(\<lambda>x. unat (slot_of w x)) ` set xs = {b..<b + length xs}" using ok by (simp add: slots_ok_def bij_betw_def)
  have "b + length xs - 1 \<in> {b..<b + length xs}" using ids(2) by (cases xs) auto
  then obtain x where x: "x \<in> set xs" "unat (slot_of w x) = b + length xs - 1" unfolding img [symmetric] by auto
  have "b + length xs - 1 \<le> unat (slot_of w m)" using max [OF x(1)] unfolding word_le_nat_alt x(2) .
  moreover have "unat (slot_of w m) \<in> {b..<b + length xs}" unfolding img [symmetric] using m(1) by blast
  ultimately have u: "unat (slot_of w m) + 1 = b + length xs" using ids(2) by (cases xs) auto
  have "unat (slot_of w m + 1) = unat (slot_of w m) + 1" using u small by (subst unat_plus_if') simp
  then show ?thesis using u m(2) by simp
qed

lemma next_slot_empty: "next_slot w base [] = base"
  by (simp add: next_slot_def)

lemma slots_ok_append:
  assumes "slots_ok f b xs" "s \<notin> set xs" "unat k = b + length xs" "set ys = insert s (set xs)" "distinct ys"
  shows "slots_ok (f(s := k)) b ys"
proof -
  have "slots_ok (f(s := k)) b (xs @ [s])"
  proof -
    let ?g = "\<lambda>x. unat ((f(s := k)) x)"
    have "bij_betw (\<lambda>x. unat (f x)) (set xs) {b..<b + length xs}" using assms(1) by (simp add: slots_ok_def)
    then have "bij_betw ?g (set xs) {b..<b + length xs}"
      by (rule iffD1 [OF bij_betw_cong, rotated]) (use assms(2) in auto)
    from notIn_Un_bij_betw [OF assms(2) _ this] assms(3)
    have "bij_betw ?g (set xs \<union> {s}) ({b..<b + length xs} \<union> {b + length xs})" by simp
    moreover have "{b..<b + length xs} \<union> {b + length xs} = {b..<b + length (xs @ [s])}" by auto
    ultimately show ?thesis using assms(1,2) by (simp add: slots_ok_def)
  qed
  then show ?thesis by (rule slots_ok_set) (use assms in auto)
qed

section \<open>Listings while a player enters\<close>

lemma addSlots_push: "\<not> listed w r sid \<Longrightarrow> addSlots w r (xs @ [sid]) = addSlots w r xs"
  by (simp add: addSlots_def)

lemma listed_push [simp]: "listed w (push_team sid t r) = listed w r" "listed (set_room r' w) r = listed w r"
  by (simp_all add: listed_def fun_eq_iff push_team_def split: option.split)

lemma slot_of_set_room [simp]: "slot_of (set_room r w) = slot_of w"
  by (rule slot_of_cong) simp

lemma sorted_ids_push:
  assumes "\<not> listed w r sid"
  shows "GetRoomSortedPlayerSessionIds (set_room r' w) (push_team sid t r) = GetRoomSortedPlayerSessionIds w r"
    "GetRoomSortedObserversSessionIds (set_room r' w) (push_team sid t r) = GetRoomSortedObserversSessionIds w r"
proof -
  have a: "addSlots (set_room r' w) (push_team sid t r) = addSlots w r"
    by (auto simp: addSlots_def fun_eq_iff)
  show "GetRoomSortedPlayerSessionIds (set_room r' w) (push_team sid t r) = GetRoomSortedPlayerSessionIds w r"
    "GetRoomSortedObserversSessionIds (set_room r' w) (push_team sid t r) = GetRoomSortedObserversSessionIds w r"
    using assms
    by (simp_all only: GetRoomSortedPlayerSessionIds_def GetRoomSortedObserversSessionIds_def team_slots_def a)
      (auto simp: push_team_def upd_team_list_def addSlots_push)
qed

lemma core_sorted_ids:
  assumes "room_core w r"
  shows "set (GetRoomSortedPlayerSessionIds w r) = set (players r) \<union> set (observers r)"
    "set (GetRoomSortedObserversSessionIds w r) = set (observers r)"
  using set_sorted_ids [of "slot_of w" "players r @ observers r"]
  by (simp_all add: GetRoomSortedPlayerSessionIds_def GetRoomSortedObserversSessionIds_def
      core_team_slots [OF assms] core_observer_slots [OF assms] set_sorted_ids)

section \<open>What entering changes\<close>

abbreviation vw :: "world \<Rightarrow> u16 \<Rightarrow> (u32 \<times> bool \<times> u32 \<times> u8 \<times> u32) option" where
  "vw w s \<equiv> map_option view (CAccount w s)"

lemma view_simps [simp]:
  "view (p\<lparr>pl_playing := b\<rparr>) = view p" "view (p\<lparr>pl_plaza_id := i, pl_in_plaza := b\<rparr>) = view p"
  "view (p\<lparr>pl_state := st\<rparr>) = view p" "view (p\<lparr>pl_current_health := h\<rparr>) = view p"
  "view (p\<lparr>pl_zombie_team := z\<rparr>) = view p"
  by (simp_all add: view_def acc_Index_of_def)

lemma view_Refresh [simp]: "view (RefreshPlayerHealthCache g b p) = view p"
  by (simp add: RefreshPlayerHealthCache_def Let_def view_def acc_Index_of_def)

lemma plaza_upd_simps [simp]: "CAccount (w\<lparr>CPlaza := x\<rparr>) = CAccount w" "CRoom (w\<lparr>CPlaza := x\<rparr>) = CRoom w"
  by simp_all

lemma leave_plaza_on_join_keeps:
  "vw (leave_plaza_on_join sid b w) s = vw w s" "CRoom (leave_plaza_on_join sid b w) = CRoom w"
proof -
  have f: "CAccount (fold (\<lambda>id w. if id = sid then w else SendMsg id a c d e p w) ids v) = CAccount v
      \<and> CRoom (fold (\<lambda>id w. if id = sid then w else SendMsg id a c d e p w) ids v) = CRoom v" for a c d e p ids v
    by (rule fold_keeps) simp
  show "vw (leave_plaza_on_join sid b w) s = vw w s" "CRoom (leave_plaza_on_join sid b w) = CRoom w"
    by (auto simp: leave_plaza_on_join_def Let_def f view_upd_acc split: option.splits)
qed

lemma slot_of_vw: "(\<And>s. vw w' s = vw w s) \<Longrightarrow> slot_of w' = slot_of w"
  by (rule ext) (rule view_slot_of)

lemma next_slot_cong: "slot_of w' = slot_of w \<Longrightarrow> next_slot w' = next_slot w"
  by (simp add: next_slot_def fun_eq_iff)

lemma fold_keeps2:
  "(\<And>i v. CAccount (f i v) = CAccount v \<and> CRoom (f i v) = CRoom v) \<Longrightarrow> CAccount (fold f is w) = CAccount w"
  "(\<And>i v. CAccount (f i v) = CAccount v \<and> CRoom (f i v) = CRoom v) \<Longrightarrow> CRoom (fold f is w) = CRoom w"
  by (simp_all add: fold_keeps)

lemma join_announce_keeps:
  "vw (join_announce g sid rid h invis party team acc ids room w) s = vw w s"
  "CRoom (join_announce g sid rid h invis party team acc ids room w) = CRoom w"
proof -
  have h: "CAccount (fold (\<lambda>id w. if id = sid then w else SendMsg id a b c d e (SendMsg id a' b' c' d' e' w)) xs v) = CAccount v
      \<and> CRoom (fold (\<lambda>id w. if id = sid then w else SendMsg id a b c d e (SendMsg id a' b' c' d' e' w)) xs v) = CRoom v"
    "CAccount (fold (\<lambda>id. SendClanList id cl) xs v) = CAccount v \<and> CRoom (fold (\<lambda>id. SendClanList id cl) xs v) = CRoom v"
    for a b c d e a' b' c' d' e' cl xs v
    by (rule fold_keeps, simp)+
  show "vw (join_announce g sid rid h invis party team acc ids room w) s = vw w s"
    by (auto simp: join_announce_def Let_def h view_upd_acc sync_defs split: option.split)
  show "CRoom (join_announce g sid rid h invis party team acc ids room w) = CRoom w"
    by (auto simp: join_announce_def Let_def h sync_defs split: option.split)
qed

text \<open>
  What a join does to the room map and to what the rooms see of the accounts: the room with its
  new lists is stored, and only the joiner's entry changes.
\<close>

lemma join_enter_effect:
  assumes acc: "CAccount w sid = Some p"
  shows "CRoom (join_enter g sid rid h invis party team room w) = (CRoom w)(ucast (rm_room_id room) \<mapsto> room)"
    and "vw (join_enter g sid rid h invis party team room w) = (vw w)(sid \<mapsto>
      (acc_Index_of p, True, ucast (rm_room_id room), pl_team_id p,
       join_slot w (GetRoomSortedPlayerSessionIds (set_room room w) room)
         (GetRoomSortedObserversSessionIds (set_room room w) room) (team = Some Team_Observer)))"
proof -
  let ?pids = "GetRoomSortedPlayerSessionIds (set_room room w) room"
  let ?oids = "GetRoomSortedObserversSessionIds (set_room room w) room"
  let ?f = "\<lambda>p. p\<lparr>pl_in_room := True, pl_room_id := ucast (rm_room_id room), pl_playing := False\<rparr>"
  define w1 where "w1 = leave_plaza_on_join sid invis (upd_acc sid ?f (set_room room w))"
  have vf: "view (q\<lparr>pl_in_room := True, pl_room_id := ucast (rm_room_id room)\<rparr>)
      = (acc_Index_of q, True, ucast (rm_room_id room), pl_team_id q, pl_slot_id q)" for q
    by (simp add: view_def acc_Index_of_def)
  have v1: "vw w1 = (vw w)(sid \<mapsto> (acc_Index_of p, True, ucast (rm_room_id room), pl_team_id p, pl_slot_id p))"
    using acc by (auto simp: fun_eq_iff w1_def leave_plaza_on_join_keeps CAccount_upd_acc vf)
  have r1: "CRoom w1 = (CRoom w)(ucast (rm_room_id room) \<mapsto> room)"
    by (simp add: w1_def leave_plaza_on_join_keeps)
  have so: "slot_of w1 = slot_of w"
  proof
    fix s
    show "slot_of w1 s = slot_of w s"
    proof (cases "s = sid")
      case True
      then have "map_option view (CAccount w1 s) = Some (acc_Index_of p, True, ucast (rm_room_id room), pl_team_id p, pl_slot_id p)"
        using fun_cong [OF v1, of sid] unfolding True by simp
      then show ?thesis using True acc by (cases "CAccount w1 s") (simp_all add: slot_of_def view_def)
    next
      case False
      then have "vw w1 s = vw w s" using fun_cong [OF v1, of s] by simp
      then show ?thesis by (rule view_slot_of)
    qed
  qed
  have js: "join_slot w1 = join_slot w" by (simp add: join_slot_def next_slot_cong [OF so] fun_eq_iff)
  let ?slot = "join_slot w ?pids ?oids (team = Some Team_Observer)"
  define w2 where "w2 = upd_acc sid (\<lambda>p. p\<lparr>pl_slot_id := ?slot\<rparr>) w1"
  have "view (q\<lparr>pl_slot_id := k\<rparr>) = (case view q of (a, b, c, d, _) \<Rightarrow> (a, b, c, d, k))" for q k
    by (simp add: view_def acc_Index_of_def)
  then have v2: "vw w2 = (vw w)(sid \<mapsto> (acc_Index_of p, True, ucast (rm_room_id room), pl_team_id p, ?slot))"
  proof -
    obtain q where q: "CAccount w1 sid = Some q" "view q = (acc_Index_of p, True, ucast (rm_room_id room), pl_team_id p, pl_slot_id p)"
      using fun_cong [OF v1, of sid] by auto
    have "vw w2 s = ((vw w)(sid \<mapsto> (acc_Index_of p, True, ucast (rm_room_id room), pl_team_id p, ?slot))) s" for s
      using q fun_cong [OF v1, of s] by (simp add: w2_def CAccount_upd_acc view_def acc_Index_of_def)
    then show ?thesis by blast
  qed
  have r2: "CRoom w2 = (CRoom w)(ucast (rm_room_id room) \<mapsto> room)" by (simp add: w2_def r1)
  obtain ids where run: "join_enter g sid rid h invis party team room w
      = join_announce g sid rid h invis party team p ids room
          (emit (Msg sid 140 0 (if team = Some Team_Observer then Join_JoinAsObserver else Join_JoinAsPlayer) 1 []) w2)"
    using acc by (simp add: join_enter_def Let_def w2_def w1_def js [unfolded w1_def])
  show "CRoom (join_enter g sid rid h invis party team room w) = (CRoom w)(ucast (rm_room_id room) \<mapsto> room)"
    "vw (join_enter g sid rid h invis party team room w) = (vw w)(sid \<mapsto>
      (acc_Index_of p, True, ucast (rm_room_id room), pl_team_id p, ?slot))"
    using v2 r2 unfolding run by (simp_all add: join_announce_keeps fun_eq_iff)
qed

section \<open>A room with one more player\<close>

lemma push_team_lists:
  "rm_room_id (push_team sid t r) = rm_room_id r" "rm_ModeIndex (push_team sid t r) = rm_ModeIndex r"
  "rm_host_session_id (push_team sid t r) = rm_host_session_id r"
  by (simp_all add: push_team_def)

lemma push_team_get:
  "s \<in> set (GetTeamList r t') \<Longrightarrow> s \<in> set (GetTeamList (push_team sid t r) t')"
  "sid \<in> set (GetTeamList (push_team sid t r) t)"
  by (auto simp: push_team_def upd_team_list_def GetTeamList_def)

definition mode_team :: "Room \<Rightarrow> u8 \<Rightarrow> bool" where
  "mode_team r t \<longleftrightarrow> (if IsModeTeamBased (rm_ModeIndex r) then t = Team_Red \<or> t = Team_Blue else t = Team_Neutral)"

lemma push_team_players:
  assumes "mode_team r t"
  shows "set (players (push_team sid t r)) = insert sid (set (players r))"
    "length (players (push_team sid t r)) = Suc (length (players r))"
    "observers (push_team sid t r) = observers r"
    "sid \<notin> set (players r) \<Longrightarrow> distinct (players (push_team sid t r)) = distinct (players r)"
  using assms by (auto simp: mode_team_def push_team_def upd_team_list_def players_def team_ids split: if_splits)

lemma push_core:
  assumes core: "room_core w r" and sid: "sid \<notin> set (players r @ observers r)" "sid \<noteq> 0" and t: "mode_team r t"
    and v: "vw w' = (vw w)(sid \<mapsto> (idx, True, ucast (rm_room_id r), t, slot))" "idx \<noteq> - 1" "idx \<noteq> 0"
    and slot: "unat slot = length (players r)"
  shows "room_core w' (push_team sid t r)" "slot_of w' = (slot_of w)(sid := slot)"
proof -
  let ?r = "push_team sid t r"
  note P = push_team_players [OF t, of sid]
  have four: "t \<in> {Team_Neutral, Team_Red, Team_Blue, Team_Observer}"
    using t by (auto simp: mode_team_def split: if_splits)
  have at: "\<exists>q. CAccount w' sid = Some q \<and> view q = (idx, True, ucast (rm_room_id r), t, slot)"
    using fun_cong [OF v(1), of sid] by auto
  show slots: "slot_of w' = (slot_of w)(sid := slot)"
  proof
    fix s show "slot_of w' s = ((slot_of w)(sid := slot)) s"
    proof (cases "s = sid")
      case True
      with at show ?thesis by (auto simp: slot_of_def view_def)
    next
      case False
      with fun_cong [OF v(1), of s] have "vw w' s = vw w s" by simp
      from view_slot_of [OF this] False show ?thesis by simp
    qed
  qed
  have mem: "member_ok w' ?r s" if "s \<in> set (players ?r @ observers ?r)" for s
  proof (cases "s = sid")
    case True
    from at obtain q where "CAccount w' sid = Some q" "view q = (idx, True, ucast (rm_room_id r), t, slot)" by blast
    with True v(2,3) four push_team_get(2) [of sid t r] show ?thesis
      by (simp add: member_ok_def view_def push_team_lists)
  next
    case False
    with that P have m: "s \<in> set (players r @ observers r)" by auto
    obtain p where p: "CAccount w s = Some p" "acc_Index_of p \<noteq> - 1" "acc_Index_of p \<noteq> 0" "pl_in_room p"
      "pl_room_id p = ucast (rm_room_id r)" "s \<in> set (GetTeamList r (pl_team_id p))"
      "pl_team_id p \<in> {Team_Neutral, Team_Red, Team_Blue, Team_Observer}"
      using core_member [OF core m] by metis
    have "vw w' s = Some (view p)" using fun_cong [OF v(1), of s] False p(1) by simp
    then obtain q where "CAccount w' s = Some q" "view q = view p" by auto
    with p push_team_get(1) [OF p(6), of sid t] show ?thesis
      by (simp add: member_ok_def view_def push_team_lists)
  qed
  have d: "distinct (players ?r @ observers ?r)" "0 \<notin> set (players ?r)"
    using core sid P by (auto simp: room_core_def)
  have "slots_ok (slot_of w') 0 (players ?r)" unfolding slots
    by (rule slots_ok_append [of _ _ "players r"]) (use core sid slot P d in \<open>auto simp: room_core_def\<close>)
  moreover have "slots_ok (slot_of w') 16 (observers ?r)"
  proof -
    have "slots_ok ((slot_of w)(sid := slot)) 16 (observers r) = slots_ok (slot_of w) 16 (observers r)"
      by (rule slots_ok_cong) (use sid in auto)
    then show ?thesis using core by (simp add: room_core_def slots P)
  qed
  moreover have "if IsModeTeamBased (rm_ModeIndex ?r) then rm_neutralteam_session_ids ?r = []
      else rm_blueteam_session_ids ?r = [] \<and> rm_redteam_session_ids ?r = []"
    using core t by (auto simp: room_core_def mode_team_def push_team_def upd_team_list_def team_ids split: if_splits)
  ultimately show "room_core w' ?r" using mem d by (simp add: room_core_def)
qed

section \<open>Joining\<close>

lemma join_team_mode: "join_team NoParty r = Inr t \<Longrightarrow> t \<noteq> Team_Observer \<Longrightarrow> mode_team r t"
  by (auto simp: join_team_def mode_team_def join_observe_def Let_def split: if_splits)

lemma not_in_room_no_member:
  "room_core w r \<Longrightarrow> CAccount w sid = Some p \<Longrightarrow> \<not> pl_in_room p \<Longrightarrow> sid \<notin> set (players r @ observers r)"
  using core_member [of w r sid] by (metis option.inject)

text \<open>Entering a well-formed room without observers, from the placement on.\<close>

lemma join_place_core:
  assumes acc: "CAccount w sid = Some p" "\<not> pl_in_room p" "acc_Index_of p \<noteq> - 1" "acc_Index_of p \<noteq> 0" "sid \<noteq> 0"
    and core: "room_core w r" "observers r = []" "players r \<noteq> []" "length (players r) < 2 ^ 32 - 1"
    and free: "\<not> invis_staff p" "\<not> pl_in_party p" "join_capacity sid (acc_Index_of p) r = 0"
      "join_team NoParty r = Inr team" "team \<noteq> Team_Observer"
  shows "CRoom (join_place g sid rid p h r w) = (CRoom w)(ucast (rm_room_id r) \<mapsto> push_team sid team r)"
    "room_core (join_place g sid rid p h r w) (push_team sid team r)"
    "unat (slot_of (join_place g sid rid p h r w) sid) = length (players r)"
    "s \<noteq> sid \<Longrightarrow> slot_of (join_place g sid rid p h r w) s = slot_of w s"
proof -
  define w2 where "w2 = upd_acc sid (\<lambda>p. p\<lparr>pl_team_id := team\<rparr>) (upd_acc sid (\<lambda>p. p\<lparr>pl_zombie_team := 0\<rparr>) w)"
  let ?p = "p\<lparr>pl_zombie_team := 0, pl_team_id := team\<rparr>"
  let ?room = "push_team sid team r"
  have run: "join_place g sid rid p h r w = join_enter g sid rid h False NoParty (Some team) ?room w2"
    using free by (simp add: join_place_def join_party_side_def w2_def Let_def)
  have a2: "CAccount w2 sid = Some ?p" using acc(1) by (simp add: w2_def CAccount_upd_acc)
  have o2: "CAccount w2 s = CAccount w s" if "s \<noteq> sid" for s using that by (simp add: w2_def CAccount_upd_acc)
  have v2: "vw w2 = (vw w)(sid \<mapsto> view ?p)"
    using a2 o2 by (auto simp: fun_eq_iff)
  have nm: "sid \<notin> set (players r @ observers r)" by (rule not_in_room_no_member [OF core(1) acc(1,2)])
  have "vw w2 s = vw w s" if "s \<in> set (players r @ observers r)" for s
    using nm that o2 [of s] by metis
  then have core2: "room_core w2 r" using room_core_view [of r w2 w] core(1) by blast
  have nl: "\<not> listed w2 r sid" using a2 acc(2) by (simp add: listed_def)
  let ?slot = "join_slot w2 (GetRoomSortedPlayerSessionIds w2 r) (GetRoomSortedObserversSessionIds w2 r) False"
  have ids: "set (GetRoomSortedPlayerSessionIds w2 r) = set (players r)"
    using core_sorted_ids(1) [OF core2] core(2) by simp
  have "slots_ok (slot_of w2) 0 (players r)" using core2 by (simp add: room_core_def)
  then have slot: "unat ?slot = length (players r)"
    using next_slot_ok [OF _ ids core(3)] core(4) by (simp add: join_slot_def)
  note eff = join_enter_effect [OF a2, of g rid h False NoParty "Some team" ?room]
  have mt: "mode_team r team" by (rule join_team_mode [OF free(4,5)])
  have v: "vw (join_place g sid rid p h r w) = (vw w2)(sid \<mapsto> (acc_Index_of p, True, ucast (rm_room_id r), team, ?slot))"
    using eff(2) free(5) unfolding run sorted_ids_push [OF nl] by (simp add: push_team_lists acc_Index_of_def)
  from push_core [OF core2 nm acc(5) mt v acc(3,4) slot]
  have c: "room_core (join_place g sid rid p h r w) ?room"
    and so: "slot_of (join_place g sid rid p h r w) = (slot_of w2)(sid := ?slot)" by auto
  show "CRoom (join_place g sid rid p h r w) = (CRoom w)(ucast (rm_room_id r) \<mapsto> ?room)"
    using eff(1) unfolding run by (simp add: w2_def push_team_lists)
  show "room_core (join_place g sid rid p h r w) ?room" by (rule c)
  show "unat (slot_of (join_place g sid rid p h r w) sid) = length (players r)" using so slot by simp
  show "slot_of (join_place g sid rid p h r w) s = slot_of w s" if "s \<noteq> sid"
    using so that o2 [OF that] by (simp add: slot_of_def)
qed

definition ex_data :: game_data where
  "ex_data = \<lparr>CItemsInfo = fmempty, CSetItemsInfo = fmempty, CEffectInfo = fmempty, CBaseUnitInfo = fmempty,
     CUpgradesInfo = fmempty, CMapsInfo = fmempty, CRoomOptionsInfo = fmempty, CGradesInfo = fmempty,
     CRewardsInfo = fmempty, CDailyMissionInfo = fmempty, CGachaponsInfo = fmempty, CVendorItems = {||}, CPackagesInfo = fmempty, CCollectionInfo = fmempty, CDailyMissions = []\<rparr>"

definition solo :: world where
  "solo = ex_world [1 \<mapsto> ex_acc 1 0 Team_Neutral, 3 \<mapsto> (ex_acc 3 0 Team_Neutral)\<lparr>pl_in_room := False\<rparr>] (ex_room [1] [])"

lemma solo_ok: "room_ok solo (ex_room [1] [])"
proof -
  have "member_ok solo (ex_room [1] []) 1"
    by (simp add: member_ok_def solo_def ex_defs acc_Index_of_def GetTeamList_def)
  moreover have "slot_of solo 1 = 0" by (simp add: slot_of_def solo_def ex_defs)
  ultimately show ?thesis
    by (simp add: room_ok_def room_core_def duo_room slots_ok_eval IsModeTeamBased_def modes)
qed

section \<open>Properties of joining\<close>



text \<open>
  With an observer in the room this fails: the slot computed for the next player is the slot
  computed for the next observer, because the list of players it is taken from has the observers
  in it. A player and an observer who join one after the other get the same slot.
\<close>

theorem join_slots_collide:
  assumes core: "room_core w r" and "observers r \<noteq> []" "length (players r) \<le> 16" "length (observers r) \<le> 10"
  shows "join_slot w (GetRoomSortedPlayerSessionIds w r) (GetRoomSortedObserversSessionIds w r) False
       = join_slot w (GetRoomSortedPlayerSessionIds w r) (GetRoomSortedObserversSessionIds w r) True"
proof -
  let ?all = "GetRoomSortedPlayerSessionIds w r" and ?obs = "GetRoomSortedObserversSessionIds w r"
  have ok: "slots_ok (slot_of w) 0 (players r)" "slots_ok (slot_of w) 16 (observers r)"
    using core by (simp_all add: room_core_def)
  have o: "unat (next_slot w 16 ?obs) = 16 + length (observers r)"
    by (rule next_slot_ok [OF ok(2) core_sorted_ids(2) [OF core]]) (use assms in simp_all)
  have "?all \<noteq> []" using core_sorted_ids(1) [OF core] assms(2) by auto
  then obtain m where m: "m \<in> set ?all" "\<forall>x \<in> set ?all. slot_of w x \<le> slot_of w m" "next_slot w 0 ?all = slot_of w m + 1"
    using next_slot_max [of ?all w 0] by blast
  have io: "(\<lambda>x. unat (slot_of w x)) ` set (observers r) = {16..<16 + length (observers r)}"
    using ok(2) by (simp add: slots_ok_def bij_betw_def)
  have ip: "(\<lambda>x. unat (slot_of w x)) ` set (players r) = {0..<length (players r)}"
    using ok(1) by (simp add: slots_ok_def bij_betw_def)
  have "15 + length (observers r) \<in> {16..<16 + length (observers r)}" using assms(2) by (cases "observers r") auto
  then obtain x where x: "x \<in> set (observers r)" "unat (slot_of w x) = 15 + length (observers r)"
    unfolding io [symmetric] by auto
  have "unat (slot_of w x) \<le> unat (slot_of w m)"
    using m(2) x(1) core_sorted_ids(1) [OF core] by (simp add: word_le_nat_alt)
  moreover have "unat (slot_of w m) \<le> 15 + length (observers r)"
  proof -
    have "m \<in> set (players r) \<or> m \<in> set (observers r)" using m(1) core_sorted_ids(1) [OF core] by simp
    then show ?thesis
    proof
      assume "m \<in> set (players r)"
      then have "unat (slot_of w m) \<in> {0..<length (players r)}" unfolding ip [symmetric] by blast
      then show ?thesis using assms(3) by simp
    next
      assume "m \<in> set (observers r)"
      then have "unat (slot_of w m) \<in> {16..<16 + length (observers r)}" unfolding io [symmetric] by blast
      then show ?thesis by simp
    qed
  qed
  ultimately have um: "unat (slot_of w m) = 15 + length (observers r)" using x(2) by simp
  then have "unat (slot_of w m + 1) = 16 + length (observers r)" using assms(4) by (subst unat_plus_if') simp
  with o m(3) show ?thesis by (simp add: join_slot_def word_unat_eq_iff)
qed

definition watched :: world where
  "watched = ex_world [1 \<mapsto> ex_acc 1 0 Team_Neutral, 2 \<mapsto> ex_acc 2 16 Team_Observer] (ex_room [1] [2])"

lemma watched_ok: "room_ok watched (ex_room [1] [2])"
proof -
  have "member_ok watched (ex_room [1] [2]) 1" "member_ok watched (ex_room [1] [2]) 2"
    by (simp_all add: member_ok_def watched_def ex_defs acc_Index_of_def GetTeamList_def team_ids)
  moreover have "slot_of watched 1 = 0" "slot_of watched 2 = 16" by (simp_all add: slot_of_def watched_def ex_defs)
  ultimately show ?thesis
    by (simp add: room_ok_def room_core_def duo_room slots_ok_eval IsModeTeamBased_def modes)
qed

theorem join_slots_collide_witness:
  "join_slot watched (GetRoomSortedPlayerSessionIds watched (ex_room [1] [2]))
       (GetRoomSortedObserversSessionIds watched (ex_room [1] [2])) False
   = join_slot watched (GetRoomSortedPlayerSessionIds watched (ex_room [1] [2]))
       (GetRoomSortedObserversSessionIds watched (ex_room [1] [2])) True"
  using join_slots_collide [of watched "ex_room [1] [2]"] watched_ok by (simp add: room_ok_def duo_room)

text \<open>
  A player who passes the capacity check of a room with an even number of places always gets
  a team with a free place, an observer's place only where observers are allowed; the branches
  that refuse a full room after the check are not reached.
\<close>

theorem join_always_places:
  assumes ok: "teams_ok r" and even: "unat (rm_max_players r) = 2 * k" "unat (rm_max_players r) \<le> 1000"
    and cap: "join_capacity sid aid r = 0"
  shows "\<exists>t. join_team NoParty r = Inr t \<and> (t = Team_Observer \<longrightarrow> rm_allow_observers r)
    \<and> length (GetTeamList r t) <
      (if t = Team_Observer then 10 else if t = Team_Neutral then unat (rm_max_players r) else unat (rm_max_players r div 2))"
proof -
  let ?n = "length (rm_neutralteam_session_ids r)" and ?r = "length (rm_redteam_session_ids r)"
    and ?b = "length (rm_blueteam_session_ids r)" and ?o = "length (observers r)"
  have half: "unat (rm_max_players r div 2) = k" using even(1) by (simp add: unat_div)
  have b: "?n \<le> 2 * k" "?r \<le> k" "?b \<le> k" "?o \<le> 10" using ok even(1) half by (auto simp: teams_ok_def)
  have sm: "unat (of_nat m :: u32) = m" if "m \<le> 5000" for m
    using that by (simp add: unsigned_of_nat take_bit_nat_eq_self)
  have mx: "unat (rm_max_players r + 10) = 2 * k + 10" using even by (subst unat_plus_if') simp
  have full: "if rm_allow_observers r
    then (if IsModeTeamBased (rm_ModeIndex r) then ?r + ?b else ?n) + ?o < 2 * k + 10
    else (if IsModeTeamBased (rm_ModeIndex r) then ?r + ?b else ?n) < 2 * k"
  proof -
    let ?c = "if IsModeTeamBased (rm_ModeIndex r) then ?r + ?b else ?n"
    have c: "?c \<le> 2 * k" using b by auto
    have "unat (of_nat ?c + of_nat ?o :: u32) = ?c + ?o"
      using sm [of "?c + ?o"] c b even by simp
    moreover have "unat (of_nat ?c :: u32) = ?c" using sm [of ?c] c even by simp
    moreover have "Join_LobbyFull \<noteq> 0" by (simp add: Join_LobbyFull_def)
    ultimately show ?thesis
      using cap mx even(1)
      by (cases "IsModeTeamBased (rm_ModeIndex r)"; cases "rm_allow_observers r")
         (simp_all add: join_capacity_def Let_def word_le_nat_alt not_le split: if_splits)
  qed
  show ?thesis
  proof (cases "IsModeTeamBased (rm_ModeIndex r)")
    case False
    then show ?thesis using full even(1) b
      by (cases "?n < 2 * k"; cases "rm_allow_observers r")
         (auto simp: join_team_def join_observe_def GetTeamList_def team_ids)
  next
    case True
    consider "?b < k" "?b \<le> ?r" | "?r < k" "?r < ?b" | "?b = k" "?r = k" using b by linarith
    then show ?thesis
    proof cases
      case 3
      then have "rm_allow_observers r" "?o < 10" using full True by (auto split: if_splits)
      with 3 True half show ?thesis
        by (intro exI [of _ Team_Observer]) (simp add: join_team_def join_observe_def Let_def GetTeamList_def team_ids)
    qed (use True half in \<open>auto simp: join_team_def Let_def GetTeamList_def team_ids\<close>)
  qed
qed

theorem join_always_places_witness:
  "\<exists>t. join_team NoParty (ex_room [1, 2] []) = Inr t \<and> length (GetTeamList (ex_room [1, 2] []) t) < 10"
proof -
  have "join_capacity 3 9 (ex_room [1, 2] []) = 0"
    by (simp add: join_capacity_def ex_defs IsModeTeamBased_def modes word_le_nat_alt)
  from join_always_places [OF duo_teams_ok _ _ this, of 4] show ?thesis by (fastforce simp: duo_acc split: if_splits)
qed

section \<open>Creating rooms\<close>

lemma TryLeavePlaza_keeps:
  "vw (TryLeavePlaza sid w) s = vw w s" "CRoom (TryLeavePlaza sid w) = CRoom w"
  "m_roomIdGenerator (TryLeavePlaza sid w) = m_roomIdGenerator w"
proof -
  have f: "CAccount (fold (\<lambda>id w. if id = sid then w else SendMsg id a c d e p w) ids v) = CAccount v
      \<and> CRoom (fold (\<lambda>id w. if id = sid then w else SendMsg id a c d e p w) ids v) = CRoom v" for a c d e p ids v
    by (rule fold_keeps) simp
  have g: "m_roomIdGenerator (fold (\<lambda>id w. if id = sid then w else SendMsg id a c d e p w) ids v) = m_roomIdGenerator v"
    for a c d e p ids v by (induction ids arbitrary: v) auto
  show "vw (TryLeavePlaza sid w) s = vw w s" "CRoom (TryLeavePlaza sid w) = CRoom w"
    "m_roomIdGenerator (TryLeavePlaza sid w) = m_roomIdGenerator w"
    by (auto simp: TryLeavePlaza_def Let_def f g view_upd_acc split: option.splits)
qed

lemma sync_generator [simp]: "m_roomIdGenerator (SendCastRoomLifecycleSync a b c d e w) = m_roomIdGenerator w"
  by (simp add: SendCastRoomLifecycleSync_def)

definition first_room :: "u16 \<Rightarrow> Room \<Rightarrow> Room" where
  "first_room sid room = copy_Room (push_team sid (if IsModeTeamBased (rm_ModeIndex room) then Team_Blue else Team_Neutral) room)"

lemma Finalize_effect:
  assumes acc: "CAccount w sid = Some p" and new: "CRoom w (ucast (rm_room_id room)) = None"
  shows "CRoom (FinalizeCreateRoom sid room w) = (CRoom w)(ucast (rm_room_id room) \<mapsto> first_room sid room)"
    "m_roomIdGenerator (FinalizeCreateRoom sid room w) = m_roomIdGenerator w"
    "vw (FinalizeCreateRoom sid room w) = (vw w)(sid \<mapsto> (acc_Index_of p, True, ucast (rm_room_id room),
       if IsModeTeamBased (rm_ModeIndex room) then Team_Blue else Team_Neutral, 0))"
proof -
  have fid: "rm_room_id (first_room sid room) = rm_room_id room" by (simp add: first_room_def copy_Room_def push_team_lists)
  let ?f = "\<lambda>p. p\<lparr>pl_team_id := if IsModeTeamBased (rm_ModeIndex room) then Team_Blue else Team_Neutral,
      pl_room_id := ucast (rm_room_id room), pl_in_room := True, pl_playing := False, pl_state := State_HostReady, pl_slot_id := 0\<rparr>"
  define w1 where "w1 = upd_acc sid ?f ((set_room (first_room sid room) w)\<lparr>CRoomId := CRoomId w @ [ucast (rm_room_id room)]\<rparr>)"
  define w2 where "w2 = emit (Msg sid 138 0 Create_Success 0 (le_bytes 2 (rm_room_id room) @ le_bytes 2 (1 :: u16)))
     (SendCastRoomCreateSync (rm_room_id room) sid (TryLeavePlaza sid w1))"
  have run: "FinalizeCreateRoom sid room w = (case CAccount w2 sid of
          None \<Rightarrow> w2
        | Some acc \<Rightarrow> emit (PersistRoomLog (new_RoomLogEntry\<lparr>
             log_aid := acc_Index_of acc, log_event_type := RL_RoomCreated,
             log_server_id := ucast (pl_server_id acc), log_room_id := ucast (rm_room_id room),
             log_host_aid := Some (acc_Index_of acc), log_team_id := Some (pl_team_id acc)\<rparr>)) w2)"
    using new
    by (cases "IsModeTeamBased (rm_ModeIndex room)")
       (simp_all add: FinalizeCreateRoom_def Let_def w2_def w1_def first_room_def push_team_def upd_team_list_def team_ids
          cong: option.case_cong)
  have keep: "CRoom (FinalizeCreateRoom sid room w) = CRoom w2" "CAccount (FinalizeCreateRoom sid room w) = CAccount w2"
    "m_roomIdGenerator (FinalizeCreateRoom sid room w) = m_roomIdGenerator w2"
    unfolding run by (simp_all split: option.split)
  have r1: "CRoom w1 = (CRoom w)(ucast (rm_room_id room) \<mapsto> first_room sid room)" "m_roomIdGenerator w1 = m_roomIdGenerator w"
    by (simp_all add: w1_def fid)
  have a1: "CAccount w1 = (CAccount w)(sid \<mapsto> ?f p)" using acc by (simp add: w1_def CAccount_upd_acc)
  show "CRoom (FinalizeCreateRoom sid room w) = (CRoom w)(ucast (rm_room_id room) \<mapsto> first_room sid room)"
    "m_roomIdGenerator (FinalizeCreateRoom sid room w) = m_roomIdGenerator w"
    by (simp_all add: keep w2_def sync_defs TryLeavePlaza_keeps r1)
  have "vw (FinalizeCreateRoom sid room w) s = vw w1 s" for s
    by (simp add: keep w2_def sync_defs TryLeavePlaza_keeps)
  then show "vw (FinalizeCreateRoom sid room w) = (vw w)(sid \<mapsto> (acc_Index_of p, True, ucast (rm_room_id room),
       if IsModeTeamBased (rm_ModeIndex room) then Team_Blue else Team_Neutral, 0))"
    by (auto simp: fun_eq_iff a1) (simp_all add: view_def acc_Index_of_def)
qed

definition has_options :: "game_data \<Rightarrow> u32 \<Rightarrow> bool" where
  "has_options g settings_data \<longleftrightarrow>
     or_null fmempty (ucast (rs_mode_index (RoomSettings_of settings_data))) (CRoomOptionsInfo g) \<noteq> fmempty"

lemma first_room_fields:
  "rm_room_id (first_room sid r) = rm_room_id r" "rm_host_session_id (first_room sid r) = rm_host_session_id r"
  "players (first_room sid r) = players (push_team sid (if IsModeTeamBased (rm_ModeIndex r) then Team_Blue else Team_Neutral) r)"
  "observers (first_room sid r) = observers r" "GetTeamList (first_room sid r) = GetTeamList (push_team sid (if IsModeTeamBased (rm_ModeIndex r) then Team_Blue else Team_Neutral) r)"
  "rm_ModeIndex (first_room sid r) = rm_ModeIndex r"
  by (auto simp: first_room_def copy_Room_def push_team_def upd_team_list_def players_def GetTeamList_def team_ids fun_eq_iff)

text \<open>A room with a single player in slot 0.\<close>

lemma first_room_ok:
  assumes empty: "rm_neutralteam_session_ids r = []" "rm_blueteam_session_ids r = []" "rm_redteam_session_ids r = []" "observers r = []"
    and host: "rm_host_session_id r = sid" "sid \<noteq> 0"
    and v: "vw w sid = Some (idx, True, ucast (rm_room_id r), if IsModeTeamBased (rm_ModeIndex r) then Team_Blue else Team_Neutral, 0)"
      "idx \<noteq> - 1" "idx \<noteq> 0"
  shows "room_ok w (first_room sid r) \<and> players (first_room sid r) = [sid] \<and> observers (first_room sid r) = []"
proof -
  have p: "players (first_room sid r) = [sid]" "observers (first_room sid r) = []"
    using empty by (simp_all add: first_room_fields) (auto simp: players_def push_team_def upd_team_list_def team_ids)
  obtain q where q: "CAccount w sid = Some q" "view q = (idx, True, ucast (rm_room_id r), if IsModeTeamBased (rm_ModeIndex r) then Team_Blue else Team_Neutral, 0)"
    using v(1) by auto
  then have "slot_of w sid = 0" by (simp add: slot_of_def view_def)
  moreover have "member_ok w (first_room sid r) sid"
    using q v(2,3) push_team_get(2) [of sid _ r] by (simp add: member_ok_def view_def first_room_fields split: if_splits)
  moreover have "if IsModeTeamBased (rm_ModeIndex (first_room sid r)) then rm_neutralteam_session_ids (first_room sid r) = []
      else rm_blueteam_session_ids (first_room sid r) = [] \<and> rm_redteam_session_ids (first_room sid r) = []"
    using empty by (simp add: first_room_def copy_Room_def push_team_def upd_team_list_def team_ids)
  ultimately show ?thesis
    using p host by (simp add: room_ok_def room_core_def slots_ok_eval first_room_fields(2))
qed

lemma RoomCreate_run:
  assumes acc: "CAccount w sid = Some p" "\<not> pl_in_room p" "acc_Index_of p \<noteq> - 1"
    and gen: "getNext pick (m_roomIdGenerator w) = Some (rid, gen')"
  shows "\<not> has_options g d \<Longrightarrow> RoomCreate pick g junk sid d title pw limit w = w\<lparr>m_roomIdGenerator := gen'\<rparr>"
    "has_options g d \<Longrightarrow> \<exists>r. RoomCreate pick g junk sid d title pw limit w = FinalizeCreateRoom sid r (w\<lparr>m_roomIdGenerator := gen'\<rparr>)
       \<and> rm_room_id r = rid \<and> rm_host_session_id r = sid \<and> rm_title r = title
       \<and> rm_neutralteam_session_ids r = [] \<and> rm_blueteam_session_ids r = [] \<and> rm_redteam_session_ids r = [] \<and> observers r = []"
  using assms
  by (auto simp: RoomCreate_def ValidateCreateRoom_def has_options_def Let_def new_RoomSettingsInfo_def new_Room_def)

lemma ucast_room_inj: "(ucast (i :: u16) :: u32) = ucast j \<longleftrightarrow> i = j"
proof -
  have "unat (ucast i :: u32) = unat i" for i :: u16
    using unsigned_less [of i, where ?'a = nat] by (simp add: unsigned_ucast_eq take_bit_nat_eq_self)
  then show ?thesis by (metis word_unat_eq_iff)
qed

text \<open>
  A room is created under an id no existing room has, with its creator as the only player,
  in slot 0 and as host, and well formed; the other rooms are unchanged and every room's id is
  still issued by the generator.
\<close>

theorem created_room_is_fresh:
  assumes "CAccount w sid = Some p" "\<not> pl_in_room p" "acc_Index_of p \<noteq> - 1" "acc_Index_of p \<noteq> 0" "sid \<noteq> 0"
    and "has_options g d" "picks pick" "ids_ok (m_roomIdGenerator w)"
      "dom (CRoom w) \<subseteq> ucast ` issued (m_roomIdGenerator w)"
    and "getNext pick (m_roomIdGenerator w) = Some (rid, gen')"
    and "w' = RoomCreate pick g junk sid d title pw limit w"
  shows "CRoom w (ucast rid) = None
    \<and> (\<exists>r. CRoom w' = (CRoom w)(ucast rid \<mapsto> r) \<and> room_ok w' r \<and> rm_room_id r = rid
         \<and> players r = [sid] \<and> observers r = [] \<and> rm_host_session_id r = sid)
    \<and> dom (CRoom w') \<subseteq> ucast ` issued (m_roomIdGenerator w') \<and> ids_ok (m_roomIdGenerator w')"
proof -
  have g: "rid \<notin> issued (m_roomIdGenerator w)" "issued gen' = insert rid (issued (m_roomIdGenerator w))" "ids_ok gen'"
    using ids.next_fresh [of pick "m_roomIdGenerator w" rid gen'] assms(7,8,10) by auto
  have fresh: "CRoom w (ucast rid) = None"
    using g(1) assms(9) ucast_room_inj by (auto simp: domIff)
  let ?w = "w\<lparr>m_roomIdGenerator := gen'\<rparr>"
  obtain r where r: "w' = FinalizeCreateRoom sid r ?w" "rm_room_id r = rid" "rm_host_session_id r = sid"
    "rm_neutralteam_session_ids r = []" "rm_blueteam_session_ids r = []" "rm_redteam_session_ids r = []" "observers r = []"
    using RoomCreate_run(2) [OF assms(1-3,10,6)] assms(11) by metis
  note F = Finalize_effect [of ?w sid p r, folded r(1)]
  have F': "CRoom w' = (CRoom w)(ucast rid \<mapsto> first_room sid r)" "m_roomIdGenerator w' = gen'"
    "vw w' sid = Some (acc_Index_of p, True, ucast rid, if IsModeTeamBased (rm_ModeIndex r) then Team_Blue else Team_Neutral, 0)"
    using F(1,2) fun_cong [OF F(3), of sid] fresh assms(1) r(2) by simp_all
  have "room_ok w' (first_room sid r) \<and> players (first_room sid r) = [sid] \<and> observers (first_room sid r) = []"
    by (rule first_room_ok) (use r F'(3) assms(3-5) in auto)
  then show ?thesis
    using fresh F' g assms(9) r(2,3) by (auto simp: first_room_fields)
qed

definition lobby :: world where
  "lobby = \<lparr>CAccount = [3 \<mapsto> (ex_acc 3 0 Team_Neutral)\<lparr>pl_in_room := False\<rparr>], CRoom = Map.empty, CRoomId = [],
     CPlaza = Map.empty, CParty = Map.empty, CClan = Map.empty,
     m_roomIdGenerator = \<lparr>m_min = 2048, m_max = 4096, m_counter = 2048, m_freeList = {||}\<rparr>,
     m_sessions = {||}, outbox = []\<rparr>"

lemma lobby_facts:
  "CAccount lobby 3 = Some ((ex_acc 3 0 Team_Neutral)\<lparr>pl_in_room := False\<rparr>)"
  "\<not> pl_in_room ((ex_acc 3 0 Team_Neutral)\<lparr>pl_in_room := False\<rparr>)"
  "acc_Index_of ((ex_acc 3 0 Team_Neutral)\<lparr>pl_in_room := False\<rparr>) = 7"
  "getNext pick_least (m_roomIdGenerator lobby) = Some (2048, \<lparr>m_min = 2048, m_max = 4096, m_counter = 2049, m_freeList = {||}\<rparr>)"
  "ids_ok (m_roomIdGenerator lobby)" "CRoom lobby = Map.empty"
  by (simp_all add: lobby_def ex_defs acc_Index_of_def getNext_def ids_ok_def)

definition ffa_options :: game_data where
  "ffa_options = ex_data\<lparr>CRoomOptionsInfo := fmupd 1 (fmupd 2 [new_RoomOptionInfo] fmempty) fmempty\<rparr>"

theorem created_room_is_fresh_witness:
  "\<exists>r. CRoom (RoomCreate pick_least ffa_options undefined 3 0x400 ''room'' [] 0 lobby) = [2048 \<mapsto> r]
     \<and> players r = [3] \<and> rm_host_session_id r = 3"
proof -
  have "(ucast (1024 :: u32) :: 4 word) = 0" by simp
  have o: "has_options ffa_options 0x400"
  proof -
    have "(ucast (rs_mode_index (RoomSettings_of 0x400)) :: u32) = 1" by (simp add: RoomSettings_of_def)
    moreover have "fmupd 2 [new_RoomOptionInfo] fmempty \<noteq> (fmempty :: (u32, RoomOptionInfo list) fmap)"
      by (metis fmempty_lookup fmupd_lookup option.distinct(1))
    ultimately show ?thesis by (simp add: has_options_def ffa_options_def)
  qed
  from created_room_is_fresh [OF lobby_facts(1,2) _ _ _ o picks_least lobby_facts(5) _ lobby_facts(4) refl,
      of undefined "''room''" "[]" 0]
  show ?thesis by (auto simp: lobby_facts)
qed

text \<open>
  A request for a room of a mode without options takes a room id and never gives it back:
  repeated often enough by one player it leaves no id for anybody, while no room exists for it.
\<close>

theorem room_ids_leak:
  assumes acc: "CAccount w sid = Some p" "\<not> pl_in_room p" "acc_Index_of p \<noteq> - 1"
    and none: "\<not> has_options g d" and gen: "m_freeList (m_roomIdGenerator w) = {||}"
    and n: "n = unat (m_max (m_roomIdGenerator w)) - unat (m_counter (m_roomIdGenerator w))"
  shows "getNext pick (m_roomIdGenerator ((RoomCreate pick g junk sid d title pw limit ^^ n) w)) = None
    \<and> CRoom ((RoomCreate pick g junk sid d title pw limit ^^ n) w) = CRoom w"
proof -
  let ?G = "m_roomIdGenerator w"
  have "(RoomCreate pick g junk sid d title pw limit ^^ k) w = w\<lparr>m_roomIdGenerator := ?G\<lparr>m_counter := m_counter ?G + of_nat k\<rparr>\<rparr>
      \<and> unat (m_counter ?G + of_nat k) = unat (m_counter ?G) + k" if "k \<le> n" for k
    using that
  proof (induction k)
    case (Suc k)
    let ?w = "w\<lparr>m_roomIdGenerator := ?G\<lparr>m_counter := m_counter ?G + of_nat k\<rparr>\<rparr>"
    have u: "unat (m_counter ?G + of_nat k) = unat (m_counter ?G) + k" using Suc by simp
    have lt: "m_counter ?G + of_nat k < m_max ?G" using Suc.prems n u by (simp add: word_less_nat_alt)
    have b: "unat (m_max ?G) < 2 ^ 16" using unsigned_less [of "m_max ?G", where ?'a = nat] by simp
    have next_id: "getNext pick (m_roomIdGenerator ?w) = Some (m_counter ?G + of_nat k, ?G\<lparr>m_counter := m_counter ?G + of_nat (Suc k)\<rparr>)"
      using lt gen by (simp add: getNext_def add.assoc add.commute)
    have "RoomCreate pick g junk sid d title pw limit ?w = w\<lparr>m_roomIdGenerator := ?G\<lparr>m_counter := m_counter ?G + of_nat (Suc k)\<rparr>\<rparr>"
      using RoomCreate_run(1) [OF _ acc(2,3) next_id none, of sid junk title pw limit] acc(1) by simp
    moreover have "unat (m_counter ?G + of_nat (Suc k)) = Suc (unat (m_counter ?G + of_nat k))"
    proof -
      have "m_counter ?G + of_nat (Suc k) = m_counter ?G + of_nat k + 1" by simp
      also have "unat \<dots> = Suc (unat (m_counter ?G + of_nat k))"
        using lt b u Suc.prems n by (subst unat_plus_if') simp
      finally show ?thesis .
    qed
    ultimately show ?case using Suc u by simp
  qed simp
  from this [of n] have run: "(RoomCreate pick g junk sid d title pw limit ^^ n) w = w\<lparr>m_roomIdGenerator := ?G\<lparr>m_counter := m_counter ?G + of_nat n\<rparr>\<rparr>"
    "unat (m_counter ?G + of_nat n) = unat (m_counter ?G) + n" by simp_all
  then have "\<not> m_counter ?G + of_nat n < m_max ?G" using n by (simp add: word_less_nat_alt)
  then show ?thesis using run gen by (simp add: getNext_def)
qed

theorem room_ids_leak_witness:
  "getNext pick_least (m_roomIdGenerator ((RoomCreate pick_least ex_data undefined 3 0 ''room'' [] 0 ^^ 2048) lobby)) = None"
proof -
  have "\<not> has_options ex_data 0" by (simp add: has_options_def ex_data_def or_null_def cache_get_def)
  from room_ids_leak [OF lobby_facts(1,2) _ this _ refl, of pick_least undefined "''room''" "[]" 0] show ?thesis
    by (simp add: lobby_facts) (simp add: lobby_def)
qed

end
