(* ===== verification/Update_Data.thy ===== *)
theory Update_Data
  imports Main_Data
begin

text \<open>
  Changes to an account as \<open>DbError.h\<close> declares them: what a handler asks for (\<open>DbOp\<close>), what is
  left after validation (\<open>ValidatedDbUpdates\<close>), and the errors on the way. An \<open>int32_t\<close> account
  index is its 32-bit pattern. A \<open>new_\<close> constant is the value-initialised struct, in which the
  handlers then set the members they name.
\<close>

section \<open>Errors\<close>

datatype DbUpdateError =
  ItemNotFound | NotEnoughSerialInfos | InventoryFull | InsufficientMP | InsufficientRT
| InsufficientCOUPONS | InsufficientENERGY | MpFull | RtFull | CouponsFull | EnergyFull
| MaxEnergyReachedAlready | MaxInventoryItemsReachedAlready | InvalidOp | InvalidAid
| InvalidTargetAid | InvalidMailId | InvalidMailInserts | InvalidMailSenderNick
| InvalidMailReceiverAid | InvalidMailReceiverNick | InvalidMailMsg | SelfFriend | SelfBlock
| SqlError | AVA_CREATE_OVERLAPPEDNAME | AVA_CREATE_SHORTNAME | AVA_CREATE_BANNAME
| MEMO_MAIL_NOT_FOUND | MEMO_MAIL_SEND_MYSELF | MEMO_MAIL_FULL_SENDER | MEMO_MAIL_FULL_RECEIVER
| MEMO_MAIL_BLOCKEDBY_SENDER | MEMO_MAIL_BLOCKEDBY_RECEIVER | MEMO_GIFT_FULL_SENDER
| MEMO_GIFT_FULL_RECEIVER

section \<open>Changes\<close>

record ItemSelector =
  sel_serial :: "ItemSerialInfo option"
  sel_item_type :: "u32 option"
  sel_character_id :: "u8 option"

definition new_ItemSelector :: ItemSelector where
  "new_ItemSelector = \<lparr>
     sel_serial = None, sel_item_type = None, sel_character_id = None\<rparr>"

record ItemPatchCtx =
  ip_sel :: ItemSelector
  ip_is_equipped :: "bool option"
  ip_character_id :: "u8 option"
  ip_repair :: "u32 option"
  ip_energy :: "u32 option"
  ip_new_item_id :: "u32 option"
  ip_expire_date :: "u32 option"

definition new_ItemPatchCtx :: ItemPatchCtx where
  "new_ItemPatchCtx = \<lparr>
     ip_sel = new_ItemSelector, ip_is_equipped = None, ip_character_id = None, ip_repair = None,
     ip_energy = None, ip_new_item_id = None, ip_expire_date = None\<rparr>"

record ItemAddCtx =
  ia_items :: "Item list"

record ItemDeleteCtx =
  idel_serials :: "ItemSerialInfo list"

datatype CurrencyType = Cur_MP | Cur_RT | Cur_COUPONS | Cur_ENERGY

record AccountCurrencyDelta =
  acd_type :: CurrencyType
  acd_value :: u32
  acd_is_reward :: bool

record AccountInfoPatch =
  aip_server_id :: "u32 option"
  aip_sw_daily_attempts :: "u32 option"
  aip_sw_high_score :: "u32 option"
  aip_sw_highest_wave :: "u32 option"
  aip_sw_last_update :: "u64 option"
  aip_clan_kills :: "u32 option"
  aip_clan_deaths :: "u32 option"
  aip_clan_assists :: "u32 option"
  aip_clan_contribution :: "u32 option"
  aip_clan_wins :: "u32 option"
  aip_clan_loses :: "u32 option"
  aip_clan_draws :: "u32 option"
  aip_selected_character :: "u32 option"
  aip_play_time :: "u64 option"
  aip_story :: "u8 option"
  aip_achievement_tier1 :: "u64 option"
  aip_guide_mission :: "u8 option"
  aip_voice_type :: "u64 option"
  aip_bTutorial :: "bool option"
  aip_maximum_items :: "u32 option"
  aip_maximum_energy :: "u32 option"
  aip_experience :: "u32 option"
  aip_level :: "u32 option"
  aip_lucky_points :: "u32 option"
  aip_wins :: "u32 option"
  aip_loses :: "u32 option"
  aip_draws :: "u32 option"
  aip_kills :: "u32 option"
  aip_deaths :: "u32 option"
  aip_assists :: "u32 option"
  aip_headshots :: "u32 option"
  aip_highest_kill_streak :: "u32 option"
  aip_melee_kills :: "u32 option"
  aip_rifle_kills :: "u32 option"
  aip_shotgun_kills :: "u32 option"
  aip_sniper_kills :: "u32 option"
  aip_gatling_kills :: "u32 option"
  aip_bazooka_kills :: "u32 option"
  aip_grenade_kills :: "u32 option"
  aip_zombie_kills :: "u32 option"
  aip_infections :: "u32 option"
  aip_nickname :: "string option"

definition new_AccountInfoPatch :: AccountInfoPatch where
  "new_AccountInfoPatch = \<lparr>
     aip_server_id = None, aip_sw_daily_attempts = None, aip_sw_high_score = None,
     aip_sw_highest_wave = None, aip_sw_last_update = None, aip_clan_kills = None,
     aip_clan_deaths = None, aip_clan_assists = None, aip_clan_contribution = None,
     aip_clan_wins = None, aip_clan_loses = None, aip_clan_draws = None,
     aip_selected_character = None, aip_play_time = None, aip_story = None,
     aip_achievement_tier1 = None, aip_guide_mission = None, aip_voice_type = None,
     aip_bTutorial = None, aip_maximum_items = None, aip_maximum_energy = None,
     aip_experience = None, aip_level = None, aip_lucky_points = None, aip_wins = None,
     aip_loses = None, aip_draws = None, aip_kills = None, aip_deaths = None, aip_assists =
     None, aip_headshots = None, aip_highest_kill_streak = None, aip_melee_kills = None,
     aip_rifle_kills = None, aip_shotgun_kills = None, aip_sniper_kills = None,
     aip_gatling_kills = None, aip_bazooka_kills = None, aip_grenade_kills = None,
     aip_zombie_kills = None, aip_infections = None, aip_nickname = None\<rparr>"

record PlayerMissionsPatch =
  pmp_mission1 :: "u32 option"
  pmp_mission2 :: "u32 option"
  pmp_mission3 :: "u32 option"
  pmp_goal1 :: "u32 option"
  pmp_goal2 :: "u32 option"
  pmp_goal3 :: "u32 option"
  pmp_update_time :: "u64 option"

definition new_PlayerMissionsPatch :: PlayerMissionsPatch where
  "new_PlayerMissionsPatch = \<lparr>
     pmp_mission1 = None, pmp_mission2 = None, pmp_mission3 = None, pmp_goal1 = None,
     pmp_goal2 = None, pmp_goal3 = None, pmp_update_time = None\<rparr>"

record PlayerMonthlyRewardPatch =
  pmr_day_count :: "u32 option"
  pmr_last_time_update :: "u64 option"

record PlayerWeeklyRewardPatch =
  pwr_day_count :: "u32 option"
  pwr_last_time_update :: "u64 option"

record PlayerPlaytimePatch =
  ppt_daily_seconds :: "u32 option"
  ppt_claimed_stage :: "u32 option"
  ppt_last_time_update :: "u64 option"

record PlayerBattlePassPatch =
  pbp_season :: "u32 option"
  pbp_level :: "u32 option"
  pbp_xp :: "u32 option"
  pbp_has_premium :: "u8 option"
  pbp_claimed_free :: "u8 list option"
  pbp_claimed_premium :: "u8 list option"
  pbp_current_mission_id :: "u32 option"
  pbp_mission_progress :: "u32 option"
  pbp_reset_count :: "u32 option"

definition new_PlayerBattlePassPatch :: PlayerBattlePassPatch where
  "new_PlayerBattlePassPatch = \<lparr>
     pbp_season = None, pbp_level = None, pbp_xp = None, pbp_has_premium = None,
     pbp_claimed_free = None, pbp_claimed_premium = None, pbp_current_mission_id = None,
     pbp_mission_progress = None, pbp_reset_count = None\<rparr>"

datatype MailSide = Side_Sender | Side_Receiver

record MailInsert =
  mi_receiver_id :: "u32 option"
  mi_sender_nickname :: "string option"
  mi_receiver_nickname :: "string option"
  mi_message :: string
  mi_gift_item_id :: u32
  mi_is_new :: bool

datatype MailOp = Mail_MarkRead | Mail_Delete | Mail_Insert

record MailboxPatch =
  mbp_op :: MailOp
  mbp_mail_id :: u32
  mbp_read :: "bool option"
  mbp_side :: "MailSide option"
  mbp_insert :: "MailInsert option"

definition new_MailboxPatch :: MailboxPatch where
  "new_MailboxPatch = \<lparr>
     mbp_op = Mail_MarkRead, mbp_mail_id = 0, mbp_read = None, mbp_side = None, mbp_insert = None\<rparr>"

datatype SessionsOp = Sessions_Delete | Sessions_Insert

record PlayerSessionsPatch =
  pss_op :: SessionsOp
  pss_aid :: u32
  pss_key :: u64

datatype SocialOp = Social_Delete | Social_InsertOrUpdate

record PlayerSocialPatch =
  psp_op :: SocialOp
  psp_aid :: u32
  psp_targetAid :: u32
  psp_State :: "u8 option"
  psp_TargetNickname :: "string option"

record GachaPityPatch =
  gpp_gacha_type :: u32
  gpp_lucky_points :: u32

record MatchInfoHistoryAdd =
  mha_MatchUniqueId :: string
  mha_Sid :: u16
  mha_Aid :: u32
  mha_IsWin :: bool
  mha_IsLose :: bool
  mha_IsHost :: bool
  mha_IsDraw :: bool
  mha_IsClanMatch :: bool
  mha_WinRule :: u32
  mha_TimeRule :: u32
  mha_WinRuleType :: string
  mha_PlayTime :: u32
  mha_Level :: u32
  mha_Experience :: u32
  mha_Energy :: u32
  mha_MicroPoints :: u32
  mha_room_index :: u32
  mha_redscore :: u32
  mha_bluescore :: u32
  mha_team_id :: u32
  mha_room_mode :: u32
  mha_room_map :: u32
  mha_SelectedCharacter :: u32
  mha_Kills :: u32
  mha_Deaths :: u32
  mha_Assists :: u32
  mha_Headshots :: u32
  mha_HighestKillStreak :: u32
  mha_MeleeKills :: u32
  mha_RifleKills :: u32
  mha_ShotgunKills :: u32
  mha_SniperKills :: u32
  mha_GatlingKills :: u32
  mha_BazookaKills :: u32
  mha_GrenadeKills :: u32
  mha_ZombieKills :: u32
  mha_Infections :: u32
  mha_MatchStartTime :: u64
  mha_MatchStartUtc :: string
  mha_MatchEndTime :: u64
  mha_MatchEndUtc :: string
  mha_Hair :: u32
  mha_Face :: u32
  mha_Upper :: u32
  mha_Under :: u32
  mha_Skirt :: u32
  mha_Gloves :: u32
  mha_Boots :: u32
  mha_HeadAcc :: u32
  mha_WaistAcc :: u32
  mha_BackAcc :: u32
  mha_Melee :: u32
  mha_Rifle :: u32
  mha_Shotgun :: u32
  mha_Sniper :: u32
  mha_Gatling :: u32
  mha_Bazooka :: u32
  mha_Grenade :: u32
  mha_IsItemReward :: bool
  mha_reward_item :: u32
  mha_IsMvp :: bool
  mha_IsEntryFragger :: bool
  mha_IsBullseye :: bool
  mha_IsSupport :: bool
  mha_IsBomba :: bool
  mha_MvpScore :: u32
  mha_EntryFraggerScore :: u32
  mha_BullseyeScore :: u32
  mha_SupportScore :: u32
  mha_BombaScore :: u32
  mha_BestKdScore :: u32
  mha_CaptureScore :: u32
  mha_WonRoundScore :: u32
  mha_ArmsRaceScore :: u32
  mha_ZombieScore :: u32
  mha_ADR :: u32
  mha_IsParty :: bool
  mha_Restriction :: u32
  mha_MaxPlayers :: u32

datatype DbOp =
  Op_ItemPatch ItemPatchCtx
| Op_ItemAdd ItemAddCtx
| Op_ItemDelete ItemDeleteCtx
| Op_Currency AccountCurrencyDelta
| Op_AccountInfo AccountInfoPatch
| Op_Missions PlayerMissionsPatch
| Op_Monthly PlayerMonthlyRewardPatch
| Op_Weekly PlayerWeeklyRewardPatch
| Op_Playtime PlayerPlaytimePatch
| Op_BattlePass PlayerBattlePassPatch
| Op_Mailbox MailboxPatch
| Op_MatchHistory MatchInfoHistoryAdd
| Op_Sessions PlayerSessionsPatch
| Op_Social PlayerSocialPatch
| Op_GachaPity GachaPityPatch

record DatabaseUpdateCtx =
  ctx_sid :: u32
  ctx_aid :: u32
  ctx_ops :: "DbOp list"

section \<open>Validated changes\<close>

record ResolvedItemPatch =
  rip_serial :: u64
  rip_patch :: ItemPatchCtx

record ValidatedDbUpdates =
  v_sid :: u32
  v_aid :: u32
  v_items_patches :: "ResolvedItemPatch list"
  v_items_added :: "Item list"
  v_items_deleted :: "ItemSerialInfo list"
  v_currency_updates :: "AccountCurrencyDelta list"
  v_acc_info_patches :: "AccountInfoPatch list"
  v_player_missions_patches :: "PlayerMissionsPatch list"
  v_player_monthly_reward_patches :: "PlayerMonthlyRewardPatch list"
  v_player_weekly_reward_patches :: "PlayerWeeklyRewardPatch list"
  v_player_playtime_patches :: "PlayerPlaytimePatch list"
  v_player_battlepass_patches :: "PlayerBattlePassPatch list"
  v_mailbox_patches :: "MailboxPatch list"
  v_match_history_adds :: "MatchInfoHistoryAdd list"
  v_player_sessions_patches :: "PlayerSessionsPatch list"
  v_player_social_patches :: "PlayerSocialPatch list"
  v_gacha_pity_patches :: "GachaPityPatch list"

definition new_ValidatedDbUpdates :: "u32 \<Rightarrow> u32 \<Rightarrow> ValidatedDbUpdates" where
  "new_ValidatedDbUpdates sid aid = \<lparr>
     v_sid = sid, v_aid = aid, v_items_patches = [], v_items_added = [], v_items_deleted = [],
     v_currency_updates = [], v_acc_info_patches = [], v_player_missions_patches = [],
     v_player_monthly_reward_patches = [], v_player_weekly_reward_patches = [],
     v_player_playtime_patches = [], v_player_battlepass_patches = [], v_mailbox_patches = [],
     v_match_history_adds = [], v_player_sessions_patches = [], v_player_social_patches = [],
     v_gacha_pity_patches = []\<rparr>"

record ApplyCacheUpdateResult =
  ar_patched_serials :: "u64 list"
  ar_deleted_serials :: "u64 list"
  ar_added_serials :: "u64 list"
  ar_new_mp :: u32
  ar_new_rt :: u32
  ar_new_coupons :: u32
  ar_new_energy :: u32

definition new_ApplyCacheUpdateResult :: ApplyCacheUpdateResult where
  "new_ApplyCacheUpdateResult = \<lparr>
     ar_patched_serials = [], ar_deleted_serials = [], ar_added_serials = [], ar_new_mp = 0,
     ar_new_rt = 0, ar_new_coupons = 0, ar_new_energy = 0\<rparr>"

record ShopItem =
  shop_item_number :: InventoryItemNumber
  shop_expire_time :: u32
  shop_serial_info :: ItemSerialInfo

record ResultLevelUpInfo =
  rl_sid :: u32
  rl_level_up :: bool
  rl_new_level :: u32
  rl_reward_mp :: "u32 option"
  rl_reward_item :: "ShopItem option"

definition new_ResultLevelUpInfo :: "u32 \<Rightarrow> ResultLevelUpInfo" where
  "new_ResultLevelUpInfo sid = \<lparr>
     rl_sid = sid, rl_level_up = False, rl_new_level = 0, rl_reward_mp = None, rl_reward_item = None\<rparr>"

section \<open>What is stored beside the accounts\<close>

record SocialInfo =
  soc_Aid :: u32
  soc_targetAid :: u32
  soc_State :: u8
  soc_TargetNickname :: string

definition Social_Accepted :: u8 where "Social_Accepted = 0"
definition Social_Pending :: u8 where "Social_Pending = 1"
definition Social_Blocked :: u8 where "Social_Blocked = 2"

definition new_MailboxData :: MailboxData where
  "new_MailboxData = \<lparr>
     mb_mail_id = 0, mb_sender_account_id = 0, mb_sender_nickname = [], mb_receiver_account_id = 0,
     mb_receiver_nickname = [], mb_time = 0, mb_gift_itemid = 0, mb_message = [], mb_is_new = False,
     mb_deleted_from_sender = False, mb_deleted_from_receiver = False\<rparr>"

record stores =
  CSocial :: "(u16, SocialInfo list) fmap"
  CMailboxData :: "(u32, MailboxData) fmap"
  CMailSent :: "(u32, u32 list) fmap"
  CMailRecv :: "(u32, u32 list) fmap"
  CGiftSent :: "(u32, u32 list) fmap"
  CGiftRecv :: "(u32, u32 list) fmap"

section \<open>Sales and the battle pass\<close>

record GachaponSaleInfo =
  sale_gachapon_id :: u32
  sale_sale_price :: u32
  sale_start_date :: u32
  sale_end_date :: u32

record SystemBattlePassSeason =
  bps_season :: u32
  bps_start_date :: u64
  bps_end_date :: u64
  bps_reset_base_cost :: u32

record SystemBattlePassLevel =
  bpl_season :: u32
  bpl_level :: u32
  bpl_xp_required :: u32
  bpl_free_item :: u32
  bpl_premium_item :: u32

record SystemBattlePassMission =
  bpm_mission_id :: u32
  bpm_description :: string
  bpm_criteria_type :: u32
  bpm_criteria_target :: u32
  bpm_xp_reward :: u32

record PlayerBattlePass =
  bp_player_account_id :: u32
  bp_season :: u32
  bp_level :: u32
  bp_xp :: u32
  bp_has_premium :: u8
  bp_claimed_free :: "u8 list"
  bp_claimed_premium :: "u8 list"
  bp_current_mission_id :: u32
  bp_mission_progress :: u32
  bp_reset_count :: u32

definition new_PlayerBattlePass :: PlayerBattlePass where
  "new_PlayerBattlePass = \<lparr>
     bp_player_account_id = 0, bp_season = 0, bp_level = 0, bp_xp = 0, bp_has_premium = 0, bp_claimed_free = replicate 16 0,
     bp_claimed_premium = replicate 16 0, bp_current_mission_id = 0, bp_mission_progress = 0, bp_reset_count = 0\<rparr>"

end
