(* ===== verification/Updates.thy ===== *)
theory Updates
  imports Items Update_Data
begin

text \<open>
  How the main server changes accounts (\<open>CMainServer.h\<close>): a handler lists changes,
  \<open>ValidateDatabaseUpdates\<close> checks them against the cached account and nets the currencies, the
  database commits them, and \<open>ApplyDatabaseUpdates\<close> performs them on the caches. Applying may fail
  half way, so it returns the state it has reached beside the error. The accounts are a map,
  walked in the order \<open>aids\<close> where the code iterates; \<open>now\<close> is the clock.
\<close>

section \<open>Nicknames\<close>

definition to_lower :: "char \<Rightarrow> char" where
  "to_lower c = (if 65 \<le> (of_char c :: nat) \<and> (of_char c :: nat) \<le> 90 then char_of ((of_char c :: nat) + 32) else c)"

definition ToLowercase :: "string \<Rightarrow> string" where
  "ToLowercase r = map to_lower r"

definition str_contains :: "string \<Rightarrow> string \<Rightarrow> bool" where
  "str_contains f s \<longleftrightarrow> list_ex (\<lambda>i. take (length f) (drop i s) = f) [0..<length s + 1]"

definition allowedChars :: string where
  "allowedChars = ''abcdefghijklmnopqrstuvwxyz0123456789~!@#$%^&*()-_=+[{]}<.>/?''"

definition forbiddenSubstrings :: "string list" where
  "forbiddenSubstrings =
    [''[gm]'', ''[mod]'', ''{gm}'', ''(gm)'', ''{mod}'', ''(mod)'', ''admin'', ''administrator'',
     ''gamemaster'', ''moderator'', ''retard'', ''jew'', ''nigger'', ''nigga'', ''faggot'', ''tranny'']"

definition IsValidNickname :: "string \<Rightarrow> bool" where
  "IsValidNickname r =
    (let nick = ToLowercase r
     in list_all (\<lambda>c. c \<in> set allowedChars) nick
        \<and> list_all (\<lambda>f. \<not> str_contains f nick) forbiddenSubstrings)"

record OnlineNickIdentity =
  oni_sid :: u16
  oni_aid :: u32
  oni_uid :: UniqueId
  oni_nickname :: string
  oni_room_id :: u32
  oni_party_id :: u32
  oni_in_room :: bool
  oni_in_party :: bool
  oni_playing :: bool

definition new_OnlineNickIdentity :: OnlineNickIdentity where
  "new_OnlineNickIdentity = \<lparr>
     oni_sid = 0, oni_aid = - 1, oni_uid = new_UniqueId 0 0, oni_nickname = [], oni_room_id = 0,
     oni_party_id = 0, oni_in_room = False, oni_in_party = False, oni_playing = False\<rparr>"

fun ResolveOnlineByNickname :: "u16 list \<Rightarrow> (u16 \<Rightarrow> Player option) \<Rightarrow> string \<Rightarrow> OnlineNickIdentity" where
  "ResolveOnlineByNickname [] accounts nickname = new_OnlineNickIdentity"
| "ResolveOnlineByNickname (k # order) accounts nickname =
    (case accounts k of
       None \<Rightarrow> ResolveOnlineByNickname order accounts nickname
     | Some acc \<Rightarrow>
         if 0 <s acc_Index (pl_acc_info acc) \<and> ToLowercase (acc_Nickname (pl_acc_info acc)) = ToLowercase nickname then
           \<lparr>oni_sid = pl_session_id acc, oni_aid = acc_Index (pl_acc_info acc), oni_uid = pl_uid acc,
            oni_nickname = acc_Nickname (pl_acc_info acc), oni_room_id = pl_room_id acc,
            oni_party_id = pl_party_id acc, oni_in_room = pl_in_room acc, oni_in_party = pl_in_party acc,
            oni_playing = pl_playing acc\<rparr>
         else ResolveOnlineByNickname order accounts nickname)"

definition IsBlockedAlready :: "SocialInfo list \<Rightarrow> u32 \<Rightarrow> bool" where
  "IsBlockedAlready socials aid \<longleftrightarrow>
     List.find (\<lambda>s. soc_targetAid s = aid \<and> soc_State s = Social_Blocked) socials \<noteq> None"

definition GetPlayerSocial :: "SocialInfo list \<Rightarrow> u32 \<Rightarrow> SocialInfo option" where
  "GetPlayerSocial s aid = List.find (\<lambda>si. soc_targetAid si = aid) s"

section \<open>Validation\<close>

text \<open>The sums per currency; they wrap.\<close>

record Accum =
  rewards :: u32
  costs :: u32

definition add_delta :: "AccountCurrencyDelta \<Rightarrow> (CurrencyType \<Rightarrow> Accum) \<Rightarrow> CurrencyType \<Rightarrow> Accum" where
  "add_delta cur bucket =
    (let a = bucket (acd_type cur)
     in bucket(acd_type cur :=
          if acd_is_reward cur then a\<lparr>rewards := rewards a + acd_value cur\<rparr>
          else a\<lparr>costs := costs a + acd_value cur\<rparr>))"

definition finalize_currency :: "(CurrencyType \<Rightarrow> Accum) \<Rightarrow> CurrencyType \<Rightarrow> AccountCurrencyDelta list" where
  "finalize_currency bucket type =
    (let a = bucket type
     in if rewards a = 0 \<and> costs a = 0 then []
        else if rewards a \<ge> costs a then
          (let v = rewards a - costs a
           in if v > 0 then [\<lparr>acd_type = type, acd_value = v, acd_is_reward = True\<rparr>] else [])
        else
          (let v = costs a - rewards a
           in if v > 0 then [\<lparr>acd_type = type, acd_value = v, acd_is_reward = False\<rparr>] else []))"

definition net_currencies :: "(CurrencyType \<Rightarrow> Accum) \<Rightarrow> AccountCurrencyDelta list" where
  "net_currencies bucket =
     finalize_currency bucket Cur_MP @ finalize_currency bucket Cur_RT
     @ finalize_currency bucket Cur_COUPONS @ finalize_currency bucket Cur_ENERGY"

definition item_serial :: "Item \<Rightarrow> u64" where
  "item_serial it = serial_data (inv_serial_info (it_item_info it))"

definition selects :: "game_data \<Rightarrow> u32 \<Rightarrow> u8 \<Rightarrow> Item \<Rightarrow> bool" where
  "selects g t c it =
    (let info = or_null new_ItemInfo (item_id_of it) (CItemsInfo g)
     in item_Id info \<noteq> 0 \<and> item_Type info = t \<and> it_character_id it = c)"

definition resolve_serial :: "game_data \<Rightarrow> Item list \<Rightarrow> ItemPatchCtx \<Rightarrow> u64 option" where
  "resolve_serial g items p =
    (case sel_serial (ip_sel p) of
       Some s \<Rightarrow> Some (serial_data s)
     | None \<Rightarrow>
         (case (sel_item_type (ip_sel p), sel_character_id (ip_sel p)) of
            (Some t, Some c) \<Rightarrow>
              (case (case ip_is_equipped p of
                       None \<Rightarrow> None
                     | Some e \<Rightarrow> List.find (\<lambda>it. selects g t c it \<and> it_is_equipped it \<noteq> of_bool e) items) of
                 Some it \<Rightarrow> Some (item_serial it)
               | None \<Rightarrow> map_option item_serial (List.find (selects g t c) items))
          | _ \<Rightarrow> None))"

fun collect_deletes :: "Item list \<Rightarrow> ItemSerialInfo list \<Rightarrow> ItemSerialInfo list \<Rightarrow> DbUpdateError + ItemSerialInfo list" where
  "collect_deletes items [] deleted = Inr deleted"
| "collect_deletes items (s # ss) deleted =
    (if List.find (\<lambda>it. item_serial it = serial_data s) items = None then Inl ItemNotFound
     else collect_deletes items ss (deleted @ [s]))"

type_synonym collected = "ValidatedDbUpdates \<times> (CurrencyType \<Rightarrow> Accum)"

definition collect_op :: "game_data \<Rightarrow> Player \<Rightarrow> bool \<Rightarrow> DbOp \<Rightarrow> collected \<Rightarrow> DbUpdateError + collected" where
  "collect_op g acc bypass_inv_limit op c = (case c of (out, bucket) \<Rightarrow>
    (case op of
       Op_ItemPatch p \<Rightarrow>
         (case resolve_serial g (pl_inventory_items acc) p of
            None \<Rightarrow> Inl ItemNotFound
          | Some serial \<Rightarrow>
              Inr (out\<lparr>v_items_patches := v_items_patches out @ [\<lparr>rip_serial = serial, rip_patch = p\<rparr>]\<rparr>, bucket))
     | Op_ItemDelete d \<Rightarrow>
         (case collect_deletes (pl_inventory_items acc) (idel_serials d) (v_items_deleted out) of
            Inl e \<Rightarrow> Inl e
          | Inr deleted \<Rightarrow> Inr (out\<lparr>v_items_deleted := deleted\<rparr>, bucket))
     | Op_ItemAdd a \<Rightarrow>
         if \<not> bypass_inv_limit \<and> length (pl_inventory_items acc) + length (v_items_added out)
              > unat (acc_MaximumItems (pl_acc_info acc)) then Inl InventoryFull
         else Inr (out\<lparr>v_items_added := v_items_added out @ ia_items a\<rparr>, bucket)
     | Op_Currency cur \<Rightarrow> Inr (out, add_delta cur bucket)
     | Op_AccountInfo x \<Rightarrow> Inr (out\<lparr>v_acc_info_patches := v_acc_info_patches out @ [x]\<rparr>, bucket)
     | Op_Missions x \<Rightarrow> Inr (out\<lparr>v_player_missions_patches := v_player_missions_patches out @ [x]\<rparr>, bucket)
     | Op_Monthly x \<Rightarrow> Inr (out\<lparr>v_player_monthly_reward_patches := v_player_monthly_reward_patches out @ [x]\<rparr>, bucket)
     | Op_Weekly x \<Rightarrow> Inr (out\<lparr>v_player_weekly_reward_patches := v_player_weekly_reward_patches out @ [x]\<rparr>, bucket)
     | Op_Playtime x \<Rightarrow> Inr (out\<lparr>v_player_playtime_patches := v_player_playtime_patches out @ [x]\<rparr>, bucket)
     | Op_BattlePass x \<Rightarrow> Inr (out\<lparr>v_player_battlepass_patches := v_player_battlepass_patches out @ [x]\<rparr>, bucket)
     | Op_Mailbox x \<Rightarrow> Inr (out\<lparr>v_mailbox_patches := v_mailbox_patches out @ [x]\<rparr>, bucket)
     | Op_MatchHistory x \<Rightarrow> Inr (out\<lparr>v_match_history_adds := v_match_history_adds out @ [x]\<rparr>, bucket)
     | Op_Sessions x \<Rightarrow> Inr (out\<lparr>v_player_sessions_patches := v_player_sessions_patches out @ [x]\<rparr>, bucket)
     | Op_Social x \<Rightarrow> Inr (out\<lparr>v_player_social_patches := v_player_social_patches out @ [x]\<rparr>, bucket)
     | Op_GachaPity x \<Rightarrow> Inr (out\<lparr>v_gacha_pity_patches := v_gacha_pity_patches out @ [x]\<rparr>, bucket)))"

primrec collect_ops :: "game_data \<Rightarrow> Player \<Rightarrow> bool \<Rightarrow> DbOp list \<Rightarrow> collected \<Rightarrow> DbUpdateError + collected" where
  "collect_ops g acc bypass [] c = Inr c"
| "collect_ops g acc bypass (op # ops) c =
    (case collect_op g acc bypass op c of Inl e \<Rightarrow> Inl e | Inr c' \<Rightarrow> collect_ops g acc bypass ops c')"

definition MAX_COUPONS :: u32 where "MAX_COUPONS = 250"
definition MAX_UINT32 :: u32 where "MAX_UINT32 = 0xFFFFFFFF"

text \<open>The differences on the right wrap when the amount is above the limit.\<close>

definition check_currency :: "FrontAccount \<Rightarrow> AccountCurrencyDelta \<Rightarrow> DbUpdateError option" where
  "check_currency a cu =
    (case acd_type cu of
       Cur_MP \<Rightarrow>
         if \<not> acd_is_reward cu then (if acc_MicroPoints a < acd_value cu then Some InsufficientMP else None)
         else (if acc_MicroPoints a > MAX_UINT32 - acd_value cu then Some MpFull else None)
     | Cur_RT \<Rightarrow>
         if \<not> acd_is_reward cu then (if acc_RockTokens a < acd_value cu then Some InsufficientRT else None)
         else (if acc_RockTokens a > MAX_UINT32 - acd_value cu then Some RtFull else None)
     | Cur_COUPONS \<Rightarrow>
         if \<not> acd_is_reward cu then (if acc_Coupons a < acd_value cu then Some InsufficientCOUPONS else None)
         else (if acc_Coupons a > MAX_COUPONS - acd_value cu then Some CouponsFull else None)
     | Cur_ENERGY \<Rightarrow>
         if \<not> acd_is_reward cu then (if acc_Energy a < acd_value cu then Some InsufficientENERGY else None)
         else (if acc_Energy a > acc_MaximumEnergy a - acd_value cu then Some EnergyFull else None))"

text \<open>A comparison with an empty optional is false.\<close>

definition above :: "u32 option \<Rightarrow> u32 \<Rightarrow> bool" where
  "above v limit = (case v of None \<Rightarrow> False | Some x \<Rightarrow> x > limit)"

definition check_info :: "AccountInfoPatch \<Rightarrow> DbUpdateError option" where
  "check_info aip =
    (if above (aip_maximum_energy aip) 5000 then Some MaxEnergyReachedAlready
     else if above (aip_maximum_items aip) 1000 then Some MaxInventoryItemsReachedAlready
     else case aip_nickname aip of
       None \<Rightarrow> None
     | Some nick \<Rightarrow>
         if length nick < 3 then Some AVA_CREATE_SHORTNAME
         else if \<not> IsValidNickname nick then Some AVA_CREATE_BANNAME else None)"

text \<open>An insertion without its mail is undefined behaviour in the code; no handler builds one.\<close>

definition check_mail ::
  "u16 list \<Rightarrow> (u16 \<Rightarrow> Player option) \<Rightarrow> stores \<Rightarrow> Player \<Rightarrow> MailboxPatch \<Rightarrow> DbUpdateError option" where
  "check_mail aids accounts st acc mbp =
    (if mbp_op mbp \<in> {Mail_Delete, Mail_MarkRead} then
       (if mbp_mail_id mbp = 0 then Some MEMO_MAIL_NOT_FOUND
        else if mb_mail_id (or_null new_MailboxData (mbp_mail_id mbp) (CMailboxData st)) = 0 then Some MEMO_MAIL_NOT_FOUND
        else None)
     else
       (let my_aid = acc_Index (pl_acc_info acc)
        in if length (or_null [] my_aid (CMailSent st)) \<ge> 100 then Some MEMO_MAIL_FULL_SENDER
           else case mbp_insert mbp of
             None \<Rightarrow> None
           | Some ins \<Rightarrow>
               (case mi_receiver_nickname ins of
                  None \<Rightarrow> None
                | Some nick \<Rightarrow>
                    if nick = acc_Nickname (pl_acc_info acc) then Some MEMO_MAIL_SEND_MYSELF
                    else
                      (let receiver = ResolveOnlineByNickname aids accounts nick
                       in if oni_aid receiver = 0 then None
                          else if IsBlockedAlready (or_null [] (pl_session_id acc) (CSocial st)) (oni_aid receiver)
                            then Some MEMO_MAIL_BLOCKEDBY_SENDER
                          else if IsBlockedAlready (or_null [] (oni_sid receiver) (CSocial st)) my_aid
                            then Some MEMO_MAIL_BLOCKEDBY_RECEIVER
                          else if length (or_null [] (oni_aid receiver) (CMailRecv st)) \<ge> 100
                            then Some MEMO_MAIL_FULL_RECEIVER
                          else if mi_gift_item_id ins \<noteq> 0 \<and> length (or_null [] (oni_aid receiver) (CGiftRecv st)) \<ge> 100
                            then Some MEMO_GIFT_FULL_RECEIVER
                          else None))))"

primrec first_error :: "('a \<Rightarrow> DbUpdateError option) \<Rightarrow> 'a list \<Rightarrow> DbUpdateError option" where
  "first_error f [] = None"
| "first_error f (x # xs) = (case f x of Some e \<Rightarrow> Some e | None \<Rightarrow> first_error f xs)"

definition ValidateDatabaseUpdates ::
  "game_data \<Rightarrow> u16 list \<Rightarrow> (u16 \<Rightarrow> Player option) \<Rightarrow> stores \<Rightarrow> Player \<Rightarrow> DatabaseUpdateCtx \<Rightarrow> bool \<Rightarrow> bool
   \<Rightarrow> DbUpdateError + ValidatedDbUpdates" where
  "ValidateDatabaseUpdates g aids accounts st acc ctx bypass_inv_limit bypass_currency_limits =
    (case collect_ops g acc bypass_inv_limit (ctx_ops ctx)
            (new_ValidatedDbUpdates (ctx_sid ctx) (ctx_aid ctx), \<lambda>_. \<lparr>rewards = 0, costs = 0\<rparr>) of
       Inl e \<Rightarrow> Inl e
     | Inr (out0, bucket) \<Rightarrow>
         (let out = out0\<lparr>v_currency_updates := v_currency_updates out0 @ net_currencies bucket\<rparr>
          in case (if bypass_currency_limits then None
                   else first_error (check_currency (pl_acc_info acc)) (v_currency_updates out)) of
               Some e \<Rightarrow> Inl e
             | None \<Rightarrow>
                 (case first_error check_info (v_acc_info_patches out) of
                    Some e \<Rightarrow> Inl e
                  | None \<Rightarrow>
                      (case first_error (check_mail aids accounts st acc) (v_mailbox_patches out) of
                         Some e \<Rightarrow> Inl e
                       | None \<Rightarrow> Inr out))))"

section \<open>Application\<close>

record apply_state =
  as_player :: Player
  as_stores :: stores
  as_result :: ApplyCacheUpdateResult

definition set_if :: "'a option \<Rightarrow> 'a \<Rightarrow> 'a" where
  "set_if v old = (case v of None \<Rightarrow> old | Some x \<Rightarrow> x)"

text \<open>A loop whose body may return with an error, and the code after it.\<close>

primrec run_each :: "('a \<Rightarrow> 's \<Rightarrow> 's \<times> 'e option) \<Rightarrow> 'a list \<Rightarrow> 's \<Rightarrow> 's \<times> 'e option" where
  "run_each f [] s = (s, None)"
| "run_each f (x # xs) s = (case f x s of (s', None) \<Rightarrow> run_each f xs s' | (s', Some e) \<Rightarrow> (s', Some e))"

definition and_then :: "'s \<times> 'e option \<Rightarrow> ('s \<Rightarrow> 's \<times> 'e option) \<Rightarrow> 's \<times> 'e option" where
  "and_then r k = (case r of (s, None) \<Rightarrow> k s | (s, Some e) \<Rightarrow> (s, Some e))"

fun balance :: "CurrencyType \<Rightarrow> FrontAccount \<Rightarrow> u32" where
  "balance Cur_MP a = acc_MicroPoints a"
| "balance Cur_RT a = acc_RockTokens a"
| "balance Cur_COUPONS a = acc_Coupons a"
| "balance Cur_ENERGY a = acc_Energy a"

fun set_balance :: "CurrencyType \<Rightarrow> u32 \<Rightarrow> FrontAccount \<Rightarrow> FrontAccount" where
  "set_balance Cur_MP b a = a\<lparr>acc_MicroPoints := b\<rparr>"
| "set_balance Cur_RT b a = a\<lparr>acc_RockTokens := b\<rparr>"
| "set_balance Cur_COUPONS b a = a\<lparr>acc_Coupons := b\<rparr>"
| "set_balance Cur_ENERGY b a = a\<lparr>acc_Energy := b\<rparr>"

fun set_new :: "CurrencyType \<Rightarrow> u32 \<Rightarrow> ApplyCacheUpdateResult \<Rightarrow> ApplyCacheUpdateResult" where
  "set_new Cur_MP b r = r\<lparr>ar_new_mp := b\<rparr>"
| "set_new Cur_RT b r = r\<lparr>ar_new_rt := b\<rparr>"
| "set_new Cur_COUPONS b r = r\<lparr>ar_new_coupons := b\<rparr>"
| "set_new Cur_ENERGY b r = r\<lparr>ar_new_energy := b\<rparr>"

definition upd_info :: "(FrontAccount \<Rightarrow> FrontAccount) \<Rightarrow> Player \<Rightarrow> Player" where
  "upd_info f p = p\<lparr>pl_acc_info := f (pl_acc_info p)\<rparr>"

definition apply_currency :: "AccountCurrencyDelta \<Rightarrow> apply_state \<Rightarrow> apply_state \<times> DbUpdateError option" where
  "apply_currency cu s =
    (let old = balance (acd_type cu) (pl_acc_info (as_player s));
         new = (if acd_is_reward cu then old + acd_value cu else old - acd_value cu)
     in (s\<lparr>as_player := upd_info (set_balance (acd_type cu) new) (as_player s),
           as_result := set_new (acd_type cu) new (as_result s)\<rparr>, None))"

definition apply_delete :: "ItemSerialInfo \<Rightarrow> apply_state \<Rightarrow> apply_state \<times> DbUpdateError option" where
  "apply_delete ser s =
    (s\<lparr>as_player := (as_player s)\<lparr>pl_inventory_items :=
           filter (\<lambda>it. item_serial it \<noteq> serial_data ser) (pl_inventory_items (as_player s))\<rparr>,
       as_result := (as_result s)\<lparr>ar_deleted_serials := ar_deleted_serials (as_result s) @ [serial_data ser]\<rparr>\<rparr>, None)"

definition patch_item :: "ItemPatchCtx \<Rightarrow> Item \<Rightarrow> Item" where
  "patch_item p it =
    (let info = it_item_info it; num = inv_item_number info
     in it\<lparr>it_is_equipped := set_if (map_option of_bool (ip_is_equipped p)) (it_is_equipped it),
           it_character_id := set_if (ip_character_id p) (it_character_id it),
           it_item_info := info\<lparr>
             inv_repair := set_if (map_option ucast (ip_repair p)) (inv_repair info),
             inv_energy := set_if (map_option ucast (ip_energy p)) (inv_energy info),
             inv_item_number := num\<lparr>num_item_id := set_if (map_option ucast (ip_new_item_id p)) (num_item_id num)\<rparr>,
             inv_expire_date := set_if (ip_expire_date p) (inv_expire_date info)\<rparr>\<rparr>)"

definition apply_patch :: "ResolvedItemPatch \<Rightarrow> apply_state \<Rightarrow> apply_state \<times> DbUpdateError option" where
  "apply_patch rp s =
    (case update_first (\<lambda>it. item_serial it = rip_serial rp) (patch_item (rip_patch rp))
            (pl_inventory_items (as_player s)) of
       None \<Rightarrow> (s, Some ItemNotFound)
     | Some items \<Rightarrow>
         (s\<lparr>as_player := (as_player s)\<lparr>pl_inventory_items := items\<rparr>,
            as_result := (as_result s)\<lparr>ar_patched_serials := ar_patched_serials (as_result s) @ [rip_serial rp]\<rparr>\<rparr>, None))"

definition apply_adds :: "Item list \<Rightarrow> apply_state \<Rightarrow> apply_state" where
  "apply_adds items s =
     s\<lparr>as_player := (as_player s)\<lparr>pl_inventory_items := pl_inventory_items (as_player s) @ items\<rparr>,
       as_result := (as_result s)\<lparr>ar_added_serials := ar_added_serials (as_result s) @ map item_serial items\<rparr>\<rparr>"

definition patch_account :: "AccountInfoPatch \<Rightarrow> FrontAccount \<Rightarrow> FrontAccount" where
  "patch_account p a = a\<lparr>
       acc_SingleWaveDailyAttempts := set_if (aip_sw_daily_attempts p) (acc_SingleWaveDailyAttempts a),
       acc_SingleWaveHighScore := set_if (aip_sw_high_score p) (acc_SingleWaveHighScore a),
       acc_SingleWaveHighestWave := set_if (aip_sw_highest_wave p) (acc_SingleWaveHighestWave a),
       acc_SingleWaveLastUpdate := set_if (aip_sw_last_update p) (acc_SingleWaveLastUpdate a),
       acc_ClanKills := set_if (aip_clan_kills p) (acc_ClanKills a),
       acc_ClanDeaths := set_if (aip_clan_deaths p) (acc_ClanDeaths a),
       acc_ClanAssists := set_if (aip_clan_assists p) (acc_ClanAssists a),
       acc_ClanContribution := set_if (aip_clan_contribution p) (acc_ClanContribution a),
       acc_ClanWins := set_if (aip_clan_wins p) (acc_ClanWins a),
       acc_ClanLoses := set_if (aip_clan_loses p) (acc_ClanLoses a),
       acc_ClanDraws := set_if (aip_clan_draws p) (acc_ClanDraws a),
       acc_SelectedCharacter := set_if (aip_selected_character p) (acc_SelectedCharacter a),
       acc_PlayTime := set_if (aip_play_time p) (acc_PlayTime a),
       acc_Story := set_if (map_option ucast (aip_story p)) (acc_Story a),
       acc_Achievement := set_if (aip_achievement_tier1 p) (acc_Achievement a),
       acc_GuideMission := set_if (aip_guide_mission p) (acc_GuideMission a),
       acc_VoiceType := set_if (aip_voice_type p) (acc_VoiceType a),
       acc_Tutorial := set_if (aip_bTutorial p) (acc_Tutorial a),
       acc_MaximumEnergy := set_if (aip_maximum_energy p) (acc_MaximumEnergy a),
       acc_MaximumItems := set_if (aip_maximum_items p) (acc_MaximumItems a),
       acc_Experience := set_if (aip_experience p) (acc_Experience a),
       acc_Level := set_if (aip_level p) (acc_Level a),
       acc_LuckyPoints := set_if (aip_lucky_points p) (acc_LuckyPoints a),
       acc_Wins := set_if (aip_wins p) (acc_Wins a),
       acc_Loses := set_if (aip_loses p) (acc_Loses a),
       acc_Draws := set_if (aip_draws p) (acc_Draws a),
       acc_Kills := set_if (aip_kills p) (acc_Kills a),
       acc_Deaths := set_if (aip_deaths p) (acc_Deaths a),
       acc_Assists := set_if (aip_assists p) (acc_Assists a),
       acc_Headshots := set_if (aip_headshots p) (acc_Headshots a),
       acc_HighestKillStreak := set_if (aip_highest_kill_streak p) (acc_HighestKillStreak a),
       acc_MeleeKills := set_if (aip_melee_kills p) (acc_MeleeKills a),
       acc_RifleKills := set_if (aip_rifle_kills p) (acc_RifleKills a),
       acc_ShotgunKills := set_if (aip_shotgun_kills p) (acc_ShotgunKills a),
       acc_SniperKills := set_if (aip_sniper_kills p) (acc_SniperKills a),
       acc_GatlingKills := set_if (aip_gatling_kills p) (acc_GatlingKills a),
       acc_BazookaKills := set_if (aip_bazooka_kills p) (acc_BazookaKills a),
       acc_GrenadeKills := set_if (aip_grenade_kills p) (acc_GrenadeKills a),
       acc_ZombieKills := set_if (aip_zombie_kills p) (acc_ZombieKills a),
       acc_Infections := set_if (aip_infections p) (acc_Infections a),
       acc_Nickname := set_if (aip_nickname p) (acc_Nickname a)\<rparr>"

definition apply_info :: "AccountInfoPatch \<Rightarrow> apply_state \<Rightarrow> apply_state \<times> DbUpdateError option" where
  "apply_info aip s = (s\<lparr>as_player := upd_info (patch_account aip) (as_player s)\<rparr>, None)"

definition patch_missions :: "PlayerMissionsPatch \<Rightarrow> PlayerDailyMission \<Rightarrow> PlayerDailyMission" where
  "patch_missions p m = m\<lparr>
     pdm_update_time := set_if (pmp_update_time p) (pdm_update_time m),
     pdm_mission1 := set_if (pmp_mission1 p) (pdm_mission1 m),
     pdm_mission2 := set_if (pmp_mission2 p) (pdm_mission2 m),
     pdm_mission3 := set_if (pmp_mission3 p) (pdm_mission3 m),
     pdm_goal_mission1 := set_if (pmp_goal1 p) (pdm_goal_mission1 m),
     pdm_goal_mission2 := set_if (pmp_goal2 p) (pdm_goal_mission2 m),
     pdm_goal_mission3 := set_if (pmp_goal3 p) (pdm_goal_mission3 m)\<rparr>"

definition apply_missions :: "PlayerMissionsPatch \<Rightarrow> apply_state \<Rightarrow> apply_state \<times> DbUpdateError option" where
  "apply_missions pmp s =
     (s\<lparr>as_player := (as_player s)\<lparr>pl_daily_mission_info := patch_missions pmp (pl_daily_mission_info (as_player s))\<rparr>\<rparr>, None)"

definition delete_mail :: "u32 \<Rightarrow> u32 \<Rightarrow> MailboxData \<Rightarrow> stores \<Rightarrow> stores" where
  "delete_mail my_aid mail_id data st =
    (let st_data =
       (if mb_receiver_account_id data = my_aid then
          (if mb_gift_itemid data \<noteq> 0 then st\<lparr>CGiftRecv := fst (erase_value_at my_aid (mb_mail_id data) (CGiftRecv st))\<rparr>
           else st\<lparr>CMailRecv := fst (erase_value_at my_aid (mb_mail_id data) (CMailRecv st))\<rparr>,
           data\<lparr>mb_deleted_from_receiver := True\<rparr>)
        else if mb_sender_account_id data = my_aid then
          (if mb_gift_itemid data \<noteq> 0 then st\<lparr>CGiftSent := fst (erase_value_at my_aid (mb_mail_id data) (CGiftSent st))\<rparr>
           else st\<lparr>CMailSent := fst (erase_value_at my_aid (mb_mail_id data) (CMailSent st))\<rparr>,
           data\<lparr>mb_deleted_from_sender := True\<rparr>)
        else (st, data))
     in case st_data of (st1, data1) \<Rightarrow>
       st1\<lparr>CMailboxData :=
         if mb_deleted_from_sender data1 \<and> mb_deleted_from_receiver data1 then fst (cache_erase mail_id (CMailboxData st1))
         else fmupd mail_id data1 (CMailboxData st1)\<rparr>)"

definition insert_mail :: "u32 \<Rightarrow> u32 \<Rightarrow> u32 \<Rightarrow> string \<Rightarrow> u32 \<Rightarrow> string \<Rightarrow> MailInsert \<Rightarrow> stores \<Rightarrow> stores" where
  "insert_mail now my_aid mail_id sender_nick receiver_id receiver_nick ins st =
    (let data = \<lparr>mb_mail_id = mail_id, mb_sender_account_id = my_aid, mb_sender_nickname = sender_nick,
           mb_receiver_account_id = receiver_id, mb_receiver_nickname = receiver_nick, mb_time = now,
           mb_gift_itemid = mi_gift_item_id ins, mb_message = mi_message ins, mb_is_new = True,
           mb_deleted_from_sender = False, mb_deleted_from_receiver = False\<rparr>;
         st1 = (if mi_gift_item_id ins \<noteq> 0 then
             st\<lparr>CGiftSent := emplace_back_at my_aid mail_id (CGiftSent st),
                CGiftRecv := emplace_back_at receiver_id mail_id (CGiftRecv st)\<rparr>
           else
             st\<lparr>CMailSent := emplace_back_at my_aid mail_id (CMailSent st),
                CMailRecv := emplace_back_at receiver_id mail_id (CMailRecv st)\<rparr>)
     in st1\<lparr>CMailboxData := fst (cache_insert mail_id data (CMailboxData st1))\<rparr>)"

definition apply_mail :: "u32 \<Rightarrow> MailboxPatch \<Rightarrow> apply_state \<Rightarrow> apply_state \<times> DbUpdateError option" where
  "apply_mail now mbp s =
    (let st = as_stores s; my_aid = acc_Index (pl_acc_info (as_player s))
     in if mbp_op mbp \<in> {Mail_MarkRead, Mail_Delete} then
          (if mbp_mail_id mbp = 0 then (s, Some InvalidMailId)
           else
             (let data = or_null new_MailboxData (mbp_mail_id mbp) (CMailboxData st)
              in if mb_mail_id data = 0 then (s, Some InvalidMailId)
                 else if mbp_op mbp = Mail_MarkRead then
                   (s\<lparr>as_stores := st\<lparr>CMailboxData := fmupd (mbp_mail_id mbp) (data\<lparr>mb_is_new := False\<rparr>) (CMailboxData st)\<rparr>\<rparr>, None)
                 else (s\<lparr>as_stores := delete_mail my_aid (mbp_mail_id mbp) data st\<rparr>, None)))
        else
          (case mbp_insert mbp of
             None \<Rightarrow> (s, Some InvalidMailInserts)
           | Some ins \<Rightarrow>
               (case (mi_sender_nickname ins, mi_receiver_id ins, mi_receiver_nickname ins) of
                  (Some sender, Some rid, Some receiver) \<Rightarrow>
                    if sender = [] \<or> receiver = [] \<or> mi_message ins = [] then (s, Some InvalidMailInserts)
                    else (s\<lparr>as_stores := insert_mail now my_aid (mbp_mail_id mbp) sender rid receiver ins st\<rparr>, None)
                | _ \<Rightarrow> (s, Some InvalidMailInserts))))"

definition apply_social :: "PlayerSocialPatch \<Rightarrow> apply_state \<Rightarrow> apply_state \<times> DbUpdateError option" where
  "apply_social psp s =
    (let st = as_stores s; sid = pl_session_id (as_player s)
     in if psp_aid psp = 0 then (s, Some InvalidAid)
        else if psp_targetAid psp = 0 then (s, Some InvalidTargetAid)
        else
          (case psp_op psp of
             Social_Delete \<Rightarrow>
               (s\<lparr>as_stores := st\<lparr>CSocial := fst (erase_if_at sid (\<lambda>si. soc_targetAid si = psp_targetAid psp) (CSocial st))\<rparr>\<rparr>, None)
           | Social_InsertOrUpdate \<Rightarrow>
               (let info = \<lparr>soc_Aid = psp_aid psp, soc_targetAid = psp_targetAid psp,
                      soc_State = set_if (psp_State psp) 0, soc_TargetNickname = set_if (psp_TargetNickname psp) []\<rparr>
                in (s\<lparr>as_stores := st\<lparr>CSocial := fst (upsert_in_vector_assign sid info
                        (\<lambda>a b. soc_targetAid a = soc_targetAid b) (CSocial st))\<rparr>\<rparr>, None))))"

definition set_pity :: "GachaPityPatch \<Rightarrow> GachaPityEntry list \<Rightarrow> GachaPityEntry list" where
  "set_pity gpp pity =
    (case update_first (\<lambda>e. gpe_gacha_type e = gpp_gacha_type gpp) (\<lambda>e. e\<lparr>gpe_lucky_points := gpp_lucky_points gpp\<rparr>) pity of
       Some pity' \<Rightarrow> pity'
     | None \<Rightarrow> pity @ [\<lparr>gpe_gacha_type = gpp_gacha_type gpp, gpe_lucky_points = gpp_lucky_points gpp\<rparr>])"

definition apply_pity :: "GachaPityPatch \<Rightarrow> apply_state \<Rightarrow> apply_state \<times> DbUpdateError option" where
  "apply_pity gpp s =
     (s\<lparr>as_player := (as_player s)\<lparr>pl_gacha_pity := set_pity gpp (pl_gacha_pity (as_player s))\<rparr>\<rparr>, None)"

definition ApplyDatabaseUpdates ::
  "u32 \<Rightarrow> ValidatedDbUpdates \<Rightarrow> Player \<Rightarrow> stores \<Rightarrow> apply_state \<times> DbUpdateError option" where
  "ApplyDatabaseUpdates now v acc st =
    and_then (run_each apply_currency (v_currency_updates v)
                \<lparr>as_player = acc, as_stores = st, as_result = new_ApplyCacheUpdateResult\<rparr>) (\<lambda>s.
    and_then (run_each apply_delete (v_items_deleted v) s) (\<lambda>s.
    and_then (run_each apply_patch (v_items_patches v) s) (\<lambda>s.
    and_then (run_each apply_info (v_acc_info_patches v) (apply_adds (v_items_added v) s)) (\<lambda>s.
    and_then (run_each apply_missions (v_player_missions_patches v) s) (\<lambda>s.
    and_then (run_each (apply_mail now) (v_mailbox_patches v) s) (\<lambda>s.
    and_then (run_each apply_social (v_player_social_patches v) s) (\<lambda>s.
    run_each apply_pity (v_gacha_pity_patches v) s)))))))"

section \<open>Making items and levelling up\<close>

definition ItemExpire_Unused :: u32 where "ItemExpire_Unused = 1"
definition Origin_From_Game :: u32 where "Origin_From_Game = 0"

definition crafted_item :: "u32 \<Rightarrow> u32 \<Rightarrow> ItemInfo \<Rightarrow> nat \<Rightarrow> Item" where
  "crafted_item now origin info serial =
     new_Item (new_InventoryItemInfo (new_InventoryItemNumber (item_Id info) (item_Stock info)) ItemExpire_Unused
        (new_ItemSerialInfo (of_nat serial) 1 1 origin now) (item_Durability info) 0) (item_Stock info) 0 0 0"

fun craft_items :: "game_data \<Rightarrow> u32 \<Rightarrow> u32 \<Rightarrow> u32 list \<Rightarrow> nat list \<Rightarrow> Item list \<Rightarrow> DbUpdateError + Item list" where
  "craft_items g now origin (i # ids) (s # serials) items =
    (let info = or_null new_ItemInfo i (CItemsInfo g)
     in if item_Id info = 0 then Inl ItemNotFound
        else craft_items g now origin ids serials (items @ [crafted_item now origin info s]))"
| "craft_items g now origin _ _ items = Inr items"

definition CraftInventoryItems :: "game_data \<Rightarrow> u32 \<Rightarrow> Item list \<Rightarrow> u32 list \<Rightarrow> u32 \<Rightarrow> DbUpdateError + ItemAddCtx" where
  "CraftInventoryItems g now inventory item_ids origin =
    (let available_serials = FindLowestAvailableSerialIds inventory (length item_ids)
     in if length available_serials < length item_ids then Inl NotEnoughSerialInfos
        else map_sum id (\<lambda>items. \<lparr>ia_items = items\<rparr>) (craft_items g now origin item_ids available_serials []))"

text \<open>The changes are appended to the handler's list, also those before an error.\<close>

definition ProcessLevelUp ::
  "game_data \<Rightarrow> u32 \<Rightarrow> Player \<Rightarrow> u32 \<Rightarrow> DatabaseUpdateCtx \<Rightarrow> DatabaseUpdateCtx \<times> (DbUpdateError + ResultLevelUpInfo)" where
  "ProcessLevelUp g now acc bonus_exp ctx =
    (let result_info = new_ResultLevelUpInfo (ctx_sid ctx);
         old_level = acc_Level (pl_acc_info acc);
         gi = or_null new_GradeInfo (old_level + 2) (CGradesInfo g);
         new_exp = acc_Experience (pl_acc_info acc) + bonus_exp
     in if grade_Grade gi = 0 \<or> new_exp < grade_Exp gi then
          (ctx\<lparr>ctx_ops := ctx_ops ctx @ [Op_AccountInfo (new_AccountInfoPatch\<lparr>aip_experience := Some new_exp\<rparr>)]\<rparr>,
           Inr result_info)
        else
          (let result_info = result_info\<lparr>rl_level_up := True, rl_new_level := old_level + 1\<rparr>;
               ctx = ctx\<lparr>ctx_ops := ctx_ops ctx @ [Op_AccountInfo (new_AccountInfoPatch
                 \<lparr>aip_experience := Some new_exp, aip_level := Some (old_level + 1)\<rparr>)]\<rparr>;
               (ctx, result_info) =
                 (if grade_RewardPoint gi \<noteq> 0 then
                    (ctx\<lparr>ctx_ops := ctx_ops ctx @ [Op_Currency \<lparr>acd_type = Cur_MP, acd_value = grade_RewardPoint gi, acd_is_reward = True\<rparr>]\<rparr>,
                     result_info\<lparr>rl_reward_mp := Some (grade_RewardPoint gi)\<rparr>)
                  else (ctx, result_info))
           in if grade_RewardItem gi = 0 then (ctx, Inr result_info)
              else case CraftInventoryItems g now (pl_inventory_items acc) [grade_RewardItem gi] Origin_From_Game of
                Inl e \<Rightarrow> (ctx, Inl e)
              | Inr crafted \<Rightarrow>
                  (let item = hd (ia_items crafted);
                       info = or_null new_ItemInfo (item_id_of item) (CItemsInfo g)
                   in (ctx\<lparr>ctx_ops := ctx_ops ctx @ [Op_ItemAdd crafted]\<rparr>,
                       Inr (result_info\<lparr>rl_reward_item := Some \<lparr>
                         shop_item_number = new_InventoryItemNumber (item_id_of item) (item_Stock info),
                         shop_expire_time = ItemExpire_Unused,
                         shop_serial_info = inv_serial_info (it_item_info item)\<rparr>\<rparr>)))))"

end
