(* ===== verification/Ledger.thy ===== *)
theory Ledger
  imports Updates
begin

text \<open>
  Money. The balances of an account are kept twice, in the database and in the cache, and several
  changes of one account can be under way at once: each is validated against the cache when its
  packet arrives, committed by a thread of the database pool and applied to the cache afterwards,
  in any order. The commit's \<open>UPDATE\<close> statement guards every cost by the stored balance
  (\<open>PersistCurrenciesPatches\<close> of \<open>CMariaDatabase.cpp\<close>). A row of the table is its four balances;
  a value above \<open>col_max\<close> does not fit the column and makes the statement fail.
\<close>

section \<open>Committing\<close>

definition PersistCurrenciesPatches ::
  "(CurrencyType \<Rightarrow> nat) \<Rightarrow> (CurrencyType \<Rightarrow> nat) \<Rightarrow> ValidatedDbUpdates \<Rightarrow> (CurrencyType \<Rightarrow> nat) option" where
  "PersistCurrenciesPatches col_max row v =
    (let nets = net_currencies (fold add_delta (v_currency_updates v) (\<lambda>_. \<lparr>rewards = 0, costs = 0\<rparr>))
     in if v_currency_updates v = [] \<or> nets = [] then Some row
        else if \<not> list_all (\<lambda>n. \<not> acd_is_reward n \<longrightarrow> row (acd_type n) \<ge> unat (acd_value n)) nets then None
        else
          (let row' = fold (\<lambda>n r. r(acd_type n :=
                 if acd_is_reward n then r (acd_type n) + unat (acd_value n)
                 else r (acd_type n) - unat (acd_value n))) nets row
           in if list_all (\<lambda>n. row' (acd_type n) \<le> col_max (acd_type n)) nets then Some row' else None))"

section \<open>Sums\<close>

text \<open>What a list of changes adds to a balance, modulo \<open>2 ^ 32\<close>.\<close>

definition signed_value :: "CurrencyType \<Rightarrow> AccountCurrencyDelta \<Rightarrow> u32" where
  "signed_value t cu = (if acd_type cu \<noteq> t then 0 else if acd_is_reward cu then acd_value cu else - acd_value cu)"

definition delta :: "CurrencyType \<Rightarrow> AccountCurrencyDelta list \<Rightarrow> u32" where
  "delta t us = sum_list (map (signed_value t) us)"

lemma delta_simps [simp]:
  "delta t [] = 0" "delta t (u # us) = signed_value t u + delta t us"
  "delta t (us @ vs) = delta t us + delta t vs"
  by (simp_all add: delta_def)

lemma fold_add_delta:
  "rewards (fold add_delta us b t) - costs (fold add_delta us b t) = rewards (b t) - costs (b t) + delta t us"
proof (induction us arbitrary: b)
  case (Cons u us)
  then show ?case by (simp add: add_delta_def Let_def signed_value_def)
qed simp

lemma delta_finalize:
  "delta t (finalize_currency b s) = (if s = t then rewards (b t) - costs (b t) else 0)"
  by (auto simp: finalize_currency_def Let_def signed_value_def word_gt_0)

lemma delta_net: "delta t (net_currencies b) = rewards (b t) - costs (b t)"
  by (cases t) (simp_all add: net_currencies_def delta_finalize)

lemma finalize_types: "u \<in> set (finalize_currency b s) \<Longrightarrow> acd_type u = s"
  by (auto simp: finalize_currency_def Let_def split: if_splits)

lemma finalize_distinct: "distinct (map acd_type (finalize_currency b s))"
  by (simp add: finalize_currency_def Let_def)

lemma net_distinct: "distinct (map acd_type (net_currencies b))"
  using finalize_types [of _ b] finalize_distinct [of b] by (fastforce simp: net_currencies_def)

section \<open>What applying does to the balances\<close>

abbreviation bal :: "CurrencyType \<Rightarrow> Player \<Rightarrow> u32" where
  "bal t p \<equiv> balance t (pl_acc_info p)"

lemma balance_set_balance [simp]: "balance t (set_balance s b a) = (if t = s then b else balance t a)"
  by (cases s; cases t) simp_all

lemma run_each_Cons:
  "run_each f (x # xs) s = (if snd (f x s) = None then run_each f xs (fst (f x s)) else f x s)"
  by (cases "f x s") (auto split: option.split)

lemma run_each_keeps:
  assumes "\<And>x s. P (fst (f x s)) = P s"
  shows "P (fst (run_each f xs s)) = P s"
  by (induction xs arbitrary: s) (simp_all add: run_each_Cons assms del: run_each.simps(2))

lemma fst_and_then: "fst (and_then r k) = (if snd r = None then fst (k (fst r)) else fst r)"
  by (auto simp: and_then_def split: prod.splits option.splits)

lemma balance_patch_account [simp]: "balance t (patch_account p a) = balance t a"
  by (cases t) (simp_all add: patch_account_def)

lemma apply_keeps_balance [simp]:
  "bal t (as_player (fst (apply_delete x s))) = bal t (as_player s)"
  "bal t (as_player (fst (apply_patch y s))) = bal t (as_player s)"
  "bal t (as_player (apply_adds i s)) = bal t (as_player s)"
  "bal t (as_player (fst (apply_info a s))) = bal t (as_player s)"
  "bal t (as_player (fst (apply_missions m s))) = bal t (as_player s)"
  "bal t (as_player (fst (apply_mail now b s))) = bal t (as_player s)"
  "bal t (as_player (fst (apply_social c s))) = bal t (as_player s)"
  "bal t (as_player (fst (apply_pity d s))) = bal t (as_player s)"
  by (simp_all add: apply_delete_def apply_patch_def apply_adds_def apply_info_def upd_info_def apply_missions_def
      apply_mail_def apply_social_def apply_pity_def Let_def split: option.split SocialOp.split)

lemma run_each_balance:
  "(\<And>x s. bal t (as_player (fst (f x s))) = bal t (as_player s))
   \<Longrightarrow> bal t (as_player (fst (run_each f xs s))) = bal t (as_player s)"
  by (rule run_each_keeps)

lemma apply_currency_bal:
  "bal t (as_player (fst (apply_currency cu s))) = bal t (as_player s) + signed_value t cu"
  by (simp add: apply_currency_def Let_def upd_info_def signed_value_def)

lemma run_currency:
  "bal t (as_player (fst (run_each apply_currency us s))) = bal t (as_player s) + delta t us
   \<and> snd (run_each apply_currency us s) = None"
proof (induction us arbitrary: s)
  case (Cons u us)
  have "snd (apply_currency u s) = None" by (simp add: apply_currency_def Let_def)
  then show ?case using Cons [of "fst (apply_currency u s)"] apply_currency_bal [of t u s]
    by (simp add: run_each_Cons add.assoc del: run_each.simps(2))
qed simp

lemma Apply_bal:
  "bal t (as_player (fst (ApplyDatabaseUpdates now v acc st))) = bal t acc + delta t (v_currency_updates v)"
  by (simp add: ApplyDatabaseUpdates_def fst_and_then run_each_balance run_currency)

section \<open>The guarded commit\<close>

lemma fold_finalize:
  "fold add_delta (finalize_currency b s) c t =
    (if s = t then (c t)\<lparr>
       rewards := rewards (c t) + (if costs (b t) \<le> rewards (b t) then rewards (b t) - costs (b t) else 0),
       costs := costs (c t) + (if costs (b t) \<le> rewards (b t) then 0 else costs (b t) - rewards (b t))\<rparr>
     else c t)"
  by (auto simp: finalize_currency_def Let_def add_delta_def word_gt_0)

text \<open>Netting a netted list changes nothing.\<close>

lemma renet: "net_currencies (fold add_delta (net_currencies b) (\<lambda>_. \<lparr>rewards = 0, costs = 0\<rparr>)) = net_currencies b"
proof -
  let ?c = "fold add_delta (net_currencies b) (\<lambda>_. \<lparr>rewards = 0, costs = 0\<rparr>)"
  have c: "?c t = \<lparr>rewards = (if costs (b t) \<le> rewards (b t) then rewards (b t) - costs (b t) else 0),
      costs = (if costs (b t) \<le> rewards (b t) then 0 else costs (b t) - rewards (b t))\<rparr>" for t
    by (cases t) (simp_all add: net_currencies_def fold_finalize)
  have "finalize_currency ?c t = finalize_currency b t" for t
    unfolding finalize_currency_def c by (auto simp: Let_def word_gt_0 not_le)
  then show ?thesis by (simp add: net_currencies_def)
qed

definition commit_one :: "AccountCurrencyDelta \<Rightarrow> (CurrencyType \<Rightarrow> nat) \<Rightarrow> CurrencyType \<Rightarrow> nat" where
  "commit_one n r = r(acd_type n := if acd_is_reward n then r (acd_type n) + unat (acd_value n)
     else r (acd_type n) - unat (acd_value n))"

definition int_delta :: "CurrencyType \<Rightarrow> AccountCurrencyDelta list \<Rightarrow> int" where
  "int_delta t us = (\<Sum>u\<leftarrow>us. if acd_type u \<noteq> t then 0 else if acd_is_reward u then uint (acd_value u) else - uint (acd_value u))"

lemma fold_commit:
  "distinct (map acd_type ns) \<Longrightarrow> \<forall>n \<in> set ns. \<not> acd_is_reward n \<longrightarrow> unat (acd_value n) \<le> row (acd_type n)
   \<Longrightarrow> int (fold commit_one ns row t) = int (row t) + int_delta t ns
     \<and> (t \<notin> acd_type ` set ns \<longrightarrow> fold commit_one ns row t = row t)"
proof (induction ns arbitrary: row)
  case (Cons n ns)
  have "\<forall>m \<in> set ns. \<not> acd_is_reward m \<longrightarrow> unat (acd_value m) \<le> commit_one n row (acd_type m)"
    using Cons.prems by (auto simp: commit_one_def) (metis image_eqI)+
  then have IH: "int (fold commit_one ns (commit_one n row) t) = int (commit_one n row t) + int_delta t ns
     \<and> (t \<notin> acd_type ` set ns \<longrightarrow> fold commit_one ns (commit_one n row) t = commit_one n row t)"
    using Cons.IH [of "commit_one n row"] Cons.prems(1) by simp
  have "int (commit_one n row t) = int (row t)
      + (if acd_type n \<noteq> t then 0 else if acd_is_reward n then uint (acd_value n) else - uint (acd_value n))"
    using Cons.prems(2) by (auto simp: commit_one_def of_nat_diff)
  moreover have "t \<noteq> acd_type n \<Longrightarrow> commit_one n row t = row t" by (simp add: commit_one_def)
  ultimately show ?case using IH by (simp add: int_delta_def)
qed (simp add: int_delta_def)

lemma commit_spec:
  assumes "PersistCurrenciesPatches col_max row v = Some row'" "v_currency_updates v = net_currencies b"
  shows "int (row' t) = int (row t) + int_delta t (v_currency_updates v)"
    "row t \<le> col_max t \<Longrightarrow> row' t \<le> col_max t"
proof -
  let ?ns = "net_currencies b"
  have r: "?ns = [] \<and> row' = row \<or>
      (\<forall>n \<in> set ?ns. \<not> acd_is_reward n \<longrightarrow> unat (acd_value n) \<le> row (acd_type n))
      \<and> row' = fold commit_one ?ns row \<and> (\<forall>n \<in> set ?ns. row' (acd_type n) \<le> col_max (acd_type n))"
    using assms by (auto simp: PersistCurrenciesPatches_def renet Let_def list_all_iff commit_one_def [abs_def] split: if_splits)
  note f = fold_commit [OF net_distinct, of b row t]
  show "int (row' t) = int (row t) + int_delta t (v_currency_updates v)"
    using r f assms(2) by (auto simp: int_delta_def)
  show "row t \<le> col_max t \<Longrightarrow> row' t \<le> col_max t"
    using r f by (cases "t \<in> acd_type ` set ?ns") auto
qed

lemma word_int_delta: "of_int (int_delta t us) = delta t us"
  by (induction us) (simp_all add: int_delta_def signed_value_def delta_def)

text \<open>In the cache's arithmetic.\<close>

lemma commit_word:
  assumes "PersistCurrenciesPatches col_max row v = Some row'" "v_currency_updates v = net_currencies b"
  shows "(of_nat (row' t) :: u32) = of_nat (row t) + delta t (v_currency_updates v)"
proof -
  have "(of_nat (row' t) :: u32) = of_int (int (row' t))" by simp
  also have "\<dots> = of_int (int (row t)) + of_int (int_delta t (v_currency_updates v))"
    by (simp only: commit_spec(1) [OF assms] of_int_add)
  finally show ?thesis by (simp add: word_int_delta)
qed

section \<open>Changes under way\<close>

record ledger =
  lg_db :: "CurrencyType \<Rightarrow> nat"
  lg_acc :: Player
  lg_queue :: "ValidatedDbUpdates list"
  lg_committed :: "ValidatedDbUpdates list"
  lg_log :: "ValidatedDbUpdates list"

text \<open>
  One account. A packet handler validates against the cache and queues the task; a pool thread
  commits it or gives it up; a committed one is applied to whatever the cache is then. Other
  handlers change the player in every way but the balances. The log is the history of commits.
\<close>

inductive ledger_step :: "game_data \<Rightarrow> (CurrencyType \<Rightarrow> nat) \<Rightarrow> ledger \<Rightarrow> ledger \<Rightarrow> bool" for g col_max where
  validate: "ValidateDatabaseUpdates g aids accounts st (lg_acc L) ctx bypass_inv bypass_cur = Inr v
    \<Longrightarrow> ledger_step g col_max L (L\<lparr>lg_queue := lg_queue L @ [v]\<rparr>)"
| commit: "v \<in> set (lg_queue L) \<Longrightarrow> PersistCurrenciesPatches col_max (lg_db L) v = Some row
    \<Longrightarrow> ledger_step g col_max L (L\<lparr>lg_db := row, lg_queue := remove1 v (lg_queue L),
          lg_committed := lg_committed L @ [v], lg_log := lg_log L @ [v]\<rparr>)"
| give_up: "v \<in> set (lg_queue L) \<Longrightarrow> ledger_step g col_max L (L\<lparr>lg_queue := remove1 v (lg_queue L)\<rparr>)"
| apply_committed: "v \<in> set (lg_committed L) \<Longrightarrow> ApplyDatabaseUpdates now v (lg_acc L) st = (s, e)
    \<Longrightarrow> ledger_step g col_max L (L\<lparr>lg_acc := as_player s, lg_committed := remove1 v (lg_committed L)\<rparr>)"
| other_handler: "\<forall>t. bal t p = bal t (lg_acc L) \<Longrightarrow> ledger_step g col_max L (L\<lparr>lg_acc := p\<rparr>)"

definition total_delta :: "CurrencyType \<Rightarrow> ValidatedDbUpdates list \<Rightarrow> u32" where
  "total_delta t vs = (\<Sum>v\<leftarrow>vs. delta t (v_currency_updates v))"

definition total_int :: "CurrencyType \<Rightarrow> ValidatedDbUpdates list \<Rightarrow> int" where
  "total_int t vs = (\<Sum>v\<leftarrow>vs. int_delta t (v_currency_updates v))"

definition ledger_inv :: "(CurrencyType \<Rightarrow> nat) \<Rightarrow> (CurrencyType \<Rightarrow> nat) \<Rightarrow> ledger \<Rightarrow> bool" where
  "ledger_inv col_max row0 L \<longleftrightarrow>
     (\<forall>v \<in> set (lg_queue L). \<exists>b. v_currency_updates v = net_currencies b)
     \<and> (\<forall>t. of_nat (lg_db L t) = bal t (lg_acc L) + total_delta t (lg_committed L)
          \<and> int (lg_db L t) = int (row0 t) + total_int t (lg_log L)
          \<and> lg_db L t \<le> col_max t)"

lemma collect_ops_currency:
  "collect_ops g acc bypass ops c = Inr c' \<Longrightarrow> v_currency_updates (fst c') = v_currency_updates (fst c)
     \<and> snd c' = fold (\<lambda>op b. case op of Op_Currency cur \<Rightarrow> add_delta cur b | _ \<Rightarrow> b) ops (snd c)"
proof (induction ops arbitrary: c)
  case (Cons op ops)
  then show ?case
    by (cases op; cases c) (auto simp: collect_op_def split: option.splits sum.splits if_splits)
qed simp

lemma validated_currency:
  assumes "ValidateDatabaseUpdates g aids accounts st acc ctx bi bc = Inr v"
  shows "v_currency_updates v = net_currencies
    (fold (\<lambda>op b. case op of Op_Currency cur \<Rightarrow> add_delta cur b | _ \<Rightarrow> b) (ctx_ops ctx) (\<lambda>_. \<lparr>rewards = 0, costs = 0\<rparr>))"
  using assms
  by (auto simp: ValidateDatabaseUpdates_def Let_def new_ValidatedDbUpdates_def
      dest: collect_ops_currency split: sum.splits prod.splits option.splits if_splits)

lemma validated_nets: "ValidateDatabaseUpdates g aids accounts st acc ctx bi bc = Inr v
  \<Longrightarrow> \<exists>b. v_currency_updates v = net_currencies b"
  using validated_currency by blast

lemma total_remove1: "v \<in> set vs \<Longrightarrow> total_delta t (remove1 v vs) = total_delta t vs - delta t (v_currency_updates v)"
  by (induction vs) (auto simp: total_delta_def)

lemma ledger_inv_step:
  assumes "ledger_step g col_max L L'" "ledger_inv col_max row0 L"
  shows "ledger_inv col_max row0 L'"
  using assms
proof cases
  case (validate aids accounts st ctx bi bc v)
  then show ?thesis using assms(2) validated_nets [OF validate(2)] by (auto simp: ledger_inv_def)
next
  case (commit v row)
  then obtain b where b: "v_currency_updates v = net_currencies b" using assms(2) by (auto simp: ledger_inv_def)
  note c = commit_spec [OF commit(3) b]
  have "of_nat (row t) = of_nat (lg_db L t) + delta t (v_currency_updates v)" for t
    by (rule commit_word [OF commit(3) b])
  then show ?thesis
    using assms(2) commit(1) c notin_set_remove1
    by (auto simp: ledger_inv_def total_delta_def total_int_def dest: in_set_remove1 set_remove1_subset [THEN subsetD])
next
  case (give_up v)
  then show ?thesis using assms(2) set_remove1_subset [of v "lg_queue L"] by (auto simp: ledger_inv_def)
next
  case (apply_committed v now st s e)
  have "bal t (as_player s) = bal t (lg_acc L) + delta t (v_currency_updates v)" for t
    using Apply_bal [of t now v "lg_acc L" st] apply_committed(3) by simp
  then show ?thesis using assms(2) apply_committed(1,2) by (simp add: ledger_inv_def total_remove1)
next
  case (other_handler p)
  then show ?thesis using assms(2) by (simp add: ledger_inv_def)
qed

section \<open>Properties\<close>

text \<open>
  C1: Whatever changes of an account are under way and in whatever order they are validated,
  committed and applied, no change is lost or counted twice and no cost is committed that the
  stored balance does not cover: the stored balance is always the initial one plus the committed
  changes and fits its column, and once all committed changes are applied the cache agrees.
\<close>

theorem ledger_conserved:
  assumes "(ledger_step g col_max)\<^sup>*\<^sup>* L L'"
    and "lg_queue L = []" "lg_committed L = []" "lg_log L = []"
    and "\<forall>t. lg_db L t = unat (balance t (pl_acc_info (lg_acc L))) \<and> lg_db L t \<le> col_max t \<and> col_max t < 2 ^ 32"
  shows "int (lg_db L' t) = int (lg_db L t) + total_int t (lg_log L') \<and> lg_db L' t \<le> col_max t
    \<and> (lg_committed L' = [] \<longrightarrow> unat (balance t (pl_acc_info (lg_acc L'))) = lg_db L' t)"
proof -
  have "of_nat (lg_db L t) = bal t (lg_acc L)" "lg_db L t \<le> col_max t" for t
    using assms(5) by (simp, blast)
  then have "ledger_inv col_max (lg_db L) L"
    using assms(2-4) by (simp add: ledger_inv_def total_delta_def total_int_def)
  with assms(1) have "ledger_inv col_max (lg_db L) L'"
    by (induction rule: rtranclp_induct) (auto intro: ledger_inv_step)
  then have I: "int (lg_db L' t) = int (lg_db L t) + total_int t (lg_log L')" "lg_db L' t \<le> col_max t"
    "of_nat (lg_db L' t) = bal t (lg_acc L') + total_delta t (lg_committed L')"
    by (simp_all add: ledger_inv_def)
  have "lg_db L' t < 2 ^ 32" using I(2) assms(5) by (meson le_less_trans)
  then have "unat (of_nat (lg_db L' t) :: u32) = lg_db L' t"
    by (simp add: unsigned_of_nat take_bit_nat_eq_self)
  then show ?thesis using I by (auto simp: total_delta_def)
qed

definition rich :: Player where
  "rich = (new_Player undefined)\<lparr>pl_acc_info := new_FrontAccount\<lparr>acc_MicroPoints := 100\<rparr>\<rparr>"

definition pay :: "u32 \<Rightarrow> DatabaseUpdateCtx" where
  "pay n = \<lparr>ctx_sid = 3, ctx_aid = 7, ctx_ops = [Op_Currency \<lparr>acd_type = Cur_MP, acd_value = n, acd_is_reward = False\<rparr>]\<rparr>"

definition paid :: "u32 \<Rightarrow> ValidatedDbUpdates" where
  "paid n = (new_ValidatedDbUpdates 3 7)\<lparr>v_currency_updates := [\<lparr>acd_type = Cur_MP, acd_value = n, acd_is_reward = False\<rparr>]\<rparr>"

definition no_stores :: stores where
  "no_stores = \<lparr>CSocial = fmempty, CMailboxData = fmempty, CMailSent = fmempty, CMailRecv = fmempty,
     CGiftSent = fmempty, CGiftRecv = fmempty\<rparr>"

lemma pay_validated: "n \<noteq> 0 \<Longrightarrow> n \<le> 100 \<Longrightarrow> ValidateDatabaseUpdates g [] Map.empty no_stores rich (pay n) False False = Inr (paid n)"
  by (simp add: ValidateDatabaseUpdates_def pay_def paid_def collect_op_def new_ValidatedDbUpdates_def add_delta_def
      net_currencies_def finalize_currency_def Let_def check_currency_def rich_def word_gt_0 not_less)

theorem ledger_conserved_witness:
  "\<exists>L'. (ledger_step undefined (\<lambda>_. 2 ^ 32 - 1))\<^sup>*\<^sup>*
      \<lparr>lg_db = \<lambda>t. unat (bal t rich), lg_acc = rich, lg_queue = [], lg_committed = [], lg_log = []\<rparr> L'
    \<and> lg_log L' = [paid 60] \<and> lg_queue L' = [paid 70]
    \<and> int (lg_db L' Cur_MP) = 40 \<and> unat (balance Cur_MP (pl_acc_info (lg_acc L'))) = 40
    \<and> PersistCurrenciesPatches (\<lambda>_. 2 ^ 32 - 1) (lg_db L') (paid 70) = None"
proof -
  let ?step = "ledger_step undefined (\<lambda>_. 2 ^ 32 - 1)"
  let ?L = "\<lparr>lg_db = \<lambda>t. unat (bal t rich), lg_acc = rich, lg_queue = [], lg_committed = [], lg_log = []\<rparr>"
  let ?L1 = "?L\<lparr>lg_queue := [paid 60]\<rparr>" and ?L2 = "?L\<lparr>lg_queue := [paid 60, paid 70]\<rparr>"
  let ?row = "(\<lambda>t. unat (bal t rich))(Cur_MP := 40)"
  let ?L3 = "?L\<lparr>lg_db := ?row, lg_queue := [paid 70], lg_committed := [paid 60], lg_log := [paid 60]\<rparr>"
  let ?L4 = "?L3\<lparr>lg_acc := as_player (fst (ApplyDatabaseUpdates 0 (paid 60) rich no_stores)), lg_committed := []\<rparr>"
  have "?step ?L ?L1" using ledger_step.validate [of undefined "[]" Map.empty no_stores ?L "pay 60" False False "paid 60"] pay_validated by simp
  moreover have "?step ?L1 ?L2" using ledger_step.validate [of undefined "[]" Map.empty no_stores ?L1 "pay 70" False False "paid 70"] pay_validated by simp
  moreover have persist: "PersistCurrenciesPatches (\<lambda>_. 2 ^ 32 - 1) (\<lambda>t. unat (bal t rich)) (paid 60) = Some ?row"
    by (simp add: PersistCurrenciesPatches_def paid_def add_delta_def net_currencies_def finalize_currency_def Let_def
        new_ValidatedDbUpdates_def rich_def fun_eq_iff)
  moreover have "?step ?L2 ?L3" using ledger_step.commit [where v = "paid 60" and L = ?L2 and row = ?row and g = undefined] persist
    by simp
  moreover have "?step ?L3 ?L4"
    using ledger_step.apply_committed [where v = "paid 60" and L = ?L3 and now = 0 and st = no_stores and g = undefined
        and s = "fst (ApplyDatabaseUpdates 0 (paid 60) rich no_stores)" and e = "snd (ApplyDatabaseUpdates 0 (paid 60) rich no_stores)"]
    by simp
  ultimately have run: "?step\<^sup>*\<^sup>* ?L ?L4" by (meson rtranclp.rtrancl_into_rtrancl rtranclp.rtrancl_refl)
  have le: "unat (bal t rich) \<le> 2 ^ 32 - 1" for t using unsigned_less [of "bal t rich", where ?'a = nat] by simp
  have db: "int (lg_db ?L4 Cur_MP) = 40" by simp
  moreover have "unat (balance Cur_MP (pl_acc_info (lg_acc ?L4))) = 40"
    using ledger_conserved [OF run, of Cur_MP] le by simp
  moreover have "PersistCurrenciesPatches (\<lambda>_. 2 ^ 32 - 1) (lg_db ?L4) (paid 70) = None"
    by (simp add: PersistCurrenciesPatches_def paid_def add_delta_def net_currencies_def finalize_currency_def Let_def
        new_ValidatedDbUpdates_def)
  ultimately show ?thesis using run by (intro exI [of _ ?L4]) simp
qed

section \<open>A single change\<close>

text \<open>What a handler's list asks for, without wrap-around.\<close>

definition asked :: "CurrencyType \<Rightarrow> bool \<Rightarrow> DbOp list \<Rightarrow> nat" where
  "asked t reward ops = (\<Sum>op\<leftarrow>ops. case op of
     Op_Currency cur \<Rightarrow> if acd_type cur = t \<and> acd_is_reward cur = reward then unat (acd_value cur) else 0
   | _ \<Rightarrow> 0)"

lemma bucket_asked:
  fixes ops :: "DbOp list"
  defines "bucket b \<equiv> fold (\<lambda>op b. case op of Op_Currency cur \<Rightarrow> add_delta cur b | _ \<Rightarrow> b) ops b"
  shows "rewards (bucket b t) = rewards (b t) + of_nat (asked t True ops)
    \<and> costs (bucket b t) = costs (b t) + of_nat (asked t False ops)"
  unfolding bucket_def
proof (induction ops arbitrary: b)
  case (Cons op ops)
  then show ?case by (cases op) (auto simp: asked_def add_delta_def Let_def)
qed (simp add: asked_def)

lemma first_error_None: "first_error f xs = None \<longleftrightarrow> (\<forall>x \<in> set xs. f x = None)"
  by (induction xs) (auto split: option.splits)

lemma validated_checks:
  "ValidateDatabaseUpdates g aids accounts st acc ctx bi False = Inr v
   \<Longrightarrow> \<forall>u \<in> set (v_currency_updates v). check_currency (pl_acc_info acc) u = None"
  by (auto simp: ValidateDatabaseUpdates_def Let_def first_error_None split: sum.splits prod.splits option.splits)

text \<open>The limits the checks compare with, for the four currencies.\<close>

fun limit :: "CurrencyType \<Rightarrow> FrontAccount \<Rightarrow> nat" where
  "limit Cur_MP a = 2 ^ 32 - 1"
| "limit Cur_RT a = 2 ^ 32 - 1"
| "limit Cur_COUPONS a = 250"
| "limit Cur_ENERGY a = unat (acc_MaximumEnergy a)"

lemma check_cost: "check_currency a \<lparr>acd_type = t, acd_value = x, acd_is_reward = False\<rparr> = None \<longleftrightarrow> x \<le> balance t a"
  by (cases t) (auto simp: check_currency_def not_less)

lemma check_reward:
  assumes "unat x \<le> limit t a"
  shows "check_currency a \<lparr>acd_type = t, acd_value = x, acd_is_reward = True\<rparr> = None
    \<longleftrightarrow> unat (balance t a) + unat x \<le> limit t a"
proof -
  have sub: "unat (y - x) = unat y - unat x" if "unat x \<le> unat y" for y :: u32
    using that by (simp add: unat_sub word_le_nat_alt)
  show ?thesis using assms
    by (cases t) (auto simp: check_currency_def word_less_nat_alt sub MAX_UINT32_def MAX_COUPONS_def)
qed

lemma limit_small: "limit t a < 2 ^ 32"
  by (cases t) (use unsigned_less [of "acc_MaximumEnergy a", where ?'a = nat] in simp_all)



text \<open>
  The limit on coupons, on the other hand, is not kept for gains above it: the difference the
  check compares with wraps, and a gain of more than 250 coupons passes.
\<close>

theorem coupon_limit_bypassed:
  assumes "250 < n" "acc_Coupons (pl_acc_info acc) \<le> 250" "n < 2 ^ 31"
  shows "\<exists>v. ValidateDatabaseUpdates g aids accounts st acc
        \<lparr>ctx_sid = sid, ctx_aid = aid, ctx_ops = [Op_Currency \<lparr>acd_type = Cur_COUPONS, acd_value = n, acd_is_reward = True\<rparr>]\<rparr>
        bi False = Inr v
    \<and> unat (acc_Coupons (pl_acc_info (as_player (fst (ApplyDatabaseUpdates now v acc st)))))
        = unat (acc_Coupons (pl_acc_info acc)) + unat n"
proof -
  let ?ctx = "\<lparr>ctx_sid = sid, ctx_aid = aid, ctx_ops = [Op_Currency \<lparr>acd_type = Cur_COUPONS, acd_value = n, acd_is_reward = True\<rparr>]\<rparr>"
  let ?v = "(new_ValidatedDbUpdates sid aid)\<lparr>v_currency_updates := [\<lparr>acd_type = Cur_COUPONS, acd_value = n, acd_is_reward = True\<rparr>]\<rparr>"
  have n: "250 < unat n" "unat n < 2 ^ 31" "unat (acc_Coupons (pl_acc_info acc)) \<le> 250"
    using assms by (simp_all add: word_less_nat_alt word_le_nat_alt)
  have "unat (250 - n :: u32) = 2 ^ 32 + 250 - unat n"
    using n by (simp add: unat_sub_if')
  then have "\<not> acc_Coupons (pl_acc_info acc) > MAX_COUPONS - n"
    using n by (simp add: word_less_nat_alt MAX_COUPONS_def)
  then have ok: "check_currency (pl_acc_info acc) \<lparr>acd_type = Cur_COUPONS, acd_value = n, acd_is_reward = True\<rparr> = None"
    by (simp add: check_currency_def)
  have "0 < n" using n(1) by (simp add: word_less_nat_alt)
  then have v: "ValidateDatabaseUpdates g aids accounts st acc ?ctx bi False = Inr ?v"
    using ok by (auto simp: ValidateDatabaseUpdates_def collect_op_def new_ValidatedDbUpdates_def add_delta_def
      net_currencies_def finalize_currency_def Let_def)
  have "acc_Coupons (pl_acc_info (as_player (fst (ApplyDatabaseUpdates now ?v acc st)))) = acc_Coupons (pl_acc_info acc) + n"
    using Apply_bal [of Cur_COUPONS now ?v acc st] by (simp add: signed_value_def)
  moreover have "unat (acc_Coupons (pl_acc_info acc) + n) = unat (acc_Coupons (pl_acc_info acc)) + unat n"
    using n by (subst unat_plus_if') simp
  ultimately show ?thesis using v by auto
qed

theorem coupon_limit_bypassed_witness:
  "\<exists>v. unat (acc_Coupons (pl_acc_info (as_player (fst (ApplyDatabaseUpdates 0 v (upd_info (\<lambda>a. a\<lparr>acc_Coupons := 250\<rparr>) rich) no_stores))))) = 550"
  using coupon_limit_bypassed [of 300 "upd_info (\<lambda>a. a\<lparr>acc_Coupons := 250\<rparr>) rich" undefined "[]" Map.empty no_stores 3 7 False 0]
  by (auto simp: upd_info_def)

end
