(* ===== verification/Inventory.thy ===== *)
theory Inventory
  imports Ledger
begin

text \<open>
  What changes of an inventory keep: the serial ids of its items are distinct when items are made
  and added one change at a time, and they are not when two changes are under way at once.
\<close>

section \<open>Serial ids\<close>

abbreviation serial_id :: "Item \<Rightarrow> 20 word" where
  "serial_id it \<equiv> ser_id (inv_serial_info (it_item_info it))"

lemma lowest_serials:
  "FindLowestAvailableSerialIds items n
     = take n (filter (\<lambda>i. i \<notin> (\<lambda>it. unat (serial_id it)) ` set items) [0..<0x100001])"
  by (simp add: FindLowestAvailableSerialIds_def reserve_from_take set_used_serials)

text \<open>With enough room every reserved id fits its field.\<close>

lemma reserved_fit:
  assumes "length items + n \<le> 2 ^ 20"
  shows "length (FindLowestAvailableSerialIds items n) = n"
    and "i \<in> set (FindLowestAvailableSerialIds items n) \<Longrightarrow> i < 2 ^ 20"
proof -
  let ?f = "filter (\<lambda>i. i \<notin> (\<lambda>it. unat (serial_id it)) ` set items)"
  have "[0..<0x100001] = [0..<2 ^ 20] @ [2 ^ 20]" using upt_Suc_append [of 0 "2 ^ 20"] by simp
  then have split: "?f [0..<0x100001] = ?f [0..<2 ^ 20] @ ?f [2 ^ 20]" by simp
  have "n \<le> length (?f [0..<2 ^ 20])"
    using free_serials [OF assms] by (simp add: set_used_serials)
  then have eq: "FindLowestAvailableSerialIds items n = take n (?f [0..<2 ^ 20])"
    and len: "length (take n (?f [0..<2 ^ 20])) = n"
    unfolding lowest_serials split by simp_all
  show "length (FindLowestAvailableSerialIds items n) = n" using eq len by simp
  show "i < 2 ^ 20" if "i \<in> set (FindLowestAvailableSerialIds items n)"
    using that unfolding eq by (auto dest: in_set_takeD)
qed

lemma lowest_distinct: "distinct (FindLowestAvailableSerialIds items n)"
  by (simp add: lowest_serials)

lemma lowest_unused: "i \<in> set (FindLowestAvailableSerialIds items n) \<Longrightarrow> it \<in> set items \<Longrightarrow> unat (serial_id it) \<noteq> i"
  unfolding lowest_serials by (auto dest: in_set_takeD)

lemma lowest_hd:
  "0 < n \<Longrightarrow> 0 < m \<Longrightarrow> hd (FindLowestAvailableSerialIds items n) = hd (FindLowestAvailableSerialIds items m)"
  by (simp add: lowest_serials)

section \<open>Making items\<close>

lemma ucast_of_nat_20: "(ucast (of_nat k :: u32) :: 20 word) = of_nat k"
  by (simp add: unsigned_of_nat word_of_nat_eq_iff)

lemma serial_id_crafted [simp]: "serial_id (crafted_item now origin info s) = of_nat s"
  by (simp add: crafted_item_def new_Item_def new_InventoryItemInfo_def new_ItemSerialInfo_def ucast_of_nat_20)

lemma craft_items_spec:
  "craft_items g now origin ids serials items = Inr xs \<Longrightarrow>
     xs = items @ map (\<lambda>(i, s). crafted_item now origin (or_null new_ItemInfo i (CItemsInfo g)) s) (zip ids serials)"
  by (induction g now origin ids serials items rule: craft_items.induct) (auto simp: Let_def split: if_splits)

lemma crafted:
  assumes "CraftInventoryItems g now inventory ids origin = Inr add"
  shows "ia_items add = map (\<lambda>(i, s). crafted_item now origin (or_null new_ItemInfo i (CItemsInfo g)) s)
      (zip ids (FindLowestAvailableSerialIds inventory (length ids)))"
    and "length ids \<le> length (FindLowestAvailableSerialIds inventory (length ids))"
  using assms craft_items_spec [of g now origin ids "FindLowestAvailableSerialIds inventory (length ids)" "[]"]
  by (cases "craft_items g now origin ids (FindLowestAvailableSerialIds inventory (length ids)) []";
      auto simp: CraftInventoryItems_def Let_def split: if_splits)+

lemma crafted_serials:
  assumes "CraftInventoryItems g now inventory ids origin = Inr add" "length inventory + length ids \<le> 2 ^ 20"
  shows "map serial_id (ia_items add) = map of_nat (FindLowestAvailableSerialIds inventory (length ids))"
    and "length (ia_items add) = length ids"
proof -
  have len: "length (FindLowestAvailableSerialIds inventory (length ids)) = length ids"
    by (rule reserved_fit(1) [OF assms(2)])
  then show "length (ia_items add) = length ids" by (simp add: crafted(1) [OF assms(1)])
  have "map serial_id (ia_items add) = map of_nat (map snd (zip ids (FindLowestAvailableSerialIds inventory (length ids))))"
    unfolding crafted(1) [OF assms(1)] map_map by (rule map_cong) auto
  then show "map serial_id (ia_items add) = map of_nat (FindLowestAvailableSerialIds inventory (length ids))"
    using len by simp
qed

lemma distinct_of_nat_20: "distinct xs \<Longrightarrow> \<forall>i \<in> set xs. i < 2 ^ 20 \<Longrightarrow> distinct (map (of_nat :: nat \<Rightarrow> 20 word) xs)"
  by (induction xs) (auto simp: word_of_nat_eq_iff take_bit_nat_eq_self)

lemma crafted_fresh:
  assumes "CraftInventoryItems g now inventory ids origin = Inr add" "length inventory + length ids \<le> 2 ^ 20"
    and "distinct (map serial_id inventory)"
  shows "distinct (map serial_id (inventory @ ia_items add))"
proof -
  let ?S = "FindLowestAvailableSerialIds inventory (length ids)"
  have fit: "\<forall>i \<in> set ?S. i < 2 ^ 20" using reserved_fit(2) [OF assms(2)] by blast
  have "unat (of_nat i :: 20 word) = i" if "i \<in> set ?S" for i
    using that fit by (simp add: unsigned_of_nat take_bit_nat_eq_self)
  then have "serial_id it \<noteq> of_nat i" if "i \<in> set ?S" "it \<in> set inventory" for i it
    using that lowest_unused by metis
  then show ?thesis
    using distinct_of_nat_20 [OF lowest_distinct fit] assms(3) crafted_serials(1) [OF assms(1,2)]
    by auto
qed

section \<open>Changes of the inventory\<close>

abbreviation items_of :: "apply_state \<Rightarrow> Item list" where
  "items_of s \<equiv> pl_inventory_items (as_player s)"

lemma serial_id_patch [simp]: "serial_id (patch_item p it) = serial_id it"
  by (simp add: patch_item_def Let_def)

lemma item_serial_patch [simp]: "item_serial (patch_item p it) = item_serial it"
  by (simp add: patch_item_def item_serial_def Let_def)

lemma update_first_map: "update_first p f xs = Some ys \<Longrightarrow> (\<And>x. h (f x) = h x) \<Longrightarrow> map h ys = map h xs"
  by (induction xs arbitrary: ys) (auto split: if_splits)

lemma patch_serials: "map serial_id (items_of (fst (run_each apply_patch ps s))) = map serial_id (items_of s)"
proof (rule run_each_keeps)
  show "map serial_id (items_of (fst (apply_patch x s))) = map serial_id (items_of s)" for x s
    using update_first_map [of _ "patch_item (rip_patch x)" "items_of s" _ serial_id]
    by (auto simp: apply_patch_def split: option.split)
qed

lemma run_deletes:
  "items_of (fst (run_each apply_delete ds s)) = filter (\<lambda>it. item_serial it \<notin> serial_data ` set ds) (items_of s)
   \<and> snd (run_each apply_delete ds s) = None"
proof (induction ds arbitrary: s)
  case (Cons d ds)
  have "snd (apply_delete d s) = None" "items_of (fst (apply_delete d s)) = filter (\<lambda>it. item_serial it \<noteq> serial_data d) (items_of s)"
    by (simp_all add: apply_delete_def)
  then show ?case using Cons [of "fst (apply_delete d s)"]
    by (auto simp: run_each_Cons simp del: run_each.simps(2) intro: filter_cong)
qed simp

lemma later_keep_items [simp]:
  "items_of (fst (apply_currency cu s)) = items_of s"
  "items_of (fst (apply_info a s)) = items_of s"
  "items_of (fst (apply_missions m s)) = items_of s"
  "items_of (fst (apply_mail now b s)) = items_of s"
  "items_of (fst (apply_social c s)) = items_of s"
  "items_of (fst (apply_pity d s)) = items_of s"
  by (simp_all add: apply_currency_def apply_info_def upd_info_def apply_missions_def apply_mail_def apply_social_def
      apply_pity_def Let_def split: option.split SocialOp.split)

lemma run_each_items:
  "(\<And>x s. items_of (fst (f x s)) = items_of s) \<Longrightarrow> items_of (fst (run_each f xs s)) = items_of s"
  by (rule run_each_keeps)

text \<open>The items after a change: deletions, then patches, then additions, unless a patch fails.\<close>

lemma Apply_items:
  "\<exists>patched. items_of (fst (ApplyDatabaseUpdates now v acc st)) =
      (if snd (run_each apply_patch (v_items_patches v) (fst (run_each apply_delete (v_items_deleted v)
            (fst (run_each apply_currency (v_currency_updates v)
              \<lparr>as_player = acc, as_stores = st, as_result = new_ApplyCacheUpdateResult\<rparr>))))) = None
       then patched @ v_items_added v else patched)
    \<and> map serial_id patched = map serial_id (filter (\<lambda>it. item_serial it \<notin> serial_data ` set (v_items_deleted v)) (pl_inventory_items acc))
    \<and> (v_items_patches v = [] \<longrightarrow> patched = filter (\<lambda>it. item_serial it \<notin> serial_data ` set (v_items_deleted v)) (pl_inventory_items acc))"
proof -
  let ?s0 = "\<lparr>as_player = acc, as_stores = st, as_result = new_ApplyCacheUpdateResult\<rparr>"
  let ?s1 = "fst (run_each apply_currency (v_currency_updates v) ?s0)"
  let ?s2 = "fst (run_each apply_delete (v_items_deleted v) ?s1)"
  let ?s3 = "fst (run_each apply_patch (v_items_patches v) ?s2)"
  have s1: "items_of ?s1 = pl_inventory_items acc" by (simp add: run_each_items)
  have s2: "items_of ?s2 = filter (\<lambda>it. item_serial it \<notin> serial_data ` set (v_items_deleted v)) (pl_inventory_items acc)"
    using run_deletes [of "v_items_deleted v" ?s1] s1 by simp
  have "items_of (fst (ApplyDatabaseUpdates now v acc st)) =
      (if snd (run_each apply_patch (v_items_patches v) ?s2) = None then items_of ?s3 @ v_items_added v else items_of ?s3)"
    by (simp add: ApplyDatabaseUpdates_def fst_and_then run_currency run_deletes run_each_items apply_adds_def)
  then show ?thesis using patch_serials [of "v_items_patches v" ?s2] s2 by (intro exI [of _ "items_of ?s3"]) auto
qed

section \<open>Properties\<close>

text \<open>
  Items made for an inventory and added in one change leave it with distinct serial ids,
  whatever the change deletes and patches beside, as long as the inventory has fewer than
  \<open>2 ^ 20\<close> items.
\<close>

theorem serial_ids_stay_distinct:
  assumes "distinct (map (\<lambda>it. ser_id (inv_serial_info (it_item_info it))) (pl_inventory_items acc))"
    and "CraftInventoryItems g now (pl_inventory_items acc) ids origin = Inr add"
    and "length (pl_inventory_items acc) + length ids \<le> 2 ^ 20" "v_items_added v = ia_items add"
  shows "distinct (map (\<lambda>it. ser_id (inv_serial_info (it_item_info it)))
      (pl_inventory_items (as_player (fst (ApplyDatabaseUpdates now' v acc st)))))"
proof -
  obtain patched where p: "items_of (fst (ApplyDatabaseUpdates now' v acc st)) \<in> {patched @ ia_items add, patched}"
    "map serial_id patched = map serial_id (filter (\<lambda>it. item_serial it \<notin> serial_data ` set (v_items_deleted v)) (pl_inventory_items acc))"
    using Apply_items [of now' v acc st] assms(4) by (auto split: if_splits)
  have f: "distinct (map serial_id (pl_inventory_items acc @ ia_items add))"
    by (rule crafted_fresh [OF assms(2,3,1)])
  have "serial_id ` set patched \<subseteq> serial_id ` set (pl_inventory_items acc)"
    using arg_cong [OF p(2), of set] by auto
  moreover have "distinct (map serial_id patched)" unfolding p(2) using assms(1) by (simp add: distinct_map_filter)
  ultimately have "distinct (map serial_id (patched @ ia_items add))"
    using f by (simp add: image_comp) blast
  then show ?thesis using p(1) by auto
qed

definition potion :: ItemInfo where "potion = new_ItemInfo\<lparr>item_Id := 5\<rparr>"

definition potion_data :: game_data where
  "potion_data = \<lparr>CItemsInfo = fmupd 5 potion fmempty, CSetItemsInfo = fmempty, CEffectInfo = fmempty, CBaseUnitInfo = fmempty,
     CUpgradesInfo = fmempty, CMapsInfo = fmempty, CRoomOptionsInfo = fmempty, CGradesInfo = fmempty,
     CRewardsInfo = fmempty, CDailyMissionInfo = fmempty, CGachaponsInfo = fmempty, CVendorItems = {||}, CPackagesInfo = fmempty, CCollectionInfo = fmempty, CDailyMissions = []\<rparr>"

lemma lowest_of_empty: "n \<le> 0x100000 \<Longrightarrow> FindLowestAvailableSerialIds [] n = [0..<n]"
  by (simp add: lowest_serials take_upt)

lemma craft_potion: "CraftInventoryItems potion_data 9 [] [5] 0 = Inr \<lparr>ia_items = [crafted_item 9 0 potion 0]\<rparr>"
  by (simp add: CraftInventoryItems_def lowest_of_empty potion_data_def potion_def or_null_def cache_get_def Let_def)

definition adds :: "Item list \<Rightarrow> ValidatedDbUpdates" where
  "adds items = (new_ValidatedDbUpdates 3 7)\<lparr>v_items_added := items\<rparr>"

lemma empty_bag: "pl_inventory_items rich = []"
  by (simp add: rich_def new_Player_def)

theorem serial_ids_stay_distinct_witness:
  "distinct (map (\<lambda>it. ser_id (inv_serial_info (it_item_info it)))
    (pl_inventory_items (as_player (fst (ApplyDatabaseUpdates 9 (adds [crafted_item 9 0 potion 0]) rich no_stores)))))"
  using serial_ids_stay_distinct [of rich potion_data 9 "[5]" 0 "\<lparr>ia_items = [crafted_item 9 0 potion 0]\<rparr>" "adds [crafted_item 9 0 potion 0]"]
  by (simp add: empty_bag craft_potion adds_def)

text \<open>
  Two changes that make items for the same inventory before either is applied use the same
  serial ids. Made in the same second, the first items of both have the same 64-bit serial, and
  selling one of them takes both away.
\<close>

theorem serials_in_flight_collide:
  assumes "CraftInventoryItems g now (pl_inventory_items acc) ids1 origin = Inr add1" "ids1 \<noteq> []"
    and "CraftInventoryItems g now (pl_inventory_items acc) ids2 origin = Inr add2" "ids2 \<noteq> []"
    and "v_items_added v1 = ia_items add1" "v_items_patches v1 = []" "v_items_deleted v1 = []"
    and "v_items_added v2 = ia_items add2" "v_items_patches v2 = []" "v_items_deleted v2 = []"
    and "v_items_added v3 = []" "v_items_patches v3 = []"
      "v_items_deleted v3 = [inv_serial_info (it_item_info (hd (ia_items add1)))]"
    and "acc1 = as_player (fst (ApplyDatabaseUpdates t1 v1 acc st1))"
    and "acc2 = as_player (fst (ApplyDatabaseUpdates t2 v2 acc1 st2))"
    and "acc3 = as_player (fst (ApplyDatabaseUpdates t3 v3 acc2 st3))"
  shows "pl_inventory_items acc2 = pl_inventory_items acc @ ia_items add1 @ ia_items add2
    \<and> hd (ia_items add2) \<in> set (pl_inventory_items acc2) \<and> hd (ia_items add2) \<notin> set (pl_inventory_items acc3)"
proof -
  have bag: "pl_inventory_items acc1 = pl_inventory_items acc @ ia_items add1"
    "pl_inventory_items acc2 = pl_inventory_items acc1 @ ia_items add2"
    "pl_inventory_items acc3 = filter (\<lambda>it. item_serial it \<noteq> item_serial (hd (ia_items add1))) (pl_inventory_items acc2)"
    using Apply_items [of t1 v1 acc st1] Apply_items [of t2 v2 acc1 st2] Apply_items [of t3 v3 acc2 st3] assms(5-16)
    by (simp_all add: item_serial_def)
  let ?S = "\<lambda>ids. FindLowestAvailableSerialIds (pl_inventory_items acc) (length ids)"
  have ne: "?S ids1 \<noteq> []" "?S ids2 \<noteq> []" using crafted(2) [OF assms(1)] crafted(2) [OF assms(3)] assms(2,4) by auto
  have h: "hd (?S ids1) = hd (?S ids2)" using assms(2,4) by (intro lowest_hd) simp_all
  have ser: "item_serial (crafted_item now origin info s) = serial_data (new_ItemSerialInfo (of_nat s) 1 1 origin now)" for info s
    by (simp add: item_serial_def crafted_item_def new_Item_def new_InventoryItemInfo_def)
  obtain i1 r1 i2 r2 where l: "ids1 = i1 # r1" "ids2 = i2 # r2" using assms(2,4) by (meson neq_Nil_conv)
  have "item_serial (hd (ia_items add1)) = serial_data (new_ItemSerialInfo (of_nat (hd (?S ids1))) 1 1 origin now)"
    "item_serial (hd (ia_items add2)) = serial_data (new_ItemSerialInfo (of_nat (hd (?S ids2))) 1 1 origin now)"
    "ia_items add2 \<noteq> []"
    using crafted(1) [OF assms(1)] crafted(1) [OF assms(3)] ne l ser
    by (cases "?S ids1"; cases "?S ids2"; simp)+
  then show ?thesis using bag h by simp
qed

theorem serials_in_flight_collide_witness:
  "let item = crafted_item 9 0 potion 0;
       acc1 = as_player (fst (ApplyDatabaseUpdates 9 (adds [item]) rich no_stores));
       acc2 = as_player (fst (ApplyDatabaseUpdates 9 (adds [item]) acc1 no_stores));
       sale = (new_ValidatedDbUpdates 3 7)\<lparr>v_items_deleted := [inv_serial_info (it_item_info item)]\<rparr>
   in pl_inventory_items acc2 = [item, item]
      \<and> item \<notin> set (pl_inventory_items (as_player (fst (ApplyDatabaseUpdates 9 sale acc2 no_stores))))"
proof -
  let ?item = "crafted_item 9 0 potion 0"
  have c: "CraftInventoryItems potion_data 9 (pl_inventory_items rich) [5] 0 = Inr \<lparr>ia_items = [?item]\<rparr>"
    by (simp add: empty_bag craft_potion)
  from serials_in_flight_collide [OF c _ c, of "adds [?item]" "adds [?item]"
      "(new_ValidatedDbUpdates 3 7)\<lparr>v_items_deleted := [inv_serial_info (it_item_info ?item)]\<rparr>",
      OF _ _ _ _ _ _ _ _ _ _ _ refl refl refl,
      where ?t1.0 = 9 and ?t2.0 = 9 and ?t3.0 = 9 and ?st1.0 = no_stores and ?st2.0 = no_stores and ?st3.0 = no_stores]
  show ?thesis unfolding Let_def by (simp add: empty_bag adds_def new_ValidatedDbUpdates_def)
qed

end
