(* ===== verification/Database.thy ===== *)
theory Database
  imports Inventory
begin

text \<open>
  The commit of a change (\<open>UpdateAccount\<close> of \<open>CMariaDatabase.cpp\<close>): one transaction that changes
  every table the change is about, or none. A table is a list of rows in the order they were
  inserted, or a map where the code upserts by key; in the rows of the tables that are upserted a
  column nobody has set is \<open>None\<close>. \<open>executeUpdate\<close> gives the number of rows the \<open>WHERE\<close> clause
  selects, as the connector documents. \<open>up\<close> says that the connection holds and no statement throws;
  \<open>col_max\<close> bounds the columns of the balances. An exception rolls back.
\<close>

section \<open>Tables\<close>

datatype DbErrorType = Error_None | ConnectionLost | DuplicateNickname | ConstraintViolation | NoRowsAffected
  | NicknameNotFound | MailboxFull | BlockedByReceiver | SqlException | Error_Unknown

record ResultDbUpdateInfo =
  rdb_patched_serials :: "u64 list"
  rdb_patched_rows_count :: nat
  rdb_deleted_serials :: "u64 list"
  rdb_deleted_rows_count :: nat
  rdb_added_serials :: "u64 list"
  rdb_added_rows_count :: nat
  rdb_target_not_found :: bool
  rdb_target_blocked :: bool
  rdb_player_blocked :: bool

definition new_ResultDbUpdateInfo :: ResultDbUpdateInfo where
  "new_ResultDbUpdateInfo = \<lparr>
     rdb_patched_serials = [], rdb_patched_rows_count = 0, rdb_deleted_serials = [], rdb_deleted_rows_count = 0,
     rdb_added_serials = [], rdb_added_rows_count = 0, rdb_target_not_found = False, rdb_target_blocked = False,
     rdb_player_blocked = False\<rparr>"

record account_row =
  arow_Id :: u32
  arow_info :: FrontAccount
  arow_ServerId :: u32

record item_row =
  irow_PlayerId :: u32
  irow_SerialInfo :: u64
  irow_ItemId :: u32
  irow_ItemType :: u32
  irow_ExpirationDate :: u32
  irow_Repair :: u32
  irow_Energy :: u32
  irow_Stock :: u32
  irow_IsEquipped :: u32
  irow_CharacterId :: u32

record db =
  db_accounts :: "account_row list"
  db_items :: "item_row list"
  db_missions :: "(u32, PlayerMissionsPatch) fmap"
  db_monthly :: "(u32, PlayerMonthlyRewardPatch) fmap"
  db_weekly :: "(u32, PlayerWeeklyRewardPatch) fmap"
  db_playtime :: "(u32, PlayerPlaytimePatch) fmap"
  db_battlepass :: "(u32, PlayerBattlePassPatch) fmap"
  db_mailbox :: "MailboxData list"
  db_next_mail :: u32
  db_history :: "MatchInfoHistoryAdd list"
  db_sessions :: "(u32 \<times> u64) list"
  db_socials :: "(u32 \<times> u32, u8) fmap"
  db_pity :: "(u32 \<times> u32, u32) fmap"
  db_bp_seasons :: "SystemBattlePassSeason list"
  db_bp_levels :: "SystemBattlePassLevel list"
  db_bp_missions :: "SystemBattlePassMission list"

text \<open>A transaction carries the change, in which the commit fills in what the tables decide.\<close>

record tx =
  tx_v :: ValidatedDbUpdates
  tx_db :: db
  tx_out :: ResultDbUpdateInfo

section \<open>Accounts\<close>

definition stored :: "account_row \<Rightarrow> CurrencyType \<Rightarrow> nat" where
  "stored r t = unat (balance t (arow_info r))"

definition store_balances :: "(CurrencyType \<Rightarrow> nat) \<Rightarrow> account_row \<Rightarrow> account_row" where
  "store_balances row r = r\<lparr>arow_info := fold (\<lambda>t. set_balance t (of_nat (row t))) [Cur_MP, Cur_RT, Cur_COUPONS, Cur_ENERGY] (arow_info r)\<rparr>"

text \<open>A guard that does not hold selects no row; a value that does not fit its column throws.\<close>

definition commit_currencies :: "(CurrencyType \<Rightarrow> nat) \<Rightarrow> tx \<Rightarrow> DbErrorType + tx" where
  "commit_currencies col_max t =
    (let v = tx_v t; nets = net_currencies (fold add_delta (v_currency_updates v) (\<lambda>_. \<lparr>rewards = 0, costs = 0\<rparr>))
     in if v_currency_updates v = [] \<or> nets = [] then Inr t
        else case List.find (\<lambda>r. arow_Id r = v_aid v) (db_accounts (tx_db t)) of
          None \<Rightarrow> Inl NoRowsAffected
        | Some r \<Rightarrow>
            (case PersistCurrenciesPatches col_max (stored r) v of
               None \<Rightarrow> Inl (if list_all (\<lambda>n. \<not> acd_is_reward n \<longrightarrow> unat (acd_value n) \<le> stored r (acd_type n)) nets
                          then SqlException else NoRowsAffected)
             | Some row \<Rightarrow> Inr (t\<lparr>tx_db := (tx_db t)\<lparr>db_accounts :=
                 map (\<lambda>r. if arow_Id r = v_aid v then store_balances row r else r) (db_accounts (tx_db t))\<rparr>\<rparr>)))"

definition over :: "'a option \<Rightarrow> 'a option \<Rightarrow> 'a option" where
  "over old new = (case new of None \<Rightarrow> old | Some _ \<Rightarrow> new)"

definition merge_info :: "AccountInfoPatch \<Rightarrow> AccountInfoPatch \<Rightarrow> AccountInfoPatch" where
  "merge_info old new = \<lparr>
     aip_server_id = over (aip_server_id old) (aip_server_id new),
     aip_sw_daily_attempts = over (aip_sw_daily_attempts old) (aip_sw_daily_attempts new),
     aip_sw_high_score = over (aip_sw_high_score old) (aip_sw_high_score new),
     aip_sw_highest_wave = over (aip_sw_highest_wave old) (aip_sw_highest_wave new),
     aip_sw_last_update = over (aip_sw_last_update old) (aip_sw_last_update new),
     aip_clan_kills = over (aip_clan_kills old) (aip_clan_kills new),
     aip_clan_deaths = over (aip_clan_deaths old) (aip_clan_deaths new),
     aip_clan_assists = over (aip_clan_assists old) (aip_clan_assists new),
     aip_clan_contribution = over (aip_clan_contribution old) (aip_clan_contribution new),
     aip_clan_wins = over (aip_clan_wins old) (aip_clan_wins new),
     aip_clan_loses = over (aip_clan_loses old) (aip_clan_loses new),
     aip_clan_draws = over (aip_clan_draws old) (aip_clan_draws new),
     aip_selected_character = over (aip_selected_character old) (aip_selected_character new),
     aip_play_time = over (aip_play_time old) (aip_play_time new),
     aip_story = over (aip_story old) (aip_story new),
     aip_achievement_tier1 = over (aip_achievement_tier1 old) (aip_achievement_tier1 new),
     aip_guide_mission = over (aip_guide_mission old) (aip_guide_mission new),
     aip_voice_type = over (aip_voice_type old) (aip_voice_type new),
     aip_bTutorial = over (aip_bTutorial old) (aip_bTutorial new),
     aip_maximum_items = over (aip_maximum_items old) (aip_maximum_items new),
     aip_maximum_energy = over (aip_maximum_energy old) (aip_maximum_energy new),
     aip_experience = over (aip_experience old) (aip_experience new),
     aip_level = over (aip_level old) (aip_level new),
     aip_lucky_points = over (aip_lucky_points old) (aip_lucky_points new),
     aip_wins = over (aip_wins old) (aip_wins new),
     aip_loses = over (aip_loses old) (aip_loses new),
     aip_draws = over (aip_draws old) (aip_draws new),
     aip_kills = over (aip_kills old) (aip_kills new),
     aip_deaths = over (aip_deaths old) (aip_deaths new),
     aip_assists = over (aip_assists old) (aip_assists new),
     aip_headshots = over (aip_headshots old) (aip_headshots new),
     aip_highest_kill_streak = over (aip_highest_kill_streak old) (aip_highest_kill_streak new),
     aip_melee_kills = over (aip_melee_kills old) (aip_melee_kills new),
     aip_rifle_kills = over (aip_rifle_kills old) (aip_rifle_kills new),
     aip_shotgun_kills = over (aip_shotgun_kills old) (aip_shotgun_kills new),
     aip_sniper_kills = over (aip_sniper_kills old) (aip_sniper_kills new),
     aip_gatling_kills = over (aip_gatling_kills old) (aip_gatling_kills new),
     aip_bazooka_kills = over (aip_bazooka_kills old) (aip_bazooka_kills new),
     aip_grenade_kills = over (aip_grenade_kills old) (aip_grenade_kills new),
     aip_zombie_kills = over (aip_zombie_kills old) (aip_zombie_kills new),
     aip_infections = over (aip_infections old) (aip_infections new),
     aip_nickname = over (aip_nickname old) (aip_nickname new)\<rparr>"

definition PersistAccountInfoPatches :: "tx \<Rightarrow> DbErrorType + tx" where
  "PersistAccountInfoPatches t =
    (let aid = v_aid (tx_v t); p = fold (\<lambda>new old. merge_info old new) (v_acc_info_patches (tx_v t)) new_AccountInfoPatch
     in if v_acc_info_patches (tx_v t) = [] \<or> p = new_AccountInfoPatch then Inr t
        else if \<not> list_ex (\<lambda>r. arow_Id r = aid) (db_accounts (tx_db t)) then Inl NoRowsAffected
        else Inr (t\<lparr>tx_db := (tx_db t)\<lparr>db_accounts := map (\<lambda>r. if arow_Id r = aid then
               r\<lparr>arow_info := patch_account p (arow_info r), arow_ServerId := set_if (aip_server_id p) (arow_ServerId r)\<rparr>
             else r) (db_accounts (tx_db t))\<rparr>\<rparr>))"

section \<open>Items\<close>

definition PersistItemDeletes :: "tx \<Rightarrow> DbErrorType + tx" where
  "PersistItemDeletes t =
    (let v = tx_v t; gone = (\<lambda>r. irow_PlayerId r = v_aid v \<and> irow_SerialInfo r \<in> serial_data ` set (v_items_deleted v));
         deleted = length (filter gone (db_items (tx_db t)))
     in if v_items_deleted v = [] then Inr t
        else if deleted = 0 then Inl NoRowsAffected
        else Inr (t\<lparr>tx_db := (tx_db t)\<lparr>db_items := filter (\<lambda>r. \<not> gone r) (db_items (tx_db t))\<rparr>,
                    tx_out := (tx_out t)\<lparr>rdb_deleted_rows_count := rdb_deleted_rows_count (tx_out t) + deleted,
                      rdb_deleted_serials := rdb_deleted_serials (tx_out t) @ map serial_data (v_items_deleted v)\<rparr>\<rparr>))"

text \<open>The patches of one serial are merged, later ones over earlier ones.\<close>

definition merge_patch :: "ItemPatchCtx \<Rightarrow> ItemPatchCtx \<Rightarrow> ItemPatchCtx" where
  "merge_patch old new = old\<lparr>
     ip_new_item_id := over (ip_new_item_id old) (ip_new_item_id new), ip_expire_date := over (ip_expire_date old) (ip_expire_date new),
     ip_repair := over (ip_repair old) (ip_repair new), ip_energy := over (ip_energy old) (ip_energy new),
     ip_is_equipped := over (ip_is_equipped old) (ip_is_equipped new),
     ip_character_id := over (ip_character_id old) (ip_character_id new)\<rparr>"

definition merged :: "ResolvedItemPatch list \<Rightarrow> u64 \<Rightarrow> ItemPatchCtx" where
  "merged ps serial = fold (\<lambda>rp old. if rip_serial rp = serial then merge_patch old (rip_patch rp) else old) ps new_ItemPatchCtx"

definition patch_row :: "ItemPatchCtx \<Rightarrow> item_row \<Rightarrow> item_row" where
  "patch_row p r = r\<lparr>
     irow_ItemId := set_if (ip_new_item_id p) (irow_ItemId r), irow_ExpirationDate := set_if (ip_expire_date p) (irow_ExpirationDate r),
     irow_Repair := set_if (ip_repair p) (irow_Repair r), irow_Energy := set_if (ip_energy p) (irow_Energy r),
     irow_IsEquipped := set_if (map_option of_bool (ip_is_equipped p)) (irow_IsEquipped r),
     irow_CharacterId := set_if (map_option ucast (ip_character_id p)) (irow_CharacterId r)\<rparr>"

definition PersistItemPatches :: "tx \<Rightarrow> DbErrorType + tx" where
  "PersistItemPatches t =
    (let v = tx_v t; ps = v_items_patches v; serials = remdups (map rip_serial ps);
         hit = (\<lambda>r. irow_PlayerId r = v_aid v \<and> irow_SerialInfo r \<in> set serials);
         patched = length (filter hit (db_items (tx_db t)))
     in if ps = [] \<or> list_all (\<lambda>s. merged ps s = new_ItemPatchCtx) serials then Inr t
        else if patched = 0 then Inl NoRowsAffected
        else Inr (t\<lparr>tx_db := (tx_db t)\<lparr>db_items :=
                      map (\<lambda>r. if hit r then patch_row (merged ps (irow_SerialInfo r)) r else r) (db_items (tx_db t))\<rparr>,
                    tx_out := (tx_out t)\<lparr>rdb_patched_rows_count := rdb_patched_rows_count (tx_out t) + patched,
                      rdb_patched_serials := rdb_patched_serials (tx_out t) @ serials\<rparr>\<rparr>))"

definition row_of :: "u32 \<Rightarrow> Item \<Rightarrow> item_row" where
  "row_of aid it = (let info = it_item_info it in \<lparr>
     irow_PlayerId = aid, irow_SerialInfo = serial_data (inv_serial_info info),
     irow_ItemId = ucast (num_item_id (inv_item_number info)), irow_ItemType = ucast (it_item_type it),
     irow_ExpirationDate = inv_expire_date info, irow_Repair = ucast (inv_repair info), irow_Energy = ucast (inv_energy info),
     irow_Stock = it_stock it, irow_IsEquipped = ucast (it_is_equipped it), irow_CharacterId = ucast (it_character_id it)\<rparr>)"

definition PersistItemAdds :: "tx \<Rightarrow> DbErrorType + tx" where
  "PersistItemAdds t =
    (let v = tx_v t
     in if v_items_added v = [] then Inr t
        else Inr (t\<lparr>tx_db := (tx_db t)\<lparr>db_items := db_items (tx_db t) @ map (row_of (v_aid v)) (v_items_added v)\<rparr>,
                    tx_out := (tx_out t)\<lparr>rdb_added_rows_count := rdb_added_rows_count (tx_out t) + length (v_items_added v),
                      rdb_added_serials := rdb_added_serials (tx_out t) @ map item_serial (v_items_added v)\<rparr>\<rparr>))"

section \<open>Tables with a row per player\<close>

definition merge_missions :: "PlayerMissionsPatch \<Rightarrow> PlayerMissionsPatch \<Rightarrow> PlayerMissionsPatch" where
  "merge_missions old new = \<lparr>
     pmp_mission1 = over (pmp_mission1 old) (pmp_mission1 new),
     pmp_mission2 = over (pmp_mission2 old) (pmp_mission2 new),
     pmp_mission3 = over (pmp_mission3 old) (pmp_mission3 new),
     pmp_goal1 = over (pmp_goal1 old) (pmp_goal1 new),
     pmp_goal2 = over (pmp_goal2 old) (pmp_goal2 new),
     pmp_goal3 = over (pmp_goal3 old) (pmp_goal3 new),
     pmp_update_time = over (pmp_update_time old) (pmp_update_time new)\<rparr>"

definition merge_monthly :: "PlayerMonthlyRewardPatch \<Rightarrow> PlayerMonthlyRewardPatch \<Rightarrow> PlayerMonthlyRewardPatch" where
  "merge_monthly old new = \<lparr>
     pmr_day_count = over (pmr_day_count old) (pmr_day_count new),
     pmr_last_time_update = over (pmr_last_time_update old) (pmr_last_time_update new)\<rparr>"

definition merge_weekly :: "PlayerWeeklyRewardPatch \<Rightarrow> PlayerWeeklyRewardPatch \<Rightarrow> PlayerWeeklyRewardPatch" where
  "merge_weekly old new = \<lparr>
     pwr_day_count = over (pwr_day_count old) (pwr_day_count new),
     pwr_last_time_update = over (pwr_last_time_update old) (pwr_last_time_update new)\<rparr>"

definition merge_playtime :: "PlayerPlaytimePatch \<Rightarrow> PlayerPlaytimePatch \<Rightarrow> PlayerPlaytimePatch" where
  "merge_playtime old new = \<lparr>
     ppt_daily_seconds = over (ppt_daily_seconds old) (ppt_daily_seconds new),
     ppt_claimed_stage = over (ppt_claimed_stage old) (ppt_claimed_stage new),
     ppt_last_time_update = over (ppt_last_time_update old) (ppt_last_time_update new)\<rparr>"

definition merge_battlepass :: "PlayerBattlePassPatch \<Rightarrow> PlayerBattlePassPatch \<Rightarrow> PlayerBattlePassPatch" where
  "merge_battlepass old new = \<lparr>
     pbp_season = over (pbp_season old) (pbp_season new),
     pbp_level = over (pbp_level old) (pbp_level new),
     pbp_xp = over (pbp_xp old) (pbp_xp new),
     pbp_has_premium = over (pbp_has_premium old) (pbp_has_premium new),
     pbp_claimed_free = over (pbp_claimed_free old) (pbp_claimed_free new),
     pbp_claimed_premium = over (pbp_claimed_premium old) (pbp_claimed_premium new),
     pbp_current_mission_id = over (pbp_current_mission_id old) (pbp_current_mission_id new),
     pbp_mission_progress = over (pbp_mission_progress old) (pbp_mission_progress new),
     pbp_reset_count = over (pbp_reset_count old) (pbp_reset_count new)\<rparr>"

text \<open>\<open>INSERT ... ON DUPLICATE KEY UPDATE\<close> of the columns that are set.\<close>

definition upsert_row :: "('r \<Rightarrow> 'r \<Rightarrow> 'r) \<Rightarrow> u32 \<Rightarrow> 'r \<Rightarrow> (u32, 'r) fmap \<Rightarrow> (u32, 'r) fmap" where
  "upsert_row merge aid p table = fmupd aid (case fmlookup table aid of None \<Rightarrow> p | Some r \<Rightarrow> merge r p) table"

definition PersistMissionsPatches :: "tx \<Rightarrow> DbErrorType + tx" where
  "PersistMissionsPatches t =
    (let p = fold (\<lambda>new old. merge_missions old new) (v_player_missions_patches (tx_v t)) new_PlayerMissionsPatch
     in if v_player_missions_patches (tx_v t) = [] \<or> p = new_PlayerMissionsPatch then Inr t
        else Inr (t\<lparr>tx_db := (tx_db t)\<lparr>db_missions := upsert_row merge_missions (v_aid (tx_v t)) p (db_missions (tx_db t))\<rparr>\<rparr>))"

definition PersistMonthlyRewardsPatches :: "tx \<Rightarrow> DbErrorType + tx" where
  "PersistMonthlyRewardsPatches t =
    (let p = fold (\<lambda>new old. merge_monthly old new) (v_player_monthly_reward_patches (tx_v t)) \<lparr>pmr_day_count = None, pmr_last_time_update = None\<rparr>
     in if v_player_monthly_reward_patches (tx_v t) = [] \<or> (pmr_day_count p = None \<and> pmr_last_time_update p = None) then Inr t
        else Inr (t\<lparr>tx_db := (tx_db t)\<lparr>db_monthly := upsert_row merge_monthly (v_aid (tx_v t)) p (db_monthly (tx_db t))\<rparr>\<rparr>))"

definition PersistWeeklyRewardsPatches :: "tx \<Rightarrow> DbErrorType + tx" where
  "PersistWeeklyRewardsPatches t =
    (let p = fold (\<lambda>new old. merge_weekly old new) (v_player_weekly_reward_patches (tx_v t)) \<lparr>pwr_day_count = None, pwr_last_time_update = None\<rparr>
     in if v_player_weekly_reward_patches (tx_v t) = [] \<or> (pwr_day_count p = None \<and> pwr_last_time_update p = None) then Inr t
        else Inr (t\<lparr>tx_db := (tx_db t)\<lparr>db_weekly := upsert_row merge_weekly (v_aid (tx_v t)) p (db_weekly (tx_db t))\<rparr>\<rparr>))"

definition PersistPlaytimePatches :: "tx \<Rightarrow> DbErrorType + tx" where
  "PersistPlaytimePatches t =
    (let p = fold (\<lambda>new old. merge_playtime old new) (v_player_playtime_patches (tx_v t))
               \<lparr>ppt_daily_seconds = None, ppt_claimed_stage = None, ppt_last_time_update = None\<rparr>
     in if v_player_playtime_patches (tx_v t) = []
           \<or> (ppt_daily_seconds p = None \<and> ppt_claimed_stage p = None \<and> ppt_last_time_update p = None) then Inr t
        else Inr (t\<lparr>tx_db := (tx_db t)\<lparr>db_playtime := upsert_row merge_playtime (v_aid (tx_v t)) p (db_playtime (tx_db t))\<rparr>\<rparr>))"

definition PersistBattlePassPatches :: "tx \<Rightarrow> DbErrorType + tx" where
  "PersistBattlePassPatches t =
    (let p = fold (\<lambda>new old. merge_battlepass old new) (v_player_battlepass_patches (tx_v t)) new_PlayerBattlePassPatch
     in if v_player_battlepass_patches (tx_v t) = [] then Inr t
        else Inr (t\<lparr>tx_db := (tx_db t)\<lparr>db_battlepass := upsert_row merge_battlepass (v_aid (tx_v t)) p (db_battlepass (tx_db t))\<rparr>\<rparr>))"

section \<open>Mails\<close>

definition patch_ids :: "(MailboxPatch \<Rightarrow> bool) \<Rightarrow> MailboxPatch list \<Rightarrow> u32 list" where
  "patch_ids p ps = map mbp_mail_id (filter (\<lambda>m. mbp_mail_id m \<noteq> 0 \<and> p m) ps)"

definition delete_sent :: "u32 list \<Rightarrow> MailboxData list \<Rightarrow> MailboxData list" where
  "delete_sent ids rows =
     map (\<lambda>m. if mb_mail_id m \<in> set ids \<and> \<not> mb_deleted_from_receiver m then m\<lparr>mb_deleted_from_sender := True\<rparr> else m)
       (filter (\<lambda>m. \<not> (mb_mail_id m \<in> set ids \<and> mb_deleted_from_receiver m)) rows)"

definition delete_received :: "u32 list \<Rightarrow> MailboxData list \<Rightarrow> MailboxData list" where
  "delete_received ids rows =
     map (\<lambda>m. if mb_mail_id m \<in> set ids \<and> \<not> mb_deleted_from_sender m then m\<lparr>mb_deleted_from_receiver := True\<rparr> else m)
       (filter (\<lambda>m. \<not> (mb_mail_id m \<in> set ids \<and> mb_deleted_from_sender m)) rows)"

definition find_nickname :: "db \<Rightarrow> string \<Rightarrow> u32 option" where
  "find_nickname d nick = map_option arow_Id (List.find (\<lambda>r. acc_Nickname (arow_info r) = nick) (db_accounts d))"

definition kMailboxLimit :: nat where "kMailboxLimit = 100"

text \<open>An insertion without both nicknames is passed over.\<close>

definition insertion :: "MailboxPatch \<Rightarrow> (MailInsert \<times> string \<times> string) option" where
  "insertion p =
    (case (mbp_op p, mbp_insert p) of
       (Mail_Insert, Some i) \<Rightarrow>
         (case (mi_sender_nickname i, mi_receiver_nickname i) of
            (Some sender, Some receiver) \<Rightarrow> Some (i, sender, receiver)
          | _ \<Rightarrow> None)
     | _ \<Rightarrow> None)"

definition mails_to :: "u32 \<Rightarrow> db \<Rightarrow> nat" where
  "mails_to rid d = length (filter (\<lambda>m. mb_receiver_account_id m = rid \<and> \<not> mb_deleted_from_receiver m) (db_mailbox d))"

definition insert_one :: "u32 \<Rightarrow> u32 \<Rightarrow> MailboxPatch \<Rightarrow> db \<Rightarrow> DbErrorType + (MailboxPatch \<times> db)" where
  "insert_one now aid p d =
    (case insertion p of
       None \<Rightarrow> Inr (p, d)
     | Some (i, sender, receiver) \<Rightarrow>
         (case find_nickname d receiver of
            None \<Rightarrow> Inl NicknameNotFound
          | Some rid \<Rightarrow>
              if fmlookup (db_socials d) (rid, aid) = Some Social_Blocked then Inl BlockedByReceiver
              else if mails_to rid d \<ge> kMailboxLimit then Inl MailboxFull
              else
                (let mail = \<lparr>mb_mail_id = db_next_mail d, mb_sender_account_id = aid, mb_sender_nickname = sender,
                       mb_receiver_account_id = rid, mb_receiver_nickname = receiver, mb_time = now,
                       mb_gift_itemid = mi_gift_item_id i, mb_message = mi_message i, mb_is_new = mi_is_new i,
                       mb_deleted_from_sender = False, mb_deleted_from_receiver = False\<rparr>
                 in Inr (p\<lparr>mbp_mail_id := mb_mail_id mail, mbp_insert := Some (i\<lparr>mi_receiver_id := Some rid\<rparr>)\<rparr>,
                         d\<lparr>db_mailbox := db_mailbox d @ [mail], db_next_mail := db_next_mail d + 1\<rparr>))))"

primrec insert_mails :: "u32 \<Rightarrow> u32 \<Rightarrow> MailboxPatch list \<Rightarrow> db \<Rightarrow> DbErrorType + (MailboxPatch list \<times> db)" where
  "insert_mails now aid [] d = Inr ([], d)"
| "insert_mails now aid (p # ps) d =
    (case insert_one now aid p d of
       Inl e \<Rightarrow> Inl e
     | Inr (p', d') \<Rightarrow> map_sum id (apfst ((#) p')) (insert_mails now aid ps d'))"

definition PersistMailboxPatches :: "u32 \<Rightarrow> tx \<Rightarrow> DbErrorType + tx" where
  "PersistMailboxPatches now t =
    (let v = tx_v t; ps = v_mailbox_patches v;
         read_ids = patch_ids (\<lambda>m. mbp_op m = Mail_MarkRead \<and> mbp_read m = Some True) ps;
         sent_ids = patch_ids (\<lambda>m. mbp_op m = Mail_Delete \<and> mbp_side m = Some Side_Sender) ps;
         received_ids = patch_ids (\<lambda>m. mbp_op m = Mail_Delete \<and> mbp_side m = Some Side_Receiver) ps;
         rows = db_mailbox (tx_db t)
     in if read_ids \<noteq> [] \<and> \<not> list_ex (\<lambda>m. mb_mail_id m \<in> set read_ids) rows then Inl NoRowsAffected
        else
          (let rows = map (\<lambda>m. if mb_mail_id m \<in> set read_ids then m\<lparr>mb_is_new := False\<rparr> else m) rows;
               rows = delete_received received_ids (delete_sent sent_ids rows)
           in case insert_mails now (v_aid v) ps ((tx_db t)\<lparr>db_mailbox := rows\<rparr>) of
                Inl e \<Rightarrow> Inl e
              | Inr (ps, d) \<Rightarrow> Inr (t\<lparr>tx_v := v\<lparr>v_mailbox_patches := ps\<rparr>, tx_db := d\<rparr>)))"

section \<open>Matches, sessions, socials, gachapons\<close>

definition PersistMatchHistoryAdds :: "tx \<Rightarrow> DbErrorType + tx" where
  "PersistMatchHistoryAdds t = Inr (t\<lparr>tx_db := (tx_db t)\<lparr>db_history := db_history (tx_db t) @ v_match_history_adds (tx_v t)\<rparr>\<rparr>)"

definition PersistPlayerSessionsPatches :: "tx \<Rightarrow> DbErrorType + tx" where
  "PersistPlayerSessionsPatches t =
    (let ps = filter (\<lambda>p. pss_aid p \<noteq> 0 \<and> pss_key p \<noteq> 0) (v_player_sessions_patches (tx_v t));
         pairs = (\<lambda>op. map (\<lambda>p. (pss_aid p, pss_key p)) (filter (\<lambda>p. pss_op p = op) ps))
     in Inr (t\<lparr>tx_db := (tx_db t)\<lparr>db_sessions :=
          filter (\<lambda>s. s \<notin> set (pairs Sessions_Delete)) (db_sessions (tx_db t)) @ pairs Sessions_Insert\<rparr>\<rparr>))"

text \<open>
  The target of a social change by nickname when the change has no id; what is deleted and upserted,
  mirrored for the target; and the flags for the handler.
\<close>

definition social_target :: "db \<Rightarrow> PlayerSocialPatch \<Rightarrow> u32 option" where
  "social_target d p =
    (if psp_targetAid p \<noteq> 0 then Some (psp_targetAid p)
     else case psp_TargetNickname p of
       None \<Rightarrow> Some 0
     | Some nick \<Rightarrow> if nick = [] then Some 0 else find_nickname d nick)"

definition social_deletes :: "PlayerSocialPatch \<Rightarrow> u32 \<Rightarrow> (u32 \<times> u32) list" where
  "social_deletes p target =
    (if psp_op p = Social_Delete then [(target, psp_aid p), (psp_aid p, target)]
     else if psp_State p = Some Social_Blocked then [(target, psp_aid p)] else [])"

definition social_upserts :: "PlayerSocialPatch \<Rightarrow> u32 \<Rightarrow> ((u32 \<times> u32) \<times> u8) list" where
  "social_upserts p target =
    (if psp_op p = Social_Delete then []
     else (if psp_State p = Some Social_Accepted then [((target, psp_aid p), set_if (psp_State p) 0)] else [])
          @ [((psp_aid p, target), set_if (psp_State p) 0)])"

definition social_flags :: "db \<Rightarrow> PlayerSocialPatch \<Rightarrow> ResultDbUpdateInfo \<Rightarrow> ResultDbUpdateInfo" where
  "social_flags d p out =
    (if psp_aid p = 0 then out
     else case social_target d p of
       None \<Rightarrow> out\<lparr>rdb_target_not_found := True\<rparr>
     | Some target \<Rightarrow>
         if target = 0 \<or> psp_op p = Social_Delete then out
         else out\<lparr>rdb_target_blocked := rdb_target_blocked out \<or> fmlookup (db_socials d) (psp_aid p, target) = Some Social_Blocked,
                  rdb_player_blocked := rdb_player_blocked out \<or> fmlookup (db_socials d) (target, psp_aid p) = Some Social_Blocked\<rparr>)"

definition PersistPlayerSocialsPatches :: "tx \<Rightarrow> DbErrorType + tx" where
  "PersistPlayerSocialsPatches t =
    (let d = tx_db t; ps = v_player_social_patches (tx_v t);
         resolved = List.map_filter (\<lambda>p. if psp_aid p = 0 then None else case social_target d p of
           None \<Rightarrow> None | Some target \<Rightarrow> if target = 0 then None else Some (p, target)) ps;
         deletes = concat (map (\<lambda>(p, target). social_deletes p target) resolved);
         upserts = concat (map (\<lambda>(p, target). social_upserts p target) resolved)
     in Inr (t\<lparr>tx_db := d\<lparr>db_socials := fold (\<lambda>(k, s). fmupd k s) upserts (fold fmdrop deletes (db_socials d))\<rparr>,
               tx_out := fold (social_flags d) ps (tx_out t)\<rparr>))"

definition PersistGachaPityPatches :: "tx \<Rightarrow> DbErrorType + tx" where
  "PersistGachaPityPatches t = Inr (t\<lparr>tx_db := (tx_db t)\<lparr>db_pity :=
     fold (\<lambda>p. fmupd (v_aid (tx_v t), gpp_gacha_type p) (gpp_lucky_points p)) (v_gacha_pity_patches (tx_v t)) (db_pity (tx_db t))\<rparr>\<rparr>)"

section \<open>The transaction\<close>

definition tx_then :: "('a \<Rightarrow> 'e + 'b) \<Rightarrow> 'e + 'a \<Rightarrow> 'e + 'b" where
  "tx_then f r = (case r of Inl e \<Rightarrow> Inl e | Inr t \<Rightarrow> f t)"

definition persist_all :: "(CurrencyType \<Rightarrow> nat) \<Rightarrow> u32 \<Rightarrow> tx \<Rightarrow> DbErrorType + tx" where
  "persist_all col_max now t =
    tx_then PersistGachaPityPatches (tx_then PersistPlayerSocialsPatches (tx_then PersistPlayerSessionsPatches
      (tx_then PersistMatchHistoryAdds (tx_then PersistBattlePassPatches (tx_then PersistPlaytimePatches
        (tx_then PersistWeeklyRewardsPatches (tx_then PersistMonthlyRewardsPatches (tx_then (PersistMailboxPatches now)
          (tx_then PersistMissionsPatches (tx_then PersistItemAdds (tx_then PersistItemPatches (tx_then PersistItemDeletes
            (tx_then PersistAccountInfoPatches (commit_currencies col_max t))))))))))))))"

definition UpdateAccount ::
  "(CurrencyType \<Rightarrow> nat) \<Rightarrow> u32 \<Rightarrow> bool \<Rightarrow> ValidatedDbUpdates \<Rightarrow> db \<Rightarrow> db \<times> ResultDbUpdateInfo \<times> (DbErrorType + ValidatedDbUpdates)" where
  "UpdateAccount col_max now up v d =
    (if \<not> up then (d, new_ResultDbUpdateInfo, Inl SqlException)
     else case persist_all col_max now \<lparr>tx_v = v, tx_db = d, tx_out = new_ResultDbUpdateInfo\<rparr> of
       Inl e \<Rightarrow> (d, new_ResultDbUpdateInfo, Inl e)
     | Inr t \<Rightarrow> (tx_db t, tx_out t, Inr (tx_v t)))"

text \<open>Several accounts in one transaction.\<close>

fun persist_batch ::
  "(CurrencyType \<Rightarrow> nat) \<Rightarrow> u32 \<Rightarrow> ValidatedDbUpdates list \<Rightarrow> db \<Rightarrow> DbErrorType + (db \<times> ResultDbUpdateInfo list \<times> ValidatedDbUpdates list)" where
  "persist_batch col_max now [] d = Inr (d, [], [])"
| "persist_batch col_max now (v # vs) d =
    (case persist_all col_max now \<lparr>tx_v = v, tx_db = d, tx_out = new_ResultDbUpdateInfo\<rparr> of
       Inl e \<Rightarrow> Inl e
     | Inr t \<Rightarrow> (case persist_batch col_max now vs (tx_db t) of
         Inl e \<Rightarrow> Inl e
       | Inr (d', outs, vs') \<Rightarrow> Inr (d', tx_out t # outs, tx_v t # vs')))"

definition UpdateAccounts ::
  "(CurrencyType \<Rightarrow> nat) \<Rightarrow> u32 \<Rightarrow> bool \<Rightarrow> ValidatedDbUpdates list \<Rightarrow> db \<Rightarrow> db \<times> (DbErrorType + (ResultDbUpdateInfo list \<times> ValidatedDbUpdates list))" where
  "UpdateAccounts col_max now up batch d =
    (if \<not> up then (d, Inl SqlException)
     else case persist_batch col_max now batch d of
       Inl e \<Rightarrow> (d, Inl e)
     | Inr (d', outs, vs) \<Rightarrow> (d', Inr (outs, vs)))"

end
