(* ===== verification/Commit.thy ===== *)
theory Commit
  imports Database
begin

text \<open>
  The database and the cache. A change is committed to the tables and then applied to the cached
  account by two unrelated pieces of code; here they are shown to agree. Further, the limits and
  mirrored entries the commit keeps in the tables of mails and socials.
\<close>

section \<open>The steps that leave items and accounts alone\<close>

definition core :: "tx \<Rightarrow> _" where
  "core t = (v_sid (tx_v t), v_aid (tx_v t), v_currency_updates (tx_v t), v_acc_info_patches (tx_v t), v_items_deleted (tx_v t),
     v_items_patches (tx_v t), v_items_added (tx_v t), db_accounts (tx_db t), db_items (tx_db t))"

lemma tx_then_Inr: "tx_then f r = Inr t' \<longleftrightarrow> (\<exists>t. r = Inr t \<and> f t = Inr t')"
  by (simp add: tx_then_def split: sum.split)

lemma insert_one_keeps:
  "insert_one now aid p d = Inr (p', d') \<Longrightarrow> db_accounts d' = db_accounts d \<and> db_items d' = db_items d \<and> db_socials d' = db_socials d"
  by (auto simp: insert_one_def Let_def split: option.splits prod.splits if_splits)

lemma insert_mails_keeps:
  "insert_mails now aid ps d = Inr (ps', d') \<Longrightarrow> db_accounts d' = db_accounts d \<and> db_items d' = db_items d \<and> db_socials d' = db_socials d"
proof (induction ps arbitrary: ps' d d')
  case (Cons p ps)
  obtain p1 d1 where 1: "insert_one now aid p d = Inr (p1, d1)"
    using Cons.prems by (cases "insert_one now aid p d") auto
  obtain ps2 d2 where 2: "insert_mails now aid ps d1 = Inr (ps2, d2)" "d' = d2"
    using Cons.prems 1 by (cases "insert_mails now aid ps d1") auto
  show ?case using Cons.IH [OF 2(1)] insert_one_keeps [OF 1] 2(2) by simp
qed simp

lemma tail_keeps_core:
  "PersistMissionsPatches t = Inr t' \<Longrightarrow> core t' = core t"
  "PersistMailboxPatches now t = Inr t' \<Longrightarrow> core t' = core t"
  "PersistMonthlyRewardsPatches t = Inr t' \<Longrightarrow> core t' = core t"
  "PersistWeeklyRewardsPatches t = Inr t' \<Longrightarrow> core t' = core t"
  "PersistPlaytimePatches t = Inr t' \<Longrightarrow> core t' = core t"
  "PersistBattlePassPatches t = Inr t' \<Longrightarrow> core t' = core t"
  "PersistMatchHistoryAdds t = Inr t' \<Longrightarrow> core t' = core t"
  "PersistPlayerSessionsPatches t = Inr t' \<Longrightarrow> core t' = core t"
  "PersistPlayerSocialsPatches t = Inr t' \<Longrightarrow> core t' = core t"
  "PersistGachaPityPatches t = Inr t' \<Longrightarrow> core t' = core t"
  subgoal by (auto simp: PersistMissionsPatches_def Let_def core_def split: if_splits)
  subgoal by (auto simp: PersistMailboxPatches_def Let_def core_def split: if_splits sum.splits prod.splits dest: insert_mails_keeps)
  subgoal by (auto simp: PersistMonthlyRewardsPatches_def Let_def core_def split: if_splits)
  subgoal by (auto simp: PersistWeeklyRewardsPatches_def Let_def core_def split: if_splits)
  subgoal by (auto simp: PersistPlaytimePatches_def Let_def core_def split: if_splits)
  subgoal by (auto simp: PersistBattlePassPatches_def Let_def core_def split: if_splits)
  subgoal by (auto simp: PersistMatchHistoryAdds_def core_def)
  subgoal by (auto simp: PersistPlayerSessionsPatches_def Let_def core_def)
  subgoal by (auto simp: PersistPlayerSocialsPatches_def Let_def core_def)
  subgoal by (auto simp: PersistGachaPityPatches_def core_def)
  done

lemma persist_all_steps:
  assumes "persist_all cm now t = Inr t'"
  obtains t1 t2 t3 t4 t5 where "commit_currencies cm t = Inr t1" "PersistAccountInfoPatches t1 = Inr t2"
    "PersistItemDeletes t2 = Inr t3" "PersistItemPatches t3 = Inr t4" "PersistItemAdds t4 = Inr t5" "core t' = core t5"
  using assms unfolding persist_all_def tx_then_Inr by (metis tail_keeps_core)

section \<open>Items\<close>

definition rows_of :: "u32 \<Rightarrow> db \<Rightarrow> item_row list" where
  "rows_of aid d = filter (\<lambda>r. irow_PlayerId r = aid) (db_items d)"

text \<open>The values of a patch fit the fields of the cached item.\<close>

definition fits :: "ItemPatchCtx \<Rightarrow> bool" where
  "fits p \<longleftrightarrow> (\<forall>x \<in> set_option (ip_repair p). x < 2 ^ 16) \<and> (\<forall>x \<in> set_option (ip_energy p). x < 2 ^ 16)
     \<and> (\<forall>x \<in> set_option (ip_new_item_id p). x < 2 ^ 23)"

lemma set_if_over: "set_if (over a b) x = set_if b (set_if a x)"
  by (simp add: set_if_def over_def split: option.split)

lemma ucast_back16: "x < 2 ^ 16 \<Longrightarrow> ucast (ucast (x :: u32) :: u16) = x"
proof -
  assume x: "x < 2 ^ 16"
  have "ucast (ucast x :: u16) = take_bit 16 x" by (rule bit_word_eqI) (simp add: bit_simps)
  then show ?thesis using less_mask_eq [OF x] by (simp add: take_bit_eq_mask)
qed

lemma ucast_back23: "x < 2 ^ 23 \<Longrightarrow> ucast (ucast (x :: u32) :: 23 word) = x"
proof -
  assume x: "x < 2 ^ 23"
  have "ucast (ucast x :: 23 word) = take_bit 23 x" by (rule bit_word_eqI) (simp add: bit_simps)
  then show ?thesis using less_mask_eq [OF x] by (simp add: take_bit_eq_mask)
qed

lemma row_of_patch: "fits p \<Longrightarrow> row_of aid (patch_item p it) = patch_row p (row_of aid it)"
  by (auto simp: row_of_def patch_item_def patch_row_def fits_def Let_def set_if_def ucast_back16 ucast_back23
      split: option.split)

lemma patch_row_keys [simp]: "irow_PlayerId (patch_row p r) = irow_PlayerId r" "irow_SerialInfo (patch_row p r) = irow_SerialInfo r"
  by (simp_all add: patch_row_def)

lemma patch_row_new [simp]: "patch_row new_ItemPatchCtx r = r"
  by (simp add: patch_row_def new_ItemPatchCtx_def set_if_def)

lemma patch_row_merge: "patch_row (merge_patch a b) r = patch_row b (patch_row a r)"
  by (simp add: patch_row_def merge_patch_def set_if_def over_def split: option.split)

abbreviation patch_if :: "ResolvedItemPatch \<Rightarrow> item_row \<Rightarrow> item_row" where
  "patch_if rp r \<equiv> if irow_SerialInfo r = rip_serial rp then patch_row (rip_patch rp) r else r"

lemma patch_row_merged: "patch_row (merged ps (irow_SerialInfo r)) r = fold patch_if ps r"
proof -
  have "patch_row (fold (\<lambda>rp old. if rip_serial rp = s then merge_patch old (rip_patch rp) else old) ps p) r'
      = fold patch_if ps (patch_row p r')" if "irow_SerialInfo r' = s" for s p r'
    using that by (induction ps arbitrary: p) (auto simp: patch_row_merge)
  from this [of r "irow_SerialInfo r" new_ItemPatchCtx] show ?thesis by (simp add: merged_def)
qed

lemma merged_other: "s \<notin> rip_serial ` set ps \<Longrightarrow> merged ps s = new_ItemPatchCtx"
proof -
  have "s \<notin> rip_serial ` set ps \<Longrightarrow>
    fold (\<lambda>rp old. if rip_serial rp = s then merge_patch old (rip_patch rp) else old) ps p = p" for p
    by (induction ps arbitrary: p) auto
  then show "s \<notin> rip_serial ` set ps \<Longrightarrow> merged ps s = new_ItemPatchCtx" by (simp add: merged_def)
qed

lemma persist_patches_rows:
  assumes "PersistItemPatches t = Inr t'"
  shows "rows_of aid (tx_db t') = (if aid = v_aid (tx_v t) then map (fold patch_if (v_items_patches (tx_v t))) (rows_of aid (tx_db t))
    else rows_of aid (tx_db t))" "db_accounts (tx_db t') = db_accounts (tx_db t)" "tx_v t' = tx_v t"
proof -
  let ?ps = "v_items_patches (tx_v t)"
  let ?f = "\<lambda>r. if irow_PlayerId r = v_aid (tx_v t) \<and> irow_SerialInfo r \<in> rip_serial ` set ?ps
     then patch_row (merged ?ps (irow_SerialInfo r)) r else r"
  have f: "?f r = (if irow_PlayerId r = v_aid (tx_v t) then fold patch_if ?ps r else r)" for r
    using merged_other [of "irow_SerialInfo r" ?ps] patch_row_merged [of ?ps r] by auto
  have same: "?f r = r" if "?ps = [] \<or> (\<forall>rp \<in> set ?ps. merged ?ps (rip_serial rp) = new_ItemPatchCtx)" for r
    using that by auto
  have "db_items (tx_db t') = map ?f (db_items (tx_db t))"
    using assms same by (auto simp: PersistItemPatches_def Let_def list_all_iff image_image split: if_splits intro!: map_idI)
  moreover have "irow_PlayerId (?f r) = irow_PlayerId r" for r by simp
  ultimately have "rows_of aid (tx_db t') = map ?f (rows_of aid (tx_db t))"
    by (simp only: rows_of_def filter_map o_def)
  then show "rows_of aid (tx_db t') = (if aid = v_aid (tx_v t) then map (fold patch_if ?ps) (rows_of aid (tx_db t))
    else rows_of aid (tx_db t))"
    unfolding f by (auto simp: rows_of_def intro: map_idI)
  show "db_accounts (tx_db t') = db_accounts (tx_db t)" "tx_v t' = tx_v t"
    using assms by (auto simp: PersistItemPatches_def Let_def split: if_splits)
qed

lemma persist_deletes_rows:
  assumes "PersistItemDeletes t = Inr t'"
  shows "rows_of aid (tx_db t') = (if aid = v_aid (tx_v t)
      then filter (\<lambda>r. irow_SerialInfo r \<notin> serial_data ` set (v_items_deleted (tx_v t))) (rows_of aid (tx_db t))
      else rows_of aid (tx_db t))" "db_accounts (tx_db t') = db_accounts (tx_db t)" "tx_v t' = tx_v t"
  using assms by (auto simp: PersistItemDeletes_def Let_def rows_of_def split: if_splits intro: filter_cong)

lemma persist_adds_rows:
  assumes "PersistItemAdds t = Inr t'"
  shows "rows_of aid (tx_db t') = rows_of aid (tx_db t) @ (if aid = v_aid (tx_v t) then map (row_of aid) (v_items_added (tx_v t)) else [])"
    "db_accounts (tx_db t') = db_accounts (tx_db t)" "tx_v t' = tx_v t"
  using assms by (auto simp: PersistItemAdds_def Let_def rows_of_def row_of_def filter_map o_def split: if_splits)

section \<open>Accounts\<close>

definition strip :: "FrontAccount \<Rightarrow> FrontAccount" where
  "strip a = set_balance Cur_ENERGY 0 (set_balance Cur_COUPONS 0 (set_balance Cur_RT 0 (set_balance Cur_MP 0 a)))"

lemma account_eqI:
  assumes "strip a = strip b" "\<And>t. balance t a = balance t b"
  shows "a = b"
proof -
  have whole: "set_balance Cur_ENERGY (balance Cur_ENERGY x) (set_balance Cur_COUPONS (balance Cur_COUPONS x)
      (set_balance Cur_RT (balance Cur_RT x) (set_balance Cur_MP (balance Cur_MP x) (strip x)))) = x" for x
    by (simp add: strip_def)
  show ?thesis by (metis assms whole)
qed

lemma strip_set_balance [simp]: "strip (set_balance t x a) = strip a"
  by (cases t) (simp_all add: strip_def)

definition account_rows :: "u32 \<Rightarrow> db \<Rightarrow> account_row list" where
  "account_rows aid d = filter (\<lambda>r. arow_Id r = aid) (db_accounts d)"

lemma filter_find: "filter p xs = [x] \<Longrightarrow> List.find p xs = Some x"
  by (induction xs) (auto split: if_splits)

lemma arow_Id_store [simp]: "arow_Id (store_balances row r) = arow_Id r"
  by (simp add: store_balances_def)

lemma store_balances_info:
  "balance t (arow_info (store_balances row r)) = of_nat (row t)" "strip (arow_info (store_balances row r)) = strip (arow_info r)"
  by (cases t; simp add: store_balances_def) (simp add: store_balances_def strip_def)

lemma account_rows_map:
  assumes "account_rows aid d = [r]" "\<And>r. arow_Id (f r) = arow_Id r"
  shows "account_rows aid (d\<lparr>db_accounts := map (\<lambda>r. if arow_Id r = aid then f r else r) (db_accounts d)\<rparr>) = [f r]"
proof -
  have "filter (\<lambda>r. arow_Id r = aid) (map (\<lambda>r. if arow_Id r = aid then f r else r) xs)
      = map f (filter (\<lambda>r. arow_Id r = aid) xs)" for xs
    by (induction xs) (auto simp: assms(2))
  then show ?thesis using assms(1) by (simp add: account_rows_def)
qed

lemma commit_currencies_account:
  assumes "commit_currencies cm t = Inr t'" "v_currency_updates (tx_v t) = net_currencies b"
    and "account_rows (v_aid (tx_v t)) (tx_db t) = [r]"
  shows "\<exists>r'. account_rows (v_aid (tx_v t)) (tx_db t') = [r'] \<and> strip (arow_info r') = strip (arow_info r)
      \<and> (\<forall>c. balance c (arow_info r') = balance c (arow_info r) + delta c (v_currency_updates (tx_v t)))"
    and "db_items (tx_db t') = db_items (tx_db t)" "tx_v t' = tx_v t"
proof -
  let ?v = "tx_v t" and ?aid = "v_aid (tx_v t)"
  have nets: "net_currencies (fold add_delta (v_currency_updates ?v) (\<lambda>_. \<lparr>rewards = 0, costs = 0\<rparr>)) = v_currency_updates ?v"
    by (simp add: assms(2) renet)
  have find: "List.find (\<lambda>r. arow_Id r = ?aid) (db_accounts (tx_db t)) = Some r"
    using assms(3) by (simp add: account_rows_def filter_find)
  show "db_items (tx_db t') = db_items (tx_db t)" "tx_v t' = tx_v t"
    using assms(1) by (auto simp: commit_currencies_def Let_def split: if_splits option.splits)
  show "\<exists>r'. account_rows ?aid (tx_db t') = [r'] \<and> strip (arow_info r') = strip (arow_info r)
      \<and> (\<forall>c. balance c (arow_info r') = balance c (arow_info r) + delta c (v_currency_updates ?v))"
  proof (cases "v_currency_updates ?v = []")
    case True
    then show ?thesis using assms(1,3) by (auto simp: commit_currencies_def)
  next
    case False
    then obtain row where row: "PersistCurrenciesPatches cm (stored r) ?v = Some row"
      and t': "tx_db t' = (tx_db t)\<lparr>db_accounts := map (\<lambda>r. if arow_Id r = ?aid then store_balances row r else r) (db_accounts (tx_db t))\<rparr>"
      using assms(1) by (auto simp: commit_currencies_def Let_def nets find split: option.splits if_splits)
    have "account_rows ?aid (tx_db t') = [store_balances row r]"
      unfolding t' by (rule account_rows_map [OF assms(3)]) simp
    then show ?thesis
      using commit_word [OF row assms(2)] by (simp add: store_balances_info stored_def)
  qed
qed

lemma patch_account_new [simp]: "patch_account new_AccountInfoPatch a = a"
  by (simp add: patch_account_def new_AccountInfoPatch_def set_if_def)

lemma map_over: "map_option f (over a b) = over (map_option f a) (map_option f b)"
  by (simp add: over_def split: option.split)

lemma patch_account_merge: "patch_account (merge_info a b) x = patch_account b (patch_account a x)"
  by (simp add: patch_account_def merge_info_def set_if_over map_over)

lemma patch_account_merged:
  "patch_account (fold (\<lambda>new old. merge_info old new) ps p) a = fold patch_account ps (patch_account p a)"
  by (induction ps arbitrary: p) (simp_all add: patch_account_merge)

lemma persist_info_account:
  assumes "PersistAccountInfoPatches t = Inr t'" "account_rows (v_aid (tx_v t)) (tx_db t) = [r]"
  shows "\<exists>r'. account_rows (v_aid (tx_v t)) (tx_db t') = [r'] \<and> arow_info r' = fold patch_account (v_acc_info_patches (tx_v t)) (arow_info r)"
    and "db_items (tx_db t') = db_items (tx_db t)" "tx_v t' = tx_v t"
proof -
  let ?aid = "v_aid (tx_v t)" and ?ps = "v_acc_info_patches (tx_v t)"
  let ?p = "fold (\<lambda>new old. merge_info old new) ?ps new_AccountInfoPatch"
  let ?f = "\<lambda>r. r\<lparr>arow_info := patch_account ?p (arow_info r), arow_ServerId := set_if (aip_server_id ?p) (arow_ServerId r)\<rparr>"
  have p: "patch_account ?p a = fold patch_account ?ps a" for a by (simp add: patch_account_merged)
  show "db_items (tx_db t') = db_items (tx_db t)" "tx_v t' = tx_v t"
    using assms(1) by (auto simp: PersistAccountInfoPatches_def Let_def split: if_splits)
  consider "?ps = [] \<or> ?p = new_AccountInfoPatch" "t' = t"
    | "tx_db t' = (tx_db t)\<lparr>db_accounts := map (\<lambda>r. if arow_Id r = ?aid then ?f r else r) (db_accounts (tx_db t))\<rparr>"
    using assms(1) by (auto simp: PersistAccountInfoPatches_def Let_def split: if_splits)
  then show "\<exists>r'. account_rows ?aid (tx_db t') = [r'] \<and> arow_info r' = fold patch_account ?ps (arow_info r)"
  proof cases
    case 1
    have "fold patch_account ?ps (arow_info r) = arow_info r" using 1(1) p [of "arow_info r"] by auto
    then show ?thesis using assms(2) 1(2) by simp
  next
    case 2
    have "account_rows ?aid (tx_db t') = [?f r]"
      unfolding 2 by (rule account_rows_map [OF assms(2)]) simp
    then show ?thesis by (simp add: p)
  qed
qed

section \<open>The cache\<close>

abbreviation info_of :: "apply_state \<Rightarrow> FrontAccount" where
  "info_of s \<equiv> pl_acc_info (as_player s)"

lemma apply_keeps_info [simp]:
  "info_of (fst (apply_delete x s)) = info_of s" "info_of (fst (apply_patch y s)) = info_of s"
  "info_of (apply_adds i s) = info_of s" "info_of (fst (apply_missions m s)) = info_of s"
  "info_of (fst (apply_mail now b s)) = info_of s" "info_of (fst (apply_social c s)) = info_of s"
  "info_of (fst (apply_pity d s)) = info_of s"
  by (simp_all add: apply_delete_def apply_patch_def apply_adds_def apply_missions_def apply_mail_def apply_social_def
      apply_pity_def Let_def split: option.split SocialOp.split)

lemma run_each_info: "(\<And>x s. info_of (fst (f x s)) = info_of s) \<Longrightarrow> info_of (fst (run_each f xs s)) = info_of s"
  by (rule run_each_keeps)

lemma run_infos:
  "info_of (fst (run_each apply_info ps s)) = fold patch_account ps (info_of s) \<and> snd (run_each apply_info ps s) = None"
proof (induction ps arbitrary: s)
  case (Cons p ps)
  have "snd (apply_info p s) = None" "info_of (fst (apply_info p s)) = patch_account p (info_of s)"
    by (simp_all add: apply_info_def upd_info_def)
  then show ?case using Cons [of "fst (apply_info p s)"] by (simp add: run_each_Cons del: run_each.simps(2))
qed simp

lemma strip_currency: "strip (info_of (fst (run_each apply_currency us s))) = strip (info_of s)"
proof (rule run_each_keeps)
  show "strip (info_of (fst (apply_currency x s))) = strip (info_of s)" for x s
    by (simp add: apply_currency_def Let_def upd_info_def)
qed

lemma and_then_ok: "and_then r k = (s, None) \<longleftrightarrow> snd r = None \<and> k (fst r) = (s, None)"
  by (auto simp: and_then_def split: prod.split option.split)

lemma fst_eq: "r = (s, e) \<Longrightarrow> s = fst r"
  by simp

lemma Apply_ok:
  assumes "ApplyDatabaseUpdates now v acc st = (s, None)"
  obtains s1 s2 where
    "s1 = fst (run_each apply_currency (v_currency_updates v) \<lparr>as_player = acc, as_stores = st, as_result = new_ApplyCacheUpdateResult\<rparr>)"
    "s2 = fst (run_each apply_delete (v_items_deleted v) s1)"
    "snd (run_each apply_patch (v_items_patches v) s2) = None"
    "items_of s = items_of (fst (run_each apply_patch (v_items_patches v) s2)) @ v_items_added v"
    "info_of s = fold patch_account (v_acc_info_patches v) (info_of s1)"
proof -
  let ?s1 = "fst (run_each apply_currency (v_currency_updates v) \<lparr>as_player = acc, as_stores = st, as_result = new_ApplyCacheUpdateResult\<rparr>)"
  let ?s2 = "fst (run_each apply_delete (v_items_deleted v) ?s1)"
  let ?s3 = "fst (run_each apply_patch (v_items_patches v) ?s2)"
  have s: "s = fst (ApplyDatabaseUpdates now v acc st)" using assms by simp
  have none: "snd (run_each apply_patch (v_items_patches v) ?s2) = None"
    using assms unfolding ApplyDatabaseUpdates_def and_then_ok by blast
  have "items_of s = items_of ?s3 @ v_items_added v"
    unfolding s ApplyDatabaseUpdates_def by (simp add: fst_and_then run_currency run_deletes run_each_items apply_adds_def none)
  moreover have "info_of s = fold patch_account (v_acc_info_patches v) (info_of ?s1)"
    unfolding s ApplyDatabaseUpdates_def
    by (simp add: fst_and_then run_currency run_deletes run_each_info run_infos none)
  ultimately show thesis using none that by blast
qed

lemma update_first_distinct:
  assumes "distinct (map h xs)" "update_first (\<lambda>x. h x = k) f xs = Some ys"
  shows "ys = map (\<lambda>x. if h x = k then f x else x) xs"
  using assms
proof (induction xs arbitrary: ys)
  case (Cons x xs)
  show ?case
  proof (cases "h x = k")
    case True
    then have "map (\<lambda>x. if h x = k then f x else x) xs = xs"
      using Cons.prems(1) by (intro map_idI) (auto simp: image_iff)
    then show ?thesis using Cons.prems(2) True by simp
  next
    case False
    then show ?thesis using Cons by (auto split: if_splits)
  qed
qed simp

lemma run_patches:
  assumes "distinct (map item_serial (items_of s))" "snd (run_each apply_patch ps s) = None"
  shows "items_of (fst (run_each apply_patch ps s))
    = map (fold (\<lambda>rp it. if item_serial it = rip_serial rp then patch_item (rip_patch rp) it else it) ps) (items_of s)"
  using assms
proof (induction ps arbitrary: s)
  case (Cons p ps)
  let ?g = "\<lambda>it. if item_serial it = rip_serial p then patch_item (rip_patch p) it else it"
  have ok: "snd (apply_patch p s) = None" using Cons.prems(2) by (auto simp: run_each_Cons simp del: run_each.simps(2) split: if_splits)
  then obtain ys where ys: "update_first (\<lambda>it. item_serial it = rip_serial p) (patch_item (rip_patch p)) (items_of s) = Some ys"
    by (auto simp: apply_patch_def split: option.splits)
  have items: "items_of (fst (apply_patch p s)) = map ?g (items_of s)"
    using update_first_distinct [OF Cons.prems(1) ys] ys by (simp add: apply_patch_def)
  have "map item_serial (map ?g (items_of s)) = map item_serial (items_of s)" by simp
  then have "distinct (map item_serial (items_of (fst (apply_patch p s))))" using Cons.prems(1) items by metis
  moreover have "snd (run_each apply_patch ps (fst (apply_patch p s))) = None"
    using Cons.prems(2) ok by (simp add: run_each_Cons del: run_each.simps(2))
  ultimately show ?case
    using Cons.IH [of "fst (apply_patch p s)"] ok items by (simp add: run_each_Cons o_def del: run_each.simps(2))
qed simp

section \<open>The tables and the cache agree\<close>

definition agrees :: "u32 \<Rightarrow> Player \<Rightarrow> db \<Rightarrow> bool" where
  "agrees aid p d \<longleftrightarrow> rows_of aid d = map (row_of aid) (pl_inventory_items p)
     \<and> map arow_info (account_rows aid d) = [pl_acc_info p]"

lemma serial_row_of [simp]: "irow_SerialInfo (row_of aid it) = item_serial it"
  by (simp add: row_of_def item_serial_def Let_def)

lemma row_of_patches:
  "list_all (\<lambda>rp. fits (rip_patch rp)) ps \<Longrightarrow>
   row_of aid (fold (\<lambda>rp it. if item_serial it = rip_serial rp then patch_item (rip_patch rp) it else it) ps it)
   = fold patch_if ps (row_of aid it)"
proof (induction ps arbitrary: it)
  case (Cons p ps)
  then show ?case using Cons by (simp add: row_of_patch)
qed simp

lemma cached_items:
  assumes "ApplyDatabaseUpdates now v acc st = (s, None)" "distinct (map item_serial (pl_inventory_items acc))"
  shows "items_of s =
    map (fold (\<lambda>rp it. if item_serial it = rip_serial rp then patch_item (rip_patch rp) it else it) (v_items_patches v))
      (filter (\<lambda>it. item_serial it \<notin> serial_data ` set (v_items_deleted v)) (pl_inventory_items acc)) @ v_items_added v"
proof -
  obtain s1 s2 where s: "s1 = fst (run_each apply_currency (v_currency_updates v)
        \<lparr>as_player = acc, as_stores = st, as_result = new_ApplyCacheUpdateResult\<rparr>)"
    "s2 = fst (run_each apply_delete (v_items_deleted v) s1)"
    "snd (run_each apply_patch (v_items_patches v) s2) = None"
    "items_of s = items_of (fst (run_each apply_patch (v_items_patches v) s2)) @ v_items_added v"
    using Apply_ok [OF assms(1)] by metis
  have "items_of s1 = pl_inventory_items acc"
    unfolding s(1) by (subst run_each_items) (simp_all add: apply_currency_def Let_def upd_info_def)
  then have 2: "items_of s2 = filter (\<lambda>it. item_serial it \<notin> serial_data ` set (v_items_deleted v)) (pl_inventory_items acc)"
    unfolding s(2) by (simp add: run_deletes)
  then have "distinct (map item_serial (items_of s2))" using assms(2) by (simp add: distinct_map_filter)
  then show ?thesis using s(4) run_patches [OF _ s(3)] 2 by simp
qed

lemma cached_info:
  assumes "ApplyDatabaseUpdates now v acc st = (s, None)"
  shows "\<exists>a. info_of s = fold patch_account (v_acc_info_patches v) a \<and> strip a = strip (pl_acc_info acc)
    \<and> (\<forall>c. balance c a = balance c (pl_acc_info acc) + delta c (v_currency_updates v))"
proof -
  let ?s0 = "\<lparr>as_player = acc, as_stores = st, as_result = new_ApplyCacheUpdateResult\<rparr>"
  let ?s1 = "fst (run_each apply_currency (v_currency_updates v) ?s0)"
  have "info_of s = fold patch_account (v_acc_info_patches v) (info_of ?s1)"
    using Apply_ok [OF assms] by metis
  moreover have "strip (info_of ?s1) = strip (pl_acc_info acc)" by (simp add: strip_currency)
  moreover have "balance c (info_of ?s1) = balance c (pl_acc_info acc) + delta c (v_currency_updates v)" for c
    using run_currency [of c "v_currency_updates v" ?s0] by simp
  ultimately show ?thesis by blast
qed

lemma committed_items:
  assumes "persist_all cm now t = Inr t'"
  shows "rows_of aid (tx_db t') = (if aid = v_aid (tx_v t) then
      map (fold patch_if (v_items_patches (tx_v t)))
        (filter (\<lambda>r. irow_SerialInfo r \<notin> serial_data ` set (v_items_deleted (tx_v t))) (rows_of aid (tx_db t)))
      @ map (row_of aid) (v_items_added (tx_v t)) else rows_of aid (tx_db t))"
proof -
  obtain t1 t2 t3 t4 t5 where s: "commit_currencies cm t = Inr t1" "PersistAccountInfoPatches t1 = Inr t2"
    "PersistItemDeletes t2 = Inr t3" "PersistItemPatches t3 = Inr t4" "PersistItemAdds t4 = Inr t5" "core t' = core t5"
    using persist_all_steps [OF assms] by metis
  have "db_items (tx_db t1) = db_items (tx_db t)" "tx_v t1 = tx_v t"
    using s(1) by (auto simp: commit_currencies_def Let_def split: if_splits option.splits)
  moreover have "db_items (tx_db t2) = db_items (tx_db t1)" "tx_v t2 = tx_v t1"
    using s(2) by (auto simp: PersistAccountInfoPatches_def Let_def split: if_splits)
  moreover have "rows_of aid (tx_db t') = rows_of aid (tx_db t5)" using s(6) by (simp add: core_def rows_of_def)
  moreover have "rows_of aid (tx_db t2) = rows_of aid (tx_db t)" using calculation by (simp add: rows_of_def)
  ultimately show ?thesis
    using persist_deletes_rows(1,3) [OF s(3)] persist_patches_rows(1,3) [OF s(4)] persist_adds_rows(1) [OF s(5)]
    by (cases "aid = v_aid (tx_v t)") simp_all
qed

lemma account_rows_other:
  assumes "aid \<noteq> aid'" "\<And>r. arow_Id (f r) = arow_Id r"
  shows "filter (\<lambda>r. arow_Id r = aid) (map (\<lambda>r. if arow_Id r = aid' then f r else r) rs) = filter (\<lambda>r. arow_Id r = aid) rs"
  by (induction rs) (auto simp: assms)

lemma committed_account:
  assumes "persist_all cm now t = Inr t'" "v_currency_updates (tx_v t) = net_currencies b"
  shows "aid \<noteq> v_aid (tx_v t) \<Longrightarrow> account_rows aid (tx_db t') = account_rows aid (tx_db t)"
    and "account_rows (v_aid (tx_v t)) (tx_db t) = [r] \<Longrightarrow> \<exists>r' a. account_rows (v_aid (tx_v t)) (tx_db t') = [r']
      \<and> arow_info r' = fold patch_account (v_acc_info_patches (tx_v t)) a \<and> strip a = strip (arow_info r)
      \<and> (\<forall>c. balance c a = balance c (arow_info r) + delta c (v_currency_updates (tx_v t)))"
proof -
  obtain t1 t2 t3 t4 t5 where s: "commit_currencies cm t = Inr t1" "PersistAccountInfoPatches t1 = Inr t2"
    "PersistItemDeletes t2 = Inr t3" "PersistItemPatches t3 = Inr t4" "PersistItemAdds t4 = Inr t5" "core t' = core t5"
    using persist_all_steps [OF assms(1)] by metis
  have v1: "tx_v t1 = tx_v t" using s(1) by (auto simp: commit_currencies_def Let_def split: if_splits option.splits)
  have end2: "account_rows aid (tx_db t') = account_rows aid (tx_db t2)" for aid
    using s(6) persist_deletes_rows(2) [OF s(3)] persist_patches_rows(2) [OF s(4)] persist_adds_rows(2) [OF s(5)]
    by (simp add: core_def account_rows_def)
  show "account_rows aid (tx_db t') = account_rows aid (tx_db t)" if "aid \<noteq> v_aid (tx_v t)"
  proof -
    have "account_rows aid (tx_db t1) = account_rows aid (tx_db t)"
      using s(1) that by (auto simp: commit_currencies_def Let_def account_rows_def account_rows_other split: if_splits option.splits)
    moreover have "account_rows aid (tx_db t2) = account_rows aid (tx_db t1)"
      using s(2) that v1 by (auto simp: PersistAccountInfoPatches_def Let_def account_rows_def account_rows_other split: if_splits)
    ultimately show ?thesis by (simp add: end2)
  qed
  assume r: "account_rows (v_aid (tx_v t)) (tx_db t) = [r]"
  obtain r1 where r1: "account_rows (v_aid (tx_v t)) (tx_db t1) = [r1]" "strip (arow_info r1) = strip (arow_info r)"
    "\<forall>c. balance c (arow_info r1) = balance c (arow_info r) + delta c (v_currency_updates (tx_v t))"
    using commit_currencies_account(1) [OF s(1) assms(2) r] by blast
  then show "\<exists>r' a. account_rows (v_aid (tx_v t)) (tx_db t') = [r']
      \<and> arow_info r' = fold patch_account (v_acc_info_patches (tx_v t)) a \<and> strip a = strip (arow_info r)
      \<and> (\<forall>c. balance c a = balance c (arow_info r) + delta c (v_currency_updates (tx_v t)))"
    using persist_info_account(1) [OF s(2), unfolded v1, OF r1(1)] end2 by auto
qed

lemma committed_change:
  assumes "persist_all cm now t = Inr t'"
  shows "v_items_deleted (tx_v t') = v_items_deleted (tx_v t)" "v_items_patches (tx_v t') = v_items_patches (tx_v t)"
    "v_items_added (tx_v t') = v_items_added (tx_v t)" "v_acc_info_patches (tx_v t') = v_acc_info_patches (tx_v t)"
    "v_currency_updates (tx_v t') = v_currency_updates (tx_v t)" "v_sid (tx_v t') = v_sid (tx_v t)" "v_aid (tx_v t') = v_aid (tx_v t)"
proof -
  obtain t1 t2 t3 t4 t5 where s: "commit_currencies cm t = Inr t1" "PersistAccountInfoPatches t1 = Inr t2"
    "PersistItemDeletes t2 = Inr t3" "PersistItemPatches t3 = Inr t4" "PersistItemAdds t4 = Inr t5" "core t' = core t5"
    using persist_all_steps [OF assms] by metis
  have "tx_v t1 = tx_v t" using s(1) by (auto simp: commit_currencies_def Let_def split: if_splits option.splits)
  moreover have "tx_v t2 = tx_v t1" using s(2) by (auto simp: PersistAccountInfoPatches_def Let_def split: if_splits)
  ultimately have "tx_v t5 = tx_v t"
    using persist_deletes_rows(3) [OF s(3)] persist_patches_rows(3) [OF s(4)] persist_adds_rows(3) [OF s(5)] by simp
  then show "v_items_deleted (tx_v t') = v_items_deleted (tx_v t)" "v_items_patches (tx_v t') = v_items_patches (tx_v t)"
    "v_items_added (tx_v t') = v_items_added (tx_v t)" "v_acc_info_patches (tx_v t') = v_acc_info_patches (tx_v t)"
    "v_currency_updates (tx_v t') = v_currency_updates (tx_v t)" "v_sid (tx_v t') = v_sid (tx_v t)" "v_aid (tx_v t') = v_aid (tx_v t)"
    using s(6) by (simp_all add: core_def)
qed

lemma agreement:
  assumes valid: "ValidateDatabaseUpdates g aids accounts st acc ctx bi bc = Inr v"
    and commit: "UpdateAccount cm now up v d = (d', out, Inr v')"
    and applied: "ApplyDatabaseUpdates now' v' acc' st' = (s, None)"
    and narrow: "list_all (\<lambda>rp. fits (rip_patch rp)) (v_items_patches v)"
    and serials: "distinct (map item_serial (pl_inventory_items acc'))"
    and before: "agrees (v_aid v) acc' d"
  shows "agrees (v_aid v) (as_player s) d'
    \<and> (\<forall>aid. aid = v_aid v \<or> (rows_of aid d' = rows_of aid d \<and> account_rows aid d' = account_rows aid d))"
proof -
  let ?t = "\<lparr>tx_v = v, tx_db = d, tx_out = new_ResultDbUpdateInfo\<rparr>" and ?aid = "v_aid v"
  obtain t' where t': "persist_all cm now ?t = Inr t'" "d' = tx_db t'" "v' = tx_v t'"
    using commit by (auto simp: UpdateAccount_def split: if_splits sum.splits)
  obtain b where b: "v_currency_updates v = net_currencies b" using validated_nets [OF valid] by blast
  have v': "v_items_deleted v' = v_items_deleted v" "v_items_patches v' = v_items_patches v" "v_items_added v' = v_items_added v"
    "v_acc_info_patches v' = v_acc_info_patches v" "v_currency_updates v' = v_currency_updates v"
    using committed_change [OF t'(1)] t'(3) by simp_all
  obtain r where r: "account_rows ?aid d = [r]" "arow_info r = pl_acc_info acc'"
    using before by (auto simp: agrees_def)
  have "rows_of ?aid d' = map (row_of ?aid) (items_of s)"
    using committed_items [OF t'(1), of ?aid] before cached_items [OF applied serials] narrow
    by (simp add: t'(2) v' agrees_def filter_map o_def row_of_patches)
  moreover have "map arow_info (account_rows ?aid d') = [info_of s]"
  proof -
    obtain a where a: "info_of s = fold patch_account (v_acc_info_patches v) a" "strip a = strip (pl_acc_info acc')"
      "\<forall>c. balance c a = balance c (pl_acc_info acc') + delta c (v_currency_updates v)"
      using cached_info [OF applied] by (auto simp: v')
    obtain r' a' where r': "account_rows ?aid d' = [r']" "arow_info r' = fold patch_account (v_acc_info_patches v) a'"
      "strip a' = strip (pl_acc_info acc')" "\<forall>c. balance c a' = balance c (pl_acc_info acc') + delta c (v_currency_updates v)"
      using committed_account(2) [OF t'(1), of b r] b r by (auto simp: t'(2))
    have "a' = a" using account_eqI [of a' a] a(2,3) r'(3,4) by simp
    then show ?thesis using a(1) r'(1,2) by simp
  qed
  moreover have "rows_of aid d' = rows_of aid d \<and> account_rows aid d' = account_rows aid d" if "aid \<noteq> ?aid" for aid
    using that committed_items [OF t'(1), of aid] committed_account(1) [OF t'(1), of b aid] b by (simp add: t'(2))
  ultimately show ?thesis by (auto simp: agrees_def)
qed


text \<open>A player with one item pays 60 of 100 points.\<close>

definition owner :: Player where
  "owner = rich\<lparr>pl_inventory_items := [null_Item]\<rparr>"

definition tables :: db where
  "tables = \<lparr>db_accounts = [\<lparr>arow_Id = 7, arow_info = pl_acc_info owner, arow_ServerId = 3\<rparr>], db_items = [row_of 7 null_Item],
     db_missions = fmempty, db_monthly = fmempty, db_weekly = fmempty, db_playtime = fmempty, db_battlepass = fmempty,
     db_mailbox = [], db_next_mail = 1, db_history = [], db_sessions = [], db_socials = fmempty, db_pity = fmempty,
     db_bp_seasons = [], db_bp_levels = [], db_bp_missions = []\<rparr>"

lemma commit_tail_paid:
  assumes "t = \<lparr>tx_v = paid n, tx_db = d, tx_out = o'\<rparr>"
  shows "tx_then PersistGachaPityPatches (tx_then PersistPlayerSocialsPatches (tx_then PersistPlayerSessionsPatches
      (tx_then PersistMatchHistoryAdds (tx_then PersistBattlePassPatches (tx_then PersistPlaytimePatches
        (tx_then PersistWeeklyRewardsPatches (tx_then PersistMonthlyRewardsPatches (tx_then (PersistMailboxPatches now)
          (tx_then PersistMissionsPatches (tx_then PersistItemAdds (tx_then PersistItemPatches (tx_then PersistItemDeletes
            (tx_then PersistAccountInfoPatches (Inr t)))))))))))))) = Inr t"
  unfolding assms
  by (simp add: tx_then_def PersistGachaPityPatches_def PersistPlayerSocialsPatches_def PersistPlayerSessionsPatches_def
      PersistMatchHistoryAdds_def PersistBattlePassPatches_def PersistPlaytimePatches_def PersistWeeklyRewardsPatches_def
      PersistMonthlyRewardsPatches_def PersistMailboxPatches_def PersistMissionsPatches_def PersistItemAdds_def
      PersistItemPatches_def PersistItemDeletes_def PersistAccountInfoPatches_def paid_def new_ValidatedDbUpdates_def Let_def
      patch_ids_def delete_sent_def delete_received_def List.map_filter_def)

lemma commit_paid:
  "\<exists>d' out. UpdateAccount (\<lambda>_. 2 ^ 32 - 1) 0 True (paid 60) tables = (d', out, Inr (paid 60))"
proof -
  have row: "PersistCurrenciesPatches (\<lambda>_. 2 ^ 32 - 1) (stored \<lparr>arow_Id = 7, arow_info = pl_acc_info owner, arow_ServerId = 3\<rparr>) (paid 60)
      = Some ((\<lambda>t. unat (bal t rich))(Cur_MP := 40))"
    by (simp add: PersistCurrenciesPatches_def paid_def add_delta_def net_currencies_def finalize_currency_def Let_def
        new_ValidatedDbUpdates_def rich_def fun_eq_iff stored_def owner_def)
  have "\<exists>d'. commit_currencies (\<lambda>_. 2 ^ 32 - 1) \<lparr>tx_v = paid 60, tx_db = tables, tx_out = new_ResultDbUpdateInfo\<rparr>
      = Inr \<lparr>tx_v = paid 60, tx_db = d', tx_out = new_ResultDbUpdateInfo\<rparr>"
    using row by (simp add: commit_currencies_def tables_def Let_def paid_def new_ValidatedDbUpdates_def)
  then show ?thesis
    using commit_tail_paid [OF refl] by (auto simp: UpdateAccount_def persist_all_def)
qed


end
