(* ===== verification/Trade_Registry.thy ===== *)
theory Trade_Registry
  imports Main_Data Cache
begin

text \<open>
  The registry of trades between two players (\<open>CTradeRegistry\<close> of \<open>handlers/Socials/Trade/Trade.h\<close>):
  invitations by invited account, and running trades with one entry per side. Every operation takes
  the registry's mutex, so each is one step. Account indices are the 32-bit patterns of the
  \<open>int32_t\<close>.
\<close>

section \<open>State and operations\<close>

record TradeEntry =
  te_partner_aid :: u32
  te_partner_uid :: UniqueId
  te_offered :: "ItemSerialInfo list"
  te_locked :: bool
  te_confirmed :: bool

definition new_TradeEntry :: TradeEntry where
  "new_TradeEntry = \<lparr>te_partner_aid = - 1, te_partner_uid = new_UniqueId 0 0, te_offered = [], te_locked = False,
     te_confirmed = False\<rparr>"

record trade_registry =
  m_pending :: "(u32, u32 \<times> UniqueId) fmap"
  m_active :: "(u32, TradeEntry) fmap"

definition upd_active :: "((u32, TradeEntry) fmap \<Rightarrow> (u32, TradeEntry) fmap) \<Rightarrow> trade_registry \<Rightarrow> trade_registry" where
  "upd_active f r = r\<lparr>m_active := f (m_active r)\<rparr>"

text \<open>A change of an entry if it is there.\<close>

definition at_entry :: "u32 \<Rightarrow> (TradeEntry \<Rightarrow> TradeEntry) \<Rightarrow> (u32, TradeEntry) fmap \<Rightarrow> (u32, TradeEntry) fmap" where
  "at_entry aid f m = (case fmlookup m aid of None \<Rightarrow> m | Some e \<Rightarrow> fmupd aid (f e) m)"

definition RegisterInvite :: "u32 \<Rightarrow> UniqueId \<Rightarrow> u32 \<Rightarrow> trade_registry \<Rightarrow> trade_registry" where
  "RegisterInvite inviter_aid inviter_uid invitee_aid r =
     r\<lparr>m_pending := fmupd invitee_aid (inviter_aid, inviter_uid) (m_pending r)\<rparr>"

definition TakeInvite :: "u32 \<Rightarrow> u32 \<Rightarrow> trade_registry \<Rightarrow> UniqueId option \<times> trade_registry" where
  "TakeInvite invitee_aid inviter_aid r =
    (case fmlookup (m_pending r) invitee_aid of
       None \<Rightarrow> (None, r)
     | Some (aid, uid) \<Rightarrow>
         if aid \<noteq> inviter_aid then (None, r)
         else (Some uid, r\<lparr>m_pending := fmdrop invitee_aid (m_pending r)\<rparr>))"

definition EndLocked :: "u32 \<Rightarrow> (u32, TradeEntry) fmap \<Rightarrow> (u32, TradeEntry) fmap" where
  "EndLocked aid m =
    (case fmlookup m aid of
       None \<Rightarrow> m
     | Some e \<Rightarrow> if 0 \<le>s te_partner_aid e then fmdrop (te_partner_aid e) (fmdrop aid m) else fmdrop aid m)"

definition trade_side :: "u32 \<Rightarrow> UniqueId \<Rightarrow> TradeEntry" where
  "trade_side partner uid = new_TradeEntry\<lparr>te_partner_aid := partner, te_partner_uid := uid\<rparr>"

definition BeginTrade :: "u32 \<Rightarrow> UniqueId \<Rightarrow> u32 \<Rightarrow> UniqueId \<Rightarrow> trade_registry \<Rightarrow> trade_registry" where
  "BeginTrade a a_uid b b_uid =
     upd_active (\<lambda>m. fmupd b (trade_side a a_uid) (fmupd a (trade_side b b_uid) (EndLocked b (EndLocked a m))))"

definition GetTrade :: "u32 \<Rightarrow> trade_registry \<Rightarrow> TradeEntry option" where
  "GetTrade aid r = fmlookup (m_active r) aid"

definition clear_confirm :: "TradeEntry \<Rightarrow> TradeEntry" where
  "clear_confirm e = e\<lparr>te_locked := False, te_confirmed := False\<rparr>"

definition ClearConfirmsLocked :: "u32 \<Rightarrow> (u32, TradeEntry) fmap \<Rightarrow> (u32, TradeEntry) fmap" where
  "ClearConfirmsLocked aid m =
    (case fmlookup m aid of
       None \<Rightarrow> m
     | Some e \<Rightarrow> at_entry (te_partner_aid e) clear_confirm (fmupd aid (clear_confirm e) m))"

definition change_offer :: "(ItemSerialInfo list \<Rightarrow> ItemSerialInfo list) \<Rightarrow> u32 \<Rightarrow> trade_registry \<Rightarrow> trade_registry" where
  "change_offer f aid = upd_active (\<lambda>m.
     if fmlookup m aid = None then m
     else ClearConfirmsLocked aid (at_entry aid (\<lambda>e. e\<lparr>te_offered := f (te_offered e)\<rparr>) m))"

definition AddOffer :: "u32 \<Rightarrow> ItemSerialInfo \<Rightarrow> trade_registry \<Rightarrow> trade_registry" where
  "AddOffer aid serial = change_offer (\<lambda>offered.
     if list_ex (\<lambda>s. serial_data s = serial_data serial) offered then offered else offered @ [serial]) aid"

definition RemoveOffer :: "u32 \<Rightarrow> ItemSerialInfo \<Rightarrow> trade_registry \<Rightarrow> trade_registry" where
  "RemoveOffer aid serial = change_offer (filter (\<lambda>s. serial_data s \<noteq> serial_data serial)) aid"

definition SetLocked :: "u32 \<Rightarrow> trade_registry \<Rightarrow> trade_registry" where
  "SetLocked aid = upd_active (at_entry aid (\<lambda>e. e\<lparr>te_locked := True\<rparr>))"

definition SetConfirmed :: "u32 \<Rightarrow> trade_registry \<Rightarrow> trade_registry" where
  "SetConfirmed aid = upd_active (at_entry aid (\<lambda>e. e\<lparr>te_confirmed := True\<rparr>))"

definition BothConfirmed :: "u32 \<Rightarrow> trade_registry \<Rightarrow> bool" where
  "BothConfirmed aid r =
    (case GetTrade aid r of
       None \<Rightarrow> False
     | Some e \<Rightarrow> te_confirmed e \<and> (case GetTrade (te_partner_aid e) r of None \<Rightarrow> False | Some p \<Rightarrow> te_confirmed p))"

definition EndTrade :: "u32 \<Rightarrow> trade_registry \<Rightarrow> trade_registry" where
  "EndTrade aid = upd_active (EndLocked aid)"

section \<open>Runs\<close>

datatype trade_op =
    Invite u32 UniqueId u32 | Take u32 u32 | Begin u32 UniqueId u32 UniqueId
  | Offer u32 ItemSerialInfo | Withdraw u32 ItemSerialInfo | Lock u32 | Confirm u32 | End u32

fun trade_do :: "trade_op \<Rightarrow> trade_registry \<Rightarrow> trade_registry" where
  "trade_do (Invite a u b) r = RegisterInvite a u b r"
| "trade_do (Take b a) r = snd (TakeInvite b a r)"
| "trade_do (Begin a u b v) r = BeginTrade a u b v r"
| "trade_do (Offer a s) r = AddOffer a s r"
| "trade_do (Withdraw a s) r = RemoveOffer a s r"
| "trade_do (Lock a) r = SetLocked a r"
| "trade_do (Confirm a) r = SetConfirmed a r"
| "trade_do (End a) r = EndTrade a r"

abbreviation trade_run :: "trade_op list \<Rightarrow> trade_registry \<Rightarrow> trade_registry" where
  "trade_run ops r \<equiv> fold trade_do ops r"

definition no_trades :: trade_registry where
  "no_trades = \<lparr>m_pending = fmempty, m_active = fmempty\<rparr>"

text \<open>The two sides of every trade refer to each other.\<close>

definition paired :: "trade_registry \<Rightarrow> bool" where
  "paired r \<longleftrightarrow> (\<forall>a e. GetTrade a r = Some e \<longrightarrow> 0 \<le>s a \<and> te_partner_aid e \<noteq> a
     \<and> (\<exists>p. GetTrade (te_partner_aid e) r = Some p \<and> te_partner_aid p = a))"

definition sensible :: "trade_op \<Rightarrow> bool" where
  "sensible op \<longleftrightarrow> (case op of Begin a u b v \<Rightarrow> a \<noteq> b \<and> 0 \<le>s a \<and> 0 \<le>s b | _ \<Rightarrow> True)"

lemmas registry_defs = upd_active_def at_entry_def RegisterInvite_def TakeInvite_def BeginTrade_def GetTrade_def
  change_offer_def AddOffer_def RemoveOffer_def SetLocked_def SetConfirmed_def EndTrade_def ClearConfirmsLocked_def
  clear_confirm_def trade_side_def new_TradeEntry_def

text \<open>Partners, the shape of the registry.\<close>

abbreviation partners :: "(u32, TradeEntry) fmap \<Rightarrow> u32 \<Rightarrow> u32 option" where
  "partners m a \<equiv> map_option te_partner_aid (fmlookup m a)"

definition symmetric :: "(u32 \<Rightarrow> u32 option) \<Rightarrow> bool" where
  "symmetric p \<longleftrightarrow> (\<forall>a b. p a = Some b \<longrightarrow> 0 \<le>s a \<and> b \<noteq> a \<and> p b = Some a)"

lemma paired_symmetric: "paired r \<longleftrightarrow> symmetric (partners (m_active r))"
  by (auto simp: paired_def symmetric_def GetTrade_def)

lemma partners_at_entry: "(\<And>e. te_partner_aid (f e) = te_partner_aid e) \<Longrightarrow> partners (at_entry a f m) = partners m"
  by (auto simp: at_entry_def fun_eq_iff split: option.split)

lemma partners_clear: "partners (ClearConfirmsLocked a m) = partners m"
  by (auto simp: ClearConfirmsLocked_def at_entry_def clear_confirm_def fun_eq_iff split: option.split)

lemma partners_change: "partners (m_active (change_offer f a r)) = partners (m_active r)"
proof -
  have "partners (at_entry a (\<lambda>e. e\<lparr>te_offered := f (te_offered e)\<rparr>) (m_active r)) = partners (m_active r)"
    by (rule partners_at_entry) simp
  then show ?thesis
    using partners_clear [of a "at_entry a (\<lambda>e. e\<lparr>te_offered := f (te_offered e)\<rparr>) (m_active r)"]
    by (simp add: change_offer_def upd_active_def)
qed

lemma symmetricD: "symmetric p \<Longrightarrow> p a = Some b \<Longrightarrow> 0 \<le>s a \<and> 0 \<le>s b \<and> b \<noteq> a \<and> p b = Some a"
  by (metis symmetric_def)

lemma symmetric_remove:
  assumes "symmetric p" "p a = Some b"
  shows "symmetric (p(a := None, b := None))"
  unfolding symmetric_def
proof (intro allI impI)
  fix x y assume xy: "(p(a := None, b := None)) x = Some y"
  then have x: "p x = Some y" "x \<noteq> a" "x \<noteq> b" by (auto split: if_splits)
  then show "0 \<le>s x \<and> y \<noteq> x \<and> (p(a := None, b := None)) y = Some x"
    using symmetricD [OF assms] symmetricD [OF assms(1) x(1)] assms(2) by auto
qed

lemma symmetric_add:
  assumes "symmetric p" "p a = None" "p b = None" "a \<noteq> b" "0 \<le>s a" "0 \<le>s b"
  shows "symmetric (p(a \<mapsto> b, b \<mapsto> a))"
  unfolding symmetric_def
proof (intro allI impI)
  fix x y assume xy: "(p(a \<mapsto> b, b \<mapsto> a)) x = Some y"
  show "0 \<le>s x \<and> y \<noteq> x \<and> (p(a \<mapsto> b, b \<mapsto> a)) y = Some x"
  proof (cases "x = a \<or> x = b")
    case False
    then have "p x = Some y" using xy by simp
    then show ?thesis using symmetricD [OF assms(1), of x y] assms(2,3) False by auto
  qed (use xy assms in \<open>auto split: if_splits\<close>)
qed

lemma partners_End:
  assumes "symmetric (partners m)"
  shows "partners (EndLocked a m) = (case partners m a of None \<Rightarrow> partners m | Some b \<Rightarrow> (partners m)(a := None, b := None))"
proof (cases "fmlookup m a")
  case (Some e)
  have "0 \<le>s te_partner_aid e" using symmetricD [OF assms, of a "te_partner_aid e"] Some by simp
  then show ?thesis by (simp add: EndLocked_def Some fun_eq_iff)
qed (simp add: EndLocked_def)

lemma symmetric_End:
  assumes "symmetric (partners m)"
  shows "symmetric (partners (EndLocked a m))" "fmlookup (EndLocked a m) a = None"
    "fmlookup m b = None \<Longrightarrow> fmlookup (EndLocked a m) b = None"
proof -
  show "symmetric (partners (EndLocked a m))"
    using symmetric_remove [OF assms] unfolding partners_End [OF assms] by (auto simp: assms split: option.split)
  show "fmlookup (EndLocked a m) a = None" by (simp add: EndLocked_def split: option.split)
  show "fmlookup m b = None \<Longrightarrow> fmlookup (EndLocked a m) b = None" by (simp add: EndLocked_def split: option.split)
qed

lemma symmetric_step: "sensible op \<Longrightarrow> symmetric (partners (m_active r)) \<Longrightarrow> symmetric (partners (m_active (trade_do op r)))"
proof (cases op)
  case (Begin a u b v)
  assume s: "sensible op" and sym: "symmetric (partners (m_active r))"
  let ?m = "EndLocked b (EndLocked a (m_active r))"
  have m: "symmetric (partners ?m)" "fmlookup ?m a = None" "fmlookup ?m b = None"
    using symmetric_End [OF sym] symmetric_End [OF symmetric_End(1) [OF sym, of a]] by simp_all
  have "partners (m_active (trade_do op r)) = (partners ?m)(a \<mapsto> b, b \<mapsto> a)"
    using Begin by (auto simp: registry_defs fun_eq_iff)
  moreover have "symmetric ((partners ?m)(a \<mapsto> b, b \<mapsto> a))"
    by (rule symmetric_add) (use s Begin m in \<open>simp_all add: sensible_def\<close>)
  ultimately show ?thesis by simp
qed (auto simp: RegisterInvite_def TakeInvite_def AddOffer_def RemoveOffer_def partners_change EndTrade_def upd_active_def
      SetLocked_def SetConfirmed_def partners_at_entry symmetric_End split: option.split)

text \<open>Only the account's own confirmation sets its flag.\<close>

definition has_confirmed :: "u32 \<Rightarrow> trade_registry \<Rightarrow> bool" where
  "has_confirmed a r \<longleftrightarrow> (\<exists>e. GetTrade a r = Some e \<and> te_confirmed e)"

lemma confirmed_step: "has_confirmed a (trade_do op r) \<Longrightarrow> op = Confirm a \<or> has_confirmed a r"
  by (cases op) (auto simp: has_confirmed_def registry_defs EndLocked_def split: option.splits if_splits)

lemma confirmed_run: "has_confirmed a (trade_run ops r) \<Longrightarrow> Confirm a \<in> set ops \<or> has_confirmed a r"
proof (induction ops arbitrary: r)
  case (Cons op ops)
  then show ?case using confirmed_step [of a op r] by fastforce
qed simp

lemma change_clears:
  assumes "paired r" "GetTrade a r = Some e" "x = a \<or> x = te_partner_aid e"
  shows "\<not> has_confirmed a (change_offer f x r)"
proof -
  obtain p where p: "fmlookup (m_active r) (te_partner_aid e) = Some p" "te_partner_aid p = a" "te_partner_aid e \<noteq> a"
    using assms(1,2) unfolding paired_def GetTrade_def by metis
  have a: "fmlookup (m_active r) a = Some e" using assms(2) by (simp add: GetTrade_def)
  show ?thesis using assms(3)
  proof
    assume "x = a"
    then show ?thesis using a p by (simp add: has_confirmed_def registry_defs)
  next
    assume "x = te_partner_aid e"
    then show ?thesis using a p by (simp add: has_confirmed_def registry_defs)
  qed
qed

lemma both_confirmed: "BothConfirmed a r \<Longrightarrow> \<exists>e. GetTrade a r = Some e \<and> has_confirmed a r \<and> has_confirmed (te_partner_aid e) r"
  by (auto simp: BothConfirmed_def has_confirmed_def split: option.splits)

lemma paired_run: "list_all sensible ops \<Longrightarrow> paired r \<Longrightarrow> paired (trade_run ops r)"
  by (induction ops arbitrary: r) (auto simp: paired_symmetric symmetric_step)

section \<open>Properties\<close>

text \<open>
  C15: Whatever the players send, the running trades pair the accounts up: every side's partner
  has a trade of its own, with exactly that side, so the end of one side is the end of both.
\<close>

theorem trades_stay_paired:
  assumes "list_all sensible ops"
  shows "paired (trade_run ops no_trades)
    \<and> (\<forall>a e. GetTrade a (trade_run ops no_trades) = Some e \<longrightarrow>
         GetTrade a (EndTrade a (trade_run ops no_trades)) = None
         \<and> GetTrade (te_partner_aid e) (EndTrade a (trade_run ops no_trades)) = None)"
proof -
  let ?r = "trade_run ops no_trades"
  have p: "paired ?r" by (rule paired_run [OF assms]) (simp add: paired_def no_trades_def GetTrade_def)
  moreover have "GetTrade a (EndTrade a ?r) = None \<and> GetTrade (te_partner_aid e) (EndTrade a ?r) = None"
    if e: "GetTrade a ?r = Some e" for a e
  proof -
    have "0 \<le>s te_partner_aid e" using p e unfolding paired_def by metis
    then show ?thesis using e by (simp add: GetTrade_def EndTrade_def upd_active_def EndLocked_def)
  qed
  ultimately show ?thesis by blast
qed

definition trade_ops :: "trade_op list" where
  "trade_ops = [Invite 7 (new_UniqueId 1 1) 9, Take 9 7, Begin 7 (new_UniqueId 1 1) 9 (new_UniqueId 2 2),
     Offer 7 (new_ItemSerialInfo 5 1 1 0 0), Confirm 7, Confirm 9]"

theorem trades_stay_paired_witness:
  "paired (trade_run trade_ops no_trades) \<and> GetTrade 9 (EndTrade 7 (trade_run trade_ops no_trades)) = None"
proof -
  obtain e where e: "GetTrade 7 (trade_run trade_ops no_trades) = Some e" "te_partner_aid e = 9"
    by (simp add: trade_ops_def registry_defs EndLocked_def no_trades_def)
  have "list_all sensible trade_ops" by (simp add: trade_ops_def sensible_def word_sle_eq)
  then show ?thesis using trades_stay_paired [of trade_ops] e by metis
qed

text \<open>
  C37: A trade completes only after both sides have confirmed the offers as they are: when both
  count as confirmed, each has confirmed after the last change of either offer.
\<close>

theorem both_confirm_final_offers:
  assumes "list_all sensible (before @ op # after)" "op = Offer x s \<or> op = Withdraw x s"
    and "BothConfirmed a (trade_run (before @ op # after) no_trades)"
    and "GetTrade a (trade_run before no_trades) = Some e" "x = a \<or> x = te_partner_aid e"
  shows "Confirm a \<in> set after \<and>
    (\<forall>e'. GetTrade a (trade_run (before @ op # after) no_trades) = Some e' \<longrightarrow> te_partner_aid e' = te_partner_aid e
       \<longrightarrow> Confirm (te_partner_aid e) \<in> set after)"
proof -
  let ?r = "trade_run before no_trades" and ?b = "te_partner_aid e"
  have p: "paired ?r"
    by (rule paired_run) (use assms(1) in \<open>simp_all add: paired_def no_trades_def GetTrade_def\<close>)
  then obtain q where q: "GetTrade ?b ?r = Some q" "te_partner_aid q = a" using assms(4) unfolding paired_def by metis
  obtain f where f: "trade_do op ?r = change_offer f x ?r" using assms(2) by (auto simp: AddOffer_def RemoveOffer_def)
  have "\<not> has_confirmed a (trade_do op ?r)" "\<not> has_confirmed ?b (trade_do op ?r)"
    unfolding f using change_clears [OF p assms(4)] change_clears [OF p q(1)] assms(5) q(2) by auto
  then have c: "has_confirmed y (trade_run (before @ op # after) no_trades) \<Longrightarrow> y \<in> {a, ?b} \<Longrightarrow> Confirm y \<in> set after" for y
    using confirmed_run [of y after "trade_do op ?r"] by auto
  show ?thesis using both_confirmed [OF assms(3)] c by auto
qed

theorem both_confirm_final_offers_witness:
  "BothConfirmed 7 (trade_run trade_ops no_trades) \<and> Confirm 7 \<in> set (drop 4 trade_ops)"
proof -
  let ?before = "take 3 trade_ops" and ?op = "Offer 7 (new_ItemSerialInfo 5 1 1 0 0)" and ?after = "drop 4 trade_ops"
  have ops: "?before @ ?op # ?after = trade_ops" by (simp add: trade_ops_def)
  have both: "BothConfirmed 7 (trade_run trade_ops no_trades)"
    by (simp add: trade_ops_def registry_defs BothConfirmed_def EndLocked_def no_trades_def)
  obtain e where e: "GetTrade 7 (trade_run ?before no_trades) = Some e"
    by (simp add: trade_ops_def registry_defs EndLocked_def no_trades_def)
  have "list_all sensible trade_ops" by (simp add: trade_ops_def sensible_def word_sle_eq)
  then show ?thesis
    using both_confirm_final_offers [of ?before ?op ?after 7 _ 7 e] both e unfolding ops by simp
qed

end
