(* ===== verification/Server.thy ===== *)
theory Server
  imports Database Trade_Registry Rooms "HOL-Library.Stream"
begin

text \<open>
  Handlers with a database task. A packet handler that changes an account runs in two parts: the
  handler validates the change and submits a task, and the task, on a thread of the database pool,
  commits the change and, when the commit succeeded, applies it and answers. The state is the
  world, the stores of mails and socials, the session of every account, the running trades, the
  database, the submitted tasks, the sessions logged in and the sales of capsule machines; and what
  the surroundings hold ready: the milliseconds since the start and the numbers \<open>std::rand\<close> will
  yield. An account that is gone when the task runs is the cache's null
  entry, here \<open>new_Player junk\<close>; what is written to it is lost. Rows for the log tables are not
  modelled.
\<close>

text \<open>
  What a task that uses an item of the inventory remembers: of the flags of the code at most one is
  set, so they are a kind.
\<close>

datatype package_kind = PK_Voice | PK_KillDeath | PK_Record | PK_Static | PK_MicroPoints | PK_Coupon | PK_Items
  | PK_Hammer | PK_Nickname

record package_use =
  pu_kind :: package_kind
  pu_send :: "ShopItem list"
  pu_delete :: "ItemSerialInfo list"
  pu_serial :: ItemSerialInfo
  pu_voices :: u64
  pu_coupons :: u32
  pu_currency_item :: u32

text \<open>What a mission task remembers of its request.\<close>

record mission_use =
  mu_collection_id :: u32
  mu_new_mission :: u32
  mu_is_guide_mission :: bool
  mu_is_complete_goal :: bool
  mu_is_reset_mission :: bool
  mu_level_up :: ResultLevelUpInfo

datatype db_task =
    SellTask u16 u32 ItemSerialInfo ValidatedDbUpdates
  | RepairTask u16 "ItemSerialInfo list" ValidatedDbUpdates
  | DeleteTask u16 "ItemSerialInfo list" ValidatedDbUpdates
  | EquipTask u16 u16 u8 ValidatedDbUpdates
  | CouponTask u16 u16 "ShopItem list" ValidatedDbUpdates
  | ShopTask u16 u16 "ShopItem list" ValidatedDbUpdates
  | InjectTask u16 u8 ItemSerialInfo u32 ValidatedDbUpdates
  | ResetTask u16 bytes ValidatedDbUpdates
  | UpgradeTask u16 u8 u8 u8 bytes ValidatedDbUpdates
  | FriendAddTask u16 u32 u32 string UniqueId u8 ValidatedDbUpdates
  | FriendRemoveTask u16 u32 u32 ValidatedDbUpdates
  | BlockAddTask u16 u32 string ValidatedDbUpdates
  | BlockRemoveTask u16 u32 ValidatedDbUpdates
  | MailReadTask u16 ValidatedDbUpdates
  | MailDeleteTask u16 ValidatedDbUpdates
  | MailSendTask u16 u16 ValidatedDbUpdates
  | GiftDeleteTask u16 ValidatedDbUpdates
  | GiftReceiveTask u16 "(u32 \<times> u32 \<times> ShopItem) list" "ShopItem list" ValidatedDbUpdates
  | GiftSendTask u16 u16 u32 ValidatedDbUpdates
  | TradeTask u16 "ItemSerialInfo list" ValidatedDbUpdates
  | VotekickTask u16 UniqueId u32 u32 "u16 list" ValidatedDbUpdates
  | SpinTask u16 "(u32 \<times> ShopItem list) list" "(string \<times> bool) list" bool ValidatedDbUpdates
  | PackageTask u16 package_use ValidatedDbUpdates
  | MissionTask u16 mission_use ValidatedDbUpdates
  | BattlePassTask u16 ValidatedDbUpdates

record server =
  sv_world :: world
  sv_stores :: stores
  sv_aid_sid :: "(u32, u16) fmap"
  sv_trades :: trade_registry
  sv_db :: db
  sv_tasks :: "db_task list"
  sv_sids :: "u16 list"
  sv_sales :: "(u32, GachaponSaleInfo) fmap"
  sv_uptime_ms :: u64
  sv_rand :: "nat stream"

definition get_acc :: "Player \<Rightarrow> u16 \<Rightarrow> server \<Rightarrow> Player" where
  "get_acc junk sid sv = (case CAccount (sv_world sv) sid of None \<Rightarrow> new_Player junk | Some p \<Rightarrow> p)"

definition upd_world :: "(world \<Rightarrow> world) \<Rightarrow> server \<Rightarrow> server" where
  "upd_world f sv = sv\<lparr>sv_world := f (sv_world sv)\<rparr>"

text \<open>A packet to the session the handler runs for.\<close>

definition answer :: "u16 \<Rightarrow> u16 \<Rightarrow> u8 \<Rightarrow> u8 \<Rightarrow> u8 \<Rightarrow> bytes \<Rightarrow> server \<Rightarrow> server" where
  "answer sid order mission extra option payload = upd_world (emit (Msg sid order mission extra option payload))"

definition submit :: "game_data \<Rightarrow> u16 list \<Rightarrow> Player \<Rightarrow> DatabaseUpdateCtx \<Rightarrow> (ValidatedDbUpdates \<Rightarrow> db_task) \<Rightarrow> server \<Rightarrow> server" where
  "submit g aids acc ctx task sv =
    (case ValidateDatabaseUpdates g aids (CAccount (sv_world sv)) (sv_stores sv) acc ctx False False of
       Inl e \<Rightarrow> sv
     | Inr v \<Rightarrow> sv\<lparr>sv_tasks := sv_tasks sv @ [task v]\<rparr>)"

text \<open>Applying a committed change: the new state, the error if there was one, and the player.\<close>

definition perform :: "Player \<Rightarrow> u32 \<Rightarrow> u16 \<Rightarrow> ValidatedDbUpdates \<Rightarrow> server \<Rightarrow> server \<times> DbUpdateError option \<times> Player" where
  "perform junk now sid v sv =
    (case ApplyDatabaseUpdates now v (get_acc junk sid sv) (sv_stores sv) of
       (s, e) \<Rightarrow> (sv\<lparr>sv_world := upd_acc sid (\<lambda>_. as_player s) (sv_world sv), sv_stores := as_stores s\<rparr>, e, as_player s))"

text \<open>The commit at the start of a task; the task goes on with what the commit filled in.\<close>

definition commit ::
  "(CurrencyType \<Rightarrow> nat) \<Rightarrow> u32 \<Rightarrow> bool \<Rightarrow> ValidatedDbUpdates \<Rightarrow> server
     \<Rightarrow> server \<times> ResultDbUpdateInfo \<times> (DbErrorType + ValidatedDbUpdates)" where
  "commit col_max now up v sv =
    (case UpdateAccount col_max now up v (sv_db sv) of (d, out, r) \<Rightarrow> (sv\<lparr>sv_db := d\<rparr>, out, r))"

text \<open>\<open>SendServerMessage\<close>: a chat line of the server.\<close>

definition SendServerMessage :: "u16 \<Rightarrow> string \<Rightarrow> world \<Rightarrow> world" where
  "SendServerMessage sid text = SendMsg sid 316 0 1 (of_nat (length text)) (replicate 16 0 @ map of_char text)"

text \<open>A string in a packet field of \<open>n\<close> bytes.\<close>

definition char_field :: "nat \<Rightarrow> string \<Rightarrow> bytes" where
  "char_field n s = take n (map of_char s @ replicate n 0)"

definition serial_bytes :: "ItemSerialInfo \<Rightarrow> bytes" where
  "serial_bytes s = le_bytes 8 (serial_data s)"

definition shop_item_bytes :: "ShopItem \<Rightarrow> bytes" where
  "shop_item_bytes i =
     le_bytes 4 ((ucast (num_item_id (shop_item_number i)) :: u32) OR push_bit 23 (ucast (num_stock (shop_item_number i))))
     @ le_bytes 4 (shop_expire_time i) @ serial_bytes (shop_serial_info i)"

definition currency_bytes :: "Player \<Rightarrow> bytes" where
  "currency_bytes p =
     le_bytes 4 (acc_RockTokens (pl_acc_info p)) @ le_bytes 4 (acc_MicroPoints (pl_acc_info p)) @ le_bytes 4 (acc_Coins (pl_acc_info p))"

end
