(* ===== verification/Item_Handlers.thy ===== *)
theory Item_Handlers
  imports Server Selection
begin

text \<open>
  The packet handlers that change inventories (\<open>handlers/Items\<close>): selling, repairing, deleting,
  buying with money or coupons, and equipping, each with the task it submits. A request is read out
  of the packet buffer without regard to its length, so it is a function from the index to what
  lies there.
\<close>

section \<open>Selling, repairing, deleting\<close>

definition ItemSell :: "game_data \<Rightarrow> u16 list \<Rightarrow> u16 \<Rightarrow> ItemSerialInfo \<Rightarrow> server \<Rightarrow> server" where
  "ItemSell g aids sid req sv =
    (case CAccount (sv_world sv) sid of
       None \<Rightarrow> sv
     | Some acc \<Rightarrow>
       if acc_Index_of acc = - 1 then sv
       else case GetPlayerItemInventory_serial (pl_inventory_items acc) req of
         None \<Rightarrow> answer sid 100 0 21 0 (serial_bytes (new_ItemSerialInfo 0 0 0 0 0) @ le_bytes 4 (0 :: u32)) sv
       | Some item_sold \<Rightarrow>
           (let info = or_null new_ItemInfo (item_id_of item_sold) (CItemsInfo g);
                serial = inv_serial_info (it_item_info item_sold);
                ctx = \<lparr>ctx_sid = ucast sid, ctx_aid = acc_Index_of acc, ctx_ops =
                  [Op_Currency \<lparr>acd_type = Cur_MP, acd_value = item_SellPointPrice info, acd_is_reward = True\<rparr>,
                   Op_ItemDelete \<lparr>idel_serials = [serial]\<rparr>]\<rparr>
            in submit g aids acc ctx (SellTask sid (item_SellPointPrice info) serial) sv))"

definition finish_sell :: "Player \<Rightarrow> u32 \<Rightarrow> u16 \<Rightarrow> u32 \<Rightarrow> ItemSerialInfo \<Rightarrow> ValidatedDbUpdates \<Rightarrow> server \<Rightarrow> server" where
  "finish_sell junk now sid mp_reward itm_sold v sv =
    (case perform junk now sid v sv of
       (sv, Some e, p) \<Rightarrow> sv
     | (sv, None, p) \<Rightarrow>
         answer sid 307 0 1 0 (currency_bytes p)
           (answer sid 100 0 1 0 (serial_bytes itm_sold @ le_bytes 4 mp_reward) sv))"

text \<open>The items the request names, as far as the inventory has them, with what each repair costs.\<close>

primrec repair_items ::
  "game_data \<Rightarrow> Item list \<Rightarrow> ItemSerialInfo list \<Rightarrow> DbOp list \<times> ItemSerialInfo list \<times> u32" where
  "repair_items g items [] = ([], [], 0)"
| "repair_items g items (s # ss) =
    (case GetPlayerItemInventory_serial items s of
       None \<Rightarrow> repair_items g items ss
     | Some it \<Rightarrow>
         (let info = or_null new_ItemInfo (item_id_of it) (CItemsInfo g);
              cost = item_Durability info - ucast (inv_repair (it_item_info it));
              p = new_ItemPatchCtx\<lparr>ip_sel := new_ItemSelector\<lparr>sel_serial := Some (inv_serial_info (it_item_info it))\<rparr>,
                    ip_repair := Some (item_Durability info)\<rparr>
          in case repair_items g items ss of (ops, updated, price) \<Rightarrow> (Op_ItemPatch p # ops, s # updated, cost + price)))"

definition ItemRepair :: "game_data \<Rightarrow> u16 list \<Rightarrow> u16 \<Rightarrow> u8 \<Rightarrow> (nat \<Rightarrow> ItemSerialInfo) \<Rightarrow> server \<Rightarrow> server" where
  "ItemRepair g aids sid items_count req sv =
    (case CAccount (sv_world sv) sid of
       None \<Rightarrow> sv
     | Some acc \<Rightarrow>
       if acc_Index_of acc = - 1 then sv
       else case repair_items g (pl_inventory_items acc) (map req [0..<unat items_count]) of
         (ops, items_updated, price) \<Rightarrow>
           if items_updated = [] \<or> acc_MicroPoints (pl_acc_info acc) < price then sv
           else submit g aids acc
             \<lparr>ctx_sid = ucast sid, ctx_aid = acc_Index_of acc, ctx_ops = ops @
                (if price > 0 then [Op_Currency \<lparr>acd_type = Cur_MP, acd_value = price, acd_is_reward = False\<rparr>] else [])\<rparr>
             (RepairTask sid items_updated) sv)"

definition finish_repair :: "Player \<Rightarrow> u32 \<Rightarrow> u16 \<Rightarrow> ItemSerialInfo list \<Rightarrow> ValidatedDbUpdates \<Rightarrow> server \<Rightarrow> server" where
  "finish_repair junk now sid serials v sv =
    (case perform junk now sid v sv of
       (sv, Some e, p) \<Rightarrow> sv
     | (sv, None, p) \<Rightarrow> answer sid 97 0 1 (of_nat (length serials))
           (le_bytes 4 (acc_RockTokens (pl_acc_info p)) @ le_bytes 4 (acc_MicroPoints (pl_acc_info p))
            @ concat (map serial_bytes serials)) sv)"

definition ItemDelete :: "game_data \<Rightarrow> u16 list \<Rightarrow> u16 \<Rightarrow> u32 \<Rightarrow> (nat \<Rightarrow> ItemSerialInfo) \<Rightarrow> server \<Rightarrow> server" where
  "ItemDelete g aids sid item_count req sv =
    (case CAccount (sv_world sv) sid of
       None \<Rightarrow> sv
     | Some acc \<Rightarrow>
       if acc_Index_of acc = - 1 then sv
       else
         (let deleted = filter (\<lambda>s. GetPlayerItemInventory_serial (pl_inventory_items acc) s \<noteq> None) (map req [0..<unat item_count])
          in if deleted = [] then sv
             else submit g aids acc
               \<lparr>ctx_sid = ucast sid, ctx_aid = acc_Index_of acc, ctx_ops = [Op_ItemDelete \<lparr>idel_serials = deleted\<rparr>]\<rparr>
               (DeleteTask sid deleted) sv))"

definition finish_delete :: "Player \<Rightarrow> u32 \<Rightarrow> u16 \<Rightarrow> ItemSerialInfo list \<Rightarrow> ValidatedDbUpdates \<Rightarrow> server \<Rightarrow> server" where
  "finish_delete junk now sid deleted v sv =
    (case perform junk now sid v sv of
       (sv, Some e, p) \<Rightarrow> sv
     | (sv, None, p) \<Rightarrow> answer sid 89 0 1 0 (le_bytes 4 (of_nat (length deleted) :: u32) @ concat (map serial_bytes deleted)) sv)"

section \<open>Buying\<close>

definition shop_item :: "u32 \<Rightarrow> u32 \<Rightarrow> ItemInfo \<Rightarrow> nat \<Rightarrow> ShopItem" where
  "shop_item now item_id info serial = \<lparr>
     shop_item_number = new_InventoryItemNumber item_id (item_Stock info), shop_expire_time = ItemExpire_Unused,
     shop_serial_info = new_ItemSerialInfo (of_nat serial) 1 1 Origin_From_Game now\<rparr>"

definition bought_item :: "ShopItem \<Rightarrow> u32 \<Rightarrow> ItemInfo \<Rightarrow> Item" where
  "bought_item s item_id info =
     new_Item (new_InventoryItemInfo (new_InventoryItemNumber item_id (item_Stock info)) ItemExpire_Unused
       (shop_serial_info s) (item_Durability info) 0) (item_Stock info) 0 0 0"

text \<open>
  The loop over the wanted items: what the vendor has gets the serial id reserved for its position
  and is paid, by \<open>price\<close>; the sums wrap.
\<close>

fun buy_items ::
  "game_data \<Rightarrow> u32 \<Rightarrow> (ItemInfo \<Rightarrow> u32 \<times> u32) \<Rightarrow> u32 list \<Rightarrow> nat list \<Rightarrow> ShopItem list \<times> Item list \<times> u32 \<times> u32" where
  "buy_items g now price (i # ids) (s # serials) =
    (case buy_items g now price ids serials of (shop, new, a, b) \<Rightarrow>
       if i |\<in>| CVendorItems g then
         (let info = or_null new_ItemInfo i (CItemsInfo g); item = shop_item now i info s
          in (item # shop, bought_item item i info # new, fst (price info) + a, snd (price info) + b))
       else (shop, new, a, b))"
| "buy_items g now price _ _ = ([], [], 0, 0)"

definition cost_op :: "CurrencyType \<Rightarrow> u32 \<Rightarrow> DbOp list" where
  "cost_op t spent = (if spent > 0 then [Op_Currency \<lparr>acd_type = t, acd_value = spent, acd_is_reward = False\<rparr>] else [])"

definition ShopCoupon :: "game_data \<Rightarrow> u32 \<Rightarrow> u16 list \<Rightarrow> u16 \<Rightarrow> u16 \<Rightarrow> u8 \<Rightarrow> (nat \<Rightarrow> u32) \<Rightarrow> server \<Rightarrow> server" where
  "ShopCoupon g now aids sid order items_count req sv =
    (case CAccount (sv_world sv) sid of
       None \<Rightarrow> sv
     | Some acc \<Rightarrow>
       if acc_Index_of acc = - 1 then sv
       else
         (let serials = FindLowestAvailableSerialIds (pl_inventory_items acc) (unat items_count)
          in if length serials < unat items_count then sv
             else case buy_items g now (\<lambda>i. (item_CouponPrice i, 0)) (map (\<lambda>i. req i AND 0x7FFFFF) [0..<unat items_count]) serials of
               (shop_items, new_items, coupon_spent, _) \<Rightarrow>
                 if shop_items = [] \<or> new_items = [] then sv
                 else submit g aids acc
                   \<lparr>ctx_sid = ucast sid, ctx_aid = acc_Index_of acc, ctx_ops =
                      cost_op Cur_COUPONS coupon_spent @ [Op_ItemAdd \<lparr>ia_items = new_items\<rparr>]\<rparr>
                   (CouponTask sid order shop_items) sv))"

definition finish_coupon :: "Player \<Rightarrow> u32 \<Rightarrow> u16 \<Rightarrow> u16 \<Rightarrow> ShopItem list \<Rightarrow> ValidatedDbUpdates \<Rightarrow> server \<Rightarrow> server" where
  "finish_coupon junk now sid order s_items v sv =
    (case perform junk now sid v sv of
       (sv, Some e, p) \<Rightarrow> sv
     | (sv, None, p) \<Rightarrow> answer sid order 0 1 (of_nat (length s_items)) (concat (map shop_item_bytes s_items)) sv)"

text \<open>
  Prolonging items (a mission other than 0) only reads: the block that commits belongs to the other
  branch, so the request has no effect.
\<close>

definition ShopNormal :: "game_data \<Rightarrow> u32 \<Rightarrow> u16 list \<Rightarrow> u16 \<Rightarrow> u16 \<Rightarrow> u8 \<Rightarrow> u8 \<Rightarrow> (nat \<Rightarrow> u32) \<Rightarrow> server \<Rightarrow> server" where
  "ShopNormal g now aids sid order mission items_count ids sv =
    (case CAccount (sv_world sv) sid of
       None \<Rightarrow> sv
     | Some acc \<Rightarrow>
       if acc_Index_of acc = - 1 \<or> mission \<noteq> 0 then sv
       else
         (let available = FindLowestAvailableSerialIds (pl_inventory_items acc) (unat items_count)
          in if length available < unat items_count then sv
             else case buy_items g now (\<lambda>i. (item_CashPrice i, item_PointPrice i)) (map (\<lambda>i. ids i AND 0x7FFFFF) [0..<unat items_count]) available of
               (shop_items, new_items, rt_spent, mp_spent) \<Rightarrow>
                 if shop_items = [] \<or> new_items = [] then sv
                 else submit g aids acc
                   \<lparr>ctx_sid = ucast sid, ctx_aid = acc_Index_of acc, ctx_ops =
                      cost_op Cur_RT rt_spent @ cost_op Cur_MP mp_spent @ [Op_ItemAdd \<lparr>ia_items = new_items\<rparr>]\<rparr>
                   (ShopTask sid order shop_items) sv))"

definition finish_shop :: "Player \<Rightarrow> u32 \<Rightarrow> u16 \<Rightarrow> u16 \<Rightarrow> ShopItem list \<Rightarrow> ValidatedDbUpdates \<Rightarrow> server \<Rightarrow> server" where
  "finish_shop junk now sid order s_items v sv =
    (case perform junk now sid v sv of
       (sv, Some e, p) \<Rightarrow> sv
     | (sv, None, p) \<Rightarrow>
         answer sid 307 0 1 0 (currency_bytes p)
           (answer sid order 0 0 (of_nat (length s_items)) (concat (map shop_item_bytes s_items)) sv))"

section \<open>Equipping\<close>

definition IsItemSet :: "game_data \<Rightarrow> u32 \<Rightarrow> bool" where
  "IsItemSet g item_id \<longleftrightarrow> set_Id (or_null new_SetItemInfo item_id (CSetItemsInfo g)) \<noteq> 0"

definition GetSetItemTypes :: "game_data \<Rightarrow> u32 \<Rightarrow> u32 list" where
  "GetSetItemTypes g item_id =
    (let info = or_null new_SetItemInfo item_id (CSetItemsInfo g)
     in if set_Id info = 0 then []
        else map fst (filter (\<lambda>(t, field). DoesSetOccupySlot field)
          [(0, set_Hair info), (1, set_Face info), (2, set_Upper info), (3, set_Under info), (4, set_Pants info),
           (5, set_Arms info), (6, set_Boots info), (7, set_AccessoryA info), (8, set_AccessoryB info), (9, set_AccessoryC info)]))"

definition AddEquip :: "ItemSerialInfo option \<Rightarrow> u32 option \<Rightarrow> bool \<Rightarrow> u8 \<Rightarrow> DbOp" where
  "AddEquip serial type equipped char_id = Op_ItemPatch (new_ItemPatchCtx\<lparr>
     ip_sel := \<lparr>sel_serial = serial, sel_item_type = type, sel_character_id = Some char_id\<rparr>,
     ip_is_equipped := Some equipped, ip_character_id := Some char_id\<rparr>)"

definition AddExpire :: "u32 \<Rightarrow> ItemInfo \<Rightarrow> ItemSerialInfo \<Rightarrow> DbOp" where
  "AddExpire now info serial = Op_ItemPatch (new_ItemPatchCtx\<lparr>
     ip_sel := new_ItemSelector\<lparr>sel_serial := Some serial\<rparr>,
     ip_expire_date := Some (if item_LimitedTime info = 0 then ItemExpire_Unlimited else now + item_LimitedTime info)\<rparr>)"

text \<open>Taking off what is worn of the given types.\<close>

definition unequip_types :: "game_data \<Rightarrow> Item list \<Rightarrow> u32 list \<Rightarrow> u8 \<Rightarrow> DbOp list" where
  "unequip_types g items types char_id =
     concat (map (\<lambda>t. case GetPlayerEquippedItem g items t char_id of
         None \<Rightarrow> [] | Some worn \<Rightarrow> [AddEquip (Some (inv_serial_info (it_item_info worn))) None False char_id]) types)"

definition visible_type :: "'a::len word \<Rightarrow> 'a word" where
  "visible_type t = (if t = 17 then 25 else if t = 19 then 22 else if t = 20 then 23 else t)"

definition equip_switch :: "game_data \<Rightarrow> Item list \<Rightarrow> u16 \<times> u32 \<Rightarrow> DbOp list" where
  "equip_switch g items req = (case req of (character_id, item_id) \<Rightarrow>
    (case GetPlayerItemInventory_id items item_id of
       None \<Rightarrow> []
     | Some item \<Rightarrow>
         (let char_id = ucast character_id
          in (if IsItemSet g item_id then unequip_types g items (GetSetItemTypes g item_id) char_id else [])
             @ unequip_types g items [type_of_item g (item_id_of item)] char_id
             @ [AddEquip (Some (inv_serial_info (it_item_info item))) None True char_id])))"

definition equip_item :: "game_data \<Rightarrow> u32 \<Rightarrow> Item list \<Rightarrow> u8 \<Rightarrow> ItemSerialInfo \<Rightarrow> DbOp list" where
  "equip_item g now items current_character s =
    (if serial_data s \<le> 25 then [AddEquip None (Some (ucast (visible_type (serial_data s)))) False current_character]
     else case GetPlayerItemInventory_serial items s of
       None \<Rightarrow> []
     | Some item \<Rightarrow>
         (let item_id = item_id_of item; info = or_null new_ItemInfo item_id (CItemsInfo g);
              serial = inv_serial_info (it_item_info item)
          in if item_Id info = 0 then []
             else
               (if IsItemSet g item_id then unequip_types g items (GetSetItemTypes g item_id) current_character
                else case GetPlayerEquippedItem g items 25 current_character of
                  None \<Rightarrow> []
                | Some item_set \<Rightarrow>
                    if item_Type info \<in> set (GetSetItemTypes g (item_id_of item_set))
                    then [AddEquip (Some (inv_serial_info (it_item_info item_set))) None False current_character] else [])
               @ unequip_types g items [item_Type info] current_character
               @ [AddEquip (Some serial) None True current_character]
               @ (if inv_expire_date (it_item_info item) = ItemExpire_Unused then [AddExpire now info serial] else [])))"

definition ItemEquip ::
  "game_data \<Rightarrow> u32 \<Rightarrow> u16 list \<Rightarrow> u16 \<Rightarrow> u16 \<Rightarrow> u8 \<Rightarrow> u8 \<Rightarrow> u8 \<Rightarrow> (nat \<Rightarrow> ItemSerialInfo) \<Rightarrow> (nat \<Rightarrow> u16 \<times> u32) \<Rightarrow> server \<Rightarrow> server" where
  "ItemEquip g now aids sid order update_type remove_type items_count req switch_req sv =
    (case CAccount (sv_world sv) sid of
       None \<Rightarrow> sv
     | Some acc \<Rightarrow>
       if acc_Index_of acc = - 1 then sv
       else
         (let items = pl_inventory_items acc; char_id = ucast (acc_SelectedCharacter (pl_acc_info acc));
              remove_type = visible_type remove_type;
              ops = (if remove_type = 51 then concat (map (\<lambda>i. equip_switch g items (switch_req i)) [0..<unat items_count]) else [])
                @ (if update_type = 1 then [AddEquip None (Some (ucast remove_type)) False char_id] else [])
                @ (if update_type = 0 then concat (map (\<lambda>i. equip_item g now items char_id (req i)) [0..<unat items_count]) else [])
          in submit g aids acc \<lparr>ctx_sid = ucast sid, ctx_aid = acc_Index_of acc, ctx_ops = ops\<rparr> (EquipTask sid order items_count) sv))"

definition equip_bytes :: "game_data \<Rightarrow> Player \<Rightarrow> bytes" where
  "equip_bytes g p = le_bytes 4 (uid_data (pl_uid p))
     @ take 68 (concat (map (\<lambda>e. le_bytes 4 ((ucast (eqn_item_type e) :: u32) OR push_bit 9 (ucast (eqn_item_id e)))) (GetEquippedItems g p))
          @ replicate 68 0)"

definition show_equip :: "game_data \<Rightarrow> u16 \<Rightarrow> Player \<Rightarrow> u16 list \<Rightarrow> world \<Rightarrow> world" where
  "show_equip g sid p ids w = fold (\<lambda>i w. if i = sid then w else
     SendMsg i 314 0 0 (pl_voice_id p) (le_bytes 4 (uid_data (pl_uid p)))
       (SendMsg i 414 0 (ucast (acc_SelectedCharacter (pl_acc_info p))) 17 (equip_bytes g p) w)) ids w"

definition finish_equip :: "game_data \<Rightarrow> Player \<Rightarrow> u32 \<Rightarrow> u16 \<Rightarrow> u16 \<Rightarrow> u8 \<Rightarrow> ValidatedDbUpdates \<Rightarrow> server \<Rightarrow> server" where
  "finish_equip g junk now sid order items_count v sv =
    (case perform junk now sid v sv of (sv, e, p) \<Rightarrow>
      (let p' = (if e = None then RefreshPlayerHealthCache g (\<not> pl_playing p) p else p);
           w = (if e = None then
                  emit (CastIpc (PlayerHealthIpc (pl_session_id p') (pl_max_health p') (pl_current_health p')))
                    (upd_acc sid (\<lambda>_. p') (sv_world sv))
                else sv_world sv);
           w = emit (Msg sid order 0 51 items_count []) w;
           w = (if pl_in_room p' then case CRoom w (pl_room_id p') of
                  None \<Rightarrow> w | Some r \<Rightarrow> show_equip g sid p' (GetRoomSortedPlayerSessionIds w r) w else w);
           w = (if pl_in_plaza p' then case CPlaza w (pl_plaza_id p') of
                  None \<Rightarrow> w | Some pz \<Rightarrow> show_equip g sid p' (pz_session_ids pz) w else w)
       in sv\<lparr>sv_world := w\<rparr>))"

end
