(* ===== verification/Upgrades.thy ===== *)
theory Upgrades
  imports Item_Handlers
begin

text \<open>
  Upgrading weapons (\<open>handlers/Items/Core/Upgrade.h\<close>): loading an item with energy, the upgrade
  itself with its two draws and three helper items, and the reset to the first level.
\<close>

definition Result_UpgradeSuccess :: u8 where "Result_UpgradeSuccess = 0x01"
definition Result_UpgradeFailHigh :: u8 where "Result_UpgradeFailHigh = 0x02"
definition Result_UpgradeFailLow :: u8 where "Result_UpgradeFailLow = 0x06"
definition Result_EnergyInjection :: u8 where "Result_EnergyInjection = 0x20"
definition Result_UpgradeReset :: u8 where "Result_UpgradeReset = 0x35"
definition Result_NotEnoughPoints :: u8 where "Result_NotEnoughPoints = 0x0E"
definition Result_RepairItem :: u8 where "Result_RepairItem = 0x08"
definition FailType_NoChange :: u8 where "FailType_NoChange = 0x01"

section \<open>Loading energy\<close>

definition InjectEnergy :: "game_data \<Rightarrow> u16 list \<Rightarrow> u16 \<Rightarrow> u8 \<Rightarrow> ItemSerialInfo \<Rightarrow> u32 \<Rightarrow> server \<Rightarrow> server" where
  "InjectEnergy g aids sid option req_item req_energy sv =
    (case CAccount (sv_world sv) sid of
       None \<Rightarrow> sv
     | Some acc \<Rightarrow>
       if acc_Energy (pl_acc_info acc) < req_energy then sv
       else case GetPlayerItemInventory_serial (pl_inventory_items acc) req_item of
         None \<Rightarrow> sv
       | Some it \<Rightarrow>
           if \<not> item_IsUpgradable (or_null new_ItemInfo (item_id_of it) (CItemsInfo g)) then sv
           else
             (let p = new_ItemPatchCtx\<lparr>ip_sel := new_ItemSelector\<lparr>sel_serial := Some (inv_serial_info (it_item_info it))\<rparr>,
                    ip_energy := Some (ucast (inv_energy (it_item_info it)) + req_energy)\<rparr>
              in submit g aids acc \<lparr>ctx_sid = ucast sid, ctx_aid = acc_Index_of acc, ctx_ops =
                   cost_op Cur_ENERGY req_energy @ [Op_ItemPatch p]\<rparr> (InjectTask sid option req_item req_energy) sv))"

definition finish_inject :: "Player \<Rightarrow> u32 \<Rightarrow> u16 \<Rightarrow> u8 \<Rightarrow> ItemSerialInfo \<Rightarrow> u32 \<Rightarrow> ValidatedDbUpdates \<Rightarrow> server \<Rightarrow> server" where
  "finish_inject junk now sid option item energy v sv =
    (case perform junk now sid v sv of
       (sv, Some e, p) \<Rightarrow> sv
     | (sv, None, p) \<Rightarrow> answer sid 101 0 Result_EnergyInjection option (serial_bytes item @ le_bytes 4 energy) sv)"

section \<open>Resetting\<close>

text \<open>The chain an item belongs to, walked like the collections.\<close>

definition GetUpgradeInfoCache :: "u32 list \<Rightarrow> (u32 \<Rightarrow> u32 list) \<Rightarrow> game_data \<Rightarrow> u32 \<Rightarrow> UpgradeInfo" where
  "GetUpgradeInfoCache order inner_order g item_id =
    (let found = (\<lambda>key. List.map_filter (\<lambda>t. case get2 key t (CUpgradesInfo g) of
            None \<Rightarrow> None | Some vec \<Rightarrow> find (\<lambda>ui. upg_ItemId ui = item_id) vec) (inner_order key))
     in case found item_id @ concat (map found (filter (\<lambda>key. key \<noteq> item_id) order)) of
          [] \<Rightarrow> new_UpgradeInfo | ui # _ \<Rightarrow> ui)"

definition upgrade_shop_item :: "ItemInfo \<Rightarrow> Item \<Rightarrow> ShopItem" where
  "upgrade_shop_item info it = \<lparr>shop_item_number = new_InventoryItemNumber (item_Id info) (item_Stock info),
     shop_expire_time = inv_expire_date (it_item_info it), shop_serial_info = inv_serial_info (it_item_info it)\<rparr>"

definition Reset ::
  "u32 list \<Rightarrow> (u32 \<Rightarrow> u32 list) \<Rightarrow> game_data \<Rightarrow> u16 list \<Rightarrow> u16 \<Rightarrow> ItemSerialInfo \<Rightarrow> ItemSerialInfo \<Rightarrow> server \<Rightarrow> server" where
  "Reset order inner_order g aids sid req_item req_reset sv =
    (case CAccount (sv_world sv) sid of
       None \<Rightarrow> sv
     | Some acc \<Rightarrow>
       if acc_Index_of acc = 0 then sv
       else case (GetPlayerItemInventory_serial (pl_inventory_items acc) req_item,
                  GetPlayerItemInventory_serial (pl_inventory_items acc) req_reset) of
         (Some it, Some reset) \<Rightarrow>
           (let info = GetUpgradeInfoCache order inner_order g (item_id_of it);
                item_info = or_null new_ItemInfo (upg_GroupId info) (CItemsInfo g);
                serial = inv_serial_info (it_item_info it); reset_serial = inv_serial_info (it_item_info reset);
                p = new_ItemPatchCtx\<lparr>ip_sel := new_ItemSelector\<lparr>sel_serial := Some serial\<rparr>,
                      ip_repair := Some (item_Durability item_info), ip_new_item_id := Some (item_Id item_info)\<rparr>
            in if upg_GroupId info = - 1 \<or> item_Id item_info = - 1 then sv
               else submit g aids acc \<lparr>ctx_sid = ucast sid, ctx_aid = acc_Index_of acc, ctx_ops =
                   [Op_ItemPatch p, Op_ItemDelete \<lparr>idel_serials = [reset_serial]\<rparr>]\<rparr>
                 (ResetTask sid (shop_item_bytes (upgrade_shop_item item_info it) @ serial_bytes serial @ serial_bytes reset_serial)) sv)
       | _ \<Rightarrow> sv)"

definition finish_reset :: "Player \<Rightarrow> u32 \<Rightarrow> u16 \<Rightarrow> bytes \<Rightarrow> ValidatedDbUpdates \<Rightarrow> server \<Rightarrow> server" where
  "finish_reset junk now sid payload v sv =
    (case perform junk now sid v sv of
       (sv, Some e, p) \<Rightarrow> sv
     | (sv, None, p) \<Rightarrow> answer sid 101 0 Result_UpgradeReset 0 payload sv)"

section \<open>Upgrading\<close>

text \<open>Which helper items the request names: booster, energy refund, protection.\<close>

definition upgrade_helpers ::
  "u8 \<Rightarrow> (nat \<Rightarrow> ItemSerialInfo) \<Rightarrow> ItemSerialInfo option \<times> ItemSerialInfo option \<times> ItemSerialInfo option" where
  "upgrade_helpers upgrade_info req =
    (if upgrade_info = 1 then (Some (req 1), None, None)
     else if upgrade_info = 2 then (None, Some (req 1), None)
     else if upgrade_info = 3 then (None, None, Some (req 1))
     else if upgrade_info = 4 then (Some (req 1), Some (req 2), None)
     else if upgrade_info = 5 then (Some (req 1), None, Some (req 2))
     else if upgrade_info = 6 then (None, Some (req 1), Some (req 2))
     else if upgrade_info = 7 then (Some (req 1), Some (req 2), Some (req 3))
     else (None, None, None))"

definition helper_id :: "Item list \<Rightarrow> ItemSerialInfo option \<Rightarrow> u32 option" where
  "helper_id items serial = (case serial of None \<Rightarrow> None
     | Some s \<Rightarrow> map_option item_id_of (GetPlayerItemInventory_serial items s))"

definition max_of :: "(UpgradeInfo \<Rightarrow> u32) \<Rightarrow> UpgradeInfo list \<Rightarrow> u32" where
  "max_of f us = fold (\<lambda>u m. max (f u) m) us 0"

datatype upgrade_outcome = Upgraded | Unchanged u32 | Downgraded

text \<open>
  The draws: \<open>extracted_number \<le> cur_probability\<close> succeeds; after a failure a second draw, the
  protection item or a level of at most 3 keep the level. The helper items used up are collected.
\<close>

definition draw_upgrade ::
  "'g rng \<Rightarrow> 'g \<Rightarrow> Item list \<Rightarrow> UpgradeInfo list \<Rightarrow> UpgradeInfo \<Rightarrow> u32
     \<Rightarrow> ItemSerialInfo option \<times> ItemSerialInfo option \<times> ItemSerialInfo option
     \<Rightarrow> upgrade_outcome \<times> ItemSerialInfo list \<times> 'g" where
  "draw_upgrade rng gen items collection cur current_level helpers = (case helpers of (booster, refund, protection) \<Rightarrow>
    (case rng 0 (max_of upg_Probability collection) gen of (extracted, gen) \<Rightarrow>
      (let boosted = (helper_id items booster = Some 4305004);
           used = (if boosted then [the booster] else [])
       in if extracted \<le> upg_Probability cur \<or> boosted then (Upgraded, used, gen)
          else case rng 0 (max_of upg_HoldProbability collection) gen of (down, gen) \<Rightarrow>
            (let protected = (helper_id items protection = Some 4305018);
                 used = used @ (if protected then [the protection] else []);
                 percent = (case helper_id items refund of
                    None \<Rightarrow> None
                  | Some i \<Rightarrow> if i = 4305014 then Some 30 else if i = 4305015 then Some 50
                             else if i = 4305016 then Some 100 else None);
                 used = used @ (if percent \<noteq> None then [the refund] else []);
                 energy = (case percent of None \<Rightarrow> 0 | Some k \<Rightarrow> (upg_UseExp cur div 100) * k)
             in if down \<le> upg_HoldProbability cur \<or> protected \<or> current_level \<le> 3 then (Unchanged energy, used, gen)
                else (Downgraded, used, gen)))))"

definition upgrade_ack_bytes ::
  "bytes \<Rightarrow> ItemSerialInfo \<Rightarrow> ItemSerialInfo option \<times> ItemSerialInfo option \<times> ItemSerialInfo option \<Rightarrow> bytes" where
  "upgrade_ack_bytes shop serial helpers = (case helpers of (a, b, c) \<Rightarrow>
     shop @ serial_bytes serial @ concat (map (\<lambda>h. case h of None \<Rightarrow> [] | Some s \<Rightarrow> serial_bytes s) [a, b, c]))"

definition level_patch :: "Item \<Rightarrow> ItemInfo \<Rightarrow> DbOp" where
  "level_patch it info = Op_ItemPatch (new_ItemPatchCtx\<lparr>
     ip_sel := new_ItemSelector\<lparr>sel_serial := Some (inv_serial_info (it_item_info it))\<rparr>,
     ip_repair := Some (item_Durability info), ip_energy := Some 0, ip_new_item_id := Some (item_Id info)\<rparr>)"

text \<open>The change, the answer's payload, and the answer's type and result bytes.\<close>

definition upgrade_change ::
  "game_data \<Rightarrow> UpgradeInfo list \<Rightarrow> Item \<Rightarrow> u8 \<Rightarrow> ItemSerialInfo option \<times> ItemSerialInfo option \<times> ItemSerialInfo option
     \<Rightarrow> upgrade_outcome \<Rightarrow> DbOp list \<times> bytes \<times> u8 \<times> u8" where
  "upgrade_change g collection it upgrade_type helpers outcome =
    (let item_id = item_id_of it; serial = inv_serial_info (it_item_info it);
         to_level = (\<lambda>u result. let info = or_null new_ItemInfo (upg_ItemId u) (CItemsInfo g) in
           if item_Id info \<noteq> - 1 then
             ([level_patch it info], upgrade_ack_bytes (shop_item_bytes (upgrade_shop_item info it)) serial helpers, upgrade_type, result)
           else ([], [], upgrade_type, result))
     in case outcome of
          Upgraded \<Rightarrow> to_level (GetUpgradeInfoNext collection item_id) Result_UpgradeSuccess
        | Downgraded \<Rightarrow> to_level (GetUpgradeInfoPrev collection item_id) Result_UpgradeFailHigh
        | Unchanged energy \<Rightarrow>
            ([Op_ItemPatch (new_ItemPatchCtx\<lparr>ip_sel := new_ItemSelector\<lparr>sel_serial := Some serial\<rparr>, ip_energy := Some energy\<rparr>)],
             upgrade_ack_bytes [] serial helpers, FailType_NoChange, Result_UpgradeFailLow))"

definition Upgrade ::
  "'g rng \<Rightarrow> u32 list \<Rightarrow> game_data \<Rightarrow> u16 list \<Rightarrow> u16 \<Rightarrow> u8 \<Rightarrow> u8 \<Rightarrow> (nat \<Rightarrow> ItemSerialInfo) \<Rightarrow> 'g \<times> server \<Rightarrow> 'g \<times> server" where
  "Upgrade rng order g aids sid upgrade_info upgrade_type req s = (case s of (gen, sv) \<Rightarrow>
    (case CAccount (sv_world sv) sid of
       None \<Rightarrow> (gen, sv)
     | Some acc \<Rightarrow>
       (case GetPlayerItemInventory_serial (pl_inventory_items acc) (req 0) of
          None \<Rightarrow> (gen, sv)
        | Some it \<Rightarrow>
            (let items = pl_inventory_items acc; item_id = item_id_of it;
                 item_info = or_null new_ItemInfo item_id (CItemsInfo g);
                 collection = GetUpgradeCollectionInfoCache order g (ucast upgrade_type + 1) item_id;
                 cur = GetUpgradeInfoNext collection item_id;
                 helpers = upgrade_helpers upgrade_info req
             in if item_Id item_info = - 1 \<or> collection = [] \<or> ucast (inv_energy (it_item_info it)) < upg_UseExp cur then (gen, sv)
                else if ucast (inv_repair (it_item_info it)) \<noteq> item_Durability item_info then
                  (gen, answer sid 101 0 Result_RepairItem 0 [] sv)
                else if acc_MicroPoints (pl_acc_info acc) < upg_BuyPoint cur \<or> acc_RockTokens (pl_acc_info acc) < upg_BuyCash cur then
                  (gen, answer sid 101 0 Result_NotEnoughPoints 0 [] sv)
                else case draw_upgrade rng gen items collection cur (GetUpgradeLevel collection item_id) helpers of
                  (outcome, used, gen) \<Rightarrow>
                  (case upgrade_change g collection it upgrade_type helpers outcome of
                     (ops, payload, type_param, result) \<Rightarrow>
                       (gen, submit g aids acc \<lparr>ctx_sid = ucast sid, ctx_aid = acc_Index_of acc, ctx_ops =
                          ops @ cost_op Cur_RT (upg_BuyCash cur) @ cost_op Cur_MP (upg_BuyPoint cur)
                          @ (if used \<noteq> [] then [Op_ItemDelete \<lparr>idel_serials = used\<rparr>] else [])\<rparr>
                        (UpgradeTask sid type_param result upgrade_info payload) sv))))))"

definition finish_upgrade :: "Player \<Rightarrow> u32 \<Rightarrow> u16 \<Rightarrow> u8 \<Rightarrow> u8 \<Rightarrow> u8 \<Rightarrow> bytes \<Rightarrow> ValidatedDbUpdates \<Rightarrow> server \<Rightarrow> server" where
  "finish_upgrade junk now sid type_param result upgrade_info payload v sv =
    (case perform junk now sid v sv of
       (sv, Some e, p) \<Rightarrow> sv
     | (sv, None, p) \<Rightarrow> answer sid 101 type_param result upgrade_info payload sv)"

definition ItemUpgrade ::
  "'g rng \<Rightarrow> u32 list \<Rightarrow> (u32 \<Rightarrow> u32 list) \<Rightarrow> game_data \<Rightarrow> u16 list \<Rightarrow> u16 \<Rightarrow> u8 \<Rightarrow> u8 \<Rightarrow> u8 \<Rightarrow> (nat \<Rightarrow> ItemSerialInfo) \<Rightarrow> u32
     \<Rightarrow> 'g \<times> server \<Rightarrow> 'g \<times> server" where
  "ItemUpgrade rng order inner_order g aids sid extra mission option req energy s =
    (if extra = 0 then (fst s, InjectEnergy g aids sid option (req 0) energy (snd s))
     else if extra = 37 then Upgrade rng order g aids sid option mission req s
     else if extra = 53 then (fst s, Reset order inner_order g aids sid (req 0) (req 1) (snd s))
     else s)"

end
