(* ===== verification/Social_Handlers.thy ===== *)
theory Social_Handlers
  imports Server
begin

text \<open>
  Friends and blocked players (\<open>handlers/Socials/Friends\<close>, \<open>handlers/Socials/Blockeds\<close>). A player's
  list holds one entry per other account, with its state; the commit mirrors an accepted friendship
  and takes a blocked player's entry away. The fields of a request are arguments.
\<close>

definition Friends_RequestSend :: u8 where "Friends_RequestSend = 0x1C"
definition Friends_RequestRecv :: u8 where "Friends_RequestRecv = 0x1E"
definition Add_SendSingle :: u8 where "Add_SendSingle = 28"
definition Add_FriendAccepted :: u8 where "Add_FriendAccepted = 1"
definition Add_UpdateList :: u8 where "Add_UpdateList = 30"
definition Add_PlayerBlocked :: u8 where "Add_PlayerBlocked = 42"
definition Add_PlayerNotFound :: u8 where "Add_PlayerNotFound = 6"
definition Add_ListFull :: u8 where "Add_ListFull = 7"
definition OtherListIsFull :: u8 where "OtherListIsFull = 0"
definition YourListIsFull :: u8 where "YourListIsFull = 1"
definition List_NoUsers :: u8 where "List_NoUsers = 0x06"
definition List_Users :: u8 where "List_Users = 0x25"
definition List_Users2 :: u8 where "List_Users2 = 0x00"
definition Blocked_Success :: u8 where "Blocked_Success = 0x01"
definition Blocked_Offline :: u8 where "Blocked_Offline = 0x06"
definition Blocked_NotUser :: u8 where "Blocked_NotUser = 0x06"
definition Blocked_UsersBlocked :: u8 where "Blocked_UsersBlocked = 0x25"

definition socials_of :: "u16 \<Rightarrow> server \<Rightarrow> SocialInfo list" where
  "socials_of sid sv = or_null [] sid (CSocial (sv_stores sv))"

definition accepted :: "SocialInfo list \<Rightarrow> SocialInfo list" where
  "accepted = filter (\<lambda>s. soc_State s = Social_Accepted)"

definition friend_bytes :: "u32 \<Rightarrow> u32 \<Rightarrow> string \<Rightarrow> bytes" where
  "friend_bytes uid aid nick = le_bytes 4 uid @ le_bytes 4 aid @ char_field 16 nick"

definition blocked_bytes :: "u32 \<Rightarrow> string \<Rightarrow> bytes" where
  "blocked_bytes aid nick = le_bytes 4 aid @ char_field 16 nick"

section \<open>Adding a friend\<close>

text \<open>The target of the request: as the request has it, replaced by the player online under the name.\<close>

definition friend_target ::
  "u8 \<Rightarrow> string \<Rightarrow> u32 \<Rightarrow> u32 \<Rightarrow> u16 list \<Rightarrow> server \<Rightarrow> string \<times> UniqueId \<times> u32" where
  "friend_target type req_nick req_uid req_aid aids sv =
    (let nick = (if type = Friends_RequestSend \<or> type = Friends_RequestRecv then req_nick else []);
         online = ResolveOnlineByNickname aids (CAccount (sv_world sv)) nick
     in if oni_aid online \<noteq> - 1 then (nick, oni_uid online, oni_aid online)
        else if type = Friends_RequestRecv then (nick, uid_of_data req_uid, req_aid)
        else (nick, new_UniqueId 0 0, - 1))"

definition FriendsAdd ::
  "game_data \<Rightarrow> u16 list \<Rightarrow> u16 \<Rightarrow> u8 \<Rightarrow> string \<Rightarrow> u32 \<Rightarrow> u32 \<Rightarrow> server \<Rightarrow> server" where
  "FriendsAdd g aids sid type req_nick req_uid req_aid sv =
    (case CAccount (sv_world sv) sid of
       None \<Rightarrow> sv
     | Some acc \<Rightarrow>
       (let aid = acc_Index_of acc; list = socials_of sid sv;
            social_state = (if type = Friends_RequestSend then Social_Pending else Social_Accepted)
        in if aid = - 1 then sv
           else if length (accepted list) \<ge> 100 then answer sid 61 0 Add_ListFull YourListIsFull [] sv
           else case friend_target type req_nick req_uid req_aid aids sv of (nick, target_uid, target_aid) \<Rightarrow>
             if acc_Nickname (pl_acc_info acc) = (if type = Friends_RequestSend \<or> type = Friends_RequestRecv then req_nick else [])
               then answer sid 61 0 Add_PlayerNotFound 0 [] sv
             else
               (let own = map_option soc_State (GetPlayerSocial list aid);
                    target_list = socials_of (uid_session target_uid) sv;
                    theirs = map_option soc_State (GetPlayerSocial target_list target_aid)
                in if own = Some Social_Blocked then answer sid 61 0 Add_PlayerBlocked 0 [] sv
                   else if own = Some Social_Accepted then sv
                   else if uid_session target_uid \<noteq> 0 \<and> length (accepted target_list) \<ge> 100 then
                     answer sid 61 0 Add_ListFull OtherListIsFull [] sv
                   else if uid_session target_uid \<noteq> 0 \<and> theirs = Some Social_Blocked then
                     answer sid 61 0 Add_PlayerBlocked 0 [] sv
                   else if uid_session target_uid \<noteq> 0 \<and> theirs \<noteq> None then sv
                   else submit g aids acc \<lparr>ctx_sid = ucast sid, ctx_aid = aid, ctx_ops =
                       [Op_Social \<lparr>psp_op = Social_InsertOrUpdate, psp_aid = aid, psp_targetAid = target_aid,
                          psp_State = Some social_state, psp_TargetNickname = Some nick\<rparr>]\<rparr>
                     (FriendAddTask sid aid target_aid nick target_uid social_state) sv)))"

definition finish_friend_add ::
  "(CurrencyType \<Rightarrow> nat) \<Rightarrow> bool \<Rightarrow> Player \<Rightarrow> u32 \<Rightarrow> u16 \<Rightarrow> u32 \<Rightarrow> u32 \<Rightarrow> string \<Rightarrow> UniqueId \<Rightarrow> u8 \<Rightarrow> ValidatedDbUpdates \<Rightarrow> server \<Rightarrow> server" where
  "finish_friend_add col_max up junk now sid aid target_aid target_nick target_uid social_state v sv =
    (case commit col_max now up v sv of
       (sv, out, Inl e) \<Rightarrow>
         (let sv = (if rdb_target_not_found out then answer sid 61 0 Add_PlayerNotFound 0 [] sv else sv)
          in if rdb_target_blocked out \<or> rdb_player_blocked out then answer sid 61 0 Add_PlayerBlocked 0 [] sv else sv)
     | (sv, out, Inr v) \<Rightarrow>
         (case perform junk now sid v sv of
            (sv, Some e, p) \<Rightarrow> answer sid 61 0 Add_PlayerNotFound 0 [] sv
          | (sv, None, p) \<Rightarrow>
              (let new_friend = friend_bytes (uid_data (pl_uid p)) aid (acc_Nickname (pl_acc_info p));
                   other_friend = friend_bytes (uid_data target_uid) target_aid target_nick;
                   target_sid = uid_session target_uid
               in if social_state = Social_Pending then
                    upd_world (SendMsg target_sid 61 0 Add_SendSingle 0 new_friend) sv
                  else if social_state = Social_Accepted then
                    upd_world (SendMsg target_sid 61 0 Add_UpdateList 0 new_friend)
                      (upd_world (SendMsg target_sid 61 0 Add_FriendAccepted 0 new_friend)
                        (answer sid 61 0 Add_FriendAccepted 0 other_friend sv))
                  else sv)))"

section \<open>The friends list\<close>

text \<open>A friend who is not online has the unique id 0.\<close>

definition friend_uid :: "u32 \<Rightarrow> server \<Rightarrow> u32" where
  "friend_uid aid sv =
    (case CAccount (sv_world sv) (or_null 0 aid (sv_aid_sid sv)) of
       None \<Rightarrow> 0
     | Some p \<Rightarrow> if acc_Index_of p \<noteq> 0 then uid_data (pl_uid p) else 0)"

definition accepted_friends :: "u16 \<Rightarrow> server \<Rightarrow> bytes list" where
  "accepted_friends sid sv =
     map (\<lambda>s. friend_bytes (friend_uid (soc_targetAid s) sv) (soc_targetAid s) (soc_TargetNickname s)) (accepted (socials_of sid sv))"

definition max_friends_per_fragment :: nat where "max_friends_per_fragment = 51"

text \<open>A list whose length is a multiple of the fragment ends with an empty fragment.\<close>

definition friend_batches :: "bytes list \<Rightarrow> bytes list list" where
  "friend_batches friends =
     map (\<lambda>i. take max_friends_per_fragment (drop (i * max_friends_per_fragment) friends))
       [0..<length friends div max_friends_per_fragment + 1]"

definition send_friends :: "u16 \<Rightarrow> u16 \<Rightarrow> bytes list \<Rightarrow> server \<Rightarrow> server" where
  "send_friends sid empty_order friends sv =
    (if friends = [] then answer sid empty_order 0 List_NoUsers 0 [] sv
     else fold (\<lambda>(i, batch). answer sid 63 0 (if i = 0 then List_Users else List_Users2) (of_nat (length batch)) (concat batch))
       (enumerate 0 (friend_batches friends)) sv)"

definition FriendsView :: "Player \<Rightarrow> u16 \<Rightarrow> server \<Rightarrow> server" where
  "FriendsView junk sid sv =
    (if acc_Index_of (get_acc junk sid sv) = 0 then sv
     else send_friends sid 63 (accepted_friends sid sv) sv)"

section \<open>Removing a friend\<close>

definition FriendsRemove :: "game_data \<Rightarrow> u16 list \<Rightarrow> u16 \<Rightarrow> u32 \<Rightarrow> server \<Rightarrow> server" where
  "FriendsRemove g aids sid target_aid sv =
    (case CAccount (sv_world sv) sid of
       None \<Rightarrow> sv
     | Some acc \<Rightarrow>
       if acc_Index_of acc = - 1 then sv
       else if map_option soc_State (GetPlayerSocial (socials_of sid sv) target_aid) \<noteq> Some Social_Accepted then sv
       else submit g aids acc \<lparr>ctx_sid = ucast sid, ctx_aid = acc_Index_of acc, ctx_ops =
           [Op_Social \<lparr>psp_op = Social_Delete, psp_aid = acc_Index_of acc, psp_targetAid = target_aid,
              psp_State = None, psp_TargetNickname = None\<rparr>]\<rparr>
         (FriendRemoveTask sid (acc_Index_of acc) target_aid) sv)"

definition forget_social :: "u16 \<Rightarrow> u32 \<Rightarrow> server \<Rightarrow> server" where
  "forget_social sid aid sv = sv\<lparr>sv_stores := (sv_stores sv)\<lparr>CSocial :=
     fst (erase_if_at sid (\<lambda>s. soc_targetAid s = aid) (CSocial (sv_stores sv)))\<rparr>\<rparr>"

definition finish_friend_remove ::
  "(CurrencyType \<Rightarrow> nat) \<Rightarrow> bool \<Rightarrow> Player \<Rightarrow> u32 \<Rightarrow> u16 \<Rightarrow> u32 \<Rightarrow> u32 \<Rightarrow> ValidatedDbUpdates \<Rightarrow> server \<Rightarrow> server" where
  "finish_friend_remove col_max up junk now sid aid target_aid v sv =
    (case commit col_max now up v sv of
       (sv, out, Inl e) \<Rightarrow> sv
     | (sv, out, Inr v) \<Rightarrow>
         (case perform junk now sid v sv of
            (sv, Some e, p) \<Rightarrow> sv
          | (sv, None, p) \<Rightarrow>
              (let friends = accepted_friends sid sv; target_sid = or_null 0 target_aid (sv_aid_sid sv);
                   sv = (if target_sid \<noteq> 0 then forget_social target_sid aid sv else sv)
               in send_friends sid 61 friends sv)))"

section \<open>Blocking\<close>

definition BlockedsAdd :: "game_data \<Rightarrow> u16 list \<Rightarrow> u16 \<Rightarrow> string \<Rightarrow> server \<Rightarrow> server" where
  "BlockedsAdd g aids sid target_nickname sv =
    (case CAccount (sv_world sv) sid of
       None \<Rightarrow> sv
     | Some acc \<Rightarrow>
       if acc_Index_of acc = - 1 \<or> acc_Nickname (pl_acc_info acc) = target_nickname then sv
       else
         (let target_aid = oni_aid (ResolveOnlineByNickname aids (CAccount (sv_world sv)) target_nickname)
          in submit g aids acc \<lparr>ctx_sid = ucast sid, ctx_aid = acc_Index_of acc, ctx_ops =
               [Op_Social \<lparr>psp_op = Social_InsertOrUpdate, psp_aid = acc_Index_of acc, psp_targetAid = target_aid,
                  psp_State = Some Social_Blocked, psp_TargetNickname = Some target_nickname\<rparr>]\<rparr>
             (BlockAddTask sid target_aid target_nickname) sv))"

definition finish_block_add ::
  "(CurrencyType \<Rightarrow> nat) \<Rightarrow> bool \<Rightarrow> Player \<Rightarrow> u32 \<Rightarrow> u16 \<Rightarrow> u32 \<Rightarrow> string \<Rightarrow> ValidatedDbUpdates \<Rightarrow> server \<Rightarrow> server" where
  "finish_block_add col_max up junk now sid target_aid target_nickname v sv =
    (case commit col_max now up v sv of
       (sv, out, Inl e) \<Rightarrow> if rdb_target_not_found out then answer sid 52 0 Blocked_Offline 0 [] sv else sv
     | (sv, out, Inr v) \<Rightarrow>
         (case perform junk now sid v sv of
            (sv, Some e, p) \<Rightarrow> answer sid 52 0 Blocked_Offline 0 [] sv
          | (sv, None, p) \<Rightarrow> answer sid 52 0 Blocked_Success 0 (blocked_bytes target_aid target_nickname) sv))"

definition BlockedsRemove :: "game_data \<Rightarrow> u16 list \<Rightarrow> u16 \<Rightarrow> u32 \<Rightarrow> server \<Rightarrow> server" where
  "BlockedsRemove g aids sid target_aid sv =
    (case CAccount (sv_world sv) sid of
       None \<Rightarrow> sv
     | Some acc \<Rightarrow>
       if acc_Index_of acc = - 1 \<or> \<not> IsBlockedAlready (socials_of sid sv) target_aid then sv
       else submit g aids acc \<lparr>ctx_sid = ucast sid, ctx_aid = acc_Index_of acc, ctx_ops =
           [Op_Social \<lparr>psp_op = Social_Delete, psp_aid = acc_Index_of acc, psp_targetAid = target_aid,
              psp_State = None, psp_TargetNickname = None\<rparr>]\<rparr>
         (BlockRemoveTask sid target_aid) sv)"

definition finish_block_remove ::
  "(CurrencyType \<Rightarrow> nat) \<Rightarrow> bool \<Rightarrow> Player \<Rightarrow> u32 \<Rightarrow> u16 \<Rightarrow> ValidatedDbUpdates \<Rightarrow> server \<Rightarrow> server" where
  "finish_block_remove col_max up junk now sid v sv =
    (case commit col_max now up v sv of
       (sv, out, Inl e) \<Rightarrow> if rdb_target_not_found out then answer sid 52 0 Blocked_Offline 0 [] sv else sv
     | (sv, out, Inr v) \<Rightarrow>
         (case perform junk now sid v sv of
            (sv, Some e, p) \<Rightarrow> answer sid 52 0 Blocked_Offline 0 [] sv
          | (sv, None, p) \<Rightarrow> answer sid 53 0 1 0 [] sv))"

definition BlockedsView :: "u16 \<Rightarrow> server \<Rightarrow> server" where
  "BlockedsView sid sv =
    (case CAccount (sv_world sv) sid of
       None \<Rightarrow> sv
     | Some acc \<Rightarrow>
       if acc_Index_of acc = - 1 then sv
       else
         (let blockeds = map (\<lambda>s. blocked_bytes (soc_targetAid s) (soc_TargetNickname s))
                (filter (\<lambda>s. soc_State s = Social_Blocked) (socials_of sid sv))
          in if blockeds = [] then answer sid 54 0 Blocked_NotUser 0 [] sv
             else answer sid 54 0 Blocked_UsersBlocked (of_nat (length blockeds)) (concat blockeds) sv))"

end
