(* ===== verification/Mail_Handlers.thy ===== *)
theory Mail_Handlers
  imports Item_Handlers
begin

text \<open>
  Mails and gifts (\<open>handlers/Player/Mail\<close>, \<open>handlers/Player/Gift\<close>). A gift is a mail with an item;
  receiving it deletes the mail for the receiver and makes the item. A request's list of mails is
  read without regard to the packet's length, so it is a function from the index, with the count
  the client sends.
\<close>

definition Send_UserNotFound :: u8 where "Send_UserNotFound = 4"
definition Send_FullReceiver :: u8 where "Send_FullReceiver = 8"
definition Send_FullSender :: u8 where "Send_FullSender = 17"
definition Send_Blacklist :: u8 where "Send_Blacklist = 42"
definition Send_NewMail :: u8 where "Send_NewMail = 46"
definition Send_Gift :: u8 where "Send_Gift = 53"
definition Open_SendMails :: u8 where "Open_SendMails = 0"
definition Open_Empty :: u8 where "Open_Empty = 6"
definition Open_SendMails2 :: u8 where "Open_SendMails2 = 37"
definition Open_Confirm :: u8 where "Open_Confirm = 51"
definition Gift_USER_OFFLINE :: u8 where "Gift_USER_OFFLINE = 4"
definition Gift_FULL_RECEIVER :: u8 where "Gift_FULL_RECEIVER = 8"
definition Gift_NOT_ENOUGH_CASH :: u8 where "Gift_NOT_ENOUGH_CASH = 14"
definition Gift_FULL_SENDER :: u8 where "Gift_FULL_SENDER = 17"
definition Gift_SEND_SUCCESS :: u8 where "Gift_SEND_SUCCESS = 37"
definition Gift_BLACKLIST_ERROR :: u8 where "Gift_BLACKLIST_ERROR = 42"

definition mail_of :: "u32 \<Rightarrow> server \<Rightarrow> MailboxData" where
  "mail_of mail_id sv = or_null new_MailboxData mail_id (CMailboxData (sv_stores sv))"

definition delete_op :: "MailSide \<Rightarrow> u32 \<Rightarrow> DbOp" where
  "delete_op side mail_id =
     Op_Mailbox (new_MailboxPatch\<lparr>mbp_op := Mail_Delete, mbp_mail_id := mail_id, mbp_side := Some side\<rparr>)"

text \<open>Commit and apply; a task that fails in either says nothing more.\<close>

definition settle ::
  "(CurrencyType \<Rightarrow> nat) \<Rightarrow> bool \<Rightarrow> Player \<Rightarrow> u32 \<Rightarrow> u16 \<Rightarrow> ValidatedDbUpdates \<Rightarrow> (Player \<Rightarrow> server \<Rightarrow> server)
     \<Rightarrow> (DbErrorType \<Rightarrow> server \<Rightarrow> server) \<Rightarrow> server \<Rightarrow> server" where
  "settle col_max up junk now sid v ok failed sv =
    (case commit col_max now up v sv of
       (sv, out, Inl e) \<Rightarrow> failed e sv
     | (sv, out, Inr v) \<Rightarrow>
         (case perform junk now sid v sv of (sv, Some e, p) \<Rightarrow> sv | (sv, None, p) \<Rightarrow> ok p sv))"

section \<open>Mails\<close>

definition MailRead :: "game_data \<Rightarrow> u16 list \<Rightarrow> u16 \<Rightarrow> u32 \<Rightarrow> (nat \<Rightarrow> u32) \<Rightarrow> server \<Rightarrow> server" where
  "MailRead g aids sid mail_count mail_ids sv =
    (case CAccount (sv_world sv) sid of
       None \<Rightarrow> sv
     | Some acc \<Rightarrow>
       if acc_Index_of acc = - 1 then sv
       else submit g aids acc \<lparr>ctx_sid = ucast sid, ctx_aid = acc_Index_of acc, ctx_ops =
           map (\<lambda>i. Op_Mailbox (new_MailboxPatch\<lparr>mbp_op := Mail_MarkRead, mbp_mail_id := mail_ids i,
                   mbp_read := Some True, mbp_side := Some Side_Receiver\<rparr>)) [0..<unat mail_count]\<rparr>
         (MailReadTask sid) sv)"

definition finish_mail_read ::
  "(CurrencyType \<Rightarrow> nat) \<Rightarrow> bool \<Rightarrow> Player \<Rightarrow> u32 \<Rightarrow> u16 \<Rightarrow> ValidatedDbUpdates \<Rightarrow> server \<Rightarrow> server" where
  "finish_mail_read col_max up junk now sid v = settle col_max up junk now sid v (\<lambda>p sv. sv) (\<lambda>e sv. sv)"

definition MailDelete :: "game_data \<Rightarrow> u16 list \<Rightarrow> u16 \<Rightarrow> u32 \<Rightarrow> (nat \<Rightarrow> u32) \<Rightarrow> server \<Rightarrow> server" where
  "MailDelete g aids sid mail_count mail_ids sv =
    (case CAccount (sv_world sv) sid of
       None \<Rightarrow> sv
     | Some acc \<Rightarrow>
       (let aid = acc_Index_of acc
        in if aid = - 1 then sv
           else submit g aids acc \<lparr>ctx_sid = ucast sid, ctx_aid = aid, ctx_ops =
               concat (map (\<lambda>i. if mb_receiver_account_id (mail_of (mail_ids i) sv) = aid then [delete_op Side_Receiver (mail_ids i)]
                   else if mb_sender_account_id (mail_of (mail_ids i) sv) = aid then [delete_op Side_Sender (mail_ids i)]
                   else []) [0..<unat mail_count])\<rparr>
             (MailDeleteTask sid) sv))"

definition unopened_mails :: "u32 \<Rightarrow> server \<Rightarrow> nat" where
  "unopened_mails aid sv =
     length (filter (\<lambda>i. mb_is_new (mail_of i sv) \<and> mb_gift_itemid (mail_of i sv) = 0) (or_null [] aid (CMailRecv (sv_stores sv))))"

definition finish_mail_delete ::
  "(CurrencyType \<Rightarrow> nat) \<Rightarrow> bool \<Rightarrow> Player \<Rightarrow> u32 \<Rightarrow> u16 \<Rightarrow> ValidatedDbUpdates \<Rightarrow> server \<Rightarrow> server" where
  "finish_mail_delete col_max up junk now sid v = settle col_max up junk now sid v
     (\<lambda>p sv. answer sid 105 0 37 (of_nat (unopened_mails (acc_Index_of p) sv)) [] sv) (\<lambda>e sv. sv)"

definition insert_op :: "Player \<Rightarrow> string \<Rightarrow> string \<Rightarrow> u32 \<Rightarrow> DbOp" where
  "insert_op acc receiver msg gift = Op_Mailbox (new_MailboxPatch\<lparr>mbp_op := Mail_Insert, mbp_insert := Some
     \<lparr>mi_receiver_id = None, mi_sender_nickname = Some (acc_Nickname (pl_acc_info acc)), mi_receiver_nickname = Some receiver,
      mi_message = msg, mi_gift_item_id = gift, mi_is_new = True\<rparr>\<rparr>)"

definition MailSend :: "game_data \<Rightarrow> u16 list \<Rightarrow> u16 \<Rightarrow> string \<Rightarrow> string \<Rightarrow> server \<Rightarrow> server" where
  "MailSend g aids sid target_nick msg sv =
    (case CAccount (sv_world sv) sid of
       None \<Rightarrow> sv
     | Some acc \<Rightarrow>
       if acc_Index_of acc = - 1 then sv
       else if target_nick = acc_Nickname (pl_acc_info acc) then answer sid 104 0 Send_UserNotFound 0 [] sv
       else
         (let target = ResolveOnlineByNickname aids (CAccount (sv_world sv)) target_nick;
              target_sid = (if oni_aid target \<noteq> - 1 then oni_sid target else 0)
          in case ValidateDatabaseUpdates g aids (CAccount (sv_world sv)) (sv_stores sv) acc
                 \<lparr>ctx_sid = ucast sid, ctx_aid = acc_Index_of acc, ctx_ops = [insert_op acc target_nick msg 0]\<rparr> False False of
               Inl e \<Rightarrow>
                 if e = MEMO_MAIL_BLOCKEDBY_SENDER \<or> e = MEMO_MAIL_BLOCKEDBY_RECEIVER then answer sid 104 0 Send_Blacklist 0 [] sv
                 else if e = MEMO_MAIL_FULL_SENDER then answer sid 104 0 Send_FullSender 0 [] sv
                 else sv
             | Inr v \<Rightarrow> sv\<lparr>sv_tasks := sv_tasks sv @ [MailSendTask sid target_sid v]\<rparr>))"

definition finish_mail_send ::
  "(CurrencyType \<Rightarrow> nat) \<Rightarrow> bool \<Rightarrow> Player \<Rightarrow> u32 \<Rightarrow> u16 \<Rightarrow> u16 \<Rightarrow> ValidatedDbUpdates \<Rightarrow> server \<Rightarrow> server" where
  "finish_mail_send col_max up junk now sid target_sid v = settle col_max up junk now sid v
     (\<lambda>p. upd_world (SendMsg target_sid 104 0 Send_NewMail 0 []))
     (\<lambda>e sv. if e = NicknameNotFound then answer sid 104 0 Send_UserNotFound 0 [] sv
             else if e = MailboxFull then answer sid 104 0 Send_FullReceiver 0 [] sv
             else if e = BlockedByReceiver then answer sid 104 0 Send_Blacklist 0 [] sv else sv)"

text \<open>Both views send their entries five at a time.\<close>

definition send_box :: "u16 \<Rightarrow> u16 \<Rightarrow> u8 \<Rightarrow> bytes list \<Rightarrow> server \<Rightarrow> server" where
  "send_box sid order tab msgs sv =
    (if msgs = [] then answer sid order tab Open_Empty 0 [] sv
     else
       (let fragments = (length msgs + 5 - 1) div 5
        in answer sid order tab Open_Confirm 0 []
             (fold (\<lambda>i. let batch = take 5 (drop (i * 5) msgs) in
                 answer sid order tab (if fragments = 1 \<or> i \<noteq> 0 then Open_SendMails2 else Open_SendMails) (of_nat (length batch)) (concat batch))
               [0..<fragments] sv)))"

definition box_ids :: "bool \<Rightarrow> (stores \<Rightarrow> (u32, u32 list) fmap) \<Rightarrow> (stores \<Rightarrow> (u32, u32 list) fmap) \<Rightarrow> u32 \<Rightarrow> server \<Rightarrow> u32 list" where
  "box_ids is_receiver_tab recv sent aid sv =
     or_null [] aid (if is_receiver_tab then recv (sv_stores sv) else sent (sv_stores sv))"

definition other_nickname :: "bool \<Rightarrow> MailboxData \<Rightarrow> string" where
  "other_nickname is_receiver_tab m = (if is_receiver_tab then mb_sender_nickname m else mb_receiver_nickname m)"

definition mail_msg_bytes :: "bool \<Rightarrow> MailboxData \<Rightarrow> bytes" where
  "mail_msg_bytes is_receiver_tab m =
     le_bytes 4 (mb_mail_id m) @ le_bytes 4 (mb_time m) @ le_bytes 4 (if mb_is_new m then 0 else (1 :: u32))
     @ char_field 16 (other_nickname is_receiver_tab m) @ char_field 256 (mb_message m)"

definition MailView :: "u16 \<Rightarrow> u8 \<Rightarrow> server \<Rightarrow> server" where
  "MailView sid mailbox_tab sv =
    (case CAccount (sv_world sv) sid of
       None \<Rightarrow> sv
     | Some acc \<Rightarrow>
       if acc_Index_of acc = - 1 then sv
       else
         (let recv = (mailbox_tab = 0)
          in send_box sid 106 mailbox_tab (map (mail_msg_bytes recv)
               (filter (\<lambda>m. mb_gift_itemid m = 0 \<and> other_nickname recv m \<noteq> [])
                 (map (\<lambda>i. mail_of i sv) (box_ids recv CMailRecv CMailSent (acc_Index_of acc) sv)))) sv))"

section \<open>Gifts\<close>

definition GiftDelete :: "game_data \<Rightarrow> u16 list \<Rightarrow> u16 \<Rightarrow> u32 \<Rightarrow> (nat \<Rightarrow> u32) \<Rightarrow> server \<Rightarrow> server" where
  "GiftDelete g aids sid mail_count mail_ids sv =
    (case CAccount (sv_world sv) sid of
       None \<Rightarrow> sv
     | Some acc \<Rightarrow>
       (let aid = acc_Index_of acc
        in if aid = - 1 then sv
           else submit g aids acc \<lparr>ctx_sid = ucast sid, ctx_aid = aid, ctx_ops =
               map (delete_op Side_Sender) (filter (\<lambda>i. mb_sender_account_id (mail_of i sv) = aid) (map mail_ids [0..<unat mail_count]))\<rparr>
             (GiftDeleteTask sid) sv))"

definition unopened_gifts :: "u32 \<Rightarrow> server \<Rightarrow> nat" where
  "unopened_gifts aid sv =
     length (filter (\<lambda>i. mb_gift_itemid (mail_of i sv) \<noteq> 0) (or_null [] aid (CGiftRecv (sv_stores sv))))"

definition finish_gift_delete ::
  "(CurrencyType \<Rightarrow> nat) \<Rightarrow> bool \<Rightarrow> Player \<Rightarrow> u32 \<Rightarrow> u16 \<Rightarrow> ValidatedDbUpdates \<Rightarrow> server \<Rightarrow> server" where
  "finish_gift_delete col_max up junk now sid v = settle col_max up junk now sid v
     (\<lambda>p sv. answer sid 66 0 37 (of_nat (unopened_gifts (acc_Index_of p) sv)) [] sv) (\<lambda>e sv. sv)"

text \<open>What one mail of the request gives: its deletion, and the item if the data files have it.\<close>

definition receive_one ::
  "game_data \<Rightarrow> u32 \<Rightarrow> u32 \<Rightarrow> server \<Rightarrow> u32 \<Rightarrow> nat \<Rightarrow> DbOp list \<times> (u32 \<times> u32 \<times> ShopItem) list \<times> Item list" where
  "receive_one g now aid sv mail_id serial =
    (let m = mail_of mail_id sv; info = or_null new_ItemInfo (mb_gift_itemid m) (CItemsInfo g);
         shop = shop_item now (mb_gift_itemid m) info serial
     in if mb_gift_itemid m = 0 \<or> mb_receiver_account_id m \<noteq> aid \<or> mb_deleted_from_receiver m then ([], [], [])
        else if item_Id info = 0 then ([delete_op Side_Receiver mail_id], [], [])
        else ([delete_op Side_Receiver mail_id], [(mail_id, mb_time m, shop)], [bought_item shop (mb_gift_itemid m) info]))"

definition GiftReceive :: "game_data \<Rightarrow> u32 \<Rightarrow> u16 list \<Rightarrow> u16 \<Rightarrow> u32 \<Rightarrow> (nat \<Rightarrow> u32) \<Rightarrow> server \<Rightarrow> server" where
  "GiftReceive g now aids sid mail_count mail_ids sv =
    (case CAccount (sv_world sv) sid of
       None \<Rightarrow> sv
     | Some acc \<Rightarrow>
       (let aid = acc_Index_of acc; serials = FindLowestAvailableSerialIds (pl_inventory_items acc) (unat mail_count);
            results = map (\<lambda>i. receive_one g now aid sv (mail_ids i) (serials ! i)) [0..<unat mail_count];
            deletes = concat (map fst results); gifts = concat (map (fst \<circ> snd) results); new_items = concat (map (snd \<circ> snd) results)
        in if aid = - 1 \<or> length serials < unat mail_count \<or> new_items = [] then sv
           else submit g aids acc \<lparr>ctx_sid = ucast sid, ctx_aid = aid, ctx_ops = deletes @ [Op_ItemAdd \<lparr>ia_items = new_items\<rparr>]\<rparr>
             (GiftReceiveTask sid gifts (map (snd \<circ> snd) gifts)) sv))"

definition finish_gift_receive ::
  "(CurrencyType \<Rightarrow> nat) \<Rightarrow> bool \<Rightarrow> Player \<Rightarrow> u32 \<Rightarrow> u16 \<Rightarrow> (u32 \<times> u32 \<times> ShopItem) list \<Rightarrow> ShopItem list \<Rightarrow> ValidatedDbUpdates
     \<Rightarrow> server \<Rightarrow> server" where
  "finish_gift_receive col_max up junk now sid gifts s_items v = settle col_max up junk now sid v
     (\<lambda>p sv.
        let sv = fold (\<lambda>(mail_id, time, item). answer sid 66 0 Send_Gift 0 (le_bytes 4 mail_id @ le_bytes 4 time @ shop_item_bytes item)) gifts sv;
            sv = (if s_items \<noteq> [] then answer sid 99 0 37 (of_nat (length s_items)) (concat (map shop_item_bytes s_items)) sv else sv)
        in answer sid 66 0 37 (of_nat (unopened_gifts (acc_Index_of p) sv)) [] sv)
     (\<lambda>e sv. sv)"

definition gift_cost :: "ItemInfo \<Rightarrow> DbOp list" where
  "gift_cost info =
     (if item_CashPrice info > 0 then [Op_Currency \<lparr>acd_type = Cur_RT, acd_value = item_CashPrice info, acd_is_reward = False\<rparr>] else [])
     @ (if item_PointPrice info > 0 then [Op_Currency \<lparr>acd_type = Cur_MP, acd_value = item_PointPrice info, acd_is_reward = False\<rparr>] else [])"

definition GiftSend :: "game_data \<Rightarrow> u16 list \<Rightarrow> u16 \<Rightarrow> string \<Rightarrow> u32 \<Rightarrow> string \<Rightarrow> server \<Rightarrow> server" where
  "GiftSend g aids sid target_nick item_id msg sv =
    (case CAccount (sv_world sv) sid of
       None \<Rightarrow> sv
     | Some acc \<Rightarrow>
       (let target = ResolveOnlineByNickname aids (CAccount (sv_world sv)) target_nick;
            info = or_null new_ItemInfo item_id (CItemsInfo g)
        in if acc_Index_of acc = - 1 then sv
           else if target_nick = acc_Nickname (pl_acc_info acc) \<or> oni_aid target = - 1 then answer sid 64 0 Gift_USER_OFFLINE 0 [] sv
           else if item_id |\<notin>| CVendorItems g \<or> item_Id info = 0 then sv
           else case ValidateDatabaseUpdates g aids (CAccount (sv_world sv)) (sv_stores sv) acc
                 \<lparr>ctx_sid = ucast sid, ctx_aid = acc_Index_of acc, ctx_ops = gift_cost info @ [insert_op acc target_nick msg item_id]\<rparr> False False of
               Inl e \<Rightarrow>
                 if e = InsufficientMP \<or> e = InsufficientRT then answer sid 64 0 Gift_NOT_ENOUGH_CASH 0 [] sv
                 else if e = MEMO_MAIL_BLOCKEDBY_SENDER \<or> e = MEMO_MAIL_BLOCKEDBY_RECEIVER then answer sid 64 0 Gift_BLACKLIST_ERROR 0 [] sv
                 else if e = MEMO_MAIL_FULL_SENDER then answer sid 64 0 Gift_FULL_SENDER 0 [] sv
                 else sv
             | Inr v \<Rightarrow> sv\<lparr>sv_tasks := sv_tasks sv @ [GiftSendTask sid (oni_sid target) item_id v]\<rparr>))"

definition finish_gift_send ::
  "(CurrencyType \<Rightarrow> nat) \<Rightarrow> bool \<Rightarrow> Player \<Rightarrow> u32 \<Rightarrow> u16 \<Rightarrow> u16 \<Rightarrow> u32 \<Rightarrow> ValidatedDbUpdates \<Rightarrow> server \<Rightarrow> server" where
  "finish_gift_send col_max up junk now sid target_sid item_id v = settle col_max up junk now sid v
     (\<lambda>p sv. upd_world (SendMsg target_sid 64 0 Send_NewMail 0 []) (answer sid 64 0 Gift_SEND_SUCCESS 0 (le_bytes 4 item_id) sv))
     (\<lambda>e sv. if e = NicknameNotFound then answer sid 64 0 Gift_USER_OFFLINE 0 [] sv
             else if e = MailboxFull then answer sid 64 0 Gift_FULL_RECEIVER 0 [] sv
             else if e = BlockedByReceiver then answer sid 64 0 Gift_BLACKLIST_ERROR 0 [] sv else sv)"

definition gift_msg_bytes :: "bool \<Rightarrow> MailboxData \<Rightarrow> bytes" where
  "gift_msg_bytes is_receiver_tab m =
     le_bytes 4 (mb_mail_id m) @ le_bytes 4 (mb_time m) @ le_bytes 4 (mb_gift_itemid m) @ le_bytes 4 (1 :: u32) @ le_bytes 4 (0 :: u32)
     @ char_field 16 (other_nickname is_receiver_tab m) @ char_field 256 (mb_message m)"

definition GiftView :: "u16 \<Rightarrow> u8 \<Rightarrow> server \<Rightarrow> server" where
  "GiftView sid mailbox_tab sv =
    (case CAccount (sv_world sv) sid of
       None \<Rightarrow> sv
     | Some acc \<Rightarrow>
       if acc_Index_of acc = - 1 then sv
       else
         (let recv = (mailbox_tab = 0)
          in send_box sid 67 mailbox_tab (map (gift_msg_bytes recv)
               (filter (\<lambda>m. mb_gift_itemid m \<noteq> 0 \<and> other_nickname recv m \<noteq> [])
                 (map (\<lambda>i. mail_of i sv) (box_ids recv CGiftRecv CGiftSent (acc_Index_of acc) sv)))) sv))"

end
