(* ===== verification/Trade_Handlers.thy ===== *)
theory Trade_Handlers
  imports Server
begin

text \<open>
  The trade packets (\<open>handlers/Socials/Trade/Trade.h\<close>) around the registry: inviting, accepting,
  offering, locking, confirming, cancelling, and the exchange of the items when both have confirmed.
  Each side of the exchange is a change of its own, validated, committed and applied alone.
\<close>

definition Trade_Success :: u8 where "Trade_Success = 1"
definition Trade_CannotOrOffline :: u8 where "Trade_CannotOrOffline = 47"
definition TRADE_OPEN :: u16 where "TRADE_OPEN = 190"
definition TRADE_REQUEST :: u16 where "TRADE_REQUEST = 191"
definition TRADE_ACCEPT :: u16 where "TRADE_ACCEPT = 192"
definition TRADE_ITEM_ADD :: u16 where "TRADE_ITEM_ADD = 194"
definition TRADE_LOCK :: u16 where "TRADE_LOCK = 196"
definition TRADE_CONFIRM :: u16 where "TRADE_CONFIRM = 197"
definition TRADE_CANCEL :: u16 where "TRADE_CANCEL = 198"
definition TRADE_COMPLETE :: u16 where "TRADE_COMPLETE = 199"

definition upd_trades :: "(trade_registry \<Rightarrow> trade_registry) \<Rightarrow> server \<Rightarrow> server" where
  "upd_trades f sv = sv\<lparr>sv_trades := f (sv_trades sv)\<rparr>"

definition trade_player_bytes :: "u32 \<Rightarrow> u32 \<Rightarrow> string \<Rightarrow> bytes" where
  "trade_player_bytes aid character nick =
     le_bytes 4 (0 :: u32) @ le_bytes 4 aid @ le_bytes 4 character @ le_bytes 4 (0 :: u32) @ le_bytes 4 (0 :: u32)
     @ char_field 16 (take 15 nick)"

definition trade_item_bytes :: "u32 \<Rightarrow> ItemSerialInfo \<Rightarrow> u32 \<Rightarrow> bytes" where
  "trade_item_bytes aid serial item_id =
     le_bytes 4 (0 :: u32) @ le_bytes 4 aid @ serial_bytes serial @ le_bytes 4 item_id
     @ le_bytes 4 (0 :: u32) @ le_bytes 4 (0 :: u32) @ le_bytes 4 (0 :: u32)"

definition tell :: "UniqueId \<Rightarrow> u16 \<Rightarrow> bytes \<Rightarrow> server \<Rightarrow> server" where
  "tell uid order payload = upd_world (SendMsg (uid_session uid) order 0 Trade_Success 0 payload)"

section \<open>The exchange\<close>

text \<open>The item ids of the offered serials the owner still has.\<close>

definition ResolveOfferedItemIds :: "ItemSerialInfo list \<Rightarrow> u32 \<Rightarrow> u16 \<Rightarrow> server \<Rightarrow> u32 list" where
  "ResolveOfferedItemIds offered aid sid sv =
    (case CAccount (sv_world sv) sid of
       None \<Rightarrow> []
     | Some acc \<Rightarrow>
         if acc_Index_of acc \<noteq> aid then []
         else List.map_filter (\<lambda>s. map_option item_id_of
           (List.find (\<lambda>it. item_serial it = serial_data s) (pl_inventory_items acc))) offered)"

definition ApplyTradeSide ::
  "game_data \<Rightarrow> u32 \<Rightarrow> u16 list \<Rightarrow> UniqueId \<Rightarrow> u32 \<Rightarrow> ItemSerialInfo list \<Rightarrow> u32 list \<Rightarrow> server \<Rightarrow> server" where
  "ApplyTradeSide g now aids uid aid my_offered received sv =
    (let sid = uid_session uid
     in if sid |\<notin>| m_sessions (sv_world sv) \<or> (my_offered = [] \<and> received = []) then sv
        else case CAccount (sv_world sv) sid of
          None \<Rightarrow> sv
        | Some acc \<Rightarrow>
            if acc_Index_of acc \<noteq> aid then sv
            else case (if received = [] then Inr []
                       else map_sum id (\<lambda>c. [Op_ItemAdd c]) (CraftInventoryItems g now (pl_inventory_items acc) received Origin_From_Game)) of
              Inl e \<Rightarrow> sv
            | Inr grants \<Rightarrow>
                (case ValidateDatabaseUpdates g aids (CAccount (sv_world sv)) (sv_stores sv) acc
                     \<lparr>ctx_sid = ucast sid, ctx_aid = aid,
                      ctx_ops = map (\<lambda>s. Op_ItemDelete \<lparr>idel_serials = [s]\<rparr>) my_offered @ grants\<rparr> True False of
                   Inl e \<Rightarrow> sv
                 | Inr v \<Rightarrow> sv\<lparr>sv_tasks := sv_tasks sv @ [TradeTask sid my_offered v]\<rparr>))"

definition traded_shop_item :: "game_data \<Rightarrow> Item \<Rightarrow> ShopItem" where
  "traded_shop_item g it = \<lparr>
     shop_item_number = new_InventoryItemNumber (item_id_of it) (item_Stock (or_null new_ItemInfo (item_id_of it) (CItemsInfo g))),
     shop_expire_time = ItemExpire_Unused, shop_serial_info = inv_serial_info (it_item_info it)\<rparr>"

definition finish_trade ::
  "game_data \<Rightarrow> (CurrencyType \<Rightarrow> nat) \<Rightarrow> bool \<Rightarrow> Player \<Rightarrow> u32 \<Rightarrow> u16 \<Rightarrow> ItemSerialInfo list \<Rightarrow> ValidatedDbUpdates \<Rightarrow> server \<Rightarrow> server" where
  "finish_trade g col_max up junk now sid deleted v sv =
    (case commit col_max now up v sv of
       (sv, out, Inl e) \<Rightarrow> sv
     | (sv, out, Inr v) \<Rightarrow>
         (case perform junk now sid v sv of
            (sv, Some e, p) \<Rightarrow> sv
          | (sv, None, p) \<Rightarrow>
              (let sv = fold (\<lambda>s. answer sid 89 0 1 0 (le_bytes 4 (1 :: u32) @ serial_bytes s)) deleted sv;
                   shop = map (traded_shop_item g) (v_items_added v)
               in if v_items_added v = [] then sv
                  else answer sid 99 0 37 (of_nat (length shop)) (concat (map shop_item_bytes shop)) sv)))"

section \<open>The packets\<close>

definition TradeRequest :: "u16 list \<Rightarrow> u16 \<Rightarrow> string \<Rightarrow> server \<Rightarrow> server" where
  "TradeRequest aids sid target sv =
    (case CAccount (sv_world sv) sid of
       None \<Rightarrow> sv
     | Some acc \<Rightarrow>
       (let aid = acc_Index_of acc; nick = acc_Nickname (pl_acc_info acc)
        in if aid = - 1 \<or> target = [] \<or> ToLowercase target = ToLowercase nick then sv
           else case List.find (\<lambda>p. ToLowercase (acc_Nickname (pl_acc_info p)) = ToLowercase target)
                       (List.map_filter (CAccount (sv_world sv)) aids) of
             None \<Rightarrow> answer sid TRADE_ACCEPT 0 Trade_CannotOrOffline 0 [] sv
           | Some t \<Rightarrow>
               if acc_Index_of t = 0 \<or> acc_Index_of t = - 1 then answer sid TRADE_ACCEPT 0 Trade_CannotOrOffline 0 [] sv
               else tell (pl_uid t) TRADE_REQUEST (trade_player_bytes aid (acc_SelectedCharacter (pl_acc_info acc)) nick)
                 (upd_trades (RegisterInvite aid (pl_uid acc) (acc_Index_of t)) sv)))"

definition TradeAccept :: "u16 \<Rightarrow> u32 \<Rightarrow> server \<Rightarrow> server" where
  "TradeAccept sid inviter_aid sv =
    (case CAccount (sv_world sv) sid of
       None \<Rightarrow> sv
     | Some acc \<Rightarrow>
       (let aid = acc_Index_of acc; nick = acc_Nickname (pl_acc_info acc)
        in if aid = - 1 then sv
           else case TakeInvite aid inviter_aid (sv_trades sv) of
             (None, r) \<Rightarrow> sv
           | (Some inviter_uid, r) \<Rightarrow>
               (let sv = sv\<lparr>sv_trades := r\<rparr>; inviter_sid = uid_session inviter_uid
                in if inviter_sid |\<notin>| m_sessions (sv_world sv) then sv
                   else
                     (let (inviter_char, inviter_nick) =
                        (case CAccount (sv_world sv) inviter_sid of
                           None \<Rightarrow> (0, [])
                         | Some p \<Rightarrow> if acc_Index_of p = inviter_aid
                                     then (acc_SelectedCharacter (pl_acc_info p), acc_Nickname (pl_acc_info p)) else (0, []))
                      in answer sid TRADE_OPEN 0 Trade_Success 0 (trade_player_bytes inviter_aid inviter_char inviter_nick)
                           (tell inviter_uid TRADE_ACCEPT (trade_player_bytes aid (acc_SelectedCharacter (pl_acc_info acc)) nick)
                             (upd_trades (BeginTrade inviter_aid inviter_uid aid (pl_uid acc)) sv))))))"

text \<open>The handlers of a running trade: nothing happens without one.\<close>

definition in_trade :: "u16 \<Rightarrow> (Player \<Rightarrow> u32 \<Rightarrow> TradeEntry \<Rightarrow> server \<Rightarrow> server) \<Rightarrow> server \<Rightarrow> server" where
  "in_trade sid f sv =
    (case CAccount (sv_world sv) sid of
       None \<Rightarrow> sv
     | Some acc \<Rightarrow>
         if acc_Index_of acc = - 1 then sv
         else case GetTrade (acc_Index_of acc) (sv_trades sv) of None \<Rightarrow> sv | Some st \<Rightarrow> f acc (acc_Index_of acc) st sv)"

definition TradeItemChange :: "u16 \<Rightarrow> u16 \<Rightarrow> ItemSerialInfo \<Rightarrow> server \<Rightarrow> server" where
  "TradeItemChange sid order serial = in_trade sid (\<lambda>acc aid st sv.
     let item_id = (case List.find (\<lambda>it. item_serial it = serial_data serial) (pl_inventory_items acc) of
           None \<Rightarrow> 0 | Some it \<Rightarrow> item_id_of it)
     in tell (te_partner_uid st) order (trade_item_bytes aid serial item_id)
          (upd_trades (if order = TRADE_ITEM_ADD then AddOffer aid serial else RemoveOffer aid serial) sv))"

definition TradeLock :: "u16 \<Rightarrow> server \<Rightarrow> server" where
  "TradeLock sid = in_trade sid (\<lambda>acc aid st sv.
     tell (te_partner_uid st) TRADE_LOCK [] (upd_trades (SetLocked aid) sv))"

definition offered_by :: "u32 \<Rightarrow> trade_registry \<Rightarrow> ItemSerialInfo list" where
  "offered_by aid r = (case GetTrade aid r of None \<Rightarrow> [] | Some e \<Rightarrow> te_offered e)"

definition complete_trade :: "game_data \<Rightarrow> u32 \<Rightarrow> u16 list \<Rightarrow> UniqueId \<Rightarrow> u32 \<Rightarrow> UniqueId \<Rightarrow> u32 \<Rightarrow> server \<Rightarrow> server" where
  "complete_trade g now aids my_uid aid partner_uid partner_aid sv =
    (let mine = offered_by aid (sv_trades sv); theirs = offered_by partner_aid (sv_trades sv);
         sv = upd_trades (EndTrade aid) sv;
         my_ids = ResolveOfferedItemIds mine aid (uid_session my_uid) sv;
         partner_ids = ResolveOfferedItemIds theirs partner_aid (uid_session partner_uid) sv
     in ApplyTradeSide g now aids partner_uid partner_aid theirs my_ids
          (ApplyTradeSide g now aids my_uid aid mine partner_ids sv))"

definition TradeConfirm :: "game_data \<Rightarrow> u32 \<Rightarrow> u16 list \<Rightarrow> u16 \<Rightarrow> server \<Rightarrow> server" where
  "TradeConfirm g now aids sid = in_trade sid (\<lambda>acc aid st sv.
     let sv = upd_trades (SetConfirmed aid) sv
     in if BothConfirmed aid (sv_trades sv) then
          tell (te_partner_uid st) TRADE_COMPLETE []
            (answer sid TRADE_COMPLETE 0 Trade_Success 0 []
              (complete_trade g now aids (pl_uid acc) aid (te_partner_uid st) (te_partner_aid st) sv))
        else tell (te_partner_uid st) TRADE_CONFIRM [] sv)"

definition TradeCancel :: "u16 \<Rightarrow> server \<Rightarrow> server" where
  "TradeCancel sid = in_trade sid (\<lambda>acc aid st sv.
     tell (te_partner_uid st) TRADE_CANCEL [] (answer sid TRADE_CANCEL 0 Trade_Success 0 [] (upd_trades (EndTrade aid) sv)))"

end
