(* ===== verification/Votekick.thy ===== *)
theory Votekick
  imports Server Room_Handlers
begin

text \<open>
  Kicking by vote (\<open>handlers/Room/Moderation/Votekick\<close>): starting a vote against a player of the own
  match costs 100 points and runs as a task; agreeing adds a session to the set of voters; counting
  decides and removes the player. Session ids are kept in sets of 32-bit numbers.
\<close>

definition VotekickStart :: "game_data \<Rightarrow> u16 list \<Rightarrow> u16 \<Rightarrow> UniqueId \<Rightarrow> u32 \<Rightarrow> server \<Rightarrow> server" where
  "VotekickStart g aids sid target_uid reason_id sv =
    (case CAccount (sv_world sv) sid of
       None \<Rightarrow> sv
     | Some acc \<Rightarrow>
       if acc_Index_of acc = - 1 \<or> \<not> pl_in_room acc then sv
       else case CRoom (sv_world sv) (pl_room_id acc) of
         None \<Rightarrow> sv
       | Some room \<Rightarrow>
         if \<not> rm_is_playing room \<or> ucast sid |\<in>| rm_voteKickers room \<or> uid_session target_uid = sid then sv
         else if acc_MicroPoints (pl_acc_info acc) < 100 then answer sid 125 0 14 0 [] sv
         else
           (let ids = GetRoomSortedPlayerPlayingWithoutObserverSessionIds (sv_world sv) room
            in if uid_session target_uid \<notin> set ids then answer sid 125 0 13 0 [] sv
               else submit g aids acc
                 \<lparr>ctx_sid = ucast sid, ctx_aid = acc_Index_of acc, ctx_ops =
                    [Op_Currency \<lparr>acd_type = Cur_MP, acd_value = 100, acd_is_reward = False\<rparr>]\<rparr>
                 (VotekickTask sid target_uid reason_id (pl_room_id acc) ids) sv))"

text \<open>A room that is gone when the task runs is the cache's null entry: what is written to it is lost.\<close>

definition upd_room :: "u32 \<Rightarrow> (Room \<Rightarrow> Room) \<Rightarrow> world \<Rightarrow> world" where
  "upd_room rid f w = w\<lparr>CRoom := (CRoom w)(rid := map_option f (CRoom w rid))\<rparr>"

definition run_vote :: "u16 \<Rightarrow> u16 \<Rightarrow> Room \<Rightarrow> Room" where
  "run_vote sid target room = room\<lparr>rm_is_kick_vote_running := True, rm_voters := finsert (ucast sid) (rm_voters room),
     rm_voteKickers := finsert (ucast sid) (rm_voteKickers room), rm_vote_kick_target_session_id := target\<rparr>"

definition finish_votekick ::
  "Player \<Rightarrow> u32 \<Rightarrow> u16 \<Rightarrow> UniqueId \<Rightarrow> u32 \<Rightarrow> u32 \<Rightarrow> u16 list \<Rightarrow> ValidatedDbUpdates \<Rightarrow> server \<Rightarrow> server" where
  "finish_votekick junk now sid target_uid reason_id room_id ids v sv =
    (case perform junk now sid v sv of
       (sv, Some e, p) \<Rightarrow> sv
     | (sv, None, p) \<Rightarrow>
       (let vote_kick_tick = ucast ((sv_uptime_ms sv + 30000) div 10) :: u32;
            voteKickAck = le_bytes 4 (uid_data target_uid) @ le_bytes 4 (uid_data (new_UniqueId sid 1)) @ le_bytes 4 reason_id
              @ le_bytes 4 vote_kick_tick
        in upd_world (\<lambda>w. fold (\<lambda>i. SendMsg i 125 0 28 1 voteKickAck) ids
             (upd_room room_id (run_vote sid (uid_session target_uid)) w)) sv))"

definition VotekickAgree :: "Player \<Rightarrow> u16 \<Rightarrow> world \<Rightarrow> world" where
  "VotekickAgree junk session_id w =
    (case CAccount w session_id of
       None \<Rightarrow> w
     | Some acc \<Rightarrow>
       if acc_Index_of acc = - 1 \<or> \<not> pl_in_room acc then w
       else case CRoom w (pl_room_id acc) of
         None \<Rightarrow> w
       | Some room \<Rightarrow>
         if \<not> rm_is_playing room \<or> ucast session_id |\<in>| rm_voters room then w
         else
           (let w = upd_room (pl_room_id acc) (\<lambda>r. r\<lparr>rm_voters := finsert (ucast session_id) (rm_voters r)\<rparr>) w;
                target = rm_vote_kick_target_session_id room;
                target_aid = (if session_id = target then acc_Index_of acc
                  else case CAccount w target of None \<Rightarrow> acc_Index_of (new_Player junk) | Some p \<Rightarrow> acc_Index_of p)
            in emit (PersistRoomLog (new_RoomLogEntry\<lparr>log_aid := acc_Index_of acc, log_target_aid := Some target_aid,
                 log_event_type := RL_VoteKickAgreed, log_server_id := ucast (pl_server_id acc), log_room_id := pl_room_id acc\<rparr>)) w))"

text \<open>The sizes are of type \<open>size_t\<close>: the difference wraps when there are more votes than players.\<close>

definition total_n_voters :: "nat \<Rightarrow> nat \<Rightarrow> u64" where
  "total_n_voters n_players n_voters = of_nat n_players - of_nat n_voters + 1"

definition end_vote :: "Room \<Rightarrow> Room" where
  "end_vote room = room\<lparr>rm_voters := {||}, rm_vote_kick_target_session_id := 0, rm_is_kick_vote_running := False\<rparr>"

definition getting_kicked :: "u16 list \<Rightarrow> u16 \<Rightarrow> u32 fset \<Rightarrow> bool" where
  "getting_kicked ids target voters \<longleftrightarrow>
     (of_nat (fcard voters) :: u64) > total_n_voters (length ids) (fcard voters) \<or> target \<notin> set ids"

definition VotekickVerify :: "Player \<Rightarrow> u16 \<Rightarrow> world \<Rightarrow> world" where
  "VotekickVerify junk session_id w =
    (case CAccount w session_id of
       None \<Rightarrow> w
     | Some acc \<Rightarrow>
       if acc_Index_of acc = - 1 \<or> \<not> pl_in_room acc then w
       else case CRoom w (pl_room_id acc) of
         None \<Rightarrow> w
       | Some room \<Rightarrow>
         if \<not> rm_is_playing room \<or> \<not> rm_is_kick_vote_running room then w
         else
           (let rid = pl_room_id acc; target = rm_vote_kick_target_session_id room;
                player = (case CAccount w target of None \<Rightarrow> new_Player junk | Some p \<Rightarrow> p);
                ids = GetRoomSortedPlayerPlayingWithoutObserverSessionIds w room;
                votes = fcard (rm_voters room)
            in if \<not> getting_kicked ids target (rm_voters room) then upd_room rid end_vote w
               else
                 (let w = upd_room rid (\<lambda>r. r\<lparr>rm_kicked := finsert (acc_Index_of player) (rm_kicked r)\<rparr>) w;
                      w = fold (\<lambda>i. SendMsg i 125 0 42 (of_nat votes) []) ids w;
                      w = upd_room rid end_vote w
                  in if acc_Index_of player = - 1 \<or> \<not> pl_in_room player \<or> pl_room_id player \<noteq> rid then w
                     else emit (PersistRoomLog (new_RoomLogEntry\<lparr>log_aid := acc_Index_of acc, log_target_aid := Some (acc_Index_of player),
                            log_event_type := RL_VoteKickSucceeded, log_server_id := ucast (pl_server_id acc), log_room_id := rid\<rparr>))
                          (NewRemoveRoomPlayer rid (pl_session_id player) Leave_KickedByKickVote True w))))"

end
