(* ===== verification/Gachapon.thy ===== *)
theory Gachapon
  imports Item_Handlers
begin

text \<open>
  The capsule machine (\<open>handlers/Items/Gamble/Gachapon.h\<close>): up to 255 spins at once, each of which
  draws one item of every group, costs the price and brings lucky points; a thousand points give a
  reward of their own. The groups of a machine are a hash map: \<open>walk\<close> is the order in which its
  keys are visited. \<open>pity\<close> is the switch \<open>g_gacha_pity_enabled\<close>.
\<close>

definition groups :: "(u32 fset \<Rightarrow> u32 list) \<Rightarrow> (u32, 'a list) fmap \<Rightarrow> 'a list list" where
  "groups walk m = List.map_filter (fmlookup m) (walk (fmdom m))"

definition Gacha_RT :: u32 where "Gacha_RT = 1"
definition Gacha_MP :: u32 where "Gacha_MP = 2"
definition Gacha_Coin :: u32 where "Gacha_Coin = 0"
definition Lucky_Gold :: u32 where "Lucky_Gold = 1"
definition Lucky_Copper :: u32 where "Lucky_Copper = 3"
definition Spin_Success :: u8 where "Spin_Success = 0x01"
definition Spin_InventoryFull :: u8 where "Spin_InventoryFull = 0x07"
definition Spin_MoneyError :: u8 where "Spin_MoneyError = 0x0E"
definition Spin_Stuck :: u8 where "Spin_Stuck = 0x08"
definition COUPON_1 :: u32 where "COUPON_1 = 4305019"
definition COUPON_1_PACKAGE :: u32 where "COUPON_1_PACKAGE = 4306001"

definition item_GachaponPackageItem :: "u32 \<Rightarrow> GachaponPackageItem" where
  "item_GachaponPackageItem item_id = new_GachaponPackageItem\<lparr>gpi_ItemId := item_id\<rparr>"

section \<open>The price\<close>

text \<open>A sale that is over is erased when somebody spins. The price and what is left of the sales.\<close>

definition gachapon_price ::
  "u32 \<Rightarrow> GachaponInfo \<Rightarrow> (u32, GachaponSaleInfo) fmap \<Rightarrow> u32 \<times> (u32, GachaponSaleInfo) fmap" where
  "gachapon_price now gacha sales =
    (case cache_get (gach_Id gacha) sales of
       None \<Rightarrow> (gach_Price gacha, sales)
     | Some sale \<Rightarrow>
         if sale_start_date sale \<le> now \<and> now \<le> sale_end_date sale then (sale_sale_price sale, sales)
         else (gach_Price gacha, fst (cache_erase (gach_Id gacha) sales)))"

definition coupon_chance :: "u32 \<Rightarrow> u32" where
  "coupon_chance t = (if t = Gacha_RT then 30 else if t = Gacha_MP then 15 else 0)"

section \<open>Spinning\<close>

record spin_state =
  sp_points :: u32
  sp_spent :: u32
  sp_rolls :: "GachaponPackageItem list list"

text \<open>A machine as the spins see it: the groups, the chance of a coupon, its coupon, points and price.\<close>

record machine =
  mc_groups :: "GachaponPackageItem list list"
  mc_chance :: u32
  mc_coupon :: u32
  mc_points :: u32
  mc_price :: u32
  mc_lucky :: "GachaponPackageItem list"

definition grant_lucky :: "machine \<Rightarrow> spin_state \<Rightarrow> spin_state" where
  "grant_lucky m s = s\<lparr>sp_points := 0, sp_rolls := sp_rolls s @ [mc_lucky m]\<rparr>"

definition do_spin :: "'g rng \<Rightarrow> machine \<Rightarrow> spin_state \<Rightarrow> 'g \<Rightarrow> spin_state \<times> 'g" where
  "do_spin rng m s gs =
    (case ExtractGachaponItemsWon rng (mc_groups m) (mc_chance m) gs of
       (items, coupon, gs) \<Rightarrow>
         (\<lparr>sp_points = sp_points s + mc_points m, sp_spent = sp_spent s + mc_price m,
           sp_rolls = sp_rolls s @ [items @ (if coupon then [item_GachaponPackageItem (mc_coupon m)] else [])]\<rparr>, gs))"

definition spin_one :: "'g rng \<Rightarrow> machine \<Rightarrow> nat \<Rightarrow> nat \<Rightarrow> spin_state \<Rightarrow> 'g \<Rightarrow> spin_state \<times> 'g" where
  "spin_one rng m spin_count i s gs =
    (if sp_points s \<ge> 1000 \<and> spin_count = 1 then (grant_lucky m s, gs)
     else case do_spin rng m s gs of
       (s, gs) \<Rightarrow> (if spin_count \<noteq> 1 \<and> sp_points s \<ge> 1000 \<and> i < spin_count - 1 then grant_lucky m s else s, gs))"

fun spins :: "'g rng \<Rightarrow> machine \<Rightarrow> nat \<Rightarrow> nat list \<Rightarrow> spin_state \<Rightarrow> 'g \<Rightarrow> spin_state \<times> 'g" where
  "spins rng m spin_count [] s gs = (s, gs)"
| "spins rng m spin_count (i # is') s gs =
    (case spin_one rng m spin_count i s gs of (s, gs) \<Rightarrow> spins rng m spin_count is' s gs)"

section \<open>What was won\<close>

record winnings =
  wn_ops :: "DbOp list"
  wn_coupons :: u32
  wn_items :: "Item list"
  wn_serials :: "nat list"
  wn_announce :: "(string \<times> bool) list"
  wn_packets :: "(u32 \<times> ShopItem list) list"

definition no_serial_item :: "u32 \<Rightarrow> ItemInfo \<Rightarrow> ShopItem" where
  "no_serial_item item_id info = \<lparr>shop_item_number = new_InventoryItemNumber item_id (item_Stock info),
     shop_expire_time = ItemExpire_Unused, shop_serial_info = new_ItemSerialInfo 0 0 0 0 0\<rparr>"

text \<open>One item of a roll, with the serial ids reserved for all rolls.\<close>

definition award :: "game_data \<Rightarrow> u32 \<Rightarrow> u32 \<Rightarrow> GachaponPackageItem \<Rightarrow> winnings \<times> ShopItem list \<Rightarrow> winnings \<times> ShopItem list" where
  "award g now lucky_type won wp =
    (case wp of (w, packet) \<Rightarrow>
      (let i = gpi_ItemId won; info = or_null new_ItemInfo i (CItemsInfo g)
       in if gpi_LuckyType won = Lucky_Copper then
            (w\<lparr>wn_ops := wn_ops w @ [Op_Currency \<lparr>acd_type = Cur_MP, acd_value = 1000, acd_is_reward = True\<rparr>]\<rparr>,
             packet @ [no_serial_item i info])
          else if i = COUPON_1 then (w\<lparr>wn_coupons := wn_coupons w + 1\<rparr>, packet @ [no_serial_item i info])
          else
            (let s = shop_item now i info (hd (wn_serials w))
             in (w\<lparr>wn_items := wn_items w @ [bought_item s i info], wn_serials := tl (wn_serials w),
                   wn_announce := wn_announce w @
                     (if gpi_ItemType won = Rarity_Rare then [(item_Name info, lucky_type = Lucky_Gold)] else [])\<rparr>,
                 packet @ [s]))))"

definition award_roll :: "game_data \<Rightarrow> u32 \<Rightarrow> GachaponPackageItem list \<Rightarrow> winnings \<Rightarrow> winnings" where
  "award_roll g now roll w =
    (let lucky_type = (case roll of [] \<Rightarrow> 0 | won # _ \<Rightarrow> gpi_LuckyType won)
     in case fold (award g now lucky_type) roll (w, []) of
          (w, packet) \<Rightarrow> w\<lparr>wn_packets := wn_packets w @ [(lucky_type, packet)]\<rparr>)"

definition award_rolls :: "game_data \<Rightarrow> u32 \<Rightarrow> nat list \<Rightarrow> GachaponPackageItem list list \<Rightarrow> winnings" where
  "award_rolls g now serials rolls = fold (award_roll g now) rolls
     \<lparr>wn_ops = [], wn_coupons = 0, wn_items = [], wn_serials = serials, wn_announce = [], wn_packets = []\<rparr>"

definition pity_points :: "u32 \<Rightarrow> GachaPityEntry list \<Rightarrow> u32" where
  "pity_points t entries = (case find (\<lambda>e. gpe_gacha_type e = t) entries of None \<Rightarrow> 0 | Some e \<Rightarrow> gpe_lucky_points e)"

text \<open>The changes of a spin: rewards and price, the items, the coupons, and the points kept.\<close>

definition spin_ops :: "bool \<Rightarrow> u32 \<Rightarrow> spin_state \<Rightarrow> winnings \<Rightarrow> DbOp list" where
  "spin_ops pity t s w =
     wn_ops w @ (if t = Gacha_RT then cost_op Cur_RT (sp_spent s) else if t = Gacha_MP then cost_op Cur_MP (sp_spent s) else [])
     @ (if wn_items w \<noteq> [] then [Op_ItemAdd \<lparr>ia_items = wn_items w\<rparr>] else [])
     @ (if wn_coupons w > 0 then [Op_Currency \<lparr>acd_type = Cur_COUPONS, acd_value = wn_coupons w, acd_is_reward = True\<rparr>] else [])
     @ [if pity then Op_GachaPity \<lparr>gpp_gacha_type = t, gpp_lucky_points = sp_points s\<rparr>
        else Op_AccountInfo (new_AccountInfoPatch\<lparr>aip_lucky_points := Some (sp_points s)\<rparr>)]"

definition spin_error :: "u32 \<Rightarrow> u16 \<Rightarrow> DbUpdateError \<Rightarrow> server \<Rightarrow> server" where
  "spin_error t sid e =
    (if e = InsufficientRT \<or> e = InsufficientMP
     then answer sid 92 0 Spin_MoneyError (if t = Gacha_Coin then 3 else if t = Gacha_RT then 1 else 2) []
     else if e = InventoryFull then answer sid 92 0 Spin_InventoryFull 0 []
     else answer sid 92 0 Spin_Stuck 0 [])"

text \<open>
  What the points are worth: with pity a rare item of this machine if it has one, and else nothing;
  without pity what machine 21 yields.
\<close>

definition lucky_roll ::
  "'g rng \<Rightarrow> (u32 fset \<Rightarrow> u32 list) \<Rightarrow> game_data \<Rightarrow> bool \<Rightarrow> GachaponInfo \<Rightarrow> 'g \<Rightarrow> GachaponPackageItem list \<times> 'g" where
  "lucky_roll rng walk g pity gacha gs =
    (if pity then
       (case ExtractGachaponRareItem rng (groups walk (gach_Gachapons gacha)) gs of
          (rare, gs) \<Rightarrow> (case rare of None \<Rightarrow> [] | Some r \<Rightarrow> [r\<lparr>gpi_LuckyType := Lucky_Gold\<rparr>], gs))
     else
       (case ExtractGachaponItemsWon rng (groups walk (gach_Gachapons (or_null new_GachaponInfo 21 (CGachaponsInfo g))))
               (coupon_chance (gach_Type gacha)) gs of
          (items, coupon, gs) \<Rightarrow> (items, gs)))"

definition GachaponSpin ::
  "'g rng \<Rightarrow> (u32 fset \<Rightarrow> u32 list) \<Rightarrow> game_data \<Rightarrow> bool \<Rightarrow> u32 \<Rightarrow> u16 list \<Rightarrow> u16 \<Rightarrow> u32 \<Rightarrow> u8 \<Rightarrow> server \<Rightarrow> 'g \<Rightarrow> server \<times> 'g" where
  "GachaponSpin rng walk g pity now aids sid gachapon_id option sv gs =
    (case CAccount (sv_world sv) sid of
       None \<Rightarrow> (sv, gs)
     | Some acc \<Rightarrow>
       if acc_Index_of acc = - 1 then (sv, gs)
       else
         (let spin_count = unat option; gacha = or_null new_GachaponInfo gachapon_id (CGachaponsInfo g); a = pl_acc_info acc
          in if spin_count = 0 \<or> gach_Id gacha = - 1 \<or> acc_Level a < gach_LimitedGrade gacha
             then (answer sid 92 0 Spin_Stuck 0 [] sv, gs)
             else
               (let is_sale = cache_get (gach_Id gacha) (sv_sales sv) \<noteq> None;
                    price = fst (gachapon_price now gacha (sv_sales sv));
                    sv = sv\<lparr>sv_sales := snd (gachapon_price now gacha (sv_sales sv))\<rparr>;
                    t = gach_Type gacha
                in if price = 0 \<and> t \<noteq> 3 then (answer sid 92 0 Spin_Stuck 0 [] sv, gs)
                   else case lucky_roll rng walk g pity gacha gs of (lucky, gs) \<Rightarrow>
                     (let m = \<lparr>mc_groups = groups walk (gach_Gachapons gacha), mc_chance = coupon_chance t,
                            mc_coupon = (if acc_Coupons a + 1 > 250 then COUPON_1_PACKAGE else COUPON_1),
                            mc_points = gach_LuckyPoint gacha, mc_price = price, mc_lucky = lucky\<rparr>;
                          s = \<lparr>sp_points = (if pity then pity_points t (pl_gacha_pity acc) else acc_LuckyPoints a),
                            sp_spent = 0, sp_rolls = []\<rparr>
                      in case spins rng m spin_count [0..<spin_count] s gs of (s, gs) \<Rightarrow>
                        (let items_count = length (concat (sp_rolls s));
                             serials = FindLowestAvailableSerialIds (pl_inventory_items acc) items_count
                         in if length (pl_inventory_items acc) + items_count > unat (acc_MaximumItems a)
                            then (answer sid 92 0 Spin_InventoryFull 0 [] sv, gs)
                            else if length serials < items_count then (answer sid 92 0 Spin_Stuck 0 [] sv, gs)
                            else
                              (let w = award_rolls g now serials (sp_rolls s)
                               in case ValidateDatabaseUpdates g aids (CAccount (sv_world sv)) (sv_stores sv) acc
                                    \<lparr>ctx_sid = ucast sid, ctx_aid = acc_Index_of acc, ctx_ops = spin_ops pity t s w\<rparr> False False of
                                    Inl e \<Rightarrow> (spin_error t sid e sv, gs)
                                  | Inr v \<Rightarrow> (sv\<lparr>sv_tasks := sv_tasks sv @
                                      [SpinTask sid (wn_packets w) (wn_announce w) is_sale v]\<rparr>, gs)))))))"

section \<open>The task\<close>

definition spin_type :: "u32 \<Rightarrow> bool \<Rightarrow> u8" where
  "spin_type lucky_type is_sale = (if lucky_type > 0 then 0 else if is_sale then 2 else 1)"

definition capsule_text :: "string \<Rightarrow> string \<times> bool \<Rightarrow> string" where
  "capsule_text player won = ''['' @ player @ ''] won a ['' @ fst won @
     (if snd won then ''] item from the capsule machine. (Pity Chance)'' else ''] item from the capsule machine.'')"

definition finish_spin ::
  "Player \<Rightarrow> u32 \<Rightarrow> u16 \<Rightarrow> (u32 \<times> ShopItem list) list \<Rightarrow> (string \<times> bool) list \<Rightarrow> bool \<Rightarrow> ValidatedDbUpdates \<Rightarrow> server \<Rightarrow> server" where
  "finish_spin junk now sid rolls announce is_sale v sv =
    (case perform junk now sid v sv of
       (sv, Some e, p) \<Rightarrow> sv
     | (sv, None, p) \<Rightarrow>
       (let sv = fold (\<lambda>(lucky_type, items). answer sid 92 (spin_type lucky_type is_sale) Spin_Success (of_nat (length items))
              (concat (map shop_item_bytes items))) rolls sv
        in upd_world (fold (\<lambda>i. fold (\<lambda>won. SendServerMessage i (capsule_text (acc_Nickname (pl_acc_info p)) won)) announce) (sv_sids sv)) sv))"

section \<open>Asking for the points\<close>

definition ITEM_GACHA_PITY :: u16 where "ITEM_GACHA_PITY = 95"

definition GachaponPity :: "game_data \<Rightarrow> u16 \<Rightarrow> u32 \<Rightarrow> server \<Rightarrow> server" where
  "GachaponPity g sid gachapon_id sv =
    (case CAccount (sv_world sv) sid of
       None \<Rightarrow> sv
     | Some acc \<Rightarrow>
       if acc_Index_of acc = - 1 then sv
       else
         (let gacha = or_null new_GachaponInfo gachapon_id (CGachaponsInfo g);
              points = (if gach_Id gacha = - 1 then 0 else pity_points (gach_Type gacha) (pl_gacha_pity acc))
          in answer sid ITEM_GACHA_PITY 0 0 0 (le_bytes 4 points) sv))"

end
