(* ===== verification/Packages.thy ===== *)
theory Packages
  imports Gachapon
begin

text \<open>
  Using an item of the inventory (\<open>handlers/Items/Gamble/Package.h\<close>): packages, capsules opened with a
  hammer, voice cards, resets, expansions and name changes, told apart by the mission and the extra
  byte of the packet and by the item's id.
\<close>

section \<open>Voices\<close>

text \<open>The position is an 8-bit number; a shift beyond 63 does not occur for the voice items.\<close>

definition voice_bit :: "u32 \<Rightarrow> u8 \<Rightarrow> u8" where
  "voice_bit character voice = ucast (12 * character + (ucast voice - 4))"

definition setVoice :: "u64 \<Rightarrow> u32 \<Rightarrow> u8 \<Rightarrow> u64" where
  "setVoice data character voice = data OR push_bit (unat (voice_bit character voice)) 1"

definition unsetVoice :: "u64 \<Rightarrow> u32 \<Rightarrow> u8 \<Rightarrow> u64" where
  "unsetVoice data character voice = data AND NOT (push_bit (unat (voice_bit character voice)) 1)"

definition isVoiceUnlocked :: "u64 \<Rightarrow> u32 \<Rightarrow> u8 \<Rightarrow> bool" where
  "isVoiceUnlocked data character voice \<longleftrightarrow> data AND push_bit (unat (voice_bit character voice)) 1 \<noteq> 0"

section \<open>Kinds of items\<close>

definition coin_rewards :: "(u32 \<times> u32) list" where
  "coin_rewards = [
    (4308001, 1), (4308002, 2), (4308003, 3), (4308004, 4), (4308005, 5), (4308006, 6), (4308007, 7),
     (4308008, 8), (4308009, 9), (4308010, 10), (4308011, 20), (4308012, 30), (4308013, 40), (4308014, 50),
     (4308015, 60), (4308016, 70), (4308017, 80), (4308018, 90), (4308019, 100)]"

definition coupon_rewards :: "(u32 \<times> u32) list" where
  "coupon_rewards = [
    (4305019, 1), (4305027, 2), (4305028, 3), (4305029, 4), (4305020, 5), (4305030, 6), (4305031, 7),
     (4305032, 8), (4305033, 9), (4305021, 10), (4305022, 15), (4305023, 20), (4305024, 25), (4305025, 30),
     (4305026, 1), (4305034, 40), (4305035, 50), (4305036, 100)]"

definition micro_point_rewards :: "(u32 \<times> u32) list" where
  "micro_point_rewards = [
    (4400001, 100), (4400002, 200), (4400003, 300), (4400004, 400), (4400005, 500), (4400006, 600),
     (4400007, 700), (4400008, 800), (4400009, 900), (4400010, 1000), (4400011, 1100), (4400012, 1200),
     (4400013, 1300), (4400014, 1400), (4400015, 1500), (4400016, 1600), (4400017, 1700), (4400018, 1800),
     (4400019, 1900), (4400020, 2000), (4400030, 3000), (4400035, 3500), (4400040, 4000), (4400050, 5000),
     (4400060, 6000), (4400070, 7000), (4400080, 8000), (4400090, 9000), (4400100, 10000), (4400200, 20000),
     (4400300, 30000), (4400500, 50000), (4401000, 100000), (4401500, 150000), (4405000, 500000),
     (4410000, 1000000)]"

definition inv_expands :: "(u32 \<times> u32) list" where
  "inv_expands = [
    (4305000, 10), (4305001, 20), (4305002, 40), (4305003, 80)]"

definition battery_recharges :: "(u32 \<times> u32) list" where
  "battery_recharges = [
    (4305005, 500), (4305006, 1000)]"

definition reward_of :: "(u32 \<times> u32) list \<Rightarrow> u32 \<Rightarrow> u32" where
  "reward_of table item_id = (case map_of table item_id of None \<Rightarrow> 0 | Some r \<Rightarrow> r)"

definition IsCoinItem :: "u32 \<Rightarrow> bool" where "IsCoinItem i \<longleftrightarrow> map_of coin_rewards i \<noteq> None"
definition GetCoinReward :: "u32 \<Rightarrow> u32" where "GetCoinReward i = reward_of coin_rewards i"
definition IsCouponItem :: "u32 \<Rightarrow> bool" where "IsCouponItem i \<longleftrightarrow> map_of coupon_rewards i \<noteq> None"
definition GetCouponReward :: "u32 \<Rightarrow> u32" where "GetCouponReward i = reward_of coupon_rewards i"
definition IsMicroPointsItem :: "u32 \<Rightarrow> bool" where "IsMicroPointsItem i \<longleftrightarrow> map_of micro_point_rewards i \<noteq> None"
definition GetMicroPointsReward :: "u32 \<Rightarrow> u32" where "GetMicroPointsReward i = reward_of micro_point_rewards i"
definition IsInvExpandItem :: "u32 \<Rightarrow> bool" where "IsInvExpandItem i \<longleftrightarrow> map_of inv_expands i \<noteq> None"
definition GetInvExpandSize :: "u32 \<Rightarrow> u32" where "GetInvExpandSize i = reward_of inv_expands i"
definition IsBatteryRechargeItem :: "u32 \<Rightarrow> bool" where "IsBatteryRechargeItem i \<longleftrightarrow> map_of battery_recharges i \<noteq> None"
definition GetBatteryRechargeAmount :: "u32 \<Rightarrow> u32" where "GetBatteryRechargeAmount i = reward_of battery_recharges i"

definition NAOMI_A :: u32 where "NAOMI_A = 4810000"
definition VoiceItems :: "u32 list" where "VoiceItems = map (\<lambda>k. NAOMI_A + of_nat k) [0..<16]"
definition IsVoiceItem :: "u32 \<Rightarrow> bool" where "IsVoiceItem i \<longleftrightarrow> i \<in> set VoiceItems"
definition GetVoiceIndex :: "u32 \<Rightarrow> u32" where "GetVoiceIndex i = (i - NAOMI_A) mod 4 + 4"
definition GetVoiceCharacter :: "u32 \<Rightarrow> u32" where "GetVoiceCharacter i = (i - NAOMI_A) div 4"

definition IsRecordResetItem :: "u32 \<Rightarrow> bool" where "IsRecordResetItem i \<longleftrightarrow> i = 4302000"
definition IsKillDeathResetItem :: "u32 \<Rightarrow> bool" where "IsKillDeathResetItem i \<longleftrightarrow> i = 4303000"
definition IsNicknameItem :: "u32 \<Rightarrow> bool" where "IsNicknameItem i \<longleftrightarrow> i = 4303001"
definition IsBatteryExpansionItem :: "u32 \<Rightarrow> bool" where "IsBatteryExpansionItem i \<longleftrightarrow> i = 4305007"

section \<open>What using an item does\<close>

text \<open>The packages have nothing to do with the map of the capsule machines.\<close>

definition ProcessItemsWon :: "game_data \<Rightarrow> u32 \<Rightarrow> PackageInfo list \<Rightarrow> nat list \<Rightarrow> ShopItem list \<times> Item list" where
  "ProcessItemsWon g now items_won serials =
    (let made = map (\<lambda>(p, s). let i = pkg_ItemId p; info = or_null new_ItemInfo i (CItemsInfo g); new = shop_item now i info s
           in (new, bought_item new i info)) (zip items_won serials)
     in (map fst made, map snd made))"

text \<open>The plan of a use: the changes before items are added and removed, what is added, what the client is told.\<close>

definition new_package_use :: package_use where
  "new_package_use = \<lparr>pu_kind = PK_Items, pu_send = [], pu_delete = [], pu_serial = new_ItemSerialInfo 0 0 0 0 0,
     pu_voices = 0, pu_coupons = 0, pu_currency_item = 0\<rparr>"

definition give_items ::
  "game_data \<Rightarrow> u32 \<Rightarrow> Item list \<Rightarrow> PackageInfo list \<Rightarrow> package_use \<Rightarrow> (DbOp list \<times> Item list \<times> package_use) option" where
  "give_items g now inventory items_won u =
    (let serials = FindLowestAvailableSerialIds inventory (length items_won)
     in if length serials < length items_won then None
        else case ProcessItemsWon g now items_won serials of (send, new) \<Rightarrow> Some ([], new, u\<lparr>pu_send := send\<rparr>))"

text \<open>
  A package that draws nothing reads the first element of an empty vector, which is undefined; it is
  taken to do nothing here.
\<close>

definition open_package ::
  "'g rng \<Rightarrow> (u32 fset \<Rightarrow> u32 list) \<Rightarrow> game_data \<Rightarrow> u32 \<Rightarrow> Item list \<Rightarrow> u32 \<Rightarrow> package_use \<Rightarrow> 'g
     \<Rightarrow> (DbOp list \<times> Item list \<times> package_use) option \<times> 'g" where
  "open_package rng walk g now inventory item_id u gs =
    (let package = or_null fmempty item_id (CPackagesInfo g)
     in if package = fmempty then (None, gs)
        else case ExtractPackageItemsWon rng (groups walk package) gs of (items_won, gs) \<Rightarrow>
          (case items_won of
             [] \<Rightarrow> (None, gs)
           | won # others \<Rightarrow>
             (let i = pkg_ItemId won;
                  u = u\<lparr>pu_kind := if IsMicroPointsItem i then PK_MicroPoints else if IsCouponItem i then PK_Coupon else PK_Items,
                        pu_currency_item := if IsMicroPointsItem i \<or> IsCouponItem i then i else 0\<rparr>
              in if IsMicroPointsItem i \<and> others = [] then
                   (Some ([Op_Currency \<lparr>acd_type = Cur_MP, acd_value = GetMicroPointsReward i, acd_is_reward = True\<rparr>], [], u), gs)
                 else if IsCouponItem i \<and> others = [] then
                   (Some ([Op_Currency \<lparr>acd_type = Cur_COUPONS, acd_value = GetCouponReward i, acd_is_reward = True\<rparr>], [],
                      u\<lparr>pu_coupons := GetCouponReward i\<rparr>), gs)
                 else (give_items g now inventory items_won u, gs))))"

definition use_normal ::
  "'g rng \<Rightarrow> (u32 fset \<Rightarrow> u32 list) \<Rightarrow> game_data \<Rightarrow> u32 \<Rightarrow> Player \<Rightarrow> u32 \<Rightarrow> package_use \<Rightarrow> 'g
     \<Rightarrow> (DbOp list \<times> Item list \<times> package_use) option \<times> 'g" where
  "use_normal rng walk g now acc item_id u gs =
    (let a = pl_acc_info acc; info = (\<lambda>p. Op_AccountInfo p); p0 = new_AccountInfoPatch
     in if IsVoiceItem item_id then
          (let voice = ucast (GetVoiceIndex item_id); character = GetVoiceCharacter item_id; unlocked = acc_VoiceType a;
               voices = (if isVoiceUnlocked unlocked character voice then unlocked else setVoice unlocked character voice)
           in (Some (if isVoiceUnlocked unlocked character voice then [] else [info (p0\<lparr>aip_voice_type := Some voices\<rparr>)], [],
                u\<lparr>pu_kind := PK_Voice, pu_voices := voices\<rparr>), gs))
        else if IsKillDeathResetItem item_id then
          (Some ([info (p0\<lparr>aip_kills := Some 0, aip_deaths := Some 0, aip_assists := Some 0\<rparr>)], [], u\<lparr>pu_kind := PK_KillDeath\<rparr>), gs)
        else if IsRecordResetItem item_id then
          (Some ([info (p0\<lparr>aip_wins := Some 0, aip_loses := Some 0, aip_draws := Some 0\<rparr>)], [], u\<lparr>pu_kind := PK_Record\<rparr>), gs)
        else if IsBatteryRechargeItem item_id then
          (Some ([Op_Currency \<lparr>acd_type = Cur_ENERGY, acd_value = GetBatteryRechargeAmount item_id, acd_is_reward = True\<rparr>], [],
             u\<lparr>pu_kind := PK_Static\<rparr>), gs)
        else if IsBatteryExpansionItem item_id then
          (Some ([info (p0\<lparr>aip_maximum_energy := Some (acc_MaximumEnergy a + 1000)\<rparr>)], [], u\<lparr>pu_kind := PK_Static\<rparr>), gs)
        else if IsInvExpandItem item_id then
          (Some ([info (p0\<lparr>aip_maximum_items := Some (acc_MaximumItems a + GetInvExpandSize item_id)\<rparr>)], [],
             u\<lparr>pu_kind := PK_Static\<rparr>), gs)
        else open_package rng walk g now (pl_inventory_items acc) item_id u gs)"

text \<open>With the hammer the second serial of the request, a capsule, is used up too.\<close>

definition use_hammer ::
  "'g rng \<Rightarrow> (u32 fset \<Rightarrow> u32 list) \<Rightarrow> game_data \<Rightarrow> u32 \<Rightarrow> Player \<Rightarrow> u32 \<Rightarrow> ItemSerialInfo \<Rightarrow> package_use \<Rightarrow> 'g
     \<Rightarrow> (DbOp list \<times> Item list \<times> package_use) option \<times> 'g" where
  "use_hammer rng walk g now acc item_id mistery_capsule u gs =
    (case GetPlayerItemInventory_serial (pl_inventory_items acc) mistery_capsule of
       None \<Rightarrow> (None, gs)
     | Some mistery \<Rightarrow>
       (let u = u\<lparr>pu_delete := pu_delete u @ [inv_serial_info (it_item_info mistery)]\<rparr>;
            package = or_null fmempty item_id (CPackagesInfo g)
        in if package = fmempty then (None, gs)
           else case ExtractPackageItemsWon rng (groups walk package) gs of (items_won, gs) \<Rightarrow>
             (give_items g now (pl_inventory_items acc) items_won u, gs)))"

section \<open>The handler and its task\<close>

definition package_error :: "u16 \<Rightarrow> DbUpdateError \<Rightarrow> server \<Rightarrow> server" where
  "package_error sid e =
    (if e \<in> {MaxEnergyReachedAlready, MaxInventoryItemsReachedAlready, MpFull, CouponsFull, EnergyFull} then answer sid 102 1 7 0 []
     else if e \<in> {AVA_CREATE_BANNAME, AVA_CREATE_SHORTNAME} then
       (\<lambda>sv. answer sid 69 (if e = AVA_CREATE_SHORTNAME then 14 else 16) 0 0 [] (answer sid 102 1 4 0 [] sv))
     else (\<lambda>sv. sv))"

definition PackageOpen ::
  "'g rng \<Rightarrow> (u32 fset \<Rightarrow> u32 list) \<Rightarrow> game_data \<Rightarrow> u32 \<Rightarrow> u16 list \<Rightarrow> u16 \<Rightarrow> u8 \<Rightarrow> u8
     \<Rightarrow> ItemSerialInfo \<Rightarrow> ItemSerialInfo \<Rightarrow> string \<Rightarrow> server \<Rightarrow> 'g \<Rightarrow> server \<times> 'g" where
  "PackageOpen rng walk g now aids sid mission extra item mistery_capsule nickname sv gs =
    (case CAccount (sv_world sv) sid of
       None \<Rightarrow> (sv, gs)
     | Some acc \<Rightarrow>
       if acc_Index_of acc = - 1 then (sv, gs)
       else if length (pl_inventory_items acc) \<ge> unat (acc_MaximumItems (pl_acc_info acc)) then (answer sid 102 1 7 0 [] sv, gs)
       else case GetPlayerItemInventory_serial (pl_inventory_items acc) item of
         None \<Rightarrow> (sv, gs)
       | Some used_item \<Rightarrow>
         (let item_id = item_id_of used_item; serial = inv_serial_info (it_item_info used_item);
              u = new_package_use\<lparr>pu_delete := [item], pu_serial := serial\<rparr>
          in if \<not> (mission = 1 \<or> mission = 3 \<and> extra = 26 \<or> mission = 3 \<and> extra = 53)
             then (answer sid 102 1 8 0 (serial_bytes serial) sv, gs)
             else if mission = 3 \<and> extra = 53 \<and> \<not> IsNicknameItem item_id then (answer sid 102 1 4 0 [] sv, gs)
             else case (if mission = 1 then use_normal rng walk g now acc item_id u gs
                        else if extra = 26 then use_hammer rng walk g now acc item_id mistery_capsule (u\<lparr>pu_kind := PK_Hammer\<rparr>) gs
                        else (Some ([Op_AccountInfo (new_AccountInfoPatch\<lparr>aip_nickname := Some nickname\<rparr>)], [], u\<lparr>pu_kind := PK_Nickname\<rparr>), gs)) of
               (None, gs) \<Rightarrow> (sv, gs)
             | (Some (ops, new_items, u), gs) \<Rightarrow>
                 (case ValidateDatabaseUpdates g aids (CAccount (sv_world sv)) (sv_stores sv) acc
                    \<lparr>ctx_sid = ucast sid, ctx_aid = acc_Index_of acc, ctx_ops = ops
                       @ (if new_items \<noteq> [] then [Op_ItemAdd \<lparr>ia_items = new_items\<rparr>] else [])
                       @ [Op_ItemDelete \<lparr>idel_serials = pu_delete u\<rparr>]\<rparr> False False of
                    Inl e \<Rightarrow> (package_error sid e sv, gs)
                  | Inr v \<Rightarrow> (sv\<lparr>sv_tasks := sv_tasks sv @ [PackageTask sid u v]\<rparr>, gs))))"

text \<open>The answer to a use that is not a name change, before the used items are taken away.\<close>

definition package_answer :: "u16 \<Rightarrow> package_use \<Rightarrow> server \<Rightarrow> server" where
  "package_answer sid u sv =
    (let serial = serial_bytes (pu_serial u); items = concat (map shop_item_bytes (pu_send u))
     in case pu_kind u of
       PK_Voice \<Rightarrow> answer sid 413 0 59 0 (le_bytes 8 (pu_voices u)) (answer sid 102 1 0x9F 0 serial sv)
     | PK_KillDeath \<Rightarrow> answer sid 102 1 0x96 0 serial sv
     | PK_Record \<Rightarrow> answer sid 102 1 0x95 0 serial sv
     | PK_Static \<Rightarrow> answer sid 102 1 0xFF 0 serial sv
     | PK_MicroPoints \<Rightarrow> answer sid 102 1 0 2 (shop_item_bytes \<lparr>shop_item_number = new_InventoryItemNumber (pu_currency_item u) 0,
         shop_expire_time = ItemExpire_Unused, shop_serial_info = new_ItemSerialInfo 0 0 0 0 0\<rparr>) sv
     | PK_Coupon \<Rightarrow> answer sid 102 1 0 1 (shop_item_bytes \<lparr>shop_item_number = new_InventoryItemNumber 1000000 (pu_coupons u),
         shop_expire_time = ItemExpire_Unused, shop_serial_info = new_ItemSerialInfo 0 0 0 0 0\<rparr>) sv
     | PK_Items \<Rightarrow> answer sid 102 1 0 (of_nat (length (pu_send u))) items sv
     | PK_Hammer \<Rightarrow> answer sid 102 1 0x1A (of_nat (length (pu_send u))) items sv
     | PK_Nickname \<Rightarrow> sv)"

definition finish_package ::
  "(CurrencyType \<Rightarrow> nat) \<Rightarrow> bool \<Rightarrow> Player \<Rightarrow> u32 \<Rightarrow> u16 \<Rightarrow> package_use \<Rightarrow> ValidatedDbUpdates \<Rightarrow> server \<Rightarrow> server" where
  "finish_package col_max up junk now sid u v sv =
    (case commit col_max now up v sv of
       (sv, out, Inl e) \<Rightarrow>
         if e = DuplicateNickname then answer sid 69 5 0 0 [] (answer sid 102 1 4 0 [] sv) else sv
     | (sv, out, Inr v) \<Rightarrow>
         (case perform junk now sid v sv of
            (sv, Some e, p) \<Rightarrow> sv
          | (sv, None, p) \<Rightarrow>
              if pu_kind u = PK_Nickname
              then answer sid 102 1 0x35 0 (serial_bytes (pu_serial u) @ char_field 16 (acc_Nickname (pl_acc_info p))) sv
              else answer sid 89 0 1 0 (le_bytes 4 (of_nat (length (pu_delete u)) :: u32) @ concat (map serial_bytes (pu_delete u)))
                     (package_answer sid u sv)))"

end
