(* ===== verification/Missions.thy ===== *)
theory Missions
  imports Item_Handlers
begin

text \<open>
  Missions (\<open>handlers/Player/Milestones/Missions.h\<close>): the guide missions of a new player, the three
  daily missions with their goals and rewards, and the exchange of a daily mission for points.
\<close>

record MainCompleteMissionReq =
  cm_collection_id :: u32
  cm_set_index :: u32
  cm_idk1 :: u32
  cm_mission_type :: u32

definition cm_bytes :: "MainCompleteMissionReq \<Rightarrow> bytes" where
  "cm_bytes r = le_bytes 4 (cm_collection_id r) @ le_bytes 4 (cm_set_index r) @ le_bytes 4 (cm_idk1 r) @ le_bytes 4 (cm_mission_type r)"

section \<open>Guide missions\<close>

definition add_op :: "DbOp \<Rightarrow> DatabaseUpdateCtx \<Rightarrow> DatabaseUpdateCtx" where
  "add_op op dctx = dctx\<lparr>ctx_ops := ctx_ops dctx @ [op]\<rparr>"

definition points_op :: "u32 \<Rightarrow> DatabaseUpdateCtx \<Rightarrow> DatabaseUpdateCtx" where
  "points_op mp dctx = (if mp > 0 then add_op (Op_Currency \<lparr>acd_type = Cur_MP, acd_value = mp, acd_is_reward = True\<rparr>) dctx else dctx)"

definition guide_mission ::
  "game_data \<Rightarrow> u32 \<Rightarrow> Player \<Rightarrow> u32 \<Rightarrow> DatabaseUpdateCtx \<Rightarrow> (DatabaseUpdateCtx \<times> ResultLevelUpInfo) option" where
  "guide_mission g now acc collection_id dctx =
    (if collection_id \<le> 45 \<or> collection_id \<ge> 58 \<or> collection_id < ucast (acc_GuideMission (pl_acc_info acc)) then None
     else
       (let coll = or_null new_CollectionInfo collection_id (CCollectionInfo g);
            dctx = add_op (Op_AccountInfo (new_AccountInfoPatch\<lparr>aip_guide_mission := Some (ucast (collection_id - 45))\<rparr>)) dctx
        in case ProcessLevelUp g now acc (coll_rewardExp coll) dctx of
             (dctx, Inl e) \<Rightarrow> None
           | (dctx, Inr level_up) \<Rightarrow> Some (points_op (coll_rewardPoint coll) dctx, level_up)))"

section \<open>Daily missions\<close>

definition mission_slot :: "PlayerDailyMission \<Rightarrow> u32 \<Rightarrow> nat option" where
  "mission_slot m i = (if pdm_mission1 m = i then Some 1 else if pdm_mission2 m = i then Some 2
     else if pdm_mission3 m = i then Some 3 else None)"

definition slot_goal :: "PlayerDailyMission \<Rightarrow> nat \<Rightarrow> u32" where
  "slot_goal m slot = (if slot = 1 then pdm_goal_mission1 m else if slot = 2 then pdm_goal_mission2 m else pdm_goal_mission3 m)"

definition set_goal :: "nat \<Rightarrow> u32 \<Rightarrow> PlayerMissionsPatch \<Rightarrow> PlayerMissionsPatch" where
  "set_goal slot goal p = (if slot = 1 then p\<lparr>pmp_goal1 := Some goal\<rparr> else if slot = 2 then p\<lparr>pmp_goal2 := Some goal\<rparr>
     else p\<lparr>pmp_goal3 := Some goal\<rparr>)"

definition set_mission :: "nat \<Rightarrow> u32 \<Rightarrow> PlayerMissionsPatch \<Rightarrow> PlayerMissionsPatch" where
  "set_mission slot i p = (if slot = 1 then p\<lparr>pmp_mission1 := Some i\<rparr> else if slot = 2 then p\<lparr>pmp_mission2 := Some i\<rparr>
     else p\<lparr>pmp_mission3 := Some i\<rparr>)"

definition missions_at :: "u32 \<Rightarrow> PlayerMissionsPatch" where
  "missions_at now = new_PlayerMissionsPatch\<lparr>pmp_update_time := Some (ucast now)\<rparr>"

text \<open>One more goal of a mission is done; with the last one come the rewards.\<close>

definition complete_goal ::
  "game_data \<Rightarrow> u32 \<Rightarrow> Player \<Rightarrow> u32 \<Rightarrow> nat \<Rightarrow> DatabaseUpdateCtx \<Rightarrow> DatabaseUpdateCtx option" where
  "complete_goal g now acc collection_id slot dctx =
    (let info = or_null new_DailyMissionInfo collection_id (CDailyMissionInfo g);
         new_goal = slot_goal (pl_daily_mission_info acc) slot + 1;
         dctx = add_op (Op_Missions (set_goal slot new_goal (missions_at now))) dctx
     in if new_goal \<noteq> daily_goal info then Some dctx
        else
          (let dctx = points_op (daily_rewardPoint info) dctx
           in if daily_rewardItem info = 0 then Some dctx
              else case CraftInventoryItems g now (pl_inventory_items acc) [daily_rewardItem info] Origin_From_Game of
                Inl e \<Rightarrow> None
              | Inr crafted \<Rightarrow> Some (add_op (Op_ItemAdd crafted) dctx)))"

definition mission_pool :: "game_data \<Rightarrow> PlayerDailyMission \<Rightarrow> u32 list" where
  "mission_pool g m = filter (\<lambda>i. i \<noteq> pdm_mission1 m \<and> i \<noteq> pdm_mission2 m \<and> i \<noteq> pdm_mission3 m) (CDailyMissions g)"

text \<open>
  \<open>GetRandomDailyMissionIds(1, ...)\<close>: \<open>sample\<close> is \<open>std::sample\<close> of one element. The code reads the
  first of the ids also when there is no other mission, which is undefined; that exchange does nothing here.
\<close>

definition reset_mission ::
  "(u32 list \<Rightarrow> 'g \<Rightarrow> u32 \<times> 'g) \<Rightarrow> game_data \<Rightarrow> u32 \<Rightarrow> Player \<Rightarrow> nat \<Rightarrow> DatabaseUpdateCtx \<Rightarrow> 'g
     \<Rightarrow> (DatabaseUpdateCtx \<times> u32) option \<times> 'g" where
  "reset_mission sample g now acc slot dctx gs =
    (let pool = mission_pool g (pl_daily_mission_info acc);
         dctx = add_op (Op_Currency \<lparr>acd_type = Cur_MP, acd_value = 10000, acd_is_reward = False\<rparr>) dctx
     in if pool = [] then (None, gs)
        else case sample pool gs of (new_mission, gs) \<Rightarrow>
          (Some (add_op (Op_Missions (set_goal slot 0 (set_mission slot new_mission (missions_at now)))) dctx, new_mission), gs))"

section \<open>The handler and its task\<close>

definition Missions ::
  "(u32 list \<Rightarrow> 'g \<Rightarrow> u32 \<times> 'g) \<Rightarrow> game_data \<Rightarrow> u32 \<Rightarrow> u16 list \<Rightarrow> u16 \<Rightarrow> u8 \<Rightarrow> MainCompleteMissionReq \<Rightarrow> server \<Rightarrow> 'g \<Rightarrow> server \<times> 'g" where
  "Missions sample g now aids sid extra req sv gs =
    (case CAccount (sv_world sv) sid of
       None \<Rightarrow> (sv, gs)
     | Some acc \<Rightarrow>
       if acc_Index_of acc = - 1 then (sv, gs)
       else
         (let guide = cm_mission_type req = 1 \<and> cm_set_index req = 9; i = cm_collection_id req; m = pl_daily_mission_info acc;
              dctx = \<lparr>ctx_sid = ucast sid, ctx_aid = acc_Index_of acc, ctx_ops = []\<rparr>;
              use = \<lparr>mu_collection_id = i, mu_new_mission = 0, mu_is_guide_mission = guide, mu_is_complete_goal = extra = 2,
                mu_is_reset_mission = extra = 3, mu_level_up = new_ResultLevelUpInfo 0\<rparr>
          in if extra = 2 \<and> guide then
               (case guide_mission g now acc i dctx of
                  None \<Rightarrow> (sv, gs)
                | Some (dctx, level_up) \<Rightarrow> (submit g aids acc dctx (MissionTask sid (use\<lparr>mu_level_up := level_up\<rparr>)) sv, gs))
             else if \<not> guide \<and> (extra = 2 \<or> extra = 3) then
               (case mission_slot m i of
                  None \<Rightarrow> (sv, gs)
                | Some slot \<Rightarrow>
                  if slot_goal m slot \<ge> daily_goal (or_null new_DailyMissionInfo i (CDailyMissionInfo g)) then (sv, gs)
                  else if extra = 2 then
                    (case complete_goal g now acc i slot dctx of
                       None \<Rightarrow> (sv, gs)
                     | Some dctx \<Rightarrow> (submit g aids acc dctx (MissionTask sid use) sv, gs))
                  else if acc_MicroPoints (pl_acc_info acc) < 10000 then (answer sid 168 0 3 0 [] sv, gs)
                  else
                    (case reset_mission sample g now acc slot dctx gs of
                       (None, gs) \<Rightarrow> (sv, gs)
                     | (Some (dctx, new_mission), gs) \<Rightarrow>
                         (submit g aids acc dctx (MissionTask sid (use\<lparr>mu_new_mission := new_mission\<rparr>)) sv, gs)))
             else (submit g aids acc dctx (MissionTask sid use) sv, gs)))"

text \<open>Who hears of a new level: the room or the party.\<close>

definition companions :: "Player \<Rightarrow> world \<Rightarrow> u16 list" where
  "companions p w =
    (if pl_in_room p then (case CRoom w (pl_room_id p) of None \<Rightarrow> [] | Some room \<Rightarrow> GetRoomSortedPlayerSessionIds w room)
     else if pl_in_party p then (case CParty w (ucast (pl_party_id p)) of None \<Rightarrow> [] | Some party \<Rightarrow> pt_members party)
     else [])"

definition added_item_bytes :: "game_data \<Rightarrow> Item \<Rightarrow> bytes" where
  "added_item_bytes g it = shop_item_bytes \<lparr>
     shop_item_number = new_InventoryItemNumber (item_id_of it) (item_Stock (or_null new_ItemInfo (item_id_of it) (CItemsInfo g))),
     shop_expire_time = ItemExpire_Unused, shop_serial_info = inv_serial_info (it_item_info it)\<rparr>"

definition finish_mission :: "game_data \<Rightarrow> Player \<Rightarrow> u32 \<Rightarrow> u16 \<Rightarrow> mission_use \<Rightarrow> ValidatedDbUpdates \<Rightarrow> server \<Rightarrow> server" where
  "finish_mission g junk now sid use v sv =
    (case perform junk now sid v sv of
       (sv, Some e, p) \<Rightarrow> sv
     | (sv, None, p) \<Rightarrow>
       (let m = pl_daily_mission_info p; line = (\<lambda>i goal. cm_bytes \<lparr>cm_collection_id = i, cm_set_index = 0, cm_idk1 = goal, cm_mission_type = 4\<rparr>);
            sv = (if mu_is_complete_goal use \<and> \<not> mu_is_guide_mission use
                  then answer sid 168 0 1 3 (line (pdm_mission1 m) (pdm_goal_mission1 m) @ line (pdm_mission2 m) (pdm_goal_mission2 m)
                         @ line (pdm_mission3 m) (pdm_goal_mission3 m)) sv else sv);
            sv = (if mu_is_complete_goal use then answer sid 168 0 2 0 (le_bytes 4 (mu_collection_id use)) sv else sv);
            sv = (if mu_is_reset_mission use then answer sid 168 0 3 1 (line (mu_new_mission use) 0) sv else sv);
            sv = (if v_items_added v \<noteq> [] then answer sid 99 0 37 (of_nat (length (v_items_added v)))
                         (concat (map (added_item_bytes g) (v_items_added v))) sv else sv)
        in if rl_level_up (mu_level_up use)
           then upd_world (fold (\<lambda>i. SendMsg i 311 0 0 (ucast (rl_new_level (mu_level_up use) + 1)) (le_bytes 4 (uid_data (new_UniqueId sid 1))))
                  (filter (\<lambda>i. i \<noteq> sid) (companions p (sv_world sv)))) sv
           else sv))"

end
