(* ===== verification/BattlePass.thy ===== *)
theory BattlePass
  imports Item_Handlers
begin

text \<open>
  The battle pass (\<open>handlers/Player/Core/BattlePass.h\<close> and its queries in \<open>CMariaDatabase.cpp\<close>): the
  snapshot sent to a player, claiming the rewards of unlocked levels, and the exchange of the active
  mission. Queries see the tables at the moment and are taken to succeed.
\<close>

section \<open>Masks\<close>

definition getBit :: "u8 list \<Rightarrow> nat \<Rightarrow> bool" where
  "getBit m i \<longleftrightarrow> i < 100 \<and> bit (m ! (i div 8)) (i mod 8)"

definition setBit :: "nat \<Rightarrow> u8 list \<Rightarrow> u8 list" where
  "setBit i m = (if i < 100 then m[i div 8 := m ! (i div 8) OR push_bit (i mod 8) 1] else m)"

definition mask_digit :: "nat \<Rightarrow> char" where
  "mask_digit n = ''0123456789abcdef'' ! n"

definition BattlePassMaskToHex :: "u8 list \<Rightarrow> string" where
  "BattlePassMaskToHex m = concat (map (\<lambda>b. [mask_digit (unat (drop_bit 4 b)), mask_digit (unat (b AND 0xF))]) m)"

definition hex_value :: "char \<Rightarrow> nat" where
  "hex_value c = (let n = of_char c in if 48 \<le> n \<and> n \<le> 57 then n - 48 else if 97 \<le> n \<and> n \<le> 102 then n - 97 + 10
     else if 65 \<le> n \<and> n \<le> 70 then n - 65 + 10 else 0)"

fun hex_pairs :: "string \<Rightarrow> u8 list" where
  "hex_pairs (a # b # s) = of_nat (hex_value a * 16 + hex_value b) # hex_pairs s"
| "hex_pairs _ = []"

definition BattlePassHexToMask :: "string \<Rightarrow> u8 list" where
  "BattlePassHexToMask s = take 16 (hex_pairs s @ replicate 16 0)"

section \<open>Queries\<close>

definition GetActiveBattlePassSeason :: "u64 \<Rightarrow> db \<Rightarrow> SystemBattlePassSeason option" where
  "GetActiveBattlePassSeason now d =
    (case rev (sort_key bps_season (filter (\<lambda>s. bps_start_date s \<le> now \<and> now \<le> bps_end_date s) (db_bp_seasons d))) of
       [] \<Rightarrow> None | s # _ \<Rightarrow> Some s)"

definition GetSystemBattlePassLevels :: "u32 \<Rightarrow> db \<Rightarrow> SystemBattlePassLevel list" where
  "GetSystemBattlePassLevels season d = sort_key bpl_level (filter (\<lambda>lv. bpl_season lv = season) (db_bp_levels d))"

definition GetSystemBattlePassMissions :: "db \<Rightarrow> SystemBattlePassMission list" where
  "GetSystemBattlePassMissions d = sort_key bpm_mission_id (db_bp_missions d)"

text \<open>A column that no change has set has its default; the masks are stored as text.\<close>

definition mask_column :: "u8 list option \<Rightarrow> string" where
  "mask_column m = (case m of None \<Rightarrow> replicate 32 (CHR ''0'') | Some m \<Rightarrow> BattlePassMaskToHex m)"

definition GetPlayerBattlePass :: "u32 \<Rightarrow> db \<Rightarrow> PlayerBattlePass option" where
  "GetPlayerBattlePass aid d = map_option (\<lambda>r. \<lparr>
     bp_player_account_id = aid, bp_season = set_if (pbp_season r) 0, bp_level = set_if (pbp_level r) 1,
     bp_xp = set_if (pbp_xp r) 0, bp_has_premium = set_if (pbp_has_premium r) 0,
     bp_claimed_free = BattlePassHexToMask (mask_column (pbp_claimed_free r)),
     bp_claimed_premium = BattlePassHexToMask (mask_column (pbp_claimed_premium r)),
     bp_current_mission_id = set_if (pbp_current_mission_id r) 0, bp_mission_progress = set_if (pbp_mission_progress r) 0,
     bp_reset_count = set_if (pbp_reset_count r) 0\<rparr>) (fmlookup (db_battlepass d) aid)"

section \<open>The snapshot\<close>

definition pickMission :: "SystemBattlePassMission list \<Rightarrow> u32 \<Rightarrow> nat stream \<Rightarrow> u32 \<times> nat stream" where
  "pickMission pool exclude rand =
    (let cand = filter (\<lambda>i. i \<noteq> exclude) (map bpm_mission_id pool)
     in if pool = [] then (0, rand) else if cand = [] then (bpm_mission_id (hd pool), rand)
        else (cand ! (shd rand mod length cand), stl rand))"

record MainBattlePassAck =
  ack_season :: u32
  ack_days_left :: u32
  ack_level :: u32
  ack_xp :: u32
  ack_xp_required :: u32
  ack_has_premium :: u32
  ack_reset_cost :: u32
  ack_reset_count :: u32
  ack_claimed_free :: "u8 list"
  ack_claimed_premium :: "u8 list"
  ack_free_items :: "u32 list"
  ack_premium_items :: "u32 list"
  ack_mission_text :: string

definition Serialize_ack :: "MainBattlePassAck \<Rightarrow> bytes" where
  "Serialize_ack a =
     concat (map (le_bytes 4) [ack_season a, ack_days_left a, ack_level a, ack_xp a, ack_xp_required a,
       ack_has_premium a, ack_reset_cost a, ack_reset_count a])
     @ ack_claimed_free a @ ack_claimed_premium a @ concat (map (le_bytes 4) (ack_free_items a))
     @ concat (map (le_bytes 4) (ack_premium_items a))
     @ le_bytes 2 (of_nat (length (ack_mission_text a)) :: u16) @ map of_char (ack_mission_text a)"

text \<open>A player without a row of this season gets a fresh one, which is written at once.\<close>

definition fresh_row :: "u32 \<Rightarrow> u32 \<Rightarrow> u8 \<Rightarrow> u32 \<Rightarrow> PlayerBattlePass" where
  "fresh_row aid season premium mission = new_PlayerBattlePass\<lparr>bp_player_account_id := aid, bp_season := season,
     bp_level := 1, bp_has_premium := premium, bp_current_mission_id := mission\<rparr>"

definition row_patch :: "PlayerBattlePass \<Rightarrow> PlayerBattlePassPatch" where
  "row_patch p = \<lparr>pbp_season = Some (bp_season p), pbp_level = Some (bp_level p), pbp_xp = Some 0,
     pbp_has_premium = Some (bp_has_premium p), pbp_claimed_free = Some (bp_claimed_free p),
     pbp_claimed_premium = Some (bp_claimed_premium p), pbp_current_mission_id = Some (bp_current_mission_id p),
     pbp_mission_progress = Some 0, pbp_reset_count = Some 0\<rparr>"

definition persist_row :: "u32 \<Rightarrow> PlayerBattlePassPatch \<Rightarrow> db \<Rightarrow> db" where
  "persist_row aid patch d =
    (case PersistBattlePassPatches \<lparr>tx_v = (new_ValidatedDbUpdates 0 aid)\<lparr>v_player_battlepass_patches := [patch]\<rparr>,
        tx_db = d, tx_out = new_ResultDbUpdateInfo\<rparr> of Inl e \<Rightarrow> d | Inr t \<Rightarrow> tx_db t)"

definition ensure_row :: "u32 \<Rightarrow> SystemBattlePassSeason \<Rightarrow> server \<Rightarrow> PlayerBattlePass \<times> server" where
  "ensure_row aid season sv =
    (let old = GetPlayerBattlePass aid (sv_db sv)
     in case old of
          Some p \<Rightarrow> if bp_season p = bps_season season then (p, sv) else
            (case pickMission (GetSystemBattlePassMissions (sv_db sv)) 0 (sv_rand sv) of (mission, rand) \<Rightarrow>
              (let q = fresh_row aid (bps_season season) (bp_has_premium p) mission
               in (q, sv\<lparr>sv_db := persist_row aid (row_patch q) (sv_db sv), sv_rand := rand\<rparr>)))
        | None \<Rightarrow>
            (case pickMission (GetSystemBattlePassMissions (sv_db sv)) 0 (sv_rand sv) of (mission, rand) \<Rightarrow>
              (let q = fresh_row aid (bps_season season) 0 mission
               in (q, sv\<lparr>sv_db := persist_row aid (row_patch q) (sv_db sv), sv_rand := rand\<rparr>))))"

definition level_items :: "(SystemBattlePassLevel \<Rightarrow> u32) \<Rightarrow> SystemBattlePassLevel list \<Rightarrow> u32 list" where
  "level_items f levels = fold (\<lambda>lv items. if 1 \<le> bpl_level lv \<and> bpl_level lv \<le> 100
     then items[unat (bpl_level lv) - 1 := f lv] else items) levels (replicate 100 0)"

definition buildAck :: "u64 \<Rightarrow> u32 \<Rightarrow> server \<Rightarrow> MainBattlePassAck option \<times> server" where
  "buildAck now aid sv =
    (case GetActiveBattlePassSeason now (sv_db sv) of
       None \<Rightarrow> (None, sv)
     | Some season \<Rightarrow>
       (let levels = GetSystemBattlePassLevels (bps_season season) (sv_db sv); missions = GetSystemBattlePassMissions (sv_db sv)
        in case ensure_row aid season sv of (p, sv) \<Rightarrow>
          (Some \<lparr>ack_season = bps_season season,
             ack_days_left = (if bps_end_date season > now then ucast ((bps_end_date season - now) div 86400) else 0),
             ack_level = bp_level p, ack_xp = bp_xp p,
             ack_xp_required = fold (\<lambda>lv x. if bpl_level lv = bp_level p then bpl_xp_required lv else x) levels 0,
             ack_has_premium = ucast (bp_has_premium p), ack_reset_cost = bps_reset_base_cost season * (bp_reset_count p + 1),
             ack_reset_count = bp_reset_count p, ack_claimed_free = bp_claimed_free p, ack_claimed_premium = bp_claimed_premium p,
             ack_free_items = level_items bpl_free_item levels, ack_premium_items = level_items bpl_premium_item levels,
             ack_mission_text = (case find (\<lambda>m. bpm_mission_id m = bp_current_mission_id p) missions of
                None \<Rightarrow> [] | Some m \<Rightarrow> bpm_description m)\<rparr>, sv)))"

definition SendBattlePassOnLogin :: "u64 \<Rightarrow> u16 \<Rightarrow> u32 \<Rightarrow> server \<Rightarrow> server" where
  "SendBattlePassOnLogin now sid aid sv =
    (case buildAck now aid sv of (None, sv) \<Rightarrow> sv | (Some a, sv) \<Rightarrow> answer sid 182 0 0 0 (Serialize_ack a) sv)"

section \<open>Claiming\<close>

definition tryClaim :: "PlayerBattlePass \<Rightarrow> SystemBattlePassLevel \<Rightarrow> u32 list \<times> u8 list \<times> u8 list \<Rightarrow> u32 list \<times> u8 list \<times> u8 list" where
  "tryClaim p lv c = (case c of (items, free, premium) \<Rightarrow>
    (if bpl_level lv < 1 \<or> bpl_level lv > bp_level p then c
     else
       (let idx = unat (bpl_level lv - 1);
            f = bpl_free_item lv \<noteq> 0 \<and> \<not> getBit free idx;
            q = bp_has_premium p \<noteq> 0 \<and> bpl_premium_item lv \<noteq> 0 \<and> \<not> getBit premium idx
        in (items @ (if f then [bpl_free_item lv] else []) @ (if q then [bpl_premium_item lv] else []),
            if f then setBit idx free else free, if q then setBit idx premium else premium))))"

definition claims :: "PlayerBattlePass \<Rightarrow> SystemBattlePassLevel list \<Rightarrow> u8 \<Rightarrow> u8 \<Rightarrow> u32 list \<times> u8 list \<times> u8 list" where
  "claims p levels mode target_level =
     fold (tryClaim p) (if mode = 1 then levels else filter (\<lambda>lv. bpl_level lv = ucast target_level) levels)
       ([], bp_claimed_free p, bp_claimed_premium p)"

definition Origin_From_Event :: u32 where "Origin_From_Event = 4"

definition BattlePassClaim :: "game_data \<Rightarrow> u32 \<Rightarrow> u16 list \<Rightarrow> u16 \<Rightarrow> u8 \<Rightarrow> u8 \<Rightarrow> server \<Rightarrow> server" where
  "BattlePassClaim g now aids sid mode target_level sv =
    (case CAccount (sv_world sv) sid of
       None \<Rightarrow> sv
     | Some acc \<Rightarrow>
       if acc_Index_of acc = - 1 then sv
       else case GetActiveBattlePassSeason (ucast now) (sv_db sv) of
         None \<Rightarrow> sv
       | Some season \<Rightarrow>
         (case GetPlayerBattlePass (acc_Index_of acc) (sv_db sv) of
            None \<Rightarrow> sv
          | Some p \<Rightarrow>
            if bp_season p \<noteq> bps_season season then sv
            else case claims p (GetSystemBattlePassLevels (bps_season season) (sv_db sv)) mode target_level of
              (item_ids, free, premium) \<Rightarrow>
                if item_ids = [] then SendBattlePassOnLogin (ucast now) sid (acc_Index_of acc) sv
                else case CraftInventoryItems g now (pl_inventory_items acc) item_ids Origin_From_Event of
                  Inl e \<Rightarrow> sv
                | Inr crafted \<Rightarrow> submit g aids acc
                    \<lparr>ctx_sid = ucast sid, ctx_aid = acc_Index_of acc, ctx_ops = [Op_ItemAdd crafted,
                       Op_BattlePass (new_PlayerBattlePassPatch\<lparr>pbp_claimed_free := Some free, pbp_claimed_premium := Some premium\<rparr>)]\<rparr>
                    (BattlePassTask sid) sv))"

section \<open>Exchanging the mission\<close>

definition BattlePassReset :: "game_data \<Rightarrow> u32 \<Rightarrow> u16 list \<Rightarrow> u16 \<Rightarrow> server \<Rightarrow> server" where
  "BattlePassReset g now aids sid sv =
    (case CAccount (sv_world sv) sid of
       None \<Rightarrow> sv
     | Some acc \<Rightarrow>
       if acc_Index_of acc = - 1 then sv
       else case GetActiveBattlePassSeason (ucast now) (sv_db sv) of
         None \<Rightarrow> sv
       | Some season \<Rightarrow>
         (case GetPlayerBattlePass (acc_Index_of acc) (sv_db sv) of
            None \<Rightarrow> sv
          | Some p \<Rightarrow>
            if bp_season p \<noteq> bps_season season then sv
            else case pickMission (GetSystemBattlePassMissions (sv_db sv)) (bp_current_mission_id p) (sv_rand sv) of
              (mission, rand) \<Rightarrow> submit g aids acc
                \<lparr>ctx_sid = ucast sid, ctx_aid = acc_Index_of acc, ctx_ops =
                   cost_op Cur_MP (bps_reset_base_cost season * (bp_reset_count p + 1))
                   @ [Op_BattlePass (new_PlayerBattlePassPatch\<lparr>pbp_current_mission_id := Some mission,
                        pbp_mission_progress := Some 0, pbp_reset_count := Some (bp_reset_count p + 1)\<rparr>)]\<rparr>
                (BattlePassTask sid) (sv\<lparr>sv_rand := rand\<rparr>)))"

text \<open>Both tasks ignore an error of the application.\<close>

definition finish_battlepass :: "Player \<Rightarrow> u32 \<Rightarrow> u16 \<Rightarrow> ValidatedDbUpdates \<Rightarrow> server \<Rightarrow> server" where
  "finish_battlepass junk now sid v sv =
    (case perform junk now sid v sv of (sv, e, p) \<Rightarrow> SendBattlePassOnLogin (ucast now) sid (v_aid v) sv)"

end
