(* ===== verification/Tasks.thy ===== *)
theory Tasks
  imports Upgrades Social_Handlers Mail_Handlers Trade_Handlers Votekick Packages Missions BattlePass
begin

text \<open>
  Running the submitted tasks. A pool thread takes one of the tasks; \<open>up\<close> is whether its commit
  meets no failure of the connection, \<open>now\<close> its clock.
\<close>

text \<open>Most tasks end silently when the commit fails.\<close>

definition committed ::
  "(CurrencyType \<Rightarrow> nat) \<Rightarrow> bool \<Rightarrow> u32 \<Rightarrow> ValidatedDbUpdates \<Rightarrow> (ValidatedDbUpdates \<Rightarrow> server \<Rightarrow> server) \<Rightarrow> server \<Rightarrow> server" where
  "committed col_max up now v k sv =
    (case commit col_max now up v sv of (sv, out, Inl e) \<Rightarrow> sv | (sv, out, Inr v) \<Rightarrow> k v sv)"

fun run_task ::
  "game_data \<Rightarrow> (CurrencyType \<Rightarrow> nat) \<Rightarrow> bool \<Rightarrow> Player \<Rightarrow> u32 \<Rightarrow> db_task \<Rightarrow> server \<Rightarrow> server" where
  "run_task g cm up junk now (SellTask sid mp s v) = committed cm up now v (finish_sell junk now sid mp s)"
| "run_task g cm up junk now (RepairTask sid ss v) = committed cm up now v (finish_repair junk now sid ss)"
| "run_task g cm up junk now (DeleteTask sid ss v) = committed cm up now v (finish_delete junk now sid ss)"
| "run_task g cm up junk now (EquipTask sid order n v) = committed cm up now v (finish_equip g junk now sid order n)"
| "run_task g cm up junk now (CouponTask sid order items v) = committed cm up now v (finish_coupon junk now sid order items)"
| "run_task g cm up junk now (ShopTask sid order items v) = committed cm up now v (finish_shop junk now sid order items)"
| "run_task g cm up junk now (InjectTask sid option s energy v) = committed cm up now v (finish_inject junk now sid option s energy)"
| "run_task g cm up junk now (ResetTask sid payload v) = committed cm up now v (finish_reset junk now sid payload)"
| "run_task g cm up junk now (UpgradeTask sid t r info payload v) = committed cm up now v (finish_upgrade junk now sid t r info payload)"
| "run_task g cm up junk now (FriendAddTask sid aid target nick uid state v) = finish_friend_add cm up junk now sid aid target nick uid state v"
| "run_task g cm up junk now (FriendRemoveTask sid aid target v) = finish_friend_remove cm up junk now sid aid target v"
| "run_task g cm up junk now (BlockAddTask sid target nick v) = finish_block_add cm up junk now sid target nick v"
| "run_task g cm up junk now (BlockRemoveTask sid target v) = finish_block_remove cm up junk now sid v"
| "run_task g cm up junk now (MailReadTask sid v) = finish_mail_read cm up junk now sid v"
| "run_task g cm up junk now (MailDeleteTask sid v) = finish_mail_delete cm up junk now sid v"
| "run_task g cm up junk now (MailSendTask sid target v) = finish_mail_send cm up junk now sid target v"
| "run_task g cm up junk now (GiftDeleteTask sid v) = finish_gift_delete cm up junk now sid v"
| "run_task g cm up junk now (GiftReceiveTask sid gifts items v) = finish_gift_receive cm up junk now sid gifts items v"
| "run_task g cm up junk now (GiftSendTask sid target item v) = finish_gift_send cm up junk now sid target item v"
| "run_task g cm up junk now (TradeTask sid deleted v) = finish_trade g cm up junk now sid deleted v"
| "run_task g cm up junk now (VotekickTask sid uid reason rid ids v) = committed cm up now v (finish_votekick junk now sid uid reason rid ids)"
| "run_task g cm up junk now (SpinTask sid rolls announce is_sale v) = committed cm up now v (finish_spin junk now sid rolls announce is_sale)"
| "run_task g cm up junk now (PackageTask sid use v) = finish_package cm up junk now sid use v"
| "run_task g cm up junk now (MissionTask sid use v) = committed cm up now v (finish_mission g junk now sid use)"
| "run_task g cm up junk now (BattlePassTask sid v) = committed cm up now v (finish_battlepass junk now sid)"

text \<open>The \<open>i\<close>-th of the waiting tasks, if there is one.\<close>

definition run_nth :: "game_data \<Rightarrow> (CurrencyType \<Rightarrow> nat) \<Rightarrow> bool \<Rightarrow> Player \<Rightarrow> u32 \<Rightarrow> nat \<Rightarrow> server \<Rightarrow> server" where
  "run_nth g cm up junk now i sv =
    (if i < length (sv_tasks sv)
     then run_task g cm up junk now (sv_tasks sv ! i) (sv\<lparr>sv_tasks := take i (sv_tasks sv) @ drop (Suc i) (sv_tasks sv)\<rparr>)
     else sv)"

end
