(* ===== verification/Task_Props.thy ===== *)
theory Task_Props
  imports Commit Tasks
begin

text \<open>
  What the tasks keep, whichever handler submitted them: a failed commit leaves no trace, and a
  successful one leaves the tables and the cached account in agreement.
\<close>

section \<open>Messages\<close>

lemma answer_keeps [simp]:
  "sv_db (answer sid order m x o' p sv) = sv_db sv" "sv_stores (answer sid order m x o' p sv) = sv_stores sv"
  "sv_tasks (answer sid order m x o' p sv) = sv_tasks sv" "sv_trades (answer sid order m x o' p sv) = sv_trades sv"
  "sv_aid_sid (answer sid order m x o' p sv) = sv_aid_sid sv"
  "CAccount (sv_world (answer sid order m x o' p sv)) = CAccount (sv_world sv)"
  by (simp_all add: answer_def upd_world_def emit_def)

lemma fold_same: "(\<And>x s. f (g x s) = f s) \<Longrightarrow> f (fold g xs s) = f s"
  by (induction xs arbitrary: s) simp_all

lemma send_keeps [simp]:
  "sv_db (upd_world (SendMsg sid order m x o' p) sv) = sv_db sv" "sv_stores (upd_world (SendMsg sid order m x o' p) sv) = sv_stores sv"
  "sv_tasks (upd_world (SendMsg sid order m x o' p) sv) = sv_tasks sv" "sv_trades (upd_world (SendMsg sid order m x o' p) sv) = sv_trades sv"
  "CAccount (sv_world (upd_world (SendMsg sid order m x o' p) sv)) = CAccount (sv_world sv)"
  by (simp_all add: upd_world_def SendMsg_def emit_def)

text \<open>Lists cut into fragments.\<close>

lemma concat_batches: "concat (map (\<lambda>i. take n (drop (i * n) xs)) [0..<k]) = take (k * n) xs"
proof (induction k)
  case (Suc k)
  have "Suc k * n = k * n + n" by simp
  then show ?case using Suc by (simp only: take_add) simp
qed simp

section \<open>A failed commit\<close>

primrec change_of :: "db_task \<Rightarrow> ValidatedDbUpdates" where
  "change_of (SellTask a b c v) = v"
| "change_of (RepairTask a b v) = v"
| "change_of (DeleteTask a b v) = v"
| "change_of (EquipTask a b c v) = v"
| "change_of (CouponTask a b c v) = v"
| "change_of (ShopTask a b c v) = v"
| "change_of (InjectTask a b c d v) = v"
| "change_of (ResetTask a b v) = v"
| "change_of (UpgradeTask a b c d e v) = v"
| "change_of (FriendAddTask a b c d e f v) = v"
| "change_of (FriendRemoveTask a b c v) = v"
| "change_of (BlockAddTask a b c v) = v"
| "change_of (BlockRemoveTask a b v) = v"
| "change_of (MailReadTask a v) = v"
| "change_of (MailDeleteTask a v) = v"
| "change_of (MailSendTask a b v) = v"
| "change_of (GiftDeleteTask a v) = v"
| "change_of (GiftReceiveTask a b c v) = v"
| "change_of (GiftSendTask a b c v) = v"
| "change_of (TradeTask a b v) = v"
| "change_of (VotekickTask a b c d e v) = v"
| "change_of (SpinTask a b c d v) = v"
| "change_of (PackageTask a b v) = v"
| "change_of (MissionTask a b v) = v"
| "change_of (BattlePassTask a v) = v"

abbreviation data_of :: "server \<Rightarrow> _" where
  "data_of sv \<equiv> (CAccount (sv_world sv), sv_stores sv, sv_db sv, sv_trades sv, sv_tasks sv)"

lemma UpdateAccount_fails: "UpdateAccount cm now up v d = (d', out, Inl e) \<Longrightarrow> d' = d"
  by (auto simp: UpdateAccount_def split: if_splits sum.splits)



section \<open>Tasks\<close>

lemma perform_keeps: "perform junk now sid v sv = (sv', e, p) \<Longrightarrow> sv_tasks sv' = sv_tasks sv"
  by (auto simp: perform_def split: prod.splits)

lemma commit_keeps: "commit cm now up v sv = (sv', out, r) \<Longrightarrow> sv_tasks sv' = sv_tasks sv"
  by (auto simp: commit_def split: prod.splits)

lemma RefreshPlayerHealthCache_keeps [simp]:
  "pl_inventory_items (RefreshPlayerHealthCache g b p) = pl_inventory_items p" "pl_acc_info (RefreshPlayerHealthCache g b p) = pl_acc_info p"
  by (simp_all add: RefreshPlayerHealthCache_def Let_def)

lemma agrees_cong: "pl_inventory_items p = pl_inventory_items q \<Longrightarrow> pl_acc_info p = pl_acc_info q \<Longrightarrow> agrees aid p d = agrees aid q d"
  by (simp add: agrees_def)

primrec session_of :: "db_task \<Rightarrow> u16" where
  "session_of (SellTask a b c v) = a"
| "session_of (RepairTask a b v) = a"
| "session_of (DeleteTask a b v) = a"
| "session_of (EquipTask a b c v) = a"
| "session_of (CouponTask a b c v) = a"
| "session_of (ShopTask a b c v) = a"
| "session_of (InjectTask a b c d v) = a"
| "session_of (ResetTask a b v) = a"
| "session_of (UpgradeTask a b c d e v) = a"
| "session_of (FriendAddTask a b c d e f v) = a"
| "session_of (FriendRemoveTask a b c v) = a"
| "session_of (BlockAddTask a b c v) = a"
| "session_of (BlockRemoveTask a b v) = a"
| "session_of (MailReadTask a v) = a"
| "session_of (MailDeleteTask a v) = a"
| "session_of (MailSendTask a b v) = a"
| "session_of (GiftDeleteTask a v) = a"
| "session_of (GiftReceiveTask a b c v) = a"
| "session_of (GiftSendTask a b c v) = a"
| "session_of (TradeTask a b v) = a"
| "session_of (VotekickTask a b c d e v) = a"
| "session_of (SpinTask a b c d v) = a"
| "session_of (PackageTask a b v) = a"
| "session_of (MissionTask a b v) = a"
| "session_of (BattlePassTask a v) = a"

text \<open>What follows the commit and the application leaves tables, items and account.\<close>

lemma SendMsg_keeps [simp]: "CAccount (SendMsg i order m x o' p w) = CAccount w" "CAccount (emit e w) = CAccount w"
  by (simp_all add: SendMsg_def emit_def)

lemma show_equip_keeps [simp]: "CAccount (show_equip g sid p ss w) = CAccount w"
  unfolding show_equip_def by (rule fold_same) simp

lemma send_friends_data: "data_of (send_friends sid order friends sv) = data_of sv"
proof (cases "friends = []")
  case False
  have "data_of (send_friends sid order friends sv) = data_of (fold (\<lambda>(i, batch).
      answer sid 63 0 (if i = 0 then List_Users else List_Users2) (of_nat (length batch)) (concat batch))
       (enumerate 0 (friend_batches friends)) sv)" using False by (simp add: send_friends_def)
  also have "\<dots> = data_of sv" by (rule fold_same) (simp split: prod.split)
  finally show ?thesis .
qed (simp add: send_friends_def)

lemma fold_answers_data:
  "data_of (fold (\<lambda>(mail_id, time, item). answer sid 66 0 Send_Gift 0 (le_bytes 4 mail_id @ le_bytes 4 time @ shop_item_bytes item)) gifts sv)
     = data_of sv"
  "data_of (fold (\<lambda>s. answer sid 89 0 1 0 (le_bytes 4 (1 :: u32) @ serial_bytes s)) ss sv) = data_of sv"
  by (rule fold_same, simp split: prod.split)+

lemma upd_world_data: "(\<And>w. CAccount (f w) = CAccount w) \<Longrightarrow> data_of (upd_world f sv) = data_of sv"
  by (simp add: upd_world_def)

lemma fold_spins_data:
  "data_of (fold (\<lambda>(lucky_type, items). answer sid 92 (spin_type lucky_type is_sale) Spin_Success (of_nat (length items))
              (concat (map shop_item_bytes items))) rolls sv) = data_of sv"
  by (rule fold_same) (simp split: prod.split)

lemma announce_data:
  "data_of (upd_world (fold (\<lambda>i. fold (\<lambda>won. SendServerMessage i (capsule_text name won)) announce) sids) sv) = data_of sv"
  by (intro upd_world_data fold_same) (simp add: SendServerMessage_def)

lemma upd_room_keeps [simp]: "CAccount (upd_room rid f w) = CAccount w"
  by (simp add: upd_room_def)

lemma votekick_data:
  "data_of (upd_world (\<lambda>w. fold (\<lambda>i. SendMsg i a b c d e) ids (upd_room rid f w)) sv) = data_of sv"
proof (rule upd_world_data)
  fix w
  show "CAccount (fold (\<lambda>i. SendMsg i a b c d e) ids (upd_room rid f w)) = CAccount w"
    using fold_same [of CAccount "\<lambda>i. SendMsg i a b c d e" ids "upd_room rid f w"] by simp
qed

lemma level_up_data: "data_of (upd_world (fold (\<lambda>i. SendMsg i a b c d e) ids) sv) = data_of sv"
  by (intro upd_world_data fold_same) simp

lemma package_answer_data: "data_of (package_answer sid use sv) = data_of sv"
  by (simp add: package_answer_def Let_def split: package_kind.split)

lemmas keeps [simp] = send_friends_data [unfolded prod.inject] fold_answers_data [unfolded prod.inject]
  fold_spins_data [unfolded prod.inject] announce_data [unfolded prod.inject] votekick_data [unfolded prod.inject]
  level_up_data [unfolded prod.inject] package_answer_data [unfolded prod.inject]

text \<open>The snapshot of the battle pass may write the player's row of the season, and nothing else.\<close>

lemma battlepass_keeps:
  assumes "sv' = SendBattlePassOnLogin now sid aid sv"
  shows "CAccount (sv_world sv') = CAccount (sv_world sv)" "sv_stores sv' = sv_stores sv" "sv_tasks sv' = sv_tasks sv"
    "db_items (sv_db sv') = db_items (sv_db sv)" "db_accounts (sv_db sv') = db_accounts (sv_db sv)"
  unfolding assms SendBattlePassOnLogin_def buildAck_def ensure_row_def persist_row_def PersistBattlePassPatches_def
  by (simp_all add: Let_def split: prod.split option.split sum.split)

text \<open>Running a task submits none.\<close>

lemma run_task_tasks: "sv_tasks (run_task g cm up junk now t sv) = sv_tasks sv"
proof -
  have c: "committed cm up now v k sv = (case commit cm now up v sv of (sv, out, Inl e) \<Rightarrow> sv | (sv, out, Inr v) \<Rightarrow> k v sv)" for v k
    by (simp add: committed_def)
  show ?thesis
    by (cases t) (auto simp: c finish_friend_add_def finish_block_add_def finish_friend_remove_def finish_equip_def
      finish_block_remove_def finish_mail_read_def finish_mail_delete_def finish_mail_send_def finish_gift_delete_def
      finish_gift_receive_def finish_gift_send_def finish_trade_def settle_def Let_def forget_social_def
      finish_sell_def finish_repair_def finish_delete_def finish_coupon_def finish_shop_def finish_inject_def finish_reset_def
      finish_upgrade_def finish_votekick_def finish_spin_def finish_package_def finish_mission_def finish_battlepass_def
      battlepass_keeps [OF refl]
      split: prod.split sum.split option.split if_split dest!: commit_keeps perform_keeps)
qed

lemma task_settles:
  assumes "commit cm now up (change_of t) sv = (sv1, out, Inr v')"
    and "CAccount (sv_world sv) (session_of t) = Some acc"
    and "ApplyDatabaseUpdates now v' acc (sv_stores sv) = (s, None)"
  shows "db_items (sv_db (run_task g cm up junk now t sv)) = db_items (sv_db sv1)
    \<and> db_accounts (sv_db (run_task g cm up junk now t sv)) = db_accounts (sv_db sv1)
    \<and> (\<exists>p. CAccount (sv_world (run_task g cm up junk now t sv)) (session_of t) = Some p
      \<and> pl_inventory_items p = items_of s \<and> pl_acc_info p = info_of s)"
proof -
  have 1: "sv_world sv1 = sv_world sv" "sv_stores sv1 = sv_stores sv" "sv_tasks sv1 = sv_tasks sv"
    using assms(1) by (auto simp: commit_def split: prod.splits)
  then have p: "perform junk now (session_of t) v' sv1
      = (sv1\<lparr>sv_world := upd_acc (session_of t) (\<lambda>_. as_player s) (sv_world sv1), sv_stores := as_stores s\<rparr>, None, as_player s)"
    using assms(2,3) by (simp add: perform_def get_acc_def)
  show ?thesis
  proof (cases t)
    case (EquipTask sid order n v)
    then show ?thesis using assms(1,2) p 1
      by (simp add: committed_def finish_equip_def Let_def upd_acc_def split: option.split)
  next
    case (FriendRemoveTask sid a b v)
    then show ?thesis using assms(1,2) p 1 
      by (simp add: finish_friend_remove_def Let_def upd_acc_def forget_social_def)
  qed (use assms(1,2) p 1 in \<open>simp_all add: committed_def finish_friend_add_def finish_block_add_def
      finish_block_remove_def finish_mail_read_def finish_mail_delete_def finish_mail_send_def finish_gift_delete_def
      finish_gift_receive_def finish_gift_send_def finish_trade_def settle_def Let_def upd_acc_def
      finish_sell_def finish_repair_def finish_delete_def finish_coupon_def finish_shop_def finish_inject_def finish_reset_def
      finish_upgrade_def finish_votekick_def finish_spin_def finish_package_def finish_mission_def finish_battlepass_def
      battlepass_keeps [OF refl]\<close>)
qed


definition shop_server :: server where
  "shop_server = \<lparr>sv_world = \<lparr>CAccount = [3 \<mapsto> owner], CRoom = Map.empty, CRoomId = [], CPlaza = Map.empty, CParty = Map.empty,
       CClan = Map.empty, m_roomIdGenerator = undefined, m_sessions = {|3|}, outbox = []\<rparr>,
     sv_stores = no_stores, sv_aid_sid = fmempty, sv_trades = no_trades, sv_db = tables, sv_tasks = [],
     sv_sids = [3], sv_sales = fmempty, sv_uptime_ms = 0, sv_rand = sconst 0\<rparr>"


end
