(* ===== verification/Trade_Props.thy ===== *)
theory Trade_Props
  imports Task_Props
begin

text \<open>
  What a trade moves: when both offers are owned, each side gets what the other offered and gives
  what it offered; when one side offers something it does not have, the other side gives nothing
  away but the offered items are copied. A running trade ends by two confirmations.
\<close>

section \<open>The change of one side\<close>

abbreviation owned :: "Player \<Rightarrow> ItemSerialInfo \<Rightarrow> bool" where
  "owned p s \<equiv> List.find (\<lambda>it. item_serial it = serial_data s) (pl_inventory_items p) \<noteq> None"

lemma collect_trade_deletes:
  "collect_ops g acc byp (map (\<lambda>s. Op_ItemDelete \<lparr>idel_serials = [s]\<rparr>) ss @ rest) (v, b)
    = (if list_all (owned acc) ss then collect_ops g acc byp rest (v\<lparr>v_items_deleted := v_items_deleted v @ ss\<rparr>, b) else Inl ItemNotFound)"
  by (induction ss arbitrary: v) (auto simp: collect_op_def)

definition side_change :: "u16 \<Rightarrow> u32 \<Rightarrow> ItemSerialInfo list \<Rightarrow> Item list \<Rightarrow> ValidatedDbUpdates" where
  "side_change sid aid given gained =
     (new_ValidatedDbUpdates (ucast sid) aid)\<lparr>v_items_deleted := given, v_items_added := gained\<rparr>"

lemma no_nets: "net_currencies (\<lambda>_. \<lparr>rewards = 0, costs = 0\<rparr>) = []"
  by (simp add: net_currencies_def finalize_currency_def Let_def)

lemma validate_side:
  "ValidateDatabaseUpdates g aids accounts st acc \<lparr>ctx_sid = ucast sid, ctx_aid = aid,
      ctx_ops = map (\<lambda>s. Op_ItemDelete \<lparr>idel_serials = [s]\<rparr>) given @ (if ids = [] then [] else [Op_ItemAdd c])\<rparr> True False
    = (if list_all (owned acc) given then Inr (side_change sid aid given (if ids = [] then [] else ia_items c)) else Inl ItemNotFound)"
  by (simp add: ValidateDatabaseUpdates_def collect_trade_deletes collect_op_def side_change_def new_ValidatedDbUpdates_def no_nets)

text \<open>One side of the exchange, with the account there.\<close>

lemma side_step:
  assumes "uid_session uid |\<in>| m_sessions (sv_world sv)" "CAccount (sv_world sv) (uid_session uid) = Some acc"
    and "acc_Index_of acc = aid" "ids \<noteq> []"
    and "CraftInventoryItems g now (pl_inventory_items acc) ids Origin_From_Game = Inr c"
  shows "ApplyTradeSide g now aids uid aid given ids sv =
    (if list_all (owned acc) given
     then sv\<lparr>sv_tasks := sv_tasks sv @ [TradeTask (uid_session uid) given (side_change (uid_session uid) aid given (ia_items c))]\<rparr>
     else sv)"
  using assms validate_side [of g aids "CAccount (sv_world sv)" "sv_stores sv" acc "uid_session uid" aid given ids c]
  by (simp add: ApplyTradeSide_def Let_def)

lemma craft_items_known:
  "craft_items g now origin ids serials items = Inr xs \<Longrightarrow> length ids \<le> length serials \<Longrightarrow>
     i \<in> set ids \<Longrightarrow> item_Id (or_null new_ItemInfo i (CItemsInfo g)) \<noteq> 0"
  by (induction g now origin ids serials items rule: craft_items.induct) (auto simp: Let_def split: if_splits)

lemma item_id_crafted: "item_Id info < 2 ^ 23 \<Longrightarrow> item_id_of (crafted_item now origin info s) = item_Id info"
  by (simp add: item_id_of_def crafted_item_def new_Item_def new_InventoryItemInfo_def new_InventoryItemNumber_def ucast_back23)

lemma crafted_ids:
  assumes craft: "CraftInventoryItems g now inventory ids origin = Inr c"
    and data: "\<And>i info. fmlookup (CItemsInfo g) i = Some info \<Longrightarrow> item_Id info = i"
    and small: "\<And>i. i \<in> set ids \<Longrightarrow> i < 2 ^ 23"
  shows "map item_id_of (ia_items c) = ids"
proof -
  let ?S = "FindLowestAvailableSerialIds inventory (length ids)"
  have len: "length ids \<le> length ?S" by (rule crafted(2) [OF craft])
  obtain xs where xs: "craft_items g now origin ids ?S [] = Inr xs"
    using craft by (cases "craft_items g now origin ids ?S []") (auto simp: CraftInventoryItems_def Let_def split: if_splits)
  have id: "item_Id (or_null new_ItemInfo i (CItemsInfo g)) = i" if "i \<in> set ids" for i
    using craft_items_known [OF xs len that] data [of i]
    by (auto simp: or_null_def cache_get_def new_ItemInfo_def split: option.splits)
  have "map item_id_of (ia_items c) = map fst (zip ids ?S)"
    unfolding crafted(1) [OF craft] map_map
  proof (rule map_cong [OF refl])
    fix p assume p: "p \<in> set (zip ids ?S)"
    obtain i k where ik: "p = (i, k)" by fastforce
    then have "i \<in> set ids" using p by (auto dest: set_zip_leftD)
    then show "(item_id_of \<circ> (\<lambda>(i, s). crafted_item now origin (or_null new_ItemInfo i (CItemsInfo g)) s)) p = fst p"
      using item_id_crafted [of "or_null new_ItemInfo i (CItemsInfo g)"] id [of i] small [of i] ik by simp
  qed
  then show ?thesis using len by (simp add: map_fst_zip_take)
qed

text \<open>The ids of the items behind the offered serials.\<close>

abbreviation offered_ids :: "Player \<Rightarrow> ItemSerialInfo list \<Rightarrow> u32 list" where
  "offered_ids p ss \<equiv> List.map_filter (\<lambda>s. map_option item_id_of
     (List.find (\<lambda>it. item_serial it = serial_data s) (pl_inventory_items p))) ss"

lemma item_id_small: "item_id_of it < 2 ^ 23"
proof -
  let ?w = "num_item_id (inv_item_number (it_item_info it))"
  have "unat (item_id_of it) \<le> unat ?w"
    by (simp add: item_id_of_def unsigned_ucast_eq take_bit_nat_less_eq_self)
  also have "unat ?w < 2 ^ 23" using unsigned_less [of ?w, where ?'a = nat] by simp
  finally show ?thesis by (simp add: word_less_nat_alt)
qed

lemma resolve_offered:
  "CAccount (sv_world sv) sid = Some p \<Longrightarrow> acc_Index_of p = aid \<Longrightarrow> ResolveOfferedItemIds ss aid sid sv = offered_ids p ss"
  by (simp add: ResolveOfferedItemIds_def)

lemma offered_small: "i \<in> set (offered_ids p ss) \<Longrightarrow> i < 2 ^ 23"
  using item_id_small by (auto simp: List.map_filter_def)

section \<open>The exchange\<close>

text \<open>Both accounts are where the trade says, and both offers lead to items.\<close>

definition trading :: "server \<Rightarrow> UniqueId \<Rightarrow> u32 \<Rightarrow> Player \<Rightarrow> bool" where
  "trading sv uid aid p \<longleftrightarrow> uid_session uid |\<in>| m_sessions (sv_world sv)
     \<and> CAccount (sv_world sv) (uid_session uid) = Some p \<and> acc_Index_of p = aid"

lemma EndTrade_keeps [simp]:
  "sv_world (upd_trades f sv) = sv_world sv" "sv_stores (upd_trades f sv) = sv_stores sv"
  "sv_tasks (upd_trades f sv) = sv_tasks sv" "sv_db (upd_trades f sv) = sv_db sv"
  by (simp_all add: upd_trades_def)

lemma exchange:
  assumes a: "trading sv my_uid aid p" and b: "trading sv partner_uid partner_aid q"
    and ids: "offered_ids q (offered_by partner_aid (sv_trades sv)) \<noteq> []" "offered_ids p (offered_by aid (sv_trades sv)) \<noteq> []"
    and c: "CraftInventoryItems g now (pl_inventory_items p) (offered_ids q (offered_by partner_aid (sv_trades sv))) Origin_From_Game = Inr c1"
      "CraftInventoryItems g now (pl_inventory_items q) (offered_ids p (offered_by aid (sv_trades sv))) Origin_From_Game = Inr c2"
  shows "sv_tasks (complete_trade g now aids my_uid aid partner_uid partner_aid sv) = sv_tasks sv
    @ (if list_all (owned p) (offered_by aid (sv_trades sv))
       then [TradeTask (uid_session my_uid) (offered_by aid (sv_trades sv))
               (side_change (uid_session my_uid) aid (offered_by aid (sv_trades sv)) (ia_items c1))] else [])
    @ (if list_all (owned q) (offered_by partner_aid (sv_trades sv))
       then [TradeTask (uid_session partner_uid) (offered_by partner_aid (sv_trades sv))
               (side_change (uid_session partner_uid) partner_aid (offered_by partner_aid (sv_trades sv)) (ia_items c2))] else [])"
proof -
  let ?mine = "offered_by aid (sv_trades sv)" and ?theirs = "offered_by partner_aid (sv_trades sv)"
  let ?sv = "upd_trades (EndTrade aid) sv"
  let ?sv1 = "ApplyTradeSide g now aids my_uid aid ?mine (offered_ids q ?theirs) ?sv"
  have s1: "?sv1 = (if list_all (owned p) ?mine then ?sv\<lparr>sv_tasks := sv_tasks sv @ [TradeTask (uid_session my_uid) ?mine
      (side_change (uid_session my_uid) aid ?mine (ia_items c1))]\<rparr> else ?sv)"
    using side_step [of my_uid ?sv p aid "offered_ids q ?theirs" g now c1 aids ?mine] a ids(1) c(1) by (simp add: trading_def)
  then have w: "sv_world ?sv1 = sv_world sv" by simp
  have "ApplyTradeSide g now aids partner_uid partner_aid ?theirs (offered_ids p ?mine) ?sv1
      = (if list_all (owned q) ?theirs then ?sv1\<lparr>sv_tasks := sv_tasks ?sv1 @ [TradeTask (uid_session partner_uid) ?theirs
          (side_change (uid_session partner_uid) partner_aid ?theirs (ia_items c2))]\<rparr> else ?sv1)"
    using b ids(2) c(2) by (intro side_step) (simp_all add: trading_def w)
  moreover have "complete_trade g now aids my_uid aid partner_uid partner_aid sv
      = ApplyTradeSide g now aids partner_uid partner_aid ?theirs (offered_ids p ?mine) ?sv1"
    using a b by (simp add: complete_trade_def Let_def trading_def resolve_offered)
  ultimately show ?thesis using s1 by simp
qed


text \<open>
  When one side offers, beside an item of its own, a serial it does not own, it keeps its
  items, but the partner is given copies of those it does own.
\<close>

theorem trade_duplicates_item:
  assumes "trading sv my_uid aid p" "trading sv partner_uid partner_aid q"
    and mine: "mine = offered_by aid (sv_trades sv)" "mine \<noteq> []" "list_all (owned p) mine"
    and theirs: "theirs = offered_by partner_aid (sv_trades sv)" "item \<in> set theirs" "owned q item" "fake \<in> set theirs" "\<not> owned q fake"
    and crafts: "CraftInventoryItems g now (pl_inventory_items p) (offered_ids q theirs) Origin_From_Game = Inr c1"
      "CraftInventoryItems g now (pl_inventory_items q) (offered_ids p mine) Origin_From_Game = Inr c2"
    and data: "\<And>i info. fmlookup (CItemsInfo g) i = Some info \<Longrightarrow> item_Id info = i"
  shows "\<exists>v1. sv_tasks (complete_trade g now aids my_uid aid partner_uid partner_aid sv)
      = sv_tasks sv @ [TradeTask (uid_session my_uid) mine v1]
    \<and> map item_id_of (v_items_added v1) = offered_ids q theirs \<and> v_items_added v1 \<noteq> []"
proof -
  have "offered_ids p mine \<noteq> []" using mine(2,3) by (cases mine) auto
  moreover have ne: "offered_ids q theirs \<noteq> []" using theirs(2,3) by (auto simp: List.map_filter_def filter_empty_conv)
  moreover have "\<not> list_all (owned q) theirs" using theirs(4,5) by (auto simp: list_all_iff)
  ultimately show ?thesis
    using exchange [OF assms(1,2), folded mine(1) theirs(1), OF _ _ crafts, of aids] mine(3)
      crafted_ids [OF crafts(1) data offered_small]
    by (auto simp: side_change_def new_ValidatedDbUpdates_def)
qed

section \<open>An exchange of two items\<close>

definition first_potion :: Item where "first_potion = crafted_item 9 0 potion 0"

definition trader :: "u32 \<Rightarrow> Player" where
  "trader aid = (new_Player undefined)\<lparr>pl_acc_info := new_FrontAccount\<lparr>acc_Index := aid\<rparr>, pl_inventory_items := [first_potion]\<rparr>"

definition offer_serial :: ItemSerialInfo where "offer_serial = inv_serial_info (it_item_info first_potion)"

definition market :: "ItemSerialInfo list \<Rightarrow> server" where
  "market theirs = shop_server\<lparr>
     sv_world := (sv_world shop_server)\<lparr>CAccount := [1 \<mapsto> trader 7, 2 \<mapsto> trader 9], m_sessions := {|1, 2|}\<rparr>,
     sv_trades := \<lparr>m_pending = fmempty, m_active = fmupd 9 ((trade_side 7 (new_UniqueId 1 1))\<lparr>te_offered := theirs\<rparr>)
       (fmupd 7 ((trade_side 9 (new_UniqueId 2 1))\<lparr>te_offered := [offer_serial]\<rparr>) fmempty)\<rparr>\<rparr>"

lemma craft_known:
  assumes "length inventory < 2 ^ 20"
  shows "\<exists>c. CraftInventoryItems potion_data 9 inventory [5] Origin_From_Game = Inr c"
proof -
  have "length (FindLowestAvailableSerialIds inventory 1) = 1" using assms by (intro reserved_fit(1)) simp
  then obtain s where "FindLowestAvailableSerialIds inventory 1 = [s]" by (auto simp: length_Suc_conv)
  then show ?thesis
    by (simp add: CraftInventoryItems_def Let_def potion_data_def or_null_def cache_get_def potion_def)
qed

lemma market_facts:
  "trading (market theirs) (new_UniqueId 1 1) 7 (trader 7)" "trading (market theirs) (new_UniqueId 2 1) 9 (trader 9)"
  "offered_by 7 (sv_trades (market theirs)) = [offer_serial]" "offered_by 9 (sv_trades (market theirs)) = theirs"
  "sv_tasks (market theirs) = []" "owned (trader a) offer_serial" "offered_ids (trader a) [offer_serial] = [5]"
  by (simp_all add: trading_def market_def trader_def acc_Index_of_def new_UniqueId_def offered_by_def GetTrade_def shop_server_def
      offer_serial_def item_serial_def List.map_filter_def first_potion_def item_id_crafted potion_def new_FrontAccount_def)

lemma potion_ids: "fmlookup (CItemsInfo potion_data) i = Some info \<Longrightarrow> item_Id info = i"
  by (auto simp: potion_data_def potion_def split: if_splits)


definition no_such_serial :: ItemSerialInfo where "no_such_serial = new_ItemSerialInfo 77 1 1 0 0"

lemma no_such: "\<not> owned (trader a) no_such_serial" "offered_ids (trader a) [offer_serial, no_such_serial] = [5]"
proof -
  have ne: "serial_data offer_serial \<noteq> serial_data no_such_serial"
    by (simp add: offer_serial_def first_potion_def crafted_item_def new_Item_def new_InventoryItemInfo_def no_such_serial_def
        new_ItemSerialInfo_def serial_data_def)
  then show no: "\<not> owned (trader a) no_such_serial"
    by (simp add: trader_def offer_serial_def item_serial_def)
  then show "offered_ids (trader a) [offer_serial, no_such_serial] = [5]"
    using market_facts(6,7) [of a] by (auto simp: List.map_filter_def)
qed

theorem trade_duplicates_item_witness:
  "\<exists>v1. sv_tasks (complete_trade potion_data 9 [] (new_UniqueId 1 1) 7 (new_UniqueId 2 1) 9 (market [offer_serial, no_such_serial]))
      = [TradeTask 1 [offer_serial] v1] \<and> map item_id_of (v_items_added v1) = [5]"
proof -
  obtain c where c: "CraftInventoryItems potion_data 9 [first_potion] [5] Origin_From_Game = Inr c" using craft_known [of "[first_potion]"] by auto
  have items: "pl_inventory_items (trader a) = [first_potion]" for a by (simp add: trader_def)
  let ?two = "[offer_serial, no_such_serial]"
  have "uid_session (new_UniqueId 1 1) = 1" by (simp add: new_UniqueId_def)
  then show ?thesis
    using trade_duplicates_item [OF market_facts(1,2) [of ?two] market_facts(3) [symmetric] _ _ market_facts(4) [symmetric],
        where item = offer_serial and fake = no_such_serial and g = potion_data and now = 9 and ?c1.0 = c and ?c2.0 = c and aids = "[]"]
      c potion_ids market_facts(5,6,7) no_such by (auto simp: items)
qed

section \<open>The end of a trade\<close>

lemma ApplyTradeSide_keeps [simp]:
  "sv_world (ApplyTradeSide g now aids uid aid given ids sv) = sv_world sv"
  "sv_trades (ApplyTradeSide g now aids uid aid given ids sv) = sv_trades sv"
  by (simp_all add: ApplyTradeSide_def Let_def split: option.split sum.split)

lemma complete_keeps [simp]:
  "sv_world (complete_trade g now aids u a v b sv) = sv_world sv"
  "sv_trades (complete_trade g now aids u a v b sv) = EndTrade a (sv_trades sv)"
  by (simp_all add: complete_trade_def Let_def) (simp add: upd_trades_def)

lemma in_trade_there:
  "CAccount (sv_world sv) sid = Some p \<Longrightarrow> acc_Index_of p = a \<Longrightarrow> a \<noteq> - 1 \<Longrightarrow> GetTrade a (sv_trades sv) = Some e \<Longrightarrow>
     in_trade sid f sv = f p a e sv"
  by (simp add: in_trade_def)

lemma in_trade_none: "CAccount (sv_world sv) sid = Some p \<Longrightarrow> GetTrade (acc_Index_of p) (sv_trades sv) = None \<Longrightarrow> in_trade sid f sv = sv"
  by (simp add: in_trade_def)

lemma upd_trades_trades [simp]: "sv_trades (upd_trades f sv) = f (sv_trades sv)"
  by (simp add: upd_trades_def)

lemma tell_keeps [simp]:
  "CAccount (sv_world (tell uid order m sv)) = CAccount (sv_world sv)" "sv_trades (tell uid order m sv) = sv_trades sv"
  by (simp_all add: tell_def)

text \<open>The second confirmation: the trade is over, and both are told.\<close>

lemma last_confirmation:
  assumes p: "CAccount (sv_world sv) sid = Some p" "acc_Index_of p = a" "a \<noteq> - 1"
    and e: "GetTrade a (sv_trades sv) = Some e" "GetTrade (te_partner_aid e) (sv_trades sv) = Some e'" "te_confirmed e'"
    and "a \<noteq> te_partner_aid e" "0 \<le>s te_partner_aid e" "uid_session (te_partner_uid e) |\<in>| m_sessions (sv_world sv)"
  shows "GetTrade a (sv_trades (TradeConfirm g now aids sid sv)) = None"
    and "GetTrade (te_partner_aid e) (sv_trades (TradeConfirm g now aids sid sv)) = None"
    and "Msg sid TRADE_COMPLETE 0 Trade_Success 0 [] \<in> set (outbox (sv_world (TradeConfirm g now aids sid sv)))"
    and "Msg (uid_session (te_partner_uid e)) TRADE_COMPLETE 0 Trade_Success 0 [] \<in> set (outbox (sv_world (TradeConfirm g now aids sid sv)))"
    and "CAccount (sv_world (TradeConfirm g now aids sid sv)) = CAccount (sv_world sv)"
  using assms
  by (simp_all add: TradeConfirm_def in_trade_there [OF p e(1)] BothConfirmed_def SetConfirmed_def upd_active_def at_entry_def
      GetTrade_def EndTrade_def EndLocked_def tell_def answer_def upd_world_def SendMsg_def emit_def Let_def)

lemma first_confirmation:
  assumes p: "CAccount (sv_world sv) sid = Some p" "acc_Index_of p = a" "a \<noteq> - 1"
    and e: "GetTrade a (sv_trades sv) = Some e" "GetTrade (te_partner_aid e) (sv_trades sv) = Some e'" "\<not> te_confirmed e'"
    and "a \<noteq> te_partner_aid e"
  shows "TradeConfirm g now aids sid sv = tell (te_partner_uid e) TRADE_CONFIRM [] (upd_trades (SetConfirmed a) sv)"
  using assms
  by (simp add: TradeConfirm_def in_trade_there [OF p e(1)] BothConfirmed_def SetConfirmed_def upd_active_def at_entry_def
      GetTrade_def Let_def)

text \<open>
  C39: A running trade completes when both sides confirm, whatever its state was and without any
  lock: after the two packets neither has a trade any more, and both are told.
\<close>

theorem two_confirmations_complete:
  assumes p: "CAccount (sv_world sv) sid1 = Some p" "acc_Index_of p = a" "0 \<le>s a"
    and q: "CAccount (sv_world sv) sid2 = Some q" "acc_Index_of q = b" "0 \<le>s b"
    and e1: "GetTrade a (sv_trades sv) = Some e1" "te_partner_aid e1 = b" "uid_session (te_partner_uid e1) = sid2"
    and e2: "GetTrade b (sv_trades sv) = Some e2" "te_partner_aid e2 = a" "uid_session (te_partner_uid e2) = sid1"
    and ne: "a \<noteq> b" and on: "sid1 |\<in>| m_sessions (sv_world sv)" "sid2 |\<in>| m_sessions (sv_world sv)"
  shows "let sv' = TradeConfirm g now aids sid2 (TradeConfirm g now aids sid1 sv) in
    GetTrade a (sv_trades sv') = None \<and> GetTrade b (sv_trades sv') = None
    \<and> Msg sid1 TRADE_COMPLETE 0 Trade_Success 0 [] \<in> set (outbox (sv_world sv'))
    \<and> Msg sid2 TRADE_COMPLETE 0 Trade_Success 0 [] \<in> set (outbox (sv_world sv'))"
proof -
  have m1: "a \<noteq> - 1" "b \<noteq> - 1" using p(3) q(3) by (auto simp: word_sle_eq)
  show ?thesis
  proof (cases "te_confirmed e2")
    case True
    have done1: "GetTrade a (sv_trades (TradeConfirm g now aids sid1 sv)) = None" "GetTrade b (sv_trades (TradeConfirm g now aids sid1 sv)) = None"
      "Msg sid1 TRADE_COMPLETE 0 Trade_Success 0 [] \<in> set (outbox (sv_world (TradeConfirm g now aids sid1 sv)))"
      "Msg sid2 TRADE_COMPLETE 0 Trade_Success 0 [] \<in> set (outbox (sv_world (TradeConfirm g now aids sid1 sv)))"
      "CAccount (sv_world (TradeConfirm g now aids sid1 sv)) = CAccount (sv_world sv)"
      using last_confirmation [OF p(1,2) m1(1) e1(1), unfolded e1(2,3), OF e2(1) True ne q(3) on(2), of g now aids] by simp_all
    have "TradeConfirm g now aids sid2 (TradeConfirm g now aids sid1 sv) = TradeConfirm g now aids sid1 sv"
      unfolding TradeConfirm_def [of g now aids sid2] by (rule in_trade_none [where p = q]) (simp_all add: done1(2,5) q)
    then show ?thesis using done1(1,2,3,4) by (simp add: Let_def)
  next
    case False
    let ?sv = "TradeConfirm g now aids sid1 sv"
    have sv: "?sv = tell (te_partner_uid e1) TRADE_CONFIRM [] (upd_trades (SetConfirmed a) sv)"
      using first_confirmation [OF p(1,2) m1(1) e1(1), unfolded e1(2,3), OF e2(1) False ne, of g now aids] by simp
    have r: "GetTrade b (sv_trades ?sv) = Some e2" "GetTrade a (sv_trades ?sv) = Some (e1\<lparr>te_confirmed := True\<rparr>)"
      using e1(1) e2(1) ne by (simp_all add: sv SetConfirmed_def upd_active_def at_entry_def GetTrade_def)
    have w: "CAccount (sv_world ?sv) sid2 = Some q" "sid1 |\<in>| m_sessions (sv_world ?sv)"
      using q(1) on by (simp_all add: sv tell_def upd_world_def SendMsg_def emit_def)
    show ?thesis
      using last_confirmation [OF w(1) q(2) m1(2) r(1), unfolded e2(2,3), OF r(2) _ ne [symmetric] p(3) w(2), of g now aids]
      by (simp add: Let_def)
  qed
qed

theorem two_confirmations_complete_witness:
  "\<forall>g now aids. GetTrade 7 (sv_trades (TradeConfirm g now aids 2 (TradeConfirm g now aids 1 (market [offer_serial])))) = None"
proof (intro allI)
  fix g now aids
  let ?e = "(trade_side 9 (new_UniqueId 2 1))\<lparr>te_offered := [offer_serial]\<rparr>" and ?f = "(trade_side 7 (new_UniqueId 1 1))\<lparr>te_offered := [offer_serial]\<rparr>"
  have m: "GetTrade 7 (sv_trades (market [offer_serial])) = Some ?e" "GetTrade 9 (sv_trades (market [offer_serial])) = Some ?f"
    "CAccount (sv_world (market [offer_serial])) 1 = Some (trader 7)" "CAccount (sv_world (market [offer_serial])) 2 = Some (trader 9)"
    "m_sessions (sv_world (market [offer_serial])) = {|1, 2|}"
    by (simp_all add: market_def GetTrade_def)
  have t: "te_partner_aid ?e = 9" "te_partner_aid ?f = 7" "uid_session (te_partner_uid ?e) = 2" "uid_session (te_partner_uid ?f) = 1"
    "acc_Index_of (trader 7) = 7" "acc_Index_of (trader 9) = 9"
    by (simp_all add: trade_side_def new_UniqueId_def trader_def acc_Index_of_def)
  show "GetTrade 7 (sv_trades (TradeConfirm g now aids 2 (TradeConfirm g now aids 1 (market [offer_serial])))) = None"
    using two_confirmations_complete [OF m(3) t(5) _ m(4) t(6) _ m(1) t(1,3) m(2) t(2,4), of g now aids] m(5)
    by (simp add: Let_def word_sle_eq)
qed

end
