(* ===== verification/Mail_Props.thy ===== *)
theory Mail_Props
  imports Task_Props
begin

text \<open>
  Mails and gifts: a mailbox never holds more mails than its limit, a view is cut into fragments
  that together are the whole box, and a gift named twice in one request is received twice.
\<close>

section \<open>The limit\<close>

abbreviation unread_by :: "u32 \<Rightarrow> MailboxData \<Rightarrow> bool" where
  "unread_by rid m \<equiv> mb_receiver_account_id m = rid \<and> \<not> mb_deleted_from_receiver m"

lemma mails_to_rows: "db_mailbox d = db_mailbox d' \<Longrightarrow> mails_to rid d = mails_to rid d'"
  by (simp add: mails_to_def)

lemma fewer_mails:
  assumes "\<And>m. unread_by rid (f m) \<Longrightarrow> unread_by rid m"
  shows "length (filter (unread_by rid) (map f (filter q ms))) \<le> length (filter (unread_by rid) ms)"
proof (induction ms)
  case (Cons m ms)
  then show ?case using assms [of m] by (cases "unread_by rid (f m)"; cases "q m") auto
qed simp

lemma fewer_deleted:
  "length (filter (unread_by rid) (delete_sent ids ms)) \<le> length (filter (unread_by rid) ms)"
  "length (filter (unread_by rid) (delete_received ids ms)) \<le> length (filter (unread_by rid) ms)"
  unfolding delete_sent_def delete_received_def by (rule fewer_mails; simp split: if_splits)+

lemma insert_one_bound:
  "insert_one now aid p d = Inr (p', d') \<Longrightarrow> mails_to rid d \<le> kMailboxLimit \<Longrightarrow> mails_to rid d' \<le> kMailboxLimit"
  by (auto simp: insert_one_def mails_to_def Let_def split: option.splits prod.splits if_splits)

lemma insert_mails_bound:
  "insert_mails now aid ps d = Inr (ps', d') \<Longrightarrow> mails_to rid d \<le> kMailboxLimit \<Longrightarrow> mails_to rid d' \<le> kMailboxLimit"
proof (induction ps arbitrary: ps' d d')
  case (Cons p ps)
  obtain p1 d1 where 1: "insert_one now aid p d = Inr (p1, d1)"
    using Cons.prems by (cases "insert_one now aid p d") auto
  obtain ps2 d2 where 2: "insert_mails now aid ps d1 = Inr (ps2, d2)" "d' = d2"
    using Cons.prems 1 by (cases "insert_mails now aid ps d1") auto
  show ?case using Cons.IH [OF 2(1)] insert_one_bound [OF 1 Cons.prems(2)] 2(2) by simp
qed simp

lemma mailbox_step:
  assumes "PersistMailboxPatches now t = Inr t'" "mails_to rid (tx_db t) \<le> kMailboxLimit"
  shows "mails_to rid (tx_db t') \<le> kMailboxLimit"
proof -
  let ?ps = "v_mailbox_patches (tx_v t)"
  let ?read = "patch_ids (\<lambda>m. mbp_op m = Mail_MarkRead \<and> mbp_read m = Some True) ?ps"
  let ?sent = "patch_ids (\<lambda>m. mbp_op m = Mail_Delete \<and> mbp_side m = Some Side_Sender) ?ps"
  let ?received = "patch_ids (\<lambda>m. mbp_op m = Mail_Delete \<and> mbp_side m = Some Side_Receiver) ?ps"
  let ?mark = "\<lambda>m. if mb_mail_id m \<in> set ?read then m\<lparr>mb_is_new := False\<rparr> else m"
  let ?rows = "map ?mark (db_mailbox (tx_db t))"
  obtain ps where i: "insert_mails now (v_aid (tx_v t)) ?ps ((tx_db t)\<lparr>db_mailbox := delete_received ?received (delete_sent ?sent ?rows)\<rparr>)
      = Inr (ps, tx_db t')"
    using assms(1) by (auto simp: PersistMailboxPatches_def Let_def split: if_splits sum.splits prod.splits)
  have "unread_by rid (?mark m) = unread_by rid m" for m by simp
  then have "length (filter (unread_by rid) ?rows) \<le> length (filter (unread_by rid) (db_mailbox (tx_db t)))"
    by (simp only: filter_map o_def length_map order.refl)
  then have "length (filter (unread_by rid) (delete_received ?received (delete_sent ?sent ?rows))) \<le> kMailboxLimit"
    using fewer_deleted [of rid] assms(2) unfolding mails_to_def by (meson order.trans)
  then show ?thesis using insert_mails_bound [OF i, of rid] by (simp add: mails_to_def)
qed

lemma other_steps_mails:
  "commit_currencies cm t = Inr t' \<Longrightarrow> db_mailbox (tx_db t') = db_mailbox (tx_db t)"
  "PersistAccountInfoPatches t = Inr t' \<Longrightarrow> db_mailbox (tx_db t') = db_mailbox (tx_db t)"
  "PersistItemDeletes t = Inr t' \<Longrightarrow> db_mailbox (tx_db t') = db_mailbox (tx_db t)"
  "PersistItemPatches t = Inr t' \<Longrightarrow> db_mailbox (tx_db t') = db_mailbox (tx_db t)"
  "PersistItemAdds t = Inr t' \<Longrightarrow> db_mailbox (tx_db t') = db_mailbox (tx_db t)"
  "PersistMissionsPatches t = Inr t' \<Longrightarrow> db_mailbox (tx_db t') = db_mailbox (tx_db t)"
  "PersistMonthlyRewardsPatches t = Inr t' \<Longrightarrow> db_mailbox (tx_db t') = db_mailbox (tx_db t)"
  "PersistWeeklyRewardsPatches t = Inr t' \<Longrightarrow> db_mailbox (tx_db t') = db_mailbox (tx_db t)"
  "PersistPlaytimePatches t = Inr t' \<Longrightarrow> db_mailbox (tx_db t') = db_mailbox (tx_db t)"
  "PersistBattlePassPatches t = Inr t' \<Longrightarrow> db_mailbox (tx_db t') = db_mailbox (tx_db t)"
  "PersistMatchHistoryAdds t = Inr t' \<Longrightarrow> db_mailbox (tx_db t') = db_mailbox (tx_db t)"
  "PersistPlayerSessionsPatches t = Inr t' \<Longrightarrow> db_mailbox (tx_db t') = db_mailbox (tx_db t)"
  "PersistPlayerSocialsPatches t = Inr t' \<Longrightarrow> db_mailbox (tx_db t') = db_mailbox (tx_db t)"
  "PersistGachaPityPatches t = Inr t' \<Longrightarrow> db_mailbox (tx_db t') = db_mailbox (tx_db t)"
  by (auto simp: commit_currencies_def PersistAccountInfoPatches_def PersistItemDeletes_def PersistItemPatches_def
      PersistItemAdds_def PersistMissionsPatches_def PersistMonthlyRewardsPatches_def PersistWeeklyRewardsPatches_def
      PersistPlaytimePatches_def PersistBattlePassPatches_def PersistMatchHistoryAdds_def PersistPlayerSessionsPatches_def
      PersistPlayerSocialsPatches_def PersistGachaPityPatches_def Let_def split: if_splits option.splits)

lemma tx_then_inv:
  assumes "\<forall>t. r = Inr t \<longrightarrow> P t" "\<And>t u. f t = Inr u \<Longrightarrow> P t \<Longrightarrow> P u"
  shows "\<forall>t. tx_then f r = Inr t \<longrightarrow> P t"
  using assms unfolding tx_then_Inr by metis

lemma persist_all_mails:
  assumes "persist_all cm now t = Inr t'" "mails_to rid (tx_db t) \<le> kMailboxLimit"
  shows "mails_to rid (tx_db t') \<le> kMailboxLimit"
proof -
  have "\<forall>t'. persist_all cm now t = Inr t' \<longrightarrow> mails_to rid (tx_db t') \<le> kMailboxLimit"
    unfolding persist_all_def
    by (intro tx_then_inv allI impI; (drule (1) mailbox_step, assumption | drule other_steps_mails))
      (use assms(2) in \<open>simp_all add: mails_to_def\<close>)
  then show ?thesis using assms(1) by simp
qed

text \<open>
  C40: No commit lets a mailbox grow above its limit of 100 mails, whatever it inserts: an insertion
  into a full mailbox fails, and with it the whole change.
\<close>

theorem mailboxes_stay_bounded:
  assumes "UpdateAccount cm now up v d = (d', out, r)" "mails_to rid d \<le> 100"
  shows "mails_to rid d' \<le> 100"
proof (cases "persist_all cm now \<lparr>tx_v = v, tx_db = d, tx_out = new_ResultDbUpdateInfo\<rparr>")
  case (Inr t)
  have "mails_to rid (tx_db t) \<le> 100" using persist_all_mails [OF Inr, of rid] assms(2) by (simp add: kMailboxLimit_def)
  then show ?thesis using assms Inr by (auto simp: UpdateAccount_def split: if_splits)
qed (use assms in \<open>auto simp: UpdateAccount_def split: if_splits\<close>)

theorem mailboxes_stay_bounded_witness:
  "\<exists>d' out. UpdateAccount (\<lambda>_. 2 ^ 32 - 1) 0 True (paid 60) tables = (d', out, Inr (paid 60)) \<and> mails_to 7 d' \<le> 100"
proof -
  obtain d' out where d': "UpdateAccount (\<lambda>_. 2 ^ 32 - 1) 0 True (paid 60) tables = (d', out, Inr (paid 60))" using commit_paid by blast
  moreover have "mails_to 7 tables \<le> 100" by (simp add: mails_to_def tables_def)
  ultimately show ?thesis using mailboxes_stay_bounded [OF d', of 7] by blast
qed

section \<open>Fragments\<close>

lemma outbox_answers:
  "outbox (sv_world (fold (\<lambda>i. answer sid order tab (x i) (n i) (p i)) is sv))
     = outbox (sv_world sv) @ map (\<lambda>i. Msg sid order tab (x i) (n i) (p i)) is"
  by (induction "is" arbitrary: sv) (simp_all add: answer_def upd_world_def emit_def)

text \<open>
  The fragments of a mailbox view carry all entries of the box in order, one to five each with
  their number in the header, and the confirmation is the last packet.
\<close>

theorem view_sends_whole_box:
  assumes "msgs \<noteq> []"
  shows "\<exists>batches types. concat batches = msgs \<and> length types = length batches
    \<and> (\<forall>b. b \<in> set batches \<longrightarrow> 1 \<le> length b \<and> length b \<le> 5)
    \<and> outbox (sv_world (send_box sid order tab msgs sv)) = outbox (sv_world sv)
        @ map (\<lambda>(x, b). Msg sid order tab x (of_nat (length b)) (concat b)) (zip types batches)
        @ [Msg sid order tab Open_Confirm 0 []]"
proof -
  let ?k = "(length msgs + 5 - 1) div 5" and ?b = "\<lambda>i. take 5 (drop (i * 5) msgs)"
  let ?x = "\<lambda>i. if ?k = 1 \<or> i \<noteq> 0 then Open_SendMails2 else Open_SendMails"
  have "length msgs \<le> ?k * 5" by presburger
  then have "concat (map ?b [0..<?k]) = msgs" by (simp only: concat_batches take_all)
  moreover have "1 \<le> length b \<and> length b \<le> 5" if b: "b \<in> set (map ?b [0..<?k])" for b
  proof -
    obtain i where i: "i < ?k" "b = ?b i" using b by auto
    then have "i * 5 < length msgs" by presburger
    then show ?thesis using i(2) by simp
  qed
  moreover have "outbox (sv_world (send_box sid order tab msgs sv)) = outbox (sv_world sv)
      @ map (\<lambda>(x, b). Msg sid order tab x (of_nat (length b)) (concat b)) (zip (map ?x [0..<?k]) (map ?b [0..<?k]))
      @ [Msg sid order tab Open_Confirm 0 []]"
  proof -
    have "outbox (sv_world (send_box sid order tab msgs sv)) =
        outbox (sv_world (fold (\<lambda>i. answer sid order tab (?x i) (of_nat (length (?b i))) (concat (?b i))) [0..<?k] sv))
        @ [Msg sid order tab Open_Confirm 0 []]"
      using assms by (simp add: send_box_def Let_def answer_def [of sid order tab Open_Confirm] upd_world_def emit_def)
    then show ?thesis unfolding outbox_answers by (simp add: zip_map_map zip_same_conv_map)
  qed
  ultimately show ?thesis by (intro exI [of _ "map ?b [0..<?k]"] exI [of _ "map ?x [0..<?k]"]) simp
qed

theorem view_sends_whole_box_witness:
  "\<exists>batches. concat batches = ([[1], [2]] :: bytes list) \<and> (\<forall>b. b \<in> set batches \<longrightarrow> length b \<le> 5)"
  using view_sends_whole_box [of "[[1], [2]]" 3 106 0 shop_server] by auto

section \<open>Gifts\<close>

lemma validate_gifts:
  assumes "\<And>i. i \<in> set ids \<Longrightarrow> i \<noteq> 0 \<and> mb_mail_id (or_null new_MailboxData i (CMailboxData st)) \<noteq> 0"
    and "length (pl_inventory_items acc) \<le> unat (acc_MaximumItems (pl_acc_info acc))"
  shows "\<exists>v. ValidateDatabaseUpdates g aids accounts st acc \<lparr>ctx_sid = s, ctx_aid = aid,
      ctx_ops = map (delete_op Side_Receiver) ids @ [Op_ItemAdd \<lparr>ia_items = its\<rparr>]\<rparr> False False = Inr v
    \<and> v_items_added v = its \<and> v_items_deleted v = [] \<and> v_items_patches v = [] \<and> v_aid v = aid"
proof -
  have c: "collect_ops g acc False (map (delete_op Side_Receiver) ids @ ops) (v, b)
      = collect_ops g acc False ops (v\<lparr>v_mailbox_patches := v_mailbox_patches v
          @ map (\<lambda>i. new_MailboxPatch\<lparr>mbp_op := Mail_Delete, mbp_mail_id := i, mbp_side := Some Side_Receiver\<rparr>) ids\<rparr>, b)" for v b ops
    by (induction ids arbitrary: v) (simp_all add: collect_op_def delete_op_def)
  have m: "first_error (check_mail aids accounts st acc)
      (map (\<lambda>i. new_MailboxPatch\<lparr>mbp_op := Mail_Delete, mbp_mail_id := i, mbp_side := Some Side_Receiver\<rparr>) ids) = None"
    using assms(1) by (induction ids) (simp_all add: check_mail_def)
  have "\<not> unat (acc_MaximumItems (pl_acc_info acc)) < length (pl_inventory_items acc)" using assms(2) by simp
  then show ?thesis
    by (simp add: ValidateDatabaseUpdates_def c m collect_op_def new_ValidatedDbUpdates_def net_currencies_def finalize_currency_def Let_def)
qed

text \<open>
  A request that names the same gift twice is given its item twice: the change deletes the one
  mail and adds two items with different serials, and its commit adds both rows.
\<close>

theorem gift_claimed_twice:
  assumes acc: "CAccount (sv_world sv) sid = Some acc" "acc_Index_of acc \<noteq> - 1"
    and gift: "mb_gift_itemid (mail_of i sv) \<noteq> 0" "mb_receiver_account_id (mail_of i sv) = acc_Index_of acc"
      "\<not> mb_deleted_from_receiver (mail_of i sv)" "i \<noteq> 0" "mb_mail_id (mail_of i sv) \<noteq> 0"
    and item: "item_Id (or_null new_ItemInfo (mb_gift_itemid (mail_of i sv)) (CItemsInfo g)) \<noteq> 0"
    and room: "length (pl_inventory_items acc) \<le> unat (acc_MaximumItems (pl_acc_info acc))" "length (pl_inventory_items acc) + 2 \<le> 2 ^ 20"
  shows "\<exists>gifts items v x y. sv_tasks (GiftReceive g now aids sid 2 (\<lambda>_. i) sv) = sv_tasks sv @ [GiftReceiveTask sid gifts items v]
    \<and> v_items_added v = [x, y] \<and> item_serial x \<noteq> item_serial y \<and> num_item_id (inv_item_number (it_item_info x)) = num_item_id (inv_item_number (it_item_info y))
    \<and> (\<forall>cm now' up d d' out v'. UpdateAccount cm now' up v d = (d', out, Inr v') \<longrightarrow>
         rows_of (acc_Index_of acc) d' = rows_of (acc_Index_of acc) d @ [row_of (acc_Index_of acc) x, row_of (acc_Index_of acc) y])"
proof -
  let ?items = "pl_inventory_items acc" and ?aid = "acc_Index_of acc" and ?m = "mail_of i sv"
  let ?info = "or_null new_ItemInfo (mb_gift_itemid ?m) (CItemsInfo g)"
  let ?item = "\<lambda>k. bought_item (shop_item now (mb_gift_itemid ?m) ?info k) (mb_gift_itemid ?m) ?info"
  have len: "length (FindLowestAvailableSerialIds ?items 2) = 2" and small: "\<forall>k \<in> set (FindLowestAvailableSerialIds ?items 2). k < 2 ^ 20"
    using reserved_fit [OF room(2)] by auto
  obtain a b where ab: "FindLowestAvailableSerialIds ?items 2 = [a, b]" using len by (auto simp: numeral_2_eq_2 length_Suc_conv)
  have "a \<noteq> b" using lowest_distinct [of ?items 2] ab by simp
  moreover have "a < 2 ^ 20" "b < 2 ^ 20" using small ab by simp_all
  ultimately have ne: "(of_nat a :: 20 word) \<noteq> of_nat b" by (simp add: word_of_nat_eq_iff take_bit_nat_eq_self)
  have ids: "serial_id (?item k) = of_nat k" for k
    by (simp add: bought_item_def shop_item_def new_Item_def new_InventoryItemInfo_def new_ItemSerialInfo_def ucast_of_nat_20)
  have serials: "item_serial (?item a) \<noteq> item_serial (?item b)"
    using ne ids [of a] ids [of b] by (auto simp: item_serial_def)
  have two: "[0..<2] = [0, 1 :: nat]" by (simp add: upt_rec)
  have one: "receive_one g now ?aid sv i k = ([delete_op Side_Receiver i],
      [(i, mb_time ?m, shop_item now (mb_gift_itemid ?m) ?info k)], [?item k])" for k
    using gift item by (simp add: receive_one_def Let_def)
  obtain v where v: "ValidateDatabaseUpdates g aids (CAccount (sv_world sv)) (sv_stores sv) acc
      \<lparr>ctx_sid = ucast sid, ctx_aid = ?aid, ctx_ops = map (delete_op Side_Receiver) [i, i] @ [Op_ItemAdd \<lparr>ia_items = [?item a, ?item b]\<rparr>]\<rparr>
      False False = Inr v" "v_items_added v = [?item a, ?item b]" "v_items_deleted v = []" "v_items_patches v = []" "v_aid v = ?aid"
    using validate_gifts [where ids = "[i, i]" and st = "sv_stores sv" and acc = acc and its = "[?item a, ?item b]" and aid = ?aid
        and s = "ucast sid" and g = g and aids = aids and accounts = "CAccount (sv_world sv)"] gift(4,5) room(1)
    unfolding mail_of_def by auto
  obtain gifts items where "sv_tasks (GiftReceive g now aids sid 2 (\<lambda>_. i) sv) = sv_tasks sv @ [GiftReceiveTask sid gifts items v]"
    using acc v(1) by (simp add: GiftReceive_def Let_def two one ab submit_def)
  moreover have "rows_of ?aid d' = rows_of ?aid d @ [row_of ?aid (?item a), row_of ?aid (?item b)]"
    if u: "UpdateAccount cm now' up v d = (d', out, Inr v')" for cm now' up d d' out v'
  proof -
    obtain t where "persist_all cm now' \<lparr>tx_v = v, tx_db = d, tx_out = new_ResultDbUpdateInfo\<rparr> = Inr t" "d' = tx_db t"
      using u by (auto simp: UpdateAccount_def split: if_splits sum.splits)
    then show ?thesis using committed_items [of cm now' _ t ?aid] v by simp
  qed
  moreover have "num_item_id (inv_item_number (it_item_info (?item a))) = num_item_id (inv_item_number (it_item_info (?item b)))"
    by (simp add: bought_item_def new_Item_def new_InventoryItemInfo_def)
  ultimately show ?thesis using v(2) serials by blast
qed

definition gift_mail :: MailboxData where
  "gift_mail = new_MailboxData\<lparr>mb_mail_id := 4, mb_gift_itemid := 5, mb_receiver_account_id := 7\<rparr>"

definition gifted :: server where
  "gifted = shop_server\<lparr>
     sv_world := (sv_world shop_server)\<lparr>CAccount := [3 \<mapsto> (upd_info (\<lambda>a. a\<lparr>acc_Index := 7, acc_MaximumItems := 50\<rparr>) owner)]\<rparr>,
     sv_stores := no_stores\<lparr>CMailboxData := fmupd 4 gift_mail fmempty\<rparr>\<rparr>"

theorem gift_claimed_twice_witness:
  "\<exists>gifts items v. sv_tasks (GiftReceive potion_data 9 [] 3 2 (\<lambda>_. 4) gifted) = [GiftReceiveTask 3 gifts items v]
     \<and> length (v_items_added v) = 2"
proof -
  have m: "mail_of 4 gifted = gift_mail" by (simp add: gifted_def mail_of_def or_null_def cache_get_def)
  have i: "or_null new_ItemInfo 5 (CItemsInfo potion_data) = potion" by (simp add: potion_data_def or_null_def cache_get_def)
  have a: "CAccount (sv_world gifted) 3 = Some (upd_info (\<lambda>a. a\<lparr>acc_Index := 7, acc_MaximumItems := 50\<rparr>) owner)" "sv_tasks gifted = []"
    by (simp_all add: gifted_def shop_server_def)
  show ?thesis
    using gift_claimed_twice [OF a(1), of 4 potion_data 9 "[]"] m i a(2)
    by (fastforce simp: gift_mail_def acc_Index_of_def upd_info_def owner_def potion_def new_MailboxData_def)
qed

end
