(* ===== verification/Social_Props.thy ===== *)
theory Social_Props
  imports Task_Props
begin

text \<open>
  Friends and blocks: what the friend list is cut into, and how an acceptance nobody asked for, and
  even one of a player who has blocked the sender, makes a friendship.
\<close>

section \<open>Social changes\<close>

lemma validate_social:
  "ValidateDatabaseUpdates g aids accounts st acc \<lparr>ctx_sid = s, ctx_aid = aid, ctx_ops = [Op_Social p]\<rparr> False False
    = Inr ((new_ValidatedDbUpdates s aid)\<lparr>v_player_social_patches := [p]\<rparr>)"
  by (simp add: ValidateDatabaseUpdates_def collect_op_def new_ValidatedDbUpdates_def net_currencies_def finalize_currency_def Let_def)

lemma commit_social:
  "UpdateAccount cm now True ((new_ValidatedDbUpdates s aid)\<lparr>v_player_social_patches := [p]\<rparr>) d = (d', out, r) \<Longrightarrow>
    \<exists>t. PersistPlayerSocialsPatches \<lparr>tx_v = (new_ValidatedDbUpdates s aid)\<lparr>v_player_social_patches := [p]\<rparr>, tx_db = d, tx_out = new_ResultDbUpdateInfo\<rparr> = Inr t
      \<and> d' = tx_db t \<and> r = Inr ((new_ValidatedDbUpdates s aid)\<lparr>v_player_social_patches := [p]\<rparr>)"
  by (simp add: UpdateAccount_def persist_all_def commit_currencies_def tx_then_def PersistGachaPityPatches_def PersistPlayerSocialsPatches_def
      PersistPlayerSessionsPatches_def PersistMatchHistoryAdds_def PersistBattlePassPatches_def PersistPlaytimePatches_def
      PersistWeeklyRewardsPatches_def PersistMonthlyRewardsPatches_def PersistMailboxPatches_def PersistMissionsPatches_def
      PersistItemAdds_def PersistItemPatches_def PersistItemDeletes_def PersistAccountInfoPatches_def new_ValidatedDbUpdates_def Let_def
      patch_ids_def delete_sent_def delete_received_def)

text \<open>
  An acceptance needs no request: for a nickname that is not online, the account id in the
  packet is taken as it is, and after the commit the two accounts are friends in both directions,
  whatever the table said before, even if the other account had blocked the sender.
\<close>

theorem acceptance_overrides_block:
  assumes acc: "CAccount (sv_world sv) sid = Some acc" "acc_Index_of acc \<noteq> - 1" "acc_Index_of acc \<noteq> 0"
    and list: "length (accepted (socials_of sid sv)) < 100" "GetPlayerSocial (socials_of sid sv) (acc_Index_of acc) = None"
    and nick: "oni_aid (ResolveOnlineByNickname aids (CAccount (sv_world sv)) nick) = - 1" "acc_Nickname (pl_acc_info acc) \<noteq> nick"
    and target: "target \<noteq> 0" "target \<noteq> acc_Index_of acc"
  shows "\<exists>v. sv_tasks (FriendsAdd g aids sid Friends_RequestRecv nick 0 target sv)
      = sv_tasks sv @ [FriendAddTask sid (acc_Index_of acc) target nick (uid_of_data 0) Social_Accepted v]
    \<and> (\<forall>cm now d d' out r. UpdateAccount cm now True v d = (d', out, r) \<longrightarrow> r = Inr v
        \<and> fmlookup (db_socials d') (target, acc_Index_of acc) = Some Social_Accepted
        \<and> fmlookup (db_socials d') (acc_Index_of acc, target) = Some Social_Accepted)"
proof -
  let ?p = "\<lparr>psp_op = Social_InsertOrUpdate, psp_aid = acc_Index_of acc, psp_targetAid = target,
      psp_State = Some Social_Accepted, psp_TargetNickname = Some nick\<rparr>"
  let ?v = "(new_ValidatedDbUpdates (ucast sid) (acc_Index_of acc))\<lparr>v_player_social_patches := [?p]\<rparr>"
  have t: "friend_target Friends_RequestRecv nick 0 target aids sv = (nick, uid_of_data 0, target)"
    using nick(1) by (simp add: friend_target_def Let_def Friends_RequestRecv_def)
  have c: "Friends_RequestRecv \<noteq> Friends_RequestSend" "uid_session (uid_of_data 0) = 0"
    by (simp_all add: Friends_RequestRecv_def Friends_RequestSend_def uid_of_data_def)
  have "sv_tasks (FriendsAdd g aids sid Friends_RequestRecv nick 0 target sv)
      = sv_tasks sv @ [FriendAddTask sid (acc_Index_of acc) target nick (uid_of_data 0) Social_Accepted ?v]"
    using acc list nick(2) validate_social c
    by (simp add: FriendsAdd_def Let_def t submit_def not_le)
  moreover have "r = Inr ?v \<and> fmlookup (db_socials d') (target, acc_Index_of acc) = Some Social_Accepted
      \<and> fmlookup (db_socials d') (acc_Index_of acc, target) = Some Social_Accepted"
    if u: "UpdateAccount cm now True ?v d = (d', out, r)" for cm now d d' out r
    using commit_social [OF u] acc(3) target
    by (auto simp: PersistPlayerSocialsPatches_def Let_def new_ValidatedDbUpdates_def List.map_filter_def social_target_def
        social_upserts_def social_deletes_def set_if_def)
  ultimately show ?thesis by blast
qed

definition social_server :: server where
  "social_server = shop_server\<lparr>sv_world := (sv_world shop_server)\<lparr>CAccount := [3 \<mapsto> (upd_info (\<lambda>a. a\<lparr>acc_Index := 7\<rparr>) owner)]\<rparr>\<rparr>"

theorem acceptance_overrides_block_witness:
  "\<forall>g. \<exists>v. sv_tasks (FriendsAdd g [] 3 Friends_RequestRecv ''nobody'' 0 12 social_server)
      = [FriendAddTask 3 7 12 ''nobody'' (uid_of_data 0) Social_Accepted v]"
proof
  fix g
  have "CAccount (sv_world social_server) 3 = Some (upd_info (\<lambda>a. a\<lparr>acc_Index := 7\<rparr>) owner)" "sv_tasks social_server = []"
    "socials_of 3 social_server = []"
    by (simp_all add: social_server_def shop_server_def socials_of_def no_stores_def or_null_def cache_get_def)
  then show "\<exists>v. sv_tasks (FriendsAdd g [] 3 Friends_RequestRecv ''nobody'' 0 12 social_server)
      = [FriendAddTask 3 7 12 ''nobody'' (uid_of_data 0) Social_Accepted v]"
    using acceptance_overrides_block [where sv = social_server and sid = 3 and nick = "''nobody''" and target = 12 and aids = "[]" and g = g]
    by (fastforce simp: acc_Index_of_def upd_info_def owner_def rich_def accepted_def GetPlayerSocial_def new_OnlineNickIdentity_def
        new_FrontAccount_def)
qed

section \<open>Fragments of the friend list\<close>

text \<open>
  The fragments of a friend list carry all friends in order, at most 51 each; the last one is
  empty exactly when the number of friends is a multiple of 51.
\<close>

theorem friend_fragments:
  "concat (friend_batches friends) = friends \<and> list_all (\<lambda>b. length b \<le> 51) (friend_batches friends)
   \<and> (last (friend_batches friends) = [] \<longleftrightarrow> 51 dvd length friends)"
proof -
  let ?k = "length friends div 51"
  have b: "friend_batches friends = map (\<lambda>i. take 51 (drop (i * 51) friends)) [0..<Suc ?k]"
    by (simp add: friend_batches_def max_friends_per_fragment_def)
  have "length friends \<le> Suc ?k * 51" by presburger
  then have "concat (friend_batches friends) = friends" unfolding b by (simp only: concat_batches take_all)
  moreover have "list_all (\<lambda>b. length b \<le> 51) (friend_batches friends)" unfolding b by (simp add: list_all_iff)
  moreover have "last (friend_batches friends) = [] \<longleftrightarrow> length friends \<le> ?k * 51" unfolding b by simp
  moreover have "length friends \<le> ?k * 51 \<longleftrightarrow> 51 dvd length friends" by presburger
  ultimately show ?thesis by simp
qed

end
