(* ===== verification/Match_Rewards.thy ===== *)
theory Match_Rewards
  imports Server Updates Selection Rate_Limit
begin

text \<open>
  What the end of a match computes from the host's report (\<open>handlers/Room/Match/End.h\<close>): the report
  of a player, who led in what, experience and points, the wear of the worn items, the balance of
  damage per round, and the response. The report is read out of the packet buffer without regard to
  its length, so the buffer is a function from the index to what lies there. Scores of the code are
  32-bit signed; the counts they are made of are bytes, so they do not overflow and are \<open>int\<close> here.
\<close>

section \<open>Reports\<close>

record end_info =
  ei_melee_kills :: u8
  ei_rifle_kills :: u8
  ei_shotgun_kills :: u8
  ei_sniper_kills :: u8
  ei_gatling_kills :: u8
  ei_bazooka_kills :: u8
  ei_grenade_kills :: u8
  ei_killstreak :: u8
  ei_total_kills :: u8
  ei_deaths :: u8
  ei_headshots :: u8
  ei_assists :: u8
  ei_mission :: u8
  ei_missionWin :: u8
  ei_unknown3 :: u8
  ei_unknown4 :: u8
  ei_unique_id :: u32

record boss_info =
  bi_unique_id :: u32
  bi_unk1 :: u32
  bi_pve007_state :: u16
  bi_unk2 :: u16
  bi_unk3 :: "u32 list"

datatype ClientInfoVariant = PvpInfo end_info | BossInfo boss_info

record ClientInfo =
  cl_unique_id :: u32
  cl_info :: ClientInfoVariant

type_synonym buffer = "nat \<Rightarrow> u8"

definition peek :: "buffer \<Rightarrow> nat \<Rightarrow> nat \<Rightarrow> bytes" where
  "peek data off n = map (\<lambda>i. data (off + i)) [0..<n]"

definition read_end_info :: "buffer \<Rightarrow> nat \<Rightarrow> end_info" where
  "read_end_info data off = \<lparr>
     ei_melee_kills = data off, ei_rifle_kills = data (off + 1), ei_shotgun_kills = data (off + 2), ei_sniper_kills = data (off + 3),
     ei_gatling_kills = data (off + 4), ei_bazooka_kills = data (off + 5), ei_grenade_kills = data (off + 6),
     ei_killstreak = data (off + 7), ei_total_kills = data (off + 8), ei_deaths = data (off + 9), ei_headshots = data (off + 10),
     ei_assists = data (off + 11), ei_mission = data (off + 12), ei_missionWin = data (off + 13), ei_unknown3 = data (off + 14),
     ei_unknown4 = data (off + 15), ei_unique_id = le_word (peek data (off + 16) 4)\<rparr>"

definition read_boss_info :: "buffer \<Rightarrow> nat \<Rightarrow> boss_info" where
  "read_boss_info data off = \<lparr>
     bi_unique_id = le_word (peek data off 4), bi_unk1 = le_word (peek data (off + 4) 4),
     bi_pve007_state = le_word (peek data (off + 8) 2), bi_unk2 = le_word (peek data (off + 10) 2),
     bi_unk3 = map (\<lambda>i. le_word (peek data (off + 12 + 4 * i) 4)) [0..<16]\<rparr>"

text \<open>The first entry of a player counts.\<close>

definition report_entry :: "bool \<Rightarrow> buffer \<Rightarrow> nat \<Rightarrow> ClientInfo" where
  "report_entry is_boss data i =
    (if is_boss then \<lparr>cl_unique_id = bi_unique_id (read_boss_info data (76 * i)), cl_info = BossInfo (read_boss_info data (76 * i))\<rparr>
     else \<lparr>cl_unique_id = ei_unique_id (read_end_info data (20 * i + 4)), cl_info = PvpInfo (read_end_info data (20 * i + 4))\<rparr>)"

definition report_sid :: "ClientInfo \<Rightarrow> u16" where
  "report_sid e = uid_session (uid_of_data (cl_unique_id e))"

primrec parse_infos :: "ClientInfo list \<Rightarrow> (u16, ClientInfo) fmap \<Rightarrow> u16 list \<times> (u16, ClientInfo) fmap" where
  "parse_infos [] cli = ([], cli)"
| "parse_infos (e # es) cli =
    (if report_sid e |\<in>| fmdom cli then parse_infos es cli
     else case parse_infos es (fmupd (report_sid e) e cli) of (sids, cli) \<Rightarrow> (report_sid e # sids, cli))"

section \<open>Floating point\<close>

text \<open>
  Rounding a non-negative number to \<open>p\<close> significant bits, a half to even: what an operation on
  \<open>float\<close> (24 bits) and \<open>double\<close> (53 bits) does to its exact result while the exponent stays in
  range, as it does below.
\<close>

definition round_even :: "rat \<Rightarrow> int" where
  "round_even x = (let f = \<lfloor>x\<rfloor>; r = x - of_int f in if r < 1 / 2 \<or> r = 1 / 2 \<and> even f then f else f + 1)"

fun bitlen :: "nat \<Rightarrow> nat" where
  "bitlen n = (if n = 0 then 0 else Suc (bitlen (n div 2)))"

declare bitlen.simps [simp del]

definition two_to :: "int \<Rightarrow> rat" where
  "two_to e = (if 0 \<le> e then 2 ^ nat e else 1 / 2 ^ nat (- e))"

definition exponent :: "rat \<Rightarrow> int" where
  "exponent x = (case quotient_of x of (n, d) \<Rightarrow>
     let k = int (bitlen (nat n)) - int (bitlen (nat d)) in if two_to k \<le> x then k else k - 1)"

definition fround :: "nat \<Rightarrow> rat \<Rightarrow> rat" where
  "fround p x = (if x \<le> 0 then 0 else let u = two_to (exponent x - int p + 1) in of_int (round_even (x / u)) * u)"

abbreviation f32 :: "rat \<Rightarrow> rat" where "f32 \<equiv> fround 24"
abbreviation f64 :: "rat \<Rightarrow> rat" where "f64 \<equiv> fround 53"

definition f_u32 :: "u32 \<Rightarrow> rat" where
  "f_u32 w = of_nat (unat w)"

section \<open>Leaders\<close>

record Leader =
  ld_sid :: u32
  ld_pts :: int

definition no_leader :: Leader where
  "no_leader = \<lparr>ld_sid = 0, ld_pts = 0\<rparr>"

definition bump_score :: "u32 \<Rightarrow> int \<Rightarrow> Leader \<Rightarrow> Leader" where
  "bump_score sid pts L = (if pts > ld_pts L then \<lparr>ld_sid = sid, ld_pts = pts\<rparr> else L)"

record LeaderDerived =
  der_base_mvp :: int
  der_kd_rank :: int
  der_heads :: int
  der_assists :: int
  der_streak :: int
  der_boom :: int
  der_ctb_cap :: int
  der_bomb_won :: int
  der_arms_pts :: int
  der_zombie :: int

definition zero_derived :: LeaderDerived where
  "zero_derived = \<lparr>der_base_mvp = 0, der_kd_rank = 0, der_heads = 0, der_assists = 0, der_streak = 0, der_boom = 0,
     der_ctb_cap = 0, der_bomb_won = 0, der_arms_pts = 0, der_zombie = 0\<rparr>"

abbreviation i8 :: "u8 \<Rightarrow> int" where "i8 b \<equiv> int (unat b)"

definition derive :: "bool \<Rightarrow> u32 \<Rightarrow> end_info \<Rightarrow> LeaderDerived" where
  "derive is_zombie streak i = \<lparr>
     der_base_mvp = i8 (ei_total_kills i) * 2 + i8 (ei_assists i),
     der_kd_rank = (if ei_deaths i = 0 then i8 (ei_total_kills i) * 10000 else i8 (ei_total_kills i) * 10000 div i8 (ei_deaths i)),
     der_heads = (if ei_total_kills i = 0 then 0
       else (i8 (ei_headshots i) * 10000 + i8 (ei_total_kills i) div 2) div i8 (ei_total_kills i)),
     der_assists = i8 (ei_assists i), der_streak = sint streak,
     der_boom = i8 (ei_bazooka_kills i) + i8 (ei_grenade_kills i),
     der_ctb_cap = i8 (ei_mission i), der_bomb_won = i8 (ei_missionWin i), der_arms_pts = i8 (ei_mission i),
     der_zombie = (if is_zombie then i8 (ei_total_kills i) * 3 + i8 (ei_melee_kills i) + i8 (ei_missionWin i) else 0)\<rparr>"

record leaders =
  lead_ffa_winner :: Leader
  lead_most_captures :: Leader
  lead_most_wonrounds :: Leader
  lead_best_kd :: Leader
  lead_entryFragger :: Leader
  lead_bullseye :: Leader
  lead_support :: Leader
  lead_bomba :: Leader
  lead_best_zombie :: Leader
  lead_best_arms :: Leader

definition no_leaders :: leaders where
  "no_leaders = \<lparr>lead_ffa_winner = no_leader, lead_most_captures = no_leader, lead_most_wonrounds = no_leader,
     lead_best_kd = no_leader, lead_entryFragger = no_leader, lead_bullseye = no_leader, lead_support = no_leader,
     lead_bomba = no_leader, lead_best_zombie = no_leader, lead_best_arms = no_leader\<rparr>"

definition is_bomb_mode :: "u8 \<Rightarrow> bool" where
  "is_bomb_mode m \<longleftrightarrow> m = Mode_BombBattle \<or> m = Mode_CLAN_BombBattle"

definition is_ctb_mode :: "u8 \<Rightarrow> bool" where
  "is_ctb_mode m \<longleftrightarrow> m = Mode_CaptureTheBattery \<or> m = Mode_CLAN_CaptureTheBattery"

definition bump_leaders :: "u8 \<Rightarrow> u32 \<Rightarrow> end_info \<Rightarrow> LeaderDerived \<Rightarrow> leaders \<Rightarrow> leaders" where
  "bump_leaders mode sid i d L =
    (let L = (if mode = Mode_FreeForAll then L\<lparr>lead_ffa_winner := bump_score sid (i8 (ei_total_kills i)) (lead_ffa_winner L)\<rparr> else L);
         L = (if is_ctb_mode mode then L\<lparr>lead_most_captures := bump_score sid (der_ctb_cap d) (lead_most_captures L)\<rparr> else L);
         L = (if is_bomb_mode mode then L\<lparr>lead_most_wonrounds := bump_score sid (der_bomb_won d) (lead_most_wonrounds L)\<rparr> else L);
         L = (if mode = Mode_ArmsRace then L\<lparr>lead_best_arms := bump_score sid (der_arms_pts d) (lead_best_arms L)\<rparr> else L)
     in if mode = Mode_ZombieMode then L\<lparr>lead_best_zombie := bump_score sid (der_zombie d) (lead_best_zombie L)\<rparr>
        else L\<lparr>lead_bomba := bump_score sid (der_boom d) (lead_bomba L),
               lead_support := bump_score sid (der_assists d) (lead_support L),
               lead_bullseye := bump_score sid (der_heads d) (lead_bullseye L),
               lead_entryFragger := bump_score sid (der_streak d) (lead_entryFragger L),
               lead_best_kd := bump_score sid (der_kd_rank d) (lead_best_kd L)\<rparr>)"

definition role_bonuses :: "leaders \<Rightarrow> (u32 \<times> int) list" where
  "role_bonuses L = [(ld_sid (lead_best_kd L), 25), (ld_sid (lead_entryFragger L), 20), (ld_sid (lead_bullseye L), 15),
     (ld_sid (lead_support L), 10), (ld_sid (lead_bomba L), 5), (ld_sid (lead_ffa_winner L), 25),
     (ld_sid (lead_most_captures L), 25), (ld_sid (lead_most_wonrounds L), 25), (ld_sid (lead_best_zombie L), 25),
     (ld_sid (lead_best_arms L), 25)]"

definition bonus_points :: "u32 \<Rightarrow> leaders \<Rightarrow> int" where
  "bonus_points sid L = sum_list (map snd (filter (\<lambda>b. fst b = sid) (role_bonuses L)))"

section \<open>Experience and points\<close>

text \<open>What worn items add, in tenths of a percent; a conversion past 32 bits, undefined in the code, wraps.\<close>

abbreviation worn :: "Player \<Rightarrow> Item list" where
  "worn acc \<equiv> GetEquippedInventoryItems (pl_inventory_items acc) (ucast (acc_SelectedCharacter (pl_acc_info acc)))"

definition add_effect :: "game_data \<Rightarrow> u32 \<Rightarrow> Item \<Rightarrow> rat \<Rightarrow> rat" where
  "add_effect g key it extra =
    (let info = or_null new_ItemInfo (item_id_of it) (CItemsInfo g)
     in if item_BonusEffectId info = 0 then extra
        else (let eff = or_null new_EffectInfo (item_BonusEffectId info) (CEffectInfo g)
              in if effect_key eff = key then f32 (extra + f32 (f32 (f_u32 (effect_valueA eff)) / 10)) else extra))"

definition extra_procent :: "game_data \<Rightarrow> Player \<Rightarrow> u32 \<Rightarrow> rat" where
  "extra_procent g acc key = f32 (fold (add_effect g key) (worn acc) 0 / 100)"

definition add_share :: "rat \<Rightarrow> u32 \<Rightarrow> u32" where
  "add_share share v = v + of_int \<lfloor>f32 (share * f32 (f_u32 v))\<rfloor>"

definition add_bonuses :: "game_data \<Rightarrow> Player \<Rightarrow> u32 \<Rightarrow> u32 \<Rightarrow> u32 \<times> u32" where
  "add_bonuses g acc exp point =
    (let exp = add_share (extra_procent g acc 122) exp; point = add_share (extra_procent g acc 123) point
     in if acc_PCRoom (pl_acc_info acc) > 1
        then (of_int \<lfloor>f64 (f_u32 exp + of_int \<lceil>f64 (f64 (28 / 100) * f_u32 exp)\<rceil>)\<rfloor>,
              of_int \<lfloor>f64 (f_u32 point + of_int \<lfloor>f64 (f64 (47 / 100) * f_u32 point)\<rfloor>)\<rfloor>)
        else (exp, point))"

abbreviation w8 :: "u8 \<Rightarrow> u32" where "w8 b \<equiv> ucast b"

definition add_basic :: "RewardInfo \<Rightarrow> end_info \<Rightarrow> u32 \<times> u32 \<Rightarrow> u32 \<times> u32" where
  "add_basic ri m ep =
    (fst ep + (w8 (ei_total_kills m) * reward_ExpKill ri + w8 (ei_deaths m) * reward_ExpDeath ri + w8 (ei_assists m) * reward_ExpAssist ri),
     snd ep + (w8 (ei_total_kills m) * reward_PointKill ri - w8 (ei_deaths m) * reward_PointDeath ri + w8 (ei_assists m) * reward_PointAssist ri))"

definition add_ctb :: "RewardInfo \<Rightarrow> end_info \<Rightarrow> u32 \<times> u32 \<Rightarrow> u32 \<times> u32" where
  "add_ctb ri m ep =
    (fst ep + (w8 (ei_missionWin m) * reward_ExpMission ri + w8 (ei_mission m) * reward_ExpMissionWin ri),
     snd ep + (w8 (ei_missionWin m) * reward_PointMission ri + w8 (ei_mission m) * reward_PointMissionWin ri))"

definition add_bmb :: "RewardInfo \<Rightarrow> end_info \<Rightarrow> u32 \<times> u32 \<Rightarrow> u32 \<times> u32" where
  "add_bmb ri m ep =
    (fst ep + w8 (ei_missionWin m) * reward_ExpMissionWin ri, snd ep + w8 (ei_missionWin m) * reward_PointMissionWin ri)"

text \<open>The kills are tripled in their byte.\<close>

definition add_zombie :: "RewardInfo \<Rightarrow> end_info \<Rightarrow> u32 \<times> u32 \<Rightarrow> u32 \<times> u32" where
  "add_zombie ri m ep =
    (let zombi_kill = ei_total_kills m * 3
     in (fst ep + (w8 zombi_kill * reward_ExpModeKill ri + w8 (ei_melee_kills m) * reward_ExpKill ri + w8 (ei_missionWin m) * reward_ExpMissionWin ri),
         snd ep + (w8 zombi_kill * reward_PointModeKill ri + w8 (ei_melee_kills m) * reward_PointKill ri + w8 (ei_missionWin m) * reward_PointMissionWin ri)))"

definition add_armsrace :: "RewardInfo \<Rightarrow> end_info \<Rightarrow> u32 \<times> u32 \<Rightarrow> u32 \<times> u32" where
  "add_armsrace ri m ep =
    (fst ep + w8 (ei_mission m) * reward_ExpMission ri, snd ep + w8 (ei_mission m) * reward_PointMission ri)"

definition normalize_reward :: "RewardInfo \<Rightarrow> u32 \<times> u32 \<Rightarrow> u32 \<times> u32" where
  "normalize_reward ri ep =
    (min (reward_ExpMax ri) (max (reward_ExpBase ri) (fst ep)), min (reward_ExpMax ri) (max (reward_PointBase ri) (snd ep)))"

definition basic_modes :: "u8 list" where
  "basic_modes = [Mode_CLAN_Elimination, Mode_CLAN_TeamDeathMatch, Mode_TeamDeathMatch, Mode_FreeForAll, Mode_ItemMatch,
     Mode_Elimination, Mode_SuperItemMatch]"

definition mode_reward :: "RewardInfo \<Rightarrow> u8 \<Rightarrow> end_info \<Rightarrow> u32 \<times> u32" where
  "mode_reward ri mode m =
    (let base = (reward_ExpBase ri, reward_PointBase ri)
     in if mode \<in> set basic_modes then normalize_reward ri (add_basic ri m base)
        else if is_ctb_mode mode then normalize_reward ri (add_ctb ri m (add_basic ri m base))
        else if is_bomb_mode mode then normalize_reward ri (add_bmb ri m (add_basic ri m base))
        else if mode = Mode_ZombieMode then normalize_reward ri (add_zombie ri m (add_basic ri m base))
        else if mode = Mode_ArmsRace then normalize_reward ri (add_armsrace ri m (add_basic ri m base))
        else base)"

definition calc_xpmp :: "game_data \<Rightarrow> Room \<Rightarrow> Player \<Rightarrow> end_info \<Rightarrow> u32 \<times> u32" where
  "calc_xpmp g room acc m =
    (case mode_reward (or_null new_RewardInfo (ucast (rm_ModeIndex room)) (CRewardsInfo g)) (rm_ModeIndex room) m of
       (exp, pt) \<Rightarrow> add_bonuses g acc exp pt)"

section \<open>Who is rewarded, and the response\<close>

definition no_kill :: "end_info \<Rightarrow> bool" where
  "no_kill i \<longleftrightarrow> ei_total_kills i = 0 \<and> ei_assists i = 0 \<and> ei_deaths i = 0"

definition no_rewards :: "u32 \<Rightarrow> Player \<Rightarrow> ClientInfo \<Rightarrow> u64 \<Rightarrow> bool" where
  "no_rewards min_seconds acc info playtime =
    (if pl_team_id acc = Team_Observer \<or> playtime < ucast min_seconds then True
     else case cl_info info of BossInfo b \<Rightarrow> bi_pve007_state b = 5 | PvpInfo i \<Rightarrow> no_kill i)"

record reward =
  rw_mp :: u32
  rw_exp :: u32
  rw_energy :: u32
  rw_item :: u32
  rw_response :: bytes

definition pvp_response :: "end_info \<Rightarrow> u8 \<Rightarrow> u32 \<Rightarrow> u32 \<Rightarrow> u32 \<Rightarrow> bytes" where
  "pvp_response i streak mp xp unique_id =
    [ei_melee_kills i, ei_rifle_kills i, ei_shotgun_kills i, ei_sniper_kills i, ei_gatling_kills i, ei_bazooka_kills i,
     ei_grenade_kills i, streak, ei_total_kills i, ei_deaths i, ei_headshots i, ei_assists i, ei_mission i, ei_missionWin i,
     ei_unknown3 i, ei_unknown4 i] @ le_bytes 4 mp @ le_bytes 4 xp @ le_bytes 4 unique_id"

text \<open>The highest streak the combat messages showed, or the reported one.\<close>

definition authoritative_streak :: "Room \<Rightarrow> u16 \<Rightarrow> end_info \<Rightarrow> u32" where
  "authoritative_streak room sid i =
    (case fmlookup (rm_match_combat_stats room) sid of Some st \<Rightarrow> mcs_highest_kill_streak st | None \<Rightarrow> w8 (ei_killstreak i))"

definition picked_battery :: "Player \<Rightarrow> u32" where
  "picked_battery acc =
    (let capacity_left = acc_MaximumEnergy (pl_acc_info acc) - acc_Energy (pl_acc_info acc)
     in if pl_earnt_battery acc > capacity_left then capacity_left else pl_earnt_battery acc)"

definition get_rewards ::
  "game_data \<Rightarrow> 'g rng \<Rightarrow> (u32 \<times> u32) list \<Rightarrow> Room \<Rightarrow> Player \<Rightarrow> ClientInfo \<Rightarrow> bool \<Rightarrow> 'g \<Rightarrow> reward \<times> Player \<times> 'g" where
  "get_rewards g rng order room acc info no_reward s =
    (let mp = acc_MicroPoints (pl_acc_info acc); xp = acc_Experience (pl_acc_info acc)
     in case cl_info info of
          BossInfo b \<Rightarrow>
            (case (if no_reward then (0, s) else get_random_boss_reward rng order s) of (item, s) \<Rightarrow>
              (\<lparr>rw_mp = 0, rw_exp = 0, rw_energy = 0, rw_item = item,
                rw_response = le_bytes 4 mp @ le_bytes 4 xp @ le_bytes 4 item\<rparr>, acc, s))
        | PvpInfo i \<Rightarrow>
            (let acc' = acc\<lparr>pl_earnt_battery := 0\<rparr>
             in if no_reward then
                  (\<lparr>rw_mp = 0, rw_exp = 0, rw_energy = 0, rw_item = 0,
                    rw_response = replicate 16 0 @ le_bytes 4 mp @ le_bytes 4 xp @ le_bytes 4 (cl_unique_id info)\<rparr>, acc', s)
                else (case calc_xpmp g room acc' i of (exp, pt) \<Rightarrow>
                  (\<lparr>rw_mp = pt, rw_exp = exp, rw_energy = picked_battery acc, rw_item = 0,
                    rw_response = pvp_response i (ucast (min (authoritative_streak room (pl_session_id acc) i) 255))
                      (mp + pt) (xp + exp) (cl_unique_id info)\<rparr>, acc', s))))"

section \<open>Wear\<close>

definition IsWeaponTypeId :: "u32 \<Rightarrow> bool" where
  "IsWeaponTypeId t \<longleftrightarrow> 10 \<le> t \<and> t \<le> 16"

definition ToRestrictedWeaponType :: "u8 \<Rightarrow> u32 option" where
  "ToRestrictedWeaponType r = (if r \<le> 6 then Some (10 + ucast r) else None)"

definition ItemExpire_Destroyed :: u32 where "ItemExpire_Destroyed = 2"
definition ItemExpire_Expired :: u32 where "ItemExpire_Expired = 3"

text \<open>Whether a worn item wears in this match.\<close>

definition wears :: "game_data \<Rightarrow> u32 \<Rightarrow> u32 option \<Rightarrow> Item \<Rightarrow> bool" where
  "wears g now restricted it =
    (let expire = inv_expire_date (it_item_info it); info = or_null new_ItemInfo (item_id_of it) (CItemsInfo g)
     in \<not> (expire = ItemExpire_Destroyed \<or> expire = ItemExpire_Expired) \<and> \<not> (expire > ItemExpire_Expired \<and> expire \<le> now)
        \<and> item_Id info \<noteq> 0 \<and> item_Durability info \<noteq> 0
        \<and> \<not> (IsWeaponTypeId (item_Type info) \<and> restricted \<noteq> None \<and> restricted \<noteq> Some (item_Type info)))"

definition wear_patch :: "Item \<Rightarrow> ItemPatchCtx" where
  "wear_patch it =
    (let p = new_ItemPatchCtx\<lparr>ip_sel := new_ItemSelector\<lparr>sel_serial := Some (inv_serial_info (it_item_info it))\<rparr>\<rparr>;
         repair = inv_repair (it_item_info it)
     in if repair = 0 then p\<lparr>ip_is_equipped := Some False\<rparr>
        else p\<lparr>ip_repair := Some (ucast repair - 1), ip_is_equipped := (if repair = 1 then Some False else None)\<rparr>)"

definition wear_items :: "game_data \<Rightarrow> u32 \<Rightarrow> u8 \<Rightarrow> Player \<Rightarrow> DbOp list \<times> ItemSerialInfo list" where
  "wear_items g now restriction acc =
    (let worn_out = filter (wears g now (ToRestrictedWeaponType restriction)) (worn acc)
     in (map (Op_ItemPatch \<circ> wear_patch) worn_out,
         map (\<lambda>it. inv_serial_info (it_item_info it)) (filter (\<lambda>it. inv_repair (it_item_info it) \<noteq> 0) worn_out)))"

section \<open>Damage per round\<close>

definition ComputeAdrFromRawDamage :: "u64 \<Rightarrow> u32 \<Rightarrow> u32" where
  "ComputeAdrFromRawDamage damage_raw divisor =
    (let safe_divisor = max 1 divisor in ucast ((damage_raw + ucast safe_divisor div 2) div ucast safe_divisor))"

definition adr_rounds :: "Room \<Rightarrow> end_info \<Rightarrow> u32" where
  "adr_rounds room i = (if IsRoundBasedMode (rm_ModeIndex room) then max 1 (rm_team_rounds_started room) else max 1 (w8 (ei_deaths i)))"

definition match_adr :: "Room \<Rightarrow> u16 \<Rightarrow> ClientInfo \<Rightarrow> u32" where
  "match_adr room sid info =
    (case cl_info info of
       BossInfo b \<Rightarrow> 0
     | PvpInfo i \<Rightarrow>
         if rm_ModeIndex room = Mode_ZombieMode then 0
         else ComputeAdrFromRawDamage
           (case fmlookup (rm_match_combat_stats room) sid of Some st \<Rightarrow> mcs_damage_dealt_raw st | None \<Rightarrow> 0) (adr_rounds room i))"

end
