(* ===== verification/Match_End.thy ===== *)
theory Match_End
  imports Match_Rewards Item_Handlers Update_Data
begin

text \<open>
  The end of a match (\<open>handlers/Room/Match/End.h\<close>): the handler of the report, with the single-player
  modes, the resetting of the room, the validation of all changes, and the task that commits them
  as one transaction, applies them and sends the queued packets. What is only written to the log
  tables (reward logs, detection logs) is not modelled. The hash of \<open>BuildMatchUniqueId\<close> is a parameter.
\<close>

section \<open>Texts\<close>

definition hex_digit :: "nat \<Rightarrow> char" where
  "hex_digit d = ''0123456789abcdef'' ! d"

definition hex_byte :: "u8 \<Rightarrow> string" where
  "hex_byte b = [hex_digit (unat (drop_bit 4 b)), hex_digit (unat (b AND 0x0F))]"

text \<open>The text between colons that is hashed.\<close>

definition match_seed :: "nat list \<Rightarrow> string" where
  "match_seed ns = (case map dec ns of [] \<Rightarrow> [] | x # xs \<Rightarrow> x @ concat (map (\<lambda>y. '':'' @ y) xs))"

definition BuildMatchUniqueId ::
  "(string \<Rightarrow> bytes) \<Rightarrow> u32 \<Rightarrow> u16 \<Rightarrow> u64 \<Rightarrow> u64 \<Rightarrow> u8 \<Rightarrow> u8 \<Rightarrow> u32 \<Rightarrow> u32 \<Rightarrow> string" where
  "BuildMatchUniqueId blake room_id host start_ms end_ms mode map_index red blue =
     concat (map hex_byte (blake (match_seed
       [unat room_id, unat host, unat start_ms, unat end_ms, unat mode, unat map_index, unat red, unat blue])))"

text \<open>\<open>gmtime\<close> on a date after the epoch: year, month and day of a day number.\<close>

definition civil_from_days :: "nat \<Rightarrow> nat \<times> nat \<times> nat" where
  "civil_from_days days =
    (let z = days + 719468; era = z div 146097; doe = z mod 146097;
         yoe = (doe - doe div 1460 + doe div 36524 - doe div 146096) div 365;
         doy = doe - (365 * yoe + yoe div 4 - yoe div 100); mp = (5 * doy + 2) div 153;
         m = (if mp < 10 then mp + 3 else mp - 9)
     in (yoe + era * 400 + (if m \<le> 2 then 1 else 0), m, doy - (153 * mp + 2) div 5 + 1))"

definition pad :: "nat \<Rightarrow> nat \<Rightarrow> string" where
  "pad w n = replicate (w - length (dec n)) CHR ''0'' @ dec n"

definition FormatUnixMillisUtc :: "u64 \<Rightarrow> string" where
  "FormatUnixMillisUtc unix_ms =
    (if unix_ms = 0 then []
     else
       (let secs = unat unix_ms div 1000; t = secs mod 86400
        in case civil_from_days (secs div 86400) of (y, m, d) \<Rightarrow>
          pad 4 y @ ''-'' @ pad 2 m @ ''-'' @ pad 2 d @ '' '' @ pad 2 (t div 3600) @ '':'' @ pad 2 (t div 60 mod 60) @ '':''
          @ pad 2 (t mod 60) @ ''.'' @ pad 3 (unat unix_ms mod 1000) @ '' UTC''))"

definition ToWinRuleType :: "u8 \<Rightarrow> string" where
  "ToWinRuleType mode =
    (if mode \<in> {Mode_Elimination, Mode_BombBattle, Mode_ZombieMode, Mode_CLAN_Elimination, Mode_CLAN_BombBattle} then ''Rounds''
     else if mode = Mode_CaptureTheBattery \<or> mode = Mode_CLAN_CaptureTheBattery then ''Captures''
     else if mode = Mode_ArmsRace then ''ArmsPoints''
     else if mode = Mode_BossBattle then ''BossObjective'' else ''Kills'')"

section \<open>Queued packets\<close>

datatype priority = Highest | High | Normal | Low | Lowest

record queued =
  qp_sid :: u32
  qp_order :: u16
  qp_mission :: u8
  qp_extra :: u8
  qp_option :: u8
  qp_data :: bytes
  qp_priority :: priority

definition queue_packet :: "priority \<Rightarrow> u32 \<Rightarrow> u16 \<Rightarrow> u8 \<Rightarrow> u8 \<Rightarrow> u8 \<Rightarrow> bytes \<Rightarrow> queued" where
  "queue_packet prio sid order mission extra option payload = \<lparr>qp_sid = sid, qp_order = order, qp_mission = mission,
     qp_extra = extra, qp_option = option, qp_data = payload, qp_priority = prio\<rparr>"

text \<open>The buckets, one after the other.\<close>

definition bucket_order :: "queued list \<Rightarrow> queued list" where
  "bucket_order ps = concat (map (\<lambda>p. filter (\<lambda>q. qp_priority q = p) ps) [Highest, High, Normal, Low, Lowest])"

section \<open>Single-player modes\<close>

record end_state =
  es_packets :: "queued list"
  es_dctxs :: "DatabaseUpdateCtx list"

definition make_dctx :: "Player \<Rightarrow> DbOp list \<Rightarrow> DatabaseUpdateCtx" where
  "make_dctx acc ops = \<lparr>ctx_sid = ucast (pl_session_id acc), ctx_aid = acc_Index_of acc, ctx_ops = ops\<rparr>"

definition shop_item_of :: "game_data \<Rightarrow> Item \<Rightarrow> ShopItem" where
  "shop_item_of g it = \<lparr>
     shop_item_number = new_InventoryItemNumber (item_id_of it) (item_Stock (or_null new_ItemInfo (item_id_of it) (CItemsInfo g))),
     shop_expire_time = ItemExpire_Unused, shop_serial_info = inv_serial_info (it_item_info it)\<rparr>"

definition StoryMod :: "game_data \<Rightarrow> u32 \<Rightarrow> buffer \<Rightarrow> Player \<Rightarrow> end_state" where
  "StoryMod g now data acc =
    (if acc_Story (pl_acc_info acc) + 1 \<noteq> w8 (data 0) then \<lparr>es_packets = [], es_dctxs = []\<rparr>
     else case CraftInventoryItems g now (pl_inventory_items acc) [4600100] Origin_From_Game of
       Inl e \<Rightarrow> \<lparr>es_packets = [], es_dctxs = []\<rparr>
     | Inr crafted \<Rightarrow> \<lparr>
         es_packets = [queue_packet Highest (ucast (pl_session_id acc)) 66 3 51 0 (shop_item_bytes (shop_item_of g (hd (ia_items crafted))))],
         es_dctxs = [make_dctx acc [Op_AccountInfo (new_AccountInfoPatch\<lparr>aip_story := Some (data 0)\<rparr>), Op_ItemAdd crafted]]\<rparr>)"

definition Tutorial :: "game_data \<Rightarrow> u32 \<Rightarrow> Player \<Rightarrow> end_state" where
  "Tutorial g now acc =
    (if acc_Tutorial (pl_acc_info acc) then \<lparr>es_packets = [], es_dctxs = []\<rparr>
     else case CraftInventoryItems g now (pl_inventory_items acc) [4500000] Origin_From_Game of
       Inl e \<Rightarrow> \<lparr>es_packets = [], es_dctxs = []\<rparr>
     | Inr crafted \<Rightarrow> \<lparr>
         es_packets = [
           queue_packet Highest (ucast (pl_session_id acc)) 99 0 37 0 (shop_item_bytes (shop_item_of g (hd (ia_items crafted)))),
           queue_packet Highest (ucast (pl_session_id acc)) 307 0 0 0 (le_bytes 4 (acc_RockTokens (pl_acc_info acc))
             @ le_bytes 4 (acc_MicroPoints (pl_acc_info acc) + 20000) @ le_bytes 4 (acc_Coins (pl_acc_info acc)))],
         es_dctxs = [make_dctx acc [Op_AccountInfo (new_AccountInfoPatch\<lparr>aip_bTutorial := Some True\<rparr>), Op_ItemAdd crafted,
           Op_Currency \<lparr>acd_type = Cur_MP, acd_value = 20000, acd_is_reward = True\<rparr>]]\<rparr>)"

definition SingleWave :: "u64 \<Rightarrow> buffer \<Rightarrow> Player \<Rightarrow> end_state" where
  "SingleWave now data acc = \<lparr>es_packets = [], es_dctxs = [make_dctx acc [Op_AccountInfo (new_AccountInfoPatch\<lparr>
     aip_sw_high_score := Some (max (acc_SingleWaveHighScore (pl_acc_info acc)) (le_word (peek data 4 4))),
     aip_sw_highest_wave := Some (max (acc_SingleWaveHighestWave (pl_acc_info acc)) (le_word (peek data 8 4))),
     aip_sw_last_update := Some now\<rparr>)]]\<rparr>"

definition SpGameModes :: "game_data \<Rightarrow> u32 \<Rightarrow> u64 \<Rightarrow> u8 \<Rightarrow> buffer \<Rightarrow> Player \<Rightarrow> end_state" where
  "SpGameModes g now now64 mission data acc =
    (if mission = 0 then Tutorial g now acc else if mission = 1 then SingleWave now64 data acc
     else if mission = 2 then StoryMod g now data acc else \<lparr>es_packets = [], es_dctxs = []\<rparr>)"

section \<open>Matches\<close>

record PlayerMatchSessionAdd =
  msa_match_unique_id :: string
  msa_aid :: u32
  msa_team_id :: u8
  msa_joined_ms :: u64
  msa_left_ms :: u64
  msa_reason :: string

text \<open>What stays the same during the handling of a report: data, clocks, hash, order of the reward table.\<close>

record end_env =
  en_data :: game_data
  en_now :: u32
  en_end_time :: u64
  en_end_ms :: u64
  en_blake :: "string \<Rightarrow> bytes"
  en_min_seconds :: u32
  en_boss_order :: "(u32 \<times> u32) list"
  en_junk :: Player

text \<open>The report: order and option of the packet, its buffer and size.\<close>

record report =
  rp_order :: u16
  rp_option :: u8
  rp_data :: buffer
  rp_size :: nat

definition red_score :: "report \<Rightarrow> u8" where "red_score rp = rp_data rp 0"
definition blue_score :: "report \<Rightarrow> u8" where "blue_score rp = rp_data rp 1"

definition raw_data :: "report \<Rightarrow> bytes" where
  "raw_data rp = peek (rp_data rp) 0 (rp_size rp)"

text \<open>A player of the list whose report counts: its entry is there, and it is an account in the room.\<close>

definition counted :: "end_env \<Rightarrow> u32 \<Rightarrow> (u16, ClientInfo) fmap \<Rightarrow> server \<Rightarrow> u16 \<Rightarrow> (Player \<times> ClientInfo) option" where
  "counted en room_id cli sv pid =
    (let acc = get_acc (en_junk en) pid sv
     in case fmlookup cli pid of
          None \<Rightarrow> None
        | Some info \<Rightarrow> if acc_Index_of acc = 0 \<or> \<not> (pl_in_room acc \<and> pl_room_id acc = room_id) then None else Some (acc, info))"

definition play_time :: "end_env \<Rightarrow> Player \<Rightarrow> u64" where
  "play_time en acc = en_end_time en - pl_match_loaded_time acc"

definition lead_player ::
  "end_env \<Rightarrow> u32 \<Rightarrow> Room \<Rightarrow> (u16, ClientInfo) fmap \<Rightarrow> server \<Rightarrow> u16
     \<Rightarrow> leaders \<times> (u16, LeaderDerived) fmap \<Rightarrow> leaders \<times> (u16, LeaderDerived) fmap" where
  "lead_player en room_id room cli sv pid Ld =
    (case counted en room_id cli sv pid of
       None \<Rightarrow> Ld
     | Some (acc, info) \<Rightarrow>
         (case cl_info info of
            BossInfo b \<Rightarrow> Ld
          | PvpInfo i \<Rightarrow>
              if no_rewards (en_min_seconds en) acc info (play_time en acc) then Ld
              else (let d = derive (rm_ModeIndex room = Mode_ZombieMode) (authoritative_streak room pid i) i
                    in (bump_leaders (rm_ModeIndex room) (ucast pid) i d (fst Ld), fmupd pid d (snd Ld)))))"

definition match_stats_patch :: "Room \<Rightarrow> u16 \<Rightarrow> Player \<Rightarrow> end_info \<Rightarrow> AccountInfoPatch" where
  "match_stats_patch room pid acc i = (let a = pl_acc_info acc in
     if rm_ModeIndex room = Mode_ZombieMode then new_AccountInfoPatch\<lparr>
       aip_deaths := Some (acc_Deaths a + w8 (ei_deaths i)), aip_headshots := Some (acc_Headshots a + w8 (ei_headshots i)),
       aip_zombie_kills := Some (acc_ZombieKills a + w8 (ei_total_kills i) * 3), aip_infections := Some (acc_Infections a + w8 (ei_melee_kills i))\<rparr>
     else new_AccountInfoPatch\<lparr>
       aip_kills := Some (acc_Kills a + w8 (ei_total_kills i)), aip_deaths := Some (acc_Deaths a + w8 (ei_deaths i)),
       aip_assists := Some (acc_Assists a + w8 (ei_assists i)), aip_headshots := Some (acc_Headshots a + w8 (ei_headshots i)),
       aip_highest_kill_streak := Some (max (acc_HighestKillStreak a)
         (case fmlookup (rm_match_combat_stats room) pid of Some st \<Rightarrow> mcs_highest_kill_streak st
          | None \<Rightarrow> min (authoritative_streak room (pl_session_id acc) i) 255)),
       aip_melee_kills := Some (acc_MeleeKills a + w8 (ei_melee_kills i)), aip_rifle_kills := Some (acc_RifleKills a + w8 (ei_rifle_kills i)),
       aip_shotgun_kills := Some (acc_ShotgunKills a + w8 (ei_shotgun_kills i)),
       aip_sniper_kills := Some (acc_SniperKills a + w8 (ei_sniper_kills i)),
       aip_gatling_kills := Some (acc_GatlingKills a + w8 (ei_gatling_kills i)),
       aip_bazooka_kills := Some (acc_BazookaKills a + w8 (ei_bazooka_kills i)),
       aip_grenade_kills := Some (acc_GrenadeKills a + w8 (ei_grenade_kills i))\<rparr>)"

definition result_patches :: "bool \<Rightarrow> bool \<Rightarrow> FrontAccount \<Rightarrow> AccountInfoPatch list" where
  "result_patches draw won a =
    (if draw then [new_AccountInfoPatch\<lparr>aip_draws := Some (acc_Draws a + 1)\<rparr>] else [])
    @ [if won then new_AccountInfoPatch\<lparr>aip_wins := Some (acc_Wins a + 1)\<rparr>
       else new_AccountInfoPatch\<lparr>aip_loses := Some (acc_Loses a + 1)\<rparr>]"

definition clan_patches :: "bool \<Rightarrow> bool \<Rightarrow> u32 \<Rightarrow> FrontAccount \<Rightarrow> end_info \<Rightarrow> AccountInfoPatch list" where
  "clan_patches draw won contribution a i =
    [new_AccountInfoPatch\<lparr>
       aip_clan_kills := Some (acc_ClanKills a + w8 (ei_total_kills i)), aip_clan_deaths := Some (acc_ClanDeaths a + w8 (ei_deaths i)),
       aip_clan_assists := Some (acc_ClanAssists a + w8 (ei_assists i)),
       aip_clan_contribution := Some (acc_ClanContribution a + contribution)\<rparr>]
    @ (if draw then [new_AccountInfoPatch\<lparr>aip_clan_draws := Some (acc_ClanDraws a + 1)\<rparr>] else [])
    @ [if won then new_AccountInfoPatch\<lparr>aip_clan_wins := Some (acc_ClanWins a + 1)\<rparr>
       else new_AccountInfoPatch\<lparr>aip_clan_loses := Some (acc_ClanLoses a + 1)\<rparr>]"

text \<open>The points of a player for the title, and who holds it so far.\<close>

definition mvp_points :: "leaders \<Rightarrow> (u16, LeaderDerived) fmap \<Rightarrow> u16 \<Rightarrow> int option" where
  "mvp_points L derived pid = map_option (\<lambda>d. der_base_mvp d + bonus_points (ucast pid) L) (fmlookup derived pid)"

definition bump_mvp :: "leaders \<Rightarrow> (u16, LeaderDerived) fmap \<Rightarrow> u16 \<Rightarrow> Leader \<Rightarrow> Leader" where
  "bump_mvp L derived pid mvp = (case mvp_points L derived pid of None \<Rightarrow> mvp | Some points \<Rightarrow> bump_score (ucast pid) points mvp)"

definition contribution :: "leaders \<Rightarrow> (u16, LeaderDerived) fmap \<Rightarrow> u16 \<Rightarrow> Leader \<Rightarrow> bool \<Rightarrow> u32" where
  "contribution L derived pid mvp won =
    (if won then 100 else 0) + (if ucast pid = ld_sid mvp then 50 else 0)
    + (case mvp_points L derived pid of None \<Rightarrow> 0 | Some points \<Rightarrow> of_int points)"

definition reward_op :: "CurrencyType \<Rightarrow> u32 \<Rightarrow> DbOp list" where
  "reward_op t v = (if v = 0 then [] else [Op_Currency \<lparr>acd_type = t, acd_value = v, acd_is_reward = True\<rparr>])"

text \<open>The rewards of a player of a match between players: the changes and packets, or the failed level up.\<close>

definition pay_player ::
  "end_env \<Rightarrow> Room \<Rightarrow> u16 list \<Rightarrow> leaders \<Rightarrow> (u16, LeaderDerived) fmap \<Rightarrow> bool \<Rightarrow> u16 \<Rightarrow> Player \<Rightarrow> end_info \<Rightarrow> reward
     \<Rightarrow> Leader \<Rightarrow> bool \<Rightarrow> DatabaseUpdateCtx \<Rightarrow> (DatabaseUpdateCtx \<times> queued list) option" where
  "pay_player en room all_players L derived draw pid acc i rw mvp won dctx =
    (let a = pl_acc_info acc; uid = le_bytes 4 (uid_data (new_UniqueId pid 1));
         dctx = dctx\<lparr>ctx_ops := ctx_ops dctx @ reward_op Cur_ENERGY (rw_energy rw) @ reward_op Cur_MP (rw_mp rw)\<rparr>;
         rest = (\<lambda>dctx. dctx\<lparr>ctx_ops := ctx_ops dctx @ map Op_AccountInfo
            (match_stats_patch room pid acc i # result_patches draw won a
             @ (if rm_is_clan_room room then clan_patches draw won (contribution L derived pid mvp won) a i else [])
             @ [new_AccountInfoPatch\<lparr>aip_play_time := Some (acc_PlayTime a + play_time en acc)\<rparr>])\<rparr>)
     in if rw_exp rw = 0 then Some (rest dctx, [])
        else case ProcessLevelUp (en_data en) (en_now en) acc (rw_exp rw) dctx of
          (dctx, Inl e) \<Rightarrow> None
        | (dctx, Inr info) \<Rightarrow> Some (rest dctx,
            (case rl_reward_item info of None \<Rightarrow> [] | Some ri \<Rightarrow> [queue_packet Highest (ucast pid) 99 0 37 0 (shop_item_bytes ri)])
            @ (if rl_level_up info
               then map (\<lambda>o1. queue_packet Highest (ucast o1) 311 0 0 (ucast (rl_new_level info + 1)) uid) (filter (\<lambda>o1. o1 \<noteq> pid) all_players)
               else [])))"

text \<open>The row of the match history.\<close>

definition match_history ::
  "end_env \<Rightarrow> string \<Rightarrow> Room \<Rightarrow> report \<Rightarrow> leaders \<Rightarrow> (u16, LeaderDerived) fmap \<Rightarrow> Leader \<Rightarrow> u16 \<Rightarrow> Player \<Rightarrow> ClientInfo
     \<Rightarrow> bool \<Rightarrow> reward \<Rightarrow> bool \<Rightarrow> bool \<Rightarrow> MatchInfoHistoryAdd" where
  "match_history en uid room rp L derived mvp pid acc info nr rw won lost =
    (let a = pl_acc_info acc; mode = rm_ModeIndex room; zombie = (mode = Mode_ZombieMode);
         always = (\<lambda>f. case cl_info info of PvpInfo i \<Rightarrow> w8 (f i) | BossInfo b \<Rightarrow> 0);
         unless_zombie = (\<lambda>f. if zombie then 0 else always f);
         d = (case fmlookup derived pid of Some d \<Rightarrow> d | None \<Rightarrow> zero_derived);
         score = (\<lambda>x :: int. of_int (max 0 x) :: u32);
         item = (\<lambda>k. ucast (eqn_item_id (GetEquippedItems (en_data en) acc ! k)) :: u32)
     in \<lparr>mha_MatchUniqueId = uid, mha_Sid = pid, mha_Aid = acc_Index_of acc, mha_IsWin = won, mha_IsLose = lost,
          mha_IsHost = (rm_host_session_id room = pid), mha_IsDraw = (blue_score rp = red_score rp), mha_IsClanMatch = rm_is_clan_room room,
          mha_WinRule = rm_score_rule room, mha_TimeRule = rm_time_rule room, mha_WinRuleType = ToWinRuleType mode,
          mha_PlayTime = ucast (play_time en acc), mha_Level = acc_Level a, mha_Experience = rw_exp rw, mha_Energy = rw_energy rw,
          mha_MicroPoints = rw_mp rw, mha_room_index = ucast (rm_room_id room), mha_redscore = ucast (red_score rp),
          mha_bluescore = ucast (blue_score rp), mha_team_id = ucast (pl_team_id acc), mha_room_mode = ucast mode,
          mha_room_map = ucast (rm_MapIndex room), mha_SelectedCharacter = acc_SelectedCharacter a,
          mha_Kills = unless_zombie ei_total_kills, mha_Deaths = always ei_deaths, mha_Assists = unless_zombie ei_assists,
          mha_Headshots = always ei_headshots,
          mha_HighestKillStreak = (if nr then 0 else case cl_info info of BossInfo b \<Rightarrow> 0
            | PvpInfo i \<Rightarrow> if zombie then 0 else min (authoritative_streak room (pl_session_id acc) i) 255),
          mha_MeleeKills = unless_zombie ei_melee_kills, mha_RifleKills = unless_zombie ei_rifle_kills,
          mha_ShotgunKills = unless_zombie ei_shotgun_kills, mha_SniperKills = unless_zombie ei_sniper_kills,
          mha_GatlingKills = unless_zombie ei_gatling_kills, mha_BazookaKills = unless_zombie ei_bazooka_kills,
          mha_GrenadeKills = unless_zombie ei_grenade_kills, mha_ZombieKills = (if zombie then always ei_total_kills * 3 else 0),
          mha_Infections = (if zombie then always ei_melee_kills else 0),
          mha_MatchStartTime = rm_start_time room, mha_MatchStartUtc = FormatUnixMillisUtc (rm_start_time room),
          mha_MatchEndTime = en_end_ms en, mha_MatchEndUtc = FormatUnixMillisUtc (en_end_ms en),
          mha_Hair = item 0, mha_Face = item 1, mha_Upper = item 2, mha_Under = item 3, mha_Skirt = item 4, mha_Gloves = item 5,
          mha_Boots = item 6, mha_HeadAcc = item 7, mha_WaistAcc = item 8, mha_BackAcc = item 9, mha_Melee = item 10,
          mha_Rifle = item 11, mha_Shotgun = item 12, mha_Sniper = item 13, mha_Gatling = item 14, mha_Bazooka = item 15,
          mha_Grenade = item 16, mha_IsItemReward = (mode = Mode_BossBattle), mha_reward_item = rw_item rw,
          mha_IsMvp = (ucast pid = ld_sid mvp), mha_IsEntryFragger = (ucast pid = ld_sid (lead_entryFragger L)),
          mha_IsBullseye = (ucast pid = ld_sid (lead_bullseye L)), mha_IsSupport = (ucast pid = ld_sid (lead_support L)),
          mha_IsBomba = (ucast pid = ld_sid (lead_bomba L)), mha_MvpScore = score (der_base_mvp d) + of_int (bonus_points (ucast pid) L),
          mha_EntryFraggerScore = score (der_streak d), mha_BullseyeScore = score (der_heads d), mha_SupportScore = score (der_assists d),
          mha_BombaScore = score (der_boom d), mha_BestKdScore = score (der_kd_rank d), mha_CaptureScore = score (der_ctb_cap d),
          mha_WonRoundScore = score (der_bomb_won d), mha_ArmsRaceScore = score (der_arms_pts d), mha_ZombieScore = score (der_zombie d),
          mha_ADR = match_adr room pid info, mha_IsParty = pl_in_party acc, mha_Restriction = ucast (rm_Restriction room),
          mha_MaxPlayers = rm_max_players room\<rparr>)"

record match_loop =
  ml_sv :: server
  ml_packets :: "queued list"
  ml_dctxs :: "DatabaseUpdateCtx list"
  ml_mvp :: Leader
  ml_pve_rewards :: "(u32 \<times> u32) list"
  ml_sessions :: "PlayerMatchSessionAdd list"
  ml_aborted :: bool

definition wear_packet :: "u16 \<Rightarrow> ItemSerialInfo list \<Rightarrow> queued list" where
  "wear_packet pid penalties =
    (if penalties = [] then []
     else [queue_packet Highest (ucast pid) 93 0 0 (of_nat (length penalties)) (concat (map (\<lambda>s. serial_bytes s @ le_bytes 4 (1 :: u32)) penalties))])"

text \<open>The item of a boss battle: the change, the packets, and the entry of the shared list.\<close>

definition pay_boss ::
  "end_env \<Rightarrow> u16 \<Rightarrow> Player \<Rightarrow> u32 \<Rightarrow> DbOp list \<times> queued list \<times> (u32 \<times> u32) list" where
  "pay_boss en pid acc item =
    (if item = 0 then ([], [], [])
     else case CraftInventoryItems (en_data en) (en_now en) (pl_inventory_items acc) [item] Origin_From_Game of
       Inl e \<Rightarrow> ([], [], [])
     | Inr crafted \<Rightarrow>
         ([Op_ItemAdd crafted],
          [queue_packet Highest (ucast pid) 99 0 37 0 (shop_item_bytes (shop_item_of (en_data en) (hd (ia_items crafted))))],
          [(uid_data (new_UniqueId pid 1), item)]))"

text \<open>The rest of a player's turn, once the rewards are known: the boss item, the account, the history, the changes.\<close>

definition settle_player ::
  "end_env \<Rightarrow> string \<Rightarrow> Room \<Rightarrow> report \<Rightarrow> leaders \<Rightarrow> (u16, LeaderDerived) fmap \<Rightarrow> u16 \<Rightarrow> Player \<Rightarrow> ClientInfo \<Rightarrow> bool \<Rightarrow> reward
     \<Rightarrow> bool \<Rightarrow> bool \<Rightarrow> DatabaseUpdateCtx \<Rightarrow> match_loop \<Rightarrow> match_loop" where
  "settle_player en uid room rp L derived pid acc info nr rw won lost dctx ml =
    (case pay_boss en pid acc (if rm_ModeIndex room = Mode_BossBattle then rw_item rw else 0) of (ops, packets, pve) \<Rightarrow>
      ml\<lparr>ml_sv := upd_world (upd_acc pid (\<lambda>_. acc\<lparr>pl_playing := False,
            pl_state := (if rm_host_session_id room = pid then State_HostReady else State_Waiting)\<rparr>)) (ml_sv ml),
         ml_packets := ml_packets ml @ queue_packet High (ucast pid) (rp_order rp) 0 1 0 (rw_response rw) # packets,
         ml_dctxs := ml_dctxs ml @ [dctx\<lparr>ctx_ops := ctx_ops dctx @ ops
            @ [Op_MatchHistory (match_history en uid room rp L derived (ml_mvp ml) pid acc info nr rw won lost)]\<rparr>],
         ml_pve_rewards := ml_pve_rewards ml @ pve\<rparr>)"

definition end_player ::
  "end_env \<Rightarrow> 'g rng \<Rightarrow> string \<Rightarrow> u32 \<Rightarrow> Room \<Rightarrow> report \<Rightarrow> (u16, ClientInfo) fmap \<Rightarrow> u16 list \<Rightarrow> leaders \<Rightarrow> (u16, LeaderDerived) fmap
     \<Rightarrow> u16 \<Rightarrow> match_loop \<times> 'g \<Rightarrow> match_loop \<times> 'g" where
  "end_player en rng uid room_id room rp cli all_players L derived pid st = (case st of (ml, s) \<Rightarrow>
    (case counted en room_id cli (ml_sv ml) pid of
       None \<Rightarrow> (ml, s)
     | Some (acc0, info) \<Rightarrow>
        (let nr = no_rewards (en_min_seconds en) acc0 info (play_time en acc0); draw = (blue_score rp = red_score rp);
             blue_win = blue_score rp > red_score rp;
             won0 = (if pl_team_id acc0 = Team_Blue then blue_win else \<not> blue_win); lost = (\<not> draw \<and> \<not> won0);
             ml = ml\<lparr>ml_sessions := ml_sessions ml @ [\<lparr>msa_match_unique_id = uid, msa_aid = acc_Index_of acc0,
               msa_team_id = pl_team_id acc0, msa_joined_ms = pl_match_loaded_time acc0 * 1000, msa_left_ms = en_end_ms en,
               msa_reason = ''Finished''\<rparr>]\<rparr>
         in case get_rewards (en_data en) rng (en_boss_order en) room acc0 info nr s of
           (rw, acc, s) \<Rightarrow>
             (case wear_items (en_data en) (en_now en) (rm_Restriction room) acc of
                (ops, penalties) \<Rightarrow>
                  (let ml = ml\<lparr>ml_packets := ml_packets ml @ wear_packet pid penalties\<rparr>; dctx = make_dctx acc ops
                   in case cl_info info of
                        BossInfo b \<Rightarrow> (settle_player en uid room rp L derived pid acc info nr rw won0 lost dctx ml, s)
                      | PvpInfo i \<Rightarrow>
                          if nr then (settle_player en uid room rp L derived pid acc info nr rw won0 lost dctx ml, s)
                          else
                            (let won = (won0 \<or> rm_ModeIndex room = Mode_FreeForAll \<and> ld_sid (lead_ffa_winner L) = ucast pid);
                                 ml = ml\<lparr>ml_mvp := bump_mvp L derived pid (ml_mvp ml)\<rparr>
                             in case pay_player en room all_players L derived draw pid acc i rw (ml_mvp ml) won dctx of
                                  None \<Rightarrow> (ml\<lparr>ml_sv := upd_world (upd_acc pid (\<lambda>_. acc)) (ml_sv ml), ml_aborted := True\<rparr>, s)
                                | Some (dctx, packets) \<Rightarrow>
                                    (settle_player en uid room rp L derived pid acc info nr rw won0 lost dctx
                                       (ml\<lparr>ml_packets := ml_packets ml @ packets\<rparr>), s)))))))"

primrec end_players ::
  "end_env \<Rightarrow> 'g rng \<Rightarrow> string \<Rightarrow> u32 \<Rightarrow> Room \<Rightarrow> report \<Rightarrow> (u16, ClientInfo) fmap \<Rightarrow> u16 list \<Rightarrow> leaders \<Rightarrow> (u16, LeaderDerived) fmap
     \<Rightarrow> u16 list \<Rightarrow> match_loop \<times> 'g \<Rightarrow> match_loop \<times> 'g" where
  "end_players en rng uid room_id room rp cli all_players L derived [] st = st"
| "end_players en rng uid room_id room rp cli all_players L derived (pid # pids) st =
    (let st = end_player en rng uid room_id room rp cli all_players L derived pid st
     in if ml_aborted (fst st) then st
        else end_players en rng uid room_id room rp cli all_players L derived pids st)"

text \<open>What the room is left with, and the rows of the match that the handler hands to the database at once.\<close>

definition close_match :: "Room \<Rightarrow> Room" where
  "close_match room = room\<lparr>rm_is_playing := False, rm_is_kick_vote_running := False, rm_kicked := {||}, rm_voters := {||},
     rm_voteKickers := {||}, rm_team_rounds_started := 0, rm_match_combat_stats := fmempty, rm_left_sessions := [],
     rm_combat_events := [], rm_match_events := []\<rparr>"

datatype match_log = SessionRows "PlayerMatchSessionAdd list" | CombatRows "(string \<times> PendingCombatEvent) list"
  | EventRows "(string \<times> PendingMatchEvent) list"

definition left_row :: "string \<Rightarrow> PendingLeftSession \<Rightarrow> PlayerMatchSessionAdd" where
  "left_row uid ls = \<lparr>msa_match_unique_id = uid, msa_aid = pls_aid ls, msa_team_id = pls_team_id ls, msa_joined_ms = pls_joined_ms ls,
     msa_left_ms = pls_left_ms ls,
     msa_reason = (if pls_reason ls = 2 then ''Kicked'' else if pls_reason ls = 3 then ''Disconnect'' else ''Leave'')\<rparr>"

definition match_logs :: "string \<Rightarrow> Room \<Rightarrow> PlayerMatchSessionAdd list \<Rightarrow> match_log list" where
  "match_logs uid room finished =
    (let sessions = finished @ map (left_row uid) (rm_left_sessions room)
     in (if sessions = [] then [] else [SessionRows sessions])
        @ (if rm_combat_events room = [] then [] else [CombatRows (map (Pair uid) (rm_combat_events room))])
        @ (if rm_match_events room = [] then [] else [EventRows (map (Pair uid) (rm_match_events room))]))"

text \<open>The observers in the room, whom the report does not list.\<close>

definition end_observer :: "Player \<Rightarrow> Room \<Rightarrow> report \<Rightarrow> u16 \<Rightarrow> server \<times> queued list \<Rightarrow> server \<times> queued list" where
  "end_observer junk room rp obs st = (case st of (sv, packets) \<Rightarrow>
    (let acc = get_acc junk obs sv
     in if acc_Index_of acc = 0 \<or> \<not> pl_in_room acc \<or> pl_room_id acc \<noteq> ucast (rm_room_id room) then (sv, packets)
        else (upd_world (upd_acc obs (\<lambda>p. p\<lparr>pl_playing := False, pl_state := State_Waiting\<rparr>)) sv,
              packets @ [queue_packet High (ucast obs) (rp_order rp) 0 0 (rp_option rp) (raw_data rp)])))"

definition boss_items_bytes :: "(u32 \<times> u32) list \<Rightarrow> bytes" where
  "boss_items_bytes items = le_bytes 4 (of_nat (length items) :: u32) @ concat (map (\<lambda>i. le_bytes 4 (fst i) @ le_bytes 4 (snd i)) items)"

record match_result =
  mr_sv :: server
  mr_packets :: "queued list"
  mr_dctxs :: "DatabaseUpdateCtx list"
  mr_logs :: "match_log list"
  mr_all_ss :: "u16 list"
  mr_mvp :: Leader
  mr_leaders :: leaders
  mr_mode :: u8

definition nothing_ended :: "server \<Rightarrow> match_result" where
  "nothing_ended sv = \<lparr>mr_sv = sv, mr_packets = [], mr_dctxs = [], mr_logs = [], mr_all_ss = [], mr_mvp = no_leader,
     mr_leaders = no_leaders, mr_mode = 0\<rparr>"

definition MpGameModes :: "end_env \<Rightarrow> 'g rng \<Rightarrow> report \<Rightarrow> Player \<Rightarrow> server \<Rightarrow> 'g \<Rightarrow> match_result \<times> 'g" where
  "MpGameModes en rng rp host sv s =
    (case CRoom (sv_world sv) (pl_room_id host) of
       None \<Rightarrow> (nothing_ended sv, s)
     | Some room \<Rightarrow>
       if \<not> pl_in_room host \<or> \<not> rm_is_playing room then (nothing_ended sv, s)
       else
         (let all_players = GetRoomSortedPlayerSessionIds (sv_world sv) room;
              playing_players = GetRoomSortedPlayerPlayingWithoutObserverSessionIds (sv_world sv) room;
              mode = rm_ModeIndex room; boss = (mode = Mode_BossBattle)
          in case parse_infos (map (report_entry boss (rp_data rp)) [0..<unat (rp_option rp)]) fmempty of (sids, cli) \<Rightarrow>
            (let relayed = map (\<lambda>i. queue_packet High (ucast i) (rp_order rp) 0 0 (rp_option rp) (raw_data rp))
                   (filter (\<lambda>i. i \<noteq> rm_host_session_id room) sids);
                 (L, derived) = (if boss then (no_leaders, fmempty)
                   else fold (lead_player en (pl_room_id host) room cli sv) playing_players (no_leaders, fmempty));
                 uid = BuildMatchUniqueId (en_blake en) (ucast (rm_room_id room)) (rm_host_session_id room) (rm_start_time room)
                   (en_end_ms en) mode (rm_MapIndex room) (ucast (red_score rp)) (ucast (blue_score rp))
             in case end_players en rng uid (pl_room_id host) room rp cli all_players L derived playing_players
                  (\<lparr>ml_sv = sv, ml_packets = relayed, ml_dctxs = [], ml_mvp = no_leader, ml_pve_rewards = [], ml_sessions = [],
                    ml_aborted = False\<rparr>, s) of
               (ml, s) \<Rightarrow>
                 if ml_aborted ml then
                   (\<lparr>mr_sv = ml_sv ml, mr_packets = ml_packets ml, mr_dctxs = ml_dctxs ml, mr_logs = [], mr_all_ss = [],
                     mr_mvp = ml_mvp ml, mr_leaders = L, mr_mode = mode\<rparr>, s)
                 else
                   (let sv = upd_world (\<lambda>w. SendCastRoomMatchStateSync (rm_room_id room) (rm_host_session_id room) False
                          (set_room (close_match room) w)) (ml_sv ml)
                    in case fold (end_observer (en_junk en) room rp) (GetRoomSortedObserversSessionIds (sv_world sv) room)
                         (sv, ml_packets ml) of
                      (sv, packets) \<Rightarrow>
                        (let results = (if boss then map (\<lambda>i. queue_packet Normal (ucast i) (rp_order rp) 0 41 0
                               (boss_items_bytes (filter (\<lambda>x. fst x \<noteq> uid_data (new_UniqueId i 1)) (ml_pve_rewards ml)))) playing_players
                             else []);
                             done = map (\<lambda>i. queue_packet Normal (ucast i) 256 0 33 0 []) all_players
                         in (\<lparr>mr_sv = sv, mr_packets = packets @ results @ done, mr_dctxs = ml_dctxs ml,
                              mr_logs = match_logs uid room (ml_sessions ml), mr_all_ss = all_players, mr_mvp = ml_mvp ml,
                              mr_leaders = L, mr_mode = mode\<rparr>, s))))))"

section \<open>The handler and its task\<close>

text \<open>The validation of the changes, in order; an account that has changed meanwhile is passed over.\<close>

fun validate_changes ::
  "game_data \<Rightarrow> Player \<Rightarrow> u16 list \<Rightarrow> server \<Rightarrow> DatabaseUpdateCtx list \<Rightarrow> DbUpdateError + ValidatedDbUpdates list" where
  "validate_changes g junk aids sv [] = Inr []"
| "validate_changes g junk aids sv (d # ds) =
    (let acc = get_acc junk (ucast (ctx_sid d)) sv
     in if acc_Index_of acc \<noteq> ctx_aid d then validate_changes g junk aids sv ds
        else case ValidateDatabaseUpdates g aids (CAccount (sv_world sv)) (sv_stores sv) acc d False False of
          Inl e \<Rightarrow> Inl e
        | Inr v \<Rightarrow> map_sum id ((#) v) (validate_changes g junk aids sv ds))"

record match_task =
  mt_validated :: "ValidatedDbUpdates list"
  mt_titles :: bool
  mt_packets :: "queued list"
  mt_all_ss :: "u16 list"
  mt_mvp :: Leader
  mt_leaders :: leaders

definition MatchEnd ::
  "end_env \<Rightarrow> 'g rng \<Rightarrow> u64 \<Rightarrow> u16 list \<Rightarrow> u16 \<Rightarrow> u8 \<Rightarrow> u8 \<Rightarrow> report \<Rightarrow> server \<Rightarrow> 'g
     \<Rightarrow> server \<times> match_log list \<times> match_task option \<times> 'g" where
  "MatchEnd en rng now64 aids sid mission extra rp sv s =
    (case CAccount (sv_world sv) sid of
       None \<Rightarrow> (sv, [], None, s)
     | Some host \<Rightarrow>
       if acc_Index_of host = - 1 then (sv, [], None, s)
       else
         (let single = (extra = 6)
          in case (if single then
               (let e = SpGameModes (en_data en) (en_now en) now64 mission (rp_data rp) host
                in ((nothing_ended sv)\<lparr>mr_packets := es_packets e, mr_dctxs := es_dctxs e\<rparr>, s))
             else MpGameModes en rng rp host sv s) of
            (r, s) \<Rightarrow>
              (case validate_changes (en_data en) (en_junk en) aids (mr_sv r) (mr_dctxs r) of
                 Inl e \<Rightarrow> (mr_sv r, mr_logs r, None, s)
               | Inr vs \<Rightarrow> (mr_sv r, mr_logs r, Some \<lparr>mt_validated = vs, mt_titles = (\<not> single \<and> mr_mode r \<noteq> Mode_BossBattle),
                   mt_packets = mr_packets r, mt_all_ss = mr_all_ss r, mt_mvp = mr_mvp r, mt_leaders = mr_leaders r\<rparr>, s))))"

text \<open>An item that broke: the others see what is worn now.\<close>

definition destroyed :: "ValidatedDbUpdates \<Rightarrow> bool" where
  "destroyed v \<longleftrightarrow> list_ex (\<lambda>rp. ip_repair (rip_patch rp) = Some 0 \<and> ip_is_equipped (rip_patch rp) = Some False) (v_items_patches v)"

definition destroyed_packets :: "game_data \<Rightarrow> Player \<Rightarrow> u32 \<Rightarrow> u16 list \<Rightarrow> queued list" where
  "destroyed_packets g p sid all_ss =
    (let shown = (\<lambda>i. queue_packet Highest i 414 0 (ucast (acc_SelectedCharacter (pl_acc_info p))) 17 (equip_bytes g p))
     in shown sid # concat (map (\<lambda>i. if ucast i = sid then []
          else [shown (ucast i), queue_packet Highest (ucast i) 314 0 0 (pl_voice_id p) (le_bytes 4 (uid_data (pl_uid p)))]) all_ss))"

definition titles :: "Leader \<Rightarrow> leaders \<Rightarrow> u32 \<Rightarrow> string \<Rightarrow> string list \<Rightarrow> string list" where
  "titles mvp L sid nick texts =
    (let put = (\<lambda>l text old. if ld_sid l = sid \<and> ld_pts l \<noteq> 0 then text (dec (nat (ld_pts l))) else old);
         pct = (\<lambda>pts. dec (nat pts div 100) @ ''.'' @ pad 2 (nat pts mod 100))
     in [put mvp (\<lambda>n. ''MVP: '' @ nick @ '' '' @ n @ ''pts'') (texts ! 0),
         put (lead_entryFragger L) (\<lambda>n. ''ENTRY FRAGGER: '' @ nick @ '' '' @ n @ '' Killstreak'') (texts ! 1),
         put (lead_bullseye L) (\<lambda>n. ''THE BULLSEYE: '' @ nick @ '' '' @ pct (ld_pts (lead_bullseye L)) @ ''% Headshots'') (texts ! 2),
         put (lead_support L) (\<lambda>n. ''THE SUPPORT: '' @ nick @ '' '' @ n @ '' Assists'') (texts ! 3),
         put (lead_bomba L) (\<lambda>n. ''BOMBA: '' @ nick @ '' '' @ n @ '' Explosive kills'') (texts ! 4)])"

text \<open>The accounts, one after the other, until an application fails.\<close>

fun apply_changes ::
  "game_data \<Rightarrow> Player \<Rightarrow> u32 \<Rightarrow> match_task \<Rightarrow> ValidatedDbUpdates list \<Rightarrow> server \<times> queued list \<times> string list
     \<Rightarrow> (server \<times> queued list \<times> string list) + server" where
  "apply_changes g junk now t [] st = Inl st"
| "apply_changes g junk now t (v # vs) st = (case st of (sv, packets, texts) \<Rightarrow>
    (case perform junk now (ucast (v_sid v)) v sv of
       (sv, Some e, p) \<Rightarrow> Inr sv
     | (sv, None, p) \<Rightarrow> apply_changes g junk now t vs
         (sv, packets @ (if destroyed v then destroyed_packets g p (v_sid v) (mt_all_ss t) else []),
          if mt_titles t then titles (mt_mvp t) (mt_leaders t) (v_sid v) (acc_Nickname (pl_acc_info p)) texts else texts)))"

definition send_queued :: "queued \<Rightarrow> world \<Rightarrow> world" where
  "send_queued q = SendMsg (ucast (qp_sid q)) (qp_order q) (qp_mission q) (qp_extra q) (qp_option q) (qp_data q)"

definition finish_match_end ::
  "game_data \<Rightarrow> (CurrencyType \<Rightarrow> nat) \<Rightarrow> bool \<Rightarrow> Player \<Rightarrow> u32 \<Rightarrow> match_task \<Rightarrow> server \<Rightarrow> server" where
  "finish_match_end g col_max up junk now t sv =
    (case UpdateAccounts col_max now up (mt_validated t) (sv_db sv) of
       (d, Inl e) \<Rightarrow> sv\<lparr>sv_db := d\<rparr>
     | (d, Inr (outs, vs)) \<Rightarrow>
         (case apply_changes g junk now t vs (sv\<lparr>sv_db := d\<rparr>, mt_packets t, replicate 5 []) of
            Inr sv \<Rightarrow> sv
          | Inl (sv, packets, texts) \<Rightarrow>
              upd_world (\<lambda>w. fold (\<lambda>i. fold (SendServerMessage i) (filter (\<lambda>x. x \<noteq> []) texts)) (if mt_titles t then mt_all_ss t else [])
                (fold send_queued (bucket_order packets) w)) sv))"

end
