(* ===== verification/Match_Props.thy ===== *)
theory Match_Props
  imports Match_End Room_Props Trade_Props Crypt "HOL-Library.Multiset"
begin

text \<open>
  What the end of a match promises: who is paid, within which bounds, how items wear, who leads; and
  where the code does not do what it means to.
\<close>

section \<open>Scores and queues\<close>

definition first_best :: "(u32 \<times> int) list \<Rightarrow> Leader" where
  "first_best xs =
    (let m = Max (insert 0 (set (map snd xs)))
     in case find (\<lambda>x. snd x = m \<and> 0 < m) xs of None \<Rightarrow> no_leader | Some x \<Rightarrow> \<lparr>ld_sid = fst x, ld_pts = snd x\<rparr>)"

lemma fold_bump:
  fixes L :: Leader
  defines "R xs \<equiv> fold (\<lambda>(sid, pts). bump_score sid pts) xs"
  shows "R xs L = L \<and> (\<forall>x \<in> set xs. snd x \<le> ld_pts L)
    \<or> (\<exists>ys x zs. xs = ys @ x # zs \<and> R xs L = \<lparr>ld_sid = fst x, ld_pts = snd x\<rparr> \<and> ld_pts L < snd x
         \<and> (\<forall>y \<in> set ys. snd y < snd x) \<and> (\<forall>z \<in> set zs. snd z \<le> snd x))"
proof (induction xs rule: rev_induct)
  case (snoc b xs)
  have step: "R (xs @ [b]) L = bump_score (fst b) (snd b) (R xs L)" by (simp add: R_def split_beta)
  from snoc show ?case
  proof (elim disjE exE conjE)
    assume 1: "R xs L = L" "\<forall>x \<in> set xs. snd x \<le> ld_pts L"
    show ?thesis
    proof (cases "ld_pts L < snd b")
      case True
      then have "xs @ [b] = xs @ b # [] \<and> R (xs @ [b]) L = \<lparr>ld_sid = fst b, ld_pts = snd b\<rparr> \<and> (\<forall>y \<in> set xs. snd y < snd b)"
        using 1 step by (auto simp: bump_score_def)
      then show ?thesis using True by (intro disjI2 exI [of _ xs] exI [of _ b] exI [of _ "[]"]) simp
    qed (use 1 step in \<open>auto simp: bump_score_def\<close>)
  next
    fix ys x zs
    assume 1: "xs = ys @ x # zs" "R xs L = \<lparr>ld_sid = fst x, ld_pts = snd x\<rparr>" "ld_pts L < snd x"
      "\<forall>y \<in> set ys. snd y < snd x" "\<forall>z \<in> set zs. snd z \<le> snd x"
    show ?thesis
    proof (cases "snd x < snd b")
      case True
      then have "R (xs @ [b]) L = \<lparr>ld_sid = fst b, ld_pts = snd b\<rparr>" "\<forall>y \<in> set xs. snd y < snd b" "ld_pts L < snd b"
        using 1 step by (auto simp: bump_score_def)
      then show ?thesis by (intro disjI2 exI [of _ xs] exI [of _ b] exI [of _ "[]"]) simp
    next
      case False
      then have "R (xs @ [b]) L = \<lparr>ld_sid = fst x, ld_pts = snd x\<rparr>" "xs @ [b] = ys @ x # (zs @ [b])"
        "\<forall>z \<in> set (zs @ [b]). snd z \<le> snd x" using 1 step by (auto simp: bump_score_def)
      then show ?thesis using 1(3,4) by blast
    qed
  qed
qed (simp add: R_def)

lemma Max_first:
  assumes "xs = ys @ x # zs" "(0::int) < snd x" "\<forall>y \<in> set ys. snd y < snd x" "\<forall>z \<in> set zs. snd z \<le> snd x"
  shows "Max (insert 0 (set (map snd xs))) = snd x"
  by (rule Max_eqI) (use assms in auto)

text \<open>
  The one pass over the players that bumps a score finds the first of those who reach the
  highest score, or nobody when no score is positive.
\<close>

theorem leader_is_first_best: "fold (\<lambda>(sid, pts). bump_score sid pts) xs no_leader = first_best xs"
  using fold_bump [of xs no_leader]
proof (elim disjE exE conjE)
  assume 1: "fold (\<lambda>(sid, pts). bump_score sid pts) xs no_leader = no_leader" "\<forall>x \<in> set xs. snd x \<le> ld_pts no_leader"
  then have "Max (insert 0 (set (map snd xs))) = 0" by (intro Max_eqI) (auto simp: no_leader_def)
  moreover have "find (\<lambda>x. False) xs = None" by (simp add: find_None_iff)
  ultimately show ?thesis using 1(1) by (simp add: first_best_def)
next
  fix ys x zs
  assume 1: "xs = ys @ x # zs" "fold (\<lambda>(sid, pts). bump_score sid pts) xs no_leader = \<lparr>ld_sid = fst x, ld_pts = snd x\<rparr>"
    "ld_pts no_leader < snd x" "\<forall>y \<in> set ys. snd y < snd x" "\<forall>z \<in> set zs. snd z \<le> snd x"
  have x: "0 < snd x" using 1(3) by (simp add: no_leader_def)
  have "find (\<lambda>y. snd y = snd x \<and> 0 < snd x) (ys @ x # zs) = Some x"
    using 1(4) x by (induction ys) auto
  then show ?thesis using Max_first [OF 1(1) x 1(4,5)] 1(1,2) by (simp add: first_best_def Let_def)
qed

definition priority_rank :: "priority \<Rightarrow> nat" where
  "priority_rank p = (case p of Highest \<Rightarrow> 0 | High \<Rightarrow> 1 | Normal \<Rightarrow> 2 | Low \<Rightarrow> 3 | Lowest \<Rightarrow> 4)"

lemma bucket_filter: "filter (\<lambda>q. qp_priority q = p) (bucket_order ps) = filter (\<lambda>q. qp_priority q = p) ps"
proof -
  have "filter (\<lambda>q. qp_priority q = p) (filter (\<lambda>q. qp_priority q = r) ps) = (if r = p then filter (\<lambda>q. qp_priority q = p) ps else [])" for r
    by (auto simp: filter_empty_conv intro: filter_cong)
  then show ?thesis by (cases p) (simp_all add: bucket_order_def filter_concat)
qed

lemma priority_rank_inject [simp]: "priority_rank p = priority_rank q \<longleftrightarrow> p = q"
  by (cases p; cases q) (simp_all add: priority_rank_def)

lemma mset_bucket_order: "mset (bucket_order ps) = mset ps"
proof (induction ps)
  case (Cons q ps)
  then show ?case by (cases "qp_priority q") (simp_all add: bucket_order_def)
qed (simp add: bucket_order_def)

text \<open>
  The buckets are emptied as a stable sort by priority: all packets, the urgent ones first, and
  in the order queued within a priority.
\<close>

theorem buckets_sort_packets: "bucket_order ps = sort_key (priority_rank \<circ> qp_priority) ps"
proof (rule sym, rule properties_for_sort_key)
  show "mset (bucket_order ps) = mset ps" by (rule mset_bucket_order)
  show "filter (\<lambda>x. (priority_rank \<circ> qp_priority) k = (priority_rank \<circ> qp_priority) x) (bucket_order ps)
      = filter (\<lambda>x. (priority_rank \<circ> qp_priority) k = (priority_rank \<circ> qp_priority) x) ps" for k
    using bucket_filter [of "qp_priority k" ps] by (simp add: eq_commute [of "qp_priority k"])
  have eq: "map (priority_rank \<circ> qp_priority) (filter (\<lambda>q. qp_priority q = p) ps) = replicate (length (filter (\<lambda>q. qp_priority q = p) ps)) (priority_rank p)" for p
    by (induction ps) auto
  show "sorted (map (priority_rank \<circ> qp_priority) (bucket_order ps))"
    unfolding bucket_order_def by (simp add: sorted_append eq) (auto simp: priority_rank_def)
qed

section \<open>Rewards\<close>

lemma fround_0 [simp]: "fround p 0 = 0"
  by (simp add: fround_def)

lemma add_share_0 [simp]: "add_share 0 v = v"
  by (simp add: add_share_def)

lemma no_extra: "\<forall>it \<in> set (worn acc). item_BonusEffectId (or_null new_ItemInfo (item_id_of it) (CItemsInfo g)) = 0 \<Longrightarrow> extra_procent g acc key = 0"
proof -
  have "\<forall>it \<in> set xs. item_BonusEffectId (or_null new_ItemInfo (item_id_of it) (CItemsInfo g)) = 0 \<Longrightarrow> fold (add_effect g key) xs e = e" for xs e
    by (induction xs arbitrary: e) (simp_all add: add_effect_def Let_def)
  moreover assume "\<forall>it \<in> set (worn acc). item_BonusEffectId (or_null new_ItemInfo (item_id_of it) (CItemsInfo g)) = 0"
  ultimately have "fold (add_effect g key) (worn acc) 0 = 0" by blast
  then show ?thesis by (simp add: extra_procent_def)
qed

definition rewarded_modes :: "u8 list" where
  "rewarded_modes = basic_modes @ [Mode_CaptureTheBattery, Mode_CLAN_CaptureTheBattery, Mode_BombBattle, Mode_CLAN_BombBattle,
     Mode_ZombieMode, Mode_ArmsRace]"

lemma normalized:
  assumes "mode \<in> set rewarded_modes"
  obtains e p where "mode_reward ri mode m = normalize_reward ri (e, p)"
proof -
  consider "mode \<in> set basic_modes" | "is_ctb_mode mode" | "is_bomb_mode mode" | "mode = Mode_ZombieMode" | "mode = Mode_ArmsRace"
    using assms unfolding rewarded_modes_def is_ctb_mode_def is_bomb_mode_def by auto
  then have "mode_reward ri mode m \<in> range (normalize_reward ri)" by cases (auto simp: mode_reward_def Let_def)
  then show thesis using that by (metis prod.collapse rangeE)
qed


definition duel_rewards :: RewardInfo where
  "duel_rewards = new_RewardInfo\<lparr>reward_ExpBase := 10, reward_ExpMax := 500, reward_ExpKill := 20, reward_PointBase := 10,
     reward_PointKill := 15, reward_PointDeath := 5\<rparr>"

definition duel_data :: game_data where
  "duel_data = \<lparr>CItemsInfo = fmempty, CSetItemsInfo = fmempty, CEffectInfo = fmempty, CBaseUnitInfo = fmempty, CUpgradesInfo = fmempty,
     CMapsInfo = fmempty, CRoomOptionsInfo = fmempty, CGradesInfo = fmempty, CRewardsInfo = fmupd 1 duel_rewards fmempty,
     CDailyMissionInfo = fmempty, CGachaponsInfo = fmempty, CVendorItems = {||}, CPackagesInfo = fmempty, CCollectionInfo = fmempty, CDailyMissions = []\<rparr>"

definition trooper :: "u16 \<Rightarrow> u32 \<Rightarrow> u8 \<Rightarrow> Player" where
  "trooper sid aid team = (ex_acc sid 0 team)\<lparr>pl_acc_info := new_FrontAccount\<lparr>acc_Index := aid, acc_PCRoom := 0\<rparr>\<rparr>"

lemma trooper_worn [simp]: "GetEquippedInventoryItems (pl_inventory_items (trooper sid aid team)) c = []"
  by (simp add: trooper_def ex_defs GetEquippedInventoryItems_def)


text \<open>
  The points of a player are computed in 32 unsigned bits: when the deaths cost more than the
  kills and assists and the base bring, the difference wraps and the player is paid the maximum.
\<close>

theorem deaths_pay_the_maximum:
  assumes "mode \<in> set basic_modes"
    and "credit = unat (reward_PointBase ri) + unat (ei_total_kills m) * unat (reward_PointKill ri) + unat (ei_assists m) * unat (reward_PointAssist ri)"
    and "debit = unat (ei_deaths m) * unat (reward_PointDeath ri)"
    and "credit < debit" "debit - credit + unat (reward_ExpMax ri) \<le> 2 ^ 32"
  shows "snd (mode_reward ri mode m) = reward_ExpMax ri"
proof -
  let ?p = "snd (add_basic ri m (reward_ExpBase ri, reward_PointBase ri))"
  have "?p = of_nat credit - of_nat debit"
    by (simp add: add_basic_def assms(2,3) algebra_simps)
  also have "\<dots> = of_nat (2 ^ 32 - (debit - credit))"
  proof -
    have "of_nat (2 ^ 32 - (debit - credit)) = (of_nat (2 ^ 32) - of_nat (debit - credit) :: u32)"
      using assms(5) by (intro of_nat_diff) simp
    also have "(of_nat (2 ^ 32) :: u32) = 0" by simp
    also have "(of_nat (debit - credit) :: u32) = of_nat debit - of_nat credit" using assms(4) by (intro of_nat_diff) simp
    finally show ?thesis by simp
  qed
  finally have p: "?p = of_nat (2 ^ 32 - (debit - credit))" .
  have "unat ?p = 2 ^ 32 - (debit - credit)"
    unfolding p unat_of_nat by (rule mod_less) (use assms(4) in simp)
  then have "reward_ExpMax ri \<le> ?p" using assms(5) by (simp add: word_le_nat_alt)
  then have "reward_ExpMax ri \<le> max (reward_PointBase ri) ?p" by (simp add: le_max_iff_disj)
  then show ?thesis using assms(1) by (simp add: mode_reward_def normalize_reward_def Let_def min.absorb1)
qed

definition idle_info :: end_info where
  "idle_info = read_end_info (\<lambda>_. 0) 0"

theorem deaths_pay_the_maximum_witness: "snd (mode_reward duel_rewards Mode_TeamDeathMatch (idle_info\<lparr>ei_deaths := 3\<rparr>)) = reward_ExpMax duel_rewards"
proof (rule deaths_pay_the_maximum)
  show "Mode_TeamDeathMatch \<in> set basic_modes" by (simp add: basic_modes_def)
  show "10 = unat (reward_PointBase duel_rewards) + unat (ei_total_kills (idle_info\<lparr>ei_deaths := 3\<rparr>)) * unat (reward_PointKill duel_rewards)
      + unat (ei_assists (idle_info\<lparr>ei_deaths := 3\<rparr>)) * unat (reward_PointAssist duel_rewards)"
    "15 = unat (ei_deaths (idle_info\<lparr>ei_deaths := 3\<rparr>)) * unat (reward_PointDeath duel_rewards)"
    by (simp_all add: duel_rewards_def idle_info_def read_end_info_def new_RewardInfo_def)
  show "(10::nat) < 15" by simp
  show "15 - 10 + unat (reward_ExpMax duel_rewards) \<le> 2 ^ 32" by (simp add: duel_rewards_def)
qed

section \<open>Who is paid\<close>

lemma level_up_ctx: "\<exists>xs. fst (ProcessLevelUp g now acc e ctx) = ctx\<lparr>ctx_ops := ctx_ops ctx @ xs\<rparr>"
  by (auto simp: ProcessLevelUp_def Let_def split: sum.splits)

lemma pay_player_ctx:
  assumes "pay_player en room all_players L derived draw pid acc i rw mvp won dctx = Some (dctx', packets)"
  shows "ctx_sid dctx' = ctx_sid dctx \<and> ctx_aid dctx' = ctx_aid dctx \<and> (\<exists>xs. ctx_ops dctx' = ctx_ops dctx @ xs
    @ map Op_AccountInfo (match_stats_patch room pid acc i # result_patches draw won (pl_acc_info acc)
       @ (if rm_is_clan_room room then clan_patches draw won (contribution L derived pid mvp won) (pl_acc_info acc) i else [])
       @ [new_AccountInfoPatch\<lparr>aip_play_time := Some (acc_PlayTime (pl_acc_info acc) + play_time en acc)\<rparr>]))"
proof -
  let ?d = "dctx\<lparr>ctx_ops := ctx_ops dctx @ reward_op Cur_ENERGY (rw_energy rw) @ reward_op Cur_MP (rw_mp rw)\<rparr>"
  obtain xs where xs: "fst (ProcessLevelUp (en_data en) (en_now en) acc (rw_exp rw) ?d) = ?d\<lparr>ctx_ops := ctx_ops ?d @ xs\<rparr>"
    using level_up_ctx by blast
  obtain d r where r: "ProcessLevelUp (en_data en) (en_now en) acc (rw_exp rw) ?d = (d, r)" by fastforce
  then have d: "d = ?d\<lparr>ctx_ops := ctx_ops ?d @ xs\<rparr>" using xs by simp
  show ?thesis
  proof (cases "rw_exp rw = 0")
    case True
    then show ?thesis using assms by (auto simp: pay_player_def Let_def)
  next
    case False
    then show ?thesis using assms r d by (cases r) (auto simp: pay_player_def Let_def)
  qed
qed

text \<open>Settling a player touches nothing of what decides whether another report counts, nor the player's own index and room.\<close>

definition same_seats :: "Player \<Rightarrow> server \<Rightarrow> server \<Rightarrow> bool" where
  "same_seats junk sv sv' \<longleftrightarrow> (\<forall>q. acc_Index_of (get_acc junk q sv') = acc_Index_of (get_acc junk q sv)
     \<and> pl_in_room (get_acc junk q sv') = pl_in_room (get_acc junk q sv) \<and> pl_room_id (get_acc junk q sv') = pl_room_id (get_acc junk q sv))"

lemma same_seats_refl [simp]: "same_seats junk sv sv"
  by (simp add: same_seats_def)

lemma same_seats_trans: "same_seats junk a b \<Longrightarrow> same_seats junk b c \<Longrightarrow> same_seats junk a c"
  by (simp add: same_seats_def)

lemma same_seats_upd:
  assumes "acc = get_acc junk pid sv" "acc_Index_of p = acc_Index_of acc" "pl_in_room p = pl_in_room acc" "pl_room_id p = pl_room_id acc"
  shows "same_seats junk sv (upd_world (upd_acc pid (\<lambda>_. p)) sv)"
  using assms by (auto simp: same_seats_def get_acc_def upd_world_def upd_acc_def split: option.splits)

definition seat :: "end_env \<Rightarrow> u32 \<Rightarrow> (u16, ClientInfo) fmap \<Rightarrow> server \<Rightarrow> u16 \<Rightarrow> u32 option" where
  "seat en room_id cli sv pid = map_option (acc_Index_of \<circ> fst) (counted en room_id cli sv pid)"

lemma seat_same: "same_seats (en_junk en) sv sv' \<Longrightarrow> seat en room_id cli sv' pid = seat en room_id cli sv pid"
  by (auto simp: seat_def counted_def same_seats_def Let_def split: option.split)

lemma get_rewards_player:
  "get_rewards g rng order room acc info nr s = (rw, acc', s') \<Longrightarrow> acc' = acc \<or> acc' = acc\<lparr>pl_earnt_battery := 0\<rparr>"
  by (auto simp: get_rewards_def Let_def split: ClientInfoVariant.splits if_splits prod.splits)

lemma counted_acc: "counted en room_id cli sv pid = Some (acc, info) \<Longrightarrow> acc = get_acc (en_junk en) pid sv"
  by (auto simp: counted_def Let_def split: option.splits if_splits)

lemma settle_player_simps:
  "ml_dctxs (settle_player en uid room rp L derived pid acc info nr rw won lost dctx ml) = ml_dctxs ml
    @ [dctx\<lparr>ctx_ops := ctx_ops dctx @ fst (pay_boss en pid acc (if rm_ModeIndex room = Mode_BossBattle then rw_item rw else 0))
        @ [Op_MatchHistory (match_history en uid room rp L derived (ml_mvp ml) pid acc info nr rw won lost)]\<rparr>]"
  "ml_aborted (settle_player en uid room rp L derived pid acc info nr rw won lost dctx ml) = ml_aborted ml"
  "ml_sv (settle_player en uid room rp L derived pid acc info nr rw won lost dctx ml)
    = upd_world (upd_acc pid (\<lambda>_. acc\<lparr>pl_playing := False,
            pl_state := (if rm_host_session_id room = pid then State_HostReady else State_Waiting)\<rparr>)) (ml_sv ml)"
  by (simp_all add: settle_player_def split: prod.split)

lemma upd_world_keeps:
  "CRoom (sv_world (upd_world (upd_acc pid f) sv)) = CRoom (sv_world sv)"
  by (simp add: upd_world_def upd_acc_def)

lemma end_player_cases:
  assumes "end_player en rng uid room_id room rp cli all_players L derived pid (ml, s) = (ml', s')"
  shows "CRoom (sv_world (ml_sv ml')) = CRoom (sv_world (ml_sv ml)) \<and> same_seats (en_junk en) (ml_sv ml) (ml_sv ml')
    \<and> (case counted en room_id cli (ml_sv ml) pid of
         None \<Rightarrow> ml_dctxs ml' = ml_dctxs ml \<and> ml_aborted ml' = ml_aborted ml
       | Some (acc, info) \<Rightarrow> ml_dctxs ml' = ml_dctxs ml \<and> ml_aborted ml'
          \<or> ml_aborted ml' = ml_aborted ml \<and> (\<exists>d. ml_dctxs ml' = ml_dctxs ml @ [d] \<and> ctx_aid d = acc_Index_of acc))"
proof (cases "counted en room_id cli (ml_sv ml) pid")
  case None
  then show ?thesis using assms by (simp add: end_player_def)
next
  case (Some ai)
  obtain acc info where ai: "ai = (acc, info)" by fastforce
  have acc: "acc = get_acc (en_junk en) pid (ml_sv ml)" using Some counted_acc ai by blast
  let ?nr = "no_rewards (en_min_seconds en) acc info (play_time en acc)"
  obtain rw acc' s2 where rw: "get_rewards (en_data en) rng (en_boss_order en) room acc info ?nr s = (rw, acc', s2)"
    by (metis prod_cases3)
  have acc': "acc' = acc \<or> acc' = acc\<lparr>pl_earnt_battery := 0\<rparr>" using get_rewards_player [OF rw] .
  then have seats: "same_seats (en_junk en) (ml_sv ml) (upd_world (upd_acc pid (\<lambda>_. acc')) (ml_sv ml))"
    "\<And>st. same_seats (en_junk en) (ml_sv ml) (upd_world (upd_acc pid (\<lambda>_. acc'\<lparr>pl_playing := False, pl_state := st\<rparr>)) (ml_sv ml))"
    by (auto intro!: same_seats_upd [OF acc] simp: acc_Index_of_def)
  have aid: "acc_Index_of acc' = acc_Index_of acc" using acc' by (auto simp: acc_Index_of_def)
  obtain ops pen where w: "wear_items (en_data en) (en_now en) (rm_Restriction room) acc' = (ops, pen)" by fastforce
  have dctx: "ctx_aid (make_dctx acc' ops) = acc_Index_of acc" using aid by (simp add: make_dctx_def)
  show ?thesis
  proof (cases "cl_info info")
    case (BossInfo b)
    then show ?thesis using assms Some ai rw w seats dctx
      by (auto simp: end_player_def Let_def settle_player_simps upd_world_keeps)
  next
    case (PvpInfo i)
    show ?thesis
    proof (cases ?nr)
      case True
      then show ?thesis using assms Some ai rw w seats dctx PvpInfo
        by (auto simp: end_player_def Let_def settle_player_simps upd_world_keeps)
    next
      case False
      note facts = assms Some ai rw w seats dctx PvpInfo False pay_player_ctx
      show ?thesis using assms Some ai rw w seats dctx PvpInfo False
        by (auto simp: end_player_def Let_def settle_player_simps upd_world_keeps dest!: pay_player_ctx split: option.splits)
    qed
  qed
qed

lemma end_players_paid:
  assumes "end_players en rng uid room_id room rp cli all_players L derived pids (ml, s) = (ml', s')" "\<not> ml_aborted ml"
  shows "CRoom (sv_world (ml_sv ml')) = CRoom (sv_world (ml_sv ml)) \<and> same_seats (en_junk en) (ml_sv ml) (ml_sv ml')
    \<and> (\<exists>n. map ctx_aid (ml_dctxs ml') = map ctx_aid (ml_dctxs ml) @ take n (List.map_filter (seat en room_id cli (ml_sv ml)) pids)
        \<and> (\<not> ml_aborted ml' \<longrightarrow> n = length (List.map_filter (seat en room_id cli (ml_sv ml)) pids)))"
  using assms
proof (induction pids arbitrary: ml s)
  case Nil
  then show ?case by (auto simp: List.map_filter_def)
next
  case (Cons pid pids)
  obtain ml1 s1 where 1: "end_player en rng uid room_id room rp cli all_players L derived pid (ml, s) = (ml1, s1)" by fastforce
  note step = end_player_cases [OF 1]
  have same: "seat en room_id cli (ml_sv ml1) = seat en room_id cli (ml_sv ml)" using step seat_same by blast
  show ?case
  proof (cases "ml_aborted ml1")
    case True
    then have "ml' = ml1" using Cons.prems 1 by simp
    moreover have "ml_dctxs ml1 = ml_dctxs ml" using step True Cons.prems(2) by (auto split: option.splits)
    ultimately show ?thesis using step True by (auto intro: exI [of _ 0])
  next
    case False
    then have rest: "end_players en rng uid room_id room rp cli all_players L derived pids (ml1, s1) = (ml', s')" using Cons.prems(1) 1 by simp
    obtain n where n: "map ctx_aid (ml_dctxs ml') = map ctx_aid (ml_dctxs ml1) @ take n (List.map_filter (seat en room_id cli (ml_sv ml)) pids)"
      "\<not> ml_aborted ml' \<longrightarrow> n = length (List.map_filter (seat en room_id cli (ml_sv ml)) pids)" "CRoom (sv_world (ml_sv ml')) = CRoom (sv_world (ml_sv ml1))"
      "same_seats (en_junk en) (ml_sv ml1) (ml_sv ml')"
      using Cons.IH [OF rest False] unfolding same by blast
    have d: "map ctx_aid (ml_dctxs ml1) = map ctx_aid (ml_dctxs ml) @ (case seat en room_id cli (ml_sv ml) pid of None \<Rightarrow> [] | Some a \<Rightarrow> [a])"
      using step False by (auto simp: seat_def split: option.splits)
    show ?thesis
    proof (cases "seat en room_id cli (ml_sv ml) pid")
      case None
      then show ?thesis using n d step same_seats_trans
        by (intro conjI exI [of _ n]) (auto simp: List.map_filter_simps)
    next
      case (Some a)
      then show ?thesis using n d step same_seats_trans
        by (intro conjI exI [of _ "Suc n"]) (auto simp: List.map_filter_simps)
    qed
  qed
qed

lemma end_observer_keeps:
  "CRoom (sv_world (fst (fold (end_observer junk room rp) obs st))) = CRoom (sv_world (fst st))"
proof (induction obs arbitrary: st)
  case (Cons o1 obs)
  have "CRoom (sv_world (fst (end_observer junk room rp o1 st))) = CRoom (sv_world (fst st))"
    by (cases st) (simp add: end_observer_def Let_def upd_world_keeps)
  then show ?case using Cons.IH by simp
qed simp


definition arena :: server where
  "arena = shop_server\<lparr>sv_world := ex_world [1 \<mapsto> trooper 1 7 Team_Neutral, 2 \<mapsto> trooper 2 8 Team_Neutral]
     ((ex_room [1, 2] [])\<lparr>rm_is_playing := True\<rparr>)\<rparr>"


lemma end_player_pvp:
  assumes "end_player en rng uid room_id room rp cli all_players L derived pid (ml, s) = (ml', s')"
    and "counted en room_id cli (ml_sv ml) pid = Some (acc, info)" "cl_info info = PvpInfo i"
    and "\<not> no_rewards (en_min_seconds en) acc info (play_time en acc)" "\<not> ml_aborted ml'"
    and "won = ((if pl_team_id acc = Team_Blue then blue_score rp > red_score rp else \<not> blue_score rp > red_score rp)
           \<or> rm_ModeIndex room = Mode_FreeForAll \<and> ld_sid (lead_ffa_winner L) = ucast pid)"
  shows "ml_mvp ml' = bump_mvp L derived pid (ml_mvp ml)"
    and "\<exists>d h acc'. ml_dctxs ml' = ml_dctxs ml @ [d] \<and> last (ctx_ops d) = Op_MatchHistory h
      \<and> mha_IsMvp h = (ucast pid = ld_sid (ml_mvp ml')) \<and> pl_acc_info acc' = pl_acc_info acc
      \<and> set (map Op_AccountInfo (match_stats_patch room pid acc' i # result_patches (blue_score rp = red_score rp) won (pl_acc_info acc)))
          \<subseteq> set (ctx_ops d)"
proof -
  let ?nr = "no_rewards (en_min_seconds en) acc info (play_time en acc)"
  obtain rw acc' s2 where rw: "get_rewards (en_data en) rng (en_boss_order en) room acc info ?nr s = (rw, acc', s2)"
    by (metis prod_cases3)
  have acc': "pl_acc_info acc' = pl_acc_info acc" using get_rewards_player [OF rw] by auto
  obtain ops pen where w: "wear_items (en_data en) (en_now en) (rm_Restriction room) acc' = (ops, pen)" by fastforce
  let ?mvp = "bump_mvp L derived pid (ml_mvp ml)"
  let ?won0 = "if pl_team_id acc = Team_Blue then blue_score rp > red_score rp else \<not> blue_score rp > red_score rp"
  let ?draw = "blue_score rp = red_score rp"
  let ?ml1 = "ml\<lparr>ml_sessions := ml_sessions ml @ [\<lparr>msa_match_unique_id = uid, msa_aid = acc_Index_of acc,
      msa_team_id = pl_team_id acc, msa_joined_ms = pl_match_loaded_time acc * 1000, msa_left_ms = en_end_ms en,
      msa_reason = ''Finished''\<rparr>]\<rparr>"
  let ?ml2 = "?ml1\<lparr>ml_packets := ml_packets ?ml1 @ wear_packet pid pen\<rparr>"
  let ?ml = "?ml2\<lparr>ml_mvp := bump_mvp L derived pid (ml_mvp ?ml2)\<rparr>"
  let ?pay = "pay_player en room all_players L derived ?draw pid acc' i rw (ml_mvp ?ml) won (make_dctx acc' ops)"
  have run: "(ml', s') = (case ?pay of
      None \<Rightarrow> (?ml\<lparr>ml_sv := upd_world (upd_acc pid (\<lambda>_. acc')) (ml_sv ?ml), ml_aborted := True\<rparr>, s2)
    | Some (dctx, packets) \<Rightarrow> (settle_player en uid room rp L derived pid acc' info ?nr rw ?won0 (\<not> ?draw \<and> \<not> ?won0) dctx
        (?ml\<lparr>ml_packets := ml_packets ?ml @ packets\<rparr>), s2))"
    unfolding assms(1) [symmetric] end_player_def prod.case assms(2) option.case Let_def rw w assms(3) ClientInfoVariant.case
      if_not_P [OF assms(4)] assms(6) by (rule refl)
  obtain dctx packets where pay': "?pay = Some (dctx, packets)" using run assms(5) by (cases ?pay) auto
  then have pay: "pay_player en room all_players L derived ?draw pid acc' i rw ?mvp won (make_dctx acc' ops) = Some (dctx, packets)" by simp
  obtain ml0 lost won0 where s: "ml_mvp ml0 = ?mvp" "ml_dctxs ml0 = ml_dctxs ml"
    "ml' = settle_player en uid room rp L derived pid acc' info ?nr rw won0 lost dctx ml0"
    using run pay' that [of "?ml\<lparr>ml_packets := ml_packets ?ml @ packets\<rparr>"] by auto
  show mvp: "ml_mvp ml' = ?mvp" using s by (simp add: settle_player_def split: prod.split)
  have "set (map Op_AccountInfo (match_stats_patch room pid acc' i # result_patches (blue_score rp = red_score rp) won (pl_acc_info acc)))
      \<subseteq> set (ctx_ops dctx)"
    using pay_player_ctx [OF pay] acc' by auto
  moreover have "mha_IsMvp (match_history en uid room rp L derived ?mvp pid acc' info ?nr rw won0 lost) = (ucast pid = ld_sid ?mvp)"
    by (simp add: match_history_def Let_def)
  ultimately show "\<exists>d h acc'. ml_dctxs ml' = ml_dctxs ml @ [d] \<and> last (ctx_ops d) = Op_MatchHistory h
      \<and> mha_IsMvp h = (ucast pid = ld_sid (ml_mvp ml')) \<and> pl_acc_info acc' = pl_acc_info acc
      \<and> set (map Op_AccountInfo (match_stats_patch room pid acc' i # result_patches (blue_score rp = red_score rp) won (pl_acc_info acc)))
          \<subseteq> set (ctx_ops d)"
    unfolding mvp using s acc'
    by (intro exI [of _ "dctx\<lparr>ctx_ops := ctx_ops dctx @ fst (pay_boss en pid acc' (if rm_ModeIndex room = Mode_BossBattle then rw_item rw else 0))
        @ [Op_MatchHistory (match_history en uid room rp L derived ?mvp pid acc' info ?nr rw won0 lost)]\<rparr>"]
        exI [of _ "match_history en uid room rp L derived ?mvp pid acc' info ?nr rw won0 lost"] exI [of _ acc'])
      (auto simp: settle_player_simps)
qed

text \<open>
  A draw is a win for whoever is not on the blue team and a loss for the blue team: beside the
  draw, the account's wins or losses go up by one.
\<close>

theorem draw_counts_as_win_or_loss:
  assumes "end_player en rng uid room_id room rp cli all_players L derived pid (ml, s) = (ml', s')"
    and "counted en room_id cli (ml_sv ml) pid = Some (acc, info)" "cl_info info = PvpInfo i"
    and "\<not> no_rewards (en_min_seconds en) acc info (play_time en acc)" "\<not> ml_aborted ml'"
    and "blue_score rp = red_score rp" "rm_ModeIndex room \<noteq> Mode_FreeForAll"
  shows "\<exists>d. ml_dctxs ml' = ml_dctxs ml @ [d]
    \<and> Op_AccountInfo (new_AccountInfoPatch\<lparr>aip_draws := Some (acc_Draws (pl_acc_info acc) + 1)\<rparr>) \<in> set (ctx_ops d)
    \<and> Op_AccountInfo (if pl_team_id acc = Team_Blue
        then new_AccountInfoPatch\<lparr>aip_loses := Some (acc_Loses (pl_acc_info acc) + 1)\<rparr>
        else new_AccountInfoPatch\<lparr>aip_wins := Some (acc_Wins (pl_acc_info acc) + 1)\<rparr>) \<in> set (ctx_ops d)"
  using end_player_pvp(2) [OF assms(1-5) refl] assms(6,7) by (auto simp: result_patches_def)

lemma end_players_extends:
  "end_players en rng uid room_id room rp cli all_players L derived pids (ml, s) = (ml', s') \<Longrightarrow> \<exists>xs. ml_dctxs ml' = ml_dctxs ml @ xs"
proof (induction pids arbitrary: ml s)
  case (Cons q qs)
  obtain ml2 s2 where 2: "end_player en rng uid room_id room rp cli all_players L derived q (ml, s) = (ml2, s2)" by fastforce
  have 3: "\<exists>xs. ml_dctxs ml2 = ml_dctxs ml @ xs" using end_player_cases [OF 2] by (auto split: option.splits)
  show ?case
  proof (cases "ml_aborted ml2")
    case False
    then have "end_players en rng uid room_id room rp cli all_players L derived qs (ml2, s2) = (ml', s')" using Cons.prems 2 by simp
    then obtain ys where "ml_dctxs ml' = ml_dctxs ml2 @ ys" using Cons.IH by blast
    then show ?thesis using 3 by auto
  qed (use Cons.prems 2 3 in simp)
qed simp

text \<open>
  The title is given while the list is walked: the first of the list whose score is positive is
  recorded as the best player of the match, whatever the others scored.
\<close>

theorem first_listed_is_mvp:
  assumes "end_players en rng uid room_id room rp cli all_players L derived (pid # pids) (ml, s) = (ml', s')"
    and "ml_dctxs ml = []" "ml_mvp ml = no_leader" "\<not> ml_aborted ml'"
    and "counted en room_id cli (ml_sv ml) pid = Some (acc, info)" "cl_info info = PvpInfo i"
    and "\<not> no_rewards (en_min_seconds en) acc info (play_time en acc)" "mvp_points L derived pid = Some points" "0 < points"
  shows "\<exists>d h. hd (ml_dctxs ml') = d \<and> last (ctx_ops d) = Op_MatchHistory h \<and> mha_IsMvp h"
proof -
  obtain ml1 s1 where 1: "end_player en rng uid room_id room rp cli all_players L derived pid (ml, s) = (ml1, s1)" by fastforce
  have live: "\<not> ml_aborted ml1" using assms(1,4) 1 by (auto split: if_splits)
  then have rest: "end_players en rng uid room_id room rp cli all_players L derived pids (ml1, s1) = (ml', s')" using assms(1) 1 by simp
  have mvp: "ld_sid (ml_mvp ml1) = ucast pid"
    using end_player_pvp(1) [OF 1 assms(5,6,7) live refl] assms(3,8,9) by (simp add: bump_mvp_def bump_score_def no_leader_def)
  obtain d h where d: "ml_dctxs ml1 = [d]" "last (ctx_ops d) = Op_MatchHistory h" "mha_IsMvp h"
    using end_player_pvp(2) [OF 1 assms(5,6,7) live refl] assms(2) mvp by auto
  have "\<exists>xs. ml_dctxs ml' = ml_dctxs ml1 @ xs" using rest by (rule end_players_extends)
  then show ?thesis using d by auto
qed

text \<open>Two players of a running match of which the first reports a kill; it is not on the blue team.\<close>

definition arena_env :: end_env where
  "arena_env = \<lparr>en_data = duel_data, en_now = 9, en_end_time = 500, en_end_ms = 500000, en_blake = (\<lambda>_. []), en_min_seconds = 90,
     en_boss_order = boss_rewards, en_junk = owner\<rparr>"

definition one_kill :: end_info where
  "one_kill = idle_info\<lparr>ei_total_kills := 1\<rparr>"

definition arena_reports :: "(u16, ClientInfo) fmap" where
  "arena_reports = fmupd 1 \<lparr>cl_unique_id = 1, cl_info = PvpInfo one_kill\<rparr> fmempty"

definition arena_loop :: match_loop where
  "arena_loop = \<lparr>ml_sv = arena, ml_packets = [], ml_dctxs = [], ml_mvp = no_leader, ml_pve_rewards = [], ml_sessions = [], ml_aborted = False\<rparr>"

lemma arena_counted:
  "counted arena_env 2048 arena_reports arena 1 = Some (trooper 1 7 Team_Neutral, \<lparr>cl_unique_id = 1, cl_info = PvpInfo one_kill\<rparr>)"
  by (simp add: counted_def arena_reports_def arena_def get_acc_def ex_defs trooper_def acc_Index_of_def Let_def)

lemma arena_rewarded:
  "\<not> no_rewards (en_min_seconds arena_env) (trooper 1 7 Team_Neutral) \<lparr>cl_unique_id = 1, cl_info = PvpInfo one_kill\<rparr>
    (play_time arena_env (trooper 1 7 Team_Neutral))"
  by (simp add: no_rewards_def no_kill_def one_kill_def idle_info_def read_end_info_def arena_env_def trooper_def ex_defs
      Team_Neutral_def Team_Observer_def play_time_def)

lemma no_grades:
  assumes "CGradesInfo (en_data en) = fmempty"
  shows "pay_player en room all_players L derived draw pid acc i rw mvp won dctx \<noteq> None"
  using assms by (simp add: pay_player_def ProcessLevelUp_def or_null_def cache_get_def new_GradeInfo_def Let_def)

lemma no_grades_live:
  assumes "CGradesInfo (en_data en) = fmempty" "\<not> ml_aborted ml"
    and "end_player en rng uid room_id room rp cli all_players L derived pid (ml, s) = (ml', s')"
  shows "\<not> ml_aborted ml'"
  using assms(2,3)
  by (auto simp: end_player_def Let_def settle_player_simps no_grades [OF assms(1)] split: option.splits prod.splits ClientInfoVariant.splits if_splits)

lemma arena_live:
  assumes "end_player arena_env rng uid room_id room rp cli all_players L derived pid (arena_loop, s) = (ml', s')"
  shows "\<not> ml_aborted ml'"
  by (rule no_grades_live [OF _ _ assms]) (simp_all add: arena_env_def duel_data_def arena_loop_def)

theorem draw_counts_as_win_or_loss_witness:
  "\<forall>(rng :: unit rng) L derived. let room = (ex_room [1, 2] [])\<lparr>rm_ModeIndex := Mode_TeamDeathMatch\<rparr> in
    \<exists>d. ml_dctxs (fst (end_player arena_env rng [] 2048 room \<lparr>rp_order = 0, rp_option = 1, rp_data = \<lambda>_. 0, rp_size = 24\<rparr>
        arena_reports [1, 2] L derived 1 (arena_loop, ()))) = ml_dctxs arena_loop @ [d]
      \<and> Op_AccountInfo (new_AccountInfoPatch\<lparr>aip_wins := Some (acc_Wins (pl_acc_info (trooper 1 7 Team_Neutral)) + 1)\<rparr>) \<in> set (ctx_ops d)"
proof (intro allI)
  fix L derived and rng :: "unit rng"
  let ?room = "(ex_room [1, 2] [])\<lparr>rm_ModeIndex := Mode_TeamDeathMatch\<rparr>"
  let ?rp = "\<lparr>rp_order = 0, rp_option = 1, rp_data = \<lambda>_. 0, rp_size = 24\<rparr>"
  let ?run = "end_player arena_env rng [] 2048 ?room ?rp arena_reports [1, 2] L derived 1 (arena_loop, ())"
  have run: "?run = (fst ?run, snd ?run)" by (rule prod.collapse [symmetric])
  have 1: "counted arena_env 2048 arena_reports (ml_sv arena_loop) 1 = Some (trooper 1 7 Team_Neutral, \<lparr>cl_unique_id = 1, cl_info = PvpInfo one_kill\<rparr>)"
    using arena_counted by (simp add: arena_loop_def)
  have 2: "cl_info \<lparr>cl_unique_id = 1, cl_info = PvpInfo one_kill\<rparr> = PvpInfo one_kill" by simp
  have 3: "blue_score ?rp = red_score ?rp" "rm_ModeIndex ?room \<noteq> Mode_FreeForAll"
    by (simp_all add: blue_score_def red_score_def modes)
  have "pl_team_id (trooper 1 7 Team_Neutral) \<noteq> Team_Blue" by (simp add: trooper_def ex_defs Team_Neutral_def Team_Blue_def)
  then show "let room = ?room in \<exists>d. ml_dctxs (fst (end_player arena_env rng [] 2048 room ?rp arena_reports [1, 2] L derived 1 (arena_loop, ()))) = ml_dctxs arena_loop @ [d]
      \<and> Op_AccountInfo (new_AccountInfoPatch\<lparr>aip_wins := Some (acc_Wins (pl_acc_info (trooper 1 7 Team_Neutral)) + 1)\<rparr>) \<in> set (ctx_ops d)"
    using draw_counts_as_win_or_loss [OF run 1 2 arena_rewarded arena_live [OF run] 3] unfolding Let_def by auto
qed

theorem first_listed_is_mvp_witness:
  "\<forall>(rng :: unit rng) L room rp. \<exists>h. mha_IsMvp h \<and> last (ctx_ops (hd (ml_dctxs (fst (end_players arena_env rng [] 2048 room rp
        arena_reports [1, 2] L (fmupd 1 (derive False 0 one_kill) fmempty) [1] (arena_loop, ())))))) = Op_MatchHistory h"
proof (intro allI)
  fix L room rp and rng :: "unit rng"
  let ?der = "fmupd 1 (derive False 0 one_kill) fmempty"
  let ?run = "end_players arena_env rng [] 2048 room rp arena_reports [1, 2] L ?der [1] (arena_loop, ())"
  have run: "?run = (fst ?run, snd ?run)" by (rule prod.collapse [symmetric])
  have 0: "ml_dctxs arena_loop = []" "ml_mvp arena_loop = no_leader" by (simp_all add: arena_loop_def)
  have live: "\<not> ml_aborted (fst ?run)" using arena_live [OF prod.collapse [symmetric]] by (simp add: Let_def)
  have 1: "counted arena_env 2048 arena_reports (ml_sv arena_loop) 1 = Some (trooper 1 7 Team_Neutral, \<lparr>cl_unique_id = 1, cl_info = PvpInfo one_kill\<rparr>)"
    using arena_counted by (simp add: arena_loop_def)
  have 2: "cl_info \<lparr>cl_unique_id = 1, cl_info = PvpInfo one_kill\<rparr> = PvpInfo one_kill" by simp
  have 3: "mvp_points L ?der 1 = Some (2 + bonus_points 1 L)"
    by (simp add: mvp_points_def derive_def one_kill_def idle_info_def read_end_info_def)
  have "0 \<le> bonus_points 1 L"
    unfolding bonus_points_def role_bonuses_def by (rule sum_list_nonneg) (auto simp del: filter.simps)
  then show "\<exists>h. mha_IsMvp h \<and> last (ctx_ops (hd (ml_dctxs (fst ?run)))) = Op_MatchHistory h"
    using first_listed_is_mvp [OF run 0 live 1 2 arena_rewarded 3] by auto
qed

section \<open>Wear\<close>

text \<open>What a match does to a worn item that wears.\<close>

definition worn_down :: "Item \<Rightarrow> Item" where
  "worn_down it = (let n = inv_repair (it_item_info it) in
     it\<lparr>it_item_info := (it_item_info it)\<lparr>inv_repair := (if n = 0 then 0 else n - 1)\<rparr>, it_is_equipped := (if n \<le> 1 then 0 else it_is_equipped it)\<rparr>)"

lemma patch_wear: "patch_item (wear_patch it) it = worn_down it"
proof -
  let ?n = "inv_repair (it_item_info it)"
  have "?n = 0 \<or> ?n = 1 \<or> \<not> ?n \<le> 1" by (metis le_eq_less_or_eq less_one linorder_le_cases word_le_less_eq word_less_1)
  moreover have "(ucast (- 1 :: u32) :: u16) = - 1" by (rule bit_word_eqI) (simp add: bit_simps)
  then have "ucast (ucast ?n - 1 :: u32) = ?n - 1" using ucast16_add [of "ucast ?n" "- 1"] by simp
  ultimately show ?thesis
    by (auto simp: patch_item_def wear_patch_def worn_down_def new_ItemPatchCtx_def set_if_def Let_def)
qed

fun no_item_change :: "DbOp \<Rightarrow> bool" where
  "no_item_change (Op_ItemPatch p) = False"
| "no_item_change (Op_ItemDelete d) = False"
| "no_item_change op = True"

lemma collect_wear:
  "collect_ops g acc b (map (Op_ItemPatch \<circ> wear_patch) its @ rest) (out, bucket) = collect_ops g acc b rest
    (out\<lparr>v_items_patches := v_items_patches out @ map (\<lambda>it. \<lparr>rip_serial = item_serial it, rip_patch = wear_patch it\<rparr>) its\<rparr>, bucket)"
proof (induction its arbitrary: out)
  case (Cons it its)
  have "resolve_serial g items (wear_patch it) = Some (item_serial it)" for items
    by (simp add: resolve_serial_def wear_patch_def new_ItemPatchCtx_def new_ItemSelector_def item_serial_def Let_def)
  then show ?case using Cons by (simp add: collect_op_def)
qed simp

lemma collect_no_item_change:
  "collect_ops g acc b ops (out, bucket) = Inr (out', bucket') \<Longrightarrow> list_all no_item_change ops \<Longrightarrow>
    v_items_patches out' = v_items_patches out \<and> v_items_deleted out' = v_items_deleted out"
proof (induction ops arbitrary: out bucket)
  case (Cons op ops)
  obtain o1 b1 where 1: "collect_op g acc b op (out, bucket) = Inr (o1, b1)" "collect_ops g acc b ops (o1, b1) = Inr (out', bucket')"
    using Cons.prems(1) by (auto split: sum.splits)
  then have "v_items_patches o1 = v_items_patches out \<and> v_items_deleted o1 = v_items_deleted out"
    using Cons.prems(2) by (cases op) (auto simp: collect_op_def split: if_splits)
  then show ?case using Cons.IH [OF 1(2)] Cons.prems(2) by simp
qed simp

lemma serial_worn_down [simp]: "item_serial (worn_down it) = item_serial it"
  by (simp add: worn_down_def item_serial_def Let_def)

lemma fold_wear:
  assumes "distinct (map item_serial items)" "set its \<subseteq> set items" "distinct its" "it \<in> set items"
  shows "fold (\<lambda>rp it. if item_serial it = rip_serial rp then patch_item (rip_patch rp) it else it)
      (map (\<lambda>it. \<lparr>rip_serial = item_serial it, rip_patch = wear_patch it\<rparr>) its) it = (if it \<in> set its then worn_down it else it)"
  using assms(2,3)
proof (induction its)
  case Nil
  then show ?case by simp
next
  case (Cons x its)
  have inj: "item_serial it = item_serial y \<longleftrightarrow> it = y" if "y \<in> set items" for y
    using assms(1,4) that by (auto simp: distinct_map inj_on_def)
  show ?case
  proof (cases "it = x")
    case True
    have "fold (\<lambda>rp it. if item_serial it = rip_serial rp then patch_item (rip_patch rp) it else it)
        (map (\<lambda>it. \<lparr>rip_serial = item_serial it, rip_patch = wear_patch it\<rparr>) its) z = z" if "item_serial z = item_serial x" for z
      using that Cons.prems inj [unfolded True]
    proof (induction its arbitrary: z)
      case (Cons y ys)
      have "item_serial x \<noteq> item_serial y" using Cons.prems(2,3,4) by auto
      then show ?case using Cons.IH [of z] Cons.prems by simp
    qed simp
    then show ?thesis using True by (simp add: patch_wear)
  next
    case False
    then show ?thesis using Cons inj [of x] by simp
  qed
qed



definition blade :: Item where
  "blade = new_Item (new_InventoryItemInfo (new_InventoryItemNumber 5 0) 1 (new_ItemSerialInfo 4 1 1 0 9) 3 0) 0 1 0 0"

definition fighter :: Player where
  "fighter = owner\<lparr>pl_inventory_items := [blade], pl_acc_info := (pl_acc_info owner)\<lparr>acc_SelectedCharacter := 0\<rparr>\<rparr>"

definition armory :: game_data where
  "armory = duel_data\<lparr>CItemsInfo := fmupd 5 (new_ItemInfo\<lparr>item_Id := 5, item_Durability := 100\<rparr>) fmempty\<rparr>"

definition worn_change :: ValidatedDbUpdates where
  "worn_change = (new_ValidatedDbUpdates 3 7)\<lparr>v_items_patches := [\<lparr>rip_serial = item_serial blade, rip_patch = wear_patch blade\<rparr>]\<rparr>"

lemma blade_wears: "filter (wears armory 9 None) (worn fighter) = [blade]" "blade \<in> set (worn fighter)" "wears armory 9 None blade"
  by (simp_all add: fighter_def blade_def GetEquippedInventoryItems_def wears_def armory_def new_Item_def new_InventoryItemInfo_def
      ItemExpire_Destroyed_def ItemExpire_Expired_def item_id_of_def new_InventoryItemNumber_def or_null_def cache_get_def IsWeaponTypeId_def
      new_ItemInfo_def Let_def)


section \<open>The commit of a match\<close>

text \<open>One transaction for all accounts: each cached player agrees with the rows afterwards, as far as its own change is applied.\<close>

definition settles_with :: "db \<Rightarrow> Player \<Rightarrow> ValidatedDbUpdates \<Rightarrow> ValidatedDbUpdates \<Rightarrow> bool" where
  "settles_with d acc v v' \<longleftrightarrow> v_sid v' = v_sid v \<and> (\<forall>now st s. ApplyDatabaseUpdates now v' acc st = (s, None) \<longrightarrow> agrees (v_aid v) (as_player s) d)"

definition sound_change :: "db \<Rightarrow> (ValidatedDbUpdates \<Rightarrow> Player) \<Rightarrow> ValidatedDbUpdates \<Rightarrow> bool" where
  "sound_change d acc v \<longleftrightarrow> (\<exists>g aids accounts st acc0 ctx bi bc. ValidateDatabaseUpdates g aids accounts st acc0 ctx bi bc = Inr v)
     \<and> list_all (\<lambda>rp. fits (rip_patch rp)) (v_items_patches v) \<and> distinct (map item_serial (pl_inventory_items (acc v)))
     \<and> agrees (v_aid v) (acc v) d"

lemma agrees_rows: "rows_of aid d' = rows_of aid d \<Longrightarrow> account_rows aid d' = account_rows aid d \<Longrightarrow> agrees aid p d' = agrees aid p d"
  by (simp add: agrees_def)

lemma batch_settles:
  "persist_batch cm now vs d = Inr (d', outs, vs') \<Longrightarrow> \<forall>v \<in> set vs. sound_change d acc v \<Longrightarrow> distinct (map v_aid vs) \<Longrightarrow>
    list_all2 (\<lambda>v v'. settles_with d' (acc v) v v') vs vs'
    \<and> (\<forall>aid. aid \<in> v_aid ` set vs \<or> rows_of aid d' = rows_of aid d \<and> account_rows aid d' = account_rows aid d)"
proof (induction vs arbitrary: d d' outs vs')
  case (Cons v vs)
  let ?t = "\<lparr>tx_v = v, tx_db = d, tx_out = new_ResultDbUpdateInfo\<rparr>"
  obtain t outs1 vs1 where 1: "persist_all cm now ?t = Inr t" "persist_batch cm now vs (tx_db t) = Inr (d', outs1, vs1)" "vs' = tx_v t # vs1"
    using Cons.prems(1) by (auto split: sum.splits prod.splits)
  have sound: "sound_change d acc v" using Cons.prems(2) by simp
  then obtain g aids accounts st0 acc0 ctx bi bc where val: "ValidateDatabaseUpdates g aids accounts st0 acc0 ctx bi bc = Inr v"
    unfolding sound_change_def by blast
  have commit: "UpdateAccount cm now True v d = (tx_db t, tx_out t, Inr (tx_v t))" using 1(1) by (simp add: UpdateAccount_def)
  obtain b where b: "v_currency_updates v = net_currencies b" using validated_nets [OF val] by blast
  have other: "rows_of aid (tx_db t) = rows_of aid d" "account_rows aid (tx_db t) = account_rows aid d" if "aid \<noteq> v_aid v" for aid
    using committed_items [OF 1(1), of aid] committed_account(1) [OF 1(1), of b aid] b that by simp_all
  have "\<forall>u \<in> set vs. sound_change (tx_db t) acc u"
  proof
    fix u assume u: "u \<in> set vs"
    then have "v_aid u \<noteq> v_aid v" using Cons.prems(3) by (auto simp: image_iff)
    then show "sound_change (tx_db t) acc u"
      using Cons.prems(2) u agrees_rows [OF other] by (simp add: sound_change_def)
  qed
  then have IH: "list_all2 (\<lambda>v v'. settles_with d' (acc v) v v') vs vs1"
    "\<forall>aid. aid \<in> v_aid ` set vs \<or> rows_of aid d' = rows_of aid (tx_db t) \<and> account_rows aid d' = account_rows aid (tx_db t)"
    using Cons.IH [OF 1(2)] Cons.prems(3) by simp_all
  have "v_aid v \<notin> v_aid ` set vs" using Cons.prems(3) by simp
  then have last: "rows_of (v_aid v) d' = rows_of (v_aid v) (tx_db t)" "account_rows (v_aid v) d' = account_rows (v_aid v) (tx_db t)"
    using IH(2) by blast+
  have "settles_with d' (acc v) v (tx_v t)"
  proof -
    have "agrees (v_aid v) (as_player s) d'" if "ApplyDatabaseUpdates now' (tx_v t) (acc v) st = (s, None)" for now' st s
      using agreement [OF val commit that] sound agrees_rows [OF last] by (simp add: sound_change_def)
    then show ?thesis using committed_change [OF 1(1)] by (simp add: settles_with_def)
  qed
  then show ?case using IH other 1(3) by auto
qed simp


lemma apply_changes_settles:
  "apply_changes g junk now t vs' (sv, ps, xs) = Inl (sv', ps', xs') \<Longrightarrow> list_all2 (\<lambda>v v'. settles_with d (acc v) v v') vs vs' \<Longrightarrow>
    distinct (map (\<lambda>v. ucast (v_sid v) :: u16) vs) \<Longrightarrow> \<forall>v \<in> set vs. CAccount (sv_world sv) (ucast (v_sid v)) = Some (acc v) \<Longrightarrow>
    (\<forall>v \<in> set vs. \<exists>p. CAccount (sv_world sv') (ucast (v_sid v)) = Some p \<and> agrees (v_aid v) p d) \<and> sv_db sv' = sv_db sv
    \<and> (\<forall>q. q \<in> (\<lambda>v. ucast (v_sid v)) ` set vs \<or> CAccount (sv_world sv') q = CAccount (sv_world sv) q)"
proof (induction vs' arbitrary: vs sv ps xs)
  case (Cons v' vs')
  obtain v us where vs: "vs = v # us" and v: "settles_with d (acc v) v v'" and us: "list_all2 (\<lambda>v v'. settles_with d (acc v) v v') us vs'"
    using Cons.prems(2) by (auto simp: list_all2_Cons2)
  let ?sid = "ucast (v_sid v) :: u16"
  have sid: "v_sid v' = v_sid v" using v by (simp add: settles_with_def)
  have acc: "CAccount (sv_world sv) ?sid = Some (acc v)" using Cons.prems(4) vs by simp
  obtain s where s: "ApplyDatabaseUpdates now v' (acc v) (sv_stores sv) = (s, None)"
    and rest: "apply_changes g junk now t vs' (sv\<lparr>sv_world := upd_acc ?sid (\<lambda>_. as_player s) (sv_world sv), sv_stores := as_stores s\<rparr>,
        ps @ (if destroyed v' then destroyed_packets g (as_player s) (v_sid v') (mt_all_ss t) else []),
        if mt_titles t then titles (mt_mvp t) (mt_leaders t) (v_sid v') (acc_Nickname (pl_acc_info (as_player s))) xs else xs) = Inl (sv', ps', xs')"
    using Cons.prems(1) acc sid by (auto simp: perform_def get_acc_def split: prod.splits option.splits)
  let ?sv1 = "sv\<lparr>sv_world := upd_acc ?sid (\<lambda>_. as_player s) (sv_world sv), sv_stores := as_stores s\<rparr>"
  have other: "CAccount (sv_world ?sv1) q = CAccount (sv_world sv) q" if "q \<noteq> ?sid" for q
    using that by (simp add: upd_acc_def)
  have here: "CAccount (sv_world ?sv1) ?sid = Some (as_player s)" using acc by (simp add: upd_acc_def)
  have "\<forall>u \<in> set us. CAccount (sv_world ?sv1) (ucast (v_sid u)) = Some (acc u)"
    using Cons.prems(3,4) vs other by (metis (no_types, lifting) distinct.simps(2) image_eqI list.set_map list.simps(9) set_subset_Cons subsetD)
  then have IH: "\<forall>u \<in> set us. \<exists>p. CAccount (sv_world sv') (ucast (v_sid u)) = Some p \<and> agrees (v_aid u) p d" "sv_db sv' = sv_db sv"
    "\<forall>q. q \<in> (\<lambda>v. ucast (v_sid v)) ` set us \<or> CAccount (sv_world sv') q = CAccount (sv_world ?sv1) q"
    using Cons.IH [OF rest us] Cons.prems(3) vs by auto
  have "?sid \<notin> (\<lambda>v. ucast (v_sid v)) ` set us" using Cons.prems(3) vs by simp
  then have "CAccount (sv_world sv') ?sid = Some (as_player s)" using IH(3) here by metis
  moreover have "agrees (v_aid v) (as_player s) d" using v s by (auto simp: settles_with_def)
  ultimately show ?case using IH other vs by auto
qed simp

lemma send_queued_keeps: "CAccount (send_queued q w) = CAccount w" "CAccount (SendServerMessage i x w) = CAccount w"
  by (simp_all add: send_queued_def SendServerMessage_def SendMsg_def emit_def)




end
