(* ===== verification/Votekick_Props.thy ===== *)
theory Votekick_Props
  imports Votekick Room_Props
begin

text \<open>
  What a vote decides: who has agreed is counted once, a majority removes the target and keeps the
  room well formed; and where the count is not what it should be.
\<close>

section \<open>Votes do not touch the seats\<close>

definition vote_mark :: "u32 fset \<Rightarrow> u16 \<Rightarrow> bool \<Rightarrow> u32 fset \<Rightarrow> Room \<Rightarrow> Room" where
  "vote_mark voters target running kicked r = r\<lparr>rm_voters := voters, rm_vote_kick_target_session_id := target,
     rm_is_kick_vote_running := running, rm_kicked := kicked\<rparr>"

lemma vote_mark_simps [simp]:
  "players (vote_mark v t b k r) = players r" "observers (vote_mark v t b k r) = observers r"
  "rm_host_session_id (vote_mark v t b k r) = rm_host_session_id r" "rm_room_id (vote_mark v t b k r) = rm_room_id r"
  "rm_ModeIndex (vote_mark v t b k r) = rm_ModeIndex r" "GetTeamList (vote_mark v t b k r) x = GetTeamList r x"
  "rm_neutralteam_session_ids (vote_mark v t b k r) = rm_neutralteam_session_ids r"
  "rm_blueteam_session_ids (vote_mark v t b k r) = rm_blueteam_session_ids r"
  "rm_redteam_session_ids (vote_mark v t b k r) = rm_redteam_session_ids r"
  "rm_is_playing (vote_mark v t b k r) = rm_is_playing r" "rm_voters (vote_mark v t b k r) = v"
  "rm_is_kick_vote_running (vote_mark v t b k r) = b" "rm_vote_kick_target_session_id (vote_mark v t b k r) = t"
  by (simp_all add: vote_mark_def players_def GetTeamList_def)

lemma member_ok_vote [simp]: "member_ok w (vote_mark v t b k r) s = member_ok w r s"
  by (simp add: member_ok_def split: option.split)

lemma room_core_vote [simp]: "room_core w (vote_mark v t b k r) = room_core w r"
  by (simp add: room_core_def)

lemma room_ok_vote [simp]: "room_ok w (vote_mark v t b k r) = room_ok w r"
  by (simp add: room_ok_def)

lemma room_core_same_accounts: "CAccount w' = CAccount w \<Longrightarrow> room_core w' r = room_core w r"
  by (rule room_core_cong) simp

lemma room_ok_same_accounts: "CAccount w' = CAccount w \<Longrightarrow> room_ok w' r = room_ok w r"
  using room_core_same_accounts [of w' w r] by (simp add: room_ok_def slot_of_def)

lemma upd_room_simps [simp]:
  "CAccount (upd_room rid f w) = CAccount w" "CRoom (upd_room rid f w) = (CRoom w)(rid := map_option f (CRoom w rid))"
  by (simp_all add: upd_room_def)

lemma voting_member:
  assumes "room_core w r" "s \<in> set (players r @ observers r)"
  obtains p where "CAccount w s = Some p" "acc_Index_of p \<noteq> - 1" "pl_in_room p" "pl_room_id p = ucast (rm_room_id r)"
  using core_member [OF assms] by metis

section \<open>Counting\<close>

lemma length_sessions: "distinct (xs :: u16 list) \<Longrightarrow> length xs \<le> 2 ^ 16"
proof -
  assume d: "distinct xs"
  have "card (set xs) \<le> card (UNIV :: u16 set)" by (rule card_mono) simp_all
  also have "card (UNIV :: u16 set) = 2 ^ 16" by (simp add: card_word)
  finally show ?thesis using distinct_card [OF d] by simp
qed

lemma majority:
  assumes "y \<le> n + 1" "n \<le> 2 ^ 16"
  shows "(of_nat y :: u64) > total_n_voters n y \<longleftrightarrow> 2 * y > n + 1"
proof -
  have "total_n_voters n y = of_nat (n + 1 - y)"
    using assms(1) by (simp add: total_n_voters_def of_nat_diff)
  moreover have "y < 2 ^ 64" "n + 1 - y < 2 ^ 64" using assms by simp_all
  then have "unat (of_nat y :: u64) = y" "unat (of_nat (n + 1 - y) :: u64) = n + 1 - y"
    by (simp_all del: of_nat_diff add: unat_of_nat take_bit_nat_eq_self)
  ultimately show ?thesis using assms(1) unfolding word_less_nat_alt by (simp del: of_nat_diff) arith
qed

lemma agree_step:
  assumes "CRoom w rid = Some r" "rm_is_playing r" "CAccount w s = Some p" "acc_Index_of p \<noteq> - 1" "pl_in_room p" "pl_room_id p = rid"
  shows "CAccount (VotekickAgree junk s w) = CAccount w \<and>
    CRoom (VotekickAgree junk s w) rid = Some (r\<lparr>rm_voters := finsert (ucast s) (rm_voters r)\<rparr>)"
proof (cases "ucast s |\<in>| rm_voters r")
  case True
  then have "r\<lparr>rm_voters := finsert (ucast s) (rm_voters r)\<rparr> = r" by (simp add: finsert_absorb)
  then show ?thesis using assms True by (simp add: VotekickAgree_def)
qed (use assms in \<open>simp add: VotekickAgree_def Let_def\<close>)

lemma agree_all:
  assumes "CRoom w rid = Some r" "rm_is_playing r"
    and "\<forall>s \<in> set ss. \<exists>p. CAccount w s = Some p \<and> acc_Index_of p \<noteq> - 1 \<and> pl_in_room p \<and> pl_room_id p = rid"
  shows "CAccount (fold (VotekickAgree junk) ss w) = CAccount w \<and>
    CRoom (fold (VotekickAgree junk) ss w) rid = Some (r\<lparr>rm_voters := rm_voters r |\<union>| fset_of_list (map ucast ss)\<rparr>)"
  using assms
proof (induction ss arbitrary: w r)
  case (Cons s ss)
  from Cons.prems(3) obtain p where p: "CAccount w s = Some p" "acc_Index_of p \<noteq> - 1" "pl_in_room p" "pl_room_id p = rid" by auto
  note step = agree_step [OF Cons.prems(1,2) p, of junk]
  show ?case
    using Cons.IH [of "VotekickAgree junk s w" "r\<lparr>rm_voters := finsert (ucast s) (rm_voters r)\<rparr>"] step Cons.prems(2,3)
    by (simp add: funion_finsert_right)
qed simp

lemma inj_session: "inj (ucast :: u16 \<Rightarrow> u32)"
proof (rule injI)
  fix a b :: u16
  assume "ucast a = (ucast b :: u32)"
  then have "unat (ucast a :: u32) = unat (ucast b :: u32)" by simp
  moreover have "unat (ucast x :: u32) = unat x" for x :: u16
  proof -
    have "unat x < 2 ^ LENGTH(16)" by (rule unsigned_less)
    then show ?thesis by (simp add: unsigned_ucast_eq take_bit_nat_eq_self)
  qed
  ultimately have "unat a = unat b" by simp
  then show "a = b" by (simp add: word_unat_eq_iff)
qed

lemma fcard_votes:
  assumes "distinct ss" "\<forall>s \<in> set ss. ucast s |\<notin>| V"
  shows "fcard (V |\<union>| fset_of_list (map (ucast :: u16 \<Rightarrow> u32) ss)) = fcard V + length ss"
  using assms
proof (induction ss)
  case (Cons s ss)
  have "ucast s |\<notin>| fset_of_list (map (ucast :: u16 \<Rightarrow> u32) ss)"
    using Cons.prems(1) inj_session by (auto simp: fset_of_list_elem dest: injD)
  with Cons show ?case by (simp add: funion_finsert_right fcard_finsert_disjoint)
qed simp

section \<open>The verdict\<close>

lemma end_vote_mark: "end_vote r = vote_mark {||} 0 False (rm_kicked r) r"
  by (simp add: end_vote_def vote_mark_def)

lemma playing_ids:
  assumes "room_core w r"
  shows "set (GetRoomSortedPlayerPlayingWithoutObserverSessionIds w r) = set (players r)"
    "length (GetRoomSortedPlayerPlayingWithoutObserverSessionIds w r) = length (players r)"
proof -
  have e: "GetRoomSortedPlayerPlayingWithoutObserverSessionIds w r = sorted_ids (map (\<lambda>i. (i, slot_of w i)) (players r))"
    by (simp add: GetRoomSortedPlayerPlayingWithoutObserverSessionIds_def core_team_slots [OF assms])
  show "set (GetRoomSortedPlayerPlayingWithoutObserverSessionIds w r) = set (players r)"
    by (simp add: e set_sorted_ids)
  show "length (GetRoomSortedPlayerPlayingWithoutObserverSessionIds w r) = length (players r)"
    by (simp add: e sorted_ids_def)
qed

text \<open>A vote with no majority only ends; one with a majority removes the target like any other leaver.\<close>

lemma verify_rejects:
  assumes "CRoom w rid = Some r" "rm_is_playing r" "rm_is_kick_vote_running r"
    and "CAccount w s = Some p" "acc_Index_of p \<noteq> - 1" "pl_in_room p" "pl_room_id p = rid"
    and "\<not> getting_kicked (GetRoomSortedPlayerPlayingWithoutObserverSessionIds w r) (rm_vote_kick_target_session_id r) (rm_voters r)"
  shows "CAccount (VotekickVerify junk s w) = CAccount w" "CRoom (VotekickVerify junk s w) rid = Some (end_vote r)"
  using assms by (simp_all add: VotekickVerify_def Let_def)

lemma verify_kicks:
  assumes "CRoom w rid = Some r" "rm_is_playing r" "rm_is_kick_vote_running r"
    and "CAccount w s = Some p" "acc_Index_of p \<noteq> - 1" "pl_in_room p" "pl_room_id p = rid"
    and "getting_kicked (GetRoomSortedPlayerPlayingWithoutObserverSessionIds w r) (rm_vote_kick_target_session_id r) (rm_voters r)"
    and "CAccount w (rm_vote_kick_target_session_id r) = Some q" "acc_Index_of q \<noteq> - 1" "pl_in_room q" "pl_room_id q = rid"
    and "pl_session_id q = rm_vote_kick_target_session_id r"
  obtains w1 where "CAccount w1 = CAccount w"
    "CRoom w1 rid = Some (vote_mark {||} 0 False (finsert (acc_Index_of q) (rm_kicked r)) r)"
    "CRoom (VotekickVerify junk s w) = CRoom (NewRemoveRoomPlayer rid (rm_vote_kick_target_session_id r) Leave_KickedByKickVote True w1)"
    "CAccount (VotekickVerify junk s w) = CAccount (NewRemoveRoomPlayer rid (rm_vote_kick_target_session_id r) Leave_KickedByKickVote True w1)"
proof -
  let ?ids = "GetRoomSortedPlayerPlayingWithoutObserverSessionIds w r"
  let ?kick = "\<lambda>r. r\<lparr>rm_kicked := finsert (acc_Index_of q) (rm_kicked r)\<rparr>"
  let ?w1 = "upd_room rid end_vote (fold (\<lambda>i. SendMsg i 125 0 42 (of_nat (fcard (rm_voters r))) []) ?ids (upd_room rid ?kick w))"
  have "CAccount ?w1 = CAccount w" "CRoom ?w1 rid = Some (vote_mark {||} 0 False (finsert (acc_Index_of q) (rm_kicked r)) r)"
    using assms(1) by (simp_all add: end_vote_def vote_mark_def)
  moreover have "VotekickVerify junk s w = emit (PersistRoomLog (new_RoomLogEntry\<lparr>log_aid := acc_Index_of p,
      log_target_aid := Some (acc_Index_of q), log_event_type := RL_VoteKickSucceeded, log_server_id := ucast (pl_server_id p),
      log_room_id := rid\<rparr>)) (NewRemoveRoomPlayer rid (rm_vote_kick_target_session_id r) Leave_KickedByKickVote True ?w1)"
    using assms by (simp add: VotekickVerify_def Let_def)
  ultimately show ?thesis by (intro that [of ?w1]) simp_all
qed

text \<open>What counting does to a well-formed room with at most one vote more than players.\<close>

lemma verify_decides:
  assumes room: "CRoom w rid = Some r" "rid = ucast (rm_room_id r)" "room_ok w r" "rm_is_playing r" "rm_is_kick_vote_running r"
    and few: "fcard (rm_voters r) \<le> length (players r) + 1"
    and t: "rm_vote_kick_target_session_id r = t" "t \<in> set (players r)" "\<forall>q. CAccount w t = Some q \<longrightarrow> pl_session_id q = t"
    and stays: "\<exists>s \<in> set (players r). s \<noteq> t" and ping: "\<forall>s \<in> set (players r). ping_of w s < - 1"
    and verifier: "v \<in> set (players r @ observers r)"
  shows "\<exists>r'. CRoom (VotekickVerify junk v w) rid = Some r' \<and> room_ok (VotekickVerify junk v w) r'
    \<and> set (players r') = (if 2 * fcard (rm_voters r) > length (players r) + 1 then set (players r) - {t} else set (players r))
    \<and> set (observers r') = set (observers r)"
proof -
  let ?y = "fcard (rm_voters r)" and ?ids = "GetRoomSortedPlayerPlayingWithoutObserverSessionIds w r"
  have core: "room_core w r" using room(3) by (simp add: room_ok_def)
  obtain p where p: "CAccount w v = Some p" "acc_Index_of p \<noteq> - 1" "pl_in_room p" "pl_room_id p = rid"
    using voting_member [OF core verifier] room(2) by metis
  obtain q where q: "CAccount w t = Some q" "acc_Index_of q \<noteq> - 1" "pl_in_room q" "pl_room_id q = rid"
    using voting_member [OF core, of t] t(2) room(2) by (metis UnCI set_append)
  have "length (players r) \<le> 2 ^ 16" using core length_sessions [of "players r"] by (simp add: room_core_def)
  then have verdict: "getting_kicked ?ids t (rm_voters r) \<longleftrightarrow> 2 * ?y > length (players r) + 1"
    using playing_ids [OF core] t(2) majority [OF few] by (simp add: getting_kicked_def)
  show ?thesis
  proof (cases "2 * ?y > length (players r) + 1")
    case False
    then have no: "\<not> getting_kicked ?ids (rm_vote_kick_target_session_id r) (rm_voters r)" using verdict t(1) by simp
    note over = verify_rejects [OF room(1,4,5) p no, where junk = junk]
    have "room_ok (VotekickVerify junk v w) (end_vote r)"
      using room(3) room_ok_same_accounts [OF over(1)] by (simp add: end_vote_mark)
    then show ?thesis using over(2) False by (auto simp: end_vote_mark)
  next
    case True
    then have yes: "getting_kicked ?ids (rm_vote_kick_target_session_id r) (rm_voters r)" using verdict t(1) by simp
    let ?k = "vote_mark {||} 0 False (finsert (acc_Index_of q) (rm_kicked r)) r"
    obtain w1 where w1: "CAccount w1 = CAccount w" "CRoom w1 rid = Some ?k"
      "CRoom (VotekickVerify junk v w) = CRoom (NewRemoveRoomPlayer rid t Leave_KickedByKickVote True w1)"
      "CAccount (VotekickVerify junk v w) = CAccount (NewRemoveRoomPlayer rid t Leave_KickedByKickVote True w1)"
      using verify_kicks [OF room(1,4,5) p yes _ q(2-4), where junk = junk] q(1) t(1,3) by auto
    have "room_ok w1 ?k" using room(3) room_ok_same_accounts [OF w1(1)] by simp
    moreover have "\<forall>s \<in> set (players ?k). ping_of w1 s < - 1" using ping w1(1) by (simp add: ping_of_def)
    ultimately obtain r' where r': "CRoom (NewRemoveRoomPlayer rid t Leave_KickedByKickVote True w1) rid = Some r'"
      "room_ok (NewRemoveRoomPlayer rid t Leave_KickedByKickVote True w1) r'"
      "set (players r') = set (players r) - {t}" "set (observers r') = set (observers r) - {t}"
      using leave_slots_lemma [OF w1(2), of t Leave_KickedByKickVote True] room(2) t(2) stays by auto
    moreover have "t \<notin> set (observers r)" using core t(2) by (auto simp: room_core_def)
    ultimately show ?thesis using True w1(3) room_ok_same_accounts [OF w1(4)] by auto
  qed
qed

section \<open>Properties\<close>


lemma fcard_single: "fcard {|x|} = 1"
  by (simp add: fcard_finsert_disjoint)

definition voting :: Room where
  "voting = (ex_room [1, 2] [])\<lparr>rm_is_playing := True, rm_is_kick_vote_running := True, rm_voters := {|1|},
     rm_vote_kick_target_session_id := 2\<rparr>"

definition voting_world :: world where
  "voting_world = ex_world [1 \<mapsto> ex_acc 1 0 Team_Neutral, 2 \<mapsto> ex_acc 2 1 Team_Neutral] voting"

lemma voting_mark: "voting = (vote_mark {|1|} 2 True {||} (ex_room [1, 2] []))\<lparr>rm_is_playing := True\<rparr>"
  by (simp add: voting_def vote_mark_def ex_room_def new_Room_def)

lemma voting_ok: "room_ok voting_world voting"
proof -
  have "member_ok voting_world voting 1" "member_ok voting_world voting 2"
    by (simp_all add: member_ok_def voting_world_def voting_def ex_defs acc_Index_of_def GetTeamList_def)
  moreover have "slot_of voting_world 1 = 0" "slot_of voting_world 2 = 1" by (simp_all add: slot_of_def voting_world_def ex_defs)
  moreover have "players voting = [1, 2]" "observers voting = []" "rm_host_session_id voting = 1"
    "rm_blueteam_session_ids voting = []" "rm_redteam_session_ids voting = []" "\<not> IsModeTeamBased (rm_ModeIndex voting)"
    by (simp_all add: voting_def ex_room_def new_Room_def players_def IsModeTeamBased_def modes)
  ultimately show ?thesis by (simp add: room_ok_def room_core_def slots_ok_eval)
qed


text \<open>
  Starting a vote while another one runs keeps the votes given so far: they count for the new
  target.
\<close>

theorem votes_carry_over:
  assumes "perform junk now sid v sv = (sv1, None, p)" "CRoom (sv_world sv) rid = Some r" "rm_is_kick_vote_running r"
  shows "\<exists>r'. CRoom (sv_world (finish_votekick junk now sid target reason rid ids v sv)) rid = Some r'
    \<and> rm_vote_kick_target_session_id r' = uid_session target \<and> rm_voters r' = finsert (ucast sid) (rm_voters r)"
proof -
  have "CRoom (sv_world sv1) = CRoom (sv_world sv)"
    using assms(1) by (auto simp: perform_def upd_acc_def split: prod.splits)
  then show ?thesis using assms by (simp add: finish_votekick_def Let_def upd_world_def run_vote_def)
qed

theorem votes_carry_over_witness:
  "\<forall>junk g st d. \<exists>r'. CRoom (sv_world (finish_votekick junk 0 1 (new_UniqueId 3 1) 0 2048 [] (new_ValidatedDbUpdates 1 7)
      \<lparr>sv_world = voting_world, sv_stores = st, sv_aid_sid = fmempty, sv_trades = g, sv_db = d, sv_tasks = [],
       sv_sids = [], sv_sales = fmempty, sv_uptime_ms = 0, sv_rand = sconst 0\<rparr>)) 2048 = Some r'
    \<and> rm_vote_kick_target_session_id r' = 3 \<and> rm_voters r' = {|1|}"
proof (intro allI)
  fix junk g st d
  let ?sv = "\<lparr>sv_world = voting_world, sv_stores = st, sv_aid_sid = fmempty, sv_trades = g, sv_db = d, sv_tasks = [],
       sv_sids = [], sv_sales = fmempty, sv_uptime_ms = 0, sv_rand = sconst 0\<rparr>"
  let ?v = "new_ValidatedDbUpdates 1 7"
  have 1: "perform junk 0 1 ?v ?sv = (fst (perform junk 0 1 ?v ?sv), None, snd (snd (perform junk 0 1 ?v ?sv)))"
    by (simp add: perform_def ApplyDatabaseUpdates_def new_ValidatedDbUpdates_def and_then_def)
  have 2: "CRoom (sv_world ?sv) 2048 = Some voting" "rm_is_kick_vote_running voting" "rm_voters voting = {|1|}"
    by (simp_all add: voting_world_def ex_world_def voting_def)
  show "\<exists>r'. CRoom (sv_world (finish_votekick junk 0 1 (new_UniqueId 3 1) 0 2048 [] ?v ?sv)) 2048 = Some r'
      \<and> rm_vote_kick_target_session_id r' = 3 \<and> rm_voters r' = {|1|}"
    using votes_carry_over [OF 1 2(1,2), of "new_UniqueId 3 1" 0 "[]"] by (simp add: 2 new_UniqueId_def)
qed

text \<open>With more votes than players and one the count against wraps, and nobody is removed who is still there.\<close>

theorem excess_votes_never_kick:
  assumes "length ids + 1 < fcard voters" "fcard voters \<le> 2 ^ 32" "target \<in> set ids"
  shows "\<not> getting_kicked ids target voters"
proof -
  let ?n = "length ids" and ?y = "fcard voters"
  have "total_n_voters ?n ?y = of_nat (2 ^ 64 + ?n + 1 - ?y)" using assms(1,2)
    by (simp add: total_n_voters_def of_nat_diff)
  moreover have "2 ^ 64 + ?n + 1 - ?y < 2 ^ 64" using assms by simp
  ultimately have "unat (total_n_voters ?n ?y) = 2 ^ 64 + ?n + 1 - ?y" by (simp del: of_nat_diff add: unat_of_nat take_bit_nat_eq_self)
  moreover have "unat (of_nat ?y :: u64) = ?y" using assms(2) by (simp add: unat_of_nat take_bit_nat_eq_self)
  ultimately show ?thesis using assms by (simp add: getting_kicked_def word_less_nat_alt)
qed

theorem excess_votes_never_kick_witness: "\<not> getting_kicked [5] 5 {|1, 2, 3|}"
  by (rule excess_votes_never_kick) (simp_all add: fcard_finsert_disjoint fcard_fempty)

end
