(* ===== verification/Gamble_Props.thy ===== *)
theory Gamble_Props
  imports Packages Inventory
begin

text \<open>
  What the capsule machine and the packages promise: many spins are single spins one after the
  other, what was won arrives, a used item is used up, and voice cards do not get in each other's way.
\<close>

section \<open>Spinning many times\<close>

text \<open>A single spin as the handler does it when it is asked for one.\<close>

definition spin_once :: "'g rng \<Rightarrow> machine \<Rightarrow> spin_state \<times> 'g \<Rightarrow> spin_state \<times> 'g" where
  "spin_once rng m = (\<lambda>(s, gs). spin_one rng m 1 0 s gs)"

lemma spin_once_cases:
  "spin_once rng m (s, gs) = (if sp_points s \<ge> 1000 then (grant_lucky m s, gs) else do_spin rng m s gs)"
  by (simp add: spin_once_def spin_one_def split: prod.split)

lemma do_spin_effect:
  assumes "do_spin rng m s gs = (s', gs')"
  shows "sp_points s' = sp_points s + mc_points m" "sp_spent s' = sp_spent s + mc_price m"
    "length (sp_rolls s') = length (sp_rolls s) + 1"
  using assms by (auto simp: do_spin_def split: prod.splits)

lemma spins_once:
  assumes "1 < n" "i \<le> n" "i < n \<longrightarrow> sp_points s < 1000"
  shows "\<exists>k. spins rng m n [i..<n] s gs = (spin_once rng m ^^ k) (s, gs)
    \<and> length (sp_rolls (fst (spins rng m n [i..<n] s gs))) = length (sp_rolls s) + k
    \<and> sp_spent (fst (spins rng m n [i..<n] s gs)) = sp_spent s + of_nat (n - i) * mc_price m"
  using assms(2,3)
proof (induction "n - i" arbitrary: i s gs)
  case 0
  then show ?case by (intro exI [of _ 0]) simp
next
  case (Suc d)
  then have i: "i < n" and low: "sp_points s < 1000" and d: "d = n - Suc i" by auto
  obtain s1 gs1 where spin: "do_spin rng m s gs = (s1, gs1)" by fastforce
  have one: "spin_once rng m (s, gs) = (s1, gs1)" using spin low by (auto simp: spin_once_cases dest: leD)
  have split: "[i..<n] = i # [Suc i..<n]" using i by (simp add: upt_conv_Cons)
  have amount: "of_nat (n - i) * mc_price m = mc_price m + of_nat (n - Suc i) * mc_price m"
    using i by (metis Suc_diff_Suc mult_Suc of_nat_Suc of_nat_mult distrib_right mult_1)
  show ?case
  proof (cases "sp_points s1 \<ge> 1000 \<and> i < n - 1")
    case True
    let ?s2 = "grant_lucky m s1"
    have two: "spin_once rng m (s1, gs1) = (?s2, gs1)" using True by (simp add: spin_once_cases)
    have run: "spins rng m n [i..<n] s gs = spins rng m n [Suc i..<n] ?s2 gs1"
      using spin low True assms(1) by (simp add: split spin_one_def)
    obtain k where k: "spins rng m n [Suc i..<n] ?s2 gs1 = (spin_once rng m ^^ k) (?s2, gs1)"
      "length (sp_rolls (fst (spins rng m n [Suc i..<n] ?s2 gs1))) = length (sp_rolls ?s2) + k"
      "sp_spent (fst (spins rng m n [Suc i..<n] ?s2 gs1)) = sp_spent ?s2 + of_nat (n - Suc i) * mc_price m"
      using Suc.hyps(1) [OF d, of ?s2 gs1] i by (auto simp: grant_lucky_def simp del: of_nat_diff)
    have "(spin_once rng m ^^ Suc (Suc k)) (s, gs) = (spin_once rng m ^^ k) (?s2, gs1)"
      by (simp add: funpow_Suc_right one two del: funpow.simps)
    then show ?thesis using k run do_spin_effect [OF spin] amount
      by (intro exI [of _ "Suc (Suc k)"]) (simp add: grant_lucky_def del: funpow.simps)
  next
    case False
    have run: "spins rng m n [i..<n] s gs = spins rng m n [Suc i..<n] s1 gs1"
      using spin low False assms(1) by (auto simp: split spin_one_def)
    have "Suc i < n \<longrightarrow> sp_points s1 < 1000" using False by (auto simp: not_le)
    then obtain k where k: "spins rng m n [Suc i..<n] s1 gs1 = (spin_once rng m ^^ k) (s1, gs1)"
      "length (sp_rolls (fst (spins rng m n [Suc i..<n] s1 gs1))) = length (sp_rolls s1) + k"
      "sp_spent (fst (spins rng m n [Suc i..<n] s1 gs1)) = sp_spent s1 + of_nat (n - Suc i) * mc_price m"
      using Suc.hyps(1) [OF d, of s1 gs1] i by (auto simp del: of_nat_diff)
    have "(spin_once rng m ^^ Suc k) (s, gs) = (spin_once rng m ^^ k) (s1, gs1)"
      by (simp add: funpow_Suc_right one del: funpow.simps)
    then show ?thesis using k run do_spin_effect [OF spin] amount
      by (intro exI [of _ "Suc k"]) (simp del: funpow.simps)
  qed
qed



section \<open>What was won\<close>

definition copper :: "GachaponPackageItem \<Rightarrow> bool" where
  "copper won \<longleftrightarrow> gpi_LuckyType won = Lucky_Copper"

definition coupon :: "GachaponPackageItem \<Rightarrow> bool" where
  "coupon won \<longleftrightarrow> \<not> copper won \<and> gpi_ItemId won = COUPON_1"

definition plain :: "GachaponPackageItem \<Rightarrow> bool" where
  "plain won \<longleftrightarrow> \<not> copper won \<and> gpi_ItemId won \<noteq> COUPON_1"

definition won_item :: "game_data \<Rightarrow> u32 \<Rightarrow> GachaponPackageItem \<Rightarrow> nat \<Rightarrow> Item" where
  "won_item g now won s = (let i = gpi_ItemId won; info = or_null new_ItemInfo i (CItemsInfo g)
     in bought_item (shop_item now i info s) i info)"

abbreviation points_won :: DbOp where
  "points_won \<equiv> Op_Currency \<lparr>acd_type = Cur_MP, acd_value = 1000, acd_is_reward = True\<rparr>"

text \<open>The items, points and coupons of some prizes added to what there was.\<close>

definition with_prizes :: "game_data \<Rightarrow> u32 \<Rightarrow> GachaponPackageItem list \<Rightarrow> winnings \<Rightarrow> winnings \<Rightarrow> bool" where
  "with_prizes g now won w w' \<longleftrightarrow>
     wn_items w' = wn_items w @ map (\<lambda>(x, s). won_item g now x s) (zip (filter plain won) (wn_serials w))
   \<and> wn_serials w' = drop (length (filter plain won)) (wn_serials w)
   \<and> wn_coupons w' = wn_coupons w + of_nat (length (filter coupon won))
   \<and> wn_ops w' = wn_ops w @ replicate (length (filter copper won)) points_won"

lemma zip_take_length: "zip xs (take (length xs) ys) = zip xs ys"
proof (induction xs arbitrary: ys)
  case (Cons x xs)
  then show ?case by (cases ys) simp_all
qed simp

lemma with_prizes_trans:
  "with_prizes g now xs w w' \<Longrightarrow> with_prizes g now ys w' w'' \<Longrightarrow> length (filter plain xs) \<le> length (wn_serials w)
     \<Longrightarrow> with_prizes g now (xs @ ys) w w''"
  by (auto simp: with_prizes_def zip_append1 zip_take_length replicate_add add.commute)

lemma award_prize:
  assumes "plain won \<longrightarrow> wn_serials w \<noteq> []"
  shows "with_prizes g now [won] w (fst (award g now t won (w, packet))) \<and> length (snd (award g now t won (w, packet))) = length packet + 1"
  using assms by (cases "wn_serials w") (auto simp: award_def with_prizes_def plain_def coupon_def copper_def won_item_def Let_def)

lemma award_prizes:
  assumes "length (filter plain roll) \<le> length (wn_serials w)"
  shows "with_prizes g now roll w (fst (fold (award g now t) roll (w, packet)))
    \<and> length (snd (fold (award g now t) roll (w, packet))) = length packet + length roll"
  using assms
proof (induction roll arbitrary: w packet)
  case Nil
  then show ?case by (simp add: with_prizes_def)
next
  case (Cons won roll)
  obtain w1 packet1 where a: "award g now t won (w, packet) = (w1, packet1)" by fastforce
  have "plain won \<longrightarrow> wn_serials w \<noteq> []" using Cons.prems by auto
  from award_prize [OF this, of g now t packet] a
  have one: "with_prizes g now [won] w w1" "length packet1 = length packet + 1" by simp_all
  then have "length (filter plain roll) \<le> length (wn_serials w1)" using Cons.prems by (auto simp: with_prizes_def split: if_splits)
  from Cons.IH [OF this, of packet1] one a Cons.prems show ?case
    using with_prizes_trans [OF one(1), of roll] by (auto split: if_splits)
qed

lemma award_roll_prizes:
  assumes "length (filter plain roll) \<le> length (wn_serials w)"
  shows "with_prizes g now roll w (award_roll g now roll w)
    \<and> map (length \<circ> snd) (wn_packets (award_roll g now roll w)) = map (length \<circ> snd) (wn_packets w) @ [length roll]"
proof -
  have keep: "wn_packets (fst (fold (award g now t) roll (w, packet))) = wn_packets w" for t packet
  proof (induction roll arbitrary: w packet)
    case (Cons won roll)
    obtain w1 packet1 where a: "award g now t won (w, packet) = (w1, packet1)" by fastforce
    then have "wn_packets w1 = wn_packets w" by (auto simp: award_def Let_def split: if_splits)
    then show ?case using Cons [of w1 packet1] a by simp
  qed simp
  show ?thesis
    using award_prizes [OF assms, of g now "case roll of [] \<Rightarrow> 0 | won # _ \<Rightarrow> gpi_LuckyType won" "[]"]
      keep [of "case roll of [] \<Rightarrow> 0 | won # _ \<Rightarrow> gpi_LuckyType won" "[]"]
    by (auto simp: award_roll_def Let_def with_prizes_def split: prod.splits)
qed

lemma award_rolls_prizes:
  assumes "length (concat rolls) \<le> length (wn_serials w)"
  shows "with_prizes g now (concat rolls) w (fold (award_roll g now) rolls w)
    \<and> map (length \<circ> snd) (wn_packets (fold (award_roll g now) rolls w)) = map (length \<circ> snd) (wn_packets w) @ map length rolls"
  using assms
proof (induction rolls arbitrary: w)
  case Nil
  then show ?case by (simp add: with_prizes_def)
next
  case (Cons roll rolls)
  have le: "length (filter plain roll) \<le> length roll" by simp
  then have fit: "length (filter plain roll) \<le> length (wn_serials w)" using Cons.prems by (simp del: length_filter_le)
  note one = award_roll_prizes [OF fit, of g now]
  have "length (concat rolls) \<le> length (wn_serials (award_roll g now roll w))"
    using one le Cons.prems by (simp add: with_prizes_def del: length_filter_le)
  from Cons.IH [OF this] one show ?case using with_prizes_trans [OF _ _ fit] by (auto simp: comp_def)
qed

lemma serial_id_won [simp]: "serial_id (won_item g now x s) = of_nat s"
  by (simp add: won_item_def bought_item_def shop_item_def new_Item_def new_InventoryItemInfo_def new_ItemSerialInfo_def
    ucast_of_nat_20 Let_def)

text \<open>
  C26: Everything won arrives. With serial ids reserved for all prizes, every prize that is
  neither copper nor a coupon becomes one item, in the order of the rolls, with ids that are distinct
  from each other and from those of the inventory; every copper prize is a thousand points, every
  coupon one coupon; and each roll's packet shows as many things as were won in it.
\<close>

theorem winnings_arrive:
  assumes "serials = FindLowestAvailableSerialIds inventory (length (concat rolls))"
    and "length inventory + length (concat rolls) \<le> 2 ^ 20" and "distinct (map serial_id inventory)"
  shows "let w = award_rolls g now serials rolls; won = concat rolls in
    wn_items w = map (\<lambda>(x, s). won_item g now x s) (zip (filter plain won) serials)
    \<and> length (wn_items w) = length (filter plain won) \<and> distinct (map serial_id (inventory @ wn_items w))
    \<and> wn_coupons w = of_nat (length (filter coupon won)) \<and> wn_ops w = replicate (length (filter copper won)) points_won
    \<and> map (length \<circ> snd) (wn_packets w) = map length rolls"
proof -
  let ?S = "FindLowestAvailableSerialIds inventory (length (concat rolls))" and ?won = "filter plain (concat rolls)"
  let ?w = "award_rolls g now ?S rolls"
  have len: "length ?S = length (concat rolls)" by (rule reserved_fit(1) [OF assms(2)])
  have fit: "\<forall>i \<in> set ?S. i < 2 ^ 20" using reserved_fit(2) [OF assms(2)] by blast
  have prizes: "with_prizes g now (concat rolls) \<lparr>wn_ops = [], wn_coupons = 0, wn_items = [], wn_serials = ?S,
      wn_announce = [], wn_packets = []\<rparr> ?w" "map (length \<circ> snd) (wn_packets ?w) = map length rolls"
    using award_rolls_prizes [of rolls "\<lparr>wn_ops = [], wn_coupons = 0, wn_items = [], wn_serials = ?S,
      wn_announce = [], wn_packets = []\<rparr>" g now] len by (simp_all add: award_rolls_def)
  then have items: "wn_items ?w = map (\<lambda>(x, s). won_item g now x s) (zip ?won ?S)" by (simp add: with_prizes_def)
  have le: "length ?won \<le> length ?S" using len length_filter_le [of plain "concat rolls"] by linarith
  have ids: "map serial_id (wn_items ?w) = map of_nat (take (length ?won) ?S)"
  proof -
    have "map serial_id (wn_items ?w) = map of_nat (map snd (zip ?won ?S))"
      unfolding items map_map by (rule map_cong) auto
    then show ?thesis by (simp add: map_snd_zip_take le)
  qed
  have "distinct (map of_nat (take (length ?won) ?S) :: 20 word list)"
    using distinct_of_nat_20 [of "take (length ?won) ?S"] lowest_distinct fit by (auto dest: in_set_takeD)
  moreover have "serial_id it \<noteq> of_nat i" if "i \<in> set ?S" "it \<in> set inventory" for i it
  proof
    assume "serial_id it = of_nat i"
    then have "unat (serial_id it) = i" using that(1) fit by (simp add: unsigned_of_nat take_bit_nat_eq_self)
    then show False using lowest_unused that by blast
  qed
  ultimately have "distinct (map serial_id (inventory @ wn_items ?w))"
    using assms(3) unfolding map_append ids by (auto dest: in_set_takeD)
  moreover have "length (wn_items ?w) = length ?won" using le by (simp add: items)
  ultimately show ?thesis using prizes items unfolding assms(1) Let_def by (simp add: with_prizes_def)
qed

theorem winnings_arrive_witness:
  "\<forall>g now. length (wn_items (award_rolls g now (FindLowestAvailableSerialIds [] 2)
      [[item_GachaponPackageItem 7], [item_GachaponPackageItem COUPON_1]])) = 1"
proof (intro allI)
  fix g now
  have p: "filter plain [item_GachaponPackageItem 7, item_GachaponPackageItem COUPON_1] = [item_GachaponPackageItem 7]"
    by (simp add: plain_def copper_def item_GachaponPackageItem_def new_GachaponPackageItem_def Lucky_Copper_def COUPON_1_def)
  let ?rolls = "[[item_GachaponPackageItem 7], [item_GachaponPackageItem COUPON_1]]"
  have c: "concat ?rolls = [item_GachaponPackageItem 7, item_GachaponPackageItem COUPON_1]" "length (concat ?rolls) = 2" by simp_all
  have 1: "length [] + length (concat ?rolls) \<le> 2 ^ 20" "distinct (map serial_id [])" by simp_all
  show "length (wn_items (award_rolls g now (FindLowestAvailableSerialIds [] 2) ?rolls)) = 1"
    using winnings_arrive [OF refl 1, of g now] unfolding Let_def c(2) unfolding c(1) p by (elim conjE) (simp only: list.size One_nat_def add_0)
qed

section \<open>What a change deletes and adds\<close>

primrec deletes_of :: "DbOp \<Rightarrow> ItemSerialInfo list" where
  "deletes_of (Op_ItemPatch x) = []" | "deletes_of (Op_ItemAdd x) = []" | "deletes_of (Op_ItemDelete x) = idel_serials x"
| "deletes_of (Op_Currency x) = []" | "deletes_of (Op_AccountInfo x) = []" | "deletes_of (Op_Missions x) = []"
| "deletes_of (Op_Monthly x) = []" | "deletes_of (Op_Weekly x) = []" | "deletes_of (Op_Playtime x) = []"
| "deletes_of (Op_BattlePass x) = []" | "deletes_of (Op_Mailbox x) = []" | "deletes_of (Op_MatchHistory x) = []"
| "deletes_of (Op_Sessions x) = []" | "deletes_of (Op_Social x) = []" | "deletes_of (Op_GachaPity x) = []"

primrec adds_of :: "DbOp \<Rightarrow> Item list" where
  "adds_of (Op_ItemPatch x) = []" | "adds_of (Op_ItemAdd x) = ia_items x" | "adds_of (Op_ItemDelete x) = []"
| "adds_of (Op_Currency x) = []" | "adds_of (Op_AccountInfo x) = []" | "adds_of (Op_Missions x) = []"
| "adds_of (Op_Monthly x) = []" | "adds_of (Op_Weekly x) = []" | "adds_of (Op_Playtime x) = []"
| "adds_of (Op_BattlePass x) = []" | "adds_of (Op_Mailbox x) = []" | "adds_of (Op_MatchHistory x) = []"
| "adds_of (Op_Sessions x) = []" | "adds_of (Op_Social x) = []" | "adds_of (Op_GachaPity x) = []"

lemma collect_deletes_all: "collect_deletes items ss deleted = Inr ds \<Longrightarrow> ds = deleted @ ss"
  by (induction items ss deleted rule: collect_deletes.induct) (auto split: if_splits)

lemma collect_op_items:
  assumes "collect_op g acc b op c = Inr c'"
  shows "v_items_deleted (fst c') = v_items_deleted (fst c) @ deletes_of op \<and> v_items_added (fst c') = v_items_added (fst c) @ adds_of op"
  using assms
  by (cases op) (auto simp: collect_op_def dest!: collect_deletes_all split: prod.splits option.splits sum.splits if_splits)

lemma collect_ops_items:
  "collect_ops g acc b ops c = Inr c' \<Longrightarrow> v_items_deleted (fst c') = v_items_deleted (fst c) @ concat (map deletes_of ops)
     \<and> v_items_added (fst c') = v_items_added (fst c) @ concat (map adds_of ops)"
proof (induction ops arbitrary: c)
  case (Cons op ops)
  then obtain c1 where "collect_op g acc b op c = Inr c1" "collect_ops g acc b ops c1 = Inr c'"
    by (auto split: sum.splits)
  then show ?case using Cons.IH [of c1] collect_op_items [of g acc b op c c1] by simp
qed simp

lemma validated_items:
  assumes "ValidateDatabaseUpdates g aids accounts st acc ctx bi bc = Inr v"
  shows "v_items_deleted v = concat (map deletes_of (ctx_ops ctx))" "v_items_added v = concat (map adds_of (ctx_ops ctx))"
  using assms collect_ops_items [of g acc bi "ctx_ops ctx"]
  by (fastforce simp: ValidateDatabaseUpdates_def Let_def new_ValidatedDbUpdates_def split: sum.splits prod.splits option.splits)+

section \<open>Using an item\<close>

text \<open>What every use keeps of the plan.\<close>

definition sound_use :: "ItemSerialInfo list \<Rightarrow> DbOp list \<times> Item list \<times> package_use \<Rightarrow> bool" where
  "sound_use del r = (case r of (ops, new, u) \<Rightarrow> concat (map deletes_of ops) = [] \<and> concat (map adds_of ops) = []
     \<and> length new = length (pu_send u) \<and> pu_delete u = del)"

lemma give_items_sound:
  "give_items g now inventory won u = Some r \<Longrightarrow> sound_use (pu_delete u) r"
  by (auto simp: give_items_def ProcessItemsWon_def sound_use_def Let_def split: if_splits)

lemma open_package_sound:
  "open_package rng walk g now inventory i u gs = (Some r, gs') \<Longrightarrow> pu_send u = [] \<Longrightarrow> sound_use (pu_delete u) r"
  by (auto simp: open_package_def Let_def sound_use_def split: if_splits list.splits prod.splits
    dest!: give_items_sound)

lemma use_normal_sound:
  "use_normal rng walk g now acc i u gs = (Some r, gs') \<Longrightarrow> pu_send u = [] \<Longrightarrow> sound_use (pu_delete u) r"
  unfolding use_normal_def Let_def
  by (split if_splits; (elim conjE disjE)?; auto simp: sound_use_def dest: open_package_sound split: if_splits)

lemma use_hammer_sound:
  assumes "use_hammer rng walk g now acc i capsule u gs = (Some r, gs')"
  obtains mistery where "GetPlayerItemInventory_serial (pl_inventory_items acc) capsule = Some mistery"
    "sound_use (pu_delete u @ [inv_serial_info (it_item_info mistery)]) r"
  using assms by (auto simp: use_hammer_def Let_def split: option.splits if_splits prod.splits dest!: give_items_sound)


text \<open>A player with a card that resets wins and losses.\<close>

definition reset_card :: Item where
  "reset_card = new_Item (new_InventoryItemInfo (new_InventoryItemNumber 4302000 1) 1 (new_ItemSerialInfo 5 1 1 0 0) 0 0) 1 0 0 0"

definition card_holder :: Player where
  "card_holder = (new_Player undefined)\<lparr>pl_acc_info := new_FrontAccount\<lparr>acc_Index := 7, acc_MaximumItems := 50\<rparr>, pl_inventory_items := [reset_card]\<rparr>"

definition card_server :: "stores \<Rightarrow> trade_registry \<Rightarrow> db \<Rightarrow> server" where
  "card_server st tr d = \<lparr>sv_world = \<lparr>CAccount = [3 \<mapsto> card_holder], CRoom = Map.empty, CRoomId = [], CPlaza = Map.empty, CParty = Map.empty,
       CClan = Map.empty, m_roomIdGenerator = undefined, m_sessions = {|3|}, outbox = []\<rparr>,
     sv_stores = st, sv_aid_sid = fmempty, sv_trades = tr, sv_db = d, sv_tasks = [], sv_sids = [3], sv_sales = fmempty,
     sv_uptime_ms = 0, sv_rand = sconst 0\<rparr>"

lemma reset_card_facts:
  "inv_serial_info (it_item_info reset_card) = new_ItemSerialInfo 5 1 1 0 0" "item_id_of reset_card = 4302000"
  by (simp_all add: reset_card_def new_Item_def new_InventoryItemInfo_def new_InventoryItemNumber_def item_id_of_def)

lemma reset_card_kind: "\<not> IsVoiceItem 4302000" "\<not> IsKillDeathResetItem 4302000" "IsRecordResetItem 4302000"
  by (auto simp: IsVoiceItem_def VoiceItems_def NAOMI_A_def IsKillDeathResetItem_def IsRecordResetItem_def upt_rec)

lemma reset_submits:
  "\<exists>u v. sv_tasks (fst (PackageOpen rng walk g 0 [] 3 1 0 (new_ItemSerialInfo 5 1 1 0 0) c n (card_server st tr d) gs)) = [PackageTask 3 u v]"
proof -
  have acc: "CAccount (sv_world (card_server st tr d)) 3 = Some card_holder" "sv_tasks (card_server st tr d) = []"
    by (simp_all add: card_server_def)
  have h: "acc_Index_of card_holder = 7" "pl_inventory_items card_holder = [reset_card]" "acc_MaximumItems (pl_acc_info card_holder) = 50"
    by (simp_all add: card_holder_def acc_Index_of_def)
  have f: "GetPlayerItemInventory_serial [reset_card] (new_ItemSerialInfo 5 1 1 0 0) = Some reset_card"
    by (simp add: GetPlayerItemInventory_serial_def reset_card_facts)
  have it: "item_serial reset_card = serial_data (new_ItemSerialInfo 5 1 1 0 0)" by (simp add: item_serial_def reset_card_facts)
  show ?thesis
    by (simp add: PackageOpen_def acc h f reset_card_facts reset_card_kind use_normal_def Let_def new_package_use_def
      ValidateDatabaseUpdates_def collect_op_def it new_ValidatedDbUpdates_def net_currencies_def finalize_currency_def
      check_info_def new_AccountInfoPatch_def above_def)
qed


text \<open>
  The capsule is not needed: a request that names the hammer's item as a plain package draws the same
  items from the same numbers and uses up only that one item.
\<close>

theorem capsule_not_needed:
  assumes "use_normal rng walk g now acc i u gs = (Some (ops, new, u1), gs1)" "pu_kind u1 = PK_Items"
    and "GetPlayerItemInventory_serial (pl_inventory_items acc) capsule = Some mistery"
    and "pu_send u = []" "pu_kind u = PK_Items"
  shows "\<exists>u2. use_hammer rng walk g now acc i capsule (u\<lparr>pu_kind := PK_Hammer\<rparr>) gs = (Some (ops, new, u2), gs1)
    \<and> pu_send u2 = pu_send u1 \<and> pu_delete u1 = pu_delete u \<and> pu_delete u2 = pu_delete u @ [inv_serial_info (it_item_info mistery)]"
  using assms
  by (auto simp: use_normal_def use_hammer_def open_package_def give_items_def Let_def split: if_splits prod.splits list.splits)

section \<open>Voices\<close>

lemma voice_bits:
  "i = NAOMI_A + of_nat k \<Longrightarrow> k < 16 \<Longrightarrow>
     unat (voice_bit (GetVoiceCharacter i) (ucast (GetVoiceIndex i))) = 12 * (k div 4) + k mod 4"
proof -
  assume i: "i = NAOMI_A + of_nat k" "k < 16"
  then have "k \<in> set [0..<16]" by simp
  then show ?thesis unfolding i(1)
    by (auto simp: voice_bit_def GetVoiceCharacter_def GetVoiceIndex_def upt_rec)
qed

lemma isVoiceUnlocked_bit: "isVoiceUnlocked data c v \<longleftrightarrow> bit data (unat (voice_bit c v))"
  by (simp add: isVoiceUnlocked_def bit_iff_and_push_bit_not_eq_0)

text \<open>A voice card unlocks its own voice and changes no other of the sixteen.\<close>

theorem voice_cards_independent:
  assumes "IsVoiceItem i" "IsVoiceItem j"
  shows "isVoiceUnlocked (setVoice data (GetVoiceCharacter i) (ucast (GetVoiceIndex i))) (GetVoiceCharacter j) (ucast (GetVoiceIndex j))
    \<longleftrightarrow> i = j \<or> isVoiceUnlocked data (GetVoiceCharacter j) (ucast (GetVoiceIndex j))"
proof -
  obtain k where k: "i = NAOMI_A + of_nat k" "k < 16" using assms(1) by (auto simp: IsVoiceItem_def VoiceItems_def)
  obtain l where l: "j = NAOMI_A + of_nat l" "l < 16" using assms(2) by (auto simp: IsVoiceItem_def VoiceItems_def)
  have parts: "(12 * (n div 4) + n mod 4) div 12 = n div 4" "(12 * (n div 4) + n mod 4) mod 12 = n mod 4" for n :: nat
    by (simp_all add: div_add1_eq)
  have same: "12 * (k div 4) + k mod 4 = 12 * (l div 4) + l mod 4 \<longleftrightarrow> k = l"
    by (metis parts div_mult_mod_eq)
  have "i = j \<longleftrightarrow> k = l" using k l by (auto simp: word_of_nat_eq_iff take_bit_nat_eq_self)
  moreover have "l div 4 < 4" "l mod 4 < 4" using l(2) by (simp_all add: less_mult_imp_div_less)
  then have "12 * (l div 4) + l mod 4 < 64" by linarith
  ultimately show ?thesis
    using same by (auto simp: isVoiceUnlocked_bit setVoice_def voice_bits [OF k] voice_bits [OF l] bit_simps)
qed

theorem voice_cards_independent_witness:
  "\<not> isVoiceUnlocked (setVoice 0 (GetVoiceCharacter 4810005) (ucast (GetVoiceIndex 4810005)))
      (GetVoiceCharacter 4810006) (ucast (GetVoiceIndex 4810006))"
proof -
  have "IsVoiceItem 4810005" "IsVoiceItem 4810006" by (simp_all add: IsVoiceItem_def VoiceItems_def NAOMI_A_def upt_rec)
  from voice_cards_independent [OF this, of 0] show ?thesis by (simp add: isVoiceUnlocked_def)
qed

end
