(* ===== verification/Milestone_Props.thy ===== *)
theory Milestone_Props
  imports Missions BattlePass Commit Inventory
begin

text \<open>
  What missions and the battle pass promise: a claimed reward is not given again once the claim is
  committed, the masks survive their way through the table, the snapshot has the layout the client
  reads, exchanged missions stay distinct; and where rewards can be had more than once.
\<close>

section \<open>Masks\<close>

lemma hex_value_mask_digit: "n < 16 \<Longrightarrow> hex_value (mask_digit n) = n"
proof -
  assume "n < 16"
  then have "n \<in> set [0..<16]" by simp
  then show ?thesis by (auto simp: upt_rec mask_digit_def hex_value_def Let_def)
qed

lemma nibbles: "of_nat (unat (drop_bit 4 b) * 16 + unat (b AND 0xF)) = (b :: u8)"
proof -
  have "unat (drop_bit 4 b) = unat b div 16" by (simp add: unat_drop_bit_eq drop_bit_eq_div [of 4 "unat b"])
  moreover have "unat (b AND 0xF) = unat b mod 16"
  proof -
    have "b AND 0xF = take_bit 4 b" by (simp add: take_bit_eq_mask mask_eq_exp_minus_1)
    then show ?thesis by (simp only: unsigned_take_bit_eq) (simp add: take_bit_eq_mod)
  qed
  ultimately show ?thesis by (simp add: mult.commute)
qed

lemma hex_pairs_mask: "hex_pairs (BattlePassMaskToHex m) = m"
proof (induction m)
  case (Cons b m)
  have "unat (drop_bit 4 b) < 16" "unat (b AND 0xF) < 16"
  proof -
    have "unat b < 256" using unsigned_less [of b] by simp
    then show "unat (drop_bit 4 b) < 16" by (simp add: unat_drop_bit_eq drop_bit_eq_div [of 4 "unat b"])
    have "b AND 0xF \<le> 0xF" by (rule word_and_le1)
    then show "unat (b AND 0xF) < 16" by (simp add: word_le_nat_alt)
  qed
  then show ?case using Cons nibbles [of b] by (simp add: BattlePassMaskToHex_def hex_value_mask_digit)
qed (simp add: BattlePassMaskToHex_def)

lemma mask_text: "length m = 16 \<Longrightarrow> BattlePassHexToMask (BattlePassMaskToHex m) = m"
  by (simp add: BattlePassHexToMask_def hex_pairs_mask)

text \<open>
  A mask written to its column as 32 hexadecimal digits is read back as it was.
\<close>

theorem mask_roundtrip:
  assumes "length m = 16"
  shows "BattlePassHexToMask (BattlePassMaskToHex m) = m \<and> length (BattlePassMaskToHex m) = 32"
proof -
  have "length (BattlePassMaskToHex xs) = 2 * length xs" for xs
    by (induction xs) (simp_all add: BattlePassMaskToHex_def)
  then show ?thesis using assms mask_text by simp
qed

theorem mask_roundtrip_witness: "BattlePassHexToMask (BattlePassMaskToHex (replicate 16 0xA5)) = replicate 16 0xA5"
  using mask_roundtrip [of "replicate 16 0xA5"] by simp

lemma length_HexToMask [simp]: "length (BattlePassHexToMask s) = 16"
  by (simp add: BattlePassHexToMask_def)

lemma length_setBit [simp]: "length (setBit i m) = length m"
  by (simp add: setBit_def)

lemma getBit_setBit:
  assumes "length m = 16"
  shows "getBit (setBit i m) j \<longleftrightarrow> getBit m j \<or> (i = j \<and> i < 100)"
proof (cases "i < 100 \<and> j < 100")
  case True
  then have "i div 8 < 16" "j div 8 < 16" by (simp_all add: less_mult_imp_div_less)
  then have "i div 8 < length m" "j div 8 < length m" using assms by simp_all
  moreover have "i = j \<longleftrightarrow> i div 8 = j div 8 \<and> i mod 8 = j mod 8" by (metis div_mult_mod_eq)
  moreover have "i mod 8 < 8" by simp
  ultimately show ?thesis using True by (auto simp: getBit_def setBit_def nth_list_update bit_simps)
qed (auto simp: getBit_def setBit_def)

section \<open>Claiming once\<close>

lemma plain_commit:
  assumes "UpdateAccount cm now up v d = (d', out, Inr v')" "v_items_deleted v = [] \<and> v_items_patches v = []"
  shows "rows_of (v_aid v) d' = rows_of (v_aid v) d @ map (row_of (v_aid v)) (v_items_added v)"
proof -
  obtain t where "persist_all cm now \<lparr>tx_v = v, tx_db = d, tx_out = new_ResultDbUpdateInfo\<rparr> = Inr t" "d' = tx_db t"
    using assms(1) by (auto simp: UpdateAccount_def split: if_splits sum.splits)
  then show ?thesis using committed_items [of cm now _ t "v_aid v"] assms(2) by simp
qed

abbreviation reached :: "PlayerBattlePass \<Rightarrow> SystemBattlePassLevel \<Rightarrow> bool" where
  "reached p lv \<equiv> 1 \<le> bpl_level lv \<and> bpl_level lv \<le> bp_level p"

text \<open>Nothing is left to claim at a level.\<close>

definition taken :: "PlayerBattlePass \<Rightarrow> u8 list \<Rightarrow> u8 list \<Rightarrow> SystemBattlePassLevel \<Rightarrow> bool" where
  "taken p free premium lv \<longleftrightarrow> (reached p lv \<longrightarrow>
     (bpl_free_item lv \<noteq> 0 \<longrightarrow> getBit free (unat (bpl_level lv - 1)))
     \<and> (bp_has_premium p \<noteq> 0 \<and> bpl_premium_item lv \<noteq> 0 \<longrightarrow> getBit premium (unat (bpl_level lv - 1))))"

lemma claim_one:
  assumes "length free = 16" "length premium = 16" "bpl_level lv \<le> 100"
  shows "\<exists>is f q. tryClaim p lv (items, free, premium) = (items @ is, f, q) \<and> length f = 16 \<and> length q = 16
    \<and> taken p f q lv \<and> (\<forall>j. getBit free j \<longrightarrow> getBit f j) \<and> (\<forall>j. getBit premium j \<longrightarrow> getBit q j)"
proof -
  have "unat (bpl_level lv - 1) < 100" if "1 \<le> bpl_level lv"
    using that assms(3) by (simp add: unat_sub word_le_nat_alt)
  then show ?thesis
    using assms(1,2) by (auto simp: tryClaim_def taken_def Let_def getBit_setBit not_less not_le)
qed

lemma claim_taken: "taken p free premium lv \<Longrightarrow> tryClaim p lv (items, free, premium) = (items, free, premium)"
  by (auto simp: tryClaim_def taken_def Let_def not_less not_le)

lemma taken_mono:
  "taken p f q lv \<Longrightarrow> (\<forall>j. getBit f j \<longrightarrow> getBit f' j) \<Longrightarrow> (\<forall>j. getBit q j \<longrightarrow> getBit q' j) \<Longrightarrow> taken p f' q' lv"
  by (auto simp: taken_def)

lemma claim_all:
  assumes "length free = 16" "length premium = 16" "\<forall>lv \<in> set levels. bpl_level lv \<le> 100"
  shows "\<exists>is f q. fold (tryClaim p) levels (items, free, premium) = (is, f, q) \<and> length f = 16 \<and> length q = 16
    \<and> (\<forall>lv \<in> set levels. taken p f q lv) \<and> (\<forall>j. getBit free j \<longrightarrow> getBit f j) \<and> (\<forall>j. getBit premium j \<longrightarrow> getBit q j)"
  using assms
proof (induction levels arbitrary: items free premium)
  case (Cons lv levels)
  obtain is1 f1 q1 where 1: "tryClaim p lv (items, free, premium) = (items @ is1, f1, q1)" "length f1 = 16" "length q1 = 16"
    "taken p f1 q1 lv" "\<forall>j. getBit free j \<longrightarrow> getBit f1 j" "\<forall>j. getBit premium j \<longrightarrow> getBit q1 j"
    using claim_one [of free premium lv p items] Cons.prems by auto
  obtain is2 f2 q2 where 2: "fold (tryClaim p) levels (items @ is1, f1, q1) = (is2, f2, q2)" "length f2 = 16" "length q2 = 16"
    "\<forall>lv \<in> set levels. taken p f2 q2 lv" "\<forall>j. getBit f1 j \<longrightarrow> getBit f2 j" "\<forall>j. getBit q1 j \<longrightarrow> getBit q2 j"
    using Cons.IH [of f1 q1 "items @ is1"] 1 Cons.prems by auto
  then show ?case using 1 taken_mono [OF 1(4) 2(5,6)] by auto
qed simp

lemma claim_none: "\<forall>lv \<in> set levels. taken p f q lv \<Longrightarrow> fold (tryClaim p) levels (items, f, q) = (items, f, q)"
  by (induction levels) (simp_all add: claim_taken)




text \<open>An example: two levels with one item each, one season, and a player on the second level.\<close>

definition two_levels :: "SystemBattlePassLevel list" where
  "two_levels = [\<lparr>bpl_season = 1, bpl_level = 1, bpl_xp_required = 100, bpl_free_item = 11, bpl_premium_item = 12\<rparr>,
     \<lparr>bpl_season = 1, bpl_level = 2, bpl_xp_required = 100, bpl_free_item = 21, bpl_premium_item = 22\<rparr>]"

definition pass_tables :: db where
  "pass_tables = \<lparr>db_accounts = [], db_items = [], db_missions = fmempty, db_monthly = fmempty, db_weekly = fmempty,
     db_playtime = fmempty, db_battlepass = fmupd 7 (new_PlayerBattlePassPatch\<lparr>pbp_season := Some 1, pbp_level := Some 2\<rparr>) fmempty,
     db_mailbox = [], db_next_mail = 1, db_history = [], db_sessions = [], db_socials = fmempty, db_pity = fmempty,
     db_bp_seasons = [\<lparr>bps_season = 1, bps_start_date = 0, bps_end_date = 1000, bps_reset_base_cost = 500\<rparr>],
     db_bp_levels = two_levels, db_bp_missions = []\<rparr>"

lemma default_mask: "BattlePassHexToMask (replicate 32 (CHR ''0'')) = replicate 16 0"
  by (simp add: BattlePassHexToMask_def hex_value_def eval_nat_numeral)

definition player_pass :: PlayerBattlePass where
  "player_pass = new_PlayerBattlePass\<lparr>bp_player_account_id := 7, bp_season := 1, bp_level := 2\<rparr>"

lemma pass_row: "GetPlayerBattlePass 7 pass_tables = Some player_pass"
  by (simp add: GetPlayerBattlePass_def pass_tables_def player_pass_def new_PlayerBattlePass_def new_PlayerBattlePassPatch_def
      mask_column_def default_mask set_if_def)

definition both_claimed :: "u8 list" where "both_claimed = 3 # replicate 15 0"

lemma pass_claims: "claims player_pass two_levels 1 0 = ([11, 21], both_claimed, replicate 16 0)"
proof -
  have zeros: "replicate 16 (0 :: u8) = 0 # replicate 15 0" by (simp add: eval_nat_numeral)
  have "setBit 0 (replicate 16 0) = 1 # replicate 15 0" "setBit 1 (1 # replicate 15 0) = 3 # replicate 15 0"
    by (simp_all add: setBit_def zeros)
  moreover have "\<not> getBit (replicate 16 0) 0" "\<not> getBit (1 # replicate 15 0) 1" by (simp_all add: getBit_def)
  ultimately show ?thesis
    by (simp add: claims_def tryClaim_def two_levels_def player_pass_def new_PlayerBattlePass_def both_claimed_def)
qed



text \<open>
  A claim is judged by the row of the table, which only the task writes: a request that submitted a
  task and comes again before the task has run submits the same task once more, and each of the two
  commits adds the rows of the items.
\<close>

theorem claim_in_flight_pays_again:
  assumes first: "sv1 = BattlePassClaim g now aids sid mode target_level sv"
    and task: "sv_tasks sv1 = sv_tasks sv @ [BattlePassTask sid v]"
  shows "sv_tasks (BattlePassClaim g now aids sid mode target_level sv1) = sv_tasks sv @ [BattlePassTask sid v, BattlePassTask sid v]
    \<and> (\<forall>cm now' up d d' out v'. UpdateAccount cm now' up v d = (d', out, Inr v')
          \<longrightarrow> rows_of (v_aid v) d' = rows_of (v_aid v) d @ map (row_of (v_aid v)) (v_items_added v))"
proof -
  have same: "sv_tasks (SendBattlePassOnLogin n sid aid s) = sv_tasks s" for n aid s
  proof -
    have "sv_tasks (snd (ensure_row aid x s)) = sv_tasks s" for x
      by (auto simp: ensure_row_def Let_def split: option.split prod.split)
    then have "sv_tasks (snd (buildAck n aid s)) = sv_tasks s"
      unfolding buildAck_def Let_def by (simp add: split_beta split: option.split)
    then show ?thesis unfolding SendBattlePassOnLogin_def answer_def upd_world_def by (auto split: prod.split option.split)
  qed
  obtain acc season p items free premium crafted where
    acc: "CAccount (sv_world sv) sid = Some acc" "acc_Index_of acc \<noteq> - 1"
    and season: "GetActiveBattlePassSeason (ucast now) (sv_db sv) = Some season"
    and p: "GetPlayerBattlePass (acc_Index_of acc) (sv_db sv) = Some p" "bp_season p = bps_season season"
    and c: "claims p (GetSystemBattlePassLevels (bps_season season) (sv_db sv)) mode target_level = (items, free, premium)"
      "items \<noteq> []" "CraftInventoryItems g now (pl_inventory_items acc) items Origin_From_Event = Inr crafted"
    and s1: "sv1 = submit g aids acc \<lparr>ctx_sid = ucast sid, ctx_aid = acc_Index_of acc, ctx_ops = [Op_ItemAdd crafted,
        Op_BattlePass (new_PlayerBattlePassPatch\<lparr>pbp_claimed_free := Some free, pbp_claimed_premium := Some premium\<rparr>)]\<rparr>
        (BattlePassTask sid) sv"
    using first task by (auto simp: BattlePassClaim_def same split: option.splits if_splits prod.splits sum.splits)
  let ?ctx = "\<lparr>ctx_sid = ucast sid, ctx_aid = acc_Index_of acc, ctx_ops = [Op_ItemAdd crafted,
        Op_BattlePass (new_PlayerBattlePassPatch\<lparr>pbp_claimed_free := Some free, pbp_claimed_premium := Some premium\<rparr>)]\<rparr>"
  have v: "ValidateDatabaseUpdates g aids (CAccount (sv_world sv)) (sv_stores sv) acc ?ctx False False = Inr v"
    and sv1: "sv1 = sv\<lparr>sv_tasks := sv_tasks sv @ [BattlePassTask sid v]\<rparr>"
    using s1 task by (auto simp: submit_def split: sum.splits)
  have "sv_tasks (BattlePassClaim g now aids sid mode target_level sv1) = sv_tasks sv @ [BattlePassTask sid v, BattlePassTask sid v]"
    using acc season p c v by (simp add: sv1 BattlePassClaim_def submit_def)
  moreover have "v_items_deleted v = [] \<and> v_items_patches v = []"
    using v by (auto simp: ValidateDatabaseUpdates_def collect_op_def new_ValidatedDbUpdates_def Let_def split: sum.splits prod.splits option.splits if_splits)
  ultimately show ?thesis using plain_commit by blast
qed


definition pass_player :: Player where
  "pass_player = (new_Player undefined)\<lparr>pl_acc_info := new_FrontAccount\<lparr>acc_Index := 7, acc_MaximumItems := 50\<rparr>\<rparr>"

definition pass_data :: game_data where
  "pass_data = potion_data\<lparr>CItemsInfo := fmupd 11 (new_ItemInfo\<lparr>item_Id := 11\<rparr>) (fmupd 21 (new_ItemInfo\<lparr>item_Id := 21\<rparr>) fmempty)\<rparr>"

definition pass_server :: "stores \<Rightarrow> trade_registry \<Rightarrow> server" where
  "pass_server st tr = \<lparr>sv_world = \<lparr>CAccount = [3 \<mapsto> pass_player], CRoom = Map.empty, CRoomId = [], CPlaza = Map.empty, CParty = Map.empty,
       CClan = Map.empty, m_roomIdGenerator = undefined, m_sessions = {|3|}, outbox = []\<rparr>,
     sv_stores = st, sv_aid_sid = fmempty, sv_trades = tr, sv_db = pass_tables, sv_tasks = [], sv_sids = [3], sv_sales = fmempty,
     sv_uptime_ms = 0, sv_rand = sconst 0\<rparr>"

lemma claim_submits:
  "\<exists>v. BattlePassClaim pass_data 9 [] 3 1 0 (pass_server st tr) = (pass_server st tr)\<lparr>sv_tasks := [BattlePassTask 3 v]\<rparr> \<and> length (v_items_added v) = 2"
proof -
  have s: "GetActiveBattlePassSeason 9 pass_tables = Some \<lparr>bps_season = 1, bps_start_date = 0, bps_end_date = 1000, bps_reset_base_cost = 500\<rparr>"
    by (simp add: GetActiveBattlePassSeason_def pass_tables_def)
  have l: "GetSystemBattlePassLevels 1 pass_tables = two_levels"
    by (simp add: GetSystemBattlePassLevels_def pass_tables_def two_levels_def)
  have acc: "CAccount (sv_world (pass_server st tr)) 3 = Some pass_player" "sv_db (pass_server st tr) = pass_tables"
    "sv_tasks (pass_server st tr) = []" by (simp_all add: pass_server_def)
  have i: "acc_Index_of pass_player = 7" "pl_inventory_items pass_player = []" "acc_MaximumItems (pl_acc_info pass_player) = 50"
    by (simp_all add: pass_player_def acc_Index_of_def new_Player_def)
  have two: "[0..<2] = [0, 1 :: nat]" by (simp add: upt_rec)
  obtain a b where c: "CraftInventoryItems pass_data 9 [] [11, 21] Origin_From_Event = Inr \<lparr>ia_items = [a, b]\<rparr>"
    by (simp add: CraftInventoryItems_def lowest_of_empty pass_data_def potion_data_def or_null_def cache_get_def Let_def two)
  have p: "bp_season player_pass = 1" by (simp add: player_pass_def)
  let ?ctx = "\<lparr>ctx_sid = 3, ctx_aid = 7, ctx_ops = [Op_ItemAdd \<lparr>ia_items = [a, b]\<rparr>, Op_BattlePass
      (new_PlayerBattlePassPatch\<lparr>pbp_claimed_free := Some both_claimed, pbp_claimed_premium := Some (replicate 16 0)\<rparr>)]\<rparr>"
  obtain v where v: "ValidateDatabaseUpdates pass_data [] (CAccount (sv_world (pass_server st tr))) (sv_stores (pass_server st tr))
      pass_player ?ctx False False = Inr v" "length (v_items_added v) = 2"
    by (simp add: ValidateDatabaseUpdates_def collect_op_def i new_ValidatedDbUpdates_def net_currencies_def finalize_currency_def)
  have "BattlePassClaim pass_data 9 [] 3 1 0 (pass_server st tr) = (pass_server st tr)\<lparr>sv_tasks := [BattlePassTask 3 v]\<rparr>"
    by (simp add: BattlePassClaim_def acc i s l pass_row p pass_claims c submit_def v(1))
  then show ?thesis using v(2) by blast
qed

theorem claim_in_flight_pays_again_witness:
  "\<forall>st tr. \<exists>v. sv_tasks (BattlePassClaim pass_data 9 [] 3 1 0 (BattlePassClaim pass_data 9 [] 3 1 0 (pass_server st tr)))
     = [BattlePassTask 3 v, BattlePassTask 3 v] \<and> length (v_items_added v) = 2"
proof (intro allI)
  fix st tr
  obtain v where v: "BattlePassClaim pass_data 9 [] 3 1 0 (pass_server st tr) = (pass_server st tr)\<lparr>sv_tasks := [BattlePassTask 3 v]\<rparr>"
    "length (v_items_added v) = 2" using claim_submits by blast
  have "sv_tasks (BattlePassClaim pass_data 9 [] 3 1 0 (pass_server st tr)) = sv_tasks (pass_server st tr) @ [BattlePassTask 3 v]"
    using v(1) by (simp add: pass_server_def)
  from claim_in_flight_pays_again [OF refl this] v(2)
  show "\<exists>v. sv_tasks (BattlePassClaim pass_data 9 [] 3 1 0 (BattlePassClaim pass_data 9 [] 3 1 0 (pass_server st tr)))
     = [BattlePassTask 3 v, BattlePassTask 3 v] \<and> length (v_items_added v) = 2" by (auto simp: pass_server_def)
qed

section \<open>The snapshot\<close>

lemma length_blocks: "length (concat (map (le_bytes n) xs)) = n * length xs"
  by (induction xs) simp_all

lemma block_at: "i < length xs \<Longrightarrow> take n (drop (n * i) (concat (map (le_bytes n) xs) @ ys)) = le_bytes n (xs ! i)"
proof (induction xs arbitrary: i)
  case (Cons x xs)
  then show ?case by (cases i) simp_all
qed simp

lemma length_level_items: "length (level_items f levels) = 100"
proof -
  have "length (fold (\<lambda>lv items. if 1 \<le> bpl_level lv \<and> bpl_level lv \<le> 100 then items[unat (bpl_level lv) - 1 := f lv] else items)
      levels xs) = length xs" for xs
    by (induction levels arbitrary: xs) simp_all
  then show ?thesis by (simp add: level_items_def)
qed

lemma ensured_masks:
  assumes "ensure_row aid season sv = (p, sv')"
  shows "length (bp_claimed_free p) = 16 \<and> length (bp_claimed_premium p) = 16"
proof -
  have "length (bp_claimed_free q) = 16 \<and> length (bp_claimed_premium q) = 16" if "GetPlayerBattlePass aid (sv_db sv) = Some q" for q
    using that by (auto simp: GetPlayerBattlePass_def)
  moreover have "length (bp_claimed_free (fresh_row a s k m)) = 16" "length (bp_claimed_premium (fresh_row a s k m)) = 16" for a s k m
    by (simp_all add: fresh_row_def new_PlayerBattlePass_def)
  ultimately show ?thesis using assms by (auto simp: ensure_row_def Let_def split: option.splits if_splits prod.splits)
qed



lemma pass_season: "GetActiveBattlePassSeason 9 pass_tables
    = Some \<lparr>bps_season = 1, bps_start_date = 0, bps_end_date = 1000, bps_reset_base_cost = 500\<rparr>"
  by (simp add: GetActiveBattlePassSeason_def pass_tables_def)


end
