(* ===== verification/Cast_Data.thy ===== *)
theory Cast_Data
  imports Rooms Message Cache
begin

text \<open>
  The state of the cast server (\<open>src/src/Cast/CCastServer.h\<close>): the players it knows, the rooms that
  the main server tells it of, projectiles, plazas and keys; what it sends to clients and to the main
  server; and how a packet is sent to many sessions or passed on to one.
\<close>

section \<open>Players and rooms\<close>

definition PS_Disconnected :: u16 where "PS_Disconnected = 0"
definition PS_Connected :: u16 where "PS_Connected = 1"
definition PS_Lobby :: u16 where "PS_Lobby = 2"
definition PS_WaitingRoom :: u16 where "PS_WaitingRoom = 4"
definition PS_Normal :: u16 where "PS_Normal = 6"

record CastPlayer =
  cp_session_id :: u16
  cp_room_id :: u16
  cp_plaza_id :: u16
  cp_server_id :: u16
  cp_state_id :: u16
  cp_health :: u32
  cp_combat_health :: u32
  cp_combat_health_known :: bool
  cp_max_health :: u32
  cp_current_health :: u32
  cp_current_kill_streak :: u16
  cp_highest_kill_streak :: u16
  cp_account_id :: u32
  cp_in_room :: bool
  cp_in_plaza :: bool
  cp_is_dead :: bool
  cp_last_attacker_sid :: u16
  cp_last_damage_time :: u64
  cp_kill_credited_this_death :: bool
  cp_auth_key :: u64
  cp_nickname :: string
  cp_hwid :: string

definition new_CastPlayer :: "u16 \<Rightarrow> u16 \<Rightarrow> u16 \<Rightarrow> u16 \<Rightarrow> u16 \<Rightarrow> bool \<Rightarrow> bool \<Rightarrow> u64 \<Rightarrow> string \<Rightarrow> CastPlayer" where
  "new_CastPlayer session_id room_id plaza_id server_id state_id in_room in_plaza auth_key nickname = \<lparr>
     cp_session_id = session_id, cp_room_id = room_id, cp_plaza_id = plaza_id, cp_server_id = server_id,
     cp_state_id = state_id, cp_health = 1000, cp_combat_health = 1000, cp_combat_health_known = True,
     cp_max_health = 1000, cp_current_health = 1000, cp_current_kill_streak = 0, cp_highest_kill_streak = 0,
     cp_account_id = - 1, cp_in_room = in_room, cp_in_plaza = in_plaza, cp_is_dead = False,
     cp_last_attacker_sid = 0, cp_last_damage_time = 0, cp_kill_credited_this_death = False,
     cp_auth_key = auth_key, cp_nickname = nickname, cp_hwid = []\<rparr>"

text \<open>A copy forgets who last damaged the player; an assignment keeps what the left side had there.\<close>

definition assign_CastPlayer :: "CastPlayer \<Rightarrow> CastPlayer \<Rightarrow> CastPlayer" where
  "assign_CastPlayer old other = other\<lparr>cp_last_attacker_sid := cp_last_attacker_sid old,
     cp_last_damage_time := cp_last_damage_time old, cp_kill_credited_this_death := cp_kill_credited_this_death old\<rparr>"

definition copy_CastPlayer :: "CastPlayer \<Rightarrow> CastPlayer" where
  "copy_CastPlayer other = other\<lparr>cp_last_attacker_sid := 0, cp_last_damage_time := 0, cp_kill_credited_this_death := False\<rparr>"

record CastRoom =
  cr_room_id :: u16
  cr_host_session_id :: u16
  cr_is_playing :: bool
  cr_players_session_id :: "u16 list"
  cr_kit_item_by_drop :: "(u32, u32) fmap"

definition new_CastRoom :: "u16 \<Rightarrow> u16 \<Rightarrow> CastRoom" where
  "new_CastRoom room_id host = \<lparr>cr_room_id = room_id, cr_host_session_id = host, cr_is_playing = False,
     cr_players_session_id = [], cr_kit_item_by_drop = fmempty\<rparr>"

record RoomProjectiles =
  rp_owner_by_id :: "(u32, u16) fmap"
  rp_type_by_id :: "(u32, u8) fmap"

definition new_RoomProjectiles :: RoomProjectiles where
  "new_RoomProjectiles = \<lparr>rp_owner_by_id = fmempty, rp_type_by_id = fmempty\<rparr>"

record CastPlaza =
  cz_plaza_id :: u16
  cz_players_session_id :: "u16 list"

definition new_CastPlaza :: "u16 \<Rightarrow> CastPlaza" where
  "new_CastPlaza plaza_id = \<lparr>cz_plaza_id = plaza_id, cz_players_session_id = []\<rparr>"

section \<open>Messages between the servers\<close>

definition WK_Unknown :: u8 where "WK_Unknown = 0"
definition WK_Melee :: u8 where "WK_Melee = 1"
definition WK_Rifle :: u8 where "WK_Rifle = 2"
definition WK_Shotgun :: u8 where "WK_Shotgun = 3"
definition WK_Sniper :: u8 where "WK_Sniper = 4"
definition WK_Gatling :: u8 where "WK_Gatling = 5"
definition WK_Bazooka :: u8 where "WK_Bazooka = 6"
definition WK_Grenade :: u8 where "WK_Grenade = 7"

record CastCombatHitEvent =
  ch_room_id :: u32
  ch_attacker_sid :: u16
  ch_victim_sid :: u16
  ch_damage_raw :: u32
  ch_victim_health_raw :: u32
  ch_kill_confirmed :: u8
  ch_weapon_kind :: u8
  ch_attacker_current_kill_streak :: u16
  ch_attacker_highest_kill_streak :: u16
  ch_bodypart :: u8
  ch_hit_variant :: u8

definition MT_Respawn :: u8 where "MT_Respawn = 1"
definition MT_Bomb :: u8 where "MT_Bomb = 2"
definition MT_ItemPickup :: u8 where "MT_ItemPickup = 3"

record CastMatchTimelineEvent =
  te_room_id :: u32
  te_actor_sid :: u16
  te_event_type :: u8
  te_sub_a :: u8
  te_sub_b :: u8
  te_value :: u32

record AuthoriseData =
  ad_old_uid :: UniqueId
  ad_uid :: UniqueId
  ad_aid :: u32
  ad_key :: u64
  ad_max_health :: u32
  ad_current_health :: u32
  ad_nickname :: string
  ad_hwid :: string
  ad_room_id :: u16
  ad_is_playing :: u8

record PlayerInfoWire =
  pw_session_id :: u16
  pw_room_id :: u16
  pw_plaza_id :: u16
  pw_flags :: u8

text \<open>What the main server sends beside rooms, hosts and health.\<close>

datatype main_ipc =
    RoomIpc cast_ipc
  | AuthorizeIpc AuthoriseData
  | DisconnectIpc u64
  | ReqServerInfoIpc u64
  | PingAssureIpc u32
  | TpToProjIpc u16 bool

datatype to_main =
    CombatHit CastCombatHitEvent
  | TimelineEvent CastMatchTimelineEvent
  | AcknowledgeAuth UniqueId u64
  | AckServerInfo u64 u16 u32 "PlayerInfoWire list"

datatype cast_event =
    ToSession u16 cmessage
  | ToMain to_main
  | DropSession u16
  | RetryAuthorize AuthoriseData nat

section \<open>The state\<close>

record cast =
  cs_table :: session_table
  cs_accounts :: "(u16, CastPlayer) fmap"
  cs_rooms :: "(u16, CastRoom) fmap"
  cs_projectiles :: "(u16, RoomProjectiles) fmap"
  cs_plazas :: "(u16, CastPlaza) fmap"
  cs_auth_keys :: "(u64, u16) fmap"
  cs_room_ids :: "u16 list"
  cs_tp_to_proj :: "u16 fset"
  cs_outbox :: "cast_event list"

definition has_session :: "cast \<Rightarrow> u16 \<Rightarrow> bool" where
  "has_session c sid \<longleftrightarrow> st_sessions (cs_table c) sid \<noteq> None"

definition cast_emit :: "cast_event \<Rightarrow> cast \<Rightarrow> cast" where
  "cast_emit e c = c\<lparr>cs_outbox := cs_outbox c @ [e]\<rparr>"

text \<open>A write through a lock on an entry; there is nothing to write when the entry is missing.\<close>

definition upd_player :: "u16 \<Rightarrow> (CastPlayer \<Rightarrow> CastPlayer) \<Rightarrow> cast \<Rightarrow> cast" where
  "upd_player sid f c = (case fmlookup (cs_accounts c) sid of None \<Rightarrow> c
     | Some p \<Rightarrow> c\<lparr>cs_accounts := fmupd sid (f p) (cs_accounts c)\<rparr>)"

definition upd_cast_room :: "u16 \<Rightarrow> (CastRoom \<Rightarrow> CastRoom) \<Rightarrow> cast \<Rightarrow> cast" where
  "upd_cast_room rid f c = (case fmlookup (cs_rooms c) rid of None \<Rightarrow> c
     | Some r \<Rightarrow> c\<lparr>cs_rooms := fmupd rid (f r) (cs_rooms c)\<rparr>)"

section \<open>Sending\<close>

definition send_to :: "u16 \<Rightarrow> cmessage \<Rightarrow> cast \<Rightarrow> cast" where
  "send_to sid msg c = (if has_session c sid then cast_emit (ToSession sid msg) c else c)"

text \<open>Every recipient gets the message with its own id in the header.\<close>

definition Broadcast :: "u16 list \<Rightarrow> cmessage \<Rightarrow> u16 option \<Rightarrow> cast \<Rightarrow> cast" where
  "Broadcast ids msg exclude_sid =
     fold (\<lambda>i. send_to i (SetSession i (SetEncryptMethod EncNone msg))) (filter (\<lambda>i. exclude_sid \<noteq> Some i) ids)"

definition Forward :: "u16 \<Rightarrow> u16 \<Rightarrow> cmessage \<Rightarrow> cast \<Rightarrow> cast" where
  "Forward to_sid from_sid msg = send_to to_sid (SetSession from_sid (SetEncryptMethod EncNone msg))"

definition SendMainIpc :: "to_main \<Rightarrow> cast \<Rightarrow> cast" where
  "SendMainIpc e = cast_emit (ToMain e)"

text \<open>
  Reading a field of a request: \<open>n\<close> bytes at an offset of the payload. A field past the end of the
  packet is read as zeros, where the code reads what lies behind the buffer.
\<close>

definition field :: "nat \<Rightarrow> nat \<Rightarrow> cmessage \<Rightarrow> 'a::len word" where
  "field n offset msg = le_word (take n (drop offset (GetData msg)))"

definition msg_session :: "cmessage \<Rightarrow> u16" where "msg_session msg = ucast (GetSession msg)"
definition msg_option :: "cmessage \<Rightarrow> u8" where "msg_option msg = ucast (GetOption msg)"
definition msg_extra :: "cmessage \<Rightarrow> u8" where "msg_extra msg = ucast (GetExtra msg)"
definition msg_mission :: "cmessage \<Rightarrow> u8" where "msg_mission msg = ucast (GetMission msg)"

text \<open>
  \<open>Send\<close> and \<open>SendMsg\<close> of the session itself. An order is built in a fresh message \<open>blank\<close>, whose
  unused bits are random.
\<close>

definition session_send :: "u16 \<Rightarrow> cmessage \<Rightarrow> cast \<Rightarrow> cast" where
  "session_send sid msg = cast_emit (ToSession sid msg)"

definition session_msg :: "cmessage \<Rightarrow> u16 \<Rightarrow> u32 \<Rightarrow> u32 \<Rightarrow> u32 \<Rightarrow> u32 \<Rightarrow> bytes \<Rightarrow> cast \<Rightarrow> cast" where
  "session_msg blank sid order mission extra option payload =
     session_send sid
       (let m = SetEncryptMethod EncUser (SetCommand order mission extra option (SetSession sid blank))
        in if payload = [] then m else SetData payload m)"

lemma cast_emit_simps [simp]:
  "cs_table (cast_emit e c) = cs_table c" "cs_accounts (cast_emit e c) = cs_accounts c"
  "cs_rooms (cast_emit e c) = cs_rooms c" "cs_projectiles (cast_emit e c) = cs_projectiles c"
  "cs_plazas (cast_emit e c) = cs_plazas c" "cs_auth_keys (cast_emit e c) = cs_auth_keys c"
  "cs_room_ids (cast_emit e c) = cs_room_ids c" "cs_tp_to_proj (cast_emit e c) = cs_tp_to_proj c"
  "cs_outbox (cast_emit e c) = cs_outbox c @ [e]" "has_session (cast_emit e c) s = has_session c s"
  by (simp_all add: cast_emit_def has_session_def)

lemma upd_player_simps [simp]:
  "cs_table (upd_player s f c) = cs_table c" "cs_rooms (upd_player s f c) = cs_rooms c"
  "cs_projectiles (upd_player s f c) = cs_projectiles c" "cs_plazas (upd_player s f c) = cs_plazas c"
  "cs_auth_keys (upd_player s f c) = cs_auth_keys c" "cs_room_ids (upd_player s f c) = cs_room_ids c"
  "cs_tp_to_proj (upd_player s f c) = cs_tp_to_proj c" "cs_outbox (upd_player s f c) = cs_outbox c"
  "has_session (upd_player s f c) t = has_session c t"
  by (simp_all add: upd_player_def has_session_def split: option.split)

lemma upd_player_lookup:
  "fmlookup (cs_accounts (upd_player s f c)) t = (if t = s then map_option f (fmlookup (cs_accounts c) s) else fmlookup (cs_accounts c) t)"
  by (simp add: upd_player_def split: option.split)

lemma upd_cast_room_simps [simp]:
  "cs_table (upd_cast_room r f c) = cs_table c" "cs_accounts (upd_cast_room r f c) = cs_accounts c"
  "cs_projectiles (upd_cast_room r f c) = cs_projectiles c" "cs_plazas (upd_cast_room r f c) = cs_plazas c"
  "cs_auth_keys (upd_cast_room r f c) = cs_auth_keys c" "cs_room_ids (upd_cast_room r f c) = cs_room_ids c"
  "cs_tp_to_proj (upd_cast_room r f c) = cs_tp_to_proj c" "cs_outbox (upd_cast_room r f c) = cs_outbox c"
  by (simp_all add: upd_cast_room_def split: option.split)

lemma upd_cast_room_lookup:
  "fmlookup (cs_rooms (upd_cast_room r f c)) t = (if t = r then map_option f (fmlookup (cs_rooms c) r) else fmlookup (cs_rooms c) t)"
  by (simp add: upd_cast_room_def split: option.split)

text \<open>Sending changes nothing but the outbox.\<close>

definition only_sends :: "(cast \<Rightarrow> cast) \<Rightarrow> bool" where
  "only_sends f \<longleftrightarrow> (\<forall>c. f c = c\<lparr>cs_outbox := cs_outbox (f c)\<rparr>)"

lemma only_sendsD: "only_sends f \<Longrightarrow> f c = c\<lparr>cs_outbox := cs_outbox (f c)\<rparr>"
  by (simp add: only_sends_def)

lemma only_sends_fold: "(\<And>x. only_sends (f x)) \<Longrightarrow> only_sends (fold f xs)"
proof (induction xs)
  case (Cons x xs)
  have "fold f xs (f x c) = c\<lparr>cs_outbox := cs_outbox (fold f xs (f x c))\<rparr>" for c
    using only_sendsD [OF Cons.IH [OF Cons.prems], of "f x c"] only_sendsD [OF Cons.prems, of x c]
    by (metis cast.surjective cast.update_convs(9))
  then show ?case by (simp add: only_sends_def)
qed (simp add: only_sends_def)

lemma only_sends_send_to [simp]: "only_sends (send_to s m)"
  by (simp add: only_sends_def send_to_def cast_emit_def)

lemma only_sends_session [simp]: "only_sends (session_send s m)" "only_sends (session_msg b s x y z v d)"
  by (simp_all add: only_sends_def session_send_def session_msg_def cast_emit_def)

lemma only_sends_Forward [simp]: "only_sends (Forward t f m)"
  by (simp add: Forward_def)

lemma only_sends_Broadcast [simp]: "only_sends (Broadcast ids m e)"
  unfolding Broadcast_def by (rule only_sends_fold) simp

lemma only_sends_SendMainIpc [simp]: "only_sends (SendMainIpc e)"
  by (simp add: only_sends_def SendMainIpc_def cast_emit_def)

lemma only_sends_keeps:
  assumes "only_sends f"
  shows "cs_table (f c) = cs_table c" "cs_accounts (f c) = cs_accounts c" "cs_rooms (f c) = cs_rooms c"
    "cs_projectiles (f c) = cs_projectiles c" "cs_plazas (f c) = cs_plazas c" "cs_auth_keys (f c) = cs_auth_keys c"
    "cs_room_ids (f c) = cs_room_ids c" "cs_tp_to_proj (f c) = cs_tp_to_proj c" "has_session (f c) s = has_session c s"
  by (subst only_sendsD [OF assms, of c], simp add: has_session_def)+

lemmas send_keeps [simp] =
  only_sends_keeps [OF only_sends_send_to] only_sends_keeps [OF only_sends_session(1)]
  only_sends_keeps [OF only_sends_session(2)] only_sends_keeps [OF only_sends_Forward]
  only_sends_keeps [OF only_sends_Broadcast] only_sends_keeps [OF only_sends_SendMainIpc]

end
