(* ===== verification/Cast_Rooms.thy ===== *)
theory Cast_Rooms
  imports Cast_Data
begin

text \<open>
  What keeps the cast server's view of sessions, rooms and plazas (\<open>src/src/Cast/handlers/Core\<close>,
  \<open>Plaza\<close>, \<open>Room\<close>, \<open>Gameplay/Core\<close>): rooms are created, joined, left and removed only at the main
  server's word; a player is known once the main server has authorized the session.
\<close>

section \<open>Rooms as the main server reports them\<close>

definition UpdateCastPlayerRoomState :: "u16 \<Rightarrow> u16 \<Rightarrow> bool \<Rightarrow> bool \<Rightarrow> bool \<Rightarrow> cast \<Rightarrow> cast" where
  "UpdateCastPlayerRoomState sid room_id in_room is_playing reset_streaks =
     upd_player sid (\<lambda>p.
       let p = p\<lparr>cp_room_id := room_id, cp_in_room := in_room,
                 cp_state_id := (if in_room then if is_playing then PS_Normal else PS_WaitingRoom else PS_Lobby)\<rparr>
       in if reset_streaks then p\<lparr>cp_current_kill_streak := 0, cp_highest_kill_streak := 0\<rparr> else p)"

definition EnsureCastRoomExists :: "u16 \<Rightarrow> u16 \<Rightarrow> bool \<Rightarrow> cast \<Rightarrow> cast" where
  "EnsureCastRoomExists room_id host_sid is_playing c =
    (if cache_contains room_id (cs_rooms c)
     then upd_cast_room room_id (\<lambda>r. r\<lparr>cr_host_session_id := host_sid, cr_is_playing := is_playing\<rparr>) c
     else c\<lparr>cs_rooms := fst (cache_insert room_id ((new_CastRoom room_id host_sid)\<lparr>cr_is_playing := is_playing\<rparr>) (cs_rooms c)),
            cs_room_ids := emplace_back room_id (cs_room_ids c)\<rparr>)"

definition lifecycle_join :: "u16 \<Rightarrow> u16 \<Rightarrow> u16 \<Rightarrow> bool \<Rightarrow> cast \<Rightarrow> cast" where
  "lifecycle_join room_id sid host_sid is_playing c =
    (let c = EnsureCastRoomExists room_id host_sid is_playing c;
         c = upd_cast_room room_id (\<lambda>r. r\<lparr>cr_host_session_id := host_sid, cr_is_playing := is_playing,
               cr_players_session_id := (if sid \<noteq> 0 \<and> sid \<notin> set (cr_players_session_id r)
                                         then cr_players_session_id r @ [sid] else cr_players_session_id r)\<rparr>) c
     in if sid \<noteq> 0 then UpdateCastPlayerRoomState sid room_id True is_playing False c else c)"

definition lifecycle_leave :: "u16 \<Rightarrow> u16 \<Rightarrow> u16 \<Rightarrow> bool \<Rightarrow> cast \<Rightarrow> cast" where
  "lifecycle_leave room_id sid host_sid is_playing c =
    (let c = upd_cast_room room_id (\<lambda>r. r\<lparr>
               cr_host_session_id := (if host_sid \<noteq> 0 then host_sid else cr_host_session_id r),
               cr_is_playing := is_playing, cr_players_session_id := removeAll sid (cr_players_session_id r)\<rparr>) c
     in if sid \<noteq> 0 then UpdateCastPlayerRoomState sid 0 False False True c else c)"

definition lifecycle_remove :: "u16 \<Rightarrow> cast \<Rightarrow> cast" where
  "lifecycle_remove room_id c =
    (case fmlookup (cs_rooms c) room_id of
       None \<Rightarrow> c
     | Some room \<Rightarrow>
         fold (\<lambda>sid. UpdateCastPlayerRoomState sid 0 False False True) (cr_players_session_id room)
           (c\<lparr>cs_rooms := fst (cache_erase room_id (cs_rooms c)),
              cs_projectiles := fst (cache_erase room_id (cs_projectiles c)),
              cs_room_ids := fst (erase_value room_id (cs_room_ids c))\<rparr>))"

text \<open>A new match forgets the drops of the last one: the ids of drops start again.\<close>

definition lifecycle_match :: "u16 \<Rightarrow> u16 \<Rightarrow> bool \<Rightarrow> cast \<Rightarrow> cast" where
  "lifecycle_match room_id host_sid is_playing c =
    (let c = EnsureCastRoomExists room_id host_sid is_playing c;
         c = upd_cast_room room_id (\<lambda>r. r\<lparr>cr_host_session_id := host_sid, cr_is_playing := is_playing,
               cr_kit_item_by_drop := (if is_playing then fmempty else cr_kit_item_by_drop r)\<rparr>) c
     in case fmlookup (cs_rooms c) room_id of
          None \<Rightarrow> c
        | Some room \<Rightarrow> fold (\<lambda>sid. UpdateCastPlayerRoomState sid room_id True is_playing True) (cr_players_session_id room) c)"

primrec IpcMainRoomLifecycleSync :: "lifecycle_action \<Rightarrow> u16 \<Rightarrow> u16 \<Rightarrow> u16 \<Rightarrow> u8 \<Rightarrow> cast \<Rightarrow> cast" where
  "IpcMainRoomLifecycleSync LC_Create room_id sid host_sid playing = lifecycle_join room_id sid host_sid (playing \<noteq> 0)"
| "IpcMainRoomLifecycleSync LC_Join room_id sid host_sid playing = lifecycle_join room_id sid host_sid (playing \<noteq> 0)"
| "IpcMainRoomLifecycleSync LC_Leave room_id sid host_sid playing = lifecycle_leave room_id sid host_sid (playing \<noteq> 0)"
| "IpcMainRoomLifecycleSync LC_Remove room_id sid host_sid playing = lifecycle_remove room_id"
| "IpcMainRoomLifecycleSync LC_MatchState room_id sid host_sid playing = lifecycle_match room_id host_sid (playing \<noteq> 0)"

text \<open>A key nobody has is a null entry, which reads as session 0.\<close>

definition IpcMainHostChange :: "u16 \<Rightarrow> u64 \<Rightarrow> cast \<Rightarrow> cast" where
  "IpcMainHostChange room_id auth_key c =
    (case fmlookup (cs_rooms c) room_id of
       None \<Rightarrow> c
     | Some room \<Rightarrow>
         let sid = subscript 0 auth_key (cs_auth_keys c)
         in if sid \<notin> set (cr_players_session_id room) then c
            else upd_cast_room room_id (\<lambda>r. r\<lparr>cr_host_session_id := sid\<rparr>) c)"

section \<open>Players as the main server reports them\<close>

definition given_health :: "u32 \<Rightarrow> u32 \<Rightarrow> CastPlayer \<Rightarrow> CastPlayer" where
  "given_health max_health current_health p =
    (let m = (if max_health \<noteq> 0 then max_health else 1000);
         h = (if current_health \<noteq> 0 then min current_health m else m)
     in p\<lparr>cp_max_health := m, cp_current_health := h, cp_health := h, cp_combat_health := h,
          cp_combat_health_known := True, cp_is_dead := (h = 0)\<rparr>)"

definition IpcMainPlayerHealth :: "u16 \<Rightarrow> u32 \<Rightarrow> u32 \<Rightarrow> cast \<Rightarrow> cast" where
  "IpcMainPlayerHealth sid max_health current_health c =
    (if sid = 0 then c else upd_player sid (given_health max_health current_health) c)"

definition IpcMainTpToProj :: "u16 \<Rightarrow> bool \<Rightarrow> cast \<Rightarrow> cast" where
  "IpcMainTpToProj sid enabled c =
    (if sid = 0 then c
     else c\<lparr>cs_tp_to_proj := (if enabled then fst (set_insert sid (cs_tp_to_proj c)) else fst (set_erase sid (cs_tp_to_proj c)))\<rparr>)"

text \<open>The player a session becomes; one who is in a room the cast server knows is put there.\<close>

definition authorized_player :: "AuthoriseData \<Rightarrow> cast \<Rightarrow> CastPlayer" where
  "authorized_player a c =
    (let p = new_CastPlayer (uid_session (ad_uid a)) 0 0 (ucast (uid_server (ad_uid a))) PS_Connected False False (ad_key a) (ad_nickname a);
         p = given_health (ad_max_health a) (ad_current_health a) (p\<lparr>cp_account_id := ad_aid a, cp_hwid := ad_hwid a\<rparr>);
         p = p\<lparr>cp_current_kill_streak := 0, cp_highest_kill_streak := 0\<rparr>
     in if ad_room_id a \<noteq> 0 \<and> cache_contains (ad_room_id a) (cs_rooms c)
        then p\<lparr>cp_room_id := ad_room_id a, cp_in_room := True,
               cp_state_id := (if ad_is_playing a \<noteq> 0 then PS_Normal else PS_WaitingRoom)\<rparr>
        else p)"

text \<open>
  The session takes the id the player has on the main server. While another session has it, that
  one is told to disconnect and the call is repeated 200 ms later (\<open>RetryAuthorize\<close>), ten times.
\<close>

definition IpcMainAuthorize :: "cmessage \<Rightarrow> AuthoriseData \<Rightarrow> nat \<Rightarrow> cast \<Rightarrow> cast" where
  "IpcMainAuthorize blank a retries c =
    (let old_sid = uid_session (ad_old_uid a); new_sid = uid_session (ad_uid a);
         new_player = authorized_player a c
     in case AdoptSid old_sid new_sid False (cs_table c) of
          (t, True, _) \<Rightarrow>
            let c = c\<lparr>cs_table := t,
                      cs_accounts := fst (cache_insert new_sid (copy_CastPlayer new_player) (fst (cache_erase new_sid (cs_accounts c)))),
                      cs_auth_keys := fst (cache_insert (ad_key a) new_sid (fst (cache_erase (ad_key a) (cs_auth_keys c))))\<rparr>
            in if has_session c new_sid then session_msg blank new_sid 501 0 32 1 [] c else c
        | (t, False, _) \<Rightarrow>
            if retries < 10 then
              cast_emit (RetryAuthorize a (Suc retries)) (if has_session c new_sid then cast_emit (DropSession new_sid) c else c)
            else if has_session c old_sid then cast_emit (DropSession old_sid) c else c)"

definition IpcMainDisconnect :: "u64 \<Rightarrow> cast \<Rightarrow> cast" where
  "IpcMainDisconnect auth_key c =
    (let sid = subscript 0 auth_key (cs_auth_keys c) in if has_session c sid then cast_emit (DropSession sid) c else c)"

definition IpcMainPingAssure :: "cmessage \<Rightarrow> u32 \<Rightarrow> cast \<Rightarrow> cast" where
  "IpcMainPingAssure blank sid c = (if has_session c (ucast sid) then session_msg blank (ucast sid) 0 0 0 0 [] c else c)"

definition MakeFlags :: "bool \<Rightarrow> bool \<Rightarrow> u8" where
  "MakeFlags in_room in_plaza = (if in_room then 1 else 0) OR (if in_plaza then 2 else 0)"

text \<open>
  The sessions are those of the hash map, in its order. One without an account reads as a default
  player. The memory of the process is an argument; its processor load, a floating point number of
  the report, is left out.
\<close>

definition player_wire :: "cast \<Rightarrow> u16 \<Rightarrow> PlayerInfoWire" where
  "player_wire c sid =
    (let p = subscript (new_CastPlayer 0 0 0 0 0 False False 0 []) sid (cs_accounts c)
     in \<lparr>pw_session_id = sid, pw_room_id = cp_room_id p, pw_plaza_id = cp_plaza_id p,
          pw_flags = MakeFlags (cp_in_room p) (cp_in_plaza p)\<rparr>)"

definition IpcMainServerInfo :: "u16 list \<Rightarrow> u32 \<Rightarrow> u64 \<Rightarrow> cast \<Rightarrow> cast" where
  "IpcMainServerInfo sessions mem auth_key c =
     SendMainIpc (AckServerInfo auth_key (of_nat (length sessions)) mem (map (player_wire c) sessions)) c"

text \<open>\<open>sessions\<close> and \<open>mem\<close> are only looked at for the server info. A payload too short for its message
is refused before the handler; the messages here are whole.\<close>

fun ServerIpcMessage :: "cmessage \<Rightarrow> u16 list \<Rightarrow> u32 \<Rightarrow> main_ipc \<Rightarrow> cast \<Rightarrow> cast" where
  "ServerIpcMessage blank sessions mem (RoomIpc (HostChangeIpc room_id auth_key)) = IpcMainHostChange room_id auth_key"
| "ServerIpcMessage blank sessions mem (RoomIpc (RoomLifecycleIpc action room_id sid host_sid playing)) =
     IpcMainRoomLifecycleSync action room_id sid host_sid playing"
| "ServerIpcMessage blank sessions mem (RoomIpc (PlayerHealthIpc sid max_health current_health)) =
     IpcMainPlayerHealth sid max_health current_health"
| "ServerIpcMessage blank sessions mem (AuthorizeIpc a) = IpcMainAuthorize blank a 0"
| "ServerIpcMessage blank sessions mem (DisconnectIpc key) = IpcMainDisconnect key"
| "ServerIpcMessage blank sessions mem (ReqServerInfoIpc key) = IpcMainServerInfo sessions mem key"
| "ServerIpcMessage blank sessions mem (PingAssureIpc sid) = IpcMainPingAssure blank sid"
| "ServerIpcMessage blank sessions mem (TpToProjIpc sid enabled) = IpcMainTpToProj sid enabled"

section \<open>Sessions and plazas\<close>

definition ServerConnect :: "cmessage \<Rightarrow> u32 \<Rightarrow> u16 \<Rightarrow> cast \<Rightarrow> cast" where
  "ServerConnect blank rnd sid = session_msg blank sid 401 0 54 0 (le_bytes 4 rnd)"

text \<open>Take a player out of a plaza, which goes when it is empty.\<close>

definition plaza_erase :: "u16 \<Rightarrow> u16 \<Rightarrow> cast \<Rightarrow> cast" where
  "plaza_erase plaza_id sid c =
    (case fmlookup (cs_plazas c) plaza_id of
       None \<Rightarrow> c
     | Some plaza \<Rightarrow>
         let left = removeAll sid (cz_players_session_id plaza)
         in c\<lparr>cs_plazas := (if left = [] then fst (cache_erase plaza_id (cs_plazas c))
                            else fmupd plaza_id (plaza\<lparr>cz_players_session_id := left\<rparr>) (cs_plazas c))\<rparr>)"

definition ServerDisconnect :: "u16 \<Rightarrow> cast \<Rightarrow> cast" where
  "ServerDisconnect sid c =
    (let c = c\<lparr>cs_table := RemoveSession sid (cs_table c)\<rparr>
     in case fmlookup (cs_accounts c) sid of
          None \<Rightarrow> c
        | Some acc \<Rightarrow>
            let c = (if cp_in_plaza acc then plaza_erase (cp_plaza_id acc) sid c else c);
                c = (if cp_auth_key acc \<noteq> 0 then c\<lparr>cs_auth_keys := fst (cache_erase (cp_auth_key acc) (cs_auth_keys c))\<rparr> else c)
            in c\<lparr>cs_accounts := fst (cache_erase sid (cs_accounts c))\<rparr>)"

text \<open>Once the session is in the plaza's list: its account changes plaza and leaves the old one.\<close>

definition plaza_enter :: "cmessage \<Rightarrow> u16 \<Rightarrow> u16 \<Rightarrow> cmessage \<Rightarrow> cast \<Rightarrow> cast" where
  "plaza_enter blank sid plazaId msg c =
    (case fmlookup (cs_accounts c) sid of
       None \<Rightarrow> c
     | Some acc \<Rightarrow>
         let oldPlazaId = cp_plaza_id acc;
             c = upd_player sid (\<lambda>p. p\<lparr>cp_plaza_id := plazaId, cp_in_plaza := True\<rparr>) c;
             c = (if plazaId \<noteq> oldPlazaId then plaza_erase oldPlazaId sid c else c)
         in session_msg blank sid 176 (GetMission msg) 6 (GetOption msg) [] c)"

definition Cast_PlazaJoin :: "cmessage \<Rightarrow> u16 \<Rightarrow> cmessage \<Rightarrow> cast \<Rightarrow> cast" where
  "Cast_PlazaJoin blank sid msg c =
    (let plazaId = ucast (field 4 0 msg :: u32) in
     case fmlookup (cs_plazas c) plazaId of
       Some plaza \<Rightarrow>
         if sid \<in> set (cz_players_session_id plaza) then c
         else plaza_enter blank sid plazaId msg
                (c\<lparr>cs_plazas := fmupd plazaId (plaza\<lparr>cz_players_session_id := cz_players_session_id plaza @ [sid]\<rparr>) (cs_plazas c)\<rparr>)
     | None \<Rightarrow>
         plaza_enter blank sid plazaId msg
           (c\<lparr>cs_plazas := fst (cache_insert plazaId ((new_CastPlaza plazaId)\<lparr>cz_players_session_id := [sid]\<rparr>) (cs_plazas c))\<rparr>))"

definition Cast_PlazaLeave :: "cmessage \<Rightarrow> u16 \<Rightarrow> cmessage \<Rightarrow> cast \<Rightarrow> cast" where
  "Cast_PlazaLeave blank sid msg c =
    (let c = (case fmlookup (cs_accounts c) sid of
                None \<Rightarrow> c
              | Some acc \<Rightarrow>
                  if cp_in_plaza acc \<and> cache_contains (cp_plaza_id acc) (cs_plazas c)
                  then upd_player sid (\<lambda>p. p\<lparr>cp_state_id := PS_Lobby, cp_in_plaza := False\<rparr>) (plaza_erase (cp_plaza_id acc) sid c)
                  else c)
     in session_msg blank sid 176 (GetMission msg) (GetExtra msg) (GetOption msg) [] c)"

section \<open>Requests about the session itself\<close>

definition Cast_Ping :: "cmessage \<Rightarrow> u16 \<Rightarrow> cmessage \<Rightarrow> cast \<Rightarrow> cast" where
  "Cast_Ping blank sid msg = session_msg blank sid 72 1 0 (GetOption msg) []"

text \<open>The key is passed on with the id the session has here, whatever id the client claims.\<close>

definition NodeAuthorize :: "u16 \<Rightarrow> cmessage \<Rightarrow> cast \<Rightarrow> cast" where
  "NodeAuthorize sid msg =
     SendMainIpc (AcknowledgeAuth ((uid_of_data (field 4 0 msg))\<lparr>uid_session := sid\<rparr>) (field 8 4 msg))"

definition NodeCastQuit :: "u16 \<Rightarrow> cmessage \<Rightarrow> cast \<Rightarrow> cast" where
  "NodeCastQuit sid msg c =
     upd_player sid (\<lambda>p. p\<lparr>cp_state_id := PS_Disconnected\<rparr>) (Forward (msg_session msg) sid msg c)"

text \<open>The room requests of clients are ignored.\<close>

definition Cast_RoomCreate :: "cast \<Rightarrow> cast" where "Cast_RoomCreate c = c"
definition Cast_RoomJoin :: "cast \<Rightarrow> cast" where "Cast_RoomJoin c = c"
definition Cast_RoomLeave :: "cast \<Rightarrow> cast" where "Cast_RoomLeave c = c"

end
