(* ===== verification/Cast_Combat.thy ===== *)
theory Cast_Combat
  imports Cast_Data
begin

text \<open>
  Matches on the cast server (\<open>src/src/Cast/handlers/Gameplay\<close>). The clients of a room run the match
  and one of them, the host, decides: what the others do is passed to it, what it decides is sent to
  the whole room, and on the way the cast server keeps every player's health, credits kills and tells
  the main server of hits and other events.
\<close>

section \<open>Reports to the main server\<close>

definition SendMatchTimelineEventIpc :: "u16 \<Rightarrow> u16 \<Rightarrow> u8 \<Rightarrow> u8 \<Rightarrow> u8 \<Rightarrow> u32 \<Rightarrow> cast \<Rightarrow> cast" where
  "SendMatchTimelineEventIpc room_id actor_sid event_type sub_a sub_b val c =
    (if room_id = 0 \<or> actor_sid = 0 then c
     else SendMainIpc (TimelineEvent \<lparr>te_room_id = ucast room_id, te_actor_sid = actor_sid, te_event_type = event_type,
            te_sub_a = sub_a, te_sub_b = sub_b, te_value = val\<rparr>) c)"

definition kCastDefaultHealthRaw :: u32 where "kCastDefaultHealthRaw = 1000"

text \<open>The streak stops at the largest count.\<close>

definition bump_streak :: "CastPlayer \<Rightarrow> CastPlayer" where
  "bump_streak p =
    (let k = (if cp_current_kill_streak p < 65535 then cp_current_kill_streak p + 1 else cp_current_kill_streak p)
     in p\<lparr>cp_current_kill_streak := k, cp_highest_kill_streak := max (cp_highest_kill_streak p) k\<rparr>)"

definition streaks_of :: "cast \<Rightarrow> u16 \<Rightarrow> u16 \<times> u16" where
  "streaks_of c sid = (case fmlookup (cs_accounts c) sid of
     None \<Rightarrow> (0, 0) | Some p \<Rightarrow> (cp_current_kill_streak p, cp_highest_kill_streak p))"

definition CreditKill :: "u16 \<Rightarrow> u16 \<Rightarrow> u16 \<Rightarrow> u8 \<Rightarrow> cast \<Rightarrow> cast" where
  "CreditKill room_id attacker_sid victim_sid weapon_kind c =
    (if room_id = 0 \<or> attacker_sid = 0 \<or> victim_sid = 0 \<or> attacker_sid = victim_sid then c
     else
       (let c = upd_player attacker_sid bump_streak c; k = streaks_of c attacker_sid
        in SendMainIpc (CombatHit \<lparr>ch_room_id = ucast room_id, ch_attacker_sid = attacker_sid, ch_victim_sid = victim_sid,
             ch_damage_raw = 0, ch_victim_health_raw = 0, ch_kill_confirmed = 1, ch_weapon_kind = weapon_kind,
             ch_attacker_current_kill_streak = fst k, ch_attacker_highest_kill_streak = snd k,
             ch_bodypart = 0, ch_hit_variant = 0xFF\<rparr>) c))"

text \<open>The health is written in every case; a hit is reported when it took health from a living enemy.\<close>

definition hurt :: "u32 \<Rightarrow> CastPlayer \<Rightarrow> CastPlayer" where
  "hurt new_health v = v\<lparr>cp_current_health := new_health, cp_health := new_health, cp_combat_health := new_health,
     cp_combat_health_known := True,
     cp_current_kill_streak := (if cp_combat_health v > 0 \<and> new_health = 0 then 0 else cp_current_kill_streak v)\<rparr>"

definition UpdateVictimHealthAndSendCombatIpc ::
  "u64 \<Rightarrow> u16 \<Rightarrow> u16 \<Rightarrow> u16 \<Rightarrow> u32 \<Rightarrow> u8 \<Rightarrow> u32 \<Rightarrow> u8 \<Rightarrow> cast \<Rightarrow> cast" where
  "UpdateVictimHealthAndSendCombatIpc now room_id attacker_sid victim_sid new_health weapon_kind bodypart hit_variant c =
    (if room_id = 0 \<or> attacker_sid = 0 \<or> victim_sid = 0 then c
     else case fmlookup (cs_accounts c) victim_sid of
       None \<Rightarrow> c
     | Some v \<Rightarrow>
         let prev = cp_combat_health v; kill_confirmed = (prev > 0 \<and> new_health = 0);
             c = upd_player victim_sid (hurt new_health) c
         in if attacker_sid = victim_sid \<or> prev = 0 \<or> prev \<le> new_health \<or> \<not> cp_combat_health_known v then c
            else
              let credit_kill = (kill_confirmed \<and> \<not> cp_kill_credited_this_death v);
                  c = upd_player victim_sid (\<lambda>p. p\<lparr>cp_last_attacker_sid := attacker_sid, cp_last_damage_time := now,
                        cp_kill_credited_this_death := (cp_kill_credited_this_death p \<or> credit_kill)\<rparr>) c;
                  c = (if credit_kill then upd_player attacker_sid bump_streak c else c);
                  k = (if credit_kill then streaks_of c attacker_sid else (0, 0))
              in SendMainIpc (CombatHit \<lparr>ch_room_id = ucast room_id, ch_attacker_sid = attacker_sid, ch_victim_sid = victim_sid,
                   ch_damage_raw = prev - new_health, ch_victim_health_raw = new_health,
                   ch_kill_confirmed = (if credit_kill then 1 else 0), ch_weapon_kind = weapon_kind,
                   ch_attacker_current_kill_streak = fst k, ch_attacker_highest_kill_streak = snd k,
                   ch_bodypart = ucast bodypart, ch_hit_variant = hit_variant\<rparr>) c)"

section \<open>Who may decide\<close>

text \<open>
  The room a session is in, and the same when the session is the room's host; the second form takes
  the host's id from its account, where the first takes the session's own.
\<close>

definition sender_room :: "cast \<Rightarrow> u16 \<Rightarrow> (u16 \<times> CastRoom) option" where
  "sender_room c sid =
    (case fmlookup (cs_accounts c) sid of
       None \<Rightarrow> None
     | Some acc \<Rightarrow> map_option (\<lambda>room. (cp_room_id acc, room)) (fmlookup (cs_rooms c) (cp_room_id acc)))"

definition hosted_room :: "cast \<Rightarrow> u16 \<Rightarrow> (u16 \<times> CastRoom) option" where
  "hosted_room c sid =
    (case sender_room c sid of
       None \<Rightarrow> None
     | Some (room_id, room) \<Rightarrow> if sid \<noteq> cr_host_session_id room then None else Some (room_id, room))"

definition hosted_room_cached :: "cast \<Rightarrow> u16 \<Rightarrow> (u16 \<times> CastRoom) option" where
  "hosted_room_cached c sid =
    (case fmlookup (cs_accounts c) sid of
       None \<Rightarrow> None
     | Some acc \<Rightarrow>
         (case sender_room c sid of
            None \<Rightarrow> None
          | Some (room_id, room) \<Rightarrow> if cp_session_id acc \<noteq> cr_host_session_id room then None else Some (room_id, room)))"

section \<open>Weapons\<close>

text \<open>The health and the part of the body in the word that describes a hit player.\<close>

definition info_health :: "u32 \<Rightarrow> u32" where "info_health = get_bits 0 20"
definition info_mode_index :: "u32 \<Rightarrow> u32" where "info_mode_index = get_bits 20 5"

text \<open>One victim: attacker at 16, victim at 20, what happened at 24.\<close>

definition host_single_attack :: "u8 \<Rightarrow> u8 \<Rightarrow> u64 \<Rightarrow> u16 \<Rightarrow> cmessage \<Rightarrow> cast \<Rightarrow> cast" where
  "host_single_attack weapon_kind hit_variant now sid msg c =
    (case hosted_room_cached c sid of
       None \<Rightarrow> c
     | Some (room_id, room) \<Rightarrow>
         Broadcast (cr_players_session_id room) msg None
           (UpdateVictimHealthAndSendCombatIpc now room_id (field 2 16 msg) (field 2 20 msg) (info_health (field 4 24 msg))
              weapon_kind (info_mode_index (field 4 24 msg)) hit_variant c))"

definition HostAttackRifle :: "u64 \<Rightarrow> u16 \<Rightarrow> cmessage \<Rightarrow> cast \<Rightarrow> cast" where
  "HostAttackRifle = host_single_attack WK_Rifle 0xFF"

definition HostAttackSniper :: "u64 \<Rightarrow> u16 \<Rightarrow> cmessage \<Rightarrow> cast \<Rightarrow> cast" where
  "HostAttackSniper = host_single_attack WK_Sniper 0xFF"

definition HostAttackMelee :: "u64 \<Rightarrow> u16 \<Rightarrow> cmessage \<Rightarrow> cast \<Rightarrow> cast" where
  "HostAttackMelee now sid msg = host_single_attack WK_Melee (msg_option msg) now sid msg"

text \<open>As many victims of twelve bytes as the option says, from 20 on.\<close>

definition host_spread_attack :: "u8 \<Rightarrow> u64 \<Rightarrow> u16 \<Rightarrow> cmessage \<Rightarrow> cast \<Rightarrow> cast" where
  "host_spread_attack weapon_kind now sid msg c =
    (case hosted_room_cached c sid of
       None \<Rightarrow> c
     | Some (room_id, room) \<Rightarrow>
         Broadcast (cr_players_session_id room) msg None
           (fold (\<lambda>i. let at = 20 + 12 * i in
               UpdateVictimHealthAndSendCombatIpc now room_id (field 2 16 msg) (field 2 at msg) (info_health (field 4 (at + 4) msg))
                 weapon_kind (info_mode_index (field 4 (at + 4) msg)) 0xFF) [0..<unat (msg_option msg)] c))"

definition HostAttackGatling :: "u64 \<Rightarrow> u16 \<Rightarrow> cmessage \<Rightarrow> cast \<Rightarrow> cast" where
  "HostAttackGatling = host_spread_attack WK_Gatling"

definition HostAttackShotgun :: "u64 \<Rightarrow> u16 \<Rightarrow> cmessage \<Rightarrow> cast \<Rightarrow> cast" where
  "HostAttackShotgun = host_spread_attack WK_Shotgun"

definition HostWarmupGatling :: "u16 \<Rightarrow> cmessage \<Rightarrow> cast \<Rightarrow> cast" where
  "HostWarmupGatling sid msg c =
    (case hosted_room_cached c sid of
       None \<Rightarrow> c
     | Some (room_id, room) \<Rightarrow> Broadcast (cr_players_session_id room) msg None c)"

text \<open>A projectile is remembered with its owner and kind until it hits.\<close>

definition upd_projectiles :: "u16 \<Rightarrow> (RoomProjectiles \<Rightarrow> RoomProjectiles) \<Rightarrow> cast \<Rightarrow> cast" where
  "upd_projectiles room_id f c = (case fmlookup (cs_projectiles c) room_id of None \<Rightarrow> c
     | Some p \<Rightarrow> c\<lparr>cs_projectiles := fmupd room_id (f p) (cs_projectiles c)\<rparr>)"

definition HostAttackProjectile :: "u16 \<Rightarrow> cmessage \<Rightarrow> cast \<Rightarrow> cast" where
  "HostAttackProjectile sid msg c =
    (case hosted_room_cached c sid of
       None \<Rightarrow> c
     | Some (room_id, room) \<Rightarrow>
         let projectileType = msg_option msg in
         if projectileType \<noteq> 1 \<and> projectileType \<noteq> 2 then c
         else
           let projectile_id = field 4 20 msg;
               c = c\<lparr>cs_projectiles := fst (get_or_emplace room_id new_RoomProjectiles (cs_projectiles c))\<rparr>;
               c = upd_projectiles room_id (\<lambda>p. p\<lparr>rp_owner_by_id := fmupd projectile_id (field 2 16 msg) (rp_owner_by_id p),
                     rp_type_by_id := fmupd projectile_id projectileType (rp_type_by_id p)\<rparr>) c
           in Broadcast (cr_players_session_id room) msg None c)"

definition full_health :: "CastPlayer \<Rightarrow> u32" where
  "full_health p = (if cp_max_health p \<noteq> 0 then cp_max_health p else kCastDefaultHealthRaw)"

definition revive :: "CastPlayer \<Rightarrow> CastPlayer" where
  "revive p = p\<lparr>cp_current_health := full_health p, cp_health := full_health p, cp_combat_health := full_health p,
     cp_combat_health_known := True, cp_is_dead := False, cp_last_attacker_sid := 0, cp_kill_credited_this_death := False\<rparr>"

text \<open>One victim of an impact, at \<open>12 + 12 * i\<close>.\<close>

definition impact_victim :: "cmessage \<Rightarrow> u64 \<Rightarrow> u16 \<Rightarrow> u16 list \<Rightarrow> u16 \<Rightarrow> u8 \<Rightarrow> cmessage \<Rightarrow> nat \<Rightarrow> cast \<Rightarrow> cast" where
  "impact_victim blank now room_id player_ids attacker_sid weapon_kind msg i c =
    (let at = 12 + 12 * i;
         c = UpdateVictimHealthAndSendCombatIpc now room_id attacker_sid (field 2 at msg) (info_health (field 4 (at + 4) msg))
               weapon_kind (info_mode_index (field 4 (at + 4) msg)) 0xFF c
     in if set_contains attacker_sid (cs_tp_to_proj c) \<and> fmlookup (cs_accounts c) attacker_sid \<noteq> None
        then Broadcast player_ids
               (SetData (le_bytes 2 (field 2 4 msg :: u16) @ le_bytes 2 (field 2 6 msg :: u16) @ le_bytes 2 (field 2 8 msg :: u16)
                         @ le_bytes 2 (0 :: u16) @ le_bytes 4 (field 4 at msg :: u32)) (SetCommand 276 0 0 0 blank)) None
               (upd_player attacker_sid revive c)
        else c)"

definition HostImpactProjectile :: "cmessage \<Rightarrow> u64 \<Rightarrow> u16 \<Rightarrow> cmessage \<Rightarrow> cast \<Rightarrow> cast" where
  "HostImpactProjectile blank now sid msg c =
    (case hosted_room_cached c sid of
       None \<Rightarrow> c
     | Some (room_id, room) \<Rightarrow>
         let projectile_id = field 4 0 msg;
             proj = subscript new_RoomProjectiles room_id (cs_projectiles c);
             attacker_sid = subscript 0 projectile_id (rp_owner_by_id proj);
             projectile_type = subscript 0 projectile_id (rp_type_by_id proj);
             weapon_kind = (if projectile_type = 1 then WK_Bazooka else if projectile_type = 2 then WK_Grenade else WK_Unknown);
             player_ids = cr_players_session_id room;
             c = fold (impact_victim blank now room_id player_ids attacker_sid weapon_kind msg) [0..<unat (msg_option msg)] c;
             c = upd_projectiles room_id (\<lambda>p. p\<lparr>rp_owner_by_id := fmdrop projectile_id (rp_owner_by_id p),
                   rp_type_by_id := fmdrop projectile_id (rp_type_by_id p)\<rparr>) c
         in Broadcast player_ids msg None c)"

end
