(* ===== verification/Batcher.thy ===== *)
theory Batcher
  imports Cast_Data
begin

text \<open>
  The movement batcher of the cast server (\<open>MovementBatcher.h\<close>, \<open>CCastServer::StartMovementBatcher\<close>):
  the latest movement of every player of a room is collected and sent to the room at a fixed rate, in
  packets that share one tick. A flush takes the collected entries under the lock and sends them
  without it, so submissions may come in between; the order in which the entries of a room are
  visited is that of a hash map, given by \<open>walk\<close>.
\<close>

section \<open>Collecting\<close>

definition kMaxEntryLen :: nat where "kMaxEntryLen = 32"
definition kMaxPayload :: nat where "kMaxPayload = 2039"
definition kMaxEntriesLen :: nat where "kMaxEntriesLen = kMaxPayload - 4"

record move_entry =
  me_bytes :: bytes
  me_matchTick :: u32
  me_len :: u8

definition new_move_entry :: move_entry where
  "new_move_entry = \<lparr>me_bytes = replicate kMaxEntryLen 0, me_matchTick = 0, me_len = 0\<rparr>"

record RoomBatch =
  rb_entries :: "(u16, move_entry) fmap"
  rb_lastTick :: u32

definition new_RoomBatch :: RoomBatch where
  "new_RoomBatch = \<lparr>rb_entries = fmempty, rb_lastTick = 0\<rparr>"

text \<open>A packet on its way to a room: the room, the tick, the entries and their number.\<close>

record move_packet =
  mp_room :: u16
  mp_tick :: u32
  mp_entries :: bytes
  mp_count :: u8

record batcher =
  bt_rooms :: "(u16, RoomBatch) fmap"
  bt_drained :: "(u16 \<times> RoomBatch) list"
  bt_sent :: "move_packet list"

definition Submit :: "u16 \<Rightarrow> u16 \<Rightarrow> bytes \<Rightarrow> u32 \<Rightarrow> batcher \<Rightarrow> batcher" where
  "Submit room_id sid entry matchTick b =
    (if entry = [] \<or> length entry > kMaxEntryLen then b
     else
       (let room = subscript new_RoomBatch room_id (bt_rooms b);
            e = subscript new_move_entry sid (rb_entries room);
            e = \<lparr>me_bytes = entry @ drop (length entry) (me_bytes e), me_matchTick = matchTick, me_len = of_nat (length entry)\<rparr>
        in b\<lparr>bt_rooms := fmupd room_id (room\<lparr>rb_entries := fmupd sid e (rb_entries room)\<rparr>) (bt_rooms b)\<rparr>))"

definition DropRoom :: "u16 \<Rightarrow> batcher \<Rightarrow> batcher" where
  "DropRoom room_id b = b\<lparr>bt_rooms := fst (cache_erase room_id (bt_rooms b))\<rparr>"

section \<open>Sending\<close>

text \<open>What \<open>emitRoom\<close> keeps between entries, and the packets it has sent.\<close>

record emit_state =
  es_buf :: bytes
  es_count :: u8
  es_maxTick :: u32
  es_lastEmitted :: u32
  es_out :: "move_packet list"

definition emit_packet :: "u16 \<Rightarrow> emit_state \<Rightarrow> emit_state" where
  "emit_packet rid s =
    (if es_count s = 0 then s
     else
       (let tick = (if es_maxTick s < es_lastEmitted s then es_lastEmitted s else es_maxTick s)
        in \<lparr>es_buf = [], es_count = 0, es_maxTick = tick, es_lastEmitted = tick,
             es_out = es_out s @ [\<lparr>mp_room = rid, mp_tick = tick, mp_entries = es_buf s, mp_count = es_count s\<rparr>]\<rparr>))"

definition add_entry :: "u16 \<Rightarrow> move_entry \<Rightarrow> emit_state \<Rightarrow> emit_state" where
  "add_entry rid e s =
    (if me_len e = 0 then s
     else
       (let s = (if length (es_buf s) + unat (me_len e) > kMaxEntriesLen \<or> es_count s = 255 then emit_packet rid s else s)
        in s\<lparr>es_buf := es_buf s @ take (unat (me_len e)) (me_bytes e), es_count := es_count s + 1,
             es_maxTick := (if me_matchTick e > es_maxTick s then me_matchTick e else es_maxTick s)\<rparr>))"

definition emitRoom :: "u16 \<Rightarrow> u32 \<Rightarrow> move_entry list \<Rightarrow> move_packet list \<times> u32" where
  "emitRoom rid lastTick es =
    (let s = emit_packet rid (fold (add_entry rid) es
               \<lparr>es_buf = [], es_count = 0, es_maxTick = lastTick, es_lastEmitted = lastTick, es_out = []\<rparr>)
     in (es_out s, es_lastEmitted s))"

text \<open>The entries of a batch in the order they are visited.\<close>

definition batch_entries :: "(u16 fset \<Rightarrow> u16 list) \<Rightarrow> RoomBatch \<Rightarrow> move_entry list" where
  "batch_entries walk rb = List.map_filter (fmlookup (rb_entries rb)) (walk (fmdom (rb_entries rb)))"

text \<open>The two halves of a flush: taking the entries of all rooms, and sending the next room.\<close>

definition drain :: "(u16 fset \<Rightarrow> u16 list) \<Rightarrow> batcher \<Rightarrow> batcher" where
  "drain walk b =
    (let full = filter (\<lambda>rid. rb_entries (subscript new_RoomBatch rid (bt_rooms b)) \<noteq> fmempty) (walk (fmdom (bt_rooms b)))
     in b\<lparr>bt_drained := map (\<lambda>rid. (rid, subscript new_RoomBatch rid (bt_rooms b))) full,
          bt_rooms := fmmap (\<lambda>rb. rb\<lparr>rb_entries := fmempty\<rparr>) (bt_rooms b)\<rparr>)"

definition emit_next :: "(u16 fset \<Rightarrow> u16 list) \<Rightarrow> batcher \<Rightarrow> batcher" where
  "emit_next walk b =
    (case bt_drained b of
       [] \<Rightarrow> b
     | (rid, rb) # rest \<Rightarrow>
         (case emitRoom rid (rb_lastTick rb) (batch_entries walk rb) of
            (packets, newLast) \<Rightarrow>
              b\<lparr>bt_drained := rest, bt_sent := bt_sent b @ packets,
                bt_rooms := (case cache_get rid (bt_rooms b) of
                   None \<Rightarrow> bt_rooms b
                 | Some it \<Rightarrow> if newLast > rb_lastTick it then fmupd rid (it\<lparr>rb_lastTick := newLast\<rparr>) (bt_rooms b) else bt_rooms b)\<rparr>))"

text \<open>One timer runs the flushes, so a new one starts only when the last has sent all it took.\<close>

inductive batcher_run :: "(u16 fset \<Rightarrow> u16 list) \<Rightarrow> batcher \<Rightarrow> bool" for walk where
  run_empty: "batcher_run walk \<lparr>bt_rooms = fmempty, bt_drained = [], bt_sent = []\<rparr>"
| run_submit: "batcher_run walk b \<Longrightarrow> batcher_run walk (Submit room_id sid entry tick b)"
| run_drain: "batcher_run walk b \<Longrightarrow> bt_drained b = [] \<Longrightarrow> batcher_run walk (drain walk b)"
| run_emit: "batcher_run walk b \<Longrightarrow> batcher_run walk (emit_next walk b)"

text \<open>The packet the clients of a room get.\<close>

definition flush_packet :: "cmessage \<Rightarrow> move_packet \<Rightarrow> cast \<Rightarrow> cast" where
  "flush_packet blank p c =
    (case fmlookup (cs_rooms c) (mp_room p) of
       None \<Rightarrow> c
     | Some room \<Rightarrow> Broadcast (cr_players_session_id room)
         (SetData (le_bytes 4 (mp_tick p) @ mp_entries p) (SetCommand 322 0 0 (ucast (mp_count p)) blank)) None c)"

end
