(* ===== verification/Cast_Match.thy ===== *)
theory Cast_Match
  imports Cast_Rooms Cast_Combat Batcher
begin

text \<open>
  The rest of a match on the cast server: respawns, the snapshot for a player who joins late, drops,
  the bomb, what is passed on unread, movement, and the table of handlers (\<open>CCastServer.cpp\<close>).
\<close>

section \<open>The host's word\<close>

text \<open>A life starts with full health and no streak; the highest streak stays.\<close>

definition HostRespawn :: "u16 \<Rightarrow> cmessage \<Rightarrow> cast \<Rightarrow> cast" where
  "HostRespawn sid msg c =
    (let userSid = field 2 8 msg in
     case hosted_room c sid of
       None \<Rightarrow> c
     | Some (room_id, room) \<Rightarrow>
         if fmlookup (cs_accounts c) userSid = None then c
         else SendMatchTimelineEventIpc room_id userSid MT_Respawn 0 0 0
                (Broadcast (cr_players_session_id room) msg None
                  (upd_player userSid (\<lambda>p. (revive p)\<lparr>cp_current_kill_streak := 0\<rparr>) c)))"

definition HostGiveWeapon :: "u16 \<Rightarrow> cmessage \<Rightarrow> cast \<Rightarrow> cast" where
  "HostGiveWeapon sid msg c =
    (if fmlookup (cs_accounts c) (field 2 0 msg) = None then c
     else case hosted_room_cached c sid of
       None \<Rightarrow> c
     | Some (room_id, room) \<Rightarrow> Broadcast (cr_players_session_id room) msg None c)"

text \<open>
  The status of a player as a late joiner is told it, in 8 bytes: the id, and 20 bits of health and
  four bits of state in one word.
\<close>

definition status_entry :: "cast \<Rightarrow> u32 \<Rightarrow> bytes" where
  "status_entry c uid =
    (let (health, dead) = (case fmlookup (cs_accounts c) (ucast uid) of None \<Rightarrow> (0, False)
                           | Some p \<Rightarrow> (cp_current_health p, cp_is_dead p))
     in le_bytes 4 uid @ le_bytes 4 (set_bits 0 20 health (set_bits 25 4 (if dead then 12 else 11) (0 :: u32))))"

definition HostStatus :: "cmessage \<Rightarrow> u16 \<Rightarrow> cmessage \<Rightarrow> cast \<Rightarrow> cast" where
  "HostStatus blank sid msg c =
    (let userSid = msg_session msg; cnt = unat (msg_option msg) in
     if fmlookup (cs_accounts c) sid = None \<or> userSid \<noteq> sid \<and> fmlookup (cs_accounts c) userSid = None then c
     else case hosted_room c sid of
       None \<Rightarrow> c
     | Some _ \<Rightarrow>
         Forward userSid sid
           (SetData (concat (map (\<lambda>i. status_entry c (field 4 (24 * i + 16) msg)) [0..<cnt]))
             (SetCommand (GetOrder msg) 2 (GetExtra msg) (GetOption msg) blank))
           (Forward userSid sid msg c))"

definition HostModinfo :: "u16 \<Rightarrow> cmessage \<Rightarrow> cast \<Rightarrow> cast" where
  "HostModinfo sid msg c =
    (if fmlookup (cs_accounts c) sid = None \<or> fmlookup (cs_accounts c) (msg_session msg) = None then c
     else Forward (msg_session msg) sid msg c)"

definition HostTickUpdate :: "u16 \<Rightarrow> cmessage \<Rightarrow> cast \<Rightarrow> cast" where
  "HostTickUpdate sid msg c =
    (if fmlookup (cs_accounts c) sid = None then c else Forward (msg_session msg) sid msg c)"

definition HostModMatchLoad :: "cmessage \<Rightarrow> u16 \<Rightarrow> cmessage \<Rightarrow> cast \<Rightarrow> cast" where
  "HostModMatchLoad blank sid msg c =
    (case fmlookup (cs_accounts c) sid of
       None \<Rightarrow> c
     | Some host \<Rightarrow>
         (case fmlookup (cs_rooms c) (cp_room_id host) of
            None \<Rightarrow> c
          | Some room \<Rightarrow>
              Broadcast (cr_players_session_id room)
                (SetData (le_bytes 4 (uid_data (new_UniqueId sid (cp_server_id host))))
                  (SetCommand (GetOrder msg) (GetMission msg) (GetExtra msg) (GetOption msg) blank)) None c))"

definition HostModMatchStart :: "u16 \<Rightarrow> cmessage \<Rightarrow> cast \<Rightarrow> cast" where
  "HostModMatchStart sid msg c =
    (let userSid = msg_session msg in
     if userSid = sid \<or> fmlookup (cs_accounts c) userSid = None then c
     else case hosted_room_cached c sid of None \<Rightarrow> c | Some _ \<Rightarrow> Forward userSid sid msg c)"

text \<open>The end of a match, a player's leaving, the score and the end of a round are not acted on here.\<close>

definition HostModMatchEnd :: "cast \<Rightarrow> cast" where "HostModMatchEnd c = c"
definition HostModMatchLeave :: "cast \<Rightarrow> cast" where "HostModMatchLeave c = c"
definition HostModMatchScore :: "cast \<Rightarrow> cast" where "HostModMatchScore c = c"
definition HostModRoundEnd :: "cast \<Rightarrow> cast" where "HostModRoundEnd c = c"

section \<open>Drops and the bomb\<close>

text \<open>
  A drop is known by its number; the item it stands for is kept until somebody takes it. Announced
  drops are 28 bytes each. A drop that is spawned is recorded and sent on even when the sender is
  not the host: only a log line depends on that.
\<close>

definition record_drop :: "cmessage \<Rightarrow> nat \<Rightarrow> CastRoom \<Rightarrow> CastRoom" where
  "record_drop msg i r =
     r\<lparr>cr_kit_item_by_drop := fmupd (field 4 (28 * i) msg) (field 4 (28 * i + 8) msg) (cr_kit_item_by_drop r)\<rparr>"

definition HostItemKitdropInfo :: "u16 \<Rightarrow> cmessage \<Rightarrow> cast \<Rightarrow> cast" where
  "HostItemKitdropInfo sid msg c =
    (case sender_room c sid of
       None \<Rightarrow> c
     | Some (room_id, room) \<Rightarrow>
         Broadcast (cr_players_session_id room) msg None
           (upd_cast_room room_id (fold (record_drop msg) [0..<unat (msg_option msg)]) c))"

definition HostItemKitdropSpawn :: "u16 \<Rightarrow> cmessage \<Rightarrow> cast \<Rightarrow> cast" where
  "HostItemKitdropSpawn sid msg c =
    (case sender_room c sid of
       None \<Rightarrow> c
     | Some (room_id, room) \<Rightarrow>
         Broadcast (cr_players_session_id room) msg None (upd_cast_room room_id (record_drop msg 0) c))"

definition drop_item :: "u32 \<Rightarrow> u32" where "drop_item = get_bits 0 23"
definition drop_kind :: "u32 \<Rightarrow> u32" where "drop_kind = get_bits 23 5"

definition HostItemKitdropPickup :: "u16 \<Rightarrow> cmessage \<Rightarrow> cast \<Rightarrow> cast" where
  "HostItemKitdropPickup sid msg c =
    (case hosted_room c sid of
       None \<Rightarrow> c
     | Some (room_id, room) \<Rightarrow>
         let dropId = field 4 0 msg; userSid = msg_session msg;
             packed = subscript 0 dropId (cr_kit_item_by_drop room);
             c = upd_cast_room room_id (\<lambda>r. r\<lparr>cr_kit_item_by_drop := fmdrop dropId (cr_kit_item_by_drop r)\<rparr>) c;
             c = Broadcast (cr_players_session_id room) msg None c
         in if fmlookup (cs_accounts c) userSid = None then c
            else SendMatchTimelineEventIpc room_id userSid MT_ItemPickup (ucast (drop_kind packed)) 0 (drop_item packed) c)"

definition HostItemUse :: "u16 \<Rightarrow> cmessage \<Rightarrow> cast \<Rightarrow> cast" where
  "HostItemUse sid msg c =
    (case hosted_room c sid of None \<Rightarrow> c | Some (room_id, room) \<Rightarrow> Broadcast (cr_players_session_id room) msg None c)"

text \<open>The bomb: 38 starts, 33 stops and 41 finishes; the mission is 0 for defusing, 1 for planting.\<close>

definition bomb_phase :: "u8 \<Rightarrow> u8 option" where
  "bomb_phase extra = (if extra = 38 then Some 0 else if extra = 33 then Some 1 else if extra = 41 then Some 2 else None)"

definition HostModBombState :: "u16 \<Rightarrow> cmessage \<Rightarrow> cast \<Rightarrow> cast" where
  "HostModBombState sid msg c =
    (case hosted_room c sid of
       None \<Rightarrow> c
     | Some (room_id, room) \<Rightarrow>
         let c = Broadcast (cr_players_session_id room) msg None c
         in (case bomb_phase (msg_extra msg) of
               Some phase \<Rightarrow> if msg_mission msg = 0 then SendMatchTimelineEventIpc room_id (field 2 0 msg) MT_Bomb 0 phase 0 c else c
             | None \<Rightarrow> c))"

definition UserModBombState :: "u16 \<Rightarrow> cmessage \<Rightarrow> cast \<Rightarrow> cast" where
  "UserModBombState sid msg c =
    (let c = Forward (msg_session msg) sid msg c
     in case bomb_phase (msg_extra msg) of
          None \<Rightarrow> c
        | Some phase \<Rightarrow>
            (case fmlookup (cs_accounts c) sid of
               None \<Rightarrow> c
             | Some acc \<Rightarrow> SendMatchTimelineEventIpc (cp_room_id acc) sid MT_Bomb (msg_mission msg) phase 0 c))"

section \<open>What is passed on\<close>

definition room_relay :: "u16 option \<Rightarrow> u16 \<Rightarrow> cmessage \<Rightarrow> cast \<Rightarrow> cast" where
  "room_relay exclude_sid sid msg c =
    (case sender_room c sid of None \<Rightarrow> c | Some (room_id, room) \<Rightarrow> Broadcast (cr_players_session_id room) msg exclude_sid c)"

definition NpcAttack :: "u16 \<Rightarrow> cmessage \<Rightarrow> cast \<Rightarrow> cast" where "NpcAttack = room_relay None"
definition NpcProjectile :: "u16 \<Rightarrow> cmessage \<Rightarrow> cast \<Rightarrow> cast" where "NpcProjectile = room_relay None"
definition NpcSpawn :: "u16 \<Rightarrow> cmessage \<Rightarrow> cast \<Rightarrow> cast" where "NpcSpawn = room_relay None"
definition NpcMovement :: "u16 \<Rightarrow> cmessage \<Rightarrow> cast \<Rightarrow> cast" where "NpcMovement sid = room_relay (Some sid) sid"
definition UserModBombIdk :: "u16 \<Rightarrow> cmessage \<Rightarrow> cast \<Rightarrow> cast" where "UserModBombIdk = room_relay None"

definition UserRadio :: "cmessage \<Rightarrow> u16 \<Rightarrow> cmessage \<Rightarrow> cast \<Rightarrow> cast" where
  "UserRadio blank sid msg =
     room_relay None sid (SetData (le_bytes 4 (field 4 0 msg :: u32)) (SetOrder 273 blank))"

definition UserReload :: "u16 \<Rightarrow> cmessage \<Rightarrow> cast \<Rightarrow> cast" where
  "UserReload = session_send"

definition to_host :: "u16 \<Rightarrow> cmessage \<Rightarrow> cast \<Rightarrow> cast" where
  "to_host sid msg = Forward (msg_session msg) sid msg"

definition UserEffectBehaviour :: "u16 \<Rightarrow> cmessage \<Rightarrow> cast \<Rightarrow> cast" where "UserEffectBehaviour = to_host"
definition UserNickname :: "u16 \<Rightarrow> cmessage \<Rightarrow> cast \<Rightarrow> cast" where "UserNickname = to_host"
definition UserRespawn :: "u16 \<Rightarrow> cmessage \<Rightarrow> cast \<Rightarrow> cast" where "UserRespawn = to_host"
definition UserTickRequest :: "u16 \<Rightarrow> cmessage \<Rightarrow> cast \<Rightarrow> cast" where "UserTickRequest = to_host"
definition UserItemKitdropGet :: "u16 \<Rightarrow> cmessage \<Rightarrow> cast \<Rightarrow> cast" where "UserItemKitdropGet = to_host"
definition UserItemPickup :: "u16 \<Rightarrow> cmessage \<Rightarrow> cast \<Rightarrow> cast" where "UserItemPickup = to_host"
definition UserItemUse :: "u16 \<Rightarrow> cmessage \<Rightarrow> cast \<Rightarrow> cast" where "UserItemUse = to_host"
definition UserModBombDrop :: "u16 \<Rightarrow> cmessage \<Rightarrow> cast \<Rightarrow> cast" where "UserModBombDrop = to_host"
definition UserAttackGatling :: "u16 \<Rightarrow> cmessage \<Rightarrow> cast \<Rightarrow> cast" where "UserAttackGatling = to_host"
definition UserAttackMelee :: "u16 \<Rightarrow> cmessage \<Rightarrow> cast \<Rightarrow> cast" where "UserAttackMelee = to_host"
definition UserAttackRifle :: "u16 \<Rightarrow> cmessage \<Rightarrow> cast \<Rightarrow> cast" where "UserAttackRifle = to_host"
definition UserAttackShotgun :: "u16 \<Rightarrow> cmessage \<Rightarrow> cast \<Rightarrow> cast" where "UserAttackShotgun = to_host"
definition UserAttackSniper :: "u16 \<Rightarrow> cmessage \<Rightarrow> cast \<Rightarrow> cast" where "UserAttackSniper = to_host"
definition UserWarmupGatling :: "u16 \<Rightarrow> cmessage \<Rightarrow> cast \<Rightarrow> cast" where "UserWarmupGatling = to_host"

definition UserAttackProjectile :: "u16 \<Rightarrow> cmessage \<Rightarrow> cast \<Rightarrow> cast" where
  "UserAttackProjectile sid msg c =
    (if msg_option msg \<noteq> 1 \<and> msg_option msg \<noteq> 2 then c else Forward (msg_session msg) sid msg c)"

section \<open>Movement\<close>

definition size_ClientPlayerInfoBasic :: nat where "size_ClientPlayerInfoBasic = 20"
definition size_ClientPlayerInfoJump :: nat where "size_ClientPlayerInfoJump = 24"
definition size_ClientPlayerInfoBullet :: nat where "size_ClientPlayerInfoBullet = 28"
definition size_ClientPlayerInfoComplete :: nat where "size_ClientPlayerInfoComplete = 32"

text \<open>The bit fields of a movement as it is received, \<open>w\<close> being the word at 16.\<close>

definition cpi_animation1 :: "u32 \<Rightarrow> u32" where "cpi_animation1 = get_bits 0 8"
definition cpi_animation2 :: "u32 \<Rightarrow> u32" where "cpi_animation2 = get_bits 8 6"
definition cpi_weapon :: "u32 \<Rightarrow> u32" where "cpi_weapon = get_bits 14 4"
definition cpi_rotation :: "u32 \<Rightarrow> u32" where "cpi_rotation = get_bits 18 9"

definition SpecificInfo :: "u16 \<Rightarrow> bool \<Rightarrow> u32 \<Rightarrow> u32 \<Rightarrow> bool \<Rightarrow> u32" where
  "SpecificInfo sessionId enableBullet animation1 animation2 enableJump =
     set_bits 0 14 (ucast sessionId) (set_bits 14 1 1 (set_bits 15 1 (if enableBullet then 1 else 0)
       (set_bits 16 7 animation1 (set_bits 23 1 1 (set_bits 24 6 animation2 (set_bits 30 1 1
         (set_bits 31 1 (if enableJump then 1 else 0) 0)))))))"

definition rotation_word :: "u32 \<Rightarrow> u32 \<Rightarrow> u32 \<Rightarrow> u32 \<Rightarrow> u32" where
  "rotation_word rotation1 rotation2 rotation3 currentWeapon =
     set_bits 0 8 rotation1 (set_bits 8 8 rotation2 (set_bits 16 9 rotation3 (set_bits 25 4 currentWeapon 0)))"

text \<open>
  The body of the packet the others get: the tick, the flags, position and direction, the shots when
  there are any, the rotation, the jump when there is one. The three bits of the rotation word that the code
  leaves unset are zero. A size that is none of the four gives an empty body.
\<close>

definition movement_body :: "u16 \<Rightarrow> cmessage \<Rightarrow> bytes" where
  "movement_body sid msg =
    (let n = dataSize msg; d = GetData msg; w = field 4 16 msg;
         with_bullets = (n = size_ClientPlayerInfoBullet \<or> n = size_ClientPlayerInfoComplete);
         with_jump = (n = size_ClientPlayerInfoJump \<or> n = size_ClientPlayerInfoComplete);
         weapon = (if with_bullets then ucast (field 2 26 msg :: u16) else cpi_weapon w)
     in if n = size_ClientPlayerInfoBasic \<or> with_bullets \<or> with_jump
        then take 4 (drop 12 d) @ le_bytes 4 (SpecificInfo sid with_bullets (cpi_animation1 w) (cpi_animation2 w) with_jump)
             @ take 12 d @ (if with_bullets then take 8 (drop 20 d) else [])
             @ le_bytes 4 (rotation_word (GetExtra msg) (GetOption msg) (cpi_rotation w) weapon)
             @ (if with_jump then take 4 (drop (n - 4) d) else [])
        else [])"

text \<open>
  In a room a living player's movement goes to the batcher, or to the room at once when batching is
  off; in a plaza it goes to the others there. For a session without an account the lock of the null
  entry is released, which throws: \<open>None\<close>.
\<close>

definition UserMovement :: "cmessage \<Rightarrow> bool \<Rightarrow> u16 \<Rightarrow> cmessage \<Rightarrow> cast \<times> batcher \<Rightarrow> (cast \<times> batcher) option" where
  "UserMovement blank batching sid msg = (\<lambda>(c, b).
     case fmlookup (cs_accounts c) sid of
       None \<Rightarrow> None
     | Some acc \<Rightarrow>
         let body = movement_body sid msg;
             movementMsg = (let m = SetCommand 322 0 0 1 (SetSession sid blank) in if body = [] then m else SetData body m)
         in Some
          (if cp_in_room acc \<and> cp_health acc \<noteq> 0 then
             if batching \<and> length body \<ge> 4
             then (c, Submit (cp_room_id acc) sid (drop 4 body) (le_word (take 4 body)) b)
             else (case fmlookup (cs_rooms c) (cp_room_id acc) of
                     None \<Rightarrow> (c, b) | Some room \<Rightarrow> (Broadcast (cr_players_session_id room) movementMsg None c, b))
           else if cp_in_plaza acc then
             (case fmlookup (cs_plazas c) (cp_plaza_id acc) of
                None \<Rightarrow> (c, b) | Some plaza \<Rightarrow> (Broadcast (cz_players_session_id plaza) movementMsg (Some sid) c, b))
           else (c, b)))"

section \<open>The table of handlers\<close>

text \<open>
  What the server does for an order, movement apart; an order without a handler changes nothing.
  \<open>now\<close> is the clock in seconds while the request is handled.
\<close>

definition cast_handlers :: "cmessage \<Rightarrow> u64 \<Rightarrow> u16 \<Rightarrow> cmessage \<Rightarrow> (u32 \<times> (cast \<Rightarrow> cast)) list" where
  "cast_handlers blank now sid msg =
    [(71, Cast_Ping blank sid msg),
     (78, UserEffectBehaviour sid msg),
     (79, UserTickRequest sid msg),
     (90, HostItemKitdropInfo sid msg),
     (94, UserItemKitdropGet sid msg),
     (96, UserItemPickup sid msg),
     (102, UserItemUse sid msg),
     (140, Cast_RoomJoin),
     (146, UserWarmupGatling sid msg),
     (147, UserAttackGatling sid msg),
     (149, UserAttackMelee sid msg),
     (151, UserAttackProjectile sid msg),
     (152, UserAttackRifle sid msg),
     (153, UserAttackShotgun sid msg),
     (154, UserAttackSniper sid msg),
     (155, UserModBombState sid msg),
     (156, UserModBombDrop sid msg),
     (165, UserModBombIdk sid msg),
     (166, UserRespawn sid msg),
     (175, Cast_PlazaJoin blank sid msg),
     (176, Cast_PlazaLeave blank sid msg),
     (252, NodeAuthorize sid msg),
     (253, NodeCastQuit sid msg),
     (254, HostModMatchEnd),
     (255, HostModMatchScore),
     (256, HostModMatchLeave),
     (257, HostModMatchLoad blank sid msg),
     (258, HostModMatchStart sid msg),
     (259, HostModRoundEnd),
     (260, HostItemKitdropSpawn sid msg),
     (261, HostGiveWeapon sid msg),
     (262, HostItemKitdropPickup sid msg),
     (263, HostItemUse sid msg),
     (264, HostImpactProjectile blank now sid msg),
     (265, HostWarmupGatling sid msg),
     (266, HostAttackGatling now sid msg),
     (267, HostAttackMelee now sid msg),
     (268, HostAttackRifle now sid msg),
     (269, HostAttackShotgun now sid msg),
     (270, HostAttackSniper now sid msg),
     (271, HostModBombState sid msg),
     (272, HostAttackProjectile sid msg),
     (273, UserRadio blank sid msg),
     (275, UserReload sid msg),
     (276, HostRespawn sid msg),
     (277, Cast_RoomCreate),
     (279, Cast_RoomLeave),
     (282, NpcMovement sid msg),
     (284, UserNickname sid msg),
     (306, HostStatus blank sid msg),
     (309, HostModinfo sid msg),
     (326, NpcProjectile sid msg),
     (328, NpcSpawn sid msg),
     (331, NpcAttack sid msg),
     (408, HostTickUpdate sid msg)]"

definition on_packet :: "cmessage \<Rightarrow> u64 \<Rightarrow> bool \<Rightarrow> u16 \<Rightarrow> cmessage \<Rightarrow> cast \<times> batcher \<Rightarrow> (cast \<times> batcher) option" where
  "on_packet blank now batching sid msg = (\<lambda>(c, b).
     if GetOrder msg = 281 then UserMovement blank batching sid msg (c, b)
     else case map_of (cast_handlers blank now sid msg) (GetOrder msg) of
       None \<Rightarrow> Some (c, b)
     | Some f \<Rightarrow> Some (f c, b))"

section \<open>A run of the server\<close>

text \<open>
  What can happen: a session is accepted, sends a packet or goes; the main server says something; an
  authorization is tried again; the batcher's timer takes what it has collected, and sends the next
  room. A packet whose handler throws changes nothing.
\<close>

datatype cast_input =
    Accept "u16 fset \<Rightarrow> u16" nat cmessage u32
  | Packet cmessage u64 bool u16 cmessage
  | Gone u16
  | FromMain cmessage "u16 list" u32 main_ipc
  | Retry cmessage AuthoriseData nat
  | TimerTake "u16 fset \<Rightarrow> u16 list"
  | TimerSend "u16 fset \<Rightarrow> u16 list" cmessage

fun cast_step :: "cast_input \<Rightarrow> cast \<times> batcher \<Rightarrow> cast \<times> batcher" where
  "cast_step (Accept pick tok blank rnd) (c, b) =
    (case AcceptSession pick tok (cs_table c) of
       (t, None) \<Rightarrow> (c\<lparr>cs_table := t\<rparr>, b)
     | (t, Some sid) \<Rightarrow> (ServerConnect blank rnd sid (c\<lparr>cs_table := t\<rparr>), b))"
| "cast_step (Packet blank now batching sid msg) (c, b) =
    (case on_packet blank now batching sid msg (c, b) of None \<Rightarrow> (c, b) | Some cb \<Rightarrow> cb)"
| "cast_step (Gone sid) (c, b) = (ServerDisconnect sid c, b)"
| "cast_step (FromMain blank sessions mem m) (c, b) = (ServerIpcMessage blank sessions mem m c, b)"
| "cast_step (Retry blank a n) (c, b) = (IpcMainAuthorize blank a n c, b)"
| "cast_step (TimerTake walk) (c, b) = (c, if bt_drained b = [] then drain walk b else b)"
| "cast_step (TimerSend walk blank) (c, b) =
    (let b' = emit_next walk b
     in (fold (flush_packet blank) (drop (length (bt_sent b)) (bt_sent b')) c, b'))"

definition cast_init :: cast where
  "cast_init = \<lparr>cs_table = table_init, cs_accounts = fmempty, cs_rooms = fmempty, cs_projectiles = fmempty,
     cs_plazas = fmempty, cs_auth_keys = fmempty, cs_room_ids = [], cs_tp_to_proj = {||}, cs_outbox = []\<rparr>"

definition batcher_init :: batcher where
  "batcher_init = \<lparr>bt_rooms = fmempty, bt_drained = [], bt_sent = []\<rparr>"

definition cast_run :: "cast_input list \<Rightarrow> cast \<times> batcher \<Rightarrow> cast \<times> batcher" where
  "cast_run = fold cast_step"

end
