(* ===== verification/Cast_Inv.thy ===== *)
theory Cast_Inv
  imports Cast_Match
begin

text \<open>
  Which requests touch health, streaks and the reports of hits, and an interface for what holds of
  every change in them: whoever shows it for the few places that make such a change has it of a whole
  run of the server.
\<close>

section \<open>Reports in the outbox\<close>

fun hits_of :: "cast_event list \<Rightarrow> CastCombatHitEvent list" where
  "hits_of [] = []"
| "hits_of (ToMain (CombatHit h) # es) = h # hits_of es"
| "hits_of (e # es) = hits_of es"

definition hits :: "cast \<Rightarrow> CastCombatHitEvent list" where
  "hits c = hits_of (cs_outbox c)"

lemma hits_of_append: "hits_of (xs @ ys) = hits_of xs @ hits_of ys"
  by (induction xs rule: hits_of.induct) auto

lemma hits_emit: "hits (cast_emit e c) = hits c @ hits_of [e]"
  by (simp add: hits_def hits_of_append)

lemma hits_cong: "cs_outbox c = cs_outbox d \<Longrightarrow> hits c = hits d"
  by (simp add: hits_def)

lemma hits_fields [simp]:
  "hits (c\<lparr>cs_table := t\<rparr>) = hits c" "hits (c\<lparr>cs_accounts := a\<rparr>) = hits c" "hits (c\<lparr>cs_rooms := r\<rparr>) = hits c"
  "hits (c\<lparr>cs_projectiles := p\<rparr>) = hits c" "hits (c\<lparr>cs_plazas := z\<rparr>) = hits c" "hits (c\<lparr>cs_auth_keys := k\<rparr>) = hits c"
  "hits (c\<lparr>cs_room_ids := i\<rparr>) = hits c" "hits (c\<lparr>cs_tp_to_proj := f\<rparr>) = hits c"
  by (simp_all add: hits_def)

lemma hits_upd [simp]:
  "hits (upd_player s f c) = hits c" "hits (upd_cast_room r g c) = hits c" "hits (upd_projectiles r h c) = hits c"
  by (rule hits_cong, simp add: upd_projectiles_def split: option.split)+

lemma hits_send_to [simp]: "hits (send_to s m c) = hits c"
  by (simp add: send_to_def hits_emit)

lemma hits_fold: "(\<And>x c. hits (f x c) = hits c) \<Longrightarrow> hits (fold f xs c) = hits c"
  by (induction xs arbitrary: c) auto

lemma hits_sends [simp]:
  "hits (Broadcast ids m e c) = hits c" "hits (Forward t f m c) = hits c" "hits (session_send s m c) = hits c"
  "hits (session_msg b s x y z v d c) = hits c" "hits (SendMatchTimelineEventIpc r a et sa sb w c) = hits c"
  by (simp_all add: Broadcast_def hits_fold Forward_def session_msg_def session_send_def hits_emit
      SendMatchTimelineEventIpc_def SendMainIpc_def)

lemma hits_report: "hits (SendMainIpc (CombatHit h) c) = hits c @ [h]" "hits (SendMainIpc (AckServerInfo a b d e) c) = hits c"
  "hits (SendMainIpc (AcknowledgeAuth u k) c) = hits c"
  by (simp_all add: SendMainIpc_def hits_emit)

lemma timeline_keeps [simp]:
  "cs_accounts (SendMatchTimelineEventIpc r a t x y v c) = cs_accounts c"
  "cs_tp_to_proj (SendMatchTimelineEventIpc r a t x y v c) = cs_tp_to_proj c"
  "cs_rooms (SendMatchTimelineEventIpc r a t x y v c) = cs_rooms c"
  by (simp_all add: SendMatchTimelineEventIpc_def)

lemma upd_projectiles_keeps [simp]:
  "cs_accounts (upd_projectiles r f c) = cs_accounts c" "cs_tp_to_proj (upd_projectiles r f c) = cs_tp_to_proj c"
  "cs_rooms (upd_projectiles r f c) = cs_rooms c"
  by (simp_all add: upd_projectiles_def split: option.split)

section \<open>Requests that leave combat alone\<close>

definition combat_view :: "CastPlayer \<Rightarrow> u32 list \<times> u16 list \<times> bool list" where
  "combat_view p = ([cp_health p, cp_combat_health p, cp_max_health p, cp_current_health p],
     [cp_current_kill_streak p, cp_highest_kill_streak p],
     [cp_combat_health_known p, cp_is_dead p, cp_kill_credited_this_death p])"

definition same_combat :: "cast \<Rightarrow> cast \<Rightarrow> bool" where
  "same_combat c d \<longleftrightarrow> hits d = hits c \<and> cs_tp_to_proj d = cs_tp_to_proj c
     \<and> (\<forall>s. map_option combat_view (fmlookup (cs_accounts d) s) = map_option combat_view (fmlookup (cs_accounts c) s))"

lemma same_combat_refl [simp]: "same_combat c c"
  by (simp add: same_combat_def)

lemma same_combat_trans: "same_combat a b \<Longrightarrow> same_combat b c \<Longrightarrow> same_combat a c"
  by (simp add: same_combat_def)

lemma same_combatI: "hits d = hits c \<Longrightarrow> cs_tp_to_proj d = cs_tp_to_proj c \<Longrightarrow> cs_accounts d = cs_accounts c \<Longrightarrow> same_combat c d"
  by (simp add: same_combat_def)

lemma same_combat_upd:
  "(\<And>p. combat_view (f p) = combat_view p) \<Longrightarrow> same_combat c (upd_player s f c)"
  by (simp add: same_combat_def upd_player_lookup option.map_comp comp_def)

lemma plaza_erase_same [simp]: "same_combat c (plaza_erase z s c)"
  by (auto simp: plaza_erase_def Let_def intro!: same_combatI hits_cong split: option.split)

lemma plaza_enter_same: "same_combat c (plaza_enter b s z m c)"
proof (cases "fmlookup (cs_accounts c) s")
  case (Some acc)
  let ?u = "upd_player s (\<lambda>p. p\<lparr>cp_plaza_id := z, cp_in_plaza := True\<rparr>) c"
  have u: "same_combat c ?u" by (rule same_combat_upd) (simp add: combat_view_def)
  have e: "same_combat ?u (if z \<noteq> cp_plaza_id acc then plaza_erase (cp_plaza_id acc) s ?u else ?u)" by simp
  show ?thesis
    using same_combat_trans [OF u same_combat_trans [OF e same_combatI [of "session_msg b s 176 (GetMission m) 6 (GetOption m) [] _" ]]]
    by (simp add: plaza_enter_def Some Let_def)
qed (simp add: plaza_enter_def)

definition combat_order :: "u32 \<Rightarrow> bool" where
  "combat_order k \<longleftrightarrow> k \<in> {264, 266, 267, 268, 269, 270, 276}"

lemma plaza_list_same [simp]: "same_combat c (c\<lparr>cs_plazas := z\<rparr>)"
  by (rule same_combatI) (simp_all add: hits_def)

lemma plaza_join_same: "same_combat c (Cast_PlazaJoin b s m c)"
  by (cases "fmlookup (cs_plazas c) (ucast (field 4 0 m :: u32))")
     (simp_all add: Cast_PlazaJoin_def Let_def same_combat_trans [OF plaza_list_same plaza_enter_same])

lemma plaza_leave_same: "same_combat c (Cast_PlazaLeave b s m c)"
proof -
  have u: "same_combat c (upd_player s (\<lambda>p. p\<lparr>cp_state_id := PS_Lobby, cp_in_plaza := False\<rparr>) (plaza_erase z s c))" for z
    by (rule same_combat_trans [OF plaza_erase_same same_combat_upd]) (simp add: combat_view_def)
  have m: "same_combat d (session_msg b s 176 (GetMission m) (GetExtra m) (GetOption m) [] d)" for d
    by (rule same_combatI) simp_all
  show ?thesis
    by (cases "fmlookup (cs_accounts c) s") (simp_all add: Cast_PlazaLeave_def Let_def m same_combat_trans [OF u m])
qed

lemma quit_same: "same_combat c (NodeCastQuit s m c)"
  unfolding NodeCastQuit_def
  by (rule same_combat_trans [OF _ same_combat_upd]) (auto intro: same_combatI simp: combat_view_def)

lemma Forward_same [simp]: "same_combat c (Forward t f m c)"
  by (rule same_combatI) simp_all

lemma Broadcast_same [simp]: "same_combat c (Broadcast ids m e c)"
  by (rule same_combatI) simp_all

lemma to_host_same:
  "same_combat c (UserEffectBehaviour s m c)"
  "same_combat c (UserNickname s m c)"
  "same_combat c (UserRespawn s m c)"
  "same_combat c (UserTickRequest s m c)"
  "same_combat c (UserItemKitdropGet s m c)"
  "same_combat c (UserItemPickup s m c)"
  "same_combat c (UserItemUse s m c)"
  "same_combat c (UserModBombDrop s m c)"
  "same_combat c (UserAttackGatling s m c)"
  "same_combat c (UserAttackMelee s m c)"
  "same_combat c (UserAttackRifle s m c)"
  "same_combat c (UserAttackShotgun s m c)"
  "same_combat c (UserAttackSniper s m c)"
  "same_combat c (UserWarmupGatling s m c)"
  by (simp_all add: to_host_def UserEffectBehaviour_def UserNickname_def UserRespawn_def UserTickRequest_def
      UserItemKitdropGet_def UserItemPickup_def UserItemUse_def UserModBombDrop_def UserAttackGatling_def UserAttackMelee_def
      UserAttackRifle_def UserAttackShotgun_def UserAttackSniper_def UserWarmupGatling_def)

lemma room_relay_same: "same_combat c (room_relay x s m c)"
  by (simp add: room_relay_def split: option.split)

lemma relay_same:
  "same_combat c (NpcAttack s m c)"
  "same_combat c (NpcProjectile s m c)"
  "same_combat c (NpcSpawn s m c)"
  "same_combat c (NpcMovement s m c)"
  "same_combat c (UserModBombIdk s m c)"
  "same_combat c (UserRadio b s m c)"
  by (simp_all add: room_relay_same NpcAttack_def NpcProjectile_def NpcSpawn_def NpcMovement_def UserModBombIdk_def UserRadio_def)

lemma ignored_same:
  "same_combat c (Cast_RoomCreate c)"
  "same_combat c (Cast_RoomJoin c)"
  "same_combat c (Cast_RoomLeave c)"
  "same_combat c (HostModMatchEnd c)"
  "same_combat c (HostModMatchLeave c)"
  "same_combat c (HostModMatchScore c)"
  "same_combat c (HostModRoundEnd c)"
  by (simp_all add: Cast_RoomCreate_def Cast_RoomJoin_def Cast_RoomLeave_def HostModMatchEnd_def HostModMatchLeave_def HostModMatchScore_def HostModRoundEnd_def)

lemma UserReload_same: "same_combat c (UserReload s m c)"
  by (auto simp: UserReload_def Let_def hits_report simp del: upt_Suc intro!: same_combatI split: option.split prod.split)

lemma UserModBombState_same: "same_combat c (UserModBombState s m c)"
  by (auto simp: UserModBombState_def Let_def hits_report simp del: upt_Suc intro!: same_combatI split: option.split prod.split)

lemma NodeAuthorize_same: "same_combat c (NodeAuthorize s m c)"
  by (auto simp: NodeAuthorize_def Let_def hits_report simp del: upt_Suc intro!: same_combatI split: option.split prod.split)

lemma UserAttackProjectile_same: "same_combat c (UserAttackProjectile s m c)"
  by (auto simp: UserAttackProjectile_def Let_def hits_report simp del: upt_Suc intro!: same_combatI split: option.split prod.split)

lemma HostModMatchStart_same: "same_combat c (HostModMatchStart s m c)"
  by (auto simp: HostModMatchStart_def Let_def hits_report simp del: upt_Suc intro!: same_combatI split: option.split prod.split)

lemma HostGiveWeapon_same: "same_combat c (HostGiveWeapon s m c)"
  by (auto simp: HostGiveWeapon_def Let_def hits_report simp del: upt_Suc intro!: same_combatI split: option.split prod.split)

lemma HostModinfo_same: "same_combat c (HostModinfo s m c)"
  by (auto simp: HostModinfo_def Let_def hits_report simp del: upt_Suc intro!: same_combatI split: option.split prod.split)

lemma HostTickUpdate_same: "same_combat c (HostTickUpdate s m c)"
  by (auto simp: HostTickUpdate_def Let_def hits_report simp del: upt_Suc intro!: same_combatI split: option.split prod.split)

lemma HostItemUse_same: "same_combat c (HostItemUse s m c)"
  by (auto simp: HostItemUse_def Let_def hits_report simp del: upt_Suc intro!: same_combatI split: option.split prod.split)

lemma HostModBombState_same: "same_combat c (HostModBombState s m c)"
  by (auto simp: HostModBombState_def Let_def hits_report simp del: upt_Suc intro!: same_combatI split: option.split prod.split)

lemma HostWarmupGatling_same: "same_combat c (HostWarmupGatling s m c)"
  by (auto simp: HostWarmupGatling_def Let_def hits_report simp del: upt_Suc intro!: same_combatI split: option.split prod.split)

lemma HostItemKitdropInfo_same: "same_combat c (HostItemKitdropInfo s m c)"
  by (auto simp: HostItemKitdropInfo_def Let_def hits_report simp del: upt_Suc intro!: same_combatI split: option.split prod.split)

lemma HostItemKitdropSpawn_same: "same_combat c (HostItemKitdropSpawn s m c)"
  by (auto simp: HostItemKitdropSpawn_def Let_def hits_report simp del: upt_Suc intro!: same_combatI split: option.split prod.split)

lemma HostItemKitdropPickup_same: "same_combat c (HostItemKitdropPickup s m c)"
  by (auto simp: HostItemKitdropPickup_def Let_def hits_report simp del: upt_Suc intro!: same_combatI split: option.split prod.split)

lemma HostAttackProjectile_same: "same_combat c (HostAttackProjectile s m c)"
  by (auto simp: HostAttackProjectile_def Let_def hits_report simp del: upt_Suc intro!: same_combatI split: option.split prod.split)

lemma Cast_Ping_same: "same_combat c (Cast_Ping b s m c)"
  by (auto simp: Cast_Ping_def Let_def hits_report simp del: upt_Suc intro!: same_combatI split: option.split prod.split)

lemma HostModMatchLoad_same: "same_combat c (HostModMatchLoad b s m c)"
  by (auto simp: HostModMatchLoad_def Let_def hits_report simp del: upt_Suc intro!: same_combatI split: option.split prod.split)

lemma HostStatus_same: "same_combat c (HostStatus b s m c)"
  by (auto simp: HostStatus_def Let_def hits_report simp del: upt_Suc intro!: same_combatI split: option.split prod.split)

lemmas handlers_same = plaza_join_same plaza_leave_same quit_same to_host_same relay_same ignored_same
  UserReload_same UserModBombState_same NodeAuthorize_same UserAttackProjectile_same HostModMatchStart_same HostGiveWeapon_same HostModinfo_same HostTickUpdate_same HostItemUse_same HostModBombState_same HostWarmupGatling_same HostItemKitdropInfo_same HostItemKitdropSpawn_same HostItemKitdropPickup_same HostAttackProjectile_same Cast_Ping_same HostModMatchLoad_same HostStatus_same

lemma handler_same:
  assumes "map_of (cast_handlers blank now sid msg) k = Some f" "\<not> combat_order k"
  shows "same_combat c (f c)"
proof -
  have "(k, f) \<in> set (cast_handlers blank now sid msg)" using assms(1) by (rule map_of_SomeD)
  then show ?thesis
    using assms(2) unfolding cast_handlers_def combat_order_def
    by (simp only: list.set insert_iff empty_iff prod.inject simp_thms) (elim disjE conjE; simp add: handlers_same)
qed

lemma movement_same: "UserMovement blank batching sid msg (c, b) = Some (c', b') \<Longrightarrow> same_combat c c'"
  by (auto simp: UserMovement_def Let_def split: option.splits if_splits)

section \<open>What changes combat\<close>

text \<open>
  A relation between the states before and after that holds of each change in the health, the streaks
  and the reports holds of a whole run. \<open>may_live\<close> says which players may start a new life; \<open>allowed\<close>
  rules the inputs out that would start one for the others.
\<close>

definition starts_life :: "u16 \<Rightarrow> cast_input \<Rightarrow> bool" where
  "starts_life v i =
    (case i of
       Packet blank now batching sid msg \<Rightarrow> GetOrder msg = 276 \<and> field 2 8 msg = v
     | Gone sid \<Rightarrow> sid = v
     | FromMain blank sessions mem m \<Rightarrow>
         (case m of AuthorizeIpc a \<Rightarrow> uid_session (ad_uid a) = v | TpToProjIpc sid enabled \<Rightarrow> sid = v \<and> enabled | _ \<Rightarrow> False)
     | Retry blank a n \<Rightarrow> uid_session (ad_uid a) = v
     | _ \<Rightarrow> False)"

definition reset_account :: "AuthoriseData \<Rightarrow> cast \<Rightarrow> cast" where
  "reset_account a c =
     c\<lparr>cs_accounts := fst (cache_insert (uid_session (ad_uid a)) (copy_CastPlayer (authorized_player a c))
         (fst (cache_erase (uid_session (ad_uid a)) (cs_accounts c))))\<rparr>"

locale combat_relation =
  fixes R :: "cast \<Rightarrow> cast \<Rightarrow> bool"
    and may_live :: "u16 \<Rightarrow> bool"
  assumes R_trans: "R a b \<Longrightarrow> R b c \<Longrightarrow> R a c"
    and R_same: "same_combat c d \<Longrightarrow> R c d"
    and R_hit: "R c (UpdateVictimHealthAndSendCombatIpc now room att vic health weapon part variant c)"
    and R_tp: "s |\<in>| cs_tp_to_proj c \<Longrightarrow> R c (upd_player s revive c)"
    and R_respawn: "may_live s \<Longrightarrow> R c (upd_player s (\<lambda>p. (revive p)\<lparr>cp_current_kill_streak := 0\<rparr>) c)"
    and R_room: "R c (UpdateCastPlayerRoomState s rid in_room playing reset c)"
    and R_health: "R c (upd_player s (given_health most health) c)"
    and R_toggle: "may_live s \<or> \<not> on \<Longrightarrow> R c (IpcMainTpToProj s on c)"
    and R_authorize: "may_live (uid_session (ad_uid x)) \<Longrightarrow> R c (reset_account x c)"
    and R_gone: "may_live s \<Longrightarrow> R c (c\<lparr>cs_accounts := fmdrop s (cs_accounts c)\<rparr>)"
begin

lemma R_refl: "R c c"
  by (rule R_same) simp

lemma R_fold: "(\<And>x c. R c (f x c)) \<Longrightarrow> R c (fold f xs c)"
  by (induction xs arbitrary: c) (auto intro: R_refl R_trans)

lemma R_then_same: "R c d \<Longrightarrow> same_combat d e \<Longrightarrow> R c e"
  by (rule R_trans [OF _ R_same])

lemma R_same_then: "same_combat c d \<Longrightarrow> R d e \<Longrightarrow> R c e"
  by (rule R_trans [OF R_same])

lemma single_attack: "R c (host_single_attack w hv now s m c)"
  by (auto simp: host_single_attack_def R_refl intro: R_then_same [OF R_hit Broadcast_same] split: option.split)

lemma spread_attack: "R c (host_spread_attack w now s m c)"
proof (cases "hosted_room_cached c s")
  case (Some p)
  obtain rid r where p: "p = (rid, r)" by fastforce
  show ?thesis
    unfolding host_spread_attack_def Some p option.case prod.case
    by (rule R_then_same [OF R_fold Broadcast_same]) (simp add: Let_def R_hit)
qed (simp add: host_spread_attack_def R_refl)

lemma impact_step: "R c (impact_victim blank now rid ids a w msg i c)"
proof -
  let ?d = "UpdateVictimHealthAndSendCombatIpc now rid a (field 2 (12 + 12 * i) msg) (info_health (field 4 (12 + 12 * i + 4) msg))
       w (info_mode_index (field 4 (12 + 12 * i + 4) msg)) 0xFF c"
  have h: "R c ?d" by (rule R_hit)
  have "R ?d (impact_victim blank now rid ids a w msg i c)"
    unfolding impact_victim_def Let_def
    by (simp add: R_refl set_contains_def) (auto intro: R_then_same [OF R_tp Broadcast_same])
  with h show ?thesis by (rule R_trans)
qed

lemma projectiles_same: "same_combat c (upd_projectiles rid f c)"
  by (rule same_combatI) simp_all

lemma impact: "R c (HostImpactProjectile blank now s msg c)"
proof (cases "hosted_room_cached c s")
  case (Some p)
  obtain rid r where p: "p = (rid, r)" by fastforce
  show ?thesis
    unfolding HostImpactProjectile_def Some p option.case prod.case Let_def
    by (rule R_then_same [OF R_then_same [OF R_fold projectiles_same] Broadcast_same]) (rule impact_step)
qed (simp add: HostImpactProjectile_def R_refl)

lemma respawn:
  assumes "may_live (field 2 8 msg)"
  shows "R c (HostRespawn s msg c)"
proof (cases "hosted_room c s")
  case (Some p)
  obtain rid r where p: "p = (rid, r)" by fastforce
  have t: "same_combat d (SendMatchTimelineEventIpc rid (field 2 8 msg) MT_Respawn 0 0 0 (Broadcast ids msg None d))" for d ids
    by (rule same_combatI) simp_all
  show ?thesis
    unfolding HostRespawn_def Some p option.case prod.case Let_def
    using R_then_same [OF R_respawn [OF assms, of c] t] by (simp add: R_refl)
qed (simp add: HostRespawn_def R_refl)

lemma packet:
  assumes "on_packet blank now batching s msg (c, b) = Some (c', b')" "GetOrder msg = 276 \<Longrightarrow> may_live (field 2 8 msg)"
  shows "R c c'"
proof (cases "GetOrder msg = 281")
  case True
  then show ?thesis using assms(1) movement_same R_same by (auto simp: on_packet_def)
next
  case False
  show ?thesis
  proof (cases "map_of (cast_handlers blank now s msg) (GetOrder msg)")
    case None
    then show ?thesis using assms(1) False R_refl by (simp add: on_packet_def)
  next
    case (Some f)
    then have c': "c' = f c" using assms(1) False by (simp add: on_packet_def)
    show ?thesis
    proof (cases "combat_order (GetOrder msg)")
      case True
      then consider "GetOrder msg = 264" | "GetOrder msg = 266" | "GetOrder msg = 267" | "GetOrder msg = 268"
        | "GetOrder msg = 269" | "GetOrder msg = 270" | "GetOrder msg = 276" by (auto simp: combat_order_def)
      then show ?thesis
        using Some single_attack spread_attack impact respawn assms(2)
        by cases (auto simp: c' cast_handlers_def HostAttackGatling_def HostAttackShotgun_def HostAttackRifle_def
            HostAttackSniper_def HostAttackMelee_def)
    qed (use Some R_same handler_same c' in auto)
  qed
qed

lemma host_change: "same_combat c (IpcMainHostChange rid k c)"
  by (auto simp: IpcMainHostChange_def Let_def intro!: same_combatI split: option.split)

lemma ensure_same: "same_combat c (EnsureCastRoomExists rid host playing c)"
  by (auto simp: EnsureCastRoomExists_def intro!: same_combatI)

lemma upd_room_same: "same_combat c (upd_cast_room rid f c)"
  by (rule same_combatI) simp_all

lemma lifecycle: "R c (IpcMainRoomLifecycleSync action rid s host playing c)"
proof -
  have join: "R c (lifecycle_join rid s host on c)" for on
    unfolding lifecycle_join_def Let_def
    by (cases "s = 0") (auto intro: R_same_then [OF same_combat_trans [OF ensure_same upd_room_same] R_room]
        R_same_then [OF same_combat_trans [OF ensure_same upd_room_same] R_refl])
  have leave: "R c (lifecycle_leave rid s host on c)" for on
    unfolding lifecycle_leave_def Let_def
    by (cases "s = 0") (auto intro: R_same_then [OF upd_room_same R_room] R_same_then [OF upd_room_same R_refl])
  have remove: "R c (lifecycle_remove rid c)"
    unfolding lifecycle_remove_def
    by (auto simp: R_refl split: option.split intro!: R_same_then [OF _ R_fold [OF R_room]] same_combatI)
  have match: "R c (lifecycle_match rid host on c)" for on
  proof -
    let ?d = "upd_cast_room rid (\<lambda>r. r\<lparr>cr_host_session_id := host, cr_is_playing := on,
               cr_kit_item_by_drop := (if on then fmempty else cr_kit_item_by_drop r)\<rparr>) (EnsureCastRoomExists rid host on c)"
    have d: "same_combat c ?d" by (rule same_combat_trans [OF ensure_same upd_room_same])
    show ?thesis
      unfolding lifecycle_match_def Let_def
      by (cases "fmlookup (cs_rooms ?d) rid") (simp_all add: R_same [OF d] R_same_then [OF d R_fold [OF R_room]])
  qed
  show ?thesis using join leave remove match by (cases action) simp_all
qed

lemma authorize:
  assumes "may_live (uid_session (ad_uid x))"
  shows "R c (IpcMainAuthorize blank x n c)"
proof -
  obtain t ok evicted where a: "AdoptSid (uid_session (ad_old_uid x)) (uid_session (ad_uid x)) False (cs_table c) = (t, ok, evicted)"
    using prod_cases3 by blast
  have same_rest: "same_combat c (cast_emit (DropSession s) c)" "same_combat c (cast_emit (RetryAuthorize y k) c)" for s y k and c :: cast
    by (rule same_combatI; simp add: hits_emit)+
  show ?thesis
  proof (cases ok)
    case True
    have r: "R c (reset_account x c)" using assms by (rule R_authorize)
    have s: "same_combat (reset_account x c) (IpcMainAuthorize blank x n c)"
      using a True by (auto simp: IpcMainAuthorize_def Let_def reset_account_def intro!: same_combatI)
    show ?thesis using r s by (rule R_then_same)
  next
    case False
    then show ?thesis
      using a same_rest same_combat_trans [OF same_rest(1) same_rest(2)]
      by (auto simp: IpcMainAuthorize_def Let_def R_refl intro!: R_same)
  qed
qed

lemma disconnect:
  assumes "may_live s"
  shows "R c (ServerDisconnect s c)"
proof -
  let ?t = "c\<lparr>cs_table := RemoveSession s (cs_table c)\<rparr>"
  have t: "same_combat c ?t" by (rule same_combatI) simp_all
  show ?thesis
  proof (cases "fmlookup (cs_accounts c) s")
    case None
    then show ?thesis by (simp add: ServerDisconnect_def Let_def R_same [OF t])
  next
    case (Some acc)
    define d where "d = (if cp_in_plaza acc then plaza_erase (cp_plaza_id acc) s ?t else ?t)"
    define e where "e = (if cp_auth_key acc \<noteq> 0 then d\<lparr>cs_auth_keys := fst (cache_erase (cp_auth_key acc) (cs_auth_keys d))\<rparr> else d)"
    have "same_combat ?t d" by (simp add: d_def)
    moreover have "same_combat d e" by (auto simp: e_def intro: same_combatI)
    ultimately have "same_combat c e" using t same_combat_trans by metis
    moreover have "ServerDisconnect s c = e\<lparr>cs_accounts := fmdrop s (cs_accounts e)\<rparr>"
      by (simp add: ServerDisconnect_def Let_def Some d_def e_def cache_erase_def)
    ultimately show ?thesis using R_same_then [OF _ R_gone [OF assms]] by metis
  qed
qed

lemma from_main:
  assumes "\<And>s. starts_life s (FromMain blank sessions mem m) \<Longrightarrow> may_live s"
  shows "R c (ServerIpcMessage blank sessions mem m c)"
proof (cases m)
  case (RoomIpc x)
  then show ?thesis
    by (cases x) (auto simp: IpcMainPlayerHealth_def R_refl intro: R_same host_change lifecycle R_health)
next
  case (AuthorizeIpc x)
  then show ?thesis using assms by (auto simp: starts_life_def intro: authorize)
next
  case (TpToProjIpc s on)
  then show ?thesis using assms [of s] by (auto simp: starts_life_def intro!: R_toggle)
next
  case (DisconnectIpc k)
  then show ?thesis by (auto simp: IpcMainDisconnect_def Let_def hits_emit intro!: R_same same_combatI)
next
  case (ReqServerInfoIpc k)
  then show ?thesis by (auto simp: IpcMainServerInfo_def hits_report intro!: R_same same_combatI)
next
  case (PingAssureIpc s)
  then show ?thesis by (auto simp: IpcMainPingAssure_def intro!: R_same same_combatI)
qed

lemma flush_same: "same_combat c (flush_packet blank p c)"
  by (auto simp: flush_packet_def split: option.split)

lemma step:
  assumes "\<And>s. starts_life s i \<Longrightarrow> may_live s"
  shows "R c (fst (cast_step i (c, b)))"
proof (cases i)
  case (Accept pick tok blank rnd)
  obtain t r where t: "AcceptSession pick tok (cs_table c) = (t, r)" by fastforce
  have "same_combat c (fst (cast_step i (c, b)))"
    using Accept t by (cases r) (auto simp: ServerConnect_def intro!: same_combatI)
  then show ?thesis by (rule R_same)
next
  case (Packet blank now batching s msg)
  have ml: "GetOrder msg = 276 \<Longrightarrow> may_live (field 2 8 msg)"
    using assms Packet by (auto simp: starts_life_def)
  show ?thesis
  proof (cases "on_packet blank now batching s msg (c, b)")
    case (Some cb)
    then show ?thesis using packet [OF _ ml] Packet by (cases cb) simp
  qed (simp add: Packet R_refl)
next
  case (Gone s)
  then show ?thesis using assms disconnect by (simp add: starts_life_def)
next
  case (FromMain blank sessions mem m)
  then show ?thesis using from_main assms by simp
next
  case (Retry blank x n)
  then show ?thesis using assms authorize by (simp add: starts_life_def)
next
  case (TimerTake walk)
  then show ?thesis by (simp add: R_refl)
next
  case (TimerSend walk blank)
  then show ?thesis by (simp add: Let_def R_fold R_same flush_same)
qed

lemma run:
  assumes "\<And>i s. i \<in> set is \<Longrightarrow> starts_life s i \<Longrightarrow> may_live s"
  shows "R c (fst (cast_run is (c, b)))"
  using assms
proof (induction "is" arbitrary: c b)
  case (Cons i js)
  obtain d b' where d: "cast_step i (c, b) = (d, b')" by fastforce
  have "R c (fst (cast_step i (c, b)))" by (rule step) (use Cons.prems in auto)
  then have "R c d" by (simp add: d)
  moreover have "R d (fst (cast_run js (d, b')))" by (rule Cons.IH) (use Cons.prems in auto)
  ultimately show ?case using R_trans by (simp add: cast_run_def d)
qed (simp add: cast_run_def R_refl)

end

end
