(* ===== verification/Cast_Props.thy ===== *)
theory Cast_Props
  imports Cast_Inv
begin

text \<open>
  What the cast server guarantees in a match: every hit it reports is consistent, a kill is credited at
  most once a life, and only the host of a room has a say in anybody's health.
\<close>

section \<open>One hit\<close>

lemma upd_player_twice: "upd_player s f (upd_player s g c) = upd_player s (\<lambda>p. f (g p)) c"
  by (simp add: upd_player_def split: option.split)

text \<open>The four ways a hit goes.\<close>

lemma hit_cases:
  obtains (nothing) "UpdateVictimHealthAndSendCombatIpc now room a v h w part var c = c"
  | (silent) "UpdateVictimHealthAndSendCombatIpc now room a v h w part var c = upd_player v (hurt h) c"
  | (reported) p k where "fmlookup (cs_accounts c) v = Some p" "room \<noteq> 0" "a \<noteq> 0" "v \<noteq> 0" "a \<noteq> v"
      "0 < cp_combat_health p" "h < cp_combat_health p"
      "k \<longleftrightarrow> h = 0 \<and> \<not> cp_kill_credited_this_death p"
      "UpdateVictimHealthAndSendCombatIpc now room a v h w part var c =
         (let d = upd_player v (\<lambda>p. (hurt h p)\<lparr>cp_last_attacker_sid := a, cp_last_damage_time := now,
                    cp_kill_credited_this_death := (cp_kill_credited_this_death p \<or> k)\<rparr>) c;
              e = (if k then upd_player a bump_streak d else d);
              s = (if k then streaks_of e a else (0, 0))
          in SendMainIpc (CombatHit \<lparr>ch_room_id = ucast room, ch_attacker_sid = a, ch_victim_sid = v,
               ch_damage_raw = cp_combat_health p - h, ch_victim_health_raw = h,
               ch_kill_confirmed = (if k then 1 else 0), ch_weapon_kind = w,
               ch_attacker_current_kill_streak = fst s, ch_attacker_highest_kill_streak = snd s,
               ch_bodypart = ucast part, ch_hit_variant = var\<rparr>) e)"
proof (cases "room = 0 \<or> a = 0 \<or> v = 0")
  case True
  show ?thesis by (rule nothing) (use True in \<open>auto simp: UpdateVictimHealthAndSendCombatIpc_def\<close>)
next
  case False
  show ?thesis
  proof (cases "fmlookup (cs_accounts c) v")
    case None
    show ?thesis by (rule nothing) (use None in \<open>auto simp: UpdateVictimHealthAndSendCombatIpc_def\<close>)
  next
    case (Some p)
    show ?thesis
    proof (cases "a = v \<or> cp_combat_health p = 0 \<or> cp_combat_health p \<le> h \<or> \<not> cp_combat_health_known p")
      case True
      show ?thesis by (rule silent) (use True False Some in \<open>auto simp: UpdateVictimHealthAndSendCombatIpc_def Let_def\<close>)
    next
      case live: False
      have k: "0 < cp_combat_health p" using live by (simp add: word_gt_0)
      have nl: "\<not> cp_combat_health p \<le> h" and lt: "h < cp_combat_health p" using live by auto
      have cr: "cp_kill_credited_this_death (hurt h q) = cp_kill_credited_this_death q" for q
        by (simp add: hurt_def)
      show ?thesis
        by (rule reported [of p "h = 0 \<and> \<not> cp_kill_credited_this_death p"])
           (use False Some live k nl lt in \<open>simp_all add: UpdateVictimHealthAndSendCombatIpc_def Let_def upd_player_twice cr\<close>)
    qed
  qed
qed

section \<open>At most one kill a life\<close>

definition kills :: "u16 \<Rightarrow> cast \<Rightarrow> nat" where
  "kills v c = length (filter (\<lambda>h. ch_victim_sid h = v \<and> ch_kill_confirmed h \<noteq> 0) (hits c))"

definition credited :: "u16 \<Rightarrow> cast \<Rightarrow> nat" where
  "credited v c = (if map_option cp_kill_credited_this_death (fmlookup (cs_accounts c) v) = Some True then 1 else 0)"

text \<open>A kill is paid for with the flag of the victim, which was free before.\<close>

definition same_life :: "u16 \<Rightarrow> cast \<Rightarrow> cast \<Rightarrow> bool" where
  "same_life v c d \<longleftrightarrow> (v |\<notin>| cs_tp_to_proj c \<longrightarrow>
     v |\<notin>| cs_tp_to_proj d \<and> kills v d + credited v c \<le> kills v c + credited v d)"

lemma kills_simps [simp]:
  "kills v (upd_player s f c) = kills v c" "kills v (c\<lparr>cs_accounts := x\<rparr>) = kills v c"
  "kills v (c\<lparr>cs_tp_to_proj := y\<rparr>) = kills v c"
  by (simp_all add: kills_def)

lemma credited_upd:
  "credited v (upd_player s f c) = (if v = s then if map_option (cp_kill_credited_this_death \<circ> f) (fmlookup (cs_accounts c) v) = Some True
     then 1 else 0 else credited v c)"
  by (auto simp: credited_def upd_player_lookup)

lemma credited_keep:
  "(\<And>p. cp_kill_credited_this_death (f p) = cp_kill_credited_this_death p) \<Longrightarrow> credited v (upd_player s f c) = credited v c"
  by (auto simp: credited_upd) (auto simp: credited_def)

lemma same_combat_credited: "same_combat c d \<Longrightarrow> credited v d = credited v c"
proof -
  assume "same_combat c d"
  then have "map_option combat_view (fmlookup (cs_accounts d) v) = map_option combat_view (fmlookup (cs_accounts c) v)"
    by (simp add: same_combat_def)
  then have "map_option (\<lambda>w. snd (snd w) ! 2) (map_option combat_view (fmlookup (cs_accounts d) v))
      = map_option (\<lambda>w. snd (snd w) ! 2) (map_option combat_view (fmlookup (cs_accounts c) v))" by simp
  then show ?thesis by (simp add: credited_def option.map_comp comp_def combat_view_def)
qed

lemma same_life_flag:
  assumes "kills v d = kills v c" "cs_tp_to_proj d = cs_tp_to_proj c" "credited v c \<le> credited v d"
  shows "same_life v c d"
  using assms by (simp add: same_life_def)

lemma same_life_hit: "same_life v c (UpdateVictimHealthAndSendCombatIpc now room a vic h w part var c)"
proof (cases rule: hit_cases [of now room a vic h w part var c])
  case (reported p k)
  note R = this
  let ?f = "\<lambda>p. (hurt h p)\<lparr>cp_last_attacker_sid := a, cp_last_damage_time := now,
                    cp_kill_credited_this_death := (cp_kill_credited_this_death p \<or> k)\<rparr>"
  define d where "d = upd_player vic ?f c"
  define e where "e = (if k then upd_player a bump_streak d else d)"
  have b: "cp_kill_credited_this_death (bump_streak q) = cp_kill_credited_this_death q" for q
    by (simp add: bump_streak_def Let_def)
  have ce: "credited v e = credited v d" by (simp add: e_def credited_keep b)
  have cd: "credited v d = (if v = vic then (if cp_kill_credited_this_death p \<or> k then 1 else 0) else credited v c)"
    by (simp add: d_def credited_upd R(1))
  have ke: "kills v e = kills v c" by (simp add: e_def d_def)
  let ?ev = "\<lambda>s. \<lparr>ch_room_id = ucast room, ch_attacker_sid = a, ch_victim_sid = vic,
               ch_damage_raw = cp_combat_health p - h, ch_victim_health_raw = h,
               ch_kill_confirmed = (if k then 1 else 0), ch_weapon_kind = w,
               ch_attacker_current_kill_streak = fst s, ch_attacker_highest_kill_streak = snd s,
               ch_bodypart = ucast part, ch_hit_variant = var\<rparr>"
  define s where "s = (if k then streaks_of e a else (0, 0))"
  have u: "UpdateVictimHealthAndSendCombatIpc now room a vic h w part var c = SendMainIpc (CombatHit (?ev s)) e"
    by (simp add: R(9) Let_def d_def e_def s_def)
  have k: "kills v (SendMainIpc (CombatHit (?ev s)) e) = kills v c + (if v = vic \<and> k then 1 else 0)"
    using ke by (auto simp: kills_def hits_report)
  have tp: "cs_tp_to_proj e = cs_tp_to_proj c" by (simp add: e_def d_def)
  have cs: "credited v (SendMainIpc (CombatHit (?ev s)) e) = credited v e" by (simp add: credited_def)
  have old: "v = vic \<Longrightarrow> credited v c = (if cp_kill_credited_this_death p then 1 else 0)"
    by (simp add: credited_def R(1))
  show ?thesis
    using k tp cs ce cd old R(8) by (auto simp: u same_life_def)
qed (auto simp: same_life_def credited_keep hurt_def)

lemma same_life_trans: "same_life v a b \<Longrightarrow> same_life v b c \<Longrightarrow> same_life v a c"
  by (auto simp: same_life_def)

lemma flag_steps:
  "cp_kill_credited_this_death (given_health m h p) = cp_kill_credited_this_death p"
  by (simp add: given_health_def Let_def)

lemma credited_room: "credited v (UpdateCastPlayerRoomState s rid i p r c) = credited v c"
  unfolding UpdateCastPlayerRoomState_def by (rule credited_keep) (simp add: Let_def)

interpretation one_life: combat_relation "same_life v" "\<lambda>s. s \<noteq> v" for v
proof unfold_locales
  fix c d :: cast assume "same_combat c d"
  then show "same_life v c d"
    using same_combat_credited [of c d v] by (simp add: same_life_def kills_def same_combat_def)
next
  fix s and c :: cast assume "s |\<in>| cs_tp_to_proj c"
  then show "same_life v c (upd_player s revive c)"
    by (auto simp: same_life_def credited_upd)
next
  fix s rid i p r and c :: cast
  show "same_life v c (UpdateCastPlayerRoomState s rid i p r c)"
    by (rule same_life_flag) (simp_all add: credited_room, simp_all add: UpdateCastPlayerRoomState_def)
next
  fix x :: AuthoriseData and c :: cast assume "uid_session (ad_uid x) \<noteq> v"
  then show "same_life v c (reset_account x c)"
    by (intro same_life_flag)
       (simp_all add: reset_account_def credited_def cache_insert_def cache_erase_def split: option.split)
next
  show "same_life v a b \<Longrightarrow> same_life v b c \<Longrightarrow> same_life v a c" for a b c by (rule same_life_trans)
next
  show "same_life v c (UpdateVictimHealthAndSendCombatIpc now room att vic health weapon part variant c)"
    for c now room att vic health weapon part variant by (rule same_life_hit)
next
  show "s \<noteq> v \<Longrightarrow> same_life v c (upd_player s (\<lambda>p. (revive p)\<lparr>cp_current_kill_streak := 0\<rparr>) c)" for s c
    by (rule same_life_flag) (simp_all add: credited_upd)
next
  show "same_life v c (upd_player s (given_health most health) c)" for c s most health
    by (rule same_life_flag) (simp_all add: credited_keep flag_steps)
next
  show "s \<noteq> v \<or> \<not> on \<Longrightarrow> same_life v c (IpcMainTpToProj s on c)" for s on c
    by (auto simp: same_life_def IpcMainTpToProj_def set_insert_def set_erase_def credited_def)
next
  show "s \<noteq> v \<Longrightarrow> same_life v c (c\<lparr>cs_accounts := fmdrop s (cs_accounts c)\<rparr>)" for s c
    by (rule same_life_flag) (simp_all add: credited_def)
qed

section \<open>Consistent reports\<close>

definition hit_ok :: "CastCombatHitEvent \<Rightarrow> bool" where
  "hit_ok h \<longleftrightarrow> ch_room_id h \<noteq> 0 \<and> ch_attacker_sid h \<noteq> 0 \<and> ch_victim_sid h \<noteq> 0 \<and> ch_attacker_sid h \<noteq> ch_victim_sid h
     \<and> 0 < ch_damage_raw h \<and> unat (ch_damage_raw h) + unat (ch_victim_health_raw h) < 2 ^ 32
     \<and> ch_kill_confirmed h \<le> 1 \<and> (ch_kill_confirmed h = 1 \<longrightarrow> ch_victim_health_raw h = 0)
     \<and> ch_attacker_current_kill_streak h \<le> ch_attacker_highest_kill_streak h"

definition streaks_ok :: "cast \<Rightarrow> bool" where
  "streaks_ok c \<longleftrightarrow> (\<forall>s p. fmlookup (cs_accounts c) s = Some p \<longrightarrow> cp_current_kill_streak p \<le> cp_highest_kill_streak p)"

definition reports_ok :: "cast \<Rightarrow> bool" where
  "reports_ok c \<longleftrightarrow> streaks_ok c \<and> list_all hit_ok (hits c)"

lemma streaks_ok_upd:
  assumes "streaks_ok c" "\<And>p. cp_current_kill_streak p \<le> cp_highest_kill_streak p \<Longrightarrow> cp_current_kill_streak (f p) \<le> cp_highest_kill_streak (f p)"
  shows "streaks_ok (upd_player s f c)"
  using assms by (auto simp: streaks_ok_def upd_player_lookup)

lemma reports_ok_upd:
  assumes "reports_ok c" "\<And>p. cp_current_kill_streak p \<le> cp_highest_kill_streak p \<Longrightarrow> cp_current_kill_streak (f p) \<le> cp_highest_kill_streak (f p)"
  shows "reports_ok (upd_player s f c)"
  using assms streaks_ok_upd by (simp add: reports_ok_def)

lemma streaks_hurt: "cp_current_kill_streak p \<le> cp_highest_kill_streak p \<Longrightarrow> cp_current_kill_streak (hurt h p) \<le> cp_highest_kill_streak (hurt h p)"
  by (simp add: hurt_def)

lemma streaks_bump: "cp_current_kill_streak (bump_streak p) \<le> cp_highest_kill_streak (bump_streak p)"
  by (simp add: bump_streak_def Let_def)

lemma streaks_of_ok: "streaks_ok c \<Longrightarrow> fst (streaks_of c s) \<le> snd (streaks_of c s)"
  by (auto simp: streaks_of_def streaks_ok_def split: option.split)

lemma reports_ok_hit:
  assumes "reports_ok c"
  shows "reports_ok (UpdateVictimHealthAndSendCombatIpc now room a v h w part var c)"
proof (cases rule: hit_cases [of now room a v h w part var c])
  case silent
  then show ?thesis using reports_ok_upd [OF assms streaks_hurt] by simp
next
  case (reported p k)
  note R = this
  let ?f = "\<lambda>p. (hurt h p)\<lparr>cp_last_attacker_sid := a, cp_last_damage_time := now,
                    cp_kill_credited_this_death := (cp_kill_credited_this_death p \<or> k)\<rparr>"
  define d where "d = upd_player v ?f c"
  define e where "e = (if k then upd_player a bump_streak d else d)"
  define s where "s = (if k then streaks_of e a else (0, 0))"
  let ?ev = "\<lparr>ch_room_id = ucast room, ch_attacker_sid = a, ch_victim_sid = v,
               ch_damage_raw = cp_combat_health p - h, ch_victim_health_raw = h,
               ch_kill_confirmed = (if k then 1 else 0), ch_weapon_kind = w,
               ch_attacker_current_kill_streak = fst s, ch_attacker_highest_kill_streak = snd s,
               ch_bodypart = ucast part, ch_hit_variant = var\<rparr>"
  have u: "UpdateVictimHealthAndSendCombatIpc now room a v h w part var c = SendMainIpc (CombatHit ?ev) e"
    by (simp add: R(9) Let_def d_def e_def s_def)
  have d: "reports_ok d" unfolding d_def by (rule reports_ok_upd [OF assms]) (use streaks_hurt in simp)
  have e: "reports_ok e" using d reports_ok_upd [OF d streaks_bump] by (simp add: e_def)
  have s: "fst s \<le> snd s" using e streaks_of_ok [of e a] by (simp add: s_def reports_ok_def)
  have "ucast (ucast room :: u32) = room" by (rule bit_word_eqI) (simp add: bit_simps)
  then have r: "(ucast room :: u32) \<noteq> 0" using R(2) by (metis unsigned_0)
  have le: "h \<le> cp_combat_health p" using R(7) by simp
  have dmg: "unat (cp_combat_health p - h) + unat h = unat (cp_combat_health p)"
    using le by (simp add: unat_sub word_le_nat_alt)
  have pos: "0 < cp_combat_health p - h" using R(7) by (simp add: word_gt_0)
  have bound: "unat (cp_combat_health p) < 2 ^ 32" using unsigned_less [of "cp_combat_health p"] by simp
  have "hit_ok ?ev"
    using R(3,4,5,8) r s dmg pos bound by (simp add: hit_ok_def)
  then show ?thesis using e by (simp add: u reports_ok_def hits_report streaks_ok_def)
qed (use assms in simp)

lemma same_combat_streaks:
  assumes "same_combat c d" "streaks_ok c"
  shows "streaks_ok d"
  unfolding streaks_ok_def
proof (intro allI impI)
  fix s p assume p: "fmlookup (cs_accounts d) s = Some p"
  then have "map_option combat_view (fmlookup (cs_accounts c) s) = Some (combat_view p)"
    using assms(1) unfolding same_combat_def by (metis option.simps(9))
  then obtain q where q: "fmlookup (cs_accounts c) s = Some q" "combat_view q = combat_view p" by auto
  have "cp_current_kill_streak q \<le> cp_highest_kill_streak q" using assms(2) q(1) unfolding streaks_ok_def by blast
  then show "cp_current_kill_streak p \<le> cp_highest_kill_streak p" using q(2) by (simp add: combat_view_def)
qed

lemma streaks_room: "cp_current_kill_streak p \<le> cp_highest_kill_streak p \<Longrightarrow>
    cp_current_kill_streak (given_health m h p) \<le> cp_highest_kill_streak (given_health m h p)"
  by (simp add: given_health_def Let_def)

interpretation consistent: combat_relation "\<lambda>c d. reports_ok c \<longrightarrow> reports_ok d" "\<lambda>s. True"
proof unfold_locales
  show "same_combat c d \<Longrightarrow> reports_ok c \<longrightarrow> reports_ok d" for c d
    using same_combat_streaks by (auto simp: reports_ok_def same_combat_def)
  show "reports_ok c \<longrightarrow> reports_ok (UpdateVictimHealthAndSendCombatIpc now room att vic health weapon part variant c)"
    for c now room att vic health weapon part variant by (simp add: reports_ok_hit)
  show "reports_ok c \<longrightarrow> reports_ok (upd_player s revive c)" for s c
    by (simp add: reports_ok_upd revive_def)
  show "reports_ok c \<longrightarrow> reports_ok (upd_player s (\<lambda>p. (revive p)\<lparr>cp_current_kill_streak := 0\<rparr>) c)" for s c
    by (simp add: reports_ok_upd revive_def)
  show "reports_ok c \<longrightarrow> reports_ok (UpdateCastPlayerRoomState s rid i p r c)" for s rid i p r c
    unfolding UpdateCastPlayerRoomState_def by (auto intro!: reports_ok_upd simp: Let_def)
  show "reports_ok c \<longrightarrow> reports_ok (upd_player s (given_health most health) c)" for c s most health
    by (simp add: reports_ok_upd streaks_room)
  show "reports_ok c \<longrightarrow> reports_ok (IpcMainTpToProj s on c)" for c s on
    by (simp add: reports_ok_def streaks_ok_def IpcMainTpToProj_def)
  show "reports_ok c \<longrightarrow> reports_ok (reset_account x c)" for x c
    by (auto simp: reports_ok_def streaks_ok_def reset_account_def cache_insert_def cache_erase_def copy_CastPlayer_def
        authorized_player_def Let_def split: option.split)
  show "reports_ok c \<longrightarrow> reports_ok (c\<lparr>cs_accounts := fmdrop s (cs_accounts c)\<rparr>)" for s c
    by (simp add: reports_ok_def streaks_ok_def)
qed auto

section \<open>A duel\<close>

text \<open>A room of three: 1 is the host, 2 shoots 3 with a rifle and leaves it without health.\<close>

definition duelist :: "u16 \<Rightarrow> CastPlayer" where
  "duelist s = (new_CastPlayer s 7 0 1 PS_Normal True False 0 [])"

definition duel :: cast where
  "duel = cast_init\<lparr>cs_accounts := fmupd 1 (duelist 1) (fmupd 2 (duelist 2) (fmupd 3 (duelist 3) fmempty)),
     cs_rooms := fmupd 7 ((new_CastRoom 7 1)\<lparr>cr_is_playing := True, cr_players_session_id := [1, 2, 3]\<rparr>) fmempty\<rparr>"

definition blank_msg :: cmessage where "blank_msg = new_CMessage 0 0 0"

text \<open>Order 268 stands at bit 6 of the second word; attacker and victim are at 16 and 20 of the payload.\<close>

definition rifle_hit :: cmessage where
  "rifle_hit = blank_msg\<lparr>m_buffer := [0, 0, 0, 0, 0, 0x43, 0, 1] @ replicate 16 0 @ [2, 0, 0, 0, 3, 0, 0, 0] @ replicate 8 0\<rparr>"

lemma rifle_hit_order: "GetOrder rifle_hit = 268"
proof -
  have "m_buffer rifle_hit = [0, 0, 0, 0, 0, 0x43, 0, 1] @ replicate 16 0 @ [2, 0, 0, 0, 3, 0, 0, 0] @ replicate 8 0"
    by (simp add: rifle_hit_def)
  then have b: "take 4 (drop 4 (m_buffer rifle_hit)) = [0, 0x43, 0, 1]" by simp
  have c: "le_word [0, 0x43, 0, 1] = (0x01004300 :: u32)" by (simp add: push_bit_eq_mult unsigned_or_eq)
  show ?thesis by (simp only: GetOrder_def cmd_order_def m_command_def b c) (simp add: get_bits_def)
qed

section \<open>Properties\<close>

text \<open>
  C9: From one life of a player to the next at most one kill of it is reported to the main server,
  whatever anybody sends: as long as it is not respawned, authorized anew, gone or moved to its
  projectiles, the count of reported kills of it rises by at most one.
\<close>

theorem one_kill_a_life:
  assumes "v |\<notin>| cs_tp_to_proj c" "list_all (\<lambda>i. \<not> starts_life v i) is"
  shows "kills v (fst (cast_run is (c, b))) \<le> kills v c + 1"
proof -
  have "same_life v c (fst (cast_run is (c, b)))"
    by (rule one_life.run) (use assms(2) in \<open>auto simp: list_all_iff\<close>)
  then have "kills v (fst (cast_run is (c, b))) + credited v c \<le> kills v c + credited v (fst (cast_run is (c, b)))"
    using assms(1) by (simp add: same_life_def)
  moreover have "credited v (fst (cast_run is (c, b))) \<le> 1" by (simp add: credited_def)
  ultimately show ?thesis by linarith
qed

theorem one_kill_a_life_witness:
  "kills 3 (fst (cast_run [Packet blank_msg 5 False 1 rifle_hit, Packet blank_msg 6 False 1 rifle_hit] (duel, batcher_init))) \<le> kills 3 duel + 1"
proof (rule one_kill_a_life)
  show "3 |\<notin>| cs_tp_to_proj duel" by (simp add: duel_def cast_init_def)
  show "list_all (\<lambda>i. \<not> starts_life 3 i) [Packet blank_msg 5 False 1 rifle_hit, Packet blank_msg 6 False 1 rifle_hit]"
    by (simp add: starts_life_def rifle_hit_order)
qed

text \<open>
  C18: However the server is run, each hit it reports to the main server names two different players
  and a room, takes a positive amount of health that does not wrap around, counts as a kill only when
  no health is left, and gives a current streak that is not above the highest one.
\<close>

theorem reported_hits_are_consistent: "list_all hit_ok (hits (fst (cast_run is (cast_init, batcher_init))))"
proof -
  have "reports_ok cast_init" by (simp add: reports_ok_def streaks_ok_def cast_init_def hits_def)
  then have "reports_ok (fst (cast_run is (cast_init, batcher_init)))" using consistent.run by blast
  then show ?thesis by (simp add: reports_ok_def)
qed

text \<open>
  C22: Only the host of a room has a say: a packet of a session that is not the host of its room
  changes nobody's health, streak or state of death and reports no hit.
\<close>

theorem only_the_host_decides:
  assumes "on_packet blank now batching sid msg (c, b) = Some (c', b')"
    and "hosted_room c sid = None" "hosted_room_cached c sid = None"
  shows "same_combat c c'"
proof (cases "GetOrder msg = 281")
  case True
  then show ?thesis using assms(1) movement_same by (auto simp: on_packet_def)
next
  case False
  show ?thesis
  proof (cases "map_of (cast_handlers blank now sid msg) (GetOrder msg)")
    case (Some f)
    then have c': "c' = f c" using assms(1) False by (simp add: on_packet_def)
    show ?thesis
    proof (cases "combat_order (GetOrder msg)")
      case True
      then consider "GetOrder msg = 264" | "GetOrder msg = 266" | "GetOrder msg = 267" | "GetOrder msg = 268"
        | "GetOrder msg = 269" | "GetOrder msg = 270" | "GetOrder msg = 276" by (auto simp: combat_order_def)
      then show ?thesis
        using Some assms(2,3)
        by cases (auto simp: c' cast_handlers_def HostAttackGatling_def HostAttackShotgun_def HostAttackRifle_def
            HostAttackSniper_def HostAttackMelee_def host_single_attack_def host_spread_attack_def
            HostImpactProjectile_def HostRespawn_def Let_def)
    qed (use Some handler_same c' in auto)
  qed (use assms(1) False in \<open>simp add: on_packet_def\<close>)
qed

lemma duel_bystander: "hosted_room duel 2 = None" "hosted_room_cached duel 2 = None"
  by (simp_all add: hosted_room_def hosted_room_cached_def sender_room_def duel_def duelist_def new_CastPlayer_def new_CastRoom_def)

theorem only_the_host_decides_witness:
  "same_combat duel (HostAttackRifle 5 2 rifle_hit duel)"
proof (rule only_the_host_decides [OF _ duel_bystander])
  show "on_packet blank_msg 5 False 2 rifle_hit (duel, batcher_init) = Some (HostAttackRifle 5 2 rifle_hit duel, batcher_init)"
    by (simp add: on_packet_def cast_handlers_def rifle_hit_order)
qed

end
