(* ===== verification/Batch_Props.thy ===== *)
theory Batch_Props
  imports Batcher
begin

text \<open>
  The movement batcher loses, doubles and reorders nothing, keeps its packets within the limits of the
  client, and never lets the time of a room go back.
\<close>

section \<open>Packets as groups of entries\<close>

definition me_body :: "move_entry \<Rightarrow> bytes" where
  "me_body e = take (unat (me_len e)) (me_bytes e)"

definition entry_ok :: "move_entry \<Rightarrow> bool" where
  "entry_ok e \<longleftrightarrow> unat (me_len e) \<le> kMaxEntryLen \<and> length (me_bytes e) = kMaxEntryLen"

text \<open>A packet that carries the group \<open>g\<close>.\<close>

definition carries :: "u16 \<Rightarrow> move_packet \<Rightarrow> move_entry list \<Rightarrow> bool" where
  "carries rid p g \<longleftrightarrow> mp_room p = rid \<and> mp_entries p = concat (map me_body g) \<and> unat (mp_count p) = length g
     \<and> g \<noteq> [] \<and> length (mp_entries p) \<le> kMaxEntriesLen \<and> list_all (\<lambda>e. me_matchTick e \<le> mp_tick p) g"

definition emit_ok :: "u16 \<Rightarrow> u32 \<Rightarrow> move_entry list list \<Rightarrow> move_entry list \<Rightarrow> emit_state \<Rightarrow> bool" where
  "emit_ok rid lastTick gs g s \<longleftrightarrow>
     list_all2 (carries rid) (es_out s) gs \<and> es_buf s = concat (map me_body g) \<and> unat (es_count s) = length g
   \<and> length (es_buf s) \<le> kMaxEntriesLen \<and> list_all (\<lambda>e. me_matchTick e \<le> es_maxTick s) g"

definition ticks_ok :: "u32 \<Rightarrow> emit_state \<Rightarrow> bool" where
  "ticks_ok lastTick s \<longleftrightarrow> sorted (lastTick # map mp_tick (es_out s)) \<and> es_lastEmitted s = last (lastTick # map mp_tick (es_out s))
     \<and> es_lastEmitted s \<le> es_maxTick s"

lemma emit_packet_ok:
  assumes "emit_ok rid lastTick gs g s"
  shows "g = [] \<Longrightarrow> emit_packet rid s = s"
    "g \<noteq> [] \<Longrightarrow> emit_ok rid lastTick (gs @ [g]) [] (emit_packet rid s) \<and> es_count (emit_packet rid s) = 0 \<and> es_buf (emit_packet rid s) = []"
proof -
  have c: "es_count s = 0 \<longleftrightarrow> g = []" using assms by (auto simp: emit_ok_def unat_eq_zero)
  then show "g = [] \<Longrightarrow> emit_packet rid s = s" by (simp add: emit_packet_def)
  assume g: "g \<noteq> []"
  let ?tick = "if es_maxTick s < es_lastEmitted s then es_lastEmitted s else es_maxTick s"
  have "es_maxTick s \<le> ?tick" by auto
  then have "list_all (\<lambda>e. me_matchTick e \<le> ?tick) g"
    using assms by (auto simp: emit_ok_def list_all_iff intro: order_trans)
  then show "emit_ok rid lastTick (gs @ [g]) [] (emit_packet rid s) \<and> es_count (emit_packet rid s) = 0 \<and> es_buf (emit_packet rid s) = []"
    using assms g c
    by (auto simp: emit_ok_def emit_packet_def Let_def carries_def intro!: list_all2_appendI split: if_splits)
qed

lemma sorted_le_last: "sorted xs \<Longrightarrow> y \<in> set xs \<Longrightarrow> y \<le> last xs"
  by (induction xs) auto

lemma sorted_snoc: "sorted (x # xs) \<Longrightarrow> last (x # xs) \<le> t \<Longrightarrow> sorted (x # xs @ [t])"
  using sorted_le_last [of "x # xs"] sorted_append [of "x # xs" "[t]"] by fastforce

lemma emit_packet_ticks:
  assumes "ticks_ok l s"
  shows "ticks_ok l (emit_packet rid s)"
proof (cases "es_count s = 0")
  case False
  define t where "t = (if es_maxTick s < es_lastEmitted s then es_lastEmitted s else es_maxTick s)"
  have "es_lastEmitted s \<le> t" using assms by (auto simp: t_def ticks_ok_def)
  then have "sorted (l # map mp_tick (es_out s) @ [t])"
    using assms by (intro sorted_snoc) (simp_all add: ticks_ok_def)
  then show ?thesis using False by (simp add: ticks_ok_def emit_packet_def Let_def t_def)
qed (use assms in \<open>simp add: emit_packet_def\<close>)

lemma unat_inc: "(x :: u8) \<noteq> 255 \<Longrightarrow> unat (x + 1) = unat x + 1"
proof -
  assume "x \<noteq> 255"
  then have "unat x \<noteq> 255" using unat_arith_simps(3) [of x 255] by simp
  moreover have "unat x < 256" using unsigned_less [of x] by simp
  ultimately show ?thesis by (simp add: unat_word_ariths)
qed

text \<open>Adding an entry for which there is room.\<close>

definition push_entry :: "move_entry \<Rightarrow> emit_state \<Rightarrow> emit_state" where
  "push_entry e s = s\<lparr>es_buf := es_buf s @ me_body e, es_count := es_count s + 1,
     es_maxTick := (if me_matchTick e > es_maxTick s then me_matchTick e else es_maxTick s)\<rparr>"

lemma add_entry_push:
  "add_entry rid e s = (if me_len e = 0 then s
     else push_entry e (if length (es_buf s) + unat (me_len e) > kMaxEntriesLen \<or> es_count s = 255 then emit_packet rid s else s))"
  by (simp add: add_entry_def push_entry_def me_body_def Let_def)

lemma push_ok:
  assumes "emit_ok rid l gs g s" "length (es_buf s) + length (me_body e) \<le> kMaxEntriesLen" "es_count s \<noteq> 255"
  shows "emit_ok rid l gs (g @ [e]) (push_entry e s)"
proof -
  have "es_maxTick s \<le> es_maxTick (push_entry e s)" "me_matchTick e \<le> es_maxTick (push_entry e s)"
    by (auto simp: push_entry_def)
  then have "list_all (\<lambda>e. me_matchTick e \<le> es_maxTick (push_entry e' s)) (g @ [e])" if "e' = e" for e'
    using assms(1) that by (auto simp: emit_ok_def list_all_iff intro: order_trans)
  then show ?thesis
    using assms by (simp add: emit_ok_def) (simp add: push_entry_def unat_inc)
qed

lemma push_ticks: "ticks_ok l s \<Longrightarrow> ticks_ok l (push_entry e s)"
  by (auto simp: ticks_ok_def push_entry_def)

lemma add_entry_ticks: "ticks_ok l s \<Longrightarrow> ticks_ok l (add_entry rid e s)"
  by (simp add: add_entry_push emit_packet_ticks push_ticks)

lemma add_entry_ok:
  assumes "emit_ok rid l gs g s" "entry_ok e"
  shows "\<exists>gs' g'. emit_ok rid l gs' g' (add_entry rid e s)
    \<and> concat gs' @ g' = concat gs @ g @ (if me_len e = 0 then [] else [e])"
proof (cases "me_len e = 0")
  case False
  have len: "length (me_body e) = unat (me_len e)" "unat (me_len e) \<le> kMaxEntriesLen"
    using assms(2) by (simp_all add: me_body_def entry_ok_def kMaxEntryLen_def kMaxEntriesLen_def kMaxPayload_def)
  show ?thesis
  proof (cases "length (es_buf s) + unat (me_len e) > kMaxEntriesLen \<or> es_count s = 255")
    case full: True
    have "g \<noteq> []"
    proof
      assume "g = []"
      then have "es_buf s = []" "unat (es_count s) = 0" using assms(1) by (simp_all add: emit_ok_def)
      then show False using full len by auto
    qed
    from emit_packet_ok(2) [OF assms(1) this]
    have "emit_ok rid l (gs @ [g]) ([] @ [e]) (push_entry e (emit_packet rid s))"
      by (intro push_ok) (use len in simp_all)
    then show ?thesis using full False by (intro exI [of _ "gs @ [g]"] exI [of _ "[e]"]) (simp add: add_entry_push)
  next
    case fits: False
    have "emit_ok rid l gs (g @ [e]) (push_entry e s)"
      by (rule push_ok [OF assms(1)]) (use fits len in simp_all)
    then show ?thesis using fits False by (intro exI [of _ gs] exI [of _ "g @ [e]"]) (simp add: add_entry_push)
  qed
qed (use assms in \<open>auto simp: add_entry_def\<close>)

lemma fold_entries_ok:
  assumes "emit_ok rid l gs g s" "list_all entry_ok es"
  shows "\<exists>gs' g'. emit_ok rid l gs' g' (fold (add_entry rid) es s)
    \<and> concat gs' @ g' = concat gs @ g @ filter (\<lambda>e. me_len e \<noteq> 0) es"
  using assms
proof (induction es arbitrary: gs g s)
  case (Cons e es)
  obtain hs h where h: "emit_ok rid l hs h (add_entry rid e s)"
    "concat hs @ h = concat gs @ g @ (if me_len e = 0 then [] else [e])"
    using add_entry_ok [OF Cons.prems(1), of e] Cons.prems(2) by auto
  obtain ks k where k: "emit_ok rid l ks k (fold (add_entry rid) es (add_entry rid e s))"
    "concat ks @ k = concat hs @ h @ filter (\<lambda>e. me_len e \<noteq> 0) es"
    using Cons.IH [OF h(1)] Cons.prems(2) by auto
  have "concat ks @ k = (concat hs @ h) @ filter (\<lambda>e. me_len e \<noteq> 0) es" using k(2) by simp
  then have "concat ks @ k = concat gs @ g @ filter (\<lambda>e. me_len e \<noteq> 0) (e # es)" by (simp add: h(2))
  then show ?case using k(1) by (intro exI [of _ ks] exI [of _ k]) simp
qed (use assms in auto)

lemma fold_entries_ticks: "ticks_ok l s \<Longrightarrow> ticks_ok l (fold (add_entry rid) es s)"
  by (induction es arbitrary: s) (simp_all add: add_entry_ticks)

definition emit_start :: "u32 \<Rightarrow> emit_state" where
  "emit_start l = \<lparr>es_buf = [], es_count = 0, es_maxTick = l, es_lastEmitted = l, es_out = []\<rparr>"

lemma emit_start_ok: "emit_ok rid l [] [] (emit_start l)" "ticks_ok l (emit_start l)"
  by (simp_all add: emit_start_def emit_ok_def ticks_ok_def)

lemma emitRoom_start: "emitRoom rid l es = (let s = emit_packet rid (fold (add_entry rid) es (emit_start l)) in (es_out s, es_lastEmitted s))"
  by (simp add: emitRoom_def emit_start_def)

lemma emitRoom_ticks:
  assumes "emitRoom rid l es = (ps, n)"
  shows "sorted (l # map mp_tick ps)" "n = last (l # map mp_tick ps)"
proof -
  have "ticks_ok l (emit_packet rid (fold (add_entry rid) es (emit_start l)))"
    by (intro emit_packet_ticks fold_entries_ticks emit_start_ok)
  then show "sorted (l # map mp_tick ps)" "n = last (l # map mp_tick ps)"
    using assms by (auto simp: emitRoom_start Let_def ticks_ok_def split: if_splits)
qed

lemma emit_packet_rooms: "list_all (\<lambda>p. mp_room p = rid) (es_out s) \<Longrightarrow> list_all (\<lambda>p. mp_room p = rid) (es_out (emit_packet rid s))"
  by (simp add: emit_packet_def Let_def)

lemma add_entry_rooms: "list_all (\<lambda>p. mp_room p = rid) (es_out s) \<Longrightarrow> list_all (\<lambda>p. mp_room p = rid) (es_out (add_entry rid e s))"
  by (simp add: add_entry_push push_entry_def emit_packet_rooms)

lemma emitRoom_rooms:
  assumes "emitRoom rid l es = (ps, n)"
  shows "list_all (\<lambda>p. mp_room p = rid) ps"
proof -
  have "list_all (\<lambda>p. mp_room p = rid) (es_out s) \<Longrightarrow> list_all (\<lambda>p. mp_room p = rid) (es_out (fold (add_entry rid) es s))" for s
    by (induction es arbitrary: s) (simp_all add: add_entry_rooms)
  from emit_packet_rooms [OF this [of "emit_start l"]] show ?thesis
    using assms by (auto simp: emitRoom_start Let_def emit_start_def)
qed

lemma emitRoom_groups:
  assumes "emitRoom rid l es = (ps, n)" "list_all entry_ok es"
  shows "\<exists>gs. concat gs = filter (\<lambda>e. me_len e \<noteq> 0) es \<and> list_all2 (carries rid) ps gs"
proof -
  obtain gs g where g: "emit_ok rid l gs g (fold (add_entry rid) es (emit_start l))"
    "concat gs @ g = filter (\<lambda>e. me_len e \<noteq> 0) es"
    using fold_entries_ok [OF emit_start_ok(1) assms(2), of rid l] by simp blast
  have ps: "ps = es_out (emit_packet rid (fold (add_entry rid) es (emit_start l)))"
    using assms(1) by (simp add: emitRoom_start Let_def)
  show ?thesis
  proof (cases "g = []")
    case True
    then show ?thesis using g emit_packet_ok(1) [OF g(1) True] by (auto simp: ps emit_ok_def)
  next
    case False
    then show ?thesis using g emit_packet_ok(2) [OF g(1) False] by (intro exI [of _ "gs @ [g]"]) (simp add: ps emit_ok_def)
  qed
qed

section \<open>The time of a room\<close>

definition sent_ticks :: "u16 \<Rightarrow> batcher \<Rightarrow> u32 list" where
  "sent_ticks rid b = map mp_tick (filter (\<lambda>p. mp_room p = rid) (bt_sent b))"

text \<open>The order in which a hash map is walked: each key once.\<close>

definition walks :: "(u16 fset \<Rightarrow> u16 list) \<Rightarrow> bool" where
  "walks walk \<longleftrightarrow> (\<forall>S. distinct (walk S) \<and> set (walk S) = fset S)"

definition last_tick :: "batcher \<Rightarrow> u16 \<Rightarrow> u32" where
  "last_tick b rid = (case fmlookup (bt_rooms b) rid of None \<Rightarrow> 0 | Some rb \<Rightarrow> rb_lastTick rb)"

definition time_ok :: "batcher \<Rightarrow> bool" where
  "time_ok b \<longleftrightarrow> (\<forall>rid. sorted (sent_ticks rid b) \<and> list_all (\<lambda>t. t \<le> last_tick b rid) (sent_ticks rid b))
     \<and> distinct (map fst (bt_drained b))
     \<and> list_all (\<lambda>(rid, rb). fmlookup (bt_rooms b) rid \<noteq> None \<and> rb_lastTick rb = last_tick b rid) (bt_drained b)"

lemma submit_keeps:
  "bt_sent (Submit r s e t b) = bt_sent b" "bt_drained (Submit r s e t b) = bt_drained b"
  "last_tick (Submit r s e t b) = last_tick b"
  "fmlookup (bt_rooms b) q \<noteq> None \<Longrightarrow> fmlookup (bt_rooms (Submit r s e t b)) q \<noteq> None"
  by (auto simp: Submit_def Let_def last_tick_def fun_eq_iff subscript_def new_RoomBatch_def split: option.split)

lemma time_ok_submit: "time_ok b \<Longrightarrow> time_ok (Submit r s e t b)"
  using submit_keeps(4) by (auto simp: time_ok_def sent_ticks_def submit_keeps(1,2,3) list_all_iff)

lemma time_ok_drain:
  assumes "walks walk" "time_ok b"
  shows "time_ok (drain walk b)"
proof -
  define full where "full = filter (\<lambda>rid. rb_entries (subscript new_RoomBatch rid (bt_rooms b)) \<noteq> fmempty) (walk (fmdom (bt_rooms b)))"
  have d: "bt_drained (drain walk b) = map (\<lambda>rid. (rid, subscript new_RoomBatch rid (bt_rooms b))) full"
    by (simp add: drain_def Let_def full_def)
  have l: "last_tick (drain walk b) = last_tick b"
    by (auto simp: drain_def Let_def last_tick_def fun_eq_iff split: option.split)
  have dom: "fmlookup (bt_rooms (drain walk b)) rid \<noteq> None \<longleftrightarrow> fmlookup (bt_rooms b) rid \<noteq> None" for rid
    by (simp add: drain_def Let_def)
  have sent: "sent_ticks rid (drain walk b) = sent_ticks rid b" for rid
    by (simp add: drain_def Let_def sent_ticks_def)
  have "distinct full" using assms(1) by (simp add: full_def walks_def)
  then have "distinct (map fst (bt_drained (drain walk b)))" by (simp add: d comp_def)
  moreover have "fmlookup (bt_rooms b) rid \<noteq> None" if "rid \<in> set full" for rid
    using assms(1) that by (auto simp: full_def walks_def fmlookup_dom_iff)
  moreover have "list_all (\<lambda>(rid, rb). fmlookup (bt_rooms (drain walk b)) rid \<noteq> None \<and> rb_lastTick rb = last_tick b rid)
      (map (\<lambda>rid. (rid, subscript new_RoomBatch rid (bt_rooms b))) full)"
    unfolding list_all_iff using calculation(2) dom
    by (auto simp: last_tick_def subscript_def new_RoomBatch_def split: option.splits)
  ultimately show ?thesis
    using assms(2) by (simp add: time_ok_def d l sent)
qed

lemma time_ok_emit:
  assumes "time_ok b"
  shows "time_ok (emit_next walk b)"
proof (cases "bt_drained b")
  case (Cons x rest)
  obtain rid rb where x: "x = (rid, rb)" by fastforce
  obtain ps n where e: "emitRoom rid (rb_lastTick rb) (batch_entries walk rb) = (ps, n)" by fastforce
  obtain it where it: "fmlookup (bt_rooms b) rid = Some it" "rb_lastTick rb = rb_lastTick it"
    using assms Cons x by (auto simp: time_ok_def last_tick_def)
  note ticks = emitRoom_ticks [OF e]
  have le: "rb_lastTick it \<le> n" using sorted_le_last [OF ticks(1), of "rb_lastTick rb"] ticks(2) it(2) by simp
  let ?b = "emit_next walk b"
  have sent: "bt_sent ?b = bt_sent b @ ps" "bt_drained ?b = rest"
    using Cons x e by (simp_all add: emit_next_def)
  have rooms: "bt_rooms ?b = (if n > rb_lastTick it then fmupd rid (it\<lparr>rb_lastTick := n\<rparr>) (bt_rooms b) else bt_rooms b)"
    using Cons x e it by (simp add: emit_next_def cache_get_def)
  have l: "last_tick ?b q = (if q = rid then n else last_tick b q)" for q
    using le it by (auto simp: rooms last_tick_def)
  have t: "sent_ticks q ?b = sent_ticks q b @ (if q = rid then map mp_tick ps else [])" for q
    using emitRoom_rooms [OF e] by (auto simp: sent_ticks_def sent list_all_iff filter_empty_conv)
  have old: "list_all (\<lambda>t. t \<le> rb_lastTick it) (sent_ticks rid b)" "sorted (sent_ticks q b)"
      "list_all (\<lambda>t. t \<le> last_tick b q) (sent_ticks q b)" for q
    using assms it by (auto simp: time_ok_def last_tick_def dest: spec [of _ rid])
  have new: "list_all (\<lambda>t. rb_lastTick it \<le> t \<and> t \<le> n) (map mp_tick ps)" "sorted (map mp_tick ps)"
    using ticks it(2) sorted_le_last [OF ticks(1)] by (auto simp: list_all_iff)
  have "sorted (sent_ticks q ?b) \<and> list_all (\<lambda>t. t \<le> last_tick ?b q) (sent_ticks q ?b)" for q
    using old new le by (auto simp: t l sorted_append list_all_iff intro: order_trans)
  moreover have "list_all (\<lambda>(r, x). fmlookup (bt_rooms ?b) r \<noteq> None \<and> rb_lastTick x = last_tick ?b r) rest"
  proof -
    have "fmlookup (bt_rooms b) r \<noteq> None \<and> rb_lastTick y = last_tick b r \<and> r \<noteq> rid" if "(r, y) \<in> set rest" for r y
      using assms Cons x that by (force simp: time_ok_def list_all_iff)
    then show ?thesis by (auto simp: list_all_iff l rooms)
  qed
  ultimately show ?thesis using assms Cons x by (simp add: time_ok_def sent)
qed (use assms in \<open>simp add: emit_next_def\<close>)

lemma batcher_run_time: "batcher_run walk b \<Longrightarrow> walks walk \<Longrightarrow> time_ok b"
proof (induction rule: batcher_run.induct)
  case run_empty
  then show ?case by (simp add: time_ok_def sent_ticks_def)
qed (simp_all add: time_ok_submit time_ok_drain time_ok_emit)

section \<open>Collected entries\<close>

definition sample_ok :: "move_entry \<Rightarrow> bool" where
  "sample_ok e \<longleftrightarrow> entry_ok e \<and> me_len e \<noteq> 0"

definition batch_ok :: "RoomBatch \<Rightarrow> bool" where
  "batch_ok rb \<longleftrightarrow> (\<forall>s e. fmlookup (rb_entries rb) s = Some e \<longrightarrow> sample_ok e)"

definition samples_ok :: "batcher \<Rightarrow> bool" where
  "samples_ok b \<longleftrightarrow> (\<forall>rid rb. fmlookup (bt_rooms b) rid = Some rb \<longrightarrow> batch_ok rb) \<and> list_all (\<lambda>(rid, rb). batch_ok rb) (bt_drained b)"

lemma batch_ok_new [simp]: "batch_ok new_RoomBatch" "batch_ok (rb\<lparr>rb_entries := fmempty\<rparr>)"
  "batch_ok (rb\<lparr>rb_lastTick := n\<rparr>) = batch_ok rb"
  by (simp_all add: batch_ok_def new_RoomBatch_def)

lemma submitted_ok:
  assumes "entry \<noteq> []" "length entry \<le> kMaxEntryLen" "length old = kMaxEntryLen"
  shows "sample_ok \<lparr>me_bytes = entry @ drop (length entry) old, me_matchTick = t, me_len = of_nat (length entry)\<rparr>"
proof -
  have "length entry < 256" using assms(2) by (simp add: kMaxEntryLen_def)
  then have "unat (of_nat (length entry) :: u8) = length entry" by (simp add: unat_of_nat)
  moreover from this have "(of_nat (length entry) :: u8) \<noteq> 0" using assms(1) by (metis length_0_conv unat_0)
  ultimately show ?thesis using assms by (simp add: sample_ok_def entry_ok_def)
qed

lemma samples_ok_submit:
  assumes "samples_ok b"
  shows "samples_ok (Submit r s entry t b)"
proof (cases "entry = [] \<or> length entry > kMaxEntryLen")
  case False
  define rb where "rb = subscript new_RoomBatch r (bt_rooms b)"
  define e where "e = subscript new_move_entry s (rb_entries rb)"
  have rb: "batch_ok rb" using assms by (auto simp: rb_def samples_ok_def subscript_def split: option.split)
  then have "length (me_bytes e) = kMaxEntryLen"
    by (auto simp: e_def subscript_def new_move_entry_def batch_ok_def sample_ok_def entry_ok_def split: option.split)
  from submitted_ok [OF _ _ this, of entry t] False rb
  have "batch_ok (rb\<lparr>rb_entries := fmupd s \<lparr>me_bytes = entry @ drop (length entry) (me_bytes e), me_matchTick = t, me_len = of_nat (length entry)\<rparr> (rb_entries rb)\<rparr>)"
    by (simp add: batch_ok_def)
  then show ?thesis using assms False by (simp add: samples_ok_def Submit_def Let_def rb_def e_def)
qed (use assms in \<open>auto simp: Submit_def\<close>)

lemma samples_ok_drain: "samples_ok b \<Longrightarrow> samples_ok (drain walk b)"
  by (auto simp: samples_ok_def drain_def Let_def list_all_iff subscript_def split: option.split)

lemma samples_ok_emit: "samples_ok b \<Longrightarrow> samples_ok (emit_next walk b)"
  by (auto simp: samples_ok_def emit_next_def cache_get_def split: list.split prod.split option.split)

lemma batcher_run_samples: "batcher_run walk b \<Longrightarrow> samples_ok b"
proof (induction rule: batcher_run.induct)
  case run_empty
  then show ?case by (simp add: samples_ok_def)
qed (simp_all add: samples_ok_submit samples_ok_drain samples_ok_emit)

lemma batch_entries_ok: "batch_ok rb \<Longrightarrow> list_all sample_ok (batch_entries walk rb)"
proof -
  assume ok: "batch_ok rb"
  have "list_all sample_ok (List.map_filter (fmlookup (rb_entries rb)) xs)" for xs
    using ok by (induction xs) (auto simp: batch_ok_def split: option.split)
  then show ?thesis by (simp add: batch_entries_def)
qed

section \<open>A small run\<close>

definition walk_up :: "u16 fset \<Rightarrow> u16 list" where
  "walk_up S = sorted_list_of_set (fset S)"

lemma walks_up: "walks walk_up"
  by (simp add: walks_def walk_up_def)

definition mover :: batcher where
  "mover = drain walk_up (Submit 7 1 [5, 6] 100 \<lparr>bt_rooms = fmempty, bt_drained = [], bt_sent = []\<rparr>)"

definition moved :: RoomBatch where
  "moved = \<lparr>rb_entries = fmupd 1 \<lparr>me_bytes = [5, 6] @ drop 2 (replicate kMaxEntryLen 0), me_matchTick = 100, me_len = 2\<rparr> fmempty,
     rb_lastTick = 0\<rparr>"

lemma mover_run: "batcher_run walk_up mover"
  unfolding mover_def
  by (intro run_drain run_submit run_empty) (simp add: submit_keeps)

lemma mover_drained: "bt_drained mover = [(7, moved)]"
  by (simp add: mover_def drain_def Let_def Submit_def kMaxEntryLen_def walk_up_def subscript_def new_RoomBatch_def
      new_move_entry_def moved_def fmupd_idem)

section \<open>Properties\<close>

text \<open>
  C17: When the batcher sends a room, its packets carry each entry that was collected for the room once,
  in the order of the walk: every packet is a non-empty group of whole entries, counts them right,
  stays within 2035 bytes and has a tick that none of its entries is ahead of.
\<close>

theorem movements_are_sent_once:
  assumes "batcher_run walk b" "bt_drained b = (rid, rb) # rest"
  shows "\<exists>ps gs. bt_sent (emit_next walk b) = bt_sent b @ ps \<and> concat gs = batch_entries walk rb \<and> list_all2 (carries rid) ps gs"
proof -
  obtain ps n where e: "emitRoom rid (rb_lastTick rb) (batch_entries walk rb) = (ps, n)" by fastforce
  have ok: "list_all sample_ok (batch_entries walk rb)"
    using batch_entries_ok batcher_run_samples [OF assms(1)] assms(2) by (simp add: samples_ok_def)
  then have "list_all entry_ok (batch_entries walk rb)" "filter (\<lambda>e. me_len e \<noteq> 0) (batch_entries walk rb) = batch_entries walk rb"
    by (auto simp: list_all_iff sample_ok_def)
  with emitRoom_groups [OF e] obtain gs where "concat gs = batch_entries walk rb" "list_all2 (carries rid) ps gs" by auto
  moreover have "bt_sent (emit_next walk b) = bt_sent b @ ps" using assms(2) e by (simp add: emit_next_def)
  ultimately show ?thesis by blast
qed

theorem movements_are_sent_once_witness:
  "\<exists>ps gs. bt_sent (emit_next walk_up mover) = bt_sent mover @ ps \<and> concat gs = batch_entries walk_up moved \<and> list_all2 (carries 7) ps gs"
  by (rule movements_are_sent_once [OF mover_run mover_drained])

text \<open>
  C23: The ticks of the packets a room is sent never go back, however submissions and flushes of all
  rooms interleave.
\<close>

theorem room_time_never_goes_back:
  assumes "walks walk" "batcher_run walk b"
  shows "sorted (sent_ticks rid b)"
  using batcher_run_time [OF assms(2,1)] by (simp add: time_ok_def)

theorem room_time_never_goes_back_witness: "sorted (sent_ticks 7 (emit_next walk_up mover))"
  by (rule room_time_never_goes_back [OF walks_up run_emit [OF mover_run]])

end
