(* ===== verification/Cast_Mirror.thy ===== *)
theory Cast_Mirror
  imports Cast_Match Room_Join
begin

text \<open>
  The two servers together: the cast server, fed with the messages the main server sends while rooms
  are created, joined, left and matches started, has the main server's rooms, with the same host, the
  same members and the same state of play.
\<close>

section \<open>What the cast server hears\<close>

primrec cast_of :: "event \<Rightarrow> cast_ipc list" where
  "cast_of (Msg s a b c d e) = []"
| "cast_of (ClanListMsg s l) = []"
| "cast_of (CastIpc x) = [x]"
| "cast_of (PersistRoomLog l) = []"

definition casts :: "world \<Rightarrow> cast_ipc list" where
  "casts w = concat (map cast_of (outbox w))"

definition hear_room :: "cast_ipc \<Rightarrow> cast \<Rightarrow> cast" where
  "hear_room x = ServerIpcMessage (new_CMessage 0 0 0) [] 0 (RoomIpc x)"

text \<open>The cast server after all messages of the main server so far, from a state \<open>c0\<close> on.\<close>

definition heard :: "cast \<Rightarrow> world \<Rightarrow> cast" where
  "heard c0 w = fold hear_room (casts w) c0"

section \<open>The same rooms\<close>

type_synonym room_view = "u16 \<times> bool \<times> u16 set"

definition claim :: "world \<Rightarrow> u16 \<Rightarrow> (u32 \<times> bool \<times> u32) option" where
  "claim w s = map_option (\<lambda>p. (acc_Index_of p, pl_in_room p, pl_room_id p)) (CAccount w s)"

definition room_members :: "world \<Rightarrow> u16 \<Rightarrow> u16 set" where
  "room_members w rid = {s. \<exists>i. claim w s = Some (i, True, ucast rid)}"

definition main_view :: "world \<Rightarrow> u16 \<Rightarrow> room_view option" where
  "main_view w rid = map_option (\<lambda>r. (rm_host_session_id r, rm_is_playing r, room_members w rid)) (CRoom w (ucast rid))"

definition cast_view :: "cast \<Rightarrow> u16 \<Rightarrow> room_view option" where
  "cast_view c rid = map_option (\<lambda>r. (cr_host_session_id r, cr_is_playing r, set (cr_players_session_id r))) (fmlookup (cs_rooms c) rid)"

definition mirrors :: "cast \<Rightarrow> world \<Rightarrow> bool" where
  "mirrors c w \<longleftrightarrow> cast_view c = main_view w"

text \<open>Rooms are kept under their own id, and nobody has the session or account number 0.\<close>

definition main_ok :: "world \<Rightarrow> bool" where
  "main_ok w \<longleftrightarrow> (\<forall>k r. CRoom w k = Some r \<longrightarrow> k = ucast (rm_room_id r)) \<and> (\<forall>s i b k. claim w s = Some (i, b, k) \<longrightarrow> s \<noteq> 0 \<and> i \<noteq> 0)"

definition in_step :: "cast \<Rightarrow> world \<Rightarrow> bool" where
  "in_step c0 w \<longleftrightarrow> main_ok w \<and> mirrors (heard c0 w) w"

section \<open>The cast server's rooms after a message\<close>

definition members_of :: "room_view option \<Rightarrow> u16 set" where
  "members_of v = (case v of None \<Rightarrow> {} | Some (h, on, S) \<Rightarrow> S)"

lemma cast_view_cong: "cs_rooms c = cs_rooms d \<Longrightarrow> cast_view c = cast_view d"
  by (simp add: cast_view_def fun_eq_iff)

lemma room_state_rooms [simp]: "cs_rooms (UpdateCastPlayerRoomState s rid i p r c) = cs_rooms c"
  by (simp add: UpdateCastPlayerRoomState_def)

lemma fold_room_state_rooms [simp]: "cs_rooms (fold (\<lambda>s. UpdateCastPlayerRoomState s rid i p r) xs c) = cs_rooms c"
  by (induction xs arbitrary: c) simp_all

lemma view_ensure:
  "cast_view (EnsureCastRoomExists rid host on c) = (cast_view c)(rid \<mapsto> (host, on, members_of (cast_view c rid)))"
  by (auto simp: EnsureCastRoomExists_def cast_view_def fun_eq_iff cache_contains_def cache_insert_def new_CastRoom_def
      upd_cast_room_lookup members_of_def split: option.split)

lemma view_upd_room:
  assumes "\<And>r. (cr_host_session_id (f r), cr_is_playing (f r), set (cr_players_session_id (f r)))
      = g (cr_host_session_id r, cr_is_playing r, set (cr_players_session_id r))"
  shows "cast_view (upd_cast_room rid f c) = (cast_view c)(rid := map_option g (cast_view c rid))"
  using assms by (auto simp: cast_view_def fun_eq_iff upd_cast_room_lookup option.map_comp comp_def)

lemma view_join:
  "cast_view (lifecycle_join rid sid host on c)
     = (cast_view c)(rid \<mapsto> (host, on, members_of (cast_view c rid) \<union> (if sid = 0 then {} else {sid})))"
proof -
  let ?d = "EnsureCastRoomExists rid host on c"
  let ?f = "\<lambda>r. r\<lparr>cr_host_session_id := host, cr_is_playing := on,
               cr_players_session_id := (if sid \<noteq> 0 \<and> sid \<notin> set (cr_players_session_id r)
                                         then cr_players_session_id r @ [sid] else cr_players_session_id r)\<rparr>"
  have "cs_rooms (lifecycle_join rid sid host on c) = cs_rooms (upd_cast_room rid ?f ?d)"
    by (simp add: lifecycle_join_def Let_def)
  then have "cast_view (lifecycle_join rid sid host on c) = cast_view (upd_cast_room rid ?f ?d)" by (rule cast_view_cong)
  also have "\<dots> = (cast_view ?d)(rid := map_option (\<lambda>(h, p, S). (host, on, S \<union> (if sid = 0 then {} else {sid}))) (cast_view ?d rid))"
    by (rule view_upd_room) auto
  finally show ?thesis by (simp add: view_ensure)
qed

lemma view_leave:
  "cast_view (lifecycle_leave rid sid host on c)
     = (cast_view c)(rid := map_option (\<lambda>(h, p, S). (if host \<noteq> 0 then host else h, on, S - {sid})) (cast_view c rid))"
proof -
  let ?f = "\<lambda>r. r\<lparr>cr_host_session_id := (if host \<noteq> 0 then host else cr_host_session_id r),
               cr_is_playing := on, cr_players_session_id := removeAll sid (cr_players_session_id r)\<rparr>"
  have "cs_rooms (lifecycle_leave rid sid host on c) = cs_rooms (upd_cast_room rid ?f c)"
    by (simp add: lifecycle_leave_def Let_def)
  then have "cast_view (lifecycle_leave rid sid host on c) = cast_view (upd_cast_room rid ?f c)" by (rule cast_view_cong)
  also have "\<dots> = (cast_view c)(rid := map_option (\<lambda>(h, p, S). (if host \<noteq> 0 then host else h, on, S - {sid})) (cast_view c rid))"
    by (rule view_upd_room) auto
  finally show ?thesis .
qed

lemma view_remove: "cast_view (lifecycle_remove rid c) = (cast_view c)(rid := None)"
  by (auto simp: lifecycle_remove_def cast_view_def cache_erase_def fun_eq_iff split: option.split)

lemma view_match:
  "cast_view (lifecycle_match rid host on c) = (cast_view c)(rid \<mapsto> (host, on, members_of (cast_view c rid)))"
proof -
  let ?d = "EnsureCastRoomExists rid host on c"
  let ?f = "\<lambda>r. r\<lparr>cr_host_session_id := host, cr_is_playing := on,
               cr_kit_item_by_drop := (if on then fmempty else cr_kit_item_by_drop r)\<rparr>"
  have "cs_rooms (lifecycle_match rid host on c) = cs_rooms (upd_cast_room rid ?f ?d)"
    by (simp add: lifecycle_match_def Let_def split: option.split)
  then have "cast_view (lifecycle_match rid host on c) = cast_view (upd_cast_room rid ?f ?d)" by (rule cast_view_cong)
  also have "\<dots> = (cast_view ?d)(rid := map_option (\<lambda>(h, p, S). (host, on, S)) (cast_view ?d rid))"
    by (rule view_upd_room) auto
  finally show ?thesis by (simp add: view_ensure)
qed

text \<open>A change of the host alone can only touch the host of that room.\<close>

lemma view_host:
  "\<exists>h'. cast_view (IpcMainHostChange rid k c) = (cast_view c)(rid := map_option (\<lambda>(h, p, S). (h', p, S)) (cast_view c rid))"
proof (cases "fmlookup (cs_rooms c) rid")
  case None
  then show ?thesis by (auto simp: IpcMainHostChange_def cast_view_def fun_eq_iff)
next
  case (Some room)
  let ?s = "subscript 0 k (cs_auth_keys c)"
  show ?thesis
  proof (cases "?s \<in> set (cr_players_session_id room)")
    case True
    have "cast_view (upd_cast_room rid (\<lambda>r. r\<lparr>cr_host_session_id := ?s\<rparr>) c)
        = (cast_view c)(rid := map_option (\<lambda>(h, p, S). (?s, p, S)) (cast_view c rid))"
      by (rule view_upd_room) auto
    then show ?thesis using Some True by (intro exI [of _ ?s]) (simp add: IpcMainHostChange_def Let_def)
  next
    case False
    then show ?thesis using Some
      by (intro exI [of _ "cr_host_session_id room"]) (auto simp: IpcMainHostChange_def Let_def cast_view_def fun_eq_iff)
  qed
qed

lemma view_health: "cast_view (hear_room (PlayerHealthIpc s m h) c) = cast_view c"
  by (rule cast_view_cong) (simp add: hear_room_def IpcMainPlayerHealth_def)

section \<open>Steps of the main server\<close>

text \<open>What happens between two messages: the rooms and everybody's claim stay, and \<open>xs\<close> is sent.\<close>

definition near :: "world \<Rightarrow> cast_ipc list \<Rightarrow> world \<Rightarrow> bool" where
  "near w xs w' \<longleftrightarrow> casts w' = casts w @ xs \<and> CRoom w' = CRoom w \<and> claim w' = claim w"

lemma near_refl [simp]: "near w [] w"
  by (simp add: near_def)

lemma near_trans: "near a xs b \<Longrightarrow> near b ys c \<Longrightarrow> near a (xs @ ys) c"
  by (simp add: near_def)

lemma near_then: "near a xs b \<Longrightarrow> near b [] c \<Longrightarrow> near a xs c"
  using near_trans [of a xs b "[]" c] by simp

lemma then_near: "near a [] b \<Longrightarrow> near b xs c \<Longrightarrow> near a xs c"
  using near_trans [of a "[]" b xs c] by simp

lemma near_fold: "(\<And>x w. near w [] (f x w)) \<Longrightarrow> near w [] (fold f xs w)"
  by (induction xs arbitrary: w) (auto intro: near_then)

lemma claim_simps [simp]:
  "claim (emit e w) = claim w" "claim (set_room r w) = claim w" "claim (SendCastRoomLifecycleSync a b c d e' w) = claim w"
  "claim (w\<lparr>CRoom := x\<rparr>) = claim w" "claim (w\<lparr>CRoomId := y\<rparr>) = claim w" "claim (w\<lparr>CPlaza := z\<rparr>) = claim w"
  "claim (w\<lparr>m_roomIdGenerator := g\<rparr>) = claim w"
  by (simp_all add: claim_def fun_eq_iff SendCastRoomLifecycleSync_def)

lemma claim_upd_acc:
  "claim (upd_acc s f w) = (claim w)(s := map_option (\<lambda>p. (acc_Index_of (f p), pl_in_room (f p), pl_room_id (f p))) (CAccount w s))"
  by (auto simp: claim_def fun_eq_iff CAccount_upd_acc option.map_comp comp_def)

lemma casts_simps [simp]:
  "casts (emit e w) = casts w @ cast_of e" "casts (set_room r w) = casts w" "casts (upd_acc s f w) = casts w"
  "casts (SendCastRoomLifecycleSync a b c d p w) = casts w @ [RoomLifecycleIpc a b c d (if p then 1 else 0)]"
  "casts (w\<lparr>CRoom := x\<rparr>) = casts w" "casts (w\<lparr>CRoomId := y\<rparr>) = casts w" "casts (w\<lparr>CPlaza := z\<rparr>) = casts w"
  "casts (w\<lparr>m_roomIdGenerator := g\<rparr>) = casts w"
  by (simp_all add: casts_def emit_def set_room_def upd_acc_def SendCastRoomLifecycleSync_def)

lemma near_upd_acc:
  assumes "\<And>p. acc_Index_of (f p) = acc_Index_of p" "\<And>p. pl_in_room (f p) = pl_in_room p" "\<And>p. pl_room_id (f p) = pl_room_id p"
  shows "near w [] (upd_acc s f w)"
  using assms by (auto simp: near_def claim_upd_acc) (auto simp: claim_def fun_eq_iff)

lemma near_emit: "near w (cast_of e) (emit e w)"
  by (simp add: near_def)

lemma near_SendMsg [simp]: "near w [] (SendMsg s a b c d e w)"
  by (simp add: near_def SendMsg_def)

lemma near_clan [simp]: "near w [] (SendClanList s l w)"
  by (simp add: near_def SendClanList_def)

lemma near_reply [simp]: "near w [] (reply s a b c d w)"
  by (simp add: near_def reply_def)

lemma near_plaza: "near w [] (w\<lparr>CPlaza := z\<rparr>)" "near w [] (w\<lparr>m_roomIdGenerator := g\<rparr>)" "near w [] (w\<lparr>CRoomId := y\<rparr>)"
  by (simp_all add: near_def)

lemma near_if: "near w [] a \<Longrightarrow> near w [] b \<Longrightarrow> near w [] (if p then a else b)"
  by simp

section \<open>Staying in step\<close>

lemma heard_near: "near w xs w' \<Longrightarrow> heard c0 w' = fold hear_room xs (heard c0 w)"
  by (simp add: heard_def near_def)

lemma main_view_near: "near w xs w' \<Longrightarrow> main_view w' = main_view w"
  by (simp add: main_view_def near_def room_members_def fun_eq_iff)

lemma main_ok_near: "near w xs w' \<Longrightarrow> main_ok w' = main_ok w"
  by (simp add: near_def main_ok_def)

lemma in_step_near: "in_step c0 w \<Longrightarrow> near w [] w' \<Longrightarrow> in_step c0 w'"
  by (simp add: in_step_def mirrors_def main_view_near main_ok_near heard_near)

lemma near_health: "near w [PlayerHealthIpc s m h] (emit (CastIpc (PlayerHealthIpc s m h)) w)"
  by (simp add: near_def)

lemma in_step_health: "in_step c0 w \<Longrightarrow> in_step c0 (emit (CastIpc (PlayerHealthIpc s m h)) w)"
  using near_health [of w s m h]
  by (simp add: in_step_def mirrors_def main_view_near main_ok_near heard_near view_health)

lemma in_step_fold: "(\<And>x w. in_step c0 w \<Longrightarrow> in_step c0 (f x w)) \<Longrightarrow> in_step c0 w \<Longrightarrow> in_step c0 (fold f xs w)"
  by (induction xs arbitrary: w) auto

lemma u16_keys: "(ucast (a :: u16) :: u32) = ucast b \<longleftrightarrow> a = b"
proof
  assume "(ucast a :: u32) = ucast b"
  moreover have "ucast (ucast x :: u32) = x" for x :: u16 by (rule bit_word_eqI) (simp add: bit_simps)
  ultimately show "a = b" by metis
qed simp

section \<open>Leaving\<close>

lemma near_upd_slot [simp]: "near w [] (upd_acc s (\<lambda>p. p\<lparr>pl_slot_id := v\<rparr>) w)"
  by (rule near_upd_acc) (simp_all add: acc_Index_of_def)

lemma near_two_slots: "near w [] (upd_acc a (\<lambda>p. p\<lparr>pl_slot_id := x\<rparr>) (upd_acc b (\<lambda>p. p\<lparr>pl_slot_id := y\<rparr>) w))"
  by (rule near_then [of _ _ "upd_acc b (\<lambda>p. p\<lparr>pl_slot_id := y\<rparr>) w"]) simp_all

lemma PickAutoHost_account:
  assumes "PickAutoHost w r leaving \<noteq> 0"
  obtains p where "CAccount w (PickAutoHost w r leaving) = Some p"
proof -
  have scan: "scan_host w r leaving req ids \<noteq> 0 \<Longrightarrow> CAccount w (scan_host w r leaving req ids) \<noteq> None" for req ids
  proof -
    obtain b q where f: "foldl (scan_step w r leaving req) (0, - 1) ids = (b, q)" by fastforce
    assume "scan_host w r leaving req ids \<noteq> 0"
    then have "candidate w r leaving req (scan_host w r leaving req ids)"
      using scan_fold_spec [OF f] by (auto simp: scan_host_fold f)
    then show ?thesis by (auto simp: candidate_def split: option.splits)
  qed
  show thesis using assms that scan by (auto simp: PickAutoHost_def Let_def split: if_splits)
qed

lemma upd_team_fields [simp]:
  "rm_room_id (upd_team_list t f r) = rm_room_id r" "rm_host_session_id (upd_team_list t f r) = rm_host_session_id r"
  "rm_is_playing (upd_team_list t f r) = rm_is_playing r"
  by (simp_all add: upd_team_list_def)

lemma migrate_near:
  assumes "CAccount w sid \<noteq> None"
  obtains w' r' ch prev slot k where "migrate_host sid my_slot w r = Inr (w', r', ch, prev, slot)"
    "rm_room_id r' = rm_room_id r" "rm_is_playing r' = rm_is_playing r"
    "near w [] w' \<and> rm_host_session_id r' = rm_host_session_id r
     \<or> near w [HostChangeIpc (rm_room_id r) k] w' \<and> rm_host_session_id r' \<noteq> 0"
proof (cases "PickAutoHost w r sid = 0")
  case True
  then show thesis using that [of w r False 0 my_slot] by (simp add: migrate_host_def)
next
  case False
  let ?nh = "PickAutoHost w r sid"
  obtain q where q: "CAccount w ?nh = Some q" using PickAutoHost_account [OF False] by metis
  obtain p where p: "CAccount w sid = Some p" using assms by auto
  let ?e = "HostChangeIpc (rm_room_id r) (acc_AuthKey (pl_acc_info q))"
  define w' where "w' = upd_acc sid (\<lambda>p. p\<lparr>pl_slot_id := pl_slot_id q\<rparr>) (upd_acc ?nh (\<lambda>p. p\<lparr>pl_slot_id := 0\<rparr>) (emit (CastIpc ?e) w))"
  have n: "near w [?e] w'"
    unfolding w'_def by (rule near_then [OF near_emit [of w "CastIpc ?e", simplified] near_two_slots])
  show thesis
    by (rule that [of w' "upd_team_list (pl_team_id q) (ReorderTeamList w' ?nh) (r\<lparr>rm_host_session_id := ?nh\<rparr>)"
          True "pl_slot_id q" "pl_slot_id q" "acc_AuthKey (pl_acc_info q)"])
       (use False n q p in \<open>simp_all add: migrate_host_def Let_def w'_def\<close>)
qed

lemma swap_near:
  assumes "swap_with_last sid my_slot obs t w r = (w', r', e)"
  shows "near w [] w' \<and> rm_room_id r' = rm_room_id r \<and> rm_is_playing r' = rm_is_playing r \<and> rm_host_session_id r' = rm_host_session_id r"
  using assms by (auto simp: swap_with_last_def Let_def near_two_slots split: if_splits option.splits)

lemma notify_near: "near w [] (notify_left r sid hc pr sl uid w)"
  unfolding notify_left_def
  by (rule near_fold) (auto intro: near_then [OF near_SendMsg near_SendMsg])

text \<open>The observers who are pushed out had a claim on this room only.\<close>

lemma observers_out:
  assumes "fold (\<lambda>id w.
      case CAccount w id of
        None \<Rightarrow> w
      | Some acc \<Rightarrow>
          if acc_Index_of acc = 0 \<or> \<not> pl_in_room acc \<or> pl_room_id acc \<noteq> k then w
          else SendMsg id 141 0 Leave_Leave 0 []
                 (upd_acc id (\<lambda>p. p\<lparr>pl_in_room := False, pl_slot_id := 0, pl_playing := False,
                                     pl_state := State_Waiting\<rparr>) w)) ids w = w'"
  shows "casts w' = casts w \<and> CRoom w' = CRoom w
    \<and> (\<forall>s. claim w' s = claim w s \<or> (\<exists>i. claim w s = Some (i, True, k) \<and> claim w' s = Some (i, False, k)))"
  using assms
proof (induction ids arbitrary: w)
  case (Cons i ids)
  define v where "v = (case CAccount w i of
        None \<Rightarrow> w
      | Some acc \<Rightarrow>
          if acc_Index_of acc = 0 \<or> \<not> pl_in_room acc \<or> pl_room_id acc \<noteq> k then w
          else SendMsg i 141 0 Leave_Leave 0 []
                 (upd_acc i (\<lambda>p. p\<lparr>pl_in_room := False, pl_slot_id := 0, pl_playing := False,
                                     pl_state := State_Waiting\<rparr>) w))"
  have m: "casts (SendMsg i a b c d e u) = casts u" "CRoom (SendMsg i a b c d e u) = CRoom u" "claim (SendMsg i a b c d e u) = claim u" for a b c d e u
    using near_SendMsg [of u i a b c d e] by (simp_all add: near_def)
  have v: "casts v = casts w \<and> CRoom v = CRoom w
    \<and> (\<forall>s. claim v s = claim w s \<or> (\<exists>i. claim w s = Some (i, True, k) \<and> claim v s = Some (i, False, k)))"
    by (auto simp: v_def m claim_upd_acc acc_Index_of_def split: option.split) (simp add: claim_def acc_Index_of_def)
  have ih: "casts w' = casts v \<and> CRoom w' = CRoom v
    \<and> (\<forall>s. claim w' s = claim v s \<or> (\<exists>i. claim v s = Some (i, True, k) \<and> claim w' s = Some (i, False, k)))"
    by (rule Cons.IH) (use Cons.prems in \<open>simp add: v_def\<close>)
  have "claim w' s = claim w s \<or> (\<exists>i. claim w s = Some (i, True, k) \<and> claim w' s = Some (i, False, k))" for s
  proof -
    have "claim w' s = claim v s \<or> (\<exists>i. claim v s = Some (i, True, k) \<and> claim w' s = Some (i, False, k))"
      "claim v s = claim w s \<or> (\<exists>i. claim w s = Some (i, True, k) \<and> claim v s = Some (i, False, k))"
      using ih v by blast+
    then show ?thesis by (elim disjE exE conjE) auto
  qed
  then show ?case using ih v by simp
qed simp

lemmas pushed_out = observers_out [OF TryRemoveObservers_def [symmetric]]

lemma hear_simps:
  "hear_room (RoomLifecycleIpc LC_Create rid s h 0) = lifecycle_join rid s h False"
  "hear_room (RoomLifecycleIpc LC_Join rid s h 0) = lifecycle_join rid s h False"
  "hear_room (RoomLifecycleIpc LC_Join rid s h 1) = lifecycle_join rid s h True"
  "hear_room (RoomLifecycleIpc LC_Leave rid s h 0) = lifecycle_leave rid s h False"
  "hear_room (RoomLifecycleIpc LC_Leave rid s h 1) = lifecycle_leave rid s h True"
  "hear_room (RoomLifecycleIpc LC_Remove rid s h 0) = lifecycle_remove rid"
  "hear_room (RoomLifecycleIpc LC_MatchState rid s h 1) = lifecycle_match rid h True"
  "hear_room (HostChangeIpc rid k) = IpcMainHostChange rid k"
  by (simp_all add: hear_room_def fun_eq_iff)

text \<open>The last part of a leave, when the cast server may still name another host.\<close>

lemma finish_in_step:
  assumes ok: "main_ok w" and room: "CRoom w (ucast (rm_room_id r)) = Some r0" "rm_is_playing r = rm_is_playing r0"
    and acc: "claim w sid = Some (i, True, ucast (rm_room_id r))"
    and view: "cast_view (heard c0 w) = (main_view w)(rm_room_id r \<mapsto> (h, rm_is_playing r0, room_members w (rm_room_id r)))"
    and host: "h = rm_host_session_id r \<or> rm_host_session_id r \<noteq> 0"
  shows "in_step c0 (finish_leave sid lt rs w r)"
proof -
  let ?rid = "rm_room_id r"
  obtain p where p: "CAccount w sid = Some p" "acc_Index_of p = i" using acc by (auto simp: claim_def)
  define r1 where "r1 = (if lt = Leave_KickedByKickVote \<or> lt = Leave_KickedByHost \<or> lt = Leave_KickedByGm
                  then r\<lparr>rm_kicked := finsert (acc_Index_of p) (rm_kicked r)\<rparr> else r)"
  have r1: "rm_room_id r1 = ?rid" "rm_host_session_id r1 = rm_host_session_id r" "rm_is_playing r1 = rm_is_playing r"
    by (simp_all add: r1_def)
  define w1 where "w1 = set_room r1 (SendCastRoomLeaveSync ?rid sid (rm_host_session_id r) (rm_is_playing r) (upd_acc sid reset_left w))"
  define w2 where "w2 = (if rs then SendMsg sid 141 0 lt 0 [] w1 else w1)"
  have w2: "near w1 [] w2" by (simp add: w2_def)
  have fin: "finish_leave sid lt rs w r = (if rm_neutralteam_session_ids r1 \<noteq> [] \<or> rm_redteam_session_ids r1 \<noteq> []
               \<or> rm_blueteam_session_ids r1 \<noteq> [] then w2 else drop_empty_room r1 w2)"
    by (simp add: finish_leave_def Let_def p w1_def w2_def r1_def)
  have c1: "claim w1 = (claim w)(sid \<mapsto> (i, False, 0))"
    using p by (simp add: w1_def claim_upd_acc SendCastRoomLeaveSync_def reset_left_def acc_Index_of_def)
  have m1: "room_members w1 q = room_members w q - {sid}" for q
    using acc by (auto simp: room_members_def c1)
  have other: "sid \<notin> room_members w q" if "q \<noteq> ?rid" for q
    using acc that by (auto simp: room_members_def u16_keys)
  have rooms1: "CRoom w1 = (CRoom w)(ucast ?rid \<mapsto> r1)" by (simp add: w1_def SendCastRoomLeaveSync_def r1)
  have v1: "main_view w1 = (main_view w)(?rid \<mapsto> (rm_host_session_id r, rm_is_playing r, room_members w ?rid - {sid}))"
    using other by (auto simp: main_view_def rooms1 m1 fun_eq_iff u16_keys r1)
  have h1: "heard c0 w1 = hear_room (RoomLifecycleIpc LC_Leave ?rid sid (rm_host_session_id r) (if rm_is_playing r then 1 else 0)) (heard c0 w)"
    by (simp add: w1_def heard_def SendCastRoomLeaveSync_def)
  have cv1: "cast_view (heard c0 w1) = main_view w1"
    using host by (auto simp: h1 hear_simps view_leave view v1 room(2))
  have nz: "sid \<noteq> 0 \<and> i \<noteq> 0" using ok acc unfolding main_ok_def by blast
  have ok1: "main_ok w1" using ok nz by (auto simp: main_ok_def rooms1 r1 c1 split: if_splits)
  have s1: "in_step c0 w1" using cv1 ok1 by (simp add: in_step_def mirrors_def)
  have s2: "in_step c0 w2" using s1 w2 by (rule in_step_near)
  show ?thesis
  proof (cases "rm_neutralteam_session_ids r1 \<noteq> [] \<or> rm_redteam_session_ids r1 \<noteq> [] \<or> rm_blueteam_session_ids r1 \<noteq> []")
    case True
    then show ?thesis using s2 by (simp add: fin)
  next
    case False
    define w3 where "w3 = (if rm_observers_session_ids r1 \<noteq> [] then TryRemoveObservers r1 w2 else w2)"
    have w3: "casts w3 = casts w2 \<and> CRoom w3 = CRoom w2
        \<and> (\<forall>s. claim w3 s = claim w2 s \<or> (\<exists>i. claim w2 s = Some (i, True, ucast ?rid) \<and> claim w3 s = Some (i, False, ucast ?rid)))"
      using pushed_out [of r1 w2] unfolding w3_def r1(1) by (cases "rm_observers_session_ids r1 = []") simp_all
    have in2: "CRoom w2 (ucast ?rid) = Some r1" using w2 rooms1 by (simp add: near_def)
    define w4 where "w4 = drop_empty_room r1 w2"
    have w4: "CRoom w4 = (CRoom w2)(ucast ?rid := None)" "claim w4 = claim w3"
      "casts w4 = casts w2 @ [RoomLifecycleIpc LC_Remove ?rid 0 0 0]"
      using w3 in2 by (simp_all add: w4_def drop_empty_room_def Let_def w3_def [symmetric] r1 SendCastRoomRemoveSync_def)
    have m4: "room_members w4 q = room_members w2 q" if "q \<noteq> ?rid" for q
    proof -
      have "(\<exists>i. claim w3 s = Some (i, True, ucast q)) = (\<exists>i. claim w2 s = Some (i, True, ucast q))" for s
      proof -
        have "claim w3 s = claim w2 s \<or> (\<exists>i. claim w2 s = Some (i, True, ucast ?rid) \<and> claim w3 s = Some (i, False, ucast ?rid))"
          using w3 by blast
        then show ?thesis using that by (elim disjE exE conjE) (auto simp: u16_keys)
      qed
      then show ?thesis by (simp add: room_members_def w4)
    qed
    have "main_view w4 = (main_view w2)(?rid := None)"
      using m4 by (auto simp: main_view_def w4 fun_eq_iff u16_keys)
    moreover have "cast_view (heard c0 w4) = (cast_view (heard c0 w2))(?rid := None)"
      by (simp add: heard_def w4 hear_simps view_remove)
    moreover have "main_ok w4"
    proof -
      have "s \<noteq> 0 \<and> j \<noteq> 0" if "claim w4 s = Some (j, b, k)" for s j b k
      proof -
        have "claim w3 s = claim w2 s \<or> (\<exists>i. claim w2 s = Some (i, True, ucast ?rid) \<and> claim w3 s = Some (i, False, ucast ?rid))"
          using w3 by blast
        then have "\<exists>b'. claim w2 s = Some (j, b', k)" using that by (elim disjE exE conjE) (auto simp: w4(2))
        then show ?thesis using s2 unfolding in_step_def main_ok_def by blast
      qed
      then show ?thesis using s2 by (auto simp: in_step_def main_ok_def w4 split: if_splits)
    qed
    ultimately have "in_step c0 w4" using s2 by (simp add: in_step_def mirrors_def)
    then show ?thesis using False by (simp add: fin w4_def)
  qed
qed

lemma leave_in_step:
  assumes "in_step c0 w"
  shows "in_step c0 (NewRemoveRoomPlayer rid sid lt rs w)"
proof (cases "CRoom w rid")
  case (Some r)
  show ?thesis
  proof (cases "\<exists>p. CAccount w sid = Some p \<and> acc_Index_of p \<noteq> 0 \<and> pl_in_room p \<and> pl_room_id p = ucast (rm_room_id r)")
    case True
    then obtain p where p: "CAccount w sid = Some p" "acc_Index_of p \<noteq> 0" "pl_in_room p" "pl_room_id p = ucast (rm_room_id r)"
      by blast
    have key: "rid = ucast (rm_room_id r)" using assms Some by (simp add: in_step_def main_ok_def)
    obtain w1 r1 hc prev my_slot k where
      m: "(if pl_team_id p \<noteq> Team_Observer \<and> rm_host_session_id r = sid then migrate_host sid (pl_slot_id p) w r
         else Inr (w, r, False, 0, pl_slot_id p)) = Inr (w1, r1, hc, prev, my_slot)"
      and 1: "rm_room_id r1 = rm_room_id r" "rm_is_playing r1 = rm_is_playing r"
        "near w [] w1 \<and> rm_host_session_id r1 = rm_host_session_id r
         \<or> near w [HostChangeIpc (rm_room_id r) k] w1 \<and> rm_host_session_id r1 \<noteq> 0"
    proof (cases "pl_team_id p \<noteq> Team_Observer \<and> rm_host_session_id r = sid")
      case True
      then show thesis using migrate_near [of w sid "pl_slot_id p" r] that p(1) by auto
    next
      case False
      then show thesis using that [of w r False 0 "pl_slot_id p"] by auto
    qed
    obtain w2 r2 e where s: "swap_with_last sid my_slot (pl_team_id p = Team_Observer) (pl_team_id p) w1 r1 = (w2, r2, e)"
      using prod_cases3 by blast
    define w3 where "w3 = notify_left r2 sid hc prev e (pl_uid p) w2"
    have n13: "near w1 [] w3"
      unfolding w3_def using swap_near [OF s] notify_near near_then by blast
    have r2: "rm_room_id r2 = rm_room_id r" "rm_is_playing r2 = rm_is_playing r" "rm_host_session_id r2 = rm_host_session_id r1"
      using swap_near [OF s] 1 by simp_all
    obtain xs where n: "near w xs w3" "xs = [] \<and> rm_host_session_id r2 = rm_host_session_id r
         \<or> xs = [HostChangeIpc (rm_room_id r) k] \<and> rm_host_session_id r2 \<noteq> 0"
      using 1(3) n13 r2(3) near_then by metis
    have mv: "main_view w3 = main_view w" using n(1) by (rule main_view_near)
    have here: "main_view w (rm_room_id r) = Some (rm_host_session_id r, rm_is_playing r, room_members w3 (rm_room_id r))"
      using Some key n(1) by (simp add: main_view_def room_members_def near_def)
    have cv: "cast_view (heard c0 w) = main_view w" using assms by (simp add: in_step_def mirrors_def)
    obtain h where view: "cast_view (heard c0 w3) = (main_view w3)(rm_room_id r2 \<mapsto> (h, rm_is_playing r, room_members w3 (rm_room_id r2)))"
      "h = rm_host_session_id r2 \<or> rm_host_session_id r2 \<noteq> 0"
    proof (cases "xs = []")
      case True
      then have "rm_host_session_id r2 = rm_host_session_id r" using n(2) by auto
      then show thesis using that [of "rm_host_session_id r"] True n(1) here cv by (simp add: heard_near mv r2 fun_upd_idem)
    next
      case False
      obtain h where "cast_view (IpcMainHostChange (rm_room_id r) k (heard c0 w)) = (cast_view (heard c0 w))(rm_room_id r :=
          map_option (\<lambda>(h', p, S). (h, p, S)) (cast_view (heard c0 w) (rm_room_id r)))" using view_host by blast
      then show thesis using that [of h] False n here cv by (simp add: heard_near [OF n(1)] mv r2 hear_simps)
    qed
    have "in_step c0 (finish_leave sid lt rs w3 r2)"
    proof (rule finish_in_step)
      show "main_ok w3" using assms n(1) by (simp add: in_step_def main_ok_near)
      show "CRoom w3 (ucast (rm_room_id r2)) = Some r" using n(1) Some key by (simp add: near_def r2)
      show "claim w3 sid = Some (acc_Index_of p, True, ucast (rm_room_id r2))" using n(1) p by (simp add: near_def r2 claim_def)
    qed (use view r2 in simp_all)
    then show ?thesis using NewRemove_unfold [OF Some p m s] by (simp add: w3_def)
  next
    case False
    then have "NewRemoveRoomPlayer rid sid lt rs w = w" using Some by (auto simp: NewRemoveRoomPlayer_def split: option.split)
    then show ?thesis using assms by simp
  qed
qed (use assms in \<open>simp add: NewRemoveRoomPlayer_def\<close>)

section \<open>Creating and joining\<close>

lemma near_plaza_left [simp]: "near w [] (TryLeavePlaza sid w)"
proof -
  have f: "near v [] (fold (\<lambda>id w. if id = sid then w else SendMsg id a c d e p w) ids v)" for a c d e p ids v
    by (rule near_fold) simp
  have u: "near v [] (upd_acc sid (\<lambda>p. p\<lparr>pl_plaza_id := 0, pl_in_plaza := False\<rparr>) v)" for v
    by (rule near_upd_acc) (simp_all add: acc_Index_of_def)
  show ?thesis
    by (auto simp: TryLeavePlaza_def Let_def intro: near_then [OF near_then [OF near_plaza(1) u] f] split: option.split)
qed

lemma near_plaza_join [simp]: "near w [] (leave_plaza_on_join sid staff w)"
proof -
  have f: "near v [] (fold (\<lambda>id w. if id = sid then w else SendMsg id a c d e p w) ids v)" for a c d e p ids v
    by (rule near_fold) simp
  have u: "near v [] (upd_acc sid (\<lambda>p. p\<lparr>pl_plaza_id := 0, pl_in_plaza := False\<rparr>) v)" for v
    by (rule near_upd_acc) (simp_all add: acc_Index_of_def)
  show ?thesis
    by (auto simp: leave_plaza_on_join_def Let_def intro: near_then [OF near_plaza(1) u] near_then [OF near_then [OF f near_plaza(1)] u]
        split: option.split)
qed

text \<open>A player who is in no room enters one: a new room, or one that is there.\<close>

definition homeless :: "world \<Rightarrow> u16 \<Rightarrow> bool" where
  "homeless w sid \<longleftrightarrow> (\<forall>q. sid \<in> room_members w q \<longrightarrow> CRoom w (ucast q) = None)"

lemma enter_in_step:
  assumes step: "in_step c0 w" and who: "claim w sid = Some (i, b, k)" "homeless w sid"
    and after: "claim w' = (claim w)(sid \<mapsto> (i, True, ucast (rm_room_id r)))"
      "CRoom w' = (CRoom w)(ucast (rm_room_id r) \<mapsto> r)"
      "casts w' = casts w @ [x]" "hear_room x = lifecycle_join (rm_room_id r) sid (rm_host_session_id r) (rm_is_playing r)"
    and before: "case CRoom w (ucast (rm_room_id r)) of None \<Rightarrow> room_members w (rm_room_id r) = {}
      | Some r0 \<Rightarrow> True"
  shows "in_step c0 w'"
proof -
  let ?rid = "rm_room_id r"
  have ok: "main_ok w" and cv: "cast_view (heard c0 w) = main_view w" using step by (simp_all add: in_step_def mirrors_def)
  have nz: "sid \<noteq> 0 \<and> i \<noteq> 0" using ok who(1) unfolding main_ok_def by blast
  have m: "room_members w' q = (if q = ?rid then insert sid (room_members w q) else room_members w q - {sid})" for q
    by (auto simp: room_members_def after(1) u16_keys)
  have other: "sid \<notin> room_members w q" if "CRoom w (ucast q) \<noteq> None" for q using who(2) that by (auto simp: homeless_def)
  have mv: "main_view w' = (main_view w)(?rid \<mapsto> (rm_host_session_id r, rm_is_playing r, insert sid (room_members w ?rid)))"
  proof (rule ext)
    fix q
    show "main_view w' q = ((main_view w)(?rid \<mapsto> (rm_host_session_id r, rm_is_playing r, insert sid (room_members w ?rid)))) q"
      using other [of q] by (cases "CRoom w (ucast q)") (auto simp: main_view_def after(2) m u16_keys)
  qed
  have "members_of (main_view w ?rid) = room_members w ?rid"
    using before by (auto simp: members_of_def main_view_def split: option.splits)
  then have "cast_view (heard c0 w') = main_view w'"
    using nz by (simp add: heard_def after(3,4) view_join cv [unfolded heard_def] mv)
  moreover have "main_ok w'" using ok nz by (auto simp: main_ok_def after split: if_splits)
  ultimately show ?thesis by (simp add: in_step_def mirrors_def)
qed

lemma claim_of_vw: "claim w s = map_option (\<lambda>v. (fst v, fst (snd v), fst (snd (snd v)))) (map_option view (CAccount w s))"
  by (simp add: claim_def option.map_comp comp_def view_def acc_Index_of_def)

definition fresh_id :: "(u16 fset \<Rightarrow> u16) \<Rightarrow> world \<Rightarrow> bool" where
  "fresh_id pick w \<longleftrightarrow> (case getNext pick (m_roomIdGenerator w) of None \<Rightarrow> True
     | Some (rid, gen) \<Rightarrow> CRoom w (ucast rid) = None \<and> room_members w rid = {})"

lemma copy_Room_fields [simp]:
  "rm_room_id (copy_Room r) = rm_room_id r" "rm_host_session_id (copy_Room r) = rm_host_session_id r" "rm_is_playing (copy_Room r) = rm_is_playing r"
  by (simp_all add: copy_Room_def)

lemma finalize_casts:
  "casts (FinalizeCreateRoom sid room w) = casts w @ [RoomLifecycleIpc LC_Create (rm_room_id room) sid sid 0]"
proof -
  have p: "casts (TryLeavePlaza sid v) = casts v" for v using near_plaza_left [of v sid] by (simp add: near_def)
  show ?thesis
    by (auto simp: FinalizeCreateRoom_def Let_def SendCastRoomCreateSync_def p split: option.split)
qed

lemma create_in_step:
  assumes "in_step c0 w" "fresh_id pick w"
  shows "in_step c0 (RoomCreate pick g junk sid settings title password score w)"
proof (cases "CAccount w sid")
  case (Some acc)
  let ?info = "new_RoomSettingsInfo settings title password"
  obtain v res where v: "ValidateCreateRoom pick g junk sid ?info score w = (v, res)" by fastforce
  have n: "near w [] v"
    using v Some near_plaza(2) by (auto simp: ValidateCreateRoom_def Let_def split: if_splits option.splits)
  show ?thesis
  proof (cases "acc_Index_of acc = - 1 \<or> isl res")
    case True
    then have "RoomCreate pick g junk sid settings title password score w \<in> {w, v}"
      using Some v by (cases res) (auto simp: RoomCreate_def)
    then show ?thesis using in_step_near [OF assms(1) n] assms(1) by auto
  next
    case False
    then obtain room where res: "res = Inr room" by (cases res) auto
    obtain rid gen where gen: "getNext pick (m_roomIdGenerator w) = Some (rid, gen)"
      and out: "\<not> pl_in_room acc" and room: "rm_room_id room = rid" "rm_host_session_id room = sid" "rm_is_playing room = False"
      using v res Some by (auto simp: ValidateCreateRoom_def Let_def new_Room_def split: if_splits option.splits)
    have run: "RoomCreate pick g junk sid settings title password score w = FinalizeCreateRoom sid room v"
      using Some v res False by (simp add: RoomCreate_def)
    have free: "CRoom w (ucast rid) = None" "room_members w rid = {}" using assms(2) gen by (simp_all add: fresh_id_def)
    have freev: "CRoom v (ucast (rm_room_id room)) = None" "room_members v rid = {}" "claim v = claim w"
      using n free by (simp_all add: near_def room room_members_def)
    have claim: "claim v sid = Some (acc_Index_of acc, False, pl_room_id acc)" using freev(3) Some out by (simp add: claim_def)
    obtain accv where accv: "CAccount v sid = Some accv" "acc_Index_of accv = acc_Index_of acc"
      using claim by (auto simp: claim_def)
    note eff = Finalize_effect [OF accv(1) freev(1)]
    have f: "rm_room_id (first_room sid room) = rid" "rm_host_session_id (first_room sid room) = sid" "rm_is_playing (first_room sid room) = False"
      using room by (simp_all add: first_room_fields) (simp add: first_room_def push_team_def)
    show ?thesis
      unfolding run
    proof (rule enter_in_step [OF in_step_near [OF assms(1) n], where r = "first_room sid room" and x = "RoomLifecycleIpc LC_Create rid sid sid 0"])
      show "claim v sid = Some (acc_Index_of acc, False, pl_room_id acc)" by (rule claim)
      show "homeless v sid" using claim by (simp add: homeless_def room_members_def)
      have "claim (FinalizeCreateRoom sid room v) s = ((claim v)(sid \<mapsto> (acc_Index_of acc, True, ucast rid))) s" for s
        using fun_cong [OF eff(3), of s] by (auto simp: claim_of_vw accv room)
      then show "claim (FinalizeCreateRoom sid room v) = (claim v)(sid \<mapsto> (acc_Index_of acc, True, ucast (rm_room_id (first_room sid room))))"
        by (simp add: f fun_eq_iff)
    qed (use eff freev in \<open>simp_all add: finalize_casts room f hear_simps\<close>)
  qed
qed (use assms in \<open>simp add: RoomCreate_def\<close>)

lemma in_step_upd_acc:
  assumes "in_step c0 w" "\<And>p. acc_Index_of (f p) = acc_Index_of p" "\<And>p. pl_in_room (f p) = pl_in_room p" "\<And>p. pl_room_id (f p) = pl_room_id p"
  shows "in_step c0 (upd_acc s f w)"
  using in_step_near [OF assms(1) near_upd_acc [OF assms(2-4)]] by simp

lemma refresh_fields [simp]:
  "acc_Index_of (RefreshPlayerHealthCache g b p) = acc_Index_of p" "pl_in_room (RefreshPlayerHealthCache g b p) = pl_in_room p"
  "pl_room_id (RefreshPlayerHealthCache g b p) = pl_room_id p"
  by (simp_all add: RefreshPlayerHealthCache_def Let_def acc_Index_of_def)

text \<open>What follows the message about the entry.\<close>

lemma announce_rest:
  assumes "in_step c0 w"
  shows "in_step c0
     (let spawn_dead = on;
         w = upd_acc sid (RefreshPlayerHealthCache g (\<not> spawn_dead)) w;
         w = (if spawn_dead then upd_acc sid (\<lambda>p. p\<lparr>pl_current_health := 0\<rparr>) w else w);
         w = (case CAccount w sid of None \<Rightarrow> w
              | Some p \<Rightarrow> emit (CastIpc (PlayerHealthIpc (pl_session_id p) (pl_max_health p) (pl_current_health p))) w);
         w = (if staff then w else fold (\<lambda>id. SendMsg id 312 0 0 7 uid) ids w)
      in emit (PersistRoomLog l) w)"
proof -
  define w1 where "w1 = upd_acc sid (RefreshPlayerHealthCache g (\<not> on)) w"
  define w2 where "w2 = (if on then upd_acc sid (\<lambda>p. p\<lparr>pl_current_health := 0\<rparr>) w1 else w1)"
  define w3 where "w3 = (case CAccount w2 sid of None \<Rightarrow> w2
              | Some p \<Rightarrow> emit (CastIpc (PlayerHealthIpc (pl_session_id p) (pl_max_health p) (pl_current_health p))) w2)"
  define w4 where "w4 = (if staff then w3 else fold (\<lambda>id. SendMsg id 312 0 0 7 uid) ids w3)"
  have "in_step c0 w1" unfolding w1_def by (rule in_step_upd_acc [OF assms]) simp_all
  then have "in_step c0 w2" unfolding w2_def by (auto intro!: in_step_upd_acc simp: acc_Index_of_def)
  then have "in_step c0 w3" unfolding w3_def by (auto intro: in_step_health split: option.split)
  then have "in_step c0 w4" unfolding w4_def using in_step_near [OF _ near_fold [of "\<lambda>id. SendMsg id 312 0 0 7 uid", OF near_SendMsg]] by simp
  then have "in_step c0 (emit (PersistRoomLog l) w4)" by (rule in_step_near) (simp add: near_def)
  then show ?thesis by (simp only: Let_def w1_def w2_def w3_def w4_def)
qed

lemma sent_before:
  "near w [] (if staff then w else fold (\<lambda>id w. if id = sid then w
       else SendMsg id 403 0 0 a b (SendMsg id 314 0 0 c d w)) ids w)"
  "near w [] (if p then fold (\<lambda>id. SendClanList id l) ids w else w)"
  by (auto intro!: near_fold near_then [OF near_SendMsg near_SendMsg])

lemma announce_in_step:
  assumes step: "in_step c0 w" and who: "claim w sid = Some (i, b, k)" "homeless w sid"
    and room: "CRoom w (ucast (rm_room_id room)) = Some r0"
    and entered: "near (upd_acc sid (\<lambda>p. p\<lparr>pl_in_room := True, pl_room_id := ucast (rm_room_id room), pl_playing := False\<rparr>) (set_room room w)) [] v"
  shows "in_step c0 (join_announce g sid req hostAid staff party team acc ids room v)"
proof -
  let ?uid = "le_bytes 4 (uid_data (new_UniqueId sid 1))"
  define v1 where "v1 = (if staff then v
              else fold (\<lambda>id w. if id = sid then w
                     else SendMsg id 403 0 0 (acc_PCRoom (pl_acc_info acc)) ?uid
                            (SendMsg id 314 0 0 (pl_voice_id acc) ?uid w)) ids v)"
  define again where "again = (\<not> staff \<and> party = NoParty)"
  define ids' where "ids' = (if again then GetRoomSortedPlayerSessionIds v1 room else ids)"
  define v2 where "v2 = (if again
              then fold (\<lambda>id. SendClanList id (clan_list v1 (acc_ClanId (pl_acc_info acc)) ids')) ids' v1 else v1)"
  define v3 where "v3 = upd_acc sid (\<lambda>p. p\<lparr>pl_state := State_Waiting\<rparr>) v2"
  define v4 where "v4 = SendCastRoomJoinSync (rm_room_id room) sid (rm_host_session_id room) (rm_is_playing room) v3"
  have n: "near (upd_acc sid (\<lambda>p. p\<lparr>pl_in_room := True, pl_room_id := ucast (rm_room_id room), pl_playing := False\<rparr>) (set_room room w)) [] v3"
  proof -
    have n1: "near v [] v1" unfolding v1_def by (rule sent_before(1))
    have n2: "near v1 [] v2" unfolding v2_def by (rule sent_before(2))
    have n3: "near v2 [] v3" unfolding v3_def by (rule near_upd_acc) (simp_all add: acc_Index_of_def)
    show ?thesis by (rule near_then [OF near_then [OF near_then [OF entered n1] n2] n3])
  qed
  obtain p where p: "CAccount w sid = Some p" "acc_Index_of p = i" using who(1) by (auto simp: claim_def)
  have "in_step c0 v4"
  proof (rule enter_in_step [OF step who, where r = room and
        x = "RoomLifecycleIpc LC_Join (rm_room_id room) sid (rm_host_session_id room) (if rm_is_playing room then 1 else 0)"])
    show "claim v4 = (claim w)(sid \<mapsto> (i, True, ucast (rm_room_id room)))"
      using n p by (simp add: near_def v4_def SendCastRoomJoinSync_def claim_upd_acc acc_Index_of_def)
    show "CRoom v4 = (CRoom w)(ucast (rm_room_id room) \<mapsto> room)"
      using n by (simp add: near_def v4_def SendCastRoomJoinSync_def)
  qed (use n room in \<open>auto simp: near_def v4_def SendCastRoomJoinSync_def hear_simps\<close>)
  from announce_rest [OF this, of "rm_is_playing room" sid g staff ?uid ids'] show ?thesis
    by (simp only: join_announce_def Let_def v1_def again_def ids'_def v2_def v3_def v4_def)
qed

lemma enter_near: "near w [] (emit (Msg a b c d e f) w)"
  by (simp add: near_def)

lemma join_enter_in_step:
  assumes step: "in_step c0 w" and who: "CAccount w sid \<noteq> None" "homeless w sid"
    and room: "CRoom w (ucast (rm_room_id room)) = Some r0"
  shows "in_step c0 (join_enter g sid req hostAid staff party team room w)"
proof -
  obtain acc where acc: "CAccount w sid = Some acc" using who(1) by auto
  define w1 where "w1 = set_room room w"
  define w2 where "w2 = upd_acc sid (\<lambda>p. p\<lparr>pl_in_room := True, pl_room_id := ucast (rm_room_id room), pl_playing := False\<rparr>) w1"
  define w3 where "w3 = leave_plaza_on_join sid staff w2"
  define slot where "slot = join_slot w3 (GetRoomSortedPlayerSessionIds w1 room) (GetRoomSortedObserversSessionIds w1 room) (team = Some Team_Observer)"
  define w4 where "w4 = upd_acc sid (\<lambda>p. p\<lparr>pl_slot_id := slot\<rparr>) w3"
  define w5 where "w5 = emit (Msg sid 140 0 (if team = Some Team_Observer then Join_JoinAsObserver else Join_JoinAsPlayer) 1 []) w4"
  have n: "near w2 [] w5"
    unfolding w5_def w4_def w3_def
    by (rule near_then [OF near_then [OF near_plaza_join near_upd_slot] enter_near])
  have "in_step c0 (join_announce g sid req hostAid staff party team acc (GetRoomSortedPlayerSessionIds w1 room) room w5)"
    by (rule announce_in_step [OF step _ who(2) room])
       (use acc n in \<open>simp_all add: claim_def w1_def w2_def\<close>)
  then show ?thesis
    by (simp only: join_enter_def acc option.case Let_def w5_def w4_def slot_def w3_def w2_def w1_def)
qed

lemma push_team_fields [simp]:
  "rm_room_id (push_team s t r) = rm_room_id r" "rm_host_session_id (push_team s t r) = rm_host_session_id r"
  "rm_is_playing (push_team s t r) = rm_is_playing r"
  by (simp_all add: push_team_def)

lemma join_place_in_step:
  assumes step: "in_step c0 w" and who: "CAccount w sid \<noteq> None" "homeless w sid"
    and room: "CRoom w (ucast (rm_room_id room)) = Some r0"
  shows "in_step c0 (join_place g sid req acc hostAid room w)"
proof -
  define w1 where "w1 = upd_acc sid (\<lambda>p. p\<lparr>pl_zombie_team := 0\<rparr>) w"
  have n1: "near w [] w1" unfolding w1_def by (rule near_upd_acc) (simp_all add: acc_Index_of_def)
  have team: "near w1 [] (upd_acc sid (\<lambda>p. p\<lparr>pl_team_id := t\<rparr>) w1)" for t
    by (rule near_upd_acc) (simp_all add: acc_Index_of_def)
  have enter: "in_step c0 (join_enter g sid req hostAid staff party team r v)"
    if "near w1 [] v" "rm_room_id r = rm_room_id room" for staff party team r v
  proof (rule join_enter_in_step)
    have n: "near w [] v" using n1 that(1) by (rule near_then)
    show "in_step c0 v" using step n by (rule in_step_near)
    have "claim v sid = claim w sid" using n by (simp add: near_def)
    then show "CAccount v sid \<noteq> None" using who(1) by (auto simp: claim_def)
    show "homeless v sid" using who(2) n by (simp add: homeless_def near_def room_members_def)
    show "CRoom v (ucast (rm_room_id r)) = Some r0" using room n that(2) by (simp add: near_def)
  qed
  have s1: "in_step c0 w1" using step n1 by (rule in_step_near)
  show ?thesis
    unfolding join_place_def Let_def w1_def [symmetric]
    using enter s1 team near_reply [of w1] in_step_near [OF s1 near_reply]
    by (auto split: option.split sum.split)
qed

text \<open>Whoever has left is in no room that still exists.\<close>

lemma finish_claim:
  assumes "CAccount w sid = Some p"
  shows "\<exists>k. claim (finish_leave sid lt rs w r) sid = Some (acc_Index_of p, False, k)"
proof -
  define w1 where "w1 = set_room (kick_mark lt (acc_Index_of p) r)
     (SendCastRoomLeaveSync (rm_room_id r) sid (rm_host_session_id r) (rm_is_playing r) (upd_acc sid reset_left w))"
  define w2 where "w2 = (if rs then SendMsg sid 141 0 lt 0 [] w1 else w1)"
  have "claim w1 sid = Some (acc_Index_of p, False, 0)"
    using assms by (simp add: w1_def claim_upd_acc SendCastRoomLeaveSync_def reset_left_def acc_Index_of_def)
  then have c2: "claim w2 sid = Some (acc_Index_of p, False, 0)"
    using near_SendMsg [of w1 sid 141 0 lt 0 "[]"] by (simp add: w2_def near_def)
  let ?r = "kick_mark lt (acc_Index_of p) r"
  have c3: "claim (TryRemoveObservers ?r w2) sid = Some (acc_Index_of p, False, 0)"
    using pushed_out [of ?r w2] c2 by (metis (no_types, lifting) Pair_inject option.inject)
  have "claim (drop_empty_room ?r w2) sid = Some (acc_Index_of p, False, 0)"
    using c2 c3 by (simp add: drop_empty_room_def Let_def SendCastRoomRemoveSync_def)
  moreover have "finish_leave sid lt rs w r = (if rm_neutralteam_session_ids ?r \<noteq> [] \<or> rm_redteam_session_ids ?r \<noteq> []
               \<or> rm_blueteam_session_ids ?r \<noteq> [] then w2 else drop_empty_room ?r w2)"
    by (simp add: finish_leave_def Let_def assms w1_def w2_def kick_mark_def)
  ultimately show ?thesis using c2 by simp
qed

lemma left_homeless:
  assumes step: "in_step c0 w" and acc: "CAccount w sid = Some acc" and inr: "pl_in_room acc"
  shows "homeless (NewRemoveRoomPlayer (pl_room_id acc) sid lt rs w) sid"
proof (cases "CRoom w (pl_room_id acc)")
  case None
  then show ?thesis using acc inr by (auto simp: NewRemoveRoomPlayer_def homeless_def room_members_def claim_def)
next
  case (Some r)
  have ok: "main_ok w" using step by (simp add: in_step_def)
  have key: "pl_room_id acc = ucast (rm_room_id r)" using ok Some by (simp add: main_ok_def)
  have "claim w sid = Some (acc_Index_of acc, True, pl_room_id acc)" using acc inr by (simp add: claim_def)
  then have nz: "acc_Index_of acc \<noteq> 0" using ok unfolding main_ok_def by blast
  obtain w1 r1 hc prev my_slot where
    m: "(if pl_team_id acc \<noteq> Team_Observer \<and> rm_host_session_id r = sid then migrate_host sid (pl_slot_id acc) w r
       else Inr (w, r, False, 0, pl_slot_id acc)) = Inr (w1, r1, hc, prev, my_slot)"
    and c1: "claim w1 = claim w"
  proof (cases "pl_team_id acc \<noteq> Team_Observer \<and> rm_host_session_id r = sid")
    case True
    obtain w' r' ch prev slot k where "migrate_host sid (pl_slot_id acc) w r = Inr (w', r', ch, prev, slot)"
      "rm_room_id r' = rm_room_id r" "rm_is_playing r' = rm_is_playing r"
      "near w [] w' \<and> rm_host_session_id r' = rm_host_session_id r
     \<or> near w [HostChangeIpc (rm_room_id r) k] w' \<and> rm_host_session_id r' \<noteq> 0"
      by (rule migrate_near [of w sid "pl_slot_id acc" r]) (use acc in auto)
    then show thesis using that [of w' r' ch prev slot] True by (auto simp: near_def)
  next
    case False
    then show thesis using that [of w r False 0 "pl_slot_id acc"] by auto
  qed
  obtain w2 r2 e where s: "swap_with_last sid my_slot (pl_team_id acc = Team_Observer) (pl_team_id acc) w1 r1 = (w2, r2, e)"
    using prod_cases3 by blast
  define w3 where "w3 = notify_left r2 sid hc prev e (pl_uid acc) w2"
  have "near w1 [] w3" unfolding w3_def using swap_near [OF s] notify_near near_then by blast
  then have "claim w3 sid = Some (acc_Index_of acc, True, pl_room_id acc)" using c1 acc inr by (simp add: near_def claim_def)
  then obtain p where p: "CAccount w3 sid = Some p" by (auto simp: claim_def)
  have "NewRemoveRoomPlayer (pl_room_id acc) sid lt rs w = finish_leave sid lt rs w3 r2"
    using NewRemove_unfold [OF Some acc nz inr key m s] by (simp add: w3_def)
  then show ?thesis using finish_claim [OF p, of lt rs r2] by (auto simp: homeless_def room_members_def)
qed

lemma join_in_step:
  assumes "in_step c0 w"
  shows "in_step c0 (RoomJoin g sid req password join_result w)"
proof (cases "CAccount w sid")
  case (Some acc)
  define w1 where "w1 = (if pl_in_room acc then NewRemoveRoomPlayer (pl_room_id acc) sid Leave_Leave False w else w)"
  have s1: "in_step c0 w1" using assms leave_in_step by (simp add: w1_def)
  have home: "homeless w1 sid"
    using left_homeless [OF assms Some, of Leave_Leave False] Some
    by (auto simp: w1_def) (simp add: homeless_def room_members_def claim_def)
  have rep: "in_step c0 (reply sid a b c d w1)" "in_step c0 (reply sid a b c d w)" for a b c d
    using in_step_near [OF s1 near_reply] in_step_near [OF assms near_reply] by auto
  have place: "in_step c0 (join_place g sid req a h room w1)"
    if "CAccount w1 sid = Some a" "CRoom w1 (ucast req) = Some room" for a h room
  proof (rule join_place_in_step [OF s1 _ home])
    show "CAccount w1 sid \<noteq> None" using that(1) by simp
    have "ucast req = (ucast (rm_room_id room) :: u32)" using s1 that(2) by (simp add: in_step_def main_ok_def)
    then show "CRoom w1 (ucast (rm_room_id room)) = Some room" using that(2) by simp
  qed
  show ?thesis
    using Some assms s1 rep place
    by (auto simp: RoomJoin_def Let_def w1_def [symmetric] split: option.split)
qed (use assms in \<open>simp add: RoomJoin_def\<close>)

section \<open>Starting a match\<close>

lemma match_started_fields [simp]:
  "rm_room_id (match_started s m i n r) = rm_room_id r" "rm_host_session_id (match_started s m i n r) = rm_host_session_id r"
  "rm_is_playing (match_started s m i n r) = True"
  by (simp_all add: match_started_def Let_def)

lemma loaded_one_in_step: "in_step c0 w \<Longrightarrow> in_step c0 (match_loaded_one g is_host now_s uptime uid i w)"
proof -
  assume s: "in_step c0 w"
  have e: "in_step c0 (emit (Msg a b c d e f) w)" for a b c d e f using in_step_near [OF s enter_near] .
  show ?thesis
    unfolding match_loaded_one_def Let_def
    by (auto split: option.split intro!: in_step_health in_step_upd_acc s e simp: acc_Index_of_def [symmetric])
       (auto simp: acc_Index_of_def)
qed

lemma match_in_step:
  assumes "in_step c0 w"
  shows "in_step c0 (MatchStart g sid order res random_map match_id now_s now_ms start_ms w)"
proof (cases "CAccount w sid")
  case (Some acc)
  show ?thesis
  proof (cases "acc_Index_of acc = - 1 \<or> \<not> pl_in_room acc \<or> CRoom w (pl_room_id acc) = None")
    case False
    then obtain room where room: "CRoom w (pl_room_id acc) = Some room" by auto
    have ok: "main_ok w" and cv: "cast_view (heard c0 w) = main_view w" using assms by (simp_all add: in_step_def mirrors_def)
    have key: "pl_room_id acc = ucast (rm_room_id room)" using ok room by (simp add: main_ok_def)
    define w1 where "w1 = (if res = Match_Started then upd_acc sid (\<lambda>p. p\<lparr>pl_playing := True\<rparr>) w else w)"
    have n1: "near w [] w1" unfolding w1_def by (auto intro!: near_upd_acc simp: acc_Index_of_def)
    have s1: "in_step c0 w1" using assms n1 by (rule in_step_near)
    define r1 where "r1 = match_started sid random_map match_id now_ms room"
    define w2 where "w2 = SendCastRoomMatchStateSync (rm_room_id r1) (rm_host_session_id r1) True (set_room r1 w1)"
    have v: "main_view w2 = (main_view w1)(rm_room_id room \<mapsto> (rm_host_session_id room, True, room_members w1 (rm_room_id room)))"
      by (auto simp: main_view_def w2_def SendCastRoomMatchStateSync_def r1_def fun_eq_iff u16_keys room_members_def)
    have m: "members_of (main_view w1 (rm_room_id room)) = room_members w1 (rm_room_id room)"
      using n1 room key by (simp add: members_of_def main_view_def near_def)
    have "heard c0 w2 = lifecycle_match (rm_room_id room) (rm_host_session_id room) True (heard c0 w1)"
      by (simp add: heard_def w2_def SendCastRoomMatchStateSync_def hear_simps r1_def)
    moreover have "cast_view (heard c0 w1) = main_view w1" using s1 by (simp add: in_step_def mirrors_def)
    ultimately have "cast_view (heard c0 w2) = main_view w2" by (simp add: view_match v m)
    moreover have "main_ok w2" using s1 by (auto simp: in_step_def main_ok_def w2_def SendCastRoomMatchStateSync_def r1_def)
    ultimately have s2: "in_step c0 w2" by (simp add: in_step_def mirrors_def)
    have log: "in_step c0 v \<Longrightarrow> in_step c0 (if b then emit (PersistRoomLog l) v else v)" for b l v
      by (auto intro: in_step_near simp: near_def)
    have send: "in_step c0 v \<Longrightarrow> in_step c0 (fold (\<lambda>id. SendMsg id a b c d e) ids v)" for a b c d e ids v
      by (rule in_step_near [OF _ near_fold]) simp_all
    have load: "in_step c0 (fold (match_loaded_one g h now_s up uid) ids (emit (PersistRoomLog l) w1))" for h up uid ids l
      by (rule in_step_fold) (auto intro: loaded_one_in_step log [of w1 True l, simplified] s1)
    have wave: "in_step c0 (upd_acc sid (\<lambda>p. p\<lparr>pl_match_loaded_time := now_s\<rparr>) w1)"
      by (rule in_step_upd_acc [OF s1]) (simp_all add: acc_Index_of_def)
    show ?thesis
      using False room Some wave load s1 send [OF s2] send [OF log [OF s2, of True, simplified]]
      by (simp add: MatchStart_def Let_def w1_def [symmetric] r1_def [symmetric] w2_def [symmetric])
  qed (use assms Some in \<open>auto simp: MatchStart_def\<close>)
qed (use assms in \<open>simp add: MatchStart_def\<close>)

section \<open>Handing the room over\<close>

text \<open>The cast server knows every account of the main server by its key.\<close>

definition keys_known :: "cast \<Rightarrow> world \<Rightarrow> bool" where
  "keys_known c0 w \<longleftrightarrow> (\<forall>s p. CAccount w s = Some p \<longrightarrow> fmlookup (cs_auth_keys c0) (acc_AuthKey (pl_acc_info p)) = Some s)"

lemma fold_room_state_keys [simp]: "cs_auth_keys (fold (\<lambda>s. UpdateCastPlayerRoomState s rid i p r) xs c) = cs_auth_keys c"
  by (induction xs arbitrary: c) (simp_all add: UpdateCastPlayerRoomState_def)

lemma lifecycle_keys: "cs_auth_keys (IpcMainRoomLifecycleSync a rid s h p c) = cs_auth_keys c"
proof -
  have e: "cs_auth_keys (EnsureCastRoomExists rid h on d) = cs_auth_keys d" for on d
    by (simp add: EnsureCastRoomExists_def)
  show ?thesis
    by (cases a) (simp_all add: lifecycle_join_def lifecycle_leave_def lifecycle_remove_def lifecycle_match_def Let_def e
        UpdateCastPlayerRoomState_def [of s] split: option.split)
qed

lemma hear_keys: "cs_auth_keys (hear_room x c) = cs_auth_keys c"
proof (cases x)
  case (HostChangeIpc rid k)
  then show ?thesis by (simp add: hear_room_def IpcMainHostChange_def Let_def split: option.split)
qed (simp_all add: hear_room_def lifecycle_keys IpcMainPlayerHealth_def)

lemma heard_keys: "cs_auth_keys (heard c0 w) = cs_auth_keys c0"
proof -
  have "cs_auth_keys (fold hear_room xs c) = cs_auth_keys c" for xs c
    by (induction xs arbitrary: c) (simp_all add: hear_keys)
  then show ?thesis by (simp add: heard_def)
qed

lemma swap_reorder_near:
  assumes "SwapAndReorderTeamLists a b w r = (w', r')"
  shows "near w [] w'" "rm_room_id r' = rm_room_id r" "rm_host_session_id r' = rm_host_session_id r" "rm_is_playing r' = rm_is_playing r"
  using assms near_two_slots [of w b "slot_of w a" a "slot_of w b"] by (auto simp: SwapAndReorderTeamLists_def Let_def)

lemma host_change_view:
  assumes "cast_view c rid = Some (h, on, S)" "s \<in> S" "fmlookup (cs_auth_keys c) k = Some s"
  shows "cast_view (IpcMainHostChange rid k c) = (cast_view c)(rid \<mapsto> (s, on, S))"
proof -
  obtain room where room: "fmlookup (cs_rooms c) rid = Some room" "cr_is_playing room = on" "set (cr_players_session_id room) = S"
    using assms(1) by (auto simp: cast_view_def)
  have "IpcMainHostChange rid k c = upd_cast_room rid (\<lambda>r. r\<lparr>cr_host_session_id := s\<rparr>) c"
    using room assms by (simp add: IpcMainHostChange_def Let_def subscript_def)
  moreover have "cast_view (upd_cast_room rid (\<lambda>r. r\<lparr>cr_host_session_id := s\<rparr>) c)
      = (cast_view c)(rid := map_option (\<lambda>(h, p, S). (s, p, S)) (cast_view c rid))"
    by (rule view_upd_room) auto
  ultimately show ?thesis by (simp add: assms(1))
qed

lemma host_in_step:
  assumes step: "in_step c0 w" and keys: "keys_known c0 w"
  shows "in_step c0 (HostChange sid slot w)"
proof -
  consider (same) "near w [] (HostChange sid slot w)"
    | (handed) acc room t target w1 w2 room' where "CAccount w sid = Some acc" "CRoom w (pl_room_id acc) = Some room"
        "CAccount w t = Some target" "pl_in_room target" "pl_room_id target = ucast (rm_room_id room)"
        "w1 = emit (CastIpc (HostChangeIpc (rm_room_id room) (acc_AuthKey (pl_acc_info target))))
           (upd_acc sid (\<lambda>p. if pl_state p = State_HostReady then p\<lparr>pl_state := State_Waiting\<rparr> else p)
             (upd_acc t (\<lambda>p. if pl_state p = State_Waiting then p\<lparr>pl_state := State_HostReady\<rparr> else p) w))"
        "SwapAndReorderTeamLists sid t w1 (room\<lparr>rm_host_session_id := t\<rparr>) = (w2, room')"
        "HostChange sid slot w = fold (\<lambda>id. SendMsg id 128 0 ChangeHost_Success slot [])
                    (GetRoomSortedPlayerSessionIds (set_room room' w2) room') (set_room room' w2)"
  proof (cases "CAccount w sid")
    case None
    then show ?thesis using same by (simp add: HostChange_def)
  next
    case (Some acc)
    show ?thesis
    proof (cases "CRoom w (pl_room_id acc)")
      case None
      then show ?thesis using same Some by (simp add: HostChange_def)
    next
      case (Some room)
      show ?thesis
      proof (cases "acc_Index_of acc = - 1 \<or> \<not> pl_in_room acc \<or> rm_is_playing room \<or> FindTargetSession w room slot = None")
        case True
        then show ?thesis using same Some \<open>CAccount w sid = Some acc\<close> by (auto simp: HostChange_def)
      next
        case False
        then obtain t where t: "FindTargetSession w room slot = Some t" by auto
        show ?thesis
        proof (cases "t = sid \<or> CAccount w t = None \<or> rm_host_session_id room \<noteq> sid")
          case True
          then show ?thesis using same Some \<open>CAccount w sid = Some acc\<close> False t
            by (auto simp: HostChange_def split: option.splits)
        next
          case go: False
          then obtain target where target: "CAccount w t = Some target" by auto
          show ?thesis
          proof (cases "acc_Index_of target = - 1 \<or> \<not> pl_in_room target \<or> pl_room_id target \<noteq> ucast (rm_room_id room)")
            case True
            then show ?thesis using same Some \<open>CAccount w sid = Some acc\<close> False t go target by (auto simp: HostChange_def)
          next
            case ok: False
            define w1 where "w1 = emit (CastIpc (HostChangeIpc (rm_room_id room) (acc_AuthKey (pl_acc_info target))))
               (upd_acc sid (\<lambda>p. if pl_state p = State_HostReady then p\<lparr>pl_state := State_Waiting\<rparr> else p)
                 (upd_acc t (\<lambda>p. if pl_state p = State_Waiting then p\<lparr>pl_state := State_HostReady\<rparr> else p) w))"
            obtain w2 room' where s: "SwapAndReorderTeamLists sid t w1 (room\<lparr>rm_host_session_id := t\<rparr>) = (w2, room')" by fastforce
            show ?thesis
              by (rule handed [OF \<open>CAccount w sid = Some acc\<close> Some target _ _ w1_def s])
                 (use Some \<open>CAccount w sid = Some acc\<close> False t go target ok s in
                   \<open>simp_all add: HostChange_def Let_def w1_def [symmetric]\<close>)
          qed
        qed
      qed
    qed
  qed
  then show ?thesis
  proof cases
    case same
    then show ?thesis by (rule in_step_near [OF step])
  next
    case (handed acc room t target w1 w2 room')
    have ok: "main_ok w" and cv: "cast_view (heard c0 w) = main_view w" using step by (simp_all add: in_step_def mirrors_def)
    have key: "pl_room_id acc = ucast (rm_room_id room)" using ok handed(2) by (simp add: main_ok_def)
    let ?e = "HostChangeIpc (rm_room_id room) (acc_AuthKey (pl_acc_info target))"
    have n1: "near w [?e] w1"
      unfolding handed(6)
      by (rule then_near [OF near_then [OF near_upd_acc near_upd_acc] near_emit [of _ "CastIpc ?e", simplified]])
         (simp_all add: acc_Index_of_def)
    note s = swap_reorder_near [OF handed(7)]
    have n2: "near w [?e] w2" using n1 s(1) by (rule near_then)
    define w3 where "w3 = set_room room' w2"
    have tin: "t \<in> room_members w (rm_room_id room)"
      using handed(3,4,5) by (simp add: room_members_def claim_def)
    have mv: "main_view w (rm_room_id room) = Some (rm_host_session_id room, rm_is_playing room, room_members w (rm_room_id room))"
      using handed(2) key by (simp add: main_view_def)
    have v3: "main_view w3 = (main_view w)(rm_room_id room \<mapsto> (t, rm_is_playing room, room_members w (rm_room_id room)))"
      using n2 by (auto simp: main_view_def w3_def near_def s fun_eq_iff u16_keys room_members_def)
    have "fmlookup (cs_auth_keys (heard c0 w)) (acc_AuthKey (pl_acc_info target)) = Some t"
      using keys handed(3) by (simp add: heard_keys keys_known_def)
    then have "cast_view (IpcMainHostChange (rm_room_id room) (acc_AuthKey (pl_acc_info target)) (heard c0 w)) = main_view w3"
      using host_change_view [of "heard c0 w" "rm_room_id room"] mv tin cv v3 by simp
    moreover have "heard c0 w3 = IpcMainHostChange (rm_room_id room) (acc_AuthKey (pl_acc_info target)) (heard c0 w)"
      using n2 by (simp add: heard_def w3_def near_def hear_simps)
    moreover have "main_ok w3" using ok n2 by (auto simp: main_ok_def w3_def near_def)
    ultimately have "in_step c0 w3" by (simp add: in_step_def mirrors_def)
    then show ?thesis
      unfolding handed(8) w3_def [symmetric] by (rule in_step_near) (rule near_fold, simp)
  qed
qed

section \<open>A run of the two servers\<close>

text \<open>
  Rooms are created, joined, left and handed over and matches started, in any order. A new room takes
  an id that no room has and nobody claims; a room is handed over while the keys are known.
\<close>

inductive main_run :: "cast \<Rightarrow> world \<Rightarrow> world \<Rightarrow> bool" for c0 w0 where
  run_start: "main_run c0 w0 w0"
| run_create: "main_run c0 w0 w \<Longrightarrow> fresh_id pick w \<Longrightarrow>
    main_run c0 w0 (RoomCreate pick g junk sid settings title password score w)"
| run_join: "main_run c0 w0 w \<Longrightarrow> main_run c0 w0 (RoomJoin g sid rid password res w)"
| run_leave: "main_run c0 w0 w \<Longrightarrow> main_run c0 w0 (NewRemoveRoomPlayer rid sid lt ret w)"
| run_host: "main_run c0 w0 w \<Longrightarrow> keys_known c0 w \<Longrightarrow> main_run c0 w0 (HostChange sid slot w)"
| run_match: "main_run c0 w0 w \<Longrightarrow>
    main_run c0 w0 (MatchStart g sid order res random_map match_id now_s now_ms start_ms w)"

lemma main_run_in_step: "main_run c0 w0 w \<Longrightarrow> in_step c0 w0 \<Longrightarrow> in_step c0 w"
  by (induction rule: main_run.induct) (simp_all add: create_in_step join_in_step leave_in_step host_in_step match_in_step)

definition one_waiting :: world where
  "one_waiting = (ex_world [1 \<mapsto> (ex_acc 1 0 Team_Neutral)\<lparr>pl_in_room := False\<rparr>] (ex_room [] []))\<lparr>CRoom := Map.empty, CRoomId := []\<rparr>"

lemma waiting_in_step: "in_step cast_init one_waiting"
  by (auto simp: in_step_def main_ok_def mirrors_def one_waiting_def claim_def heard_def casts_def main_view_def cast_view_def
      cast_init_def ex_defs acc_Index_of_def fun_eq_iff split: if_splits)

lemma waiting_fresh: "fresh_id pick_least one_waiting"
  by (simp add: fresh_id_def one_waiting_def ex_defs getNext_def room_members_def claim_def)

section \<open>Properties\<close>



end
