(* ===== verification/Postgres.thy ===== *)
theory Postgres
  imports Database
begin

text \<open>
  The other database driver (\<open>CPostgresDatabase.cpp\<close>): the commit of a change on the tables of the
  PostgreSQL schema. The rows are those of \<open>Database\<close> except for mails, which have no flags of
  deletion, and sessions, of which a player has one. \<open>up\<close> says that the connection holds and no
  statement throws for a reason not written here; an exception or an early return aborts the
  transaction.
\<close>

section \<open>Tables\<close>

record pg_mail =
  pgm_Id :: u32
  pgm_AccountId :: u32
  pgm_SenderAccountId :: u32
  pgm_SenderNickname :: string
  pgm_IsRead :: bool
  pgm_ItemId :: u32
  pgm_SentDate :: u32
  pgm_Message :: string

record pg =
  pg_accounts :: "account_row list"
  pg_inventory_items :: "item_row list"
  pg_daily_missions :: "(u32, PlayerMissionsPatch) fmap"
  pg_monthly_rewards :: "(u32, PlayerMonthlyRewardPatch) fmap"
  pg_weekly_rewards :: "(u32, PlayerWeeklyRewardPatch) fmap"
  pg_playtime :: "(u32, PlayerPlaytimePatch) fmap"
  pg_battlepass :: "(u32, PlayerBattlePassPatch) fmap"
  pg_mailbox :: "pg_mail list"
  pg_next_mail :: u32
  pg_matchhistory :: "MatchInfoHistoryAdd list"
  pg_sessions :: "(u32, u64) fmap"
  pg_socials :: "(u32 \<times> u32, u8) fmap"
  pg_pity :: "(u32 \<times> u32, u32) fmap"

record pg_tx =
  px_v :: ValidatedDbUpdates
  px_db :: pg
  px_out :: ResultDbUpdateInfo

section \<open>Accounts\<close>

text \<open>
  One statement per change. A cost that the balance does not cover selects no row, and nothing
  looks at the number of rows: the commit goes on. A sum that does not fit its column throws.
\<close>

definition pg_currency :: "(CurrencyType \<Rightarrow> nat) \<Rightarrow> u32 \<Rightarrow> AccountCurrencyDelta \<Rightarrow> account_row list \<Rightarrow> DbErrorType + account_row list" where
  "pg_currency col_max aid cu rows =
    (let t = acd_type cu; n = unat (acd_value cu);
         set_to = (\<lambda>b r. r\<lparr>arow_info := set_balance t (of_nat b) (arow_info r)\<rparr>)
     in if acd_is_reward cu
        then if list_ex (\<lambda>r. arow_Id r = aid \<and> stored r t + n > col_max t) rows then Inl SqlException
             else Inr (map (\<lambda>r. if arow_Id r = aid then set_to (stored r t + n) r else r) rows)
        else Inr (map (\<lambda>r. if arow_Id r = aid \<and> stored r t \<ge> n then set_to (stored r t - n) r else r) rows))"

primrec pg_currencies :: "(CurrencyType \<Rightarrow> nat) \<Rightarrow> u32 \<Rightarrow> AccountCurrencyDelta list \<Rightarrow> account_row list \<Rightarrow> DbErrorType + account_row list" where
  "pg_currencies col_max aid [] rows = Inr rows"
| "pg_currencies col_max aid (cu # cus) rows = tx_then (pg_currencies col_max aid cus) (pg_currency col_max aid cu rows)"

definition pg_PersistCurrenciesPatches :: "(CurrencyType \<Rightarrow> nat) \<Rightarrow> pg_tx \<Rightarrow> DbErrorType + pg_tx" where
  "pg_PersistCurrenciesPatches col_max t =
     map_sum (\<lambda>e. e) (\<lambda>rows. t\<lparr>px_db := (px_db t)\<lparr>pg_accounts := rows\<rparr>\<rparr>)
       (pg_currencies col_max (v_aid (px_v t)) (v_currency_updates (px_v t)) (pg_accounts (px_db t)))"

definition pg_PersistAccountInfoPatches :: "pg_tx \<Rightarrow> DbErrorType + pg_tx" where
  "pg_PersistAccountInfoPatches t =
    (let aid = v_aid (px_v t); p = fold (\<lambda>new old. merge_info old new) (v_acc_info_patches (px_v t)) new_AccountInfoPatch
     in if v_acc_info_patches (px_v t) = [] \<or> p = new_AccountInfoPatch then Inr t
        else Inr (t\<lparr>px_db := (px_db t)\<lparr>pg_accounts := map (\<lambda>r. if arow_Id r = aid then
               r\<lparr>arow_info := patch_account p (arow_info r), arow_ServerId := set_if (aip_server_id p) (arow_ServerId r)\<rparr>
             else r) (pg_accounts (px_db t))\<rparr>\<rparr>))"

section \<open>Items\<close>

definition pg_PersistItemDeletes :: "pg_tx \<Rightarrow> DbErrorType + pg_tx" where
  "pg_PersistItemDeletes t =
    (let v = px_v t; gone = (\<lambda>r. irow_PlayerId r = v_aid v \<and> irow_SerialInfo r \<in> serial_data ` set (v_items_deleted v));
         deleted = length (filter gone (pg_inventory_items (px_db t)))
     in if v_items_deleted v = [] then Inr t
        else if deleted = 0 then Inl NoRowsAffected
        else Inr (t\<lparr>px_db := (px_db t)\<lparr>pg_inventory_items := filter (\<lambda>r. \<not> gone r) (pg_inventory_items (px_db t))\<rparr>,
                    px_out := (px_out t)\<lparr>rdb_deleted_rows_count := rdb_deleted_rows_count (px_out t) + deleted,
                      rdb_deleted_serials := rdb_deleted_serials (px_out t) @ map serial_data (v_items_deleted v)\<rparr>\<rparr>))"

text \<open>
  The column that says whether an item is worn is a boolean, and the statement gives it the numbers
  0 and 1 in a \<open>CASE\<close> whose \<open>ELSE\<close> is the column: the types do not match and the statement throws.
\<close>

definition pg_PersistItemPatches :: "pg_tx \<Rightarrow> DbErrorType + pg_tx" where
  "pg_PersistItemPatches t =
    (let v = px_v t; ps = v_items_patches v; serials = remdups (map rip_serial ps);
         hit = (\<lambda>r. irow_PlayerId r = v_aid v \<and> irow_SerialInfo r \<in> set serials);
         patched = length (filter hit (pg_inventory_items (px_db t)))
     in if ps = [] \<or> list_all (\<lambda>s. merged ps s = new_ItemPatchCtx) serials then Inr t
        else if list_ex (\<lambda>s. ip_is_equipped (merged ps s) \<noteq> None) serials then Inl SqlException
        else if patched = 0 then Inl NoRowsAffected
        else Inr (t\<lparr>px_db := (px_db t)\<lparr>pg_inventory_items :=
                      map (\<lambda>r. if hit r then patch_row (merged ps (irow_SerialInfo r)) r else r) (pg_inventory_items (px_db t))\<rparr>,
                    px_out := (px_out t)\<lparr>rdb_patched_rows_count := rdb_patched_rows_count (px_out t) + patched,
                      rdb_patched_serials := rdb_patched_serials (px_out t) @ serials\<rparr>\<rparr>))"

definition pg_PersistItemAdds :: "pg_tx \<Rightarrow> DbErrorType + pg_tx" where
  "pg_PersistItemAdds t =
    (let v = px_v t
     in if v_items_added v = [] then Inr t
        else Inr (t\<lparr>px_db := (px_db t)\<lparr>pg_inventory_items := pg_inventory_items (px_db t) @ map (row_of (v_aid v)) (v_items_added v)\<rparr>,
                    px_out := (px_out t)\<lparr>rdb_added_rows_count := rdb_added_rows_count (px_out t) + length (v_items_added v),
                      rdb_added_serials := rdb_added_serials (px_out t) @ map item_serial (v_items_added v)\<rparr>\<rparr>))"

section \<open>Tables with a row per player\<close>

text \<open>\<open>INSERT ... ON CONFLICT DO UPDATE\<close> of the columns that are set.\<close>

definition pg_PersistMissionsPatches :: "pg_tx \<Rightarrow> DbErrorType + pg_tx" where
  "pg_PersistMissionsPatches t =
    (let p = fold (\<lambda>new old. merge_missions old new) (v_player_missions_patches (px_v t)) new_PlayerMissionsPatch
     in if v_player_missions_patches (px_v t) = [] \<or> p = new_PlayerMissionsPatch then Inr t
        else Inr (t\<lparr>px_db := (px_db t)\<lparr>pg_daily_missions := upsert_row merge_missions (v_aid (px_v t)) p (pg_daily_missions (px_db t))\<rparr>\<rparr>))"

definition pg_PersistMonthlyRewardsPatches :: "pg_tx \<Rightarrow> DbErrorType + pg_tx" where
  "pg_PersistMonthlyRewardsPatches t =
    (let p = fold (\<lambda>new old. merge_monthly old new) (v_player_monthly_reward_patches (px_v t)) \<lparr>pmr_day_count = None, pmr_last_time_update = None\<rparr>
     in if v_player_monthly_reward_patches (px_v t) = [] \<or> (pmr_day_count p = None \<and> pmr_last_time_update p = None) then Inr t
        else Inr (t\<lparr>px_db := (px_db t)\<lparr>pg_monthly_rewards := upsert_row merge_monthly (v_aid (px_v t)) p (pg_monthly_rewards (px_db t))\<rparr>\<rparr>))"

definition pg_PersistWeeklyRewardsPatches :: "pg_tx \<Rightarrow> DbErrorType + pg_tx" where
  "pg_PersistWeeklyRewardsPatches t =
    (let p = fold (\<lambda>new old. merge_weekly old new) (v_player_weekly_reward_patches (px_v t)) \<lparr>pwr_day_count = None, pwr_last_time_update = None\<rparr>
     in if v_player_weekly_reward_patches (px_v t) = [] \<or> (pwr_day_count p = None \<and> pwr_last_time_update p = None) then Inr t
        else Inr (t\<lparr>px_db := (px_db t)\<lparr>pg_weekly_rewards := upsert_row merge_weekly (v_aid (px_v t)) p (pg_weekly_rewards (px_db t))\<rparr>\<rparr>))"

definition pg_PersistPlaytimePatches :: "pg_tx \<Rightarrow> DbErrorType + pg_tx" where
  "pg_PersistPlaytimePatches t =
    (let p = fold (\<lambda>new old. merge_playtime old new) (v_player_playtime_patches (px_v t))
               \<lparr>ppt_daily_seconds = None, ppt_claimed_stage = None, ppt_last_time_update = None\<rparr>
     in if v_player_playtime_patches (px_v t) = []
           \<or> (ppt_daily_seconds p = None \<and> ppt_claimed_stage p = None \<and> ppt_last_time_update p = None) then Inr t
        else Inr (t\<lparr>px_db := (px_db t)\<lparr>pg_playtime := upsert_row merge_playtime (v_aid (px_v t)) p (pg_playtime (px_db t))\<rparr>\<rparr>))"

definition pg_PersistBattlePassPatches :: "pg_tx \<Rightarrow> DbErrorType + pg_tx" where
  "pg_PersistBattlePassPatches t =
    (let p = fold (\<lambda>new old. merge_battlepass old new) (v_player_battlepass_patches (px_v t)) new_PlayerBattlePassPatch
     in if v_player_battlepass_patches (px_v t) = [] then Inr t
        else Inr (t\<lparr>px_db := (px_db t)\<lparr>pg_battlepass := upsert_row merge_battlepass (v_aid (px_v t)) p (pg_battlepass (px_db t))\<rparr>\<rparr>))"

section \<open>Mails\<close>

definition pg_nickname :: "pg \<Rightarrow> string \<Rightarrow> u32 option" where
  "pg_nickname P nick = map_option arow_Id (List.find (\<lambda>r. acc_Nickname (arow_info r) = nick) (pg_accounts P))"

definition pg_mails_to :: "u32 \<Rightarrow> pg \<Rightarrow> nat" where
  "pg_mails_to rid P = length (filter (\<lambda>m. pgm_AccountId m = rid) (pg_mailbox P))"

text \<open>The insertion of one mail; the message is cut to the width of its column.\<close>

definition pg_insert_one :: "u32 \<Rightarrow> u32 \<Rightarrow> MailboxPatch \<Rightarrow> pg \<Rightarrow> DbErrorType + (MailboxPatch \<times> pg)" where
  "pg_insert_one now aid p P =
    (case insertion p of
       None \<Rightarrow> Inr (p, P)
     | Some (i, sender, receiver) \<Rightarrow>
         (case pg_nickname P receiver of
            None \<Rightarrow> Inl NicknameNotFound
          | Some rid \<Rightarrow>
              if fmlookup (pg_socials P) (rid, aid) = Some Social_Blocked then Inl BlockedByReceiver
              else if pg_mails_to rid P \<ge> kMailboxLimit then Inl MailboxFull
              else
                (let mail = \<lparr>pgm_Id = pg_next_mail P, pgm_AccountId = rid, pgm_SenderAccountId = aid, pgm_SenderNickname = sender,
                       pgm_IsRead = (\<not> mi_is_new i), pgm_ItemId = mi_gift_item_id i, pgm_SentDate = now,
                       pgm_Message = take 255 (mi_message i)\<rparr>
                 in Inr (p\<lparr>mbp_mail_id := pgm_Id mail, mbp_insert := Some (i\<lparr>mi_receiver_id := Some rid\<rparr>)\<rparr>,
                         P\<lparr>pg_mailbox := pg_mailbox P @ [mail], pg_next_mail := pg_next_mail P + 1\<rparr>))))"

primrec pg_insert_mails :: "u32 \<Rightarrow> u32 \<Rightarrow> MailboxPatch list \<Rightarrow> pg \<Rightarrow> DbErrorType + (MailboxPatch list \<times> pg)" where
  "pg_insert_mails now aid [] P = Inr ([], P)"
| "pg_insert_mails now aid (p # ps) P =
    (case pg_insert_one now aid p P of
       Inl e \<Rightarrow> Inl e
     | Inr (p', P') \<Rightarrow> map_sum id (apfst ((#) p')) (pg_insert_mails now aid ps P'))"

text \<open>A deletion by either side removes the mail for both.\<close>

definition pg_PersistMailboxPatches :: "u32 \<Rightarrow> pg_tx \<Rightarrow> DbErrorType + pg_tx" where
  "pg_PersistMailboxPatches now t =
    (let v = px_v t; ps = v_mailbox_patches v;
         read_ids = patch_ids (\<lambda>m. mbp_op m = Mail_MarkRead \<and> mbp_read m = Some True) ps;
         del_ids = patch_ids (\<lambda>m. mbp_op m = Mail_Delete) ps;
         rows = map (\<lambda>m. if pgm_Id m \<in> set read_ids then m\<lparr>pgm_IsRead := True\<rparr> else m) (pg_mailbox (px_db t));
         rows = filter (\<lambda>m. pgm_Id m \<notin> set del_ids) rows
     in case pg_insert_mails now (v_aid v) ps ((px_db t)\<lparr>pg_mailbox := rows\<rparr>) of
          Inl e \<Rightarrow> Inl e
        | Inr (ps, P) \<Rightarrow> Inr (t\<lparr>px_v := v\<lparr>v_mailbox_patches := ps\<rparr>, px_db := P\<rparr>))"

section \<open>Matches, sessions, socials, gachapons\<close>

text \<open>What the row of a match keeps: a column the table lacks reads as nothing here.\<close>

definition pg_match :: "MatchInfoHistoryAdd \<Rightarrow> MatchInfoHistoryAdd" where
  "pg_match m = m\<lparr>mha_Sid := 0, mha_IsItemReward := False, mha_reward_item := (if mha_IsItemReward m then mha_reward_item m else 0),
     mha_IsParty := False, mha_Restriction := 0, mha_MaxPlayers := 0\<rparr>"

definition pg_PersistMatchHistoryAdds :: "pg_tx \<Rightarrow> DbErrorType + pg_tx" where
  "pg_PersistMatchHistoryAdds t =
     Inr (t\<lparr>px_db := (px_db t)\<lparr>pg_matchhistory := pg_matchhistory (px_db t) @ map pg_match (v_match_history_adds (px_v t))\<rparr>\<rparr>)"

text \<open>A new key takes the place of the player's old one.\<close>

definition pg_PersistPlayerSessionsPatches :: "pg_tx \<Rightarrow> DbErrorType + pg_tx" where
  "pg_PersistPlayerSessionsPatches t =
    (let ps = filter (\<lambda>p. pss_aid p \<noteq> 0 \<and> pss_key p \<noteq> 0) (v_player_sessions_patches (px_v t));
         pairs = (\<lambda>op. map (\<lambda>p. (pss_aid p, pss_key p)) (filter (\<lambda>p. pss_op p = op) ps));
         kept = fold (\<lambda>(aid, key) s. if fmlookup s aid = Some key then fmdrop aid s else s) (pairs Sessions_Delete) (pg_sessions (px_db t))
     in Inr (t\<lparr>px_db := (px_db t)\<lparr>pg_sessions := fold (\<lambda>(aid, key). fmupd aid key) (pairs Sessions_Insert) kept\<rparr>\<rparr>))"

definition pg_social_target :: "pg \<Rightarrow> PlayerSocialPatch \<Rightarrow> u32 option" where
  "pg_social_target P p =
    (if psp_targetAid p \<noteq> 0 then Some (psp_targetAid p)
     else case psp_TargetNickname p of
       None \<Rightarrow> Some 0
     | Some nick \<Rightarrow> if nick = [] then Some 0 else pg_nickname P nick)"

definition pg_social_flags :: "pg \<Rightarrow> PlayerSocialPatch \<Rightarrow> ResultDbUpdateInfo \<Rightarrow> ResultDbUpdateInfo" where
  "pg_social_flags P p out =
    (if psp_aid p = 0 then out
     else case pg_social_target P p of
       None \<Rightarrow> out\<lparr>rdb_target_not_found := True\<rparr>
     | Some target \<Rightarrow>
         if target = 0 \<or> psp_op p = Social_Delete then out
         else out\<lparr>rdb_target_blocked := rdb_target_blocked out \<or> fmlookup (pg_socials P) (psp_aid p, target) = Some Social_Blocked,
                  rdb_player_blocked := rdb_player_blocked out \<or> fmlookup (pg_socials P) (target, psp_aid p) = Some Social_Blocked\<rparr>)"

definition pg_PersistPlayerSocialsPatches :: "pg_tx \<Rightarrow> DbErrorType + pg_tx" where
  "pg_PersistPlayerSocialsPatches t =
    (let P = px_db t; ps = v_player_social_patches (px_v t);
         resolved = List.map_filter (\<lambda>p. if psp_aid p = 0 then None else case pg_social_target P p of
           None \<Rightarrow> None | Some target \<Rightarrow> if target = 0 then None else Some (p, target)) ps;
         deletes = concat (map (\<lambda>(p, target). social_deletes p target) resolved);
         upserts = concat (map (\<lambda>(p, target). social_upserts p target) resolved)
     in Inr (t\<lparr>px_db := P\<lparr>pg_socials := fold (\<lambda>(k, s). fmupd k s) upserts (fold fmdrop deletes (pg_socials P))\<rparr>,
               px_out := fold (pg_social_flags P) ps (px_out t)\<rparr>))"

definition pg_PersistGachaPityPatches :: "pg_tx \<Rightarrow> DbErrorType + pg_tx" where
  "pg_PersistGachaPityPatches t = Inr (t\<lparr>px_db := (px_db t)\<lparr>pg_pity :=
     fold (\<lambda>p. fmupd (v_aid (px_v t), gpp_gacha_type p) (gpp_lucky_points p)) (v_gacha_pity_patches (px_v t)) (pg_pity (px_db t))\<rparr>\<rparr>)"

section \<open>The transaction\<close>

definition pg_persist_all :: "(CurrencyType \<Rightarrow> nat) \<Rightarrow> u32 \<Rightarrow> pg_tx \<Rightarrow> DbErrorType + pg_tx" where
  "pg_persist_all col_max now t =
    tx_then pg_PersistGachaPityPatches (tx_then pg_PersistPlayerSocialsPatches (tx_then pg_PersistPlayerSessionsPatches
      (tx_then pg_PersistMatchHistoryAdds (tx_then pg_PersistBattlePassPatches (tx_then pg_PersistPlaytimePatches
        (tx_then pg_PersistWeeklyRewardsPatches (tx_then pg_PersistMonthlyRewardsPatches (tx_then (pg_PersistMailboxPatches now)
          (tx_then pg_PersistMissionsPatches (tx_then pg_PersistItemAdds (tx_then pg_PersistItemPatches (tx_then pg_PersistItemDeletes
            (tx_then pg_PersistAccountInfoPatches (pg_PersistCurrenciesPatches col_max t))))))))))))))"

definition pg_UpdateAccount ::
  "(CurrencyType \<Rightarrow> nat) \<Rightarrow> u32 \<Rightarrow> bool \<Rightarrow> ValidatedDbUpdates \<Rightarrow> pg \<Rightarrow> pg \<times> (DbErrorType + (ResultDbUpdateInfo \<times> ValidatedDbUpdates))" where
  "pg_UpdateAccount col_max now up v P =
    (if \<not> up then (P, Inl ConnectionLost)
     else case pg_persist_all col_max now \<lparr>px_v = v, px_db = P, px_out = new_ResultDbUpdateInfo\<rparr> of
       Inl e \<Rightarrow> (P, Inl e)
     | Inr t \<Rightarrow> (px_db t, Inr (px_out t, px_v t)))"

text \<open>Several accounts: each in a transaction of its own, up to the first that fails.\<close>

fun pg_UpdateAccounts ::
  "(CurrencyType \<Rightarrow> nat) \<Rightarrow> u32 \<Rightarrow> bool \<Rightarrow> ValidatedDbUpdates list \<Rightarrow> pg \<Rightarrow> pg \<times> (DbErrorType + (ResultDbUpdateInfo list \<times> ValidatedDbUpdates list))" where
  "pg_UpdateAccounts col_max now up [] P = (P, if up then Inr ([], []) else Inl ConnectionLost)"
| "pg_UpdateAccounts col_max now up (v # vs) P =
    (case pg_UpdateAccount col_max now up v P of
       (P', Inl e) \<Rightarrow> (P', Inl e)
     | (P', Inr (out, v')) \<Rightarrow>
         (case pg_UpdateAccounts col_max now up vs P' of
            (P'', Inl e) \<Rightarrow> (P'', Inl e)
          | (P'', Inr (outs, vs')) \<Rightarrow> (P'', Inr (out # outs, v' # vs'))))"

end
