(* ===== verification/Postgres_Props.thy ===== *)
theory Postgres_Props
  imports Postgres Commit
begin

text \<open>
  The two drivers compared. Where the change is one that both can store, what the MariaDB driver
  commits the PostgreSQL driver commits as well, on the same rows; where a cost is not covered, or
  a batch fails half way, they part.
\<close>

section \<open>The same tables\<close>

definition pg_mail_of :: "MailboxData \<Rightarrow> pg_mail" where
  "pg_mail_of m = \<lparr>pgm_Id = mb_mail_id m, pgm_AccountId = mb_receiver_account_id m, pgm_SenderAccountId = mb_sender_account_id m,
     pgm_SenderNickname = mb_sender_nickname m, pgm_IsRead = (\<not> mb_is_new m), pgm_ItemId = mb_gift_itemid m,
     pgm_SentDate = mb_time m, pgm_Message = take 255 (mb_message m)\<rparr>"

definition same_tables :: "pg \<Rightarrow> db \<Rightarrow> bool" where
  "same_tables P d \<longleftrightarrow>
     pg_accounts P = db_accounts d \<and> distinct (map arow_Id (db_accounts d)) \<and> pg_inventory_items P = db_items d
   \<and> pg_daily_missions P = db_missions d \<and> pg_monthly_rewards P = db_monthly d \<and> pg_weekly_rewards P = db_weekly d
   \<and> pg_playtime P = db_playtime d \<and> pg_battlepass P = db_battlepass d
   \<and> pg_mailbox P = map pg_mail_of (db_mailbox d) \<and> pg_next_mail P = db_next_mail d
   \<and> list_all (\<lambda>m. \<not> mb_deleted_from_sender m \<and> \<not> mb_deleted_from_receiver m) (db_mailbox d)
   \<and> pg_matchhistory P = map pg_match (db_history d)
   \<and> set (db_sessions d) = {(a, k). fmlookup (pg_sessions P) a = Some k}
   \<and> pg_socials P = db_socials d \<and> pg_pity P = db_pity d"

text \<open>
  The changes both can store: the currencies are the net changes that validation leaves, nothing is
  put on or taken off, no mail is deleted and nobody is given a session key.
\<close>

definition portable :: "ValidatedDbUpdates \<Rightarrow> bool" where
  "portable v \<longleftrightarrow> (\<exists>b. v_currency_updates v = net_currencies b)
     \<and> list_all (\<lambda>p. ip_is_equipped (rip_patch p) = None) (v_items_patches v)
     \<and> list_all (\<lambda>p. mbp_op p \<noteq> Mail_Delete) (v_mailbox_patches v)
     \<and> list_all (\<lambda>p. pss_op p \<noteq> Sessions_Insert) (v_player_sessions_patches v)"

definition same_progress :: "tx \<Rightarrow> pg_tx \<Rightarrow> bool" where
  "same_progress t p \<longleftrightarrow> px_v p = tx_v t \<and> px_out p = tx_out t \<and> same_tables (px_db p) (tx_db t) \<and> portable (tx_v t)"

text \<open>A step of one driver that the step of the other follows.\<close>

definition tracks :: "(tx \<Rightarrow> DbErrorType + tx) \<Rightarrow> (pg_tx \<Rightarrow> DbErrorType + pg_tx) \<Rightarrow> bool" where
  "tracks f g \<longleftrightarrow> (\<forall>t p t'. same_progress t p \<longrightarrow> f t = Inr t' \<longrightarrow> (\<exists>p'. g p = Inr p' \<and> same_progress t' p'))"

lemma tracksI: "(\<And>t p t'. same_progress t p \<Longrightarrow> f t = Inr t' \<Longrightarrow> \<exists>p'. g p = Inr p' \<and> same_progress t' p') \<Longrightarrow> tracks f g"
  by (simp add: tracks_def)

lemma tracks_then: "tracks f' g' \<Longrightarrow> tracks f g \<Longrightarrow> tracks (\<lambda>t. tx_then f' (f t)) (\<lambda>p. tx_then g' (g p))"
  by (fastforce simp: tracks_def tx_then_def split: sum.splits)

section \<open>Currencies\<close>

definition apply_net :: "AccountCurrencyDelta \<Rightarrow> (CurrencyType \<Rightarrow> nat) \<Rightarrow> CurrencyType \<Rightarrow> nat" where
  "apply_net n r = r(acd_type n := if acd_is_reward n then r (acd_type n) + unat (acd_value n) else r (acd_type n) - unat (acd_value n))"

lemma apply_nets_other: "t \<notin> acd_type ` set ns \<Longrightarrow> fold apply_net ns r t = r t"
  by (induction ns arbitrary: r) (auto simp: apply_net_def)

lemma apply_nets_cong:
  "(\<And>t. t \<noteq> s \<Longrightarrow> r t = r' t) \<Longrightarrow> s \<notin> acd_type ` set ns \<Longrightarrow> u \<noteq> s \<Longrightarrow> fold apply_net ns r u = fold apply_net ns r' u"
proof (induction ns arbitrary: r r')
  case (Cons n ns)
  have "\<And>t. t \<noteq> s \<Longrightarrow> apply_net n r t = apply_net n r' t" using Cons.prems by (auto simp: apply_net_def)
  then show ?case
    unfolding fold_simps by (rule Cons.IH) (use Cons.prems(2,3) in \<open>simp_all only: list.set image_insert insert_iff\<close>, blast+)
qed simp

abbreviation set_row :: "CurrencyType \<Rightarrow> nat \<Rightarrow> account_row \<Rightarrow> account_row" where
  "set_row t b r \<equiv> r\<lparr>arow_info := set_balance t (of_nat b) (arow_info r)\<rparr>"

lemma store_balances_cong:
  assumes "\<And>t. (of_nat (f t) :: u32) = of_nat (g t)"
  shows "store_balances f r = store_balances g r"
  unfolding store_balances_def by (simp add: assms [of Cur_MP] assms [of Cur_RT] assms [of Cur_COUPONS] assms [of Cur_ENERGY])

lemma store_balances_id: "store_balances (stored r) r = r"
  by (simp add: store_balances_def stored_def)

lemma store_balances_set: "store_balances f (set_row t b r) = store_balances f r"
  by (cases t) (simp_all add: store_balances_def)

lemma stored_set: "stored (set_row t b r) = (stored r)(t := unat (of_nat b :: u32))"
  by (rule ext) (simp add: stored_def)

definition affordable :: "(CurrencyType \<Rightarrow> nat) \<Rightarrow> AccountCurrencyDelta list \<Rightarrow> account_row \<Rightarrow> bool" where
  "affordable col_max ns r \<longleftrightarrow> list_all (\<lambda>n. \<not> acd_is_reward n \<longrightarrow> unat (acd_value n) \<le> stored r (acd_type n)) ns
     \<and> list_all (\<lambda>n. fold apply_net ns (stored r) (acd_type n) \<le> col_max (acd_type n)) ns"

lemma affordable_head:
  fixes n r defines "r' \<equiv> set_row (acd_type n) (apply_net n (stored r) (acd_type n)) r"
  assumes "affordable cm (n # ns) r" "distinct (map acd_type (n # ns))"
  shows "apply_net n (stored r) (acd_type n) \<le> cm (acd_type n)"
    and "\<not> acd_is_reward n \<Longrightarrow> unat (acd_value n) \<le> stored r (acd_type n)"
    and "affordable cm ns r'"
    and "store_balances (fold apply_net ns (stored r')) r' = store_balances (fold apply_net (n # ns) (stored r)) r"
proof -
  have st: "stored r' = (stored r)(acd_type n := unat (of_nat (apply_net n (stored r) (acd_type n)) :: u32))"
    unfolding r'_def by (rule stored_set)
  have fresh: "acd_type n \<notin> acd_type ` set ns" using assms(3) by simp
  have other: "fold apply_net ns (stored r') u = fold apply_net (n # ns) (stored r) u" if "u \<noteq> acd_type n" for u
  proof -
    have "fold apply_net ns (stored r') u = fold apply_net ns (apply_net n (stored r)) u"
      by (rule apply_nets_cong [OF _ fresh that]) (simp add: st, simp add: apply_net_def)
    then show ?thesis by simp
  qed
  show "apply_net n (stored r) (acd_type n) \<le> cm (acd_type n)"
    using assms(2) apply_nets_other [OF fresh, of "apply_net n (stored r)"] by (simp add: affordable_def)
  show "\<not> acd_is_reward n \<Longrightarrow> unat (acd_value n) \<le> stored r (acd_type n)" using assms(2) by (simp add: affordable_def)
  have "acd_type m \<noteq> acd_type n" if "m \<in> set ns" for m using fresh that by (metis image_eqI)
  then show "affordable cm ns r'"
    using assms(2) other by (auto simp: affordable_def list_all_iff st)
  have "(of_nat (fold apply_net ns (stored r') t) :: u32) = of_nat (fold apply_net (n # ns) (stored r) t)" for t
  proof (cases "t = acd_type n")
    case True
    then show ?thesis by (simp add: apply_nets_other [OF fresh] st)
  qed (simp add: other)
  then show "store_balances (fold apply_net ns (stored r')) r' = store_balances (fold apply_net (n # ns) (stored r)) r"
    using store_balances_cong [of "fold apply_net ns (stored r')" "fold apply_net (n # ns) (stored r)" r]
    by (subst (2) r'_def) (simp only: store_balances_set)
qed

lemma pg_currencies_exact:
  assumes "\<And>r. r \<in> set rows \<Longrightarrow> arow_Id r = aid \<Longrightarrow> affordable cm ns r" "distinct (map acd_type ns)"
  shows "pg_currencies cm aid ns rows =
    Inr (map (\<lambda>r. if arow_Id r = aid then store_balances (fold apply_net ns (stored r)) r else r) rows)"
  using assms
proof (induction ns arbitrary: rows)
  case Nil
  have "map (\<lambda>r. if arow_Id r = aid then store_balances (stored r) r else r) rows = rows"
    by (rule map_idI) (simp add: store_balances_id)
  then show ?case by (simp only: pg_currencies.simps fold_simps)
next
  case (Cons n ns)
  let ?new = "\<lambda>r. set_row (acd_type n) (apply_net n (stored r) (acd_type n)) r"
  let ?rows = "map (\<lambda>r. if arow_Id r = aid then ?new r else r) rows"
  note head = affordable_head [OF Cons.prems(1) Cons.prems(2)]
  have step: "pg_currency cm aid n rows = Inr ?rows"
  proof (cases "acd_is_reward n")
    case True
    then have "\<not> list_ex (\<lambda>r. arow_Id r = aid \<and> cm (acd_type n) < stored r (acd_type n) + unat (acd_value n)) rows"
      using head(1) by (auto simp: list_ex_iff apply_net_def not_less)
    then show ?thesis using True by (simp add: pg_currency_def Let_def apply_net_def)
  next
    case False
    then show ?thesis using head(2) by (simp add: pg_currency_def Let_def apply_net_def)
  qed
  have "pg_currencies cm aid ns ?rows =
    Inr (map (\<lambda>r. if arow_Id r = aid then store_balances (fold apply_net ns (stored r)) r else r) ?rows)"
    by (rule Cons.IH) (use head(3) Cons.prems(2) in \<open>auto split: if_splits\<close>)
  also have "map (\<lambda>r. if arow_Id r = aid then store_balances (fold apply_net ns (stored r)) r else r) ?rows
    = map (\<lambda>r. if arow_Id r = aid then store_balances (fold apply_net (n # ns) (stored r)) r else r) rows"
    using head(4) by simp
  finally show ?case by (simp add: step tx_then_def)
qed

lemma find_unique:
  "distinct (map k rows) \<Longrightarrow> List.find (\<lambda>r. k r = a) rows = Some x \<Longrightarrow> r \<in> set rows \<Longrightarrow> k r = a \<Longrightarrow> r = x"
  by (induction rows) (auto split: if_splits simp: image_iff)

lemma track_currencies: "tracks (commit_currencies cm) (pg_PersistCurrenciesPatches cm)"
proof (rule tracksI)
  fix t p t' assume tr: "same_progress t p" and ok: "commit_currencies cm t = Inr t'"
  define v where "v = tx_v t"
  define rows where "rows = db_accounts (tx_db t)"
  obtain b where b: "v_currency_updates v = net_currencies b" using tr by (auto simp: same_progress_def portable_def v_def)
  have nets: "net_currencies (fold add_delta (v_currency_updates v) (\<lambda>_. \<lparr>rewards = 0, costs = 0\<rparr>)) = v_currency_updates v"
    by (simp add: b renet)
  have P: "px_v p = v" "pg_accounts (px_db p) = rows" "distinct (map arow_Id rows)"
    using tr by (auto simp: same_progress_def same_tables_def v_def rows_def)
  show "\<exists>p'. pg_PersistCurrenciesPatches cm p = Inr p' \<and> same_progress t' p'"
  proof (cases "v_currency_updates v = []")
    case True
    then have "t' = t" using ok by (simp add: commit_currencies_def Let_def v_def)
    moreover have "pg_PersistCurrenciesPatches cm p = Inr p"
      using True by (simp add: pg_PersistCurrenciesPatches_def P)
    ultimately show ?thesis using tr by blast
  next
    case False
    obtain r row where r: "List.find (\<lambda>r. arow_Id r = v_aid v) rows = Some r"
      and row: "PersistCurrenciesPatches cm (stored r) v = Some row"
      and t': "t' = t\<lparr>tx_db := (tx_db t)\<lparr>db_accounts := map (\<lambda>r. if arow_Id r = v_aid v then store_balances row r else r) rows\<rparr>\<rparr>"
      using ok False nets by (auto simp: commit_currencies_def Let_def v_def rows_def split: option.splits)
    have step: "(\<lambda>n r. r(acd_type n := if acd_is_reward n then r (acd_type n) + unat (acd_value n)
                   else r (acd_type n) - unat (acd_value n))) = apply_net"
      by (intro ext) (simp add: apply_net_def)
    have aff: "affordable cm (v_currency_updates v) r" and row': "row = fold apply_net (v_currency_updates v) (stored r)"
      using row False nets by (auto simp: PersistCurrenciesPatches_def affordable_def step Let_def split: if_splits)
    have "pg_currencies cm (v_aid v) (v_currency_updates v) rows =
        Inr (map (\<lambda>r. if arow_Id r = v_aid v then store_balances (fold apply_net (v_currency_updates v) (stored r)) r else r) rows)"
      by (rule pg_currencies_exact) (use find_unique [OF P(3) r] aff b net_distinct in auto)
    also have "map (\<lambda>r. if arow_Id r = v_aid v then store_balances (fold apply_net (v_currency_updates v) (stored r)) r else r) rows
      = map (\<lambda>r. if arow_Id r = v_aid v then store_balances row r else r) rows" (is "_ = ?rows")
      using find_unique [OF P(3) r] by (auto simp: row')
    finally have "pg_PersistCurrenciesPatches cm p = Inr (p\<lparr>px_db := (px_db p)\<lparr>pg_accounts := ?rows\<rparr>\<rparr>)"
      by (simp add: pg_PersistCurrenciesPatches_def P)
    moreover have "map arow_Id ?rows = map arow_Id rows" by (auto simp: store_balances_def)
    then have "distinct (map arow_Id ?rows)" using P(3) by (simp only:)
    ultimately show ?thesis using tr by (simp add: t' same_progress_def same_tables_def del: map_map)
  qed
qed

section \<open>The other steps\<close>

lemma track_account_info: "tracks PersistAccountInfoPatches pg_PersistAccountInfoPatches"
proof (rule tracksI)
  fix t p t' assume tr: "same_progress t p" and ok: "PersistAccountInfoPatches t = Inr t'"
  define q where "q = fold (\<lambda>new old. merge_info old new) (v_acc_info_patches (tx_v t)) new_AccountInfoPatch"
  let ?f = "\<lambda>r. if arow_Id r = v_aid (tx_v t) then
      r\<lparr>arow_info := patch_account q (arow_info r), arow_ServerId := set_if (aip_server_id q) (arow_ServerId r)\<rparr> else r"
  have ids: "map arow_Id (map ?f rows) = map arow_Id rows" for rows by auto
  show "\<exists>p'. pg_PersistAccountInfoPatches p = Inr p' \<and> same_progress t' p'"
  proof (cases "v_acc_info_patches (tx_v t) = [] \<or> q = new_AccountInfoPatch")
    case True
    then show ?thesis using tr ok by (auto simp: PersistAccountInfoPatches_def pg_PersistAccountInfoPatches_def Let_def q_def same_progress_def)
  next
    case False
    then have "t' = t\<lparr>tx_db := (tx_db t)\<lparr>db_accounts := map ?f (db_accounts (tx_db t))\<rparr>\<rparr>"
      using ok by (auto simp: PersistAccountInfoPatches_def Let_def q_def split: if_splits)
    moreover have "pg_PersistAccountInfoPatches p = Inr (p\<lparr>px_db := (px_db p)\<lparr>pg_accounts := map ?f (pg_accounts (px_db p))\<rparr>\<rparr>)"
      using False tr by (auto simp: pg_PersistAccountInfoPatches_def Let_def q_def same_progress_def)
    moreover have "distinct (map arow_Id (map ?f (db_accounts (tx_db t))))"
      using tr by (simp only: ids) (simp add: same_progress_def same_tables_def)
    ultimately show ?thesis using tr by (simp add: same_progress_def same_tables_def del: map_map)
  qed
qed

lemma track_deletes: "tracks PersistItemDeletes pg_PersistItemDeletes"
  by (rule tracksI) (auto simp: PersistItemDeletes_def pg_PersistItemDeletes_def Let_def same_progress_def same_tables_def split: if_splits)

lemma merged_not_worn:
  "list_all (\<lambda>p. ip_is_equipped (rip_patch p) = None) ps \<Longrightarrow> ip_is_equipped q = None
   \<Longrightarrow> ip_is_equipped (fold (\<lambda>rp old. if rip_serial rp = s then merge_patch old (rip_patch rp) else old) ps q) = None"
  by (induction ps arbitrary: q) (simp_all add: merge_patch_def over_def)

lemma track_patches: "tracks PersistItemPatches pg_PersistItemPatches"
proof (rule tracksI)
  fix t p t' assume tr: "same_progress t p" and ok: "PersistItemPatches t = Inr t'"
  have "ip_is_equipped (merged (v_items_patches (tx_v t)) s) = None" for s
    unfolding merged_def
    by (rule merged_not_worn) (use tr in \<open>simp_all add: same_progress_def portable_def new_ItemPatchCtx_def\<close>)
  then have "\<not> list_ex (\<lambda>s. ip_is_equipped (merged (v_items_patches (tx_v t)) s) \<noteq> None) ss" for ss
    by (simp add: list_ex_iff)
  then show "\<exists>p'. pg_PersistItemPatches p = Inr p' \<and> same_progress t' p'"
    using tr ok by (auto simp: PersistItemPatches_def pg_PersistItemPatches_def Let_def same_progress_def same_tables_def split: if_splits)
qed

lemma track_adds: "tracks PersistItemAdds pg_PersistItemAdds"
  by (rule tracksI) (auto simp: PersistItemAdds_def pg_PersistItemAdds_def Let_def same_progress_def same_tables_def split: if_splits)

lemma track_missions: "tracks PersistMissionsPatches pg_PersistMissionsPatches"
  by (rule tracksI) (auto simp: PersistMissionsPatches_def pg_PersistMissionsPatches_def Let_def same_progress_def same_tables_def split: if_splits)

lemma track_monthly: "tracks PersistMonthlyRewardsPatches pg_PersistMonthlyRewardsPatches"
  by (rule tracksI) (auto simp: PersistMonthlyRewardsPatches_def pg_PersistMonthlyRewardsPatches_def Let_def same_progress_def same_tables_def split: if_splits)

lemma track_weekly: "tracks PersistWeeklyRewardsPatches pg_PersistWeeklyRewardsPatches"
  by (rule tracksI) (auto simp: PersistWeeklyRewardsPatches_def pg_PersistWeeklyRewardsPatches_def Let_def same_progress_def same_tables_def split: if_splits)

lemma track_playtime: "tracks PersistPlaytimePatches pg_PersistPlaytimePatches"
  by (rule tracksI) (auto simp: PersistPlaytimePatches_def pg_PersistPlaytimePatches_def Let_def same_progress_def same_tables_def split: if_splits)

lemma track_battlepass: "tracks PersistBattlePassPatches pg_PersistBattlePassPatches"
  by (rule tracksI) (auto simp: PersistBattlePassPatches_def pg_PersistBattlePassPatches_def Let_def same_progress_def same_tables_def split: if_splits)

lemma track_history: "tracks PersistMatchHistoryAdds pg_PersistMatchHistoryAdds"
  by (rule tracksI) (auto simp: PersistMatchHistoryAdds_def pg_PersistMatchHistoryAdds_def same_progress_def same_tables_def)

lemma track_pity: "tracks PersistGachaPityPatches pg_PersistGachaPityPatches"
  by (rule tracksI) (auto simp: PersistGachaPityPatches_def pg_PersistGachaPityPatches_def same_progress_def same_tables_def)

lemma same_nickname: "same_tables P d \<Longrightarrow> pg_nickname P = find_nickname d"
  by (intro ext) (simp add: pg_nickname_def find_nickname_def same_tables_def)

lemma track_socials: "tracks PersistPlayerSocialsPatches pg_PersistPlayerSocialsPatches"
proof (rule tracksI)
  fix t p t' assume tr: "same_progress t p" and ok: "PersistPlayerSocialsPatches t = Inr t'"
  have same: "same_tables (px_db p) (tx_db t)" and v: "px_v p = tx_v t" "px_out p = tx_out t" using tr by (auto simp: same_progress_def)
  have target: "pg_social_target (px_db p) = social_target (tx_db t)"
    by (intro ext) (simp add: pg_social_target_def social_target_def same_nickname [OF same] split: option.split)
  have socials: "pg_socials (px_db p) = db_socials (tx_db t)" using same by (simp add: same_tables_def)
  have flags: "pg_social_flags (px_db p) = social_flags (tx_db t)"
    by (intro ext) (simp add: pg_social_flags_def social_flags_def target socials split: option.split)
  show "\<exists>p'. pg_PersistPlayerSocialsPatches p = Inr p' \<and> same_progress t' p'"
    using tr ok unfolding PersistPlayerSocialsPatches_def pg_PersistPlayerSocialsPatches_def Let_def target flags socials v
    by (auto simp: same_progress_def same_tables_def)
qed

lemma deleted_keys:
  "{(a, k). fmlookup (fold (\<lambda>(aid, key) s. if fmlookup s aid = Some key then fmdrop aid s else s) xs s) a = Some k}
   = {(a, k). fmlookup s a = Some k} - set xs"
proof (induction xs arbitrary: s)
  case (Cons x xs)
  obtain aid key where x: "x = (aid, key)" by fastforce
  have "{(a, k). fmlookup (if fmlookup s aid = Some key then fmdrop aid s else s) a = Some k}
    = {(a, k). fmlookup s a = Some k} - {(aid, key)}" by (auto split: if_splits)
  then show ?case using Cons.IH [of "if fmlookup s aid = Some key then fmdrop aid s else s"] by (auto simp: x)
qed simp

lemma track_sessions: "tracks PersistPlayerSessionsPatches pg_PersistPlayerSessionsPatches"
proof (rule tracksI)
  fix t p t' assume tr: "same_progress t p" and ok: "PersistPlayerSessionsPatches t = Inr t'"
  define ps where "ps = filter (\<lambda>p. pss_aid p \<noteq> 0 \<and> pss_key p \<noteq> 0) (v_player_sessions_patches (tx_v t))"
  define gone where "gone = map (\<lambda>p. (pss_aid p, pss_key p)) (filter (\<lambda>p. pss_op p = Sessions_Delete) ps)"
  have none: "filter (\<lambda>p. pss_op p = Sessions_Insert) ps = []"
    using tr by (auto simp: same_progress_def portable_def ps_def list_all_iff filter_empty_conv)
  have sessions: "set (db_sessions (tx_db t)) = {(a, k). fmlookup (pg_sessions (px_db p)) a = Some k}"
    using tr by (simp add: same_progress_def same_tables_def)
  have t': "t' = t\<lparr>tx_db := (tx_db t)\<lparr>db_sessions := filter (\<lambda>s. s \<notin> set gone) (db_sessions (tx_db t))\<rparr>\<rparr>"
    using ok none unfolding PersistPlayerSessionsPatches_def Let_def ps_def [symmetric] by (simp add: gone_def)
  have "pg_PersistPlayerSessionsPatches p = Inr (p\<lparr>px_db := (px_db p)\<lparr>pg_sessions :=
      fold (\<lambda>(aid, key) s. if fmlookup s aid = Some key then fmdrop aid s else s) gone (pg_sessions (px_db p))\<rparr>\<rparr>)"
  proof -
    have v: "px_v p = tx_v t" using tr by (simp add: same_progress_def)
    show ?thesis unfolding pg_PersistPlayerSessionsPatches_def Let_def v ps_def [symmetric] by (simp add: none gone_def)
  qed
  moreover have "set (filter (\<lambda>s. s \<notin> set gone) (db_sessions (tx_db t))) = {(a, k). fmlookup
      (fold (\<lambda>(aid, key) s. if fmlookup s aid = Some key then fmdrop aid s else s) gone (pg_sessions (px_db p))) a = Some k}"
    unfolding deleted_keys using sessions by auto
  ultimately show "\<exists>p'. pg_PersistPlayerSessionsPatches p = Inr p' \<and> same_progress t' p'"
    using tr by (simp add: t' same_progress_def same_tables_def)
qed

section \<open>Mails\<close>

lemma same_count:
  assumes "same_tables P d"
  shows "pg_mails_to rid P = mails_to rid d"
proof -
  have "length (filter (\<lambda>m. pgm_AccountId m = rid) (map pg_mail_of ms))
      = length (filter (\<lambda>m. mb_receiver_account_id m = rid \<and> \<not> mb_deleted_from_receiver m) ms)"
    if "list_all (\<lambda>m. \<not> mb_deleted_from_sender m \<and> \<not> mb_deleted_from_receiver m) ms" for ms
    using that by (induction ms) (simp_all add: pg_mail_of_def)
  then show ?thesis using assms by (simp add: same_tables_def pg_mails_to_def mails_to_def)
qed

lemma track_insert_one:
  assumes "same_tables P d" "insert_one now aid x d = Inr (x', d')"
  shows "\<exists>P'. pg_insert_one now aid x P = Inr (x', P') \<and> same_tables P' d'" and "mbp_op x' = mbp_op x"
proof -
  have eq: "pg_nickname P = find_nickname d" "pg_socials P = db_socials d" "pg_next_mail P = db_next_mail d" "pg_mails_to r P = mails_to r d" for r
    using assms(1) same_nickname same_count by (auto simp: same_tables_def)
  show "\<exists>P'. pg_insert_one now aid x P = Inr (x', P') \<and> same_tables P' d'"
    using assms unfolding insert_one_def pg_insert_one_def eq Let_def
    by (auto simp: same_tables_def pg_mail_of_def split: option.splits if_splits)
  show "mbp_op x' = mbp_op x"
    using assms(2) by (auto simp: insert_one_def Let_def split: option.splits prod.splits if_splits)
qed

lemma track_insert_mails:
  "same_tables P d \<Longrightarrow> insert_mails now aid ps d = Inr (ps', d')
   \<Longrightarrow> (\<exists>P'. pg_insert_mails now aid ps P = Inr (ps', P') \<and> same_tables P' d') \<and> map mbp_op ps' = map mbp_op ps"
proof (induction ps arbitrary: P d ps')
  case (Cons x xs)
  obtain x1 d1 where x: "insert_one now aid x d = Inr (x1, d1)"
    using Cons.prems(2) by (auto split: sum.splits)
  obtain xs1 where xs: "insert_mails now aid xs d1 = Inr (xs1, d')" "ps' = x1 # xs1"
    using Cons.prems(2) x by (cases "insert_mails now aid xs d1") auto
  obtain P1 where P1: "pg_insert_one now aid x P = Inr (x1, P1)" "same_tables P1 d1"
    using track_insert_one(1) [OF Cons.prems(1) x] by blast
  show ?case using Cons.IH [OF P1(2) xs(1)] track_insert_one(2) [OF Cons.prems(1) x] xs(2) P1(1) by auto
qed simp

lemma track_mails: "tracks (PersistMailboxPatches now) (pg_PersistMailboxPatches now)"
proof (rule tracksI)
  fix t p t' assume tr: "same_progress t p" and ok: "PersistMailboxPatches now t = Inr t'"
  define ps where "ps = v_mailbox_patches (tx_v t)"
  define ids where "ids = patch_ids (\<lambda>m. mbp_op m = Mail_MarkRead \<and> mbp_read m = Some True) ps"
  define rows where "rows = map (\<lambda>m. if mb_mail_id m \<in> set ids then m\<lparr>mb_is_new := False\<rparr> else m) (db_mailbox (tx_db t))"
  have none: "patch_ids (\<lambda>m. mbp_op m = Mail_Delete \<and> q m) ps = []" "patch_ids (\<lambda>m. mbp_op m = Mail_Delete) ps = []" for q
    using tr by (auto simp: patch_ids_def same_progress_def portable_def ps_def list_all_iff filter_empty_conv)
  have rows': "delete_received [] (delete_sent [] rows) = rows" by (simp add: delete_received_def delete_sent_def)
  obtain ps' d' where ins: "insert_mails now (v_aid (tx_v t)) ps ((tx_db t)\<lparr>db_mailbox := rows\<rparr>) = Inr (ps', d')"
    and t': "t' = t\<lparr>tx_v := (tx_v t)\<lparr>v_mailbox_patches := ps'\<rparr>, tx_db := d'\<rparr>"
    using ok unfolding PersistMailboxPatches_def Let_def ps_def [symmetric] ids_def [symmetric] rows_def [symmetric] none rows'
    by (auto split: if_splits sum.splits)
  let ?rows = "filter (\<lambda>m. pgm_Id m \<notin> set []) (map (\<lambda>m. if pgm_Id m \<in> set ids then m\<lparr>pgm_IsRead := True\<rparr> else m) (pg_mailbox (px_db p)))"
  have "same_tables ((px_db p)\<lparr>pg_mailbox := ?rows\<rparr>) ((tx_db t)\<lparr>db_mailbox := rows\<rparr>)"
    using tr by (auto simp: same_progress_def same_tables_def rows_def pg_mail_of_def list_all_iff)
  from track_insert_mails [OF this ins] obtain P' where
    P': "pg_insert_mails now (v_aid (tx_v t)) ps ((px_db p)\<lparr>pg_mailbox := ?rows\<rparr>) = Inr (ps', P')" "same_tables P' d'"
    and ops: "map mbp_op ps' = map mbp_op ps" by blast
  have "list_all (\<lambda>p. mbp_op p \<noteq> Mail_Delete) ps'"
  proof -
    have "list_all (\<lambda>x. x \<noteq> Mail_Delete) (map mbp_op ps')"
      unfolding ops using tr by (simp add: same_progress_def portable_def ps_def list_all_iff)
    then show ?thesis by (simp add: list_all_iff)
  qed
  then have "portable (tx_v t')" using tr by (simp add: t' same_progress_def portable_def)
  moreover have v: "px_v p = tx_v t" using tr by (simp add: same_progress_def)
  have "pg_PersistMailboxPatches now p = Inr (p\<lparr>px_v := (tx_v t)\<lparr>v_mailbox_patches := ps'\<rparr>, px_db := P'\<rparr>)"
    unfolding pg_PersistMailboxPatches_def Let_def v ps_def [symmetric] ids_def [symmetric] none(2) P'(1) by simp
  ultimately show "\<exists>p'. pg_PersistMailboxPatches now p = Inr p' \<and> same_progress t' p'"
    using tr P'(2) by (simp add: t' same_progress_def)
qed

section \<open>The whole commit\<close>

lemma track_all: "tracks (persist_all cm now) (pg_persist_all cm now)"
  unfolding persist_all_def [abs_def] pg_persist_all_def [abs_def]
  by (intro tracks_then track_currencies track_account_info track_deletes track_patches track_adds track_missions track_mails
      track_monthly track_weekly track_playtime track_battlepass track_history track_sessions track_socials track_pity)

section \<open>Properties\<close>

text \<open>
  C4: A change both drivers can store, committed by the MariaDB driver, is committed by the
  PostgreSQL driver too when the tables were the same: the same is reported, the same ids are filled
  in, and the tables are the same afterwards. One adds up the changes of a currency and guards the
  sum, the other runs one statement per change.
\<close>

theorem backends_agree:
  assumes "UpdateAccount col_max now True v d = (d', out, Inr v')" "same_tables P d" "portable v"
  shows "\<exists>P'. pg_UpdateAccount col_max now True v P = (P', Inr (out, v')) \<and> same_tables P' d'"
proof -
  obtain t where t: "persist_all col_max now \<lparr>tx_v = v, tx_db = d, tx_out = new_ResultDbUpdateInfo\<rparr> = Inr t"
    "d' = tx_db t" "out = tx_out t" "v' = tx_v t"
    using assms(1) by (auto simp: UpdateAccount_def split: sum.splits)
  have "same_progress \<lparr>tx_v = v, tx_db = d, tx_out = new_ResultDbUpdateInfo\<rparr> \<lparr>px_v = v, px_db = P, px_out = new_ResultDbUpdateInfo\<rparr>"
    using assms(2,3) by (simp add: same_progress_def)
  then obtain p where p: "pg_persist_all col_max now \<lparr>px_v = v, px_db = P, px_out = new_ResultDbUpdateInfo\<rparr> = Inr p" "same_progress t p"
    using track_all t(1) unfolding tracks_def by blast
  then show ?thesis by (simp add: pg_UpdateAccount_def t(2-4) same_progress_def)
qed

definition pg_tables :: pg where
  "pg_tables = \<lparr>pg_accounts = db_accounts tables, pg_inventory_items = db_items tables, pg_daily_missions = fmempty,
     pg_monthly_rewards = fmempty, pg_weekly_rewards = fmempty, pg_playtime = fmempty, pg_battlepass = fmempty, pg_mailbox = [],
     pg_next_mail = 1, pg_matchhistory = [], pg_sessions = fmempty, pg_socials = fmempty, pg_pity = fmempty\<rparr>"

lemma pg_tables_same: "same_tables pg_tables tables"
  by (simp add: same_tables_def pg_tables_def tables_def)

lemma paid_portable: "portable (paid 60)"
proof -
  have "v_currency_updates (paid 60) = net_currencies ((\<lambda>_. \<lparr>rewards = 0, costs = 0\<rparr>)(Cur_MP := \<lparr>rewards = 0, costs = 60\<rparr>))"
    by (simp add: paid_def net_currencies_def finalize_currency_def Let_def new_ValidatedDbUpdates_def)
  then show ?thesis unfolding portable_def by (auto simp: paid_def new_ValidatedDbUpdates_def)
qed

theorem backends_agree_witness:
  "\<exists>d' out P'. UpdateAccount (\<lambda>_. 2 ^ 32 - 1) 0 True (paid 60) tables = (d', out, Inr (paid 60))
     \<and> pg_UpdateAccount (\<lambda>_. 2 ^ 32 - 1) 0 True (paid 60) pg_tables = (P', Inr (out, paid 60)) \<and> same_tables P' d'"
proof -
  obtain d' out where d': "UpdateAccount (\<lambda>_. 2 ^ 32 - 1) 0 True (paid 60) tables = (d', out, Inr (paid 60))"
    using commit_paid by blast
  from backends_agree [OF d' pg_tables_same paid_portable] d' show ?thesis by blast
qed

text \<open>A change that takes a price and adds items.\<close>

definition purchase :: "u32 \<Rightarrow> u32 \<Rightarrow> CurrencyType \<Rightarrow> u32 \<Rightarrow> Item list \<Rightarrow> ValidatedDbUpdates" where
  "purchase sid aid t price items = (new_ValidatedDbUpdates sid aid)\<lparr>
     v_currency_updates := [\<lparr>acd_type = t, acd_value = price, acd_is_reward = False\<rparr>], v_items_added := items\<rparr>"

lemma purchase_simps:
  "v_aid (purchase s a t x is) = a" "v_currency_updates (purchase s a t x is) = [\<lparr>acd_type = t, acd_value = x, acd_is_reward = False\<rparr>]"
  "v_items_added (purchase s a t x is) = is" "v_items_deleted (purchase s a t x is) = []" "v_items_patches (purchase s a t x is) = []"
  "v_acc_info_patches (purchase s a t x is) = []" "v_player_missions_patches (purchase s a t x is) = []"
  "v_player_monthly_reward_patches (purchase s a t x is) = []" "v_player_weekly_reward_patches (purchase s a t x is) = []"
  "v_player_playtime_patches (purchase s a t x is) = []" "v_player_battlepass_patches (purchase s a t x is) = []"
  "v_mailbox_patches (purchase s a t x is) = []" "v_match_history_adds (purchase s a t x is) = []"
  "v_player_sessions_patches (purchase s a t x is) = []" "v_player_social_patches (purchase s a t x is) = []"
  "v_gacha_pity_patches (purchase s a t x is) = []" "purchase s a t x is\<lparr>v_mailbox_patches := []\<rparr> = purchase s a t x is"
  by (simp_all add: purchase_def new_ValidatedDbUpdates_def)

lemma purchase_nets:
  "x \<noteq> 0 \<Longrightarrow> net_currencies (fold add_delta (v_currency_updates (purchase s a t x is)) (\<lambda>_. \<lparr>rewards = 0, costs = 0\<rparr>))
     = [\<lparr>acd_type = t, acd_value = x, acd_is_reward = False\<rparr>]"
  by (cases t) (simp_all add: purchase_simps add_delta_def net_currencies_def finalize_currency_def Let_def word_gt_0)

lemma purchase_refused:
  assumes "List.find (\<lambda>r. arow_Id r = aid) (db_accounts d) = Some r" "stored r t < unat price"
  shows "UpdateAccount col_max now True (purchase sid aid t price items) d = (d, new_ResultDbUpdateInfo, Inl NoRowsAffected)"
proof -
  have nz: "price \<noteq> 0" using assms(2) by auto
  have no: "\<not> unat price \<le> stored r t" using assms(2) by simp
  have "PersistCurrenciesPatches col_max (stored r) (purchase sid aid t price items) = None"
    unfolding PersistCurrenciesPatches_def Let_def purchase_nets [OF nz] using no by (simp add: purchase_simps)
  then have "commit_currencies col_max \<lparr>tx_v = purchase sid aid t price items, tx_db = d, tx_out = new_ResultDbUpdateInfo\<rparr> = Inl NoRowsAffected"
    unfolding commit_currencies_def Let_def tx.simps purchase_nets [OF nz] using assms(1) no by (simp add: purchase_simps)
  then show ?thesis by (simp add: UpdateAccount_def persist_all_def tx_then_def)
qed

lemma purchase_delivered:
  assumes "\<And>r. r \<in> set (pg_accounts P) \<Longrightarrow> arow_Id r = aid \<Longrightarrow> stored r t < unat price" "items \<noteq> []"
  shows "\<exists>out. pg_UpdateAccount col_max now True (purchase sid aid t price items) P
    = (P\<lparr>pg_inventory_items := pg_inventory_items P @ map (row_of aid) items\<rparr>, Inr (out, purchase sid aid t price items))"
proof -
  let ?n = "\<lparr>acd_type = t, acd_value = price, acd_is_reward = False\<rparr>"
  have "map (\<lambda>r. if arow_Id r = aid \<and> unat price \<le> stored r t then set_row t (stored r t - unat price) r else r) (pg_accounts P) = pg_accounts P"
    by (rule map_idI, rule if_not_P) (use assms(1) leD in blast)
  then have "pg_currency col_max aid ?n (pg_accounts P) = Inr (pg_accounts P)"
    by (simp add: pg_currency_def Let_def)
  then have "pg_PersistCurrenciesPatches col_max \<lparr>px_v = purchase sid aid t price items, px_db = P, px_out = o'\<rparr>
      = Inr \<lparr>px_v = purchase sid aid t price items, px_db = P, px_out = o'\<rparr>" for o'
    by (simp add: pg_PersistCurrenciesPatches_def purchase_simps tx_then_def)
  then show ?thesis
    using assms(2)
    by (simp add: pg_UpdateAccount_def pg_persist_all_def tx_then_def pg_PersistAccountInfoPatches_def pg_PersistItemDeletes_def
        pg_PersistItemPatches_def pg_PersistItemAdds_def pg_PersistMissionsPatches_def pg_PersistMailboxPatches_def
        pg_PersistMonthlyRewardsPatches_def pg_PersistWeeklyRewardsPatches_def pg_PersistPlaytimePatches_def
        pg_PersistBattlePassPatches_def pg_PersistMatchHistoryAdds_def pg_PersistPlayerSessionsPatches_def
        pg_PersistPlayerSocialsPatches_def pg_PersistGachaPityPatches_def purchase_simps patch_ids_def Let_def List.map_filter_def)
qed

text \<open>
  C36: Goods nobody paid for. A price that the stored balance does not cover (two purchases under way
  are both validated against the cached balance) makes the MariaDB driver refuse the whole change,
  but the PostgreSQL driver adds the items and takes nothing, and reports success.
\<close>

theorem unpaid_goods_are_delivered:
  assumes "same_tables P d" "List.find (\<lambda>r. arow_Id r = aid) (db_accounts d) = Some r" "stored r t < unat price" "items \<noteq> []"
  shows "UpdateAccount col_max now True (purchase sid aid t price items) d = (d, new_ResultDbUpdateInfo, Inl NoRowsAffected)
    \<and> (\<exists>out. pg_UpdateAccount col_max now True (purchase sid aid t price items) P
        = (P\<lparr>pg_inventory_items := pg_inventory_items P @ map (row_of aid) items\<rparr>, Inr (out, purchase sid aid t price items)))"
proof -
  have rows: "pg_accounts P = db_accounts d" "distinct (map arow_Id (db_accounts d))" using assms(1) by (auto simp: same_tables_def)
  have "stored q t < unat price" if "q \<in> set (pg_accounts P)" "arow_Id q = aid" for q
    using find_unique [OF rows(2) assms(2)] that rows(1) assms(3) by auto
  then show ?thesis using purchase_refused [OF assms(2,3)] purchase_delivered [OF _ assms(4)] by blast
qed

theorem unpaid_goods_are_delivered_witness:
  "\<exists>out. pg_UpdateAccount (\<lambda>_. 2 ^ 32 - 1) 0 True (purchase 3 7 Cur_MP 101 [null_Item]) pg_tables
    = (pg_tables\<lparr>pg_inventory_items := pg_inventory_items pg_tables @ [row_of 7 null_Item]\<rparr>, Inr (out, purchase 3 7 Cur_MP 101 [null_Item]))"
proof -
  have "List.find (\<lambda>r. arow_Id r = 7) (db_accounts tables) = Some \<lparr>arow_Id = 7, arow_info = pl_acc_info owner, arow_ServerId = 3\<rparr>"
    by (simp add: tables_def)
  from unpaid_goods_are_delivered [OF pg_tables_same this, of Cur_MP 101 "[null_Item]" "\<lambda>_. 2 ^ 32 - 1" 0 3]
  show ?thesis by (simp add: stored_def owner_def rich_def)
qed

text \<open>A batch that fails half way keeps what was committed before.\<close>

lemma batch_keeps_prefix:
  assumes "pg_UpdateAccount cm now up v P = (P1, Inr x)" "pg_UpdateAccount cm now up w P1 = (P2, Inl e)"
  shows "pg_UpdateAccounts cm now up (v # w # vs) P = (P1, Inl e)"
proof -
  have "P2 = P1" using assms(2) by (auto simp: pg_UpdateAccount_def split: if_splits sum.splits)
  then show ?thesis using assms by (cases x) simp
qed

end
