(* ===== verification/Spec2Isabelle.thy ===== *)
theory Spec2Isabelle
  imports Prelude Crypt Message Session Rate_Limit Cache DB_Data Main_Data Ids Rooms Rooms_Inv Items Selection
    Room_Handlers Room_Props Room_Join Update_Data Updates Ledger Inventory Database Commit
    Trade_Registry Server Item_Handlers Upgrades Social_Handlers Mail_Handlers Trade_Handlers Tasks
    Task_Props Trade_Props Mail_Props Social_Props Match_Rewards Match_End Match_Props
    Votekick Votekick_Props Gachapon Packages Gamble_Props Missions BattlePass Milestone_Props
    Cast_Props Batch_Props Cast_Mirror Postgres_Props
begin

text \<open>
  A verification library for MegaVoltsPP, a game server written in C++.

  The program. Three servers share a network engine (\<open>src/common/NetEngine\<close>) and a base library
  (\<open>src/common/BaseLib\<close>): the front server logs players in, the main server
  (\<open>src/src/Main\<close>) keeps accounts, rooms, plazas and inventories and runs the packet handlers,
  the cast server (\<open>src/src/Cast\<close>) relays what happens inside a match. A client's bytes arrive in a
  \<open>CSession\<close>, are cut into packets, decrypted by a \<open>CCrypt\<close>, unpacked by a \<open>CMessage\<close> and given to
  the handler registered for the command. The handlers work on shared \<open>CCache\<close> containers.

  The theories, bottom up.

  Prelude: machine integers (\<open>uN_t\<close> is an \<open>N\<close>-bit word), little-endian byte images, blocks, lists.

  Crypt: \<open>CCrypt.h\<close>. TCP header obfuscation, RC5 and RC6 key schedules and block ciphers,
  dispatch by cipher id. The schedules are static members, hence a state record threaded through
  constructor and ciphers. Proved: every cipher is inverted by its counterpart, also over buffers
  whose length is no multiple of the block.

  Message: \<open>CMessage.h\<close>, \<open>CMessage.cpp\<close>, \<open>BaseProtocol.h\<close>. The bit fields, setters and getters,
  building and opening of packets. A read out of range is \<open>None\<close>; the safety properties show that
  it does not happen.

  Session: \<open>CSession.cpp\<close>. The framing loops of client packets and of server-to-server messages are
  instances of one locale; its theorem that chunking does not matter is proved once. The send queue
  is a step relation whose invariant is proved by rule induction.

  Rate_Limit: the packet rate limiter (\<open>PacketRateLimit.h\<close>, \<open>CServer.cpp\<close>) and the rules of the
  limited orders. Proved over any run of its operations: the rate, that blacklists last, and that
  every key of a session is listed for it, so clearing the session leaves nothing.

  Cache: \<open>CCache.h\<close>. One function per method on finite maps, sets and lists; each method holds the
  lock for its whole body.

  DB_Data, Main_Data: the rows of the data files (\<open>CDBData.h\<close>) and the state types of
  \<open>CMainServer.h\<close>, \<open>DbError.h\<close> and \<open>PacketData.h\<close>, one record per struct, with constructors,
  copies and assignments as written (several drop fields).

  Ids: \<open>IdGenerator\<close> and the session table (\<open>CServer.h\<close>, \<open>CServer.cpp\<close>); a locale states what a
  generator promises, the code's generator is its interpretation.

  Rooms, Rooms_Inv, Room_Handlers, Room_Props, Room_Join: the team lists, slots and hosts of rooms
  (\<open>CMainServer.h\<close>, \<open>handlers/Room\<close>) and the handlers that change them. The invariant \<open>room_ok\<close>
  says that players hold the slots \<open>0..n-1\<close>, observers a run from 16, the host slot 0, and that
  every member's account agrees with the room's lists.

  Items: inventory, equipment, health and upgrade chain helpers of \<open>CMainServer.h\<close>.

  Selection: weighted draws, boss rewards, random maps.

  Update_Data, Updates: changes of an account (\<open>CMainServer.h\<close>): a handler lists its changes,
  \<open>ValidateDatabaseUpdates\<close> collects and checks them, \<open>ApplyDatabaseUpdates\<close> brings what was
  committed to the cached account and the stores of mails and socials. Making items and levels.

  Ledger, Inventory: the balances of an account under interleaved changes, as a step relation of
  validation, commit and application whose invariant conserves every currency; the serial ids of
  the items that changes make.

  Database, Commit: the commit of a change (\<open>CMariaDatabase.cpp\<close>, \<open>UpdateAccount\<close> and every
  \<open>Persist\<close> function) on tables that are lists of rows or maps, as one transaction; and the proof
  that what it writes to the rows of items and accounts is what \<open>ApplyDatabaseUpdates\<close> does to the
  cached player.

  Postgres, Postgres_Props: the commit of the other driver (\<open>CPostgresDatabase.cpp\<close>) on its own
  tables, and the simulation of the first by the second on the changes both can store: every step
  keeps the tables the same. A commit the two disagree about is stated too.

  Server, Item_Handlers, Upgrades, Social_Handlers, Mail_Handlers, Trade_Handlers, Tasks: the packet
  handlers that change accounts (\<open>handlers/Items\<close>, \<open>handlers/Socials\<close>, \<open>handlers/Player/Mail\<close>,
  \<open>handlers/Player/Gift\<close>) and those below, each in two parts: what the handler checks and submits, and what its
  task on a database thread does (\<open>finish_...\<close>). A task runs alone, but any number of handlers and
  tasks may come between a handler and its task.

  Task_Props: over all tasks, a failed commit leaves no trace, and a successful one keeps the cached
  account in agreement with its rows. Trade_Registry, Trade_Props: \<open>CTradeRegistry\<close> and the
  exchange of items. Mail_Props, Social_Props: limits, fragments and the flaws of gifts and friends.

  Match_Rewards, Match_End, Match_Props: the end of a match (\<open>handlers/Room/Match/End.h\<close>): the
  report of the players' scores, leaders, experience and points, wear of items, level ups, titles,
  the history of the match and the one transaction that commits the changes of all players. Floating
  point numbers are rationals rounded to 24 or 53 bits after each operation; the hash of the match
  id is a parameter; rows that only go to the log tables are left out. Proved: a report pays every listed
  player once, rewards stay in bounds, wear, and agreement of all players with their rows.

  Votekick, Votekick_Props: votes to kick a player (\<open>handlers/Room/Moderation/Votekick\<close>): who is removed,
  and that the room stays well formed.

  Gachapon, Packages, Gamble_Props: capsule machines and opened packages (\<open>handlers/Items/Gamble\<close>).
  Proved: a series of spins is one spin after the other, every prize arrives, what is used is used up.

  Missions, BattlePass, Milestone_Props: guide and daily missions and the battle pass
  (\<open>handlers/Player/Milestones/Missions.h\<close>, \<open>handlers/Player/Core/BattlePass.h\<close> and its queries).
  Proved: the layout of the snapshot, the masks in the table, a committed claim is not given again.

  Cast_Data, Cast_Rooms, Cast_Combat, Cast_Match: the cast server (\<open>src/src/Cast\<close>). Its state is the
  record \<open>cast\<close>: the session table, the players, rooms, projectiles, plazas and keys of
  \<open>CCastServer.h\<close>, and what was sent. Cast_Rooms holds the messages of the main server
  (\<open>handlers/Core/Ipc\<close>), connections and plazas; Cast_Combat the attacks the host of a room decides
  (\<open>handlers/Gameplay/Host/Weapon\<close>) with the health the server keeps and the hits it reports;
  Cast_Match the other requests, movement, and the table of handlers (\<open>CCastServer.cpp\<close>). \<open>cast_run\<close>
  runs any list of inputs: connections, packets, messages of the main server, timers.

  Cast_Inv, Cast_Props: every handler that does not decide combat leaves it alone; the locale
  \<open>combat_relation\<close> carries a relation of states over a run when the seven steps of combat keep it, and
  is interpreted for the two properties proved with it: one kill is credited in a life at most, and
  what is reported is consistent. Only the host changes health.

  Batcher, Batch_Props: the movement batcher (\<open>MovementBatcher.h\<close>), a step relation of submissions and
  the halves of a flush. Proved: every entry taken is sent once in packets that fit, and the ticks of a
  room never go back.

  Cast_Mirror: the two servers composed. The main server's rooms are refined by those of the cast
  server: creating, joining, leaving, removing members and changing the host on the main server
  sends messages that keep the rooms, members and hosts of the cast server equal to its own.

  State. A handler of the main server takes the state record \<open>world\<close> (accounts by session id, rooms,
  plazas, parties, the room id generator) and returns it changed, with the packets it sends
  appended to \<open>outbox\<close>; a handler with a database task takes \<open>server\<close>, which adds the stores, the
  trades, the tables, the waiting tasks, the sessions that log in, the sales, the uptime and the numbers
  \<open>std::rand\<close> is going to yield. Handlers hold the locks of what they change, so one handler is one function.

  Parameters. Random numbers (\<open>rng\<close>), the element a hash set yields first (\<open>pick\<close>), the order in
  which a hash map is walked, the bytes of uninitialised members (\<open>junk\<close>) and clocks are arguments;
  the properties hold for all of them, or name what they assume (a random number lies between its
  bounds, \<open>pick\<close> yields a member).

  Termination. Loops are structural or have a measure; the framing loop, which the code does not
  bound, is a partial function and its properties say that it returns.

  Not modelled: sockets, strands, the scheduling of the thread pool, logging, the text of the SQL
  statements, the creation of the schema and the queries that load accounts in both database drivers,
  the vendored cryptography and containers, chat commands, parties, clans and plazas, the front server,
  and the parts of the handlers that only fill packets describing the state. The locking discipline is not modelled: every handler is atomic, also those of
  the cast server, which release one lock before they take the next. There a field behind the end of a
  packet reads as zeros, a request reads the clock once, and an exception of a handler is \<open>None\<close>.
  The rate limiter is modelled apart from the packets it guards.
\<close>

end
